(* ===== verification/Prelude.thy ===== *)
theory Prelude
  imports Main "HOL-Library.Word"
begin

text \<open>
  What every component of the development shares: names for the Go types, the result type of
  fallible code and its sequencing, checked slice access (a Go slice expression out of range
  panics, which is a value here), ASCII case folding, and the locales most components are
  proved against: a machine with an invariant, the same for runs whose events satisfy a condition,
  and a table of outstanding transactions.
\<close>

section \<open>Collections of rewrite rules\<close>

named_theorems result_simps \<open>sequencing of fallible steps\<close>
named_theorems wire_simps \<open>lengths and contents of wire data\<close>
named_theorems frame_simps \<open>fields an operation leaves alone\<close>

section \<open>Go's integers and strings\<close>

type_synonym byte = "8 word"
type_synonym u16 = "16 word"
type_synonym u32 = "32 word"
type_synonym u64 = "64 word"

text \<open>
  A Go string is an immutable byte sequence. A HOL \<open>char\<close> is one byte, so a Go string is a
  HOL \<open>string\<close>, and the conversions between \<open>string\<close> and \<open>[]byte\<close> are bijections.
\<close>

definition byte_of_char :: "char \<Rightarrow> byte" where
  "byte_of_char c = of_nat (of_char c)"

definition char_of_byte :: "byte \<Rightarrow> char" where
  "char_of_byte b = char_of (unat b)"

definition bytes_of_string :: "string \<Rightarrow> byte list" where
  "bytes_of_string s = map byte_of_char s"

definition string_of_bytes :: "byte list \<Rightarrow> string" where
  "string_of_bytes bs = map char_of_byte bs"

lemma char_of_byte_of_char [simp]: "char_of_byte (byte_of_char c) = c"
  by (simp add: char_of_byte_def byte_of_char_def unat_of_nat)

lemma byte_of_char_of_byte [simp]: "byte_of_char (char_of_byte b) = b"
proof -
  have "unat b < 2 ^ LENGTH(8)" by (rule unsigned_less)
  then have "unat b < 256" by simp
  then show ?thesis by (simp add: char_of_byte_def byte_of_char_def)
qed

lemma string_of_bytes_of_string [simp]: "string_of_bytes (bytes_of_string s) = s"
  by (simp add: string_of_bytes_def bytes_of_string_def comp_def)

lemma bytes_of_string_of_bytes [simp]: "bytes_of_string (string_of_bytes bs) = bs"
  by (simp add: string_of_bytes_def bytes_of_string_def comp_def)

lemma length_bytes_of_string [simp]: "length (bytes_of_string s) = length s"
  by (simp add: bytes_of_string_def)

lemma length_string_of_bytes [simp]: "length (string_of_bytes bs) = length bs"
  by (simp add: string_of_bytes_def)

lemma bytes_of_string_inject [simp]: "bytes_of_string s = bytes_of_string t \<longleftrightarrow> s = t"
  by (metis string_of_bytes_of_string)

lemma string_of_bytes_inject [simp]: "string_of_bytes a = string_of_bytes b \<longleftrightarrow> a = b"
  by (metis bytes_of_string_of_bytes)

section \<open>Fallible steps\<close>

definition bind_result :: "'e + 'a \<Rightarrow> ('a \<Rightarrow> 'e + 'b) \<Rightarrow> 'e + 'b" where
  "bind_result r f = (case r of Inl e \<Rightarrow> Inl e | Inr x \<Rightarrow> f x)"

lemma bind_result_simps [simp, result_simps]:
  "bind_result (Inl e) f = Inl e"
  "bind_result (Inr x) f = f x"
  by (simp_all add: bind_result_def)

lemma bind_result_eq_Inr [result_simps]:
  "bind_result r f = Inr y \<longleftrightarrow> (\<exists>x. r = Inr x \<and> f x = Inr y)"
  by (cases r) auto

lemma bind_result_eq_Inl [result_simps]:
  "bind_result r f = Inl e \<longleftrightarrow> r = Inl e \<or> (\<exists>x. r = Inr x \<and> f x = Inl e)"
  by (cases r) auto

lemma bind_result_cong [fundef_cong]:
  "r = r' \<Longrightarrow> (\<And>x. r' = Inr x \<Longrightarrow> f x = g x) \<Longrightarrow> bind_result r f = bind_result r' g"
  by (cases r') auto

section \<open>Overwriting a part of a buffer\<close>

text \<open>\<open>copy(buf[off:], xs)\<close>: as many elements as fit, the rest of the buffer unchanged.\<close>

definition copy_at :: "'a list \<Rightarrow> nat \<Rightarrow> 'a list \<Rightarrow> 'a list" where
  "copy_at buf off xs = take off buf @ take (length buf - off) xs @ drop (off + length xs) buf"

lemma length_copy_at [simp, wire_simps]: "off \<le> length buf \<Longrightarrow> length (copy_at buf off xs) = length buf"
  by (simp add: copy_at_def)

lemma copy_at_fits:
  "off + length xs \<le> length buf \<Longrightarrow> copy_at buf off xs = take off buf @ xs @ drop (off + length xs) buf"
  by (simp add: copy_at_def)

lemma copy_at_prefix:
  assumes "length pre = off" and "length xs \<le> length rest"
  shows "copy_at (pre @ rest) off xs = pre @ xs @ drop (length xs) rest"
  using assms by (simp add: copy_at_def)

section \<open>ASCII case folding\<close>

definition lower_char :: "char \<Rightarrow> char" where
  "lower_char c = (let n = (of_char c :: nat) in if 65 \<le> n \<and> n \<le> 90 then char_of (n + 32) else c)"

text \<open>
  \<open>strings.ToLower\<close> on ASCII text. On other text Go maps Unicode letters too; a Diameter
  identity is an FQDN in ASCII (RFC 6733 4.3.1).
\<close>

definition ToLower :: "string \<Rightarrow> string" where
  "ToLower s = map lower_char s"

lemma lower_char_idem [simp]: "lower_char (lower_char c) = lower_char c"
  by (simp add: lower_char_def Let_def)

lemma ToLower_idem [simp]: "ToLower (ToLower s) = ToLower s"
  by (simp add: ToLower_def comp_def)

lemma length_ToLower [simp]: "length (ToLower s) = length s"
  by (simp add: ToLower_def)

lemma ToLower_eq_Nil [simp]: "ToLower s = [] \<longleftrightarrow> s = []"
  by (simp add: ToLower_def)

section \<open>Formatted numbers\<close>

text \<open>\<open>%d\<close> of \<open>fmt.Sprintf\<close>, and \<open>hex.EncodeToString\<close>.\<close>

fun decimal_nat :: "nat \<Rightarrow> string" where
  "decimal_nat n = (if n < 10 then [char_of (48 + n)] else decimal_nat (n div 10) @ [char_of (48 + n mod 10)])"

definition decimal :: "int \<Rightarrow> string" where
  "decimal i = (if i < 0 then ''-'' @ decimal_nat (nat (- i)) else decimal_nat (nat i))"

definition hex_digit :: "nat \<Rightarrow> char" where
  "hex_digit n = char_of (if n < 10 then 48 + n else 87 + n)"

definition EncodeToString :: "byte list \<Rightarrow> string" where
  "EncodeToString bs = concat (map (\<lambda>b. [hex_digit (unat b div 16), hex_digit (unat b mod 16)]) bs)"

lemma of_char_hex_digit: "k < 16 \<Longrightarrow> (of_char (hex_digit k) :: nat) = (if k < 10 then 48 + k else 87 + k)"
  by (simp add: hex_digit_def)

lemma hex_digit_inject:
  assumes "m < 16" and "n < 16" and "hex_digit m = hex_digit n"
  shows "m = n"
proof -
  have "(if m < 10 then 48 + m else 87 + m) = (if n < 10 then 48 + n else 87 + n)"
    using assms of_char_hex_digit [of m] of_char_hex_digit [of n] by simp
  with assms(1,2) show ?thesis by (simp split: if_splits)
qed

lemma length_EncodeToString [simp]: "length (EncodeToString bs) = 2 * length bs"
  by (induction bs) (simp_all add: EncodeToString_def)

lemma EncodeToString_inject: "EncodeToString as = EncodeToString bs \<Longrightarrow> as = bs"
proof (induction as arbitrary: bs)
  case Nil
  then show ?case by (cases bs) (simp_all add: EncodeToString_def)
next
  case (Cons a as)
  then obtain b bs' where bs: "bs = b # bs'"
    by (cases bs) (simp_all add: EncodeToString_def)
  have eq: "hex_digit (unat a div 16) = hex_digit (unat b div 16)" "hex_digit (unat a mod 16) = hex_digit (unat b mod 16)"
    "EncodeToString as = EncodeToString bs'"
    using Cons.prems by (simp_all add: bs EncodeToString_def)
  have "unat x < 256" for x :: byte
    using unsigned_less [of x, where 'a = nat] by simp
  then have "unat x div 16 < 16" for x :: byte
    by (simp add: less_mult_imp_div_less)
  with eq(1,2) have "unat a div 16 = unat b div 16" "unat a mod 16 = unat b mod 16"
    by (auto intro: hex_digit_inject)
  then have "unat a = unat b" by (metis div_mult_mod_eq)
  with Cons.IH [OF eq(3)] show ?case by (simp add: bs word_unat_eq_iff)
qed

section \<open>Machines with an invariant\<close>

text \<open>
  A component with a step function over events. What every step keeps, every run keeps.
\<close>

locale machine =
  fixes step :: "'s \<Rightarrow> 'e \<Rightarrow> 's"
    and inv :: "'s \<Rightarrow> bool"
  assumes step_inv: "inv s \<Longrightarrow> inv (step s e)"
begin

lemma run_inv: "inv s \<Longrightarrow> inv (foldl step s es)"
  by (induction es arbitrary: s) (simp_all add: step_inv)

lemma run_prefix_inv: "inv s \<Longrightarrow> inv (foldl step s (take n es))"
  by (rule run_inv)

end

text \<open>The same for the runs whose events satisfy a condition of their own.\<close>

locale guarded_machine =
  fixes step :: "'s \<Rightarrow> 'e \<Rightarrow> 's"
    and ok :: "'e \<Rightarrow> bool"
    and inv :: "'s \<Rightarrow> bool"
  assumes step_inv: "ok e \<Longrightarrow> inv s \<Longrightarrow> inv (step s e)"
begin

lemma run_inv: "list_all ok es \<Longrightarrow> inv s \<Longrightarrow> inv (foldl step s es)"
  by (induction es arbitrary: s) (simp_all add: step_inv)

end

section \<open>Tables of outstanding transactions\<close>

text \<open>
  Both the peer (requests awaiting an answer) and the router (relayed requests) keep a table
  that is filled when a request leaves and emptied by the answer: a lookup that also deletes.
  The laws are those of the two Go maps; the client facts are the ones that make an answer
  reach its request at most once.
\<close>

locale txn_table =
  fixes store :: "'k \<Rightarrow> 'v \<Rightarrow> 't \<Rightarrow> 't"
    and consume :: "'k \<Rightarrow> 't \<Rightarrow> 'v option \<times> 't"
    and entry :: "'t \<Rightarrow> 'k \<Rightarrow> 'v option"
  assumes entry_store: "entry (store k v t) = (entry t)(k \<mapsto> v)"
    and consume_result: "fst (consume k t) = entry t k"
    and entry_consume: "entry (snd (consume k t)) = (entry t)(k := None)"
begin

lemma consume_stored: "fst (consume k (store k v t)) = Some v"
  by (simp add: consume_result entry_store)

lemma consume_once: "fst (consume k (snd (consume k t))) = None"
  by (simp add: consume_result entry_consume)

lemma consume_other: "k \<noteq> k' \<Longrightarrow> fst (consume k' (snd (consume k t))) = fst (consume k' t)"
  by (simp add: consume_result entry_consume)

lemma store_other: "k \<noteq> k' \<Longrightarrow> fst (consume k' (store k v t)) = fst (consume k' t)"
  by (simp add: consume_result entry_store)

lemma dom_consume_subset: "dom (entry (snd (consume k t))) = dom (entry t) - {k}"
  by (auto simp: entry_consume)

end

end
