(* ===== verification/Wire_Integers.thy ===== *)
theory Wire_Integers
  imports Prelude
begin

text \<open>
  The big-endian integers of the wire format: \<open>encoding/binary.BigEndian\<close> at 16, 32 and
  64 bits and the 24-bit lengths the code writes byte by byte. Each width is a codec in the sense
  of the locale \<open>fixed_codec\<close>, whose interpretations give the round trips.
  Reads are checked: where Go would panic on a short slice the result is \<open>Inl\<close>.
\<close>

unbundle bit_operations_syntax

section \<open>Checked slices\<close>

text \<open>
  The errors of the wire format, in the words of the code's \<open>fmt.Errorf\<close> calls. \<open>Panic\<close>
  is Go's run-time panic of an index or slice expression out of range.
\<close>

datatype wire_error =
    Panic
  | MessageTooShort nat
  | UnsupportedVersion byte
  | LengthShorterThanHeader nat
  | LengthExceedsData nat nat
  | AVPTooShort nat
  | VendorAVPTooShort nat
  | InvalidAVPLength nat nat
  | AVPDataExceedsBuffer nat nat
  | AVPPaddingExceedsBuffer nat nat
  | NonZeroPadding nat
  | AtOffset nat wire_error
  | DecodingAVPs wire_error
  | DecodingGrouped u32 wire_error
  | MessageTooLarge nat
  | BufferTooSmall nat nat
  | EncodingAVP u32 wire_error
  | DataTooShort nat
  | AddressTooShort nat
  | HeaderTooShort nat
  | ReadingHeader
  | ReadingBody
  | InvalidMessageLength nat

definition index :: "'a list \<Rightarrow> nat \<Rightarrow> wire_error + 'a" where
  "index xs i = (if i < length xs then Inr (xs ! i) else Inl Panic)"

text \<open>\<open>xs[lo:hi]\<close>, which panics unless \<open>lo <= hi <= len(xs)\<close>.\<close>

definition slice :: "'a list \<Rightarrow> nat \<Rightarrow> nat \<Rightarrow> wire_error + 'a list" where
  "slice xs lo hi = (if lo \<le> hi \<and> hi \<le> length xs then Inr (take (hi - lo) (drop lo xs)) else Inl Panic)"

lemma index_ok [simp, wire_simps]: "i < length xs \<Longrightarrow> index xs i = Inr (xs ! i)"
  by (simp add: index_def)

lemma slice_ok [simp, wire_simps]:
  "lo \<le> hi \<Longrightarrow> hi \<le> length xs \<Longrightarrow> slice xs lo hi = Inr (take (hi - lo) (drop lo xs))"
  by (simp add: slice_def)

section \<open>Big-endian integers\<close>

text \<open>Each width is two halves of the one below, most significant half first.\<close>

definition PutUint16 :: "u16 \<Rightarrow> byte list" where
  "PutUint16 w = [ucast (drop_bit 8 w), ucast w]"

definition PutUint32 :: "u32 \<Rightarrow> byte list" where
  "PutUint32 w = PutUint16 (ucast (drop_bit 16 w)) @ PutUint16 (ucast w)"

definition PutUint64 :: "u64 \<Rightarrow> byte list" where
  "PutUint64 w = PutUint32 (ucast (drop_bit 32 w)) @ PutUint32 (ucast w)"

fun Uint16 :: "byte list \<Rightarrow> wire_error + u16" where
  "Uint16 (a # b # _) = Inr (ucast b OR push_bit 8 (ucast a))"
| "Uint16 _ = Inl Panic"

definition Uint32 :: "byte list \<Rightarrow> wire_error + u32" where
  "Uint32 bs = bind_result (Uint16 bs) (\<lambda>hi. bind_result (Uint16 (drop 2 bs))
     (\<lambda>lo. Inr (ucast lo OR push_bit 16 (ucast hi))))"

definition Uint64 :: "byte list \<Rightarrow> wire_error + u64" where
  "Uint64 bs = bind_result (Uint32 bs) (\<lambda>hi. bind_result (Uint32 (drop 4 bs))
     (\<lambda>lo. Inr (ucast lo OR push_bit 32 (ucast hi))))"

lemma halves16:
  fixes w :: u16 and a b :: byte
  shows "ucast (ucast w :: byte) OR push_bit 8 (ucast (ucast (drop_bit 8 w) :: byte)) = w"
    and "ucast (drop_bit 8 (ucast b OR push_bit 8 (ucast a) :: u16)) = a"
    and "ucast (ucast b OR push_bit 8 (ucast a) :: u16) = b"
  by (rule bit_word_eqI, auto simp: bit_simps dest: bit_imp_le_length)+

lemma halves32:
  fixes w :: u32 and a b :: u16
  shows "ucast (ucast w :: u16) OR push_bit 16 (ucast (ucast (drop_bit 16 w) :: u16)) = w"
    and "ucast (drop_bit 16 (ucast b OR push_bit 16 (ucast a) :: u32)) = a"
    and "ucast (ucast b OR push_bit 16 (ucast a) :: u32) = b"
  by (rule bit_word_eqI, auto simp: bit_simps dest: bit_imp_le_length)+

lemma halves64:
  fixes w :: u64 and a b :: u32
  shows "ucast (ucast w :: u32) OR push_bit 32 (ucast (ucast (drop_bit 32 w) :: u32)) = w"
    and "ucast (drop_bit 32 (ucast b OR push_bit 32 (ucast a) :: u64)) = a"
    and "ucast (ucast b OR push_bit 32 (ucast a) :: u64) = b"
  by (rule bit_word_eqI, auto simp: bit_simps dest: bit_imp_le_length)+

section \<open>Fixed-width codecs\<close>

text \<open>
  What the readers and writers of typed AVP data need of an integer width: a value takes
  \<open>width\<close> bytes and is read back from any data that starts with them, and any data of at
  least that length can be read.
\<close>

locale fixed_codec =
  fixes put :: "'a \<Rightarrow> byte list"
    and get :: "byte list \<Rightarrow> wire_error + 'a"
    and width :: nat
  assumes length_put: "length (put x) = width"
    and get_put: "get (put x @ rest) = Inr x"
    and put_get: "length bs = width \<Longrightarrow> get bs = Inr x \<Longrightarrow> put x = bs"
    and get_total: "width \<le> length bs \<Longrightarrow> \<exists>x. get bs = Inr x"
    and get_take: "width \<le> length bs \<Longrightarrow> get (take width bs) = get bs"
begin

lemma get_put_exact: "get (put x) = Inr x"
  using get_put [of x "[]"] by simp

lemma put_inject: "put x = put y \<longleftrightarrow> x = y"
  by (metis get_put_exact sum.inject(2))

lemma put_get_take: "width \<le> length bs \<Longrightarrow> get bs = Inr x \<Longrightarrow> take width bs = put x"
  using put_get [of "take width bs" x] by (simp add: get_take)

lemma get_not_panic: "width \<le> length bs \<Longrightarrow> get bs \<noteq> Inl e"
  using get_total [of bs] by auto

end

lemma length_2_conv: "length bs = 2 \<longleftrightarrow> (\<exists>a b. bs = [a, b])"
  by (auto simp: eval_nat_numeral length_Suc_conv)

lemma ge_2_split: "2 \<le> length bs \<Longrightarrow> \<exists>a b rest. bs = a # b # rest"
  by (auto simp: eval_nat_numeral Suc_le_length_iff)

interpretation be16: fixed_codec PutUint16 Uint16 2
proof unfold_locales
  show "length (PutUint16 x) = 2" for x by (simp add: PutUint16_def)
  show "Uint16 (PutUint16 x @ rest) = Inr x" for x rest
    by (simp add: PutUint16_def halves16)
  show "PutUint16 x = bs" if "length bs = 2" "Uint16 bs = Inr x" for bs x
    using that by (auto simp: length_2_conv PutUint16_def halves16 simp del: drop_bit_or)
qed (auto dest: ge_2_split)

text \<open>A codec of twice the width, from the two halves.\<close>

lemma take_twice: "take n (drop n (take (n + n) bs)) = take n (drop n bs)"
  by (simp add: take_drop)

interpretation be32: fixed_codec PutUint32 Uint32 4
proof unfold_locales
  show "length (PutUint32 x) = 4" for x by (simp add: PutUint32_def be16.length_put)
  show "Uint32 (PutUint32 x @ rest) = Inr x" for x rest
    by (simp add: PutUint32_def Uint32_def be16.get_put be16.length_put halves32)
  show "PutUint32 x = bs" if len: "length bs = 4" and get: "Uint32 bs = Inr x" for bs x
  proof -
    from get obtain hi lo where hi: "Uint16 bs = Inr hi" and lo: "Uint16 (drop 2 bs) = Inr lo"
      and x: "x = ucast lo OR push_bit 16 (ucast hi)"
      by (auto simp: Uint32_def bind_result_eq_Inr)
    have "take 2 bs = PutUint16 hi" "drop 2 bs = PutUint16 lo"
      using be16.put_get_take [OF _ hi] be16.put_get [OF _ lo] len by simp_all
    then show ?thesis
      by (metis PutUint32_def append_take_drop_id halves32(2,3) x)
  qed
  show "\<exists>x. Uint32 bs = Inr x" if "4 \<le> length bs" for bs
  proof -
    from that have "2 \<le> length bs" "2 \<le> length (drop 2 bs)" by simp_all
    then obtain hi lo where "Uint16 bs = Inr hi" "Uint16 (drop 2 bs) = Inr lo"
      using be16.get_total by blast
    then show ?thesis by (simp add: Uint32_def)
  qed
  show "Uint32 (take 4 bs) = Uint32 bs" if "4 \<le> length bs" for bs
    using that be16.get_take [of "take 4 bs"] be16.get_take [of bs]
      be16.get_take [of "drop 2 bs"] take_twice [of 2 bs]
    by (simp add: Uint32_def take_drop)
qed

interpretation be64: fixed_codec PutUint64 Uint64 8
proof unfold_locales
  show "length (PutUint64 x) = 8" for x by (simp add: PutUint64_def be32.length_put)
  show "Uint64 (PutUint64 x @ rest) = Inr x" for x rest
    by (simp add: PutUint64_def Uint64_def be32.get_put be32.length_put halves64)
  show "PutUint64 x = bs" if len: "length bs = 8" and get: "Uint64 bs = Inr x" for bs x
  proof -
    from get obtain hi lo where hi: "Uint32 bs = Inr hi" and lo: "Uint32 (drop 4 bs) = Inr lo"
      and x: "x = ucast lo OR push_bit 32 (ucast hi)"
      by (auto simp: Uint64_def bind_result_eq_Inr)
    have "take 4 bs = PutUint32 hi" "drop 4 bs = PutUint32 lo"
      using be32.put_get_take [OF _ hi] be32.put_get [OF _ lo] len by simp_all
    then show ?thesis
      by (metis PutUint64_def append_take_drop_id halves64(2,3) x)
  qed
  show "\<exists>x. Uint64 bs = Inr x" if "8 \<le> length bs" for bs
  proof -
    from that have "4 \<le> length bs" "4 \<le> length (drop 4 bs)" by simp_all
    then obtain hi lo where "Uint32 bs = Inr hi" "Uint32 (drop 4 bs) = Inr lo"
      using be32.get_total by blast
    then show ?thesis by (simp add: Uint64_def)
  qed
  show "Uint64 (take 8 bs) = Uint64 bs" if "8 \<le> length bs" for bs
    using that be32.get_take [of "take 8 bs"] be32.get_take [of bs]
      be32.get_take [of "drop 4 bs"] take_twice [of 4 bs]
    by (simp add: Uint64_def take_drop)
qed

lemmas codec_simps [simp, wire_simps] =
  be16.length_put be32.length_put be64.length_put
  be16.get_put be32.get_put be64.get_put
  be16.get_put_exact be32.get_put_exact be64.get_put_exact

section \<open>24-bit lengths\<close>

text \<open>
  The message and AVP lengths are written byte by byte as \<open>byte((n >> 16) & 0xFF)\<close> and so
  on, and read as \<open>int(b1)<<16 | int(b2)<<8 | int(b3)\<close>, in Go's 64-bit \<open>int\<close>.
\<close>

definition put24 :: "u64 \<Rightarrow> byte list" where
  "put24 n = [ucast (drop_bit 16 n AND 0xFF), ucast (drop_bit 8 n AND 0xFF), ucast (n AND 0xFF)]"

definition get24 :: "byte \<Rightarrow> byte \<Rightarrow> byte \<Rightarrow> u64" where
  "get24 a b c = push_bit 16 (ucast a) OR push_bit 8 (ucast b) OR ucast c"

lemma mask8: "(0xFF :: 'a::len word) = mask 8"
  by (simp add: mask_eq_exp_minus_1)

lemma length_put24 [simp, wire_simps]: "length (put24 n) = 3"
  by (simp add: put24_def)

lemma get24_put24: "get24 (put24 n ! 0) (put24 n ! 1) (put24 n ! 2) = take_bit 24 n"
proof (rule bit_word_eqI)
  fix k :: nat
  consider "k < 8" | "8 \<le> k" "k < 16" | "16 \<le> k" "k < 24" | "24 \<le> k" by linarith
  then show "bit (get24 (put24 n ! 0) (put24 n ! 1) (put24 n ! 2)) k = bit (take_bit 24 n) k"
    unfolding get24_def put24_def mask8 by cases (auto simp: bit_simps)
qed

lemma put24_get24: "put24 (get24 a b c) = [a, b, c]"
proof -
  have "ucast (drop_bit 16 (get24 a b c) AND 0xFF) = a"
    "ucast (drop_bit 8 (get24 a b c) AND 0xFF) = b" "ucast (get24 a b c AND 0xFF) = c"
    unfolding get24_def mask8
    by (rule bit_word_eqI, auto simp: bit_simps dest: bit_imp_le_length)+
  then show ?thesis by (simp add: put24_def)
qed

lemma get24_bound: "unat (get24 a b c) < 2 ^ 24"
proof -
  have "get24 a b c = take_bit 24 (get24 a b c)"
    unfolding get24_def by (rule bit_word_eqI) (auto simp: bit_simps dest: bit_imp_le_length)
  then have "unat (get24 a b c) = take_bit 24 (unat (get24 a b c))"
    by (metis unsigned_take_bit_eq)
  then show ?thesis
    by (metis take_bit_nat_less_exp)
qed

lemma unat_take_bit24:
  assumes "n < 2 ^ 24" shows "unat (take_bit 24 (of_nat n :: u64)) = n"
proof -
  have "unat (take_bit 24 (of_nat n :: u64)) = take_bit 24 (unat (of_nat n :: u64))"
    by (rule unsigned_take_bit_eq)
  also have "unat (of_nat n :: u64) = n"
    using assms by (simp add: unat_of_nat)
  finally show ?thesis
    using assms by (simp only: take_bit_nat_eq_self)
qed

text \<open>Three index expressions in a row: a panic when the data is too short.\<close>

fun Uint24 :: "byte list \<Rightarrow> wire_error + nat" where
  "Uint24 (a # b # c # _) = Inr (unat (get24 a b c))"
| "Uint24 _ = Inl Panic"

lemma Uint24_put24 [simp]: "Uint24 (put24 w @ rest) = Inr (unat (take_bit 24 w))"
  using get24_put24 [of w] by (simp add: put24_def)

lemma Uint24_inverse:
  assumes "Uint24 bs = Inr n"
  shows "put24 (of_nat n) = take 3 bs \<and> n < 2 ^ 24"
proof -
  obtain a b c r where bs: "bs = a # b # c # r" and n: "n = unat (get24 a b c)"
    using assms by (cases bs rule: Uint24.cases) simp_all
  have "put24 (of_nat n) = [a, b, c]"
    by (simp add: n put24_get24)
  then show ?thesis
    using get24_bound [of a b c] by (simp add: bs n)
qed

lemma Uint24_total: "3 \<le> length bs \<Longrightarrow> \<exists>n. Uint24 bs = Inr n"
  by (auto simp: eval_nat_numeral Suc_le_length_iff)

lemma unat_take_bit24_word:
  fixes w :: u32 assumes "unat w < 2 ^ 24"
  shows "unat (take_bit 24 (ucast w :: u64)) = unat w"
proof -
  have "(ucast w :: u64) = of_nat (unat w)" by simp
  then show ?thesis using assms by (simp only: unat_take_bit24)
qed

end
