(* ===== verification/Diam_Types.thy ===== *)
theory Diam_Types
  imports Wire_Integers
begin

text \<open>
  Package \<open>pkg/proto/types\<close>: the protocol's identifier types and constants, the AVP data
  types with their names, the \<open>Address\<close> value and its wire form, and Diameter time.
  Constants are \<open>[simp]\<close>, so proofs see the numbers.
\<close>

section \<open>Identifier types\<close>

type_synonym DiamID = string
type_synonym AVPCode = u32
type_synonym VendorID = u32
type_synonym ApplicationID = u32
type_synonym CommandCode = u32
type_synonym ResultCode = u32
type_synonym HopByHopID = u32
type_synonym EndToEndID = u32
type_synonym SessionID = string

section \<open>Constants\<close>

subsection \<open>Vendor and application identifiers (types.go)\<close>

definition VendorIDIETF :: VendorID where [simp]: "VendorIDIETF = 0"
definition VendorID3GPP :: VendorID where [simp]: "VendorID3GPP = 10415"
definition VendorIDETSI :: VendorID where [simp]: "VendorIDETSI = 13019"
definition VendorIDVodafone :: VendorID where [simp]: "VendorIDVodafone = 12645"
definition AppIDCommon :: ApplicationID where [simp]: "AppIDCommon = 0"
definition AppIDNASREQ :: ApplicationID where [simp]: "AppIDNASREQ = 1"
definition AppIDMobileIPv4 :: ApplicationID where [simp]: "AppIDMobileIPv4 = 2"
definition AppIDBaseAccounting :: ApplicationID where [simp]: "AppIDBaseAccounting = 3"
definition AppIDCreditControl :: ApplicationID where [simp]: "AppIDCreditControl = 4"
definition AppIDEAP :: ApplicationID where [simp]: "AppIDEAP = 5"
definition AppIDSIP :: ApplicationID where [simp]: "AppIDSIP = 6"
definition AppIDMobileIPv6I :: ApplicationID where [simp]: "AppIDMobileIPv6I = 7"
definition AppIDMobileIPv6A :: ApplicationID where [simp]: "AppIDMobileIPv6A = 8"
definition AppIDQoS :: ApplicationID where [simp]: "AppIDQoS = 9"
definition AppIDRelay :: ApplicationID where [simp]: "AppIDRelay = 0xffffffff"
definition AppID3GPPCx :: ApplicationID where [simp]: "AppID3GPPCx = 16777216"
definition AppID3GPPSh :: ApplicationID where [simp]: "AppID3GPPSh = 16777217"
definition AppID3GPPRx :: ApplicationID where [simp]: "AppID3GPPRx = 16777236"
definition AppID3GPPGx :: ApplicationID where [simp]: "AppID3GPPGx = 16777238"
definition AppID3GPPS6a :: ApplicationID where [simp]: "AppID3GPPS6a = 16777251"
definition AppID3GPPSWx :: ApplicationID where [simp]: "AppID3GPPSWx = 16777265"
definition AppID3GPPS6b :: ApplicationID where [simp]: "AppID3GPPS6b = 16777272"

subsection \<open>AVP and command flags (types.go)\<close>

definition AVPFlagVendor :: byte where [simp]: "AVPFlagVendor = 0x80"
definition AVPFlagMandatory :: byte where [simp]: "AVPFlagMandatory = 0x40"
definition AVPFlagProtected :: byte where [simp]: "AVPFlagProtected = 0x20"
definition CmdFlagRequest :: byte where [simp]: "CmdFlagRequest = 0x80"
definition CmdFlagProxiable :: byte where [simp]: "CmdFlagProxiable = 0x40"
definition CmdFlagError :: byte where [simp]: "CmdFlagError = 0x20"
definition CmdFlagRetransmit :: byte where [simp]: "CmdFlagRetransmit = 0x10"

subsection \<open>Header sizes (types.go)\<close>

definition DiameterVersion :: byte where [simp]: "DiameterVersion = 1"
definition DiameterHeaderSize :: nat where [simp]: "DiameterHeaderSize = 20"
definition AVPHeaderSize :: nat where [simp]: "AVPHeaderSize = 8"
definition AVPHeaderSizeVendor :: nat where [simp]: "AVPHeaderSizeVendor = 12"

subsection \<open>Result codes (types.go)\<close>

definition ResultMultiRoundAuth :: ResultCode where [simp]: "ResultMultiRoundAuth = 1001"
definition ResultSuccess :: ResultCode where [simp]: "ResultSuccess = 2001"
definition ResultLimitedSuccess :: ResultCode where [simp]: "ResultLimitedSuccess = 2002"
definition ResultCommandUnsupported :: ResultCode where [simp]: "ResultCommandUnsupported = 3001"
definition ResultUnableToDeliver :: ResultCode where [simp]: "ResultUnableToDeliver = 3002"
definition ResultRealmNotServed :: ResultCode where [simp]: "ResultRealmNotServed = 3003"
definition ResultTooBusy :: ResultCode where [simp]: "ResultTooBusy = 3004"
definition ResultLoopDetected :: ResultCode where [simp]: "ResultLoopDetected = 3005"
definition ResultRedirectIndication :: ResultCode where [simp]: "ResultRedirectIndication = 3006"
definition ResultApplicationUnsupported :: ResultCode where [simp]: "ResultApplicationUnsupported = 3007"
definition ResultInvalidHDRBits :: ResultCode where [simp]: "ResultInvalidHDRBits = 3008"
definition ResultInvalidAVPBits :: ResultCode where [simp]: "ResultInvalidAVPBits = 3009"
definition ResultUnknownPeer :: ResultCode where [simp]: "ResultUnknownPeer = 3010"
definition ResultAuthenticationRejected :: ResultCode where [simp]: "ResultAuthenticationRejected = 4001"
definition ResultOutOfSpace :: ResultCode where [simp]: "ResultOutOfSpace = 4002"
definition ResultElectionLost :: ResultCode where [simp]: "ResultElectionLost = 4003"
definition ResultAVPUnsupported :: ResultCode where [simp]: "ResultAVPUnsupported = 5001"
definition ResultUnknownSessionID :: ResultCode where [simp]: "ResultUnknownSessionID = 5002"
definition ResultAuthorizationRejected :: ResultCode where [simp]: "ResultAuthorizationRejected = 5003"
definition ResultInvalidAVPValue :: ResultCode where [simp]: "ResultInvalidAVPValue = 5004"
definition ResultMissingAVP :: ResultCode where [simp]: "ResultMissingAVP = 5005"
definition ResultResourcesExceeded :: ResultCode where [simp]: "ResultResourcesExceeded = 5006"
definition ResultContradictingAVPs :: ResultCode where [simp]: "ResultContradictingAVPs = 5007"
definition ResultAVPNotAllowed :: ResultCode where [simp]: "ResultAVPNotAllowed = 5008"
definition ResultAVPOccursTooManyTimes :: ResultCode where [simp]: "ResultAVPOccursTooManyTimes = 5009"
definition ResultNoCommonApplication :: ResultCode where [simp]: "ResultNoCommonApplication = 5010"
definition ResultUnsupportedVersion :: ResultCode where [simp]: "ResultUnsupportedVersion = 5011"
definition ResultUnableToComply :: ResultCode where [simp]: "ResultUnableToComply = 5012"
definition ResultInvalidBitInHeader :: ResultCode where [simp]: "ResultInvalidBitInHeader = 5013"
definition ResultInvalidAVPLength :: ResultCode where [simp]: "ResultInvalidAVPLength = 5014"
definition ResultInvalidMessageLength :: ResultCode where [simp]: "ResultInvalidMessageLength = 5015"
definition ResultInvalidAVPBitCombo :: ResultCode where [simp]: "ResultInvalidAVPBitCombo = 5016"
definition ResultUnknownUser :: ResultCode where [simp]: "ResultUnknownUser = 5001"

subsection \<open>Address families (types.go)\<close>

definition AddressTypeIPv4 :: u16 where [simp]: "AddressTypeIPv4 = 1"
definition AddressTypeIPv6 :: u16 where [simp]: "AddressTypeIPv6 = 2"

subsection \<open>Disconnect causes, session states and record types (types.go)\<close>

definition DisconnectRebooting :: u32 where [simp]: "DisconnectRebooting = 0"
definition DisconnectBusy :: u32 where [simp]: "DisconnectBusy = 1"
definition DisconnectDoNotWantToTalk :: u32 where [simp]: "DisconnectDoNotWantToTalk = 2"
definition AuthStateIdle :: u32 where [simp]: "AuthStateIdle = 0"
definition AuthStatePendingInitial :: u32 where [simp]: "AuthStatePendingInitial = 1"
definition AuthStatePendingUpdates :: u32 where [simp]: "AuthStatePendingUpdates = 2"
definition AuthStateIdleDisconnect :: u32 where [simp]: "AuthStateIdleDisconnect = 3"
definition AuthStateNoStateMaintained :: u32 where [simp]: "AuthStateNoStateMaintained = 1"
definition ReAuthAuthorizeOnly :: u32 where [simp]: "ReAuthAuthorizeOnly = 0"
definition ReAuthAuthorizeAuthenticate :: u32 where [simp]: "ReAuthAuthorizeAuthenticate = 1"
definition TerminationLogout :: u32 where [simp]: "TerminationLogout = 1"
definition TerminationServiceNotProvided :: u32 where [simp]: "TerminationServiceNotProvided = 2"
definition TerminationBadAnswer :: u32 where [simp]: "TerminationBadAnswer = 3"
definition TerminationAdministrative :: u32 where [simp]: "TerminationAdministrative = 4"
definition TerminationLinkBroken :: u32 where [simp]: "TerminationLinkBroken = 5"
definition TerminationAuthExpired :: u32 where [simp]: "TerminationAuthExpired = 6"
definition TerminationSessionTimeout :: u32 where [simp]: "TerminationSessionTimeout = 8"
definition TerminationUserRequest :: u32 where [simp]: "TerminationUserRequest = 7"
definition AccountingEventRecord :: u32 where [simp]: "AccountingEventRecord = 1"
definition AccountingStartRecord :: u32 where [simp]: "AccountingStartRecord = 2"
definition AccountingInterimRecord :: u32 where [simp]: "AccountingInterimRecord = 3"
definition AccountingStopRecord :: u32 where [simp]: "AccountingStopRecord = 4"

subsection \<open>Base protocol AVP codes (avp_codes.go)\<close>

definition AVPCodeSessionID :: AVPCode where [simp]: "AVPCodeSessionID = 263"
definition AVPCodeOriginHost :: AVPCode where [simp]: "AVPCodeOriginHost = 264"
definition AVPCodeOriginRealm :: AVPCode where [simp]: "AVPCodeOriginRealm = 296"
definition AVPCodeDestinationHost :: AVPCode where [simp]: "AVPCodeDestinationHost = 293"
definition AVPCodeDestinationRealm :: AVPCode where [simp]: "AVPCodeDestinationRealm = 283"
definition AVPCodeAuthApplicationID :: AVPCode where [simp]: "AVPCodeAuthApplicationID = 258"
definition AVPCodeAcctApplicationID :: AVPCode where [simp]: "AVPCodeAcctApplicationID = 259"
definition AVPCodeVendorSpecificAppID :: AVPCode where [simp]: "AVPCodeVendorSpecificAppID = 260"
definition AVPCodeRedirectHostUsage :: AVPCode where [simp]: "AVPCodeRedirectHostUsage = 261"
definition AVPCodeRedirectMaxCacheTime :: AVPCode where [simp]: "AVPCodeRedirectMaxCacheTime = 262"
definition AVPCodeResultCode :: AVPCode where [simp]: "AVPCodeResultCode = 268"
definition AVPCodeExperimentalResult :: AVPCode where [simp]: "AVPCodeExperimentalResult = 297"
definition AVPCodeExperimentalResultCode :: AVPCode where [simp]: "AVPCodeExperimentalResultCode = 298"
definition AVPCodeErrorMessage :: AVPCode where [simp]: "AVPCodeErrorMessage = 281"
definition AVPCodeErrorReportingHost :: AVPCode where [simp]: "AVPCodeErrorReportingHost = 294"
definition AVPCodeFailedAVP :: AVPCode where [simp]: "AVPCodeFailedAVP = 279"
definition AVPCodeHostIPAddress :: AVPCode where [simp]: "AVPCodeHostIPAddress = 257"
definition AVPCodeVendorID :: AVPCode where [simp]: "AVPCodeVendorID = 266"
definition AVPCodeProductName :: AVPCode where [simp]: "AVPCodeProductName = 269"
definition AVPCodeOriginStateID :: AVPCode where [simp]: "AVPCodeOriginStateID = 278"
definition AVPCodeSupportedVendorID :: AVPCode where [simp]: "AVPCodeSupportedVendorID = 265"
definition AVPCodeFirmwareRevision :: AVPCode where [simp]: "AVPCodeFirmwareRevision = 267"
definition AVPCodeInbandSecurityID :: AVPCode where [simp]: "AVPCodeInbandSecurityID = 299"
definition AVPCodeRouteRecord :: AVPCode where [simp]: "AVPCodeRouteRecord = 282"
definition AVPCodeProxyInfo :: AVPCode where [simp]: "AVPCodeProxyInfo = 284"
definition AVPCodeProxyHost :: AVPCode where [simp]: "AVPCodeProxyHost = 280"
definition AVPCodeProxyState :: AVPCode where [simp]: "AVPCodeProxyState = 33"
definition AVPCodeRedirectHost :: AVPCode where [simp]: "AVPCodeRedirectHost = 292"
definition AVPCodeUserName :: AVPCode where [simp]: "AVPCodeUserName = 1"
definition AVPCodeAuthRequestType :: AVPCode where [simp]: "AVPCodeAuthRequestType = 274"
definition AVPCodeAuthGracePeriod :: AVPCode where [simp]: "AVPCodeAuthGracePeriod = 276"
definition AVPCodeAuthSessionState :: AVPCode where [simp]: "AVPCodeAuthSessionState = 277"
definition AVPCodeReAuthRequestType :: AVPCode where [simp]: "AVPCodeReAuthRequestType = 285"
definition AVPCodeClass :: AVPCode where [simp]: "AVPCodeClass = 25"
definition AVPCodeAuthorizationLifetime :: AVPCode where [simp]: "AVPCodeAuthorizationLifetime = 291"
definition AVPCodeSessionTimeout :: AVPCode where [simp]: "AVPCodeSessionTimeout = 27"
definition AVPCodeAccountingRecordType :: AVPCode where [simp]: "AVPCodeAccountingRecordType = 480"
definition AVPCodeAccountingRecordNumber :: AVPCode where [simp]: "AVPCodeAccountingRecordNumber = 485"
definition AVPCodeAccountingSubSessionID :: AVPCode where [simp]: "AVPCodeAccountingSubSessionID = 287"
definition AVPCodeAccountingSessionID :: AVPCode where [simp]: "AVPCodeAccountingSessionID = 44"
definition AVPCodeAcctMultiSessionID :: AVPCode where [simp]: "AVPCodeAcctMultiSessionID = 50"
definition AVPCodeAcctInterimInterval :: AVPCode where [simp]: "AVPCodeAcctInterimInterval = 85"
definition AVPCodeAccountingRealtimeRequired :: AVPCode where [simp]: "AVPCodeAccountingRealtimeRequired = 483"
definition AVPCodeEventTimestamp :: AVPCode where [simp]: "AVPCodeEventTimestamp = 55"
definition AVPCodeDisconnectCause :: AVPCode where [simp]: "AVPCodeDisconnectCause = 273"
definition AVPCodeTerminationCause :: AVPCode where [simp]: "AVPCodeTerminationCause = 295"
definition AVPCodeMultiRoundTimeOut :: AVPCode where [simp]: "AVPCodeMultiRoundTimeOut = 272"

subsection \<open>Base protocol command codes (avp_codes.go)\<close>

definition CmdCodeCapabilitiesExchange :: CommandCode where [simp]: "CmdCodeCapabilitiesExchange = 257"
definition CmdCodeReAuth :: CommandCode where [simp]: "CmdCodeReAuth = 258"
definition CmdCodeAccounting :: CommandCode where [simp]: "CmdCodeAccounting = 271"
definition CmdCodeAbortSession :: CommandCode where [simp]: "CmdCodeAbortSession = 274"
definition CmdCodeSessionTermination :: CommandCode where [simp]: "CmdCodeSessionTermination = 275"
definition CmdCodeDeviceWatchdog :: CommandCode where [simp]: "CmdCodeDeviceWatchdog = 280"
definition CmdCodeDisconnectPeer :: CommandCode where [simp]: "CmdCodeDisconnectPeer = 282"

subsection \<open>Credit control codes the routing extensions read (avp_codes.go)\<close>

definition AVPCodeSubscriptionID :: AVPCode where [simp]: "AVPCodeSubscriptionID = 443"
definition AVPCodeSubscriptionIDData :: AVPCode where [simp]: "AVPCodeSubscriptionIDData = 444"
definition AVPCodeSubscriptionIDType :: AVPCode where [simp]: "AVPCodeSubscriptionIDType = 450"
definition CmdCodeCreditControl :: CommandCode where [simp]: "CmdCodeCreditControl = 272"

section \<open>AVP data types\<close>

datatype AVPType =
    AVPTypeOctetString
  | AVPTypeInteger32
  | AVPTypeInteger64
  | AVPTypeUnsigned32
  | AVPTypeUnsigned64
  | AVPTypeFloat32
  | AVPTypeFloat64
  | AVPTypeAddress
  | AVPTypeTime
  | AVPTypeUTF8String
  | AVPTypeDiameterIdentity
  | AVPTypeDiameterURI
  | AVPTypeEnumerated
  | AVPTypeIPFilterRule
  | AVPTypeGrouped

fun AVPType_String :: "AVPType \<Rightarrow> string" where
  "AVPType_String AVPTypeOctetString = ''OctetString''"
| "AVPType_String AVPTypeInteger32 = ''Integer32''"
| "AVPType_String AVPTypeInteger64 = ''Integer64''"
| "AVPType_String AVPTypeUnsigned32 = ''Unsigned32''"
| "AVPType_String AVPTypeUnsigned64 = ''Unsigned64''"
| "AVPType_String AVPTypeFloat32 = ''Float32''"
| "AVPType_String AVPTypeFloat64 = ''Float64''"
| "AVPType_String AVPTypeAddress = ''Address''"
| "AVPType_String AVPTypeTime = ''Time''"
| "AVPType_String AVPTypeUTF8String = ''UTF8String''"
| "AVPType_String AVPTypeDiameterIdentity = ''DiameterIdentity''"
| "AVPType_String AVPTypeDiameterURI = ''DiameterURI''"
| "AVPType_String AVPTypeEnumerated = ''Enumerated''"
| "AVPType_String AVPTypeIPFilterRule = ''IPFilterRule''"
| "AVPType_String AVPTypeGrouped = ''Grouped''"

lemma AVPType_String_inject: "AVPType_String s = AVPType_String t \<longleftrightarrow> s = t"
  by (cases s; cases t) simp_all

section \<open>Addresses\<close>

record Address =
  AddrType :: u16
  AddrData :: "byte list"

text \<open>
  \<open>net.IP\<close> is a byte slice. \<open>To4\<close> returns four bytes for an IPv4 address in either
  form, \<open>To16\<close> the sixteen-byte form; both return nil (here the empty slice) otherwise.
\<close>

definition v4InV6Prefix :: "byte list" where
  "v4InV6Prefix = replicate 10 0 @ [0xFF, 0xFF]"

definition To4 :: "byte list \<Rightarrow> byte list option" where
  "To4 ip = (if length ip = 4 then Some ip
     else if length ip = 16 \<and> take 12 ip = v4InV6Prefix then Some (drop 12 ip) else None)"

definition To16 :: "byte list \<Rightarrow> byte list" where
  "To16 ip = (if length ip = 4 then v4InV6Prefix @ ip else if length ip = 16 then ip else [])"

definition NewAddressFromIP :: "byte list \<Rightarrow> Address" where
  "NewAddressFromIP ip = (case To4 ip of
     Some ip4 \<Rightarrow> \<lparr>AddrType = AddressTypeIPv4, AddrData = ip4\<rparr>
   | None \<Rightarrow> \<lparr>AddrType = AddressTypeIPv6, AddrData = To16 ip\<rparr>)"

definition Address_ToIP :: "Address \<Rightarrow> byte list" where
  "Address_ToIP a = AddrData a"

definition Address_Encode :: "Address \<Rightarrow> byte list" where
  "Address_Encode a = (let buf = replicate (2 + length (AddrData a)) 0;
     buf1 = copy_at buf 0 (PutUint16 (AddrType a)) in copy_at buf1 2 (AddrData a))"

definition DecodeAddress :: "byte list \<Rightarrow> wire_error + Address" where
  "DecodeAddress data = (if length data < 2 then Inl (AddressTooShort (length data))
     else bind_result (slice data 0 2) (\<lambda>s. bind_result (Uint16 s) (\<lambda>t.
       Inr \<lparr>AddrType = t, AddrData = drop 2 data\<rparr>)))"

lemma Address_Encode_eq: "Address_Encode a = PutUint16 (AddrType a) @ AddrData a"
  by (simp add: Address_Encode_def copy_at_def)

lemma DecodeAddress_Encode: "DecodeAddress (Address_Encode a) = Inr a"
  by (simp add: Address_Encode_eq DecodeAddress_def)

lemma DecodeAddress_inverse: "DecodeAddress data = Inr a \<Longrightarrow> Address_Encode a = data"
  using be16.put_get [of "take 2 data"]
  by (auto simp: DecodeAddress_def Address_Encode_eq bind_result_eq_Inr split: if_splits)

lemma NewAddressFromIP_ToIP4:
  "length ip = 4 \<Longrightarrow> NewAddressFromIP ip = \<lparr>AddrType = 1, AddrData = ip\<rparr>"
  by (simp add: NewAddressFromIP_def To4_def)

lemma NewAddressFromIP_length:
  "length ip = 4 \<or> length ip = 16 \<Longrightarrow>
   length (AddrData (NewAddressFromIP ip)) = (if AddrType (NewAddressFromIP ip) = 1 then 4 else 16)"
  by (auto simp: NewAddressFromIP_def To4_def To16_def)

section \<open>Diameter time\<close>

text \<open>
  Diameter time is an unsigned 32-bit count of seconds since 1900. A \<open>time.Time\<close> is its
  Unix second count, an \<open>int64\<close>; the conversion to \<open>uint32\<close> keeps the low 32 bits.
\<close>

definition ntpEpochOffset :: int where
  "ntpEpochOffset = 2208988800"

definition NewDiameterTime :: "int \<Rightarrow> u32" where
  "NewDiameterTime unix = word_of_int (unix + ntpEpochOffset)"

definition DiameterTime_ToTime :: "u32 \<Rightarrow> int" where
  "DiameterTime_ToTime dt = uint dt - ntpEpochOffset"

lemma ToTime_NewDiameterTime:
  "DiameterTime_ToTime (NewDiameterTime t) = (t + 2208988800) mod 2 ^ 32 - 2208988800"
proof -
  have "uint (word_of_int (t + 2208988800) :: u32) = (t + 2208988800) mod 2 ^ LENGTH(32)"
    by (rule uint_word_of_int)
  then show ?thesis
    by (simp add: DiameterTime_ToTime_def NewDiameterTime_def ntpEpochOffset_def del: of_int_add)
qed

lemma NewDiameterTime_ToTime: "NewDiameterTime (DiameterTime_ToTime dt) = dt"
  by (simp add: DiameterTime_ToTime_def NewDiameterTime_def)

end
