(* ===== verification/Diam_Message.thy ===== *)
theory Diam_Message
  imports Diam_Types
begin

text \<open>
  Package \<open>pkg/proto/message\<close>, file \<open>message.go\<close>: AVPs, messages, their
  constructors, typed data, flags and lookups. An \<open>*AVP\<close> is modelled by its value: the code
  keeps each AVP object in one place of one message, so a write through the pointer returned by
  \<open>FindAVP\<close> is an update of that place (\<open>update_first\<close>).
\<close>

section \<open>Data\<close>

datatype avp = AVP (aCode: AVPCode) (aFlags: byte) (aVendorID: VendorID) (aData: "byte list")
  (aChildren: "avp list")

record message =
  Version :: byte
  Flags :: byte
  mCommandCode :: CommandCode
  mApplicationID :: ApplicationID
  mHopByHopID :: HopByHopID
  mEndToEndID :: EndToEndID
  AVPs :: "avp list"

section \<open>AVP constructors\<close>

definition NewAVP :: "AVPCode \<Rightarrow> byte \<Rightarrow> VendorID \<Rightarrow> byte list \<Rightarrow> avp" where
  "NewAVP code flags vendorID data = AVP code flags vendorID data []"

definition NewGroupedAVP :: "AVPCode \<Rightarrow> byte \<Rightarrow> VendorID \<Rightarrow> avp list \<Rightarrow> avp" where
  "NewGroupedAVP code flags vendorID cs = AVP code flags vendorID [] cs"

definition NewOctetStringAVP :: "AVPCode \<Rightarrow> byte \<Rightarrow> byte list \<Rightarrow> avp" where
  "NewOctetStringAVP code flags data = NewAVP code flags 0 data"

definition NewUTF8StringAVP :: "AVPCode \<Rightarrow> byte \<Rightarrow> string \<Rightarrow> avp" where
  "NewUTF8StringAVP code flags v = NewAVP code flags 0 (bytes_of_string v)"

text \<open>An \<open>int32\<close> and its conversion to \<open>uint32\<close> have the same 32 bits; \<open>sint\<close> reads the sign.\<close>

definition NewInteger32AVP :: "AVPCode \<Rightarrow> byte \<Rightarrow> 32 word \<Rightarrow> avp" where
  "NewInteger32AVP code flags v = NewAVP code flags 0 (PutUint32 v)"

definition NewInteger64AVP :: "AVPCode \<Rightarrow> byte \<Rightarrow> 64 word \<Rightarrow> avp" where
  "NewInteger64AVP code flags v = NewAVP code flags 0 (PutUint64 v)"

definition NewUnsigned32AVP :: "AVPCode \<Rightarrow> byte \<Rightarrow> u32 \<Rightarrow> avp" where
  "NewUnsigned32AVP code flags v = NewAVP code flags 0 (PutUint32 v)"

definition NewUnsigned64AVP :: "AVPCode \<Rightarrow> byte \<Rightarrow> u64 \<Rightarrow> avp" where
  "NewUnsigned64AVP code flags v = NewAVP code flags 0 (PutUint64 v)"

definition NewEnumeratedAVP :: "AVPCode \<Rightarrow> byte \<Rightarrow> 32 word \<Rightarrow> avp" where
  "NewEnumeratedAVP code flags v = NewAVP code flags 0 (PutUint32 v)"

definition NewAddressAVP :: "AVPCode \<Rightarrow> byte \<Rightarrow> Address \<Rightarrow> avp" where
  "NewAddressAVP code flags addr = NewAVP code flags 0 (Address_Encode addr)"

definition NewTimeAVP :: "AVPCode \<Rightarrow> byte \<Rightarrow> int \<Rightarrow> avp" where
  "NewTimeAVP code flags t = NewAVP code flags 0 (PutUint32 (NewDiameterTime t))"

definition NewDiameterIdentityAVP :: "AVPCode \<Rightarrow> byte \<Rightarrow> DiamID \<Rightarrow> avp" where
  "NewDiameterIdentityAVP code flags identity = NewAVP code flags 0 (bytes_of_string identity)"

definition NewVendorAVP :: "AVPCode \<Rightarrow> byte \<Rightarrow> VendorID \<Rightarrow> byte list \<Rightarrow> avp" where
  "NewVendorAVP code flags vendorID data = NewAVP code (flags OR AVPFlagVendor) vendorID data"

section \<open>AVP accessors\<close>

definition IsVendor :: "avp \<Rightarrow> bool" where
  "IsVendor a \<longleftrightarrow> aFlags a AND AVPFlagVendor \<noteq> 0"

definition IsMandatory :: "avp \<Rightarrow> bool" where
  "IsMandatory a \<longleftrightarrow> aFlags a AND AVPFlagMandatory \<noteq> 0"

definition IsProtected :: "avp \<Rightarrow> bool" where
  "IsProtected a \<longleftrightarrow> aFlags a AND AVPFlagProtected \<noteq> 0"

definition IsGrouped :: "avp \<Rightarrow> bool" where
  "IsGrouped a \<longleftrightarrow> 0 < length (aChildren a)"

fun SetVendorID :: "avp \<Rightarrow> VendorID \<Rightarrow> avp" where
  "SetVendorID (AVP c f _ d cs) vendorID = AVP c (f OR AVPFlagVendor) vendorID d cs"

definition Children :: "avp \<Rightarrow> avp list" where
  "Children a = aChildren a"

definition GetOctetString :: "avp \<Rightarrow> byte list" where
  "GetOctetString a = aData a"

definition GetUTF8String :: "avp \<Rightarrow> string" where
  "GetUTF8String a = string_of_bytes (aData a)"

definition GetInteger32 :: "avp \<Rightarrow> wire_error + 32 word" where
  "GetInteger32 a = (if length (aData a) < 4 then Inl (DataTooShort (length (aData a))) else Uint32 (aData a))"

definition GetInteger64 :: "avp \<Rightarrow> wire_error + 64 word" where
  "GetInteger64 a = (if length (aData a) < 8 then Inl (DataTooShort (length (aData a))) else Uint64 (aData a))"

definition GetUnsigned32 :: "avp \<Rightarrow> wire_error + u32" where
  "GetUnsigned32 a = (if length (aData a) < 4 then Inl (DataTooShort (length (aData a))) else Uint32 (aData a))"

definition GetUnsigned64 :: "avp \<Rightarrow> wire_error + u64" where
  "GetUnsigned64 a = (if length (aData a) < 8 then Inl (DataTooShort (length (aData a))) else Uint64 (aData a))"

definition GetAddress :: "avp \<Rightarrow> wire_error + Address" where
  "GetAddress a = DecodeAddress (aData a)"

definition GetTime :: "avp \<Rightarrow> wire_error + int" where
  "GetTime a = (if length (aData a) < 4 then Inl (DataTooShort (length (aData a)))
     else bind_result (Uint32 (aData a)) (\<lambda>dt. Inr (DiameterTime_ToTime dt)))"

definition GetDiameterIdentity :: "avp \<Rightarrow> DiamID" where
  "GetDiameterIdentity a = string_of_bytes (aData a)"

section \<open>Message constructors and flags\<close>

definition NewMessage :: "byte \<Rightarrow> CommandCode \<Rightarrow> ApplicationID \<Rightarrow> message" where
  "NewMessage flags cmdCode appID = \<lparr>Version = DiameterVersion, Flags = flags,
     mCommandCode = cmdCode, mApplicationID = appID, mHopByHopID = 0, mEndToEndID = 0, AVPs = []\<rparr>"

definition NewRequest :: "CommandCode \<Rightarrow> ApplicationID \<Rightarrow> message" where
  "NewRequest cmdCode appID = NewMessage CmdFlagRequest cmdCode appID"

definition NewAnswer :: "message \<Rightarrow> message" where
  "NewAnswer req = \<lparr>Version = DiameterVersion, Flags = Flags req AND NOT CmdFlagRequest,
     mCommandCode = mCommandCode req, mApplicationID = mApplicationID req,
     mHopByHopID = mHopByHopID req, mEndToEndID = mEndToEndID req, AVPs = []\<rparr>"

definition IsRequest :: "message \<Rightarrow> bool" where
  "IsRequest m \<longleftrightarrow> Flags m AND CmdFlagRequest \<noteq> 0"

definition IsProxiable :: "message \<Rightarrow> bool" where
  "IsProxiable m \<longleftrightarrow> Flags m AND CmdFlagProxiable \<noteq> 0"

definition IsError :: "message \<Rightarrow> bool" where
  "IsError m \<longleftrightarrow> Flags m AND CmdFlagError \<noteq> 0"

definition IsRetransmit :: "message \<Rightarrow> bool" where
  "IsRetransmit m \<longleftrightarrow> Flags m AND CmdFlagRetransmit \<noteq> 0"

definition SetProxiable :: "message \<Rightarrow> bool \<Rightarrow> message" where
  "SetProxiable m b = (if b then m\<lparr>Flags := Flags m OR CmdFlagProxiable\<rparr>
     else m\<lparr>Flags := Flags m AND NOT CmdFlagProxiable\<rparr>)"

definition SetError :: "message \<Rightarrow> bool \<Rightarrow> message" where
  "SetError m b = (if b then m\<lparr>Flags := Flags m OR CmdFlagError\<rparr>
     else m\<lparr>Flags := Flags m AND NOT CmdFlagError\<rparr>)"

definition SetRetransmit :: "message \<Rightarrow> bool \<Rightarrow> message" where
  "SetRetransmit m b = (if b then m\<lparr>Flags := Flags m OR CmdFlagRetransmit\<rparr>
     else m\<lparr>Flags := Flags m AND NOT CmdFlagRetransmit\<rparr>)"

section \<open>AVPs of a message\<close>

definition AddAVP :: "message \<Rightarrow> avp \<Rightarrow> message" where
  "AddAVP m a = m\<lparr>AVPs := AVPs m @ [a]\<rparr>"

definition AddAVPs :: "message \<Rightarrow> avp list \<Rightarrow> message" where
  "AddAVPs m as = m\<lparr>AVPs := AVPs m @ as\<rparr>"

definition avp_matches :: "AVPCode \<Rightarrow> VendorID \<Rightarrow> avp \<Rightarrow> bool" where
  "avp_matches code vendorID a \<longleftrightarrow> aCode a = code \<and> (vendorID = 0 \<or> aVendorID a = vendorID)"

definition FindAVP :: "message \<Rightarrow> AVPCode \<Rightarrow> VendorID \<Rightarrow> avp option" where
  "FindAVP m code vendorID = List.find (avp_matches code vendorID) (AVPs m)"

definition FindAllAVPs :: "message \<Rightarrow> AVPCode \<Rightarrow> VendorID \<Rightarrow> avp list" where
  "FindAllAVPs m code vendorID = filter (avp_matches code vendorID) (AVPs m)"

fun AddChild :: "avp \<Rightarrow> avp \<Rightarrow> avp" where
  "AddChild (AVP c f v d cs) child = AVP c f v d (cs @ [child])"

definition FindChild :: "avp \<Rightarrow> AVPCode \<Rightarrow> VendorID \<Rightarrow> avp option" where
  "FindChild a code vendorID = List.find (avp_matches code vendorID) (aChildren a)"

fun RemoveChild :: "avp \<Rightarrow> int \<Rightarrow> avp" where
  "RemoveChild (AVP c f v d cs) i =
     (if i < 0 \<or> int (length cs) \<le> i then AVP c f v d cs
      else AVP c f v d (take (nat i) cs @ drop (nat i + 1) cs))"

text \<open>A write through the pointer to the first AVP that matches.\<close>

fun update_first :: "('a \<Rightarrow> bool) \<Rightarrow> ('a \<Rightarrow> 'a) \<Rightarrow> 'a list \<Rightarrow> 'a list" where
  "update_first P f [] = []"
| "update_first P f (x # xs) = (if P x then f x # xs else x # update_first P f xs)"

fun set_Data :: "avp \<Rightarrow> byte list \<Rightarrow> avp" where
  "set_Data (AVP c f v _ cs) d = AVP c f v d cs"

definition identity_of :: "message \<Rightarrow> AVPCode \<Rightarrow> DiamID option" where
  "identity_of m code = map_option GetDiameterIdentity (FindAVP m code 0)"

definition GetSessionID :: "message \<Rightarrow> string option" where
  "GetSessionID m = map_option GetUTF8String (FindAVP m AVPCodeSessionID 0)"

definition GetOriginHost :: "message \<Rightarrow> DiamID option" where
  "GetOriginHost m = identity_of m AVPCodeOriginHost"

definition GetOriginRealm :: "message \<Rightarrow> DiamID option" where
  "GetOriginRealm m = identity_of m AVPCodeOriginRealm"

definition GetDestinationHost :: "message \<Rightarrow> DiamID option" where
  "GetDestinationHost m = identity_of m AVPCodeDestinationHost"

definition GetDestinationRealm :: "message \<Rightarrow> DiamID option" where
  "GetDestinationRealm m = identity_of m AVPCodeDestinationRealm"

definition unsigned32_of :: "message \<Rightarrow> AVPCode \<Rightarrow> u32 option" where
  "unsigned32_of m code = (case FindAVP m code 0 of None \<Rightarrow> None
     | Some a \<Rightarrow> (case GetUnsigned32 a of Inl _ \<Rightarrow> None | Inr v \<Rightarrow> Some v))"

definition GetResultCode :: "message \<Rightarrow> ResultCode option" where
  "GetResultCode m = unsigned32_of m AVPCodeResultCode"

definition GetUserName :: "message \<Rightarrow> string option" where
  "GetUserName m = map_option GetUTF8String (FindAVP m AVPCodeUserName 0)"

definition SetResultCode :: "message \<Rightarrow> ResultCode \<Rightarrow> message" where
  "SetResultCode m code = (case FindAVP m AVPCodeResultCode 0 of
     Some _ \<Rightarrow> m\<lparr>AVPs := update_first (avp_matches AVPCodeResultCode 0)
                  (\<lambda>a. set_Data a (PutUint32 code)) (AVPs m)\<rparr>
   | None \<Rightarrow> AddAVP m (NewUnsigned32AVP AVPCodeResultCode AVPFlagMandatory code))"

definition GetAccountingRecordType :: "message \<Rightarrow> u32 option" where
  "GetAccountingRecordType m = unsigned32_of m AVPCodeAccountingRecordType"

definition GetAccountingRecordNumber :: "message \<Rightarrow> u32 option" where
  "GetAccountingRecordNumber m = unsigned32_of m AVPCodeAccountingRecordNumber"

definition NewAnswerWithResult :: "message \<Rightarrow> ResultCode \<Rightarrow> message" where
  "NewAnswerWithResult req code = (let ans = SetResultCode (NewAnswer req) code in
     if code < 2000 \<or> 3000 \<le> code then ans\<lparr>Flags := Flags ans OR CmdFlagError\<rparr> else ans)"

section \<open>Typed data survives the constructor and the accessor\<close>

lemmas typed_avp_defs = NewInteger32AVP_def NewInteger64AVP_def NewUnsigned32AVP_def
  NewUnsigned64AVP_def NewEnumeratedAVP_def NewAddressAVP_def NewTimeAVP_def
  NewDiameterIdentityAVP_def NewUTF8StringAVP_def NewOctetStringAVP_def NewAVP_def

lemmas typed_get_defs = GetInteger32_def GetInteger64_def GetUnsigned32_def GetUnsigned64_def
  GetAddress_def GetTime_def GetDiameterIdentity_def GetUTF8String_def GetOctetString_def

lemma GetUnsigned32_New [simp]: "GetUnsigned32 (NewUnsigned32AVP c f v) = Inr v"
  by (simp add: typed_avp_defs typed_get_defs)

lemma GetDiameterIdentity_New [simp]: "GetDiameterIdentity (NewDiameterIdentityAVP c f i) = i"
  by (simp add: typed_avp_defs typed_get_defs)

lemma typed_codes [simp]:
  "aCode (NewUnsigned32AVP c f v) = c" "aCode (NewDiameterIdentityAVP c f i) = c"
  "aCode (NewUTF8StringAVP c f s) = c" "aCode (NewAddressAVP c f a) = c"
  "aVendorID (NewUnsigned32AVP c f v) = 0" "aVendorID (NewDiameterIdentityAVP c f i) = 0"
  by (simp_all add: typed_avp_defs)

lemma GetUnsigned32_total: "4 \<le> length (aData a) \<Longrightarrow> \<exists>v. GetUnsigned32 a = Inr v"
  by (auto simp: GetUnsigned32_def dest: be32.get_total)

lemma GetUnsigned32_no_panic: "GetUnsigned32 a \<noteq> Inl Panic"
  using be32.get_total [of "aData a"] by (auto simp: GetUnsigned32_def)

section \<open>Flags\<close>


lemma NewAnswer_not_request [simp]: "\<not> IsRequest (NewAnswer req)"
proof -
  have "(Flags req AND NOT CmdFlagRequest) AND CmdFlagRequest = 0"
    by (rule bit_word_eqI) (auto simp: bit_simps)
  then show ?thesis by (simp add: NewAnswer_def IsRequest_def)
qed

lemma NewRequest_request [simp]: "IsRequest (NewRequest c a)"
  by (simp add: NewRequest_def NewMessage_def IsRequest_def)

lemma AddAVP_frame [simp, frame_simps]:
  "Flags (AddAVP m a) = Flags m" "mHopByHopID (AddAVP m a) = mHopByHopID m"
  "mEndToEndID (AddAVP m a) = mEndToEndID m" "mCommandCode (AddAVP m a) = mCommandCode m"
  "mApplicationID (AddAVP m a) = mApplicationID m" "Version (AddAVP m a) = Version m"
  "AVPs (AddAVP m a) = AVPs m @ [a]" "IsRequest (AddAVP m a) = IsRequest m"
  by (simp_all add: AddAVP_def IsRequest_def)

lemma NewAnswer_frame [simp, frame_simps]:
  "mHopByHopID (NewAnswer m) = mHopByHopID m" "mEndToEndID (NewAnswer m) = mEndToEndID m"
  "mCommandCode (NewAnswer m) = mCommandCode m" "mApplicationID (NewAnswer m) = mApplicationID m"
  "AVPs (NewAnswer m) = []" "Version (NewAnswer m) = 1"
  by (simp_all add: NewAnswer_def)

lemma SetResultCode_frame [simp, frame_simps]:
  "Flags (SetResultCode m c) = Flags m" "mHopByHopID (SetResultCode m c) = mHopByHopID m"
  "mEndToEndID (SetResultCode m c) = mEndToEndID m" "mCommandCode (SetResultCode m c) = mCommandCode m"
  "mApplicationID (SetResultCode m c) = mApplicationID m" "IsRequest (SetResultCode m c) = IsRequest m"
  "Version (SetResultCode m c) = Version m"
  by (simp_all add: SetResultCode_def IsRequest_def split: option.splits)

section \<open>Lookups\<close>

lemma find_append: "List.find P (xs @ ys) = (case List.find P xs of None \<Rightarrow> List.find P ys | Some x \<Rightarrow> Some x)"
  by (induction xs) simp_all

lemma find_update_first:
  "(\<And>x. P x \<Longrightarrow> P (f x)) \<Longrightarrow> List.find P (update_first P f xs) = map_option f (List.find P xs)"
  by (induction xs) auto

lemma find_update_first_other:
  "(\<And>x. P x \<Longrightarrow> \<not> Q x \<and> \<not> Q (f x)) \<Longrightarrow> List.find Q (update_first P f xs) = List.find Q xs"
  by (induction xs) auto

lemma length_update_first [simp]: "length (update_first P f xs) = length xs"
  by (induction xs) auto

lemma FindAVP_AddAVP:
  "FindAVP (AddAVP m a) c v = (case FindAVP m c v of None \<Rightarrow> if avp_matches c v a then Some a else None
     | Some b \<Rightarrow> Some b)"
  by (simp add: FindAVP_def find_append split: option.splits)

lemma find_filter_head: "List.find P xs = (case filter P xs of [] \<Rightarrow> None | x # _ \<Rightarrow> Some x)"
  by (induction xs) simp_all

lemma FindAVP_is_head: "FindAVP m c v = (case FindAllAVPs m c v of [] \<Rightarrow> None | a # _ \<Rightarrow> Some a)"
  by (simp add: FindAVP_def FindAllAVPs_def find_filter_head)

lemma set_Data_simps [simp]:
  "aCode (set_Data a d) = aCode a" "aVendorID (set_Data a d) = aVendorID a"
  "aFlags (set_Data a d) = aFlags a" "aData (set_Data a d) = d" "aChildren (set_Data a d) = aChildren a"
  by (cases a; simp)+

lemma avp_matches_set_Data [simp]: "avp_matches c v (set_Data a d) = avp_matches c v a"
  by (simp add: avp_matches_def)

lemma GetUnsigned32_set_Data [simp]: "GetUnsigned32 (set_Data a (PutUint32 w)) = Inr w"
  by (simp add: GetUnsigned32_def)

lemma find_update_Data [simp]:
  "List.find (avp_matches c v) (update_first (avp_matches c v) (\<lambda>a. set_Data a d) xs) =
   map_option (\<lambda>a. set_Data a d) (List.find (avp_matches c v) xs)"
  by (rule find_update_first) simp

lemma find_update_Data_other:
  "c \<noteq> c' \<Longrightarrow> List.find (avp_matches c v) (update_first (avp_matches c' v') (\<lambda>a. set_Data a d) xs) =
   List.find (avp_matches c v) xs"
  by (rule find_update_first_other) (auto simp: avp_matches_def)

lemma GetResultCode_SetResultCode [simp]: "GetResultCode (SetResultCode m code) = Some code"
  by (cases "FindAVP m AVPCodeResultCode 0")
    (simp_all add: GetResultCode_def SetResultCode_def unsigned32_of_def FindAVP_def find_append
      avp_matches_def [of _ _ "NewUnsigned32AVP _ _ _"])

lemma SetResultCode_other:
  "c \<noteq> AVPCodeResultCode \<Longrightarrow> FindAVP (SetResultCode m code) c v = FindAVP m c v"
  by (cases "FindAVP m AVPCodeResultCode 0")
    (simp_all add: SetResultCode_def FindAVP_def find_append find_update_Data_other
      avp_matches_def [of _ _ "NewUnsigned32AVP _ _ _"] split: option.splits)

lemma SetResultCode_count:
  "length (AVPs (SetResultCode m code)) =
   length (AVPs m) + (if FindAVP m AVPCodeResultCode 0 = None then 1 else 0)"
  by (simp add: SetResultCode_def split: option.splits)

end
