(* ===== verification/Diam_Encode.thy ===== *)
theory Diam_Encode
  imports Diam_Message
begin

text \<open>
  File \<open>message/encode.go\<close>: the buffer pools, the in-place encoder and the lengths.
  The code-level encoder writes into the caller's buffer and takes child buffers, with whatever
  bytes they last held, from pools; the specification \<open>avp_wire\<close> is a pure function of the
  AVP. The refinement lemma \<open>EncodeTo_refines\<close> says they agree for every pool contents and
  every large enough buffer.
\<close>

section \<open>Lengths\<close>

definition vendor_flag :: "byte \<Rightarrow> bool" where
  "vendor_flag f \<longleftrightarrow> f AND AVPFlagVendor \<noteq> 0"

definition header_size :: "byte \<Rightarrow> nat" where
  "header_size f = (if vendor_flag f then AVPHeaderSizeVendor else AVPHeaderSize)"

definition padding_of :: "nat \<Rightarrow> nat" where
  "padding_of avpLen = (4 - avpLen mod 4) mod 4"

fun EncodedLen :: "avp \<Rightarrow> nat" where
  "EncodedLen (AVP _ f _ d cs) =
     (let dataLen = (if 0 < length cs then sum_list (map EncodedLen cs) else length d);
          avpLen = header_size f + dataLen
      in avpLen + padding_of avpLen)"

definition Message_EncodedLen :: "message \<Rightarrow> nat" where
  "Message_EncodedLen m = DiameterHeaderSize + sum_list (map EncodedLen (AVPs m))"

section \<open>Buffer pools\<close>

text \<open>
  A pool holds buffers of its tier's capacity with stale contents. \<open>sync.Pool\<close> returns some
  pooled buffer, or a fresh zeroed one; which one does not matter to any theorem below, since they
  hold for every pool contents.
\<close>

record pools =
  smallBufPool :: "byte list list"
  mediumBufPool :: "byte list list"

definition smallBufSize :: nat where [simp]: "smallBufSize = 256"
definition mediumBufSize :: nat where [simp]: "mediumBufSize = 4096"

definition pools_ok :: "pools \<Rightarrow> bool" where
  "pools_ok ps \<longleftrightarrow> (\<forall>b \<in> set (smallBufPool ps). length b = smallBufSize) \<and>
     (\<forall>b \<in> set (mediumBufPool ps). length b = mediumBufSize)"

text \<open>The result is the backing array; the slice handed out is its first \<open>sz\<close> bytes.\<close>

definition getBuffer :: "pools \<Rightarrow> nat \<Rightarrow> byte list \<times> pools" where
  "getBuffer ps sz =
     (if sz \<le> smallBufSize then
        (case smallBufPool ps of [] \<Rightarrow> (replicate smallBufSize 0, ps)
         | b # bs \<Rightarrow> (b, ps\<lparr>smallBufPool := bs\<rparr>))
      else if sz \<le> mediumBufSize then
        (case mediumBufPool ps of [] \<Rightarrow> (replicate mediumBufSize 0, ps)
         | b # bs \<Rightarrow> (b, ps\<lparr>mediumBufPool := bs\<rparr>))
      else (replicate sz 0, ps))"

definition putBuffer :: "pools \<Rightarrow> byte list \<Rightarrow> pools" where
  "putBuffer ps b =
     (if length b = smallBufSize then ps\<lparr>smallBufPool := b # smallBufPool ps\<rparr>
      else if length b = mediumBufSize then ps\<lparr>mediumBufPool := b # mediumBufPool ps\<rparr>
      else ps)"

lemma getBuffer_ok:
  assumes "pools_ok ps" and "getBuffer ps sz = (b, ps')"
  shows "sz \<le> length b" and "pools_ok ps'"
  using assms by (auto simp: getBuffer_def pools_ok_def split: if_splits list.splits)

lemma putBuffer_ok: "pools_ok ps \<Longrightarrow> pools_ok (putBuffer ps b)"
  by (auto simp: putBuffer_def pools_ok_def)

section \<open>The encoder\<close>

definition write_AVP :: "AVPCode \<Rightarrow> byte \<Rightarrow> VendorID \<Rightarrow> byte list \<Rightarrow> byte list
    \<Rightarrow> byte list \<times> (wire_error + nat)" where
  "write_AVP code flags vid data buf =
     (let avpLen = header_size flags + length data;
          padding = padding_of avpLen;
          totalLen = avpLen + padding
      in if length buf < totalLen then (buf, Inl (BufferTooSmall totalLen (length buf)))
         else let b1 = copy_at buf 0 (PutUint32 code);
                  b2 = copy_at b1 4 [flags];
                  b3 = copy_at b2 5 (put24 (of_nat avpLen));
                  b4 = (if vendor_flag flags then copy_at b3 8 (PutUint32 vid) else b3);
                  b5 = copy_at b4 (if vendor_flag flags then 12 else 8) data;
                  b6 = copy_at b5 avpLen (replicate padding 0)
              in (b6, Inr totalLen))"

text \<open>
  Children are encoded into a pooled buffer of their total size. The deferred \<open>putBuffer\<close>
  runs on every path, and returns the whole backing array with the bytes just written.
\<close>

function EncodeTo :: "avp \<Rightarrow> byte list \<Rightarrow> pools \<Rightarrow> byte list \<times> (wire_error + nat) \<times> pools"
  and EncodeChildren :: "avp list \<Rightarrow> byte list \<Rightarrow> nat \<Rightarrow> pools \<Rightarrow> byte list \<times> (wire_error + nat) \<times> pools"
  where
  "EncodeTo (AVP code flags vid d cs) buf ps =
     (if 0 < length cs then
        (let childSize = sum_list (map EncodedLen cs);
             (backing, ps1) = getBuffer ps childSize;
             (cbuf, r, ps2) = EncodeChildren cs (take childSize backing) 0 ps1;
             ps3 = putBuffer ps2 (cbuf @ drop childSize backing)
         in case r of
              Inl e \<Rightarrow> (buf, Inl e, ps3)
            | Inr off \<Rightarrow> (case write_AVP code flags vid (take off cbuf) buf of (buf', r') \<Rightarrow> (buf', r', ps3)))
      else (case write_AVP code flags vid d buf of (buf', r') \<Rightarrow> (buf', r', ps)))"
| "EncodeChildren [] buf off ps = (buf, Inr off, ps)"
| "EncodeChildren (c # cs) buf off ps =
     (if length buf < off then (buf, Inl Panic, ps)
      else case EncodeTo c (drop off buf) ps of (s, r, ps') \<Rightarrow>
        (case r of Inl e \<Rightarrow> (take off buf @ s, Inl e, ps')
         | Inr n \<Rightarrow> EncodeChildren cs (take off buf @ s) (off + n) ps'))"
  by pat_completeness auto
termination
  by (relation "measure (case_sum (\<lambda>(a, _, _). size a) (\<lambda>(as, _, _, _). size_list size as))") auto

text \<open>\<open>AVP.Encode\<close>: a fresh buffer of the AVP's length, and its contents.\<close>

definition AVP_Encode :: "avp \<Rightarrow> pools \<Rightarrow> (wire_error + byte list) \<times> pools" where
  "AVP_Encode a ps = (case EncodeTo a (replicate (EncodedLen a) 0) ps of (buf, r, ps') \<Rightarrow>
     (case r of Inl e \<Rightarrow> (Inl e, ps') | Inr _ \<Rightarrow> (Inr buf, ps')))"

fun EncodeAVPs :: "avp list \<Rightarrow> byte list \<Rightarrow> nat \<Rightarrow> pools \<Rightarrow> (wire_error + byte list) \<times> pools" where
  "EncodeAVPs [] buf off ps = (Inr buf, ps)"
| "EncodeAVPs (a # as) buf off ps =
     (if length buf < off then (Inl Panic, ps)
      else case EncodeTo a (drop off buf) ps of (s, r, ps') \<Rightarrow>
        (case r of Inl e \<Rightarrow> (Inl (EncodingAVP (aCode a) e), ps')
         | Inr n \<Rightarrow> EncodeAVPs as (take off buf @ s) (off + n) ps'))"

definition put_header :: "message \<Rightarrow> nat \<Rightarrow> byte list \<Rightarrow> byte list" where
  "put_header m msgLen buf =
     (let b1 = copy_at buf 0 [Version m];
          b2 = copy_at b1 1 (put24 (of_nat msgLen));
          b3 = copy_at b2 4 [Flags m];
          b4 = copy_at b3 5 (put24 (ucast (mCommandCode m)));
          b5 = copy_at b4 8 (PutUint32 (mApplicationID m));
          b6 = copy_at b5 12 (PutUint32 (mHopByHopID m))
      in copy_at b6 16 (PutUint32 (mEndToEndID m)))"

definition Encode_with :: "message \<Rightarrow> pools \<Rightarrow> (wire_error + byte list) \<times> pools" where
  "Encode_with m ps =
     (let msgLen = Message_EncodedLen m
      in if 0xFFFFFF < msgLen then (Inl (MessageTooLarge msgLen), ps)
         else EncodeAVPs (AVPs m) (put_header m msgLen (replicate msgLen 0)) DiameterHeaderSize ps)"

text \<open>The pools are process-wide state; the bytes do not depend on them (\<open>Encode_with_eq\<close>).\<close>

definition Encode :: "message \<Rightarrow> wire_error + byte list" where
  "Encode m = fst (Encode_with m \<lparr>smallBufPool = [], mediumBufPool = []\<rparr>)"

section \<open>The wire format as a function\<close>

definition wire_frame :: "AVPCode \<Rightarrow> byte \<Rightarrow> VendorID \<Rightarrow> byte list \<Rightarrow> byte list" where
  "wire_frame code flags vid data =
     (let avpLen = header_size flags + length data
      in PutUint32 code @ [flags] @ put24 (of_nat avpLen) @
         (if vendor_flag flags then PutUint32 vid else []) @ data @ replicate (padding_of avpLen) 0)"

fun avp_wire :: "avp \<Rightarrow> byte list" where
  "avp_wire (AVP code flags vid d cs) =
     wire_frame code flags vid (if cs = [] then d else concat (map avp_wire cs))"

definition header_wire :: "message \<Rightarrow> nat \<Rightarrow> byte list" where
  "header_wire m msgLen = [Version m] @ put24 (of_nat msgLen) @ [Flags m] @
     put24 (ucast (mCommandCode m)) @ PutUint32 (mApplicationID m) @
     PutUint32 (mHopByHopID m) @ PutUint32 (mEndToEndID m)"

definition message_wire :: "message \<Rightarrow> byte list" where
  "message_wire m = header_wire m (Message_EncodedLen m) @ concat (map avp_wire (AVPs m))"

lemma length_header_wire [simp, wire_simps]: "length (header_wire m n) = 20"
  by (simp add: header_wire_def)

lemma header_size_simps [simp]:
  "vendor_flag f \<Longrightarrow> header_size f = 12" "\<not> vendor_flag f \<Longrightarrow> header_size f = 8"
  by (simp_all add: header_size_def)

lemma length_wire_frame:
  "length (wire_frame code flags vid data) =
   header_size flags + length data + padding_of (header_size flags + length data)"
  by (cases "vendor_flag flags") (simp_all add: wire_frame_def Let_def)

lemma length_avp_wire [simp, wire_simps]: "length (avp_wire a) = EncodedLen a"
proof (induction a)
  case (AVP code flags vid d cs)
  have "sum_list (map (length \<circ> avp_wire) cs) = sum_list (map EncodedLen cs)"
    using AVP by (auto intro!: arg_cong [where f = sum_list])
  then show ?case
    by (cases "cs = []") (simp_all add: length_wire_frame length_concat Let_def)
qed

lemma length_concat_avp_wire [simp, wire_simps]:
  "length (concat (map avp_wire as)) = sum_list (map EncodedLen as)"
  by (induction as) simp_all

lemma length_message_wire: "length (message_wire m) = Message_EncodedLen m"
  by (simp add: message_wire_def Message_EncodedLen_def)

lemma padding_lt: "padding_of n < 4"
  by (simp add: padding_of_def)

lemma padded_mod4: "(n + padding_of n) mod 4 = 0"
proof -
  define r where "r = n mod 4"
  have "(n + (4 - r) mod 4) mod 4 = (r + (4 - r) mod 4) mod 4"
    unfolding r_def by (metis mod_add_left_eq)
  moreover have "r < 4" by (simp add: r_def)
  then have "r = 0 \<or> r = 1 \<or> r = 2 \<or> r = 3" by arith
  ultimately show ?thesis by (auto simp: padding_of_def r_def)
qed

lemma EncodedLen_mod4 [simp]: "EncodedLen a mod 4 = 0"
  by (cases a) (simp add: Let_def padded_mod4)

lemma EncodedLen_ge8: "8 \<le> EncodedLen a"
  by (cases a) (simp add: Let_def header_size_def)

section \<open>The in-place encoder refines the wire format\<close>

lemma write_AVP_refines:
  assumes "length (wire_frame code flags vid data) \<le> length buf"
  shows "write_AVP code flags vid data buf =
    (wire_frame code flags vid data @ drop (length (wire_frame code flags vid data)) buf,
     Inr (length (wire_frame code flags vid data)))"
proof -
  define n where "n = header_size flags + length data"
  define hd where "hd = PutUint32 code @ [flags] @ put24 (of_nat n) @ (if vendor_flag flags then PutUint32 vid else [])"
  have fr: "wire_frame code flags vid data = hd @ data @ replicate (padding_of n) 0"
    by (simp add: wire_frame_def n_def hd_def Let_def)
  have len_hd: "length hd = header_size flags"
    by (simp add: hd_def)
  have big: "header_size flags + length data + padding_of n \<le> length buf"
    using assms by (simp add: fr len_hd)
  have b123: "copy_at (copy_at (copy_at buf 0 (PutUint32 code)) 4 [flags]) 5 (put24 (of_nat n)) =
      (PutUint32 code @ [flags] @ put24 (of_nat n)) @ drop 8 buf"
    using big by (cases "vendor_flag flags") (simp_all add: copy_at_def drop_Cons')
  have b4: "(if vendor_flag flags then copy_at ((PutUint32 code @ [flags] @ put24 (of_nat n)) @ drop 8 buf) 8 (PutUint32 vid)
      else (PutUint32 code @ [flags] @ put24 (of_nat n)) @ drop 8 buf) = hd @ drop (header_size flags) buf"
    using big by (cases "vendor_flag flags") (simp_all add: hd_def copy_at_def drop_Cons')
  have b5: "copy_at (hd @ drop (header_size flags) buf) (header_size flags) data = hd @ data @ drop n buf"
    using big by (subst copy_at_prefix) (simp_all add: len_hd n_def add.commute)
  have b6: "copy_at (hd @ data @ drop n buf) n (replicate (padding_of n) 0) =
      hd @ data @ replicate (padding_of n) 0 @ drop (n + padding_of n) buf"
    using big copy_at_prefix [of "hd @ data" n "replicate (padding_of n) 0" "drop n buf"]
    by (simp add: len_hd n_def add.commute)
  have off: "(if vendor_flag flags then 12 else 8) = header_size flags"
    by simp
  have len: "\<not> length buf < n + padding_of n" "length (wire_frame code flags vid data) = n + padding_of n"
    using big by (simp_all add: fr len_hd n_def)
  show ?thesis
    unfolding write_AVP_def Let_def n_def [symmetric] b123 b4 off b5 b6
    using len by (simp add: fr add.assoc [symmetric])
qed

lemma EncodeTo_EncodeChildren_refine:
  "pools_ok ps \<Longrightarrow> EncodedLen a \<le> length buf \<Longrightarrow>
   \<exists>ps'. EncodeTo a buf ps = (avp_wire a @ drop (EncodedLen a) buf, Inr (EncodedLen a), ps') \<and> pools_ok ps'"
  "pools_ok qs \<Longrightarrow> off \<le> length cbuf \<Longrightarrow> sum_list (map EncodedLen as) \<le> length cbuf - off \<Longrightarrow>
   \<exists>ps'. EncodeChildren as cbuf off qs =
      (take off cbuf @ concat (map avp_wire as) @ drop (off + sum_list (map EncodedLen as)) cbuf,
       Inr (off + sum_list (map EncodedLen as)), ps') \<and> pools_ok ps'"
proof (induction a buf ps and as cbuf off qs rule: EncodeTo_EncodeChildren.induct)
  case (1 code flags vid d cs buf ps)
  show ?case
  proof (cases "cs = []")
    case True
    then have "length (wire_frame code flags vid d) \<le> length buf"
      using "1.prems" by (simp add: length_wire_frame Let_def)
    with True "1.prems" show ?thesis
      by (simp add: write_AVP_refines length_wire_frame Let_def)
  next
    case False
    define sz where "sz = sum_list (map EncodedLen cs)"
    obtain backing ps1 where get: "getBuffer ps sz = (backing, ps1)"
      by fastforce
    note ok = getBuffer_ok [OF "1.prems"(1) get]
    obtain ps2 where ch: "EncodeChildren cs (take sz backing) 0 ps1 = (concat (map avp_wire cs), Inr sz, ps2)"
      and ps2: "pools_ok ps2"
      using "1.IH"(1) [of sz "(backing, ps1)" backing ps1] False get ok
      by (fastforce simp: sz_def)
    have len: "length (wire_frame code flags vid (concat (map avp_wire cs))) = EncodedLen (AVP code flags vid d cs)"
      using False by (simp add: length_wire_frame Let_def)
    then have "write_AVP code flags vid (concat (map avp_wire cs)) buf =
      (avp_wire (AVP code flags vid d cs) @ drop (EncodedLen (AVP code flags vid d cs)) buf,
       Inr (EncodedLen (AVP code flags vid d cs)))"
      using "1.prems"(2) False by (simp only: write_AVP_refines) simp
    with False get ch ps2 show ?thesis
      by (simp add: sz_def [symmetric] putBuffer_ok del: EncodedLen.simps)
  qed
next
  case (2 buf off ps)
  then show ?case by simp
next
  case (3 c cs buf off ps)
  define n where "n = EncodedLen c"
  have "EncodedLen c \<le> length (drop off buf)"
    using "3.prems" by simp
  with "3.IH"(1) "3.prems" obtain ps1 where
    c: "EncodeTo c (drop off buf) ps = (avp_wire c @ drop n (drop off buf), Inr n, ps1)" and ps1: "pools_ok ps1"
    by (auto simp: n_def)
  let ?buf = "take off buf @ avp_wire c @ drop n (drop off buf)"
  have len: "length ?buf = length buf"
    using "3.prems" by (simp add: n_def)
  obtain ps2 where
    cs: "EncodeChildren cs ?buf (off + n) ps1 =
      (take (off + n) ?buf @ concat (map avp_wire cs) @ drop (off + n + sum_list (map EncodedLen cs)) ?buf,
       Inr (off + n + sum_list (map EncodedLen cs)), ps2)" and ps2: "pools_ok ps2"
    using "3.IH"(2) [OF _ c [symmetric] refl refl] "3.prems" ps1 len by (fastforce simp: n_def)
  have t: "take (off + n) ?buf = take off buf @ avp_wire c"
    using "3.prems" by (simp add: n_def)
  have d: "drop (off + n + k) ?buf = drop (off + n + k) buf" for k
    using "3.prems" by (simp add: n_def add.commute add.left_commute)
  show ?case
    using "3.prems" c cs ps2 unfolding t d by (simp add: n_def add.assoc)
qed

lemmas EncodeTo_refines = EncodeTo_EncodeChildren_refine(1)

lemma EncodeAVPs_refines:
  "pools_ok ps \<Longrightarrow> length pre = off \<Longrightarrow> length rest = sum_list (map EncodedLen as) \<Longrightarrow>
   \<exists>ps'. EncodeAVPs as (pre @ rest) off ps = (Inr (pre @ concat (map avp_wire as)), ps') \<and> pools_ok ps'"
proof (induction as arbitrary: pre rest off ps)
  case Nil
  then show ?case by simp
next
  case (Cons a as)
  obtain ps1 where a: "EncodeTo a rest ps = (avp_wire a @ drop (EncodedLen a) rest, Inr (EncodedLen a), ps1)"
    and ps1: "pools_ok ps1"
    using EncodeTo_refines [of ps a rest] Cons.prems by auto
  obtain ps2 where
    "EncodeAVPs as ((pre @ avp_wire a) @ drop (EncodedLen a) rest) (off + EncodedLen a) ps1 =
     (Inr ((pre @ avp_wire a) @ concat (map avp_wire as)), ps2)" and "pools_ok ps2"
    using Cons.IH [OF ps1, of "pre @ avp_wire a" "off + EncodedLen a" "drop (EncodedLen a) rest"] Cons.prems
    by auto
  with a Cons.prems show ?case by simp
qed

text \<open>Writing the next field of a buffer that is zero from there on.\<close>

lemma copy_at_zeros:
  "length pre = off \<Longrightarrow> length xs \<le> k \<Longrightarrow>
   copy_at (pre @ replicate k 0) off xs = (pre @ xs) @ replicate (k - length xs) 0"
  by (simp add: copy_at_prefix)

lemma put_header_eq: "put_header m n (replicate (20 + k) 0) = header_wire m n @ replicate k 0"
proof -
  have "put_header m n ([] @ replicate (20 + k) 0) = header_wire m n @ replicate k 0"
    unfolding put_header_def header_wire_def Let_def
    by (simp add: copy_at_zeros del: append_assoc append_Nil append_Cons append.simps)
  then show ?thesis by simp
qed

theorem Encode_with_eq:
  assumes "pools_ok ps"
  shows "fst (Encode_with m ps) =
    (if 0xFFFFFF < Message_EncodedLen m then Inl (MessageTooLarge (Message_EncodedLen m)) else Inr (message_wire m))"
proof (cases "0xFFFFFF < Message_EncodedLen m")
  case False
  have "Message_EncodedLen m = 20 + sum_list (map EncodedLen (AVPs m))"
    by (simp add: Message_EncodedLen_def)
  then have hd: "put_header m (Message_EncodedLen m) (replicate (Message_EncodedLen m) 0) =
      header_wire m (Message_EncodedLen m) @ replicate (sum_list (map EncodedLen (AVPs m))) 0"
    using put_header_eq by metis
  then show ?thesis
    using False EncodeAVPs_refines [OF assms, of "header_wire m (Message_EncodedLen m)" 20
        "replicate (sum_list (map EncodedLen (AVPs m))) 0" "AVPs m"]
    by (auto simp: Encode_with_def message_wire_def Let_def)
qed (simp add: Encode_with_def Let_def)

lemma Encode_eq:
  "Encode m = (if 0xFFFFFF < Message_EncodedLen m then Inl (MessageTooLarge (Message_EncodedLen m))
     else Inr (message_wire m))"
  unfolding Encode_def by (rule Encode_with_eq) (simp add: pools_ok_def)

end
