(* ===== verification/Diam_Decode.thy ===== *)
theory Diam_Decode
  imports Diam_Encode
begin

text \<open>
  File \<open>message/decode.go\<close>: decoding of AVPs, messages, grouped AVPs and headers, and the
  framing of a byte stream. Every index and slice expression is checked, so an input on which Go
  would panic is an \<open>Inl\<close> whose innermost error is \<open>Panic\<close>. The decoders are proved
  to be the exact inverse of the wire format: the locale \<open>self_delimiting\<close> states the two
  laws and gives unique decoding; AVPs and messages are its interpretations.
\<close>

section \<open>Self-delimiting codecs\<close>

locale self_delimiting =
  fixes enc :: "'a \<Rightarrow> byte list"
    and dec :: "byte list \<Rightarrow> 'e + 'a \<times> nat"
    and ok :: "'a \<Rightarrow> bool"
  assumes dec_enc: "ok a \<Longrightarrow> dec (enc a @ rest) = Inr (a, length (enc a))"
    and enc_dec: "dec bs = Inr (a, n) \<Longrightarrow> ok a \<and> n = length (enc a) \<and> bs = enc a @ drop n bs"
    and enc_nonempty: "0 < length (enc a)"
begin

lemma dec_consumes: "dec bs = Inr (a, n) \<Longrightarrow> 0 < n \<and> n \<le> length bs"
  using enc_dec [of bs a n] enc_nonempty [of a]
  by (metis append_eq_conv_conj length_append length_take less_or_eq_imp_le linorder_not_less min_def trans_le_add1)

lemma dec_take: "dec bs = Inr (a, n) \<Longrightarrow> take n bs = enc a"
  using enc_dec [of bs a n] by (metis append_eq_conv_conj)

lemma enc_inject: "ok a \<Longrightarrow> ok b \<Longrightarrow> enc a @ r = enc b @ s \<Longrightarrow> a = b \<and> r = s"
  using dec_enc [of a r] dec_enc [of b s] by auto

lemma stream_inject:
  "(\<forall>a \<in> set as. ok a) \<Longrightarrow> (\<forall>b \<in> set bs. ok b) \<Longrightarrow>
   concat (map enc as) = concat (map enc bs) \<Longrightarrow> as = bs"
proof (induction as arbitrary: bs)
  case Nil
  then show ?case using enc_nonempty by (cases bs) auto
next
  case (Cons a as)
  then obtain b bs' where bs: "bs = b # bs'"
    using enc_nonempty [of a] by (cases bs) auto
  then have "ok a" "ok b" "enc a @ concat (map enc as) = enc b @ concat (map enc bs')"
    using Cons.prems by simp_all
  then have "a = b \<and> concat (map enc as) = concat (map enc bs')"
    by (rule enc_inject)
  moreover from this have "as = bs'"
    using Cons.prems bs by (intro Cons.IH) simp_all
  ultimately show ?case by (simp add: bs)
qed

end

section \<open>One AVP\<close>

fun check_padding :: "byte list \<Rightarrow> nat \<Rightarrow> nat \<Rightarrow> wire_error + unit" where
  "check_padding data i 0 = Inr ()"
| "check_padding data i (Suc k) =
     bind_result (index data i) (\<lambda>b. if b \<noteq> 0 then Inl (NonZeroPadding i) else check_padding data (Suc i) k)"

definition read32 :: "byte list \<Rightarrow> nat \<Rightarrow> wire_error + u32" where
  "read32 data off = bind_result (slice data off (off + 4)) Uint32"

definition read24 :: "byte list \<Rightarrow> nat \<Rightarrow> wire_error + nat" where
  "read24 data off = Uint24 (drop off data)"

text \<open>The header part: header size and Vendor-ID, depending on the V flag.\<close>

definition decode_vendor :: "byte \<Rightarrow> byte list \<Rightarrow> wire_error + nat \<times> VendorID" where
  "decode_vendor flags data =
     (if vendor_flag flags then
        (if length data < AVPHeaderSizeVendor then Inl (VendorAVPTooShort (length data))
         else bind_result (read32 data 8) (\<lambda>vid. Inr (AVPHeaderSizeVendor, vid)))
      else Inr (AVPHeaderSize, 0))"

text \<open>The payload, once the header is read: length checks, data, padding.\<close>

definition decode_payload :: "AVPCode \<Rightarrow> byte \<Rightarrow> VendorID \<Rightarrow> nat \<Rightarrow> nat \<Rightarrow> byte list
    \<Rightarrow> wire_error + avp \<times> nat" where
  "decode_payload code flags vid headerSize avpLen data =
     (if avpLen < headerSize then Inl (InvalidAVPLength avpLen headerSize)
      else let dataLen = avpLen - headerSize in
        if length data < headerSize + dataLen then Inl (AVPDataExceedsBuffer (headerSize + dataLen) (length data))
        else bind_result (slice data headerSize avpLen) (\<lambda>d.
          let paddedLen = (if avpLen mod 4 \<noteq> 0 then avpLen + (4 - avpLen mod 4) else avpLen) in
          if length data < paddedLen then Inl (AVPPaddingExceedsBuffer paddedLen (length data))
          else bind_result (check_padding data avpLen (paddedLen - avpLen)) (\<lambda>_.
            Inr (AVP code flags vid d [], paddedLen))))"

definition decodeAVP :: "byte list \<Rightarrow> wire_error + avp \<times> nat" where
  "decodeAVP data =
     (if length data < AVPHeaderSize then Inl (AVPTooShort (length data))
      else bind_result (read32 data 0) (\<lambda>code. bind_result (index data 4) (\<lambda>flags.
        bind_result (read24 data 5) (\<lambda>avpLen. bind_result (decode_vendor flags data) (\<lambda>(headerSize, vid).
          decode_payload code flags vid headerSize avpLen data)))))"

definition DecodeAVP :: "byte list \<Rightarrow> wire_error + avp" where
  "DecodeAVP data = bind_result (decodeAVP data) (\<lambda>(a, _). Inr a)"

section \<open>The decoder inverts the wire format\<close>

text \<open>The AVPs the decoder can produce: no children, a Vendor-ID only with the V flag, a 24-bit length.\<close>

definition wire_avp :: "avp \<Rightarrow> bool" where
  "wire_avp a \<longleftrightarrow> aChildren a = [] \<and> (\<not> vendor_flag (aFlags a) \<longrightarrow> aVendorID a = 0) \<and>
     header_size (aFlags a) + length (aData a) < 2 ^ 24"

lemma read32_ok: "off + 4 \<le> length data \<Longrightarrow> read32 data off = Uint32 (drop off data)"
  using be32.get_take [of "drop off data"] by (simp add: read32_def)

lemma read32_total: "off + 4 \<le> length data \<Longrightarrow> \<exists>w. read32 data off = Inr w"
  by (simp add: read32_ok be32.get_total)

lemma padded_eq: "(if n mod 4 \<noteq> 0 then n + (4 - n mod 4) else n) = n + padding_of n"
  by (simp add: padding_of_def)

lemma check_padding_ok:
  "i + k \<le> length data \<Longrightarrow> check_padding data i k = Inr () \<longleftrightarrow> take k (drop i data) = replicate k 0"
proof (induction k arbitrary: i)
  case 0
  then show ?case by simp
next
  case (Suc k)
  then have "take (Suc k) (drop i data) = data ! i # take k (drop (Suc i) data)"
    by (metis Cons_nth_drop_Suc add_Suc_right less_add_same_cancel1 order_less_le_trans take_Suc_Cons zero_less_Suc)
  with Suc show ?case by auto
qed

lemma check_padding_not_panic:
  "i + k \<le> length data \<Longrightarrow> check_padding data i k = Inr () \<or> (\<exists>j. check_padding data i k = Inl (NonZeroPadding j))"
  by (induction k arbitrary: i) auto

lemma avp_wire_flat: "aChildren a = [] \<Longrightarrow> avp_wire a = wire_frame (aCode a) (aFlags a) (aVendorID a) (aData a)"
  by (cases a) simp

lemma EncodedLen_flat: "aChildren a = [] \<Longrightarrow> EncodedLen a =
   header_size (aFlags a) + length (aData a) + padding_of (header_size (aFlags a) + length (aData a))"
  by (cases a) (simp add: Let_def)

lemma decodeAVP_wire:
  assumes "wire_avp a"
  shows "decodeAVP (avp_wire a @ rest) = Inr (a, EncodedLen a)"
proof -
  obtain code flags vid d where a: "a = AVP code flags vid d []"
    using assms by (cases a) (auto simp: wire_avp_def)
  define n where "n = header_size flags + length d"
  have n24: "n < 2 ^ 24" and vid: "\<not> vendor_flag flags \<Longrightarrow> vid = 0"
    using assms by (auto simp: wire_avp_def a n_def)
  define data where "data = avp_wire a @ rest"
  define vb where "vb = (if vendor_flag flags then PutUint32 vid else [])"
  have data: "data = PutUint32 code @ flags # put24 (of_nat n) @ vb @ d @ replicate (padding_of n) 0 @ rest"
    by (simp add: data_def a wire_frame_def n_def vb_def Let_def)
  have hs: "header_size flags = 8 + length vb" by (simp add: vb_def)
  have len: "n + padding_of n \<le> length data"
    by (simp add: data n_def hs)
  have code: "read32 data 0 = Inr code"
    using len by (simp add: read32_ok data)
  have fl: "index data 4 = Inr flags"
    by (simp add: index_def data nth_append)
  have "drop 5 data = put24 (of_nat n) @ vb @ d @ replicate (padding_of n) 0 @ rest"
    by (simp add: data)
  then have l: "read24 data 5 = Inr n"
    using n24 by (simp add: read24_def unat_take_bit24)
  have vendor: "decode_vendor flags data = Inr (header_size flags, vid)"
    using vid by (cases "vendor_flag flags")
      (simp_all add: decode_vendor_def read32_ok data vb_def)
  define hd where "hd = PutUint32 code @ flags # put24 (of_nat n) @ vb"
  have data': "data = hd @ d @ replicate (padding_of n) 0 @ rest" and lhd: "length hd = header_size flags"
    by (simp_all add: data hs hd_def)
  have sl: "take (length d) (drop (header_size flags) data) = d"
    by (simp add: data' flip: lhd)
  have pad: "take (padding_of n) (drop n data) = replicate (padding_of n) 0"
    by (simp add: data' n_def flip: lhd)
  have "check_padding data n (padding_of n) = Inr ()"
    using len pad by (subst check_padding_ok) simp_all
  then have "decode_payload code flags vid (header_size flags) n data = Inr (a, n + padding_of n)"
    using len sl unfolding decode_payload_def padded_eq Let_def by (simp add: n_def a)
  then have "decodeAVP data = Inr (a, n + padding_of n)"
    using len by (simp add: decodeAVP_def code fl l vendor hs n_def)
  then show ?thesis
    by (simp add: data_def a n_def Let_def)
qed

lemma decode_payload_inverse:
  assumes "decode_payload code flags vid hs avpLen data = Inr (a, n)"
  shows "a = AVP code flags vid (take (avpLen - hs) (drop hs data)) []"
    and "n = avpLen + padding_of avpLen" and "hs \<le> avpLen" and "n \<le> length data"
    and "take (padding_of avpLen) (drop avpLen data) = replicate (padding_of avpLen) 0"
proof -
  note d = assms [unfolded decode_payload_def padded_eq Let_def]
  show h: "hs \<le> avpLen" and n: "n = avpLen + padding_of avpLen"
    and le: "n \<le> length data" and a: "a = AVP code flags vid (take (avpLen - hs) (drop hs data)) []"
    using d by (auto simp: bind_result_eq_Inr split: if_splits)
  show "take (padding_of avpLen) (drop avpLen data) = replicate (padding_of avpLen) 0"
    using d n le check_padding_ok [of avpLen "padding_of avpLen" data]
    by (auto simp: bind_result_eq_Inr split: if_splits)
qed

lemma take_header_layout:
  "take (4 + (1 + (3 + (k + (m + p))))) xs = take 4 xs @ take 1 (drop 4 xs) @ take 3 (drop 5 xs) @
   take k (drop 8 xs) @ take m (drop (8 + k) xs) @ take p (drop (8 + k + m) xs)"
proof -
  have e: "1 + 4 = (5::nat)" "3 + 5 = (8::nat)" "k + 8 = 8 + k" "m + (8 + k) = 8 + k + m" by simp_all
  show ?thesis by (simp only: take_add drop_drop e)
qed

lemma decodeAVP_inverse:
  assumes dec: "decodeAVP data = Inr (a, n)"
  shows "wire_avp a \<and> n = EncodedLen a \<and> data = avp_wire a @ drop n data"
proof -
  obtain code flags avpLen hs vid where
    len8: "8 \<le> length data" and code: "read32 data 0 = Inr code" and flags: "data ! 4 = flags"
    and l: "read24 data 5 = Inr avpLen" and v: "decode_vendor flags data = Inr (hs, vid)"
    and p: "decode_payload code flags vid hs avpLen data = Inr (a, n)"
    using dec by (auto simp: decodeAVP_def bind_result_eq_Inr index_def split: if_splits)
  note inv = decode_payload_inverse [OF p]
  have b24: "avpLen < 2 ^ 24" and p24: "put24 (of_nat avpLen) = take 3 (drop 5 data)"
    using l Uint24_inverse by (auto simp: read24_def)
  define vb where "vb = (if vendor_flag flags then PutUint32 vid else [])"
  have hs: "hs = header_size flags" and hs_len: "hs = 8 + length vb" and hs_data: "hs \<le> length data"
    and vid0: "\<not> vendor_flag flags \<Longrightarrow> vid = 0" and vb: "take (length vb) (drop 8 data) = vb"
    using v len8 be32.put_get_take [of "drop 8 data" vid]
    by (auto simp: decode_vendor_def vb_def bind_result_eq_Inr read32_ok split: if_splits)
  have c: "take 4 data = PutUint32 code"
    using code len8 be32.put_get_take [of data code] by (simp add: read32_ok)
  define d where "d = take (avpLen - hs) (drop hs data)"
  have a: "a = AVP code flags vid d []" and n_eq: "n = avpLen + padding_of avpLen"
    using inv by (simp_all add: d_def)
  have total: "header_size flags + length d = avpLen"
    using inv hs by (simp add: d_def)
  have c4: "take 1 (drop 4 data) = [flags]"
    using len8 flags by (simp add: take_Suc hd_drop_conv_nth)
  have "avp_wire a = PutUint32 code @ [flags] @ put24 (of_nat avpLen) @ vb @ d @ replicate (padding_of avpLen) 0"
    by (simp only: a avp_wire.simps wire_frame_def Let_def vb_def simp_thms if_True total)
  also have "\<dots> = take 4 data @ take 1 (drop 4 data) @ take 3 (drop 5 data) @ take (length vb) (drop 8 data)
      @ take (avpLen - hs) (drop hs data) @ take (padding_of avpLen) (drop avpLen data)"
    by (simp only: c p24 vb inv(5) c4 d_def)
  also have "\<dots> = take (4 + (1 + (3 + (length vb + ((avpLen - hs) + padding_of avpLen))))) data"
    using inv(3) by (simp only: take_header_layout) (simp add: hs_len add.commute)
  also have "\<dots> = take n data"
    using inv(3) by (simp add: n_eq hs_len)
  finally have "data = avp_wire a @ drop n data"
    by simp
  moreover have "wire_avp a"
    using b24 vid0 total by (simp add: a wire_avp_def)
  moreover have "n = EncodedLen a"
    using total n_eq by (simp add: a Let_def)
  ultimately show ?thesis by simp
qed

interpretation avp_codec: self_delimiting avp_wire decodeAVP wire_avp
proof unfold_locales
  show "0 < length (avp_wire a)" for a using EncodedLen_ge8 [of a] by simp
qed (simp_all add: decodeAVP_wire decodeAVP_inverse)

lemma avp_wire_neq_Nil [simp]: "avp_wire a \<noteq> []"
  by (metis EncodedLen_ge8 length_avp_wire list.size(3) not_numeral_le_zero)

section \<open>A sequence of AVPs\<close>

function decodeAVPs_loop :: "byte list \<Rightarrow> nat \<Rightarrow> avp list \<Rightarrow> wire_error + avp list" where
  "decodeAVPs_loop data off avps =
     (if off < length data then
        (case decodeAVP (drop off data) of
           Inl e \<Rightarrow> Inl (AtOffset off e)
         | Inr (a, consumed) \<Rightarrow> decodeAVPs_loop data (off + consumed) (avps @ [a]))
      else Inr avps)"
  by pat_completeness auto
termination
  by (relation "measure (\<lambda>(data, off, _). length data - off)") (auto dest: avp_codec.dec_consumes)

declare decodeAVPs_loop.simps [simp del]

definition decodeAVPs :: "byte list \<Rightarrow> wire_error + avp list" where
  "decodeAVPs data = decodeAVPs_loop data 0 []"

lemma decodeAVPs_loop_wire:
  "\<forall>a \<in> set as. wire_avp a \<Longrightarrow> length pre = off \<Longrightarrow>
   decodeAVPs_loop (pre @ concat (map avp_wire as)) off acc = Inr (acc @ as)"
proof (induction as arbitrary: pre off acc)
  case Nil
  then show ?case by (simp add: decodeAVPs_loop.simps)
next
  case (Cons a as)
  have "decodeAVPs_loop ((pre @ avp_wire a) @ concat (map avp_wire as)) (off + EncodedLen a) (acc @ [a]) =
      Inr ((acc @ [a]) @ as)"
    using Cons.prems by (intro Cons.IH) simp_all
  then show ?case
    using Cons.prems EncodedLen_ge8 [of a] by (subst decodeAVPs_loop.simps) (simp add: decodeAVP_wire)
qed

lemma decodeAVPs_wire: "\<forall>a \<in> set as. wire_avp a \<Longrightarrow> decodeAVPs (concat (map avp_wire as)) = Inr as"
  using decodeAVPs_loop_wire [of as "[]" 0 "[]"] by (simp add: decodeAVPs_def)

lemma decodeAVPs_loop_inverse:
  "decodeAVPs_loop data off acc = Inr as \<Longrightarrow> off \<le> length data \<Longrightarrow>
   \<exists>bs. as = acc @ bs \<and> (\<forall>b \<in> set bs. wire_avp b) \<and> drop off data = concat (map avp_wire bs)"
proof (induction data off acc rule: decodeAVPs_loop.induct)
  case (1 data off acc)
  show ?case
  proof (cases "off < length data")
    case False
    with "1.prems" show ?thesis
      by (intro exI [of _ "[]"]) (simp add: decodeAVPs_loop.simps [of data off acc])
  next
    case True
    then obtain a n where d: "decodeAVP (drop off data) = Inr (a, n)"
      and rec: "decodeAVPs_loop data (off + n) (acc @ [a]) = Inr as"
      using "1.prems"(1) by (auto simp: decodeAVPs_loop.simps [of data off acc] split: sum.splits)
    have "off + n \<le> length data"
      using avp_codec.dec_consumes [OF d] True by auto
    then obtain bs where bs: "as = (acc @ [a]) @ bs" "\<forall>b \<in> set bs. wire_avp b"
      "drop (off + n) data = concat (map avp_wire bs)"
      using "1.IH" [OF True d refl rec] by blast
    have "wire_avp a \<and> drop off data = avp_wire a @ drop (off + n) data"
      using avp_codec.enc_dec [OF d] by (simp add: add.commute)
    with bs show ?thesis by (intro exI [of _ "a # bs"]) simp
  qed
qed

lemma decodeAVPs_inverse:
  "decodeAVPs data = Inr as \<Longrightarrow> (\<forall>a \<in> set as. wire_avp a) \<and> data = concat (map avp_wire as)"
  using decodeAVPs_loop_inverse [of data 0 "[]" as] by (simp add: decodeAVPs_def)

section \<open>Grouped AVPs\<close>

definition DecodeGrouped :: "avp \<Rightarrow> wire_error + avp" where
  "DecodeGrouped a =
     (if length (aData a) = 0 then Inr a
      else case decodeAVPs (aData a) of
        Inl e \<Rightarrow> Inl (DecodingGrouped (aCode a) e)
      | Inr cs \<Rightarrow> Inr (AVP (aCode a) (aFlags a) (aVendorID a) (aData a) cs))"

text \<open>What a receiver sees of an AVP: the children of a grouped AVP are its data.\<close>

definition payload :: "avp \<Rightarrow> byte list" where
  "payload a = (if aChildren a = [] then aData a else concat (map avp_wire (aChildren a)))"

definition on_wire :: "avp \<Rightarrow> avp" where
  "on_wire a = AVP (aCode a) (aFlags a) (if vendor_flag (aFlags a) then aVendorID a else 0) (payload a) []"

lemma avp_wire_payload:
  "avp_wire a = wire_frame (aCode a) (aFlags a) (aVendorID a) (payload a)"
  by (cases a) (simp add: payload_def)

lemma wire_frame_vendor: "wire_frame c f (if vendor_flag f then v else 0) d = wire_frame c f v d"
  by (simp add: wire_frame_def)

lemma avp_wire_on_wire [simp]: "avp_wire (on_wire a) = avp_wire a"
  by (simp add: on_wire_def wire_frame_vendor avp_wire_payload [of a])

lemma EncodedLen_on_wire [simp]: "EncodedLen (on_wire a) = EncodedLen a"
  by (metis avp_wire_on_wire length_avp_wire)

lemma header_payload_le: "header_size (aFlags a) + length (payload a) \<le> EncodedLen a"
  by (cases a) (simp add: payload_def Let_def)

lemma wire_avp_on_wire: "EncodedLen a < 2 ^ 24 \<Longrightarrow> wire_avp (on_wire a)"
  using header_payload_le [of a] by (simp add: on_wire_def wire_avp_def)

lemma DecodeGrouped_wire:
  "DecodeGrouped a = Inr b \<Longrightarrow> aChildren a = [] \<Longrightarrow> avp_wire b = avp_wire a"
  using decodeAVPs_inverse [of "aData a"]
  by (auto simp: DecodeGrouped_def avp_wire_payload payload_def split: if_splits sum.splits)

lemma DecodeGrouped_on_wire:
  assumes "aChildren a \<noteq> []" and "\<forall>c \<in> set (aChildren a). EncodedLen c < 2 ^ 24"
  shows "DecodeGrouped (on_wire a) = Inr (AVP (aCode a) (aFlags a)
     (if vendor_flag (aFlags a) then aVendorID a else 0) (payload a) (map on_wire (aChildren a)))"
proof -
  have "payload a = concat (map avp_wire (map on_wire (aChildren a)))"
    using assms(1) by (simp add: payload_def comp_def)
  moreover from this have "decodeAVPs (payload a) = Inr (map on_wire (aChildren a))"
    using assms(2) decodeAVPs_wire [of "map on_wire (aChildren a)"] by (simp add: wire_avp_on_wire)
  moreover have "payload a \<noteq> []"
    using assms(1) by (cases "aChildren a") (simp_all add: payload_def)
  ultimately show ?thesis
    by (simp add: DecodeGrouped_def on_wire_def [of a])
qed

section \<open>Messages\<close>

text \<open>The part after the version and length checks: the other header fields and the AVPs.\<close>

definition decode_body :: "byte \<Rightarrow> nat \<Rightarrow> byte list \<Rightarrow> wire_error + message" where
  "decode_body version msgLen data =
     bind_result (index data 4) (\<lambda>flags.
     bind_result (read24 data 5) (\<lambda>cmd.
     bind_result (read32 data 8) (\<lambda>app.
     bind_result (read32 data 12) (\<lambda>hbh.
     bind_result (read32 data 16) (\<lambda>e2e.
     bind_result (slice data DiameterHeaderSize msgLen) (\<lambda>avpData.
       case decodeAVPs avpData of
         Inl e \<Rightarrow> Inl (DecodingAVPs e)
       | Inr avps \<Rightarrow> Inr \<lparr>Version = version, Flags = flags, mCommandCode = of_nat cmd,
           mApplicationID = app, mHopByHopID = hbh, mEndToEndID = e2e, AVPs = avps\<rparr>))))))"

definition DecodeMessage :: "byte list \<Rightarrow> wire_error + message" where
  "DecodeMessage data =
     (if length data < DiameterHeaderSize then Inl (MessageTooShort (length data))
      else bind_result (index data 0) (\<lambda>version.
        if version \<noteq> DiameterVersion then Inl (UnsupportedVersion version)
        else bind_result (read24 data 1) (\<lambda>msgLen.
          if msgLen < DiameterHeaderSize then Inl (LengthShorterThanHeader msgLen)
          else if length data < msgLen then Inl (LengthExceedsData msgLen (length data))
          else decode_body version msgLen data)))"

text \<open>The messages the decoder can produce, and what a receiver sees of any message.\<close>

definition wire_message :: "message \<Rightarrow> bool" where
  "wire_message m \<longleftrightarrow> Version m = DiameterVersion \<and> unat (mCommandCode m) < 2 ^ 24 \<and>
     Message_EncodedLen m \<le> 0xFFFFFF \<and> (\<forall>a \<in> set (AVPs m). wire_avp a)"

definition message_on_wire :: "message \<Rightarrow> message" where
  "message_on_wire m = m\<lparr>AVPs := map on_wire (AVPs m)\<rparr>"

lemma message_on_wire_simps [simp]:
  "Message_EncodedLen (message_on_wire m) = Message_EncodedLen m"
  "message_wire (message_on_wire m) = message_wire m"
  by (simp_all add: message_on_wire_def Message_EncodedLen_def message_wire_def header_wire_def comp_def)

lemma EncodedLen_le_message: "a \<in> set (AVPs m) \<Longrightarrow> EncodedLen a \<le> Message_EncodedLen m"
  by (simp add: Message_EncodedLen_def member_le_sum_list trans_le_add2)

lemma wire_message_on_wire:
  assumes "Version m = DiameterVersion" and "unat (mCommandCode m) < 2 ^ 24"
    and "Message_EncodedLen m \<le> 0xFFFFFF"
  shows "wire_message (message_on_wire m)"
proof -
  have "EncodedLen a < 2 ^ 24" if "a \<in> set (AVPs m)" for a
    using EncodedLen_le_message [OF that] assms(3) by simp
  then show ?thesis
    using assms message_on_wire_simps(1) [of m]
    by (simp add: wire_message_def message_on_wire_def wire_avp_on_wire)
qed

lemma header_wire_fields:
  "header_wire m n @ r = Version m # put24 (of_nat n) @ Flags m # put24 (ucast (mCommandCode m)) @
     PutUint32 (mApplicationID m) @ PutUint32 (mHopByHopID m) @ PutUint32 (mEndToEndID m) @ r"
  by (simp add: header_wire_def)

lemma DecodeMessage_wire:
  assumes "wire_message m"
  shows "DecodeMessage (message_wire m @ rest) = Inr m"
proof -
  define n where "n = Message_EncodedLen m"
  define r where "r = concat (map avp_wire (AVPs m)) @ rest"
  define data where "data = header_wire m n @ r"
  have data: "message_wire m @ rest = data"
    by (simp add: message_wire_def data_def n_def r_def)
  have ok: "Version m = 1" "unat (mCommandCode m) < 2 ^ 24" "n < 2 ^ 24" "\<forall>a \<in> set (AVPs m). wire_avp a"
    using assms by (simp_all add: wire_message_def n_def)
  have n: "n = 20 + length (concat (map avp_wire (AVPs m)))"
    by (simp add: n_def Message_EncodedLen_def)
  have len: "n \<le> length data" "20 \<le> length data"
    by (simp_all add: data_def n r_def)
  have l: "read24 data 1 = Inr n"
    using unat_take_bit24 [OF ok(3)] by (simp add: read24_def data_def header_wire_fields)
  have c: "read24 data 5 = Inr (unat (mCommandCode m))"
    using unat_take_bit24_word [OF ok(2)] by (simp add: read24_def data_def header_wire_fields)
  have w: "read32 data 8 = Inr (mApplicationID m)" "read32 data 12 = Inr (mHopByHopID m)"
    "read32 data 16 = Inr (mEndToEndID m)"
    using len by (simp_all add: read32_ok) (simp_all add: data_def header_wire_fields)
  have i: "index data 0 = Inr 1" "index data 4 = Inr (Flags m)"
    using len ok(1) by (simp_all add: index_def) (auto simp: data_def header_wire_fields nth_append)
  have s: "slice data 20 n = Inr (concat (map avp_wire (AVPs m)))"
    using len by (simp add: data_def r_def n)
  have "decode_body 1 n data = Inr m"
    unfolding decode_body_def using ok by (simp add: i c w s decodeAVPs_wire)
  then show ?thesis
    unfolding data DecodeMessage_def
    using len n by (simp add: i l [unfolded One_nat_def])
qed

lemma read32_take:
  "read32 data off = Inr w \<Longrightarrow> off + 4 \<le> length data \<Longrightarrow> PutUint32 w = take 4 (drop off data)"
  using be32.put_get_take [of "drop off data" w] by (simp add: read32_ok)

lemma take_message_layout:
  assumes "20 \<le> n"
  shows "take n xs = take 1 xs @ take 3 (drop 1 xs) @ take 1 (drop 4 xs) @ take 3 (drop 5 xs) @
   take 4 (drop 8 xs) @ take 4 (drop 12 xs) @ take 4 (drop 16 xs) @ take (n - 20) (drop 20 xs)"
proof -
  have "n = 1 + (3 + (1 + (3 + (4 + (4 + (4 + (n - 20)))))))" using assms by simp
  moreover have e: "3 + 1 = (4::nat)" "1 + 4 = (5::nat)" "3 + 5 = (8::nat)" "4 + 8 = (12::nat)"
    "4 + 12 = (16::nat)" "4 + 16 = (20::nat)" by simp_all
  have "take (1 + (3 + (1 + (3 + (4 + (4 + (4 + k))))))) xs = take 1 xs @ take 3 (drop 1 xs) @
     take 1 (drop 4 xs) @ take 3 (drop 5 xs) @ take 4 (drop 8 xs) @ take 4 (drop 12 xs) @
     take 4 (drop 16 xs) @ take k (drop 20 xs)" for k
    by (simp only: take_add drop_drop e)
  ultimately show ?thesis by metis
qed

text \<open>What a successful decode has read, field by field.\<close>

lemma DecodeMessage_fields:
  assumes "DecodeMessage data = Inr m"
  obtains msgLen cmd where "20 \<le> length data" "20 \<le> msgLen" "msgLen \<le> length data"
    "data ! 0 = 1" "Version m = 1" "data ! 4 = Flags m"
    "read24 data 1 = Inr msgLen" "read24 data 5 = Inr cmd" "mCommandCode m = of_nat cmd"
    "read32 data 8 = Inr (mApplicationID m)" "read32 data 12 = Inr (mHopByHopID m)"
    "read32 data 16 = Inr (mEndToEndID m)"
    "decodeAVPs (take (msgLen - 20) (drop 20 data)) = Inr (AVPs m)"
proof -
  from assms obtain msgLen where pre: "20 \<le> length data" "20 \<le> msgLen" "msgLen \<le> length data"
    "data ! 0 = 1" "read24 data 1 = Inr msgLen" and body: "decode_body 1 msgLen data = Inr m"
    by (auto simp: DecodeMessage_def bind_result_eq_Inr index_def split: if_splits)
  from body pre obtain cmd app hbh e2e as where "read24 data 5 = Inr cmd"
    "read32 data 8 = Inr app" "read32 data 12 = Inr hbh" "read32 data 16 = Inr e2e"
    "decodeAVPs (take (msgLen - 20) (drop 20 data)) = Inr as"
    "m = \<lparr>Version = 1, Flags = data ! 4, mCommandCode = of_nat cmd, mApplicationID = app,
       mHopByHopID = hbh, mEndToEndID = e2e, AVPs = as\<rparr>"
    by (cases "decodeAVPs (take (msgLen - 20) (drop 20 data))")
      (auto simp: decode_body_def bind_result_eq_Inr)
  with pre show thesis by (intro that) simp_all
qed

lemma DecodeMessage_inverse:
  assumes "DecodeMessage data = Inr m"
  shows "wire_message m" and "take (Message_EncodedLen m) data = message_wire m"
    and "Message_EncodedLen m \<le> length data"
proof -
  obtain msgLen cmd where len: "20 \<le> length data" "20 \<le> msgLen" "msgLen \<le> length data"
    and v: "data ! 0 = 1" "Version m = 1" and f: "data ! 4 = Flags m"
    and l: "read24 data 1 = Inr msgLen" and c: "read24 data 5 = Inr cmd" "mCommandCode m = of_nat cmd"
    and w: "read32 data 8 = Inr (mApplicationID m)" "read32 data 12 = Inr (mHopByHopID m)"
      "read32 data 16 = Inr (mEndToEndID m)"
    and s: "decodeAVPs (take (msgLen - 20) (drop 20 data)) = Inr (AVPs m)"
    using assms by (rule DecodeMessage_fields)
  note avps = decodeAVPs_inverse [OF s]
  have eq: "Message_EncodedLen m = msgLen"
    using len length_concat_avp_wire [of "AVPs m"] avps [THEN conjunct2, symmetric]
    by (simp add: Message_EncodedLen_def)
  have l24: "put24 (of_nat msgLen) = take 3 (drop 1 data)" "msgLen < 2 ^ 24"
    and c24: "put24 (of_nat cmd) = take 3 (drop 5 data)" "cmd < 2 ^ 24"
    using l c Uint24_inverse by (auto simp: read24_def)
  have uc: "unat (mCommandCode m) = cmd"
    using c24 by (simp add: c unat_of_nat)
  have cmd: "(ucast (mCommandCode m) :: u64) = of_nat cmd"
    by (simp add: uc [symmetric])
  show "wire_message m"
    using v l24 c24 eq avps by (simp add: wire_message_def uc)
  show "Message_EncodedLen m \<le> length data"
    using eq len by simp
  have one: "take 1 data = [Version m]" "take 1 (drop 4 data) = [Flags m]"
    using len v f by (cases data; simp add: take_Suc hd_drop_conv_nth)+
  show "take (Message_EncodedLen m) data = message_wire m"
    unfolding eq take_message_layout [OF len(2)] message_wire_def header_wire_def cmd
    using len avps w l24 c24 one by (simp add: read32_take)
qed

end
