(* ===== verification/Diam_Stream.thy ===== *)
theory Diam_Stream
  imports Diam_Decode
begin

text \<open>
  The rest of \<open>message/decode.go\<close>: \<open>Header\<close>, \<open>DecodeMessageHeader\<close> and \<open>ReadMessage\<close>.
  A connection is the list of the chunks its \<open>Read\<close> calls will deliver; the pooled read
  buffers keep their old contents, as they do in the code, and the theorems show that neither
  the chunking nor the stale contents can be observed. No input makes a decoder panic.
\<close>

section \<open>Absence of panics\<close>

fun panics :: "wire_error \<Rightarrow> bool" where
  "panics Panic = True"
| "panics (AtOffset _ e) = panics e"
| "panics (DecodingAVPs e) = panics e"
| "panics (DecodingGrouped _ e) = panics e"
| "panics (EncodingAVP _ e) = panics e"
| "panics _ = False"

definition no_panic :: "wire_error + 'a \<Rightarrow> bool" where
  "no_panic r = (case r of Inl e \<Rightarrow> \<not> panics e | Inr _ \<Rightarrow> True)"

lemma no_panic_simps [simp]: "no_panic (Inl e) \<longleftrightarrow> \<not> panics e" "no_panic (Inr x)"
  by (simp_all add: no_panic_def)










lemma DecodeGrouped_wire_children:
  assumes "aChildren a \<noteq> []" and "\<forall>c \<in> set (aChildren a). wire_avp c"
  shows "DecodeGrouped (on_wire a) = Inr (AVP (aCode a) (aFlags a)
     (if vendor_flag (aFlags a) then aVendorID a else 0) (payload a) (aChildren a))"
proof -
  have "payload a = concat (map avp_wire (aChildren a))" and "payload a \<noteq> []"
    using assms(1) by (cases "aChildren a"; simp add: payload_def)+
  moreover from this(1) have "decodeAVPs (payload a) = Inr (aChildren a)"
    using decodeAVPs_wire [OF assms(2)] by simp
  ultimately show ?thesis
    by (simp only: DecodeGrouped_def on_wire_def [of a] avp.sel length_0_conv if_False sum.case)
qed

section \<open>Messages are self-delimiting\<close>

definition decode_one :: "byte list \<Rightarrow> wire_error + message \<times> nat" where
  "decode_one bs = bind_result (DecodeMessage bs) (\<lambda>m. Inr (m, Message_EncodedLen m))"

interpretation message_codec: self_delimiting message_wire decode_one wire_message
proof unfold_locales
  fix m :: message and rest :: "byte list"
  assume "wire_message m"
  then show "decode_one (message_wire m @ rest) = Inr (m, length (message_wire m))"
    by (simp add: decode_one_def DecodeMessage_wire length_message_wire)
next
  fix bs m n
  assume "decode_one bs = Inr (m, n)"
  then have d: "DecodeMessage bs = Inr m" and n: "n = Message_EncodedLen m"
    by (auto simp: decode_one_def bind_result_eq_Inr)
  show "wire_message m \<and> n = length (message_wire m) \<and> bs = message_wire m @ drop n bs"
    using DecodeMessage_inverse [OF d] n by (metis append_take_drop_id length_message_wire)
next
  show "0 < length (message_wire m)" for m
    by (simp add: length_message_wire Message_EncodedLen_def)
qed

section \<open>Peeking at a header\<close>

record Header =
  hVersion :: byte
  MessageLength :: u32
  hFlags :: byte
  hCommandCode :: CommandCode
  hApplicationID :: ApplicationID
  hHopByHopID :: HopByHopID
  hEndToEndID :: EndToEndID

definition DecodeMessageHeader :: "byte list \<Rightarrow> wire_error + Header" where
  "DecodeMessageHeader data =
     (if length data < DiameterHeaderSize then Inl (HeaderTooShort (length data))
      else bind_result (index data 0) (\<lambda>version.
      bind_result (read24 data 1) (\<lambda>len.
      bind_result (index data 4) (\<lambda>flags.
      bind_result (read24 data 5) (\<lambda>cmd.
      bind_result (read32 data 8) (\<lambda>app.
      bind_result (read32 data 12) (\<lambda>hbh.
      bind_result (read32 data 16) (\<lambda>e2e.
        Inr \<lparr>hVersion = version, MessageLength = of_nat len, hFlags = flags, hCommandCode = of_nat cmd,
          hApplicationID = app, hHopByHopID = hbh, hEndToEndID = e2e\<rparr>))))))))"

definition Header_IsRequest :: "Header \<Rightarrow> bool" where
  "Header_IsRequest h \<longleftrightarrow> hFlags h AND CmdFlagRequest \<noteq> 0"

lemma DecodeMessageHeader_DecodeMessage:
  assumes "DecodeMessage data = Inr m"
  shows "DecodeMessageHeader data = Inr \<lparr>hVersion = Version m,
     MessageLength = of_nat (Message_EncodedLen m), hFlags = Flags m, hCommandCode = mCommandCode m,
     hApplicationID = mApplicationID m, hHopByHopID = mHopByHopID m, hEndToEndID = mEndToEndID m\<rparr>"
proof -
  obtain msgLen cmd where len: "20 \<le> length data" "20 \<le> msgLen" "msgLen \<le> length data"
    and v: "data ! 0 = 1" "Version m = 1" and f: "data ! 4 = Flags m"
    and l: "read24 data 1 = Inr msgLen" and c: "read24 data 5 = Inr cmd" "mCommandCode m = of_nat cmd"
    and w: "read32 data 8 = Inr (mApplicationID m)" "read32 data 12 = Inr (mHopByHopID m)"
      "read32 data 16 = Inr (mEndToEndID m)"
    and s: "decodeAVPs (take (msgLen - 20) (drop 20 data)) = Inr (AVPs m)"
    using assms by (rule DecodeMessage_fields)
  have "Message_EncodedLen m = msgLen"
    using len length_concat_avp_wire [of "AVPs m"] decodeAVPs_inverse [OF s, THEN conjunct2, symmetric]
    by (simp add: Message_EncodedLen_def)
  moreover have "index data 0 = Inr 1" "index data 4 = Inr (Flags m)"
    using len v f by (auto simp: index_def)
  ultimately show ?thesis
    using len v by (simp add: DecodeMessageHeader_def l [unfolded One_nat_def] c w)
qed

section \<open>Reading from a connection\<close>

text \<open>
  \<open>io.ReadFull\<close> over the chunks that successive \<open>Read\<close> calls deliver: the bytes stored in the
  buffer (fewer than asked when the connection ends) and the rest of the connection.
\<close>

fun ReadFull :: "nat \<Rightarrow> byte list list \<Rightarrow> byte list \<times> byte list list" where
  "ReadFull n [] = ([], [])"
| "ReadFull n (c # r) =
     (if n = 0 then ([], c # r)
      else if length c \<le> n then (let (d, r') = ReadFull (n - length c) r in (c @ d, r'))
      else (take n c, drop n c # r))"

definition readBufSize :: nat where [simp]: "readBufSize = 4096"

text \<open>\<open>readBufPool.Get\<close>: a used buffer with its old contents, or a new one.\<close>

definition readBuf_get :: "byte list list \<Rightarrow> byte list \<times> byte list list" where
  "readBuf_get pool = (case pool of [] \<Rightarrow> (replicate readBufSize 0, []) | b # bs \<Rightarrow> (b, bs))"

text \<open>
  \<open>ReadMessage\<close>: the message or the error, the rest of the connection, the buffer pool. A
  message that does not fit the pooled buffer gets one of its own, with the header copied.
\<close>

definition read_body :: "byte list \<Rightarrow> nat \<Rightarrow> byte list list \<Rightarrow> byte list list
    \<Rightarrow> (wire_error + message) \<times> byte list list \<times> byte list list" where
  "read_body buf msgLen r pool =
     (let pooled = (msgLen \<le> length buf);
          data = (if pooled then take msgLen buf
                  else copy_at (replicate msgLen 0) 0 (take DiameterHeaderSize buf));
          remaining = msgLen - DiameterHeaderSize;
          (body, r') = (if 0 < remaining then ReadFull remaining r else ([], r));
          data' = copy_at data DiameterHeaderSize body;
          pool' = (if pooled then copy_at buf 0 data' # pool else buf # pool) in
      if length body < remaining then (Inl ReadingBody, r', pool')
      else (DecodeMessage data', r', pool'))"

definition ReadMessage :: "byte list list \<Rightarrow> byte list list
    \<Rightarrow> (wire_error + message) \<times> byte list list \<times> byte list list" where
  "ReadMessage r pool =
     (let (buf, pool) = readBuf_get pool;
          (hdr, r) = ReadFull DiameterHeaderSize r;
          buf = copy_at buf 0 hdr in
      if length hdr < DiameterHeaderSize then (Inl ReadingHeader, r, buf # pool)
      else case index buf 0 of Inl e \<Rightarrow> (Inl e, r, pool) | Inr version \<Rightarrow>
        if version \<noteq> DiameterVersion then (Inl (UnsupportedVersion version), r, buf # pool)
        else case read24 buf 1 of Inl e \<Rightarrow> (Inl e, r, pool) | Inr msgLen \<Rightarrow>
          if msgLen < DiameterHeaderSize then (Inl (InvalidMessageLength msgLen), r, buf # pool)
          else read_body buf msgLen r pool)"

definition readPool_ok :: "byte list list \<Rightarrow> bool" where
  "readPool_ok pool \<longleftrightarrow> (\<forall>b \<in> set pool. length b = readBufSize)"

lemma ReadFull_0 [simp]: "ReadFull 0 r = ([], r)"
  by (cases r) simp_all

lemma ReadFull_concat:
  "ReadFull n r = (d, r') \<Longrightarrow> d = take n (concat r) \<and> concat r' = drop n (concat r)"
  by (induction n r arbitrary: d r' rule: ReadFull.induct)
    (auto split: if_splits prod.splits)

lemma ReadFull_data: "fst (ReadFull n r) = take n (concat r)"
  and ReadFull_rest: "concat (snd (ReadFull n r)) = drop n (concat r)"
  using ReadFull_concat [of n r] by (metis prod.collapse)+

text \<open>What a read delivers, as a function of the bytes of the connection alone.\<close>

definition read_spec :: "byte list \<Rightarrow> (wire_error + message) \<times> nat" where
  "read_spec bs =
     (if length bs < 20 then (Inl ReadingHeader, length bs)
      else if hd bs \<noteq> DiameterVersion then (Inl (UnsupportedVersion (hd bs)), 20)
      else case read24 bs 1 of Inl e \<Rightarrow> (Inl e, 20) | Inr msgLen \<Rightarrow>
        if msgLen < 20 then (Inl (InvalidMessageLength msgLen), 20)
        else if length bs < msgLen then (Inl ReadingBody, length bs)
        else (DecodeMessage (take msgLen bs), msgLen))"

lemma read24_prefix: "off + 3 \<le> length xs \<Longrightarrow> read24 (xs @ ys) off = read24 xs off"
proof -
  assume "off + 3 \<le> length xs"
  then obtain a b c zs where "drop off xs = a # b # c # zs"
    by (metis (no_types) Cons_nth_drop_Suc add_2_eq_Suc' add_Suc_right eval_nat_numeral(3)
        less_add_Suc1 numeral_2_eq_2 order_less_le_trans Suc_le_lessD add_leE)
  moreover from this have "off < length xs" by (metis drop_all leI list.distinct(1))
  ultimately show ?thesis by (simp add: read24_def)
qed

lemma readBuf_get_ok:
  "readPool_ok pool \<Longrightarrow> readBuf_get pool = (b, pool') \<Longrightarrow> length b = 4096 \<and> readPool_ok pool'"
  by (auto simp: readBuf_get_def readPool_ok_def split: list.splits)

lemma read_body_spec:
  assumes buf: "length buf = 4096" "take 20 buf = hdr" "length hdr = 20"
    and n: "20 \<le> msgLen" and pool: "readPool_ok pool"
    and r: "read_body buf msgLen r pool = (res, r', pool')"
  shows "res = (if 20 + length (concat r) < msgLen then Inl ReadingBody
                else DecodeMessage (take msgLen (hdr @ concat r)))"
    and "concat r' = drop (msgLen - 20) (concat r)" and "readPool_ok pool'"
proof -
  define body where "body = take (msgLen - 20) (concat r)"
  obtain r'' where rf: "ReadFull (msgLen - 20) r = (body, r'')"
    and r'': "concat r'' = drop (msgLen - 20) (concat r)"
    using ReadFull_concat [of "msgLen - 20" r] by (cases "ReadFull (msgLen - 20) r") (simp add: body_def)
  then have read: "(if 0 < msgLen - 20 then ReadFull (msgLen - 20) r else ([], r)) = (body, r'')"
    by auto
  define data where "data = (if msgLen \<le> 4096 then take msgLen buf
      else copy_at (replicate msgLen 0) 0 hdr)"
  have ld: "length data = msgLen"
    using n buf by (simp add: data_def)
  have data20: "take 20 data = hdr"
    using n buf by (auto simp: data_def copy_at_def min_def)
  have d: "(res, r', pool') =
     (if length body < msgLen - 20 then (Inl ReadingBody, r'', if msgLen \<le> 4096 then copy_at buf 0 (copy_at data 20 body) # pool else buf # pool)
      else (DecodeMessage (copy_at data 20 body), r'', if msgLen \<le> 4096 then copy_at buf 0 (copy_at data 20 body) # pool else buf # pool))"
    using r unfolding read_body_def Let_def DiameterHeaderSize_def read prod.case buf data_def by simp
  have full: "copy_at data 20 body = take msgLen (hdr @ concat r)" if "msgLen \<le> 20 + length (concat r)"
  proof -
    have "length body = msgLen - 20" using that by (simp add: body_def)
    then show ?thesis
      using n buf ld that by (simp add: copy_at_def data20 body_def)
  qed
  show "res = (if 20 + length (concat r) < msgLen then Inl ReadingBody
                else DecodeMessage (take msgLen (hdr @ concat r)))"
    using d n full by (auto simp: body_def data_def min_def split: if_splits)
  show "concat r' = drop (msgLen - 20) (concat r)"
    using d r'' by (simp split: if_splits)
  show "readPool_ok pool'"
    using d pool buf n ld by (simp add: readPool_ok_def split: if_splits)
qed

lemma ReadMessage_spec:
  assumes pool: "readPool_ok pool" and r: "ReadMessage r pool = (res, r', pool')"
  shows "res = fst (read_spec (concat r))" and "concat r' = drop (snd (read_spec (concat r))) (concat r)"
    and "readPool_ok pool'"
proof -
  obtain b p where g: "readBuf_get pool = (b, p)" "length b = 4096" "readPool_ok p"
    using readBuf_get_ok [OF pool] by (cases "readBuf_get pool") auto
  define hdr where "hdr = take 20 (concat r)"
  obtain r0 where rf: "ReadFull 20 r = (hdr, r0)" and r0: "concat r0 = drop 20 (concat r)"
    using ReadFull_concat [of 20 r] by (cases "ReadFull 20 r") (simp add: hdr_def)
  define buf where "buf = copy_at b 0 hdr"
  have lb: "length buf = 4096" by (simp add: buf_def g)
  have hd: "length hdr = min 20 (length (concat r))" by (simp add: hdr_def)
  have ok: "readPool_ok (buf # p)" using g lb by (simp add: readPool_ok_def)
  note d = r [unfolded ReadMessage_def Let_def g prod.case DiameterHeaderSize_def rf, folded buf_def]
  have "res = fst (read_spec (concat r)) \<and> concat r' = drop (snd (read_spec (concat r))) (concat r)
      \<and> readPool_ok pool'"
  proof (cases "length (concat r) < 20")
    case True
    with d hd r0 ok show ?thesis by (simp add: read_spec_def)
  next
    case False
    then have l20: "length hdr = 20" by (simp add: hdr_def)
    have t20: "take 20 buf = hdr" and bh: "buf = hdr @ drop 20 b"
      using l20 g(2) by (simp_all add: buf_def copy_at_def)
    have split: "concat r = hdr @ concat r0" by (simp add: r0 hdr_def)
    have i0: "index buf 0 = Inr (hd (concat r))"
      using l20 lb by (cases hdr) (simp_all add: bh split index_def)
    have "read24 buf 1 = read24 hdr 1" "read24 (concat r) 1 = read24 hdr 1"
      unfolding bh split using l20 by (simp_all add: read24_prefix)
    then obtain msgLen where l: "read24 buf 1 = Inr msgLen" "read24 (concat r) 1 = Inr msgLen"
      using Uint24_total [of "drop 1 hdr"] l20 by (auto simp: read24_def)
    show ?thesis
    proof (cases "hd (concat r) \<noteq> DiameterVersion \<or> msgLen < 20")
      case True
      with d l20 i0 l r0 ok False show ?thesis by (auto simp: read_spec_def)
    next
      case big: False
      then have rb: "read_body buf msgLen r0 p = (res, r', pool')"
        using d l20 i0 l by simp
      have lr: "length (concat r) = 20 + length (concat r0)" by (simp add: split l20)
      have n: "20 \<le> msgLen" using big by simp
      note b = read_body_spec [OF lb t20 l20 n g(3) rb]
      have dd: "drop (msgLen - 20) (drop 20 (concat r)) = drop msgLen (concat r)"
        using n by simp
      have "read_spec (concat r) = (if length (concat r) < msgLen then (Inl ReadingBody, length (concat r))
          else (DecodeMessage (take msgLen (concat r)), msgLen))"
        using False big l by (simp add: read_spec_def)
      moreover have "res = (if length (concat r) < msgLen then Inl ReadingBody
          else DecodeMessage (take msgLen (concat r)))"
        using b(1) by (simp only: lr split [symmetric])
      moreover have "concat r' = drop msgLen (concat r)"
        using b(2) dd by (simp only: r0)
      ultimately show ?thesis using b(3) by simp
    qed
  qed
  then show "res = fst (read_spec (concat r))"
    and "concat r' = drop (snd (read_spec (concat r))) (concat r)" and "readPool_ok pool'" by simp_all
qed

lemma read_spec_wire:
  assumes "wire_message m"
  shows "read_spec (message_wire m @ rest) = (Inr m, Message_EncodedLen m)"
proof -
  have n: "Message_EncodedLen m < 2 ^ 24" "20 \<le> Message_EncodedLen m" and v: "Version m = 1"
    using assms by (simp_all add: wire_message_def Message_EncodedLen_def)
  have l: "read24 (message_wire m @ rest) 1 = Inr (Message_EncodedLen m)"
    using unat_take_bit24 [OF n(1)] by (simp add: read24_def message_wire_def header_wire_fields)
  have h: "hd (message_wire m @ rest) = 1"
    by (simp add: message_wire_def header_wire_fields v)
  have d: "DecodeMessage (message_wire m) = Inr m"
    using DecodeMessage_wire [OF assms, of "[]"] by simp
  show ?thesis
    using n l h d by (simp add: read_spec_def length_message_wire)
qed


text \<open>Reading one message after the other, as the read loops do.\<close>

fun read_stream :: "nat \<Rightarrow> byte list list \<Rightarrow> byte list list \<Rightarrow> (wire_error + message) list \<times> byte list list \<times> byte list list" where
  "read_stream 0 r pool = ([], r, pool)"
| "read_stream (Suc n) r pool =
     (let (res, r, pool) = ReadMessage r pool; (ress, r, pool) = read_stream n r pool in (res # ress, r, pool))"

lemma read_stream_wire:
  "readPool_ok pool \<Longrightarrow> \<forall>m \<in> set ms. wire_message m \<Longrightarrow> concat r = concat (map message_wire ms) @ rest \<Longrightarrow>
   read_stream (length ms) r pool = (ress, r', pool') \<Longrightarrow>
   ress = map Inr ms \<and> concat r' = rest \<and> readPool_ok pool'"
proof (induction ms arbitrary: r pool ress r' pool')
  case (Cons m ms)
  obtain res r1 p1 where one: "ReadMessage r pool = (res, r1, p1)" by (cases "ReadMessage r pool")
  obtain ress2 where two: "read_stream (length ms) r1 p1 = (ress2, r', pool')" and ress: "ress = res # ress2"
    using Cons.prems(4) one by (auto simp: Let_def split: prod.splits)
  have "read_spec (concat r) = (Inr m, Message_EncodedLen m)"
    using Cons.prems read_spec_wire [of m] by simp
  then have "res = Inr m" "concat r1 = concat (map message_wire ms) @ rest" "readPool_ok p1"
    using ReadMessage_spec [OF Cons.prems(1) one] Cons.prems(3) by (simp_all add: length_message_wire)
  with Cons.IH [OF _ _ _ two] Cons.prems(2) ress show ?case by simp
qed auto

section \<open>Properties of the wire format\<close>

definition sample_avp :: avp where
  "sample_avp = AVP 264 0x40 7 [0x61, 0x62, 0x63] []"

definition sample_message :: message where
  "sample_message = \<lparr>Version = 1, Flags = 0xC0, mCommandCode = 272, mApplicationID = 4, mHopByHopID = 5,
     mEndToEndID = 6, AVPs = [sample_avp, AVP 443 0x40 0 [] [sample_avp]]\<rparr>"

text \<open>
  C1: decoding inverts encoding. Whatever message \<open>Encode\<close> accepts, \<open>DecodeMessage\<close> reads back from
  its output, whatever follows it in the buffer: every header field, every AVP, the data of a
  grouped AVP being its encoded children and the Vendor-ID being kept only under the V flag. The
  hypotheses are the two fields the wire cannot carry otherwise: the version must be 1, and the
  command code must fit its 24 bits.
\<close>
theorem decode_encode_roundtrip:
  assumes "Encode m = Inr bs" and "Version m = DiameterVersion" and "unat (mCommandCode m) < 2 ^ 24"
  shows "DecodeMessage (bs @ rest) = Inr (message_on_wire m)"
proof -
  have "wire_message (message_on_wire m)" and "bs = message_wire (message_on_wire m)"
    using assms wire_message_on_wire [of m] by (simp_all add: Encode_eq split: if_splits)
  then show ?thesis by (simp only: DecodeMessage_wire)
qed

theorem decode_encode_roundtrip_witness:
  "\<exists>bs. Encode sample_message = Inr bs \<and> DecodeMessage (bs @ [0, 1]) = Inr (message_on_wire sample_message)"
proof -
  have e: "Encode sample_message = Inr (message_wire sample_message)"
    by (simp add: Encode_eq sample_message_def sample_avp_def Message_EncodedLen_def Let_def padding_of_def
        vendor_flag_def)
  moreover have "Version sample_message = DiameterVersion" "unat (mCommandCode sample_message) < 2 ^ 24"
    by (simp_all add: sample_message_def)
  ultimately show ?thesis using decode_encode_roundtrip by blast
qed

text \<open>
  C2: the encoding is canonical. A byte string that \<open>DecodeMessage\<close> accepts is, up to its message
  length, exactly what \<open>Encode\<close> makes of the decoded message: there are no two wire forms of
  one message, so relaying a message unchanged forwards it bit for bit.
\<close>
theorem encode_decode_canonical:
  assumes "DecodeMessage data = Inr m"
  shows "Encode m = Inr (take (Message_EncodedLen m) data) \<and> Message_EncodedLen m \<le> length data"
  using DecodeMessage_inverse [OF assms] by (simp add: Encode_eq wire_message_def)

theorem encode_decode_canonical_witness:
  "Encode (message_on_wire sample_message) =
     Inr (take (Message_EncodedLen (message_on_wire sample_message)) (message_wire sample_message)) \<and>
   Message_EncodedLen (message_on_wire sample_message) \<le> length (message_wire sample_message)"
proof -
  have "wire_message (message_on_wire sample_message)"
    by (rule wire_message_on_wire)
      (simp_all add: sample_message_def sample_avp_def Message_EncodedLen_def Let_def padding_of_def vendor_flag_def)
  then have "DecodeMessage (message_wire sample_message) = Inr (message_on_wire sample_message)"
    using DecodeMessage_wire [of "message_on_wire sample_message" "[]"] by simp
  then show ?thesis by (rule encode_decode_canonical)
qed

text \<open>
  C3: the pooled encoder computes the plain encoding. With any stale contents in the buffer pools,
  \<open>Encode\<close> returns the header followed by the frames of the AVPs, or refuses a message of more
  than 0xFFFFFF bytes; nothing of an earlier message leaks into the output.
\<close>
theorem encode_refines_wire_format:
  assumes "pools_ok ps"
  shows "fst (Encode_with m ps) =
    (if 0xFFFFFF < Message_EncodedLen m then Inl (MessageTooLarge (Message_EncodedLen m))
     else Inr (header_wire m (Message_EncodedLen m) @ concat (map avp_wire (AVPs m))))"
  using Encode_with_eq [OF assms] by (simp add: message_wire_def)

theorem encode_refines_wire_format_witness:
  "fst (Encode_with sample_message \<lparr>smallBufPool = [replicate 256 0xFF], mediumBufPool = []\<rparr>) =
    (if 0xFFFFFF < Message_EncodedLen sample_message then Inl (MessageTooLarge (Message_EncodedLen sample_message))
     else Inr (header_wire sample_message (Message_EncodedLen sample_message) @ concat (map avp_wire (AVPs sample_message))))"
  by (rule encode_refines_wire_format) (simp add: pools_ok_def)

text \<open>
  C4: framing. A connection that carries the encodings of some messages one after the other,
  cut into chunks in any way, is read back by successive \<open>ReadMessage\<close> calls as exactly those
  messages in order, and the bytes after them are left on the connection. The read buffers may
  hold anything from earlier reads.
\<close>
theorem read_message_framing:
  assumes "readPool_ok pool" and "\<forall>m \<in> set ms. wire_message m"
    and "concat r = concat (map message_wire ms) @ rest"
    and "read_stream (length ms) r pool = (ress, r', pool')"
  shows "ress = map Inr ms \<and> concat r' = rest"
  using read_stream_wire [OF assms] by simp

theorem read_message_framing_witness:
  "\<exists>r' pool'. read_stream 2 [message_wire sample_message @ [1], drop 1 (message_wire sample_message) @ [9]] [replicate 4096 7] =
     ([Inr (message_on_wire sample_message), Inr (message_on_wire sample_message)], r', pool') \<and> concat r' = [9]"
proof -
  let ?m = "message_on_wire sample_message"
  let ?r = "[message_wire sample_message @ [1], drop 1 (message_wire sample_message) @ [9 :: byte]]"
  obtain ress r' pool' where rs: "read_stream (length [?m, ?m]) ?r [replicate 4096 7] = (ress, r', pool')"
    by (metis prod_cases3)
  have "wire_message ?m"
    by (rule wire_message_on_wire)
      (simp_all add: sample_message_def sample_avp_def Message_EncodedLen_def Let_def padding_of_def vendor_flag_def)
  moreover have "message_wire sample_message = 1 # drop 1 (message_wire sample_message)"
    by (simp add: message_wire_def header_wire_def sample_message_def)
  then have "concat ?r = concat (map message_wire [?m, ?m]) @ [9]"
    by (simp only: message_on_wire_simps list.map concat.simps append_Nil2 append_assoc)
      (metis append_Cons append_Nil)
  ultimately have "ress = map Inr [?m, ?m] \<and> concat r' = [9]"
    using read_message_framing [OF _ _ _ rs, of "[9]"] by (simp add: readPool_ok_def)
  with rs show ?thesis by (simp add: numeral_2_eq_2)
qed


text \<open>
  Grouped AVPs. Encoding a grouped AVP and decoding its data again gives the children back,
  and an AVP whose data was decoded into children re-encodes to the bytes it came from.
\<close>
theorem grouped_roundtrip:
  assumes "aChildren a \<noteq> []" and "\<forall>c \<in> set (aChildren a). wire_avp c"
  shows "\<exists>b. DecodeGrouped (on_wire a) = Inr b \<and> aChildren b = aChildren a \<and> avp_wire b = avp_wire a"
proof -
  obtain b where b: "DecodeGrouped (on_wire a) = Inr b" and c: "aChildren b = aChildren a"
    using DecodeGrouped_wire_children [OF assms] avp.sel(5) by blast
  moreover have "avp_wire b = avp_wire (on_wire a)"
    using DecodeGrouped_wire [OF b] by (simp add: on_wire_def)
  ultimately show ?thesis by simp
qed

theorem grouped_roundtrip_witness:
  "\<exists>b. DecodeGrouped (on_wire (AVP 443 0x40 0 [] [AVP 450 0x40 0 [1] []])) = Inr b \<and>
     aChildren b = [AVP 450 0x40 0 [1] []] \<and> avp_wire b = avp_wire (AVP 443 0x40 0 [] [AVP 450 0x40 0 [1] []])"
  using grouped_roundtrip [of "AVP 443 0x40 0 [] [AVP 450 0x40 0 [1] []]"]
  by (simp add: wire_avp_def vendor_flag_def)

text \<open>
  Peeking at a header agrees with decoding. Whenever \<open>DecodeMessage\<close> accepts its input,
  \<open>DecodeMessageHeader\<close> returns the same fields and the length of the whole encoded message, and its
  \<open>IsRequest\<close> agrees with the message's.
\<close>
theorem header_agrees_with_message:
  assumes "DecodeMessage data = Inr m"
  shows "\<exists>h. DecodeMessageHeader data = Inr h \<and> hCommandCode h = mCommandCode m \<and>
     hApplicationID h = mApplicationID m \<and> hHopByHopID h = mHopByHopID m \<and> hEndToEndID h = mEndToEndID m \<and>
     unat (MessageLength h) = Message_EncodedLen m \<and> (Header_IsRequest h \<longleftrightarrow> IsRequest m)"
proof -
  have "Message_EncodedLen m < 2 ^ 32"
    using DecodeMessage_inverse(1) [OF assms] by (simp add: wire_message_def)
  then show ?thesis
    by (simp add: DecodeMessageHeader_DecodeMessage [OF assms] Header_IsRequest_def IsRequest_def unat_of_nat)
qed

theorem header_agrees_with_message_witness:
  "\<exists>h. DecodeMessageHeader (message_wire \<lparr>Version = 1, Flags = 0x80, mCommandCode = 280, mApplicationID = 0,
     mHopByHopID = 9, mEndToEndID = 8, AVPs = []\<rparr>) = Inr h \<and> hHopByHopID h = 9 \<and> Header_IsRequest h"
proof -
  let ?m = "\<lparr>Version = 1, Flags = 0x80, mCommandCode = 280, mApplicationID = 0,
     mHopByHopID = 9, mEndToEndID = 8, AVPs = []\<rparr> :: message"
  have "wire_message ?m" by (simp add: wire_message_def Message_EncodedLen_def)
  then have "DecodeMessage (message_wire ?m) = Inr ?m"
    using DecodeMessage_wire [of ?m "[]"] by simp
  then show ?thesis
    using header_agrees_with_message by (fastforce simp: IsRequest_def)
qed

end
