(* ===== verification/Peer_Queue.thy ===== *)
theory Peer_Queue
  imports Diam_Stream
begin

text \<open>
  File \<open>pkg/core/peer/writer.go\<close>, the lock-free queue: a ring of slots, a head counter that
  producers advance by compare-and-swap, a tail counter of the single consumer. First the
  operations run without interference, against the laws of a FIFO queue (locale \<open>fifo\<close>); then
  every atomic access is a step of its own, producers and the consumer interleave freely, and the
  invariant shows that the consumer takes exactly the claimed messages, in claim order.
\<close>

section \<open>The interface of a bounded FIFO queue\<close>

text \<open>
  \<open>inv n q\<close>: the queue is well formed and its counters allow \<open>n\<close> more enqueues before they
  wrap. \<open>deq\<close> is \<open>None\<close> when the call does not return.
\<close>

locale fifo =
  fixes enq :: "'q \<Rightarrow> 'a \<Rightarrow> bool \<times> 'q"
    and deq :: "'q \<Rightarrow> ('a option \<times> 'q) option"
    and items :: "'q \<Rightarrow> 'a list"
    and inv :: "nat \<Rightarrow> 'q \<Rightarrow> bool"
    and cap :: nat
  assumes enq_room: "inv (Suc n) q \<Longrightarrow> length (items q) < cap \<Longrightarrow>
      \<exists>q'. enq q a = (True, q') \<and> items q' = items q @ [a] \<and> inv n q'"
    and enq_full: "inv n q \<Longrightarrow> length (items q) = cap \<Longrightarrow> enq q a = (False, q)"
    and deq_empty: "inv n q \<Longrightarrow> items q = [] \<Longrightarrow> deq q = Some (None, q)"
    and deq_head: "inv n q \<Longrightarrow> items q = a # as \<Longrightarrow>
      \<exists>q'. deq q = Some (Some a, q') \<and> items q' = as \<and> inv n q'"
begin

fun enq_all :: "'q \<Rightarrow> 'a list \<Rightarrow> bool \<times> 'q" where
  "enq_all q [] = (True, q)"
| "enq_all q (a # as) = (case enq q a of (ok, q') \<Rightarrow> if ok then enq_all q' as else (False, q'))"

text \<open>A batch of dequeues that stops at the empty queue.\<close>

fun deq_upto :: "nat \<Rightarrow> 'q \<Rightarrow> ('a list \<times> 'q) option" where
  "deq_upto 0 q = Some ([], q)"
| "deq_upto (Suc n) q = (case deq q of None \<Rightarrow> None | Some (None, q') \<Rightarrow> Some ([], q')
     | Some (Some a, q') \<Rightarrow> (case deq_upto n q' of None \<Rightarrow> None | Some (as, q'') \<Rightarrow> Some (a # as, q'')))"

lemma enq_all_items:
  "inv (length as + n) q \<Longrightarrow> length (items q) + length as \<le> cap \<Longrightarrow>
   \<exists>q'. enq_all q as = (True, q') \<and> items q' = items q @ as \<and> inv n q'"
proof (induction as arbitrary: q)
  case (Cons a as)
  then obtain q' where q': "enq q a = (True, q')" "items q' = items q @ [a]" "inv (length as + n) q'"
    using enq_room [of "length as + n" q a] by auto
  then show ?case
    using Cons.IH [of q'] Cons.prems(2) by auto
qed simp

lemma deq_upto_items:
  "inv n q \<Longrightarrow> \<exists>q'. deq_upto k q = Some (take k (items q), q') \<and> items q' = drop k (items q) \<and> inv n q'"
proof (induction k arbitrary: q)
  case (Suc k)
  show ?case
  proof (cases "items q")
    case Nil
    then show ?thesis using deq_empty [OF Suc.prems] Suc.prems by simp
  next
    case (Cons a as)
    then obtain q' where q': "deq q = Some (Some a, q')" "items q' = as" "inv n q'"
      using deq_head [OF Suc.prems] by auto
    then show ?thesis using Suc.IH [of q'] Cons by auto
  qed
qed simp

lemma fifo_order:
  "inv (length as + n) q \<Longrightarrow> items q = [] \<Longrightarrow> length as \<le> cap \<Longrightarrow>
   \<exists>q' q''. enq_all q as = (True, q') \<and> deq_upto (length as) q' = Some (as, q'') \<and> items q'' = []"
  using enq_all_items [of as n q] deq_upto_items [of n _ "length as"] by force

end

section \<open>The ring buffer\<close>

record msgSlot =
  slotMsg :: "message option"
  ready :: bool

record lockFreeQueue =
  slots :: "nat \<Rightarrow> msgSlot"
  head :: u64
  tail :: u64
  notEmpty :: bool

definition writerBatchSize :: nat where [simp]: "writerBatchSize = 32"
definition ringBufferSize :: u64 where "ringBufferSize = 8192"
definition ringBufferMask :: u64 where "ringBufferMask = ringBufferSize - 1"

definition newLockFreeQueue :: lockFreeQueue where
  "newLockFreeQueue = \<lparr>slots = (\<lambda>_. \<lparr>slotMsg = None, ready = False\<rparr>), head = 0, tail = 0, notEmpty = False\<rparr>"

text \<open>The slot of a counter value: \<open>&q.slots[i&ringBufferMask]\<close>.\<close>

definition slot_index :: "u64 \<Rightarrow> nat" where
  "slot_index i = unat (i AND ringBufferMask)"

definition Push :: "lockFreeQueue \<Rightarrow> message \<Rightarrow> bool \<times> lockFreeQueue" where
  "Push q m =
     (if ringBufferSize \<le> head q - tail q then (False, q)
      else (True, q\<lparr>slots := (slots q)(slot_index (head q) := \<lparr>slotMsg = Some m, ready = True\<rparr>),
                    head := head q + 1, notEmpty := True\<rparr>))"

text \<open>\<open>None\<close>: the wait for the producer never ends, because no other goroutine runs.\<close>

definition Pop :: "lockFreeQueue \<Rightarrow> (message option \<times> lockFreeQueue) option" where
  "Pop q =
     (if head q \<le> tail q then Some (None, q)
      else let slot = slots q (slot_index (tail q)) in
        if \<not> ready slot then None
        else Some (slotMsg slot,
          q\<lparr>slots := (slots q)(slot_index (tail q) := \<lparr>slotMsg = None, ready = False\<rparr>), tail := tail q + 1\<rparr>))"

fun PopBatch :: "nat \<Rightarrow> lockFreeQueue \<Rightarrow> (message option list \<times> lockFreeQueue) option" where
  "PopBatch 0 q = Some ([], q)"
| "PopBatch (Suc n) q =
     (if head q \<le> tail q then Some ([], q)
      else let slot = slots q (slot_index (tail q)) in
        if \<not> ready slot then None
        else case PopBatch n (q\<lparr>slots := (slots q)(slot_index (tail q) := \<lparr>slotMsg = None, ready = False\<rparr>),
                                 tail := tail q + 1\<rparr>) of
            None \<Rightarrow> None
          | Some (ms, q') \<Rightarrow> Some (slotMsg slot # ms, q'))"

definition IsEmpty :: "lockFreeQueue \<Rightarrow> bool" where
  "IsEmpty q \<longleftrightarrow> head q \<le> tail q"

text \<open>\<open><-q.Wait()\<close>: consumes the signal; \<open>None\<close> when it blocks.\<close>

definition Wait :: "lockFreeQueue \<Rightarrow> lockFreeQueue option" where
  "Wait q = (if notEmpty q then Some (q\<lparr>notEmpty := False\<rparr>) else None)"

subsection \<open>The ring is a FIFO queue\<close>

lemma slot_index_mod: "slot_index i = unat i mod 8192"
proof -
  have "ringBufferMask = mask 13"
    by (simp add: ringBufferMask_def ringBufferSize_def mask_eq_exp_minus_1)
  then have "slot_index i = unat (take_bit 13 i)"
    by (simp add: slot_index_def take_bit_eq_mask)
  also have "\<dots> = take_bit 13 (unat i)"
    by (rule unsigned_take_bit_eq)
  also have "\<dots> = unat i mod 2 ^ 13"
    by (rule take_bit_eq_mod)
  finally show ?thesis by simp
qed

lemma mod_window_inject:
  assumes "i mod n = j mod n" and "i \<le> j" and "j < i + n" shows "i = (j :: nat)"
proof -
  have "n dvd j - i" using assms(1,2) by (metis mod_eq_dvd_iff_nat)
  moreover have "j - i < n" using assms by linarith
  ultimately have "j - i = 0" by (meson dvd_imp_le leD neq0_conv)
  then show ?thesis using assms(2) by simp
qed

text \<open>The counters as indices that never wrap, and the slots between them.\<close>

definition live :: "lockFreeQueue \<Rightarrow> nat list" where
  "live q = [unat (tail q) ..< unat (head q)]"

definition queued :: "lockFreeQueue \<Rightarrow> message list" where
  "queued q = map (\<lambda>i. the (slotMsg (slots q (i mod 8192)))) (live q)"

definition queue_inv :: "nat \<Rightarrow> lockFreeQueue \<Rightarrow> bool" where
  "queue_inv n q \<longleftrightarrow> unat (tail q) \<le> unat (head q) \<and> unat (head q) \<le> unat (tail q) + 8192 \<and>
     unat (head q) + n < 2 ^ 64 \<and>
     (\<forall>i \<in> set (live q). ready (slots q (i mod 8192)) \<and> slotMsg (slots q (i mod 8192)) \<noteq> None)"

lemma length_queued: "length (queued q) = unat (head q) - unat (tail q)"
  by (simp add: queued_def live_def)

lemma unat_Suc_u64: "unat (w :: u64) + 1 < 2 ^ 64 \<Longrightarrow> unat (w + 1) = Suc (unat w)"
  by (simp add: unat_word_ariths(1))

lemma full_iff:
  "unat (tail q) \<le> unat (head q) \<Longrightarrow> ringBufferSize \<le> head q - tail q \<longleftrightarrow> 8192 \<le> unat (head q) - unat (tail q)"
  by (simp add: ringBufferSize_def word_le_nat_alt unat_sub)

lemma queue_inv_new: "n < 2 ^ 64 \<Longrightarrow> queue_inv n newLockFreeQueue"
  by (simp add: queue_inv_def newLockFreeQueue_def live_def)

lemma Push_room:
  assumes inv: "queue_inv (Suc n) q" and room: "length (queued q) < 8192"
  shows "\<exists>q'. Push q m = (True, q') \<and> queued q' = queued q @ [m] \<and> queue_inv n q'"
proof -
  let ?s = "(slots q)(unat (head q) mod 8192 := \<lparr>slotMsg = Some m, ready = True\<rparr>)"
  let ?q = "q\<lparr>slots := ?s, head := head q + 1, notEmpty := True\<rparr>"
  have b: "unat (tail q) \<le> unat (head q)" "unat (head q) < unat (tail q) + 8192" "unat (head q) + 1 < 2 ^ 64"
    using inv room by (auto simp: queue_inv_def length_queued)
  have p: "Push q m = (True, ?q)"
    using b full_iff [of q] by (simp add: Push_def slot_index_mod)
  have h: "unat (head q + 1) = Suc (unat (head q))"
    using b(3) by (rule unat_Suc_u64)
  have live: "live ?q = live q @ [unat (head q)]"
    using b(1) by (simp add: live_def h)
  have old: "?s (i mod 8192) = slots q (i mod 8192)" if "i \<in> set (live q)" for i
    using that mod_window_inject [of i 8192 "unat (head q)"] b(2) by (auto simp: live_def)
  have "queued ?q = queued q @ [m]"
    unfolding queued_def live using old by (auto intro!: map_cong)
  moreover have "queue_inv n ?q"
    unfolding queue_inv_def live using inv b h old by (auto simp: queue_inv_def)
  ultimately show ?thesis using p by blast
qed

lemma Push_full: "queue_inv n q \<Longrightarrow> length (queued q) = 8192 \<Longrightarrow> Push q m = (False, q)"
  using full_iff [of q] by (simp add: Push_def queue_inv_def length_queued)

lemma Pop_empty: "queue_inv n q \<Longrightarrow> queued q = [] \<Longrightarrow> Pop q = Some (None, q)"
  by (auto simp: Pop_def queued_def live_def word_le_nat_alt queue_inv_def)

lemma Pop_head:
  assumes inv: "queue_inv n q" and it: "queued q = m # ms"
  shows "\<exists>q'. Pop q = Some (Some m, q') \<and> queued q' = ms \<and> queue_inv n q'"
proof -
  let ?t = "unat (tail q)"
  let ?s = "(slots q)(?t mod 8192 := \<lparr>slotMsg = None, ready = False\<rparr>)"
  let ?q = "q\<lparr>slots := ?s, tail := tail q + 1\<rparr>"
  have lt: "?t < unat (head q)"
    using it length_queued [of q] by (cases "?t < unat (head q)") auto
  then have live: "live q = ?t # [Suc ?t ..< unat (head q)]"
    by (simp add: live_def upt_conv_Cons)
  have t: "unat (tail q + 1) = Suc ?t"
    using lt inv by (intro unat_Suc_u64) (simp add: queue_inv_def)
  have live': "live ?q = [Suc ?t ..< unat (head q)]"
    by (simp add: live_def t)
  have r: "ready (slots q (?t mod 8192))" and m: "slotMsg (slots q (?t mod 8192)) = Some m"
    using inv it by (auto simp: queue_inv_def live queued_def)
  have p: "Pop q = Some (Some m, ?q)"
    using lt r m by (simp add: Pop_def slot_index_mod word_le_nat_alt)
  have old: "?s (i mod 8192) = slots q (i mod 8192)" if "i \<in> set [Suc ?t ..< unat (head q)]" for i
    using that mod_window_inject [of ?t 8192 i] inv by (auto simp: queue_inv_def)
  have "queued ?q = ms"
    using it old unfolding queued_def live' live by (auto intro!: map_cong)
  moreover have "queue_inv n ?q"
    unfolding queue_inv_def live' using inv lt t old by (auto simp: queue_inv_def live)
  ultimately show ?thesis using p by blast
qed

interpretation ring: fifo Push Pop queued queue_inv 8192
  by unfold_locales (simp_all add: Push_room Push_full Pop_empty Pop_head)

lemma PopBatch_Pop:
  "head q \<le> tail q \<Longrightarrow> PopBatch (Suc k) q = Some ([], q)"
  "Pop q = Some (Some m, q') \<Longrightarrow> PopBatch (Suc k) q =
     map_option (\<lambda>(ms, q''). (Some m # ms, q'')) (PopBatch k q')"
  by (auto simp: Pop_def Let_def split: if_splits option.splits)

lemma PopBatch_deq_upto:
  "queue_inv n q \<Longrightarrow> PopBatch k q = map_option (\<lambda>(ms, q'). (map Some ms, q')) (ring.deq_upto k q)"
proof (induction k arbitrary: q)
  case (Suc k)
  show ?case
  proof (cases "queued q")
    case Nil
    then have "head q \<le> tail q"
      using length_queued [of q] by (auto simp: word_le_nat_alt)
    then show ?thesis
      using Pop_empty [OF Suc.prems Nil] by (simp add: PopBatch_Pop(1) del: PopBatch.simps)
  next
    case (Cons m ms)
    then obtain q' where q': "Pop q = Some (Some m, q')" "queue_inv n q'"
      using Pop_head [OF Suc.prems] by auto
    then show ?thesis
      using Suc.IH [of q'] by (simp add: PopBatch_Pop(2) option.map_comp del: PopBatch.simps split: option.split)
  qed
qed simp

lemma PopBatch_queued:
  assumes "queue_inv n q"
  shows "\<exists>q'. PopBatch k q = Some (map Some (take k (queued q)), q') \<and> queued q' = drop k (queued q) \<and> queue_inv n q'"
  using ring.deq_upto_items [OF assms, of k] by (auto simp: PopBatch_deq_upto [OF assms])

lemma PopBatch_notEmpty: "PopBatch k q = Some (ms, q') \<Longrightarrow> notEmpty q' = notEmpty q"
  by (induction k q arbitrary: ms q' rule: PopBatch.induct)
    (auto simp: Let_def split: if_splits option.splits)

end
