(* ===== verification/Peer_Queue_Steps.thy ===== *)
theory Peer_Queue_Steps
  imports Peer_Queue
begin

text \<open>
  The lock-free queue under interleaving. Each atomic load, store, compare-and-swap and channel
  operation of \<open>Push\<close>, \<open>PopBatch\<close> and the writer loop is one step; a run interleaves any number
  of producers with the consumer. \<open>claimed\<close> and \<open>taken\<close> are the history: the messages in the order
  their slots were claimed, and those the consumer has taken.
\<close>

section \<open>Steps\<close>

text \<open>Where a producer is inside \<open>Push\<close>, with the values it has loaded.\<close>

datatype producer =
    PIdle
  | PStart message
  | PHead message u64
  | PBoth message u64 u64
  | PClaimed message u64
  | PStored message u64
  | PSignal
  | PDone bool

text \<open>Where the consumer is: waiting for the signal, or inside \<open>PopBatch\<close> with room for \<open>k\<close> more.\<close>

datatype consumer =
    CWait
  | CPop nat
  | CTail nat u64
  | CBoth nat u64 u64
  | CSpin nat u64
  | CRead nat u64
  | CCleared nat u64
  | CUnready nat u64

record qworld =
  queue :: lockFreeQueue
  producers :: "nat \<Rightarrow> producer"
  consumer :: consumer
  claimed :: "message list"
  taken :: "message option list"

definition qinit :: qworld where
  "qinit = \<lparr>queue = newLockFreeQueue, producers = (\<lambda>_. PIdle), consumer = CWait, claimed = [], taken = []\<rparr>"

definition set_producer :: "nat \<Rightarrow> producer \<Rightarrow> qworld \<Rightarrow> qworld" where
  "set_producer p st w = w\<lparr>producers := (producers w)(p := st)\<rparr>"

definition set_slot :: "u64 \<Rightarrow> (msgSlot \<Rightarrow> msgSlot) \<Rightarrow> lockFreeQueue \<Rightarrow> lockFreeQueue" where
  "set_slot i f q = q\<lparr>slots := (slots q)(slot_index i := f (slots q (slot_index i)))\<rparr>"

text \<open>The steps of \<open>Push\<close>, for producer \<open>p\<close>.\<close>

inductive push_step :: "nat \<Rightarrow> qworld \<Rightarrow> qworld \<Rightarrow> bool" for p :: nat where
  start: "producers w p \<in> {PIdle, PDone True, PDone False} \<Longrightarrow> push_step p w (set_producer p (PStart m) w)"
| load_head: "producers w p = PStart m \<Longrightarrow> push_step p w (set_producer p (PHead m (head (queue w))) w)"
| load_tail: "producers w p = PHead m h \<Longrightarrow> push_step p w (set_producer p (PBoth m h (tail (queue w))) w)"
| full: "producers w p = PBoth m h t \<Longrightarrow> ringBufferSize \<le> h - t \<Longrightarrow>
    push_step p w (set_producer p (PDone False) w)"
| cas_ok: "producers w p = PBoth m h t \<Longrightarrow> \<not> ringBufferSize \<le> h - t \<Longrightarrow> head (queue w) = h \<Longrightarrow>
    push_step p w (set_producer p (PClaimed m h)
      (w\<lparr>queue := (queue w)\<lparr>head := h + 1\<rparr>, claimed := claimed w @ [m]\<rparr>))"
| cas_fail: "producers w p = PBoth m h t \<Longrightarrow> \<not> ringBufferSize \<le> h - t \<Longrightarrow> head (queue w) \<noteq> h \<Longrightarrow>
    push_step p w (set_producer p (PStart m) w)"
| store_msg: "producers w p = PClaimed m h \<Longrightarrow>
    push_step p w (set_producer p (PStored m h)
      (w\<lparr>queue := set_slot h (slotMsg_update (\<lambda>_. Some m)) (queue w)\<rparr>))"
| store_ready: "producers w p = PStored m h \<Longrightarrow>
    push_step p w (set_producer p PSignal
      (w\<lparr>queue := set_slot h (ready_update (\<lambda>_. True)) (queue w)\<rparr>))"
| signal: "producers w p = PSignal \<Longrightarrow>
    push_step p w (set_producer p (PDone True) (w\<lparr>queue := (queue w)\<lparr>notEmpty := True\<rparr>\<rparr>))"

text \<open>The steps of the consumer: the signal, then \<open>PopBatch\<close> for at most \<open>writerBatchSize\<close> messages.\<close>

inductive pop_step :: "qworld \<Rightarrow> qworld \<Rightarrow> bool" where
  wake: "consumer w = CWait \<Longrightarrow> notEmpty (queue w) \<Longrightarrow>
    pop_step w (w\<lparr>queue := (queue w)\<lparr>notEmpty := False\<rparr>, consumer := CPop writerBatchSize\<rparr>)"
| batch_full: "consumer w = CPop 0 \<Longrightarrow> pop_step w (w\<lparr>consumer := CWait\<rparr>)"
| load_tail: "consumer w = CPop (Suc k) \<Longrightarrow> pop_step w (w\<lparr>consumer := CTail k (tail (queue w))\<rparr>)"
| load_head: "consumer w = CTail k t \<Longrightarrow> pop_step w (w\<lparr>consumer := CBoth k t (head (queue w))\<rparr>)"
| empty: "consumer w = CBoth k t h \<Longrightarrow> h \<le> t \<Longrightarrow> pop_step w (w\<lparr>consumer := CWait\<rparr>)"
| nonempty: "consumer w = CBoth k t h \<Longrightarrow> \<not> h \<le> t \<Longrightarrow> pop_step w (w\<lparr>consumer := CSpin k t\<rparr>)"
| ready: "consumer w = CSpin k t \<Longrightarrow> ready (slots (queue w) (slot_index t)) \<Longrightarrow>
    pop_step w (w\<lparr>consumer := CRead k t\<rparr>)"
| take_msg: "consumer w = CRead k t \<Longrightarrow>
    pop_step w (w\<lparr>consumer := CCleared k t, taken := taken w @ [slotMsg (slots (queue w) (slot_index t))],
      queue := set_slot t (slotMsg_update (\<lambda>_. None)) (queue w)\<rparr>)"
| unready: "consumer w = CCleared k t \<Longrightarrow>
    pop_step w (w\<lparr>consumer := CUnready k t, queue := set_slot t (ready_update (\<lambda>_. False)) (queue w)\<rparr>)"
| store_tail: "consumer w = CUnready k t \<Longrightarrow>
    pop_step w (w\<lparr>consumer := CPop k, queue := (queue w)\<lparr>tail := t + 1\<rparr>\<rparr>)"

inductive qreach :: "qworld \<Rightarrow> bool" where
  init: "qreach qinit"
| push: "qreach w \<Longrightarrow> push_step p w w' \<Longrightarrow> qreach w'"
| pop: "qreach w \<Longrightarrow> pop_step w w' \<Longrightarrow> qreach w'"

section \<open>The invariant\<close>

text \<open>The number of messages the consumer has taken out of their slots.\<close>

definition front :: "qworld \<Rightarrow> nat" where
  "front w = unat (tail (queue w)) + (case consumer w of CCleared _ _ \<Rightarrow> 1 | CUnready _ _ \<Rightarrow> 1 | _ \<Rightarrow> 0)"

abbreviation slot_at :: "qworld \<Rightarrow> nat \<Rightarrow> msgSlot" where
  "slot_at w i \<equiv> slots (queue w) (i mod 8192)"

text \<open>The slot a producer has claimed and not yet published.\<close>

fun holds :: "producer \<Rightarrow> nat option" where
  "holds (PClaimed _ h) = Some (unat h)"
| "holds (PStored _ h) = Some (unat h)"
| "holds _ = None"

fun producer_ok :: "qworld \<Rightarrow> producer \<Rightarrow> bool" where
  "producer_ok w (PHead m h) \<longleftrightarrow> unat h \<le> length (claimed w)"
| "producer_ok w (PBoth m h t) \<longleftrightarrow> unat h \<le> length (claimed w) \<and> unat t \<le> unat (tail (queue w))"
| "producer_ok w (PClaimed m h) \<longleftrightarrow> front w \<le> unat h \<and> unat h < length (claimed w) \<and> claimed w ! unat h = m \<and>
     \<not> ready (slot_at w (unat h))"
| "producer_ok w (PStored m h) \<longleftrightarrow> front w \<le> unat h \<and> unat h < length (claimed w) \<and> claimed w ! unat h = m \<and>
     \<not> ready (slot_at w (unat h)) \<and> slotMsg (slot_at w (unat h)) = Some m"
| "producer_ok w _ \<longleftrightarrow> True"

fun consumer_ok :: "qworld \<Rightarrow> consumer \<Rightarrow> bool" where
  "consumer_ok w (CTail k t) \<longleftrightarrow> t = tail (queue w)"
| "consumer_ok w (CBoth k t h) \<longleftrightarrow> t = tail (queue w) \<and> unat h \<le> length (claimed w)"
| "consumer_ok w (CSpin k t) \<longleftrightarrow> t = tail (queue w) \<and> unat t < length (claimed w)"
| "consumer_ok w (CRead k t) \<longleftrightarrow> t = tail (queue w) \<and> unat t < length (claimed w) \<and> ready (slot_at w (unat t))"
| "consumer_ok w (CCleared k t) \<longleftrightarrow> t = tail (queue w) \<and> unat t < length (claimed w)"
| "consumer_ok w (CUnready k t) \<longleftrightarrow> t = tail (queue w) \<and> unat t < length (claimed w) \<and> \<not> ready (slot_at w (unat t))"
| "consumer_ok w _ \<longleftrightarrow> True"

definition counters_ok :: "qworld \<Rightarrow> bool" where
  "counters_ok w \<longleftrightarrow> unat (head (queue w)) = length (claimed w) \<and> unat (tail (queue w)) \<le> length (claimed w) \<and>
     length (claimed w) \<le> unat (tail (queue w)) + 8192"

definition published_ok :: "qworld \<Rightarrow> bool" where
  "published_ok w \<longleftrightarrow> (\<forall>i. front w \<le> i \<and> i < length (claimed w) \<and> ready (slot_at w i) \<longrightarrow>
     slotMsg (slot_at w i) = Some (claimed w ! i))"

definition free_ok :: "qworld \<Rightarrow> bool" where
  "free_ok w \<longleftrightarrow> (\<forall>i. length (claimed w) \<le> i \<and> i < unat (tail (queue w)) + 8192 \<longrightarrow> \<not> ready (slot_at w i))"

definition owners_ok :: "qworld \<Rightarrow> bool" where
  "owners_ok w \<longleftrightarrow> (\<forall>p p' i. holds (producers w p) = Some i \<and> holds (producers w p') = Some i \<longrightarrow> p = p')"

definition taken_ok :: "qworld \<Rightarrow> bool" where
  "taken_ok w \<longleftrightarrow> taken w = map Some (take (front w) (claimed w))"

definition qinv :: "qworld \<Rightarrow> bool" where
  "qinv w \<longleftrightarrow> counters_ok w \<and> (\<forall>p. producer_ok w (producers w p)) \<and> consumer_ok w (consumer w) \<and>
     published_ok w \<and> free_ok w \<and> owners_ok w \<and> taken_ok w"

lemmas qinv_parts = counters_ok_def published_ok_def free_ok_def owners_ok_def taken_ok_def

lemma qinv_init: "qinv qinit"
  by (simp add: qinv_def qinv_parts qinit_def newLockFreeQueue_def front_def)

lemma set_producer_simps [simp]:
  "queue (set_producer p st w) = queue w"
  "producers (set_producer p st w) = (producers w)(p := st)"
  "consumer (set_producer p st w) = consumer w"
  "claimed (set_producer p st w) = claimed w"
  "taken (set_producer p st w) = taken w"
  "front (set_producer p st w) = front w"
  by (simp_all add: set_producer_def front_def)

lemma set_slot_simps [simp]:
  "head (set_slot i f q) = head q"
  "tail (set_slot i f q) = tail q"
  "notEmpty (set_slot i f q) = notEmpty q"
  "slots (set_slot i f q) = (slots q)(unat i mod 8192 := f (slots q (unat i mod 8192)))"
  by (simp_all add: set_slot_def slot_index_mod)

text \<open>Changing where one producer is, and nothing else.\<close>

lemma qinv_set_producer:
  assumes "qinv w" and "producer_ok w st"
    and "holds st = None \<or> holds st = holds (producers w p)"
  shows "qinv (set_producer p st w)"
proof -
  have same: "producer_ok (set_producer p st w) = producer_ok w" "consumer_ok (set_producer p st w) = consumer_ok w"
    by (rule ext, rename_tac x, case_tac x; simp)+
  have "owners_ok (set_producer p st w)"
    using assms unfolding qinv_def owners_ok_def set_producer_simps fun_upd_apply
    by (metis option.distinct(1))
  then show ?thesis
    using assms unfolding qinv_def same by (simp add: counters_ok_def published_ok_def free_ok_def taken_ok_def)
qed

lemma two_slots:
  "i mod 8192 = j mod 8192 \<Longrightarrow> t \<le> i \<Longrightarrow> t \<le> j \<Longrightarrow> i < t + 8192 \<Longrightarrow> j < t + 8192 \<Longrightarrow> i = (j::nat)"
  using mod_window_inject [of i 8192 j] mod_window_inject [of j 8192 i] by (cases "i \<le> j") auto

lemma producer_ok_frame:
  assumes "claimed w' = claimed w" "tail (queue w') = tail (queue w)" "front w' = front w"
    and "\<And>i. holds st = Some i \<Longrightarrow> slot_at w' i = slot_at w i"
  shows "producer_ok w' st = producer_ok w st"
  using assms by (cases st) auto

text \<open>Claiming the next slot.\<close>

lemma qinv_claim:
  assumes inv: "qinv w" and p: "producers w p = PBoth m h t" and room: "\<not> ringBufferSize \<le> h - t"
    and h: "head (queue w) = h" and b: "length (claimed w) + 1 < 2 ^ 64"
  shows "qinv (set_producer p (PClaimed m h)
      (w\<lparr>queue := (queue w)\<lparr>head := h + 1\<rparr>, claimed := claimed w @ [m]\<rparr>))" (is "qinv ?w")
proof -
  let ?n = "length (claimed w)" and ?T = "unat (tail (queue w))"
  have n: "unat h = ?n" and T: "?T \<le> ?n" and t: "unat t \<le> ?T"
    and pok: "\<And>q. producer_ok w (producers w q)"
    using inv p h by (auto simp: qinv_def counters_ok_def dest: spec [of _ p])
  have "unat t \<le> unat h" using n T t by simp
  then have room': "?n < unat t + 8192"
    using room n by (simp add: ringBufferSize_def word_le_nat_alt unat_sub)
  have h1: "unat (h + 1) = Suc ?n"
    using b n unat_Suc_u64 [of h] by simp
  have fr: "front (w\<lparr>queue := (queue w)\<lparr>head := h + 1\<rparr>, claimed := claimed w @ [m]\<rparr>) = front w"
    by (simp add: front_def)
  have ft: "front w \<le> ?n" "?T \<le> front w"
    using inv T by (auto simp: front_def qinv_def word_less_nat_alt split: consumer.splits)
  have free: "\<not> ready (slot_at w ?n)"
    using inv room' t by (auto simp: qinv_def free_ok_def)
  have "counters_ok ?w"
    using inv h1 room' t by (simp add: qinv_def counters_ok_def)
  moreover have "producer_ok ?w (producers ?w q)" for q
    using pok [of q] n free ft fr
    by (cases "producers w q") (auto simp: nth_append split: if_splits)
  moreover have "consumer_ok ?w (consumer ?w)"
    using inv by (cases "consumer w") (auto simp: qinv_def)
  moreover have "published_ok ?w"
    using inv free by (auto simp: qinv_def published_ok_def fr nth_append less_Suc_eq)
  moreover have "free_ok ?w"
    using inv by (auto simp: qinv_def free_ok_def)
  moreover have "owners_ok ?w"
  proof -
    have "holds (producers w q) \<noteq> Some ?n" for q
      using pok [of q] by (cases "producers w q") auto
    then show ?thesis
      using inv n by (auto simp: qinv_def owners_ok_def)
  qed
  moreover have "taken_ok ?w"
    using inv ft by (simp add: qinv_def taken_ok_def fr)
  ultimately show ?thesis by (simp add: qinv_def)
qed

text \<open>A producer that holds a slot, and what a write to it leaves alone.\<close>

lemma held_slot:
  assumes inv: "qinv w" and p: "holds (producers w p) = Some i"
  shows "unat (tail (queue w)) \<le> i" and "front w \<le> i" and "i < length (claimed w)"
    and "length (claimed w) \<le> unat (tail (queue w)) + 8192"
    and "\<And>j. unat (tail (queue w)) \<le> j \<Longrightarrow> j < unat (tail (queue w)) + 8192 \<Longrightarrow> j \<noteq> i \<Longrightarrow> j mod 8192 \<noteq> i mod 8192"
    and "\<not> ready (slot_at w i)"
    and "\<And>p'. p' \<noteq> p \<Longrightarrow> holds (producers w p') \<noteq> Some i"
proof -
  have ok: "producer_ok w (producers w p)" using inv by (simp add: qinv_def)
  show f: "front w \<le> i" and l: "i < length (claimed w)" and "\<not> ready (slot_at w i)"
    using ok p by (cases "producers w p"; auto)+
  show T: "unat (tail (queue w)) \<le> i" using f by (simp add: front_def split: consumer.splits)
  show c: "length (claimed w) \<le> unat (tail (queue w)) + 8192"
    using inv by (simp add: qinv_def counters_ok_def)
  show "\<And>j. unat (tail (queue w)) \<le> j \<Longrightarrow> j < unat (tail (queue w)) + 8192 \<Longrightarrow> j \<noteq> i \<Longrightarrow> j mod 8192 \<noteq> i mod 8192"
    subgoal for j using two_slots [of j i "unat (tail (queue w))"] T l c by auto
    done
  show "\<And>p'. p' \<noteq> p \<Longrightarrow> holds (producers w p') \<noteq> Some i"
    using inv p by (auto simp: qinv_def owners_ok_def)
qed

lemma front_ge: "unat (tail (queue w)) \<le> front w"
  by (simp add: front_def split: consumer.splits)

text \<open>A write to the held slot is seen by no other producer.\<close>

lemma held_slot_write:
  assumes inv: "qinv w" and hp: "holds (producers w p) = Some (unat h)" and w': "w' = set_producer p st (w\<lparr>queue := set_slot h f (queue w)\<rparr>)"
  shows "front w' = front w"
    and "\<And>j. unat (tail (queue w)) \<le> j \<Longrightarrow> j < unat (tail (queue w)) + 8192 \<Longrightarrow> j \<noteq> unat h \<Longrightarrow> slot_at w' j = slot_at w j"
    and "\<And>q. q \<noteq> p \<Longrightarrow> producer_ok w' (producers w' q)"
proof -
  note H = held_slot [OF inv hp]
  show fr: "front w' = front w" by (simp add: w' front_def)
  show other: "\<And>j. unat (tail (queue w)) \<le> j \<Longrightarrow> j < unat (tail (queue w)) + 8192 \<Longrightarrow> j \<noteq> unat h \<Longrightarrow> slot_at w' j = slot_at w j"
    using H(5) by (simp add: w')
  fix q assume q: "q \<noteq> p"
  have "producer_ok w (producers w q)" using inv by (simp add: qinv_def)
  moreover have "slot_at w' i = slot_at w i" if "holds (producers w q) = Some i" for i
    using held_slot(1,3,4) [OF inv that] H(7) [OF q] that by (intro other) auto
  ultimately show "producer_ok w' (producers w' q)"
    using producer_ok_frame [of w' w "producers w q"] q fr by (simp add: w')
qed

lemma qinv_store_msg:
  assumes inv: "qinv w" and p: "producers w p = PClaimed m h"
  shows "qinv (set_producer p (PStored m h)
      (w\<lparr>queue := set_slot h (slotMsg_update (\<lambda>_. Some m)) (queue w)\<rparr>))" (is "qinv ?w")
proof -
  have hp: "holds (producers w p) = Some (unat h)" using p by simp
  note H = held_slot [OF inv hp] and W = held_slot_write [OF inv hp refl, where st = "PStored m h" and f = "slotMsg_update (\<lambda>_. Some m)"]
  have rd: "ready (slot_at ?w i) = ready (slot_at w i)" for i by simp
  have "producer_ok w (PClaimed m h)" using inv p by (metis qinv_def)
  then have "producer_ok ?w (producers ?w p)" using W(1) by simp
  then have "producer_ok ?w (producers ?w q)" for q
    using W(3) by (cases "q = p") auto
  moreover have "consumer_ok ?w (consumer ?w)"
    using inv by (cases "consumer w") (auto simp: qinv_def)
  moreover have "published_ok ?w"
    unfolding published_ok_def W(1)
  proof (intro allI impI)
    fix i assume i: "front w \<le> i \<and> i < length (claimed ?w) \<and> ready (slot_at ?w i)"
    then have "i \<noteq> unat h" "unat (tail (queue w)) \<le> i" "i < unat (tail (queue w)) + 8192"
      using H(4,6) front_ge [of w] rd by auto
    then have "slot_at ?w i = slot_at w i" by (intro W(2))
    then show "slotMsg (slot_at ?w i) = Some (claimed ?w ! i)"
      using i inv by (simp add: qinv_def published_ok_def del: set_slot_simps(4))
  qed
  moreover have "owners_ok ?w"
    using inv hp unfolding qinv_def owners_ok_def by (simp; metis)
  ultimately show ?thesis
    using inv rd W(1) by (simp add: qinv_def free_ok_def taken_ok_def counters_ok_def del: set_slot_simps(4))
qed

lemma qinv_store_ready:
  assumes inv: "qinv w" and p: "producers w p = PStored m h"
  shows "qinv (set_producer p PSignal
      (w\<lparr>queue := set_slot h (ready_update (\<lambda>_. True)) (queue w)\<rparr>))" (is "qinv ?w")
proof -
  have hp: "holds (producers w p) = Some (unat h)" using p by simp
  note H = held_slot [OF inv hp] and W = held_slot_write [OF inv hp refl, where st = PSignal and f = "ready_update (\<lambda>_. True)"]
  have st: "producer_ok w (PStored m h)" using inv p by (metis qinv_def)
  have "producer_ok ?w (producers ?w q)" for q
    using W(3) by (cases "q = p") auto
  moreover have "consumer_ok ?w (consumer ?w)"
  proof (cases "consumer w")
    case (CUnready k t)
    then have t: "t = tail (queue w)" "unat t < unat h" "\<not> ready (slot_at w (unat t))"
      using inv H(2) by (auto simp: qinv_def front_def)
    then have "slot_at ?w (unat t) = slot_at w (unat t)" by (intro W(2)) auto
    with t CUnready inv show ?thesis by (simp add: qinv_def del: set_slot_simps(4))
  qed (use inv in \<open>auto simp: qinv_def\<close>)
  moreover have "published_ok ?w"
    unfolding published_ok_def W(1)
  proof (intro allI impI)
    fix i assume i: "front w \<le> i \<and> i < length (claimed ?w) \<and> ready (slot_at ?w i)"
    show "slotMsg (slot_at ?w i) = Some (claimed ?w ! i)"
    proof (cases "i = unat h")
      case True
      then show ?thesis using st by simp
    next
      case False
      then have "slot_at ?w i = slot_at w i"
        using i H(4) front_ge [of w] by (intro W(2)) auto
      then show ?thesis
        using i inv by (simp add: qinv_def published_ok_def del: set_slot_simps(4))
    qed
  qed
  moreover have "free_ok ?w"
    unfolding free_ok_def
  proof (intro allI impI)
    fix i assume i: "length (claimed ?w) \<le> i \<and> i < unat (tail (queue ?w)) + 8192"
    then have "slot_at ?w i = slot_at w i"
      using H(1,3) by (intro W(2)) auto
    then show "\<not> ready (slot_at ?w i)"
      using i inv by (simp add: qinv_def free_ok_def del: set_slot_simps(4))
  qed
  moreover have "owners_ok ?w"
    using inv unfolding qinv_def owners_ok_def by simp
  ultimately show ?thesis
    using inv W(1) by (simp add: qinv_def taken_ok_def counters_ok_def)
qed

lemma push_step_inv:
  assumes "push_step p w w'" and inv: "qinv w" and b: "length (claimed w') < 2 ^ 64"
  shows "qinv w'"
  using assms(1)
proof cases
  case (start m)
  with inv show ?thesis by (auto intro: qinv_set_producer)
next
  case (load_head m)
  moreover have "unat (head (queue w)) = length (claimed w)"
    using inv by (simp add: qinv_def counters_ok_def)
  ultimately show ?thesis using inv by (auto intro: qinv_set_producer)
next
  case (load_tail m h)
  moreover have "producer_ok w (PHead m h)" using inv load_tail by (metis qinv_def)
  ultimately show ?thesis using inv by (auto intro: qinv_set_producer)
next
  case (full m h t)
  with inv show ?thesis by (auto intro: qinv_set_producer)
next
  case (cas_ok m h t)
  then show ?thesis using qinv_claim [OF inv cas_ok(2-4)] b by simp
next
  case (cas_fail m h t)
  with inv show ?thesis by (auto intro: qinv_set_producer)
next
  case (store_msg m h)
  then show ?thesis using qinv_store_msg [OF inv] by simp
next
  case (store_ready m h)
  then show ?thesis using qinv_store_ready [OF inv] by simp
next
  case signal
  let ?v = "w\<lparr>queue := (queue w)\<lparr>notEmpty := True\<rparr>\<rparr>"
  have "front ?v = front w" by (simp add: front_def)
  moreover have "producer_ok ?v x = producer_ok w x" for x
    by (intro producer_ok_frame) (simp_all add: front_def)
  moreover have "consumer_ok ?v x = consumer_ok w x" for x by (cases x) simp_all
  ultimately have "qinv ?v"
    using inv by (simp add: qinv_def qinv_parts)
  then show ?thesis using signal by (auto intro!: qinv_set_producer)
qed

text \<open>The consumer's steps that change nothing but its own place.\<close>

lemma qinv_consumer:
  assumes inv: "qinv w" and c: "consumer_ok w c" and f: "front (w\<lparr>consumer := c\<rparr>) = front w"
  shows "qinv (w\<lparr>consumer := c\<rparr>)"
proof -
  have "producer_ok (w\<lparr>consumer := c\<rparr>) x = producer_ok w x" for x
    by (intro producer_ok_frame) (simp_all add: f)
  moreover have "consumer_ok (w\<lparr>consumer := c\<rparr>) x = consumer_ok w x" for x by (cases x) simp_all
  ultimately show ?thesis
    using inv c f by (simp add: qinv_def qinv_parts)
qed

text \<open>The consumer works on a slot that no producer holds.\<close>

lemma qinv_take:
  assumes inv: "qinv w" and c: "consumer w = CRead k t"
  shows "qinv (w\<lparr>consumer := CCleared k t, taken := taken w @ [slotMsg (slots (queue w) (slot_index t))],
      queue := set_slot t (slotMsg_update (\<lambda>_. None)) (queue w)\<rparr>)" (is "qinv ?w")
proof -
  let ?T = "unat (tail (queue w))"
  have t: "t = tail (queue w)" "?T < length (claimed w)" "ready (slot_at w ?T)"
    using inv c by (auto simp: qinv_def)
  have n: "length (claimed w) \<le> ?T + 8192" using inv by (simp add: qinv_def counters_ok_def)
  have fr: "front w = ?T" "front ?w = Suc ?T" using c by (simp_all add: front_def)
  have other: "slot_at ?w j = slot_at w j" if "Suc ?T \<le> j" "j < length (claimed w)" for j
    using that n two_slots [of j ?T ?T] by (auto simp: t(1))
  have rd: "ready (slot_at ?w j) = ready (slot_at w j)" for j by simp
  have "producer_ok ?w (producers ?w p)" for p
  proof -
    have ok: "producer_ok w (producers w p)" using inv by (simp add: qinv_def)
    show ?thesis
    proof (cases "holds (producers w p)")
      case None
      with ok show ?thesis by (cases "producers w p") auto
    next
      case (Some i)
      note H = held_slot [OF inv Some]
      have "i \<noteq> ?T" using H(6) t(3) by auto
      then have "Suc ?T \<le> i" using H(1) by simp
      then show ?thesis
        using ok Some fr other [of i] H(3) rd
        by (cases "producers w p") (auto simp del: set_slot_simps(4))
    qed
  qed
  moreover have m: "slotMsg (slot_at w ?T) = Some (claimed w ! ?T)"
    using inv t fr by (simp add: qinv_def published_ok_def)
  then have "taken_ok ?w"
    using inv t fr by (simp add: qinv_def taken_ok_def slot_index_mod take_Suc_conv_app_nth)
  moreover have "published_ok ?w"
    unfolding published_ok_def fr
  proof (intro allI impI)
    fix i assume i: "Suc ?T \<le> i \<and> i < length (claimed ?w) \<and> ready (slot_at ?w i)"
    then have "slot_at ?w i = slot_at w i" using n by (intro other) auto
    then show "slotMsg (slot_at ?w i) = Some (claimed ?w ! i)"
      using i inv fr by (simp add: qinv_def published_ok_def del: set_slot_simps(4))
  qed
  ultimately show ?thesis
    using inv t rd by (simp add: qinv_def counters_ok_def free_ok_def owners_ok_def del: set_slot_simps(4))
qed

lemma qinv_unready:
  assumes inv: "qinv w" and c: "consumer w = CCleared k t"
  shows "qinv (w\<lparr>consumer := CUnready k t, queue := set_slot t (ready_update (\<lambda>_. False)) (queue w)\<rparr>)" (is "qinv ?w")
proof -
  let ?T = "unat (tail (queue w))"
  have t: "t = tail (queue w)" "?T < length (claimed w)" using inv c by (auto simp: qinv_def)
  have n: "length (claimed w) \<le> ?T + 8192" using inv by (simp add: qinv_def counters_ok_def)
  have fr: "front w = Suc ?T" "front ?w = Suc ?T" using c by (simp_all add: front_def)
  have other: "slot_at ?w j = slot_at w j" if "Suc ?T \<le> j" "j < ?T + 8192" for j
    using that two_slots [of j ?T ?T] by (auto simp: t(1))
  have rd: "ready (slot_at ?w j) \<Longrightarrow> ready (slot_at w j)" for j by (auto split: if_splits)
  have "producer_ok ?w (producers ?w p)" for p
  proof -
    have ok: "producer_ok w (producers w p)" using inv by (simp add: qinv_def)
    have "slot_at ?w i = slot_at w i" if "holds (producers w p) = Some i" for i
      using held_slot(2-4) [OF inv that] fr by (intro other) auto
    then show ?thesis
      using producer_ok_frame [of ?w w "producers w p"] ok fr by simp
  qed
  moreover have "consumer_ok ?w (consumer ?w)" using t by simp
  moreover have "published_ok ?w"
    unfolding published_ok_def fr
  proof (intro allI impI)
    fix i assume i: "Suc ?T \<le> i \<and> i < length (claimed ?w) \<and> ready (slot_at ?w i)"
    then have "slot_at ?w i = slot_at w i" using n by (intro other) auto
    then show "slotMsg (slot_at ?w i) = Some (claimed ?w ! i)"
      using i inv fr by (simp add: qinv_def published_ok_def del: set_slot_simps(4))
  qed
  moreover have "free_ok ?w"
    using inv rd unfolding qinv_def free_ok_def by auto
  ultimately show ?thesis
    using inv fr t by (simp add: qinv_def counters_ok_def owners_ok_def taken_ok_def)
qed

lemma qinv_store_tail:
  assumes inv: "qinv w" and c: "consumer w = CUnready k t"
  shows "qinv (w\<lparr>consumer := CPop k, queue := (queue w)\<lparr>tail := t + 1\<rparr>\<rparr>)" (is "qinv ?w")
proof -
  let ?T = "unat (tail (queue w))"
  have t: "t = tail (queue w)" "?T < length (claimed w)" "\<not> ready (slot_at w ?T)"
    using inv c by (auto simp: qinv_def)
  have "unat (head (queue w)) < 2 ^ LENGTH(64)" by (rule unsigned_less)
  then have n: "length (claimed w) \<le> ?T + 8192" "length (claimed w) < 2 ^ 64"
    using inv by (auto simp: qinv_def counters_ok_def)
  have t1: "unat (t + 1) = Suc ?T"
    using t n unat_Suc_u64 [of t] by simp
  have fr: "front ?w = front w" using c t1 by (simp add: front_def)
  have "producer_ok ?w (producers ?w p)" for p
  proof -
    have "producer_ok w (producers w p)" using inv by (simp add: qinv_def)
    then show ?thesis by (cases "producers w p") (auto simp: fr t1)
  qed
  moreover have "free_ok ?w"
    unfolding free_ok_def
  proof (intro allI impI)
    fix i assume i: "length (claimed ?w) \<le> i \<and> i < unat (tail (queue ?w)) + 8192"
    show "\<not> ready (slot_at ?w i)"
    proof (cases "i = ?T + 8192")
      case True
      then show ?thesis using t(3) by simp
    next
      case False
      then show ?thesis using i t1 inv by (simp add: qinv_def free_ok_def)
    qed
  qed
  ultimately show ?thesis
    using inv fr t n t1 by (simp add: qinv_def counters_ok_def published_ok_def owners_ok_def taken_ok_def)
qed

lemma pop_step_inv:
  assumes "pop_step w w'" and inv: "qinv w"
  shows "qinv w'"
  using assms(1)
proof cases
  case wake
  let ?v = "w\<lparr>queue := (queue w)\<lparr>notEmpty := False\<rparr>\<rparr>"
  have "producer_ok ?v x = producer_ok w x" for x
    by (intro producer_ok_frame) (simp_all add: front_def)
  moreover have "consumer_ok ?v x = consumer_ok w x" for x by (cases x) simp_all
  moreover have "front ?v = front w" by (simp add: front_def)
  ultimately have "qinv ?v" using inv by (simp add: qinv_def qinv_parts)
  then have "qinv (?v\<lparr>consumer := CPop writerBatchSize\<rparr>)"
    using wake by (intro qinv_consumer) (simp_all add: front_def)
  then show ?thesis using wake by simp
next
  case batch_full
  with inv show ?thesis by (auto intro!: qinv_consumer simp: front_def)
next
  case (load_tail k)
  with inv show ?thesis by (auto intro!: qinv_consumer simp: front_def)
next
  case (load_head k t)
  moreover have "consumer_ok w (CTail k t)" using inv load_head by (metis qinv_def)
  moreover have "unat (head (queue w)) = length (claimed w)" using inv by (simp add: qinv_def counters_ok_def)
  ultimately show ?thesis using inv by (auto intro!: qinv_consumer simp: front_def)
next
  case (empty k t h)
  with inv show ?thesis by (auto intro!: qinv_consumer simp: front_def)
next
  case (nonempty k t h)
  moreover have "consumer_ok w (CBoth k t h)" using inv nonempty by (metis qinv_def)
  ultimately show ?thesis using inv by (auto intro!: qinv_consumer simp: front_def word_le_nat_alt)
next
  case (ready k t)
  moreover have "consumer_ok w (CSpin k t)" using inv ready by (metis qinv_def)
  ultimately show ?thesis using inv by (auto intro!: qinv_consumer simp: front_def slot_index_mod)
next
  case (take_msg k t)
  then show ?thesis using qinv_take [OF inv] by simp
next
  case (unready k t)
  then show ?thesis using qinv_unready [OF inv] by simp
next
  case (store_tail k t)
  then show ?thesis using qinv_store_tail [OF inv] by simp
qed

lemma push_step_claimed: "push_step p w w' \<Longrightarrow> length (claimed w) \<le> length (claimed w')"
  by (auto elim!: push_step.cases)

lemma pop_step_claimed: "pop_step w w' \<Longrightarrow> claimed w' = claimed w"
  by (auto elim!: pop_step.cases)

lemma qreach_inv: "qreach w \<Longrightarrow> length (claimed w) < 2 ^ 64 \<Longrightarrow> qinv w"
proof (induction rule: qreach.induct)
  case init
  then show ?case by (intro qinv_init)
next
  case (push w p w')
  then show ?case using push_step_inv push_step_claimed by (meson order_le_less_trans)
next
  case (pop w w')
  then show ?case using pop_step_inv pop_step_claimed by metis
qed

lemma Push_notEmpty: "Push q m = (True, q') \<Longrightarrow> notEmpty q'"
  by (auto simp: Push_def split: if_splits)

lemma enq_all_notEmpty: "ring.enq_all q ms = (True, q') \<Longrightarrow> ms \<noteq> [] \<Longrightarrow> notEmpty q'"
proof (induction ms arbitrary: q)
  case (Cons m ms)
  then obtain q1 where q1: "Push q m = (True, q1)" "ring.enq_all q1 ms = (True, q')"
    by (auto split: if_splits prod.splits)
  then show ?case using Cons.IH [of q1] Push_notEmpty by (cases ms) auto
qed simp

section \<open>Running a schedule\<close>

text \<open>
  The steps as functions, and the world after a schedule: each entry names who moves next, a
  producer with the message of its next \<open>Push\<close>, or the consumer.
\<close>

definition push_next :: "nat \<Rightarrow> message \<Rightarrow> qworld \<Rightarrow> qworld" where
  "push_next p m0 w = (case producers w p of
     PStart m \<Rightarrow> set_producer p (PHead m (head (queue w))) w
   | PHead m h \<Rightarrow> set_producer p (PBoth m h (tail (queue w))) w
   | PBoth m h t \<Rightarrow>
       (if ringBufferSize \<le> h - t then set_producer p (PDone False) w
        else if head (queue w) = h then set_producer p (PClaimed m h)
          (w\<lparr>queue := (queue w)\<lparr>head := h + 1\<rparr>, claimed := claimed w @ [m]\<rparr>)
        else set_producer p (PStart m) w)
   | PClaimed m h \<Rightarrow> set_producer p (PStored m h) (w\<lparr>queue := set_slot h (slotMsg_update (\<lambda>_. Some m)) (queue w)\<rparr>)
   | PStored m h \<Rightarrow> set_producer p PSignal (w\<lparr>queue := set_slot h (ready_update (\<lambda>_. True)) (queue w)\<rparr>)
   | PSignal \<Rightarrow> set_producer p (PDone True) (w\<lparr>queue := (queue w)\<lparr>notEmpty := True\<rparr>\<rparr>)
   | _ \<Rightarrow> set_producer p (PStart m0) w)"

definition pop_next :: "qworld \<Rightarrow> qworld" where
  "pop_next w = (case consumer w of
     CWait \<Rightarrow> if notEmpty (queue w) then w\<lparr>queue := (queue w)\<lparr>notEmpty := False\<rparr>, consumer := CPop writerBatchSize\<rparr> else w
   | CPop k \<Rightarrow> w\<lparr>consumer := (case k of 0 \<Rightarrow> CWait | Suc j \<Rightarrow> CTail j (tail (queue w)))\<rparr>
   | CTail k t \<Rightarrow> w\<lparr>consumer := CBoth k t (head (queue w))\<rparr>
   | CBoth k t h \<Rightarrow> w\<lparr>consumer := (if h \<le> t then CWait else CSpin k t)\<rparr>
   | CSpin k t \<Rightarrow> if ready (slots (queue w) (slot_index t)) then w\<lparr>consumer := CRead k t\<rparr> else w
   | CRead k t \<Rightarrow> w\<lparr>consumer := CCleared k t, taken := taken w @ [slotMsg (slots (queue w) (slot_index t))],
       queue := set_slot t (slotMsg_update (\<lambda>_. None)) (queue w)\<rparr>
   | CCleared k t \<Rightarrow> w\<lparr>consumer := CUnready k t, queue := set_slot t (ready_update (\<lambda>_. False)) (queue w)\<rparr>
   | CUnready k t \<Rightarrow> w\<lparr>consumer := CPop k, queue := (queue w)\<lparr>tail := t + 1\<rparr>\<rparr>)"

fun run_schedule :: "(nat \<times> message) option list \<Rightarrow> qworld \<Rightarrow> qworld" where
  "run_schedule [] w = w"
| "run_schedule (None # xs) w = run_schedule xs (pop_next w)"
| "run_schedule (Some (p, m) # xs) w = run_schedule xs (push_next p m w)"

lemma push_next_step: "push_step p w (push_next p m w)"
proof (cases "producers w p")
  case PIdle
  then show ?thesis using push_step.start [of w p m] by (simp add: push_next_def)
next
  case (PDone b)
  then show ?thesis using push_step.start [of w p m] by (cases b) (simp_all add: push_next_def)
qed (auto simp: push_next_def intro: push_step.intros)

lemma pop_next_step: "pop_step w (pop_next w) \<or> pop_next w = w"
proof (cases "consumer w")
  case CWait
  then show ?thesis using pop_step.wake [of w] by (simp add: pop_next_def)
next
  case (CPop k)
  then show ?thesis by (cases k) (auto simp: pop_next_def intro: pop_step.intros)
qed (auto simp: pop_next_def intro: pop_step.intros)

lemma qreach_run: "qreach w \<Longrightarrow> qreach (run_schedule xs w)"
proof (induction xs w rule: run_schedule.induct)
  case (2 xs w)
  then show ?case using pop_next_step [of w] qreach.pop by (metis run_schedule.simps(2))
next
  case (3 p m xs w)
  then show ?case using push_next_step qreach.push by (metis run_schedule.simps(3))
qed simp

lemma replicate_num: "replicate (numeral k) x = x # replicate (pred_numeral k) x"
  by (simp add: numeral_eq_Suc)

lemmas step_simps = replicate_num push_next_def pop_next_def qinit_def newLockFreeQueue_def slot_index_mod ringBufferSize_def

section \<open>Properties of the queue\<close>

text \<open>
  C6: FIFO under every interleaving. Whatever producers and the consumer do in whatever order, the
  messages the consumer has taken are exactly a prefix of the messages whose slots were claimed,
  in the order of the claims: none is lost, duplicated, reordered or read before it was
  published. The bound says that the 64-bit counters have not wrapped.
\<close>
theorem queue_fifo_interleaved:
  assumes "qreach w" and "length (claimed w) < 2 ^ 64"
  shows "taken w = map Some (take (length (taken w)) (claimed w)) \<and> length (taken w) \<le> length (claimed w)"
proof -
  have "taken_ok w" using qreach_inv [OF assms] by (simp add: qinv_def)
  then show ?thesis unfolding taken_ok_def by (metis length_map length_take min.cobounded1 min.commute take_take min_def_raw take_all nat_le_linear)
qed

theorem queue_fifo_interleaved_witness:
  "(let m1 = NewRequest 280 0; m2 = NewRequest 282 0;
        w = run_schedule ([Some (0, m1), Some (1, m2), Some (0, m1), Some (1, m2)] @ [Some (1, m2), Some (0, m1)] @
           replicate 4 (Some (1, m2)) @ replicate 12 None) qinit
    in taken w = map Some (take (length (taken w)) (claimed w)) \<and> claimed w = [m2] \<and> taken w = [Some m2])"
proof -
  let ?w = "run_schedule ([Some (0, NewRequest 280 0), Some (1, NewRequest 282 0), Some (0, NewRequest 280 0), Some (1, NewRequest 282 0)] @
     [Some (1, NewRequest 282 0), Some (0, NewRequest 280 0)] @
     replicate 4 (Some (1, NewRequest 282 0)) @ replicate 12 None) qinit"
  have c: "claimed ?w = [NewRequest 282 0]" and t: "taken ?w = [Some (NewRequest 282 0)]"
    by (simp_all add: step_simps set_producer_def set_slot_def)
  have "qreach ?w" by (intro qreach_run qreach.init)
  then have "taken ?w = map Some (take (length (taken ?w)) (claimed ?w))"
    using queue_fifo_interleaved [of ?w] c by simp
  with c t show ?thesis by (simp only: Let_def)
qed

text \<open>
  A spurious "queue full". \<open>Push\<close> loads the head before the tail and computes their unsigned
  difference, so when the consumer moves past the loaded head in between, the difference wraps and
  \<open>Push\<close> reports a full queue: there is a run in which a producer is refused although the queue
  never held more than one message and is empty when it is refused.
\<close>
theorem push_spuriously_full:
  "\<exists>w. qreach w \<and> producers w 0 = PDone False \<and> length (claimed w) = 1 \<and> IsEmpty (queue w)"
proof -
  let ?w = "run_schedule ([Some (0, NewRequest 280 0), Some (0, NewRequest 280 0)] @ replicate 7 (Some (1, NewRequest 282 0)) @
     replicate 11 None @ replicate 2 (Some (0, NewRequest 280 0))) qinit"
  have "producers ?w 0 = PDone False \<and> length (claimed ?w) = 1 \<and> IsEmpty (queue ?w)"
    by (simp add: step_simps IsEmpty_def set_producer_def set_slot_def)
  then show ?thesis using qreach_run [OF qreach.init] by blast
qed

text \<open>
  A stranded backlog. The signal channel holds one token, and one token makes the writer take at
  most 32 messages. When more than 32 are queued at the wake-up and no producer pushes in the
  meantime, the rest stays in the queue with no token left: the writer blocks in \<open>Wait\<close> until some
  later \<open>Push\<close>.
\<close>
theorem wakeup_lost_after_full_batch:
  assumes "queue_inv n q" and "writerBatchSize < length (queued q)" and "Wait q = Some q1"
  shows "\<exists>q2. PopBatch writerBatchSize q1 = Some (map Some (take writerBatchSize (queued q)), q2) \<and>
     queued q2 = drop writerBatchSize (queued q) \<and> \<not> IsEmpty q2 \<and> Wait q2 = None"
proof -
  have q1: "queue_inv n q1" "queued q1 = queued q" "\<not> notEmpty q1"
    using assms by (auto simp: Wait_def queue_inv_def queued_def live_def split: if_splits)
  obtain q2 where q2: "PopBatch writerBatchSize q1 = Some (map Some (take writerBatchSize (queued q1)), q2)"
    "queued q2 = drop writerBatchSize (queued q1)" "queue_inv n q2"
    using PopBatch_queued [OF q1(1)] by blast
  then have "Wait q2 = None" using PopBatch_notEmpty q1(3) by (simp add: Wait_def)
  moreover have "0 < length (queued q2)" using q2 q1 assms(2) by simp
  then have "\<not> IsEmpty q2" using length_queued [of q2] by (simp add: IsEmpty_def word_le_nat_alt)
  ultimately show ?thesis using q2 q1 by auto
qed

theorem wakeup_lost_after_full_batch_witness:
  "\<exists>q q1 q2. ring.enq_all newLockFreeQueue (replicate 40 (NewRequest 280 0)) = (True, q) \<and> Wait q = Some q1 \<and>
     PopBatch writerBatchSize q1 = Some (replicate 32 (Some (NewRequest 280 0)), q2) \<and> \<not> IsEmpty q2 \<and> Wait q2 = None"
proof -
  let ?ms = "replicate 40 (NewRequest 280 0)"
  have i: "queue_inv (length ?ms + 0) newLockFreeQueue" by (rule queue_inv_new) simp
  have e: "queued newLockFreeQueue = []" by (simp add: queued_def live_def newLockFreeQueue_def)
  obtain q where q: "ring.enq_all newLockFreeQueue ?ms = (True, q)" "queued q = ?ms" "queue_inv 0 q"
    using ring.enq_all_items [OF i] e by auto
  have "notEmpty q" using enq_all_notEmpty [OF q(1)] by simp
  then obtain q1 where w: "Wait q = Some q1" by (simp add: Wait_def)
  have "writerBatchSize < length (queued q)" using q(2) by simp
  from wakeup_lost_after_full_batch [OF q(3) this w] q w show ?thesis by (auto simp: take_replicate)
qed

end
