(* ===== verification/Peer_Types.thy ===== *)
theory Peer_Types
  imports Peer_Queue_Steps
begin

text \<open>
  Files \<open>pkg/core/peer/peer.go\<close>, \<open>watchdog.go\<close>, the configuration of \<open>cer_cea.go\<close> and the
  timer and connection parts of \<open>state_machine.go\<close>: the peer's data, its accessors, the pending
  request table, timers and connections. A \<open>net.Conn\<close> is a number; what happens to it is
  recorded in the peer: the connections closed and the bytes written, next to the callbacks
  invoked and the goroutines started. A peer operation is a function on this state.
\<close>

section \<open>States and events\<close>

datatype State =
    StateClosed
  | StateWaitConnAck
  | StateWaitICEA
  | StateWaitConnAckElect
  | StateWaitReturns
  | StateROpen
  | StateIOpen
  | StateClosing
  | StateSuspect
  | StateZombie

fun State_String :: "State \<Rightarrow> string" where
  "State_String StateClosed = ''Closed''"
| "State_String StateWaitConnAck = ''Wait-Conn-Ack''"
| "State_String StateWaitICEA = ''Wait-I-CEA''"
| "State_String StateWaitConnAckElect = ''Wait-Conn-Ack/Elect''"
| "State_String StateWaitReturns = ''Wait-Returns''"
| "State_String StateROpen = ''R-Open''"
| "State_String StateIOpen = ''I-Open''"
| "State_String StateClosing = ''Closing''"
| "State_String StateSuspect = ''Suspect''"
| "State_String StateZombie = ''Zombie''"

datatype Event =
    EventStart
  | EventRConnCER
  | EventIRcvConnAck
  | EventIRcvConnNack
  | EventTimeout
  | EventIRcvCER
  | EventIRcvCEA
  | EventRRcvCER
  | EventRRcvCEA
  | EventIRcvNonCEA
  | EventIPeerDisc
  | EventRPeerDisc
  | EventIRcvDWR
  | EventIRcvDWA
  | EventRRcvDWR
  | EventRRcvDWA
  | EventIRcvDPR
  | EventIRcvDPA
  | EventRRcvDPR
  | EventRRcvDPA
  | EventWinElection
  | EventSendMessage
  | EventIRcvMessage
  | EventRRcvMessage
  | EventStop

fun Event_String :: "Event \<Rightarrow> string" where
  "Event_String EventStart = ''Start''"
| "Event_String EventRConnCER = ''R-Conn-CER''"
| "Event_String EventIRcvConnAck = ''I-Rcv-Conn-Ack''"
| "Event_String EventIRcvConnNack = ''I-Rcv-Conn-Nack''"
| "Event_String EventTimeout = ''Timeout''"
| "Event_String EventIRcvCER = ''I-Rcv-CER''"
| "Event_String EventIRcvCEA = ''I-Rcv-CEA''"
| "Event_String EventRRcvCER = ''R-Rcv-CER''"
| "Event_String EventRRcvCEA = ''R-Rcv-CEA''"
| "Event_String EventIRcvNonCEA = ''I-Rcv-Non-CEA''"
| "Event_String EventIPeerDisc = ''I-Peer-Disc''"
| "Event_String EventRPeerDisc = ''R-Peer-Disc''"
| "Event_String EventIRcvDWR = ''I-Rcv-DWR''"
| "Event_String EventIRcvDWA = ''I-Rcv-DWA''"
| "Event_String EventRRcvDWR = ''R-Rcv-DWR''"
| "Event_String EventRRcvDWA = ''R-Rcv-DWA''"
| "Event_String EventIRcvDPR = ''I-Rcv-DPR''"
| "Event_String EventIRcvDPA = ''I-Rcv-DPA''"
| "Event_String EventRRcvDPR = ''R-Rcv-DPR''"
| "Event_String EventRRcvDPA = ''R-Rcv-DPA''"
| "Event_String EventWinElection = ''Win-Election''"
| "Event_String EventSendMessage = ''Send-Message''"
| "Event_String EventIRcvMessage = ''I-Rcv-Message''"
| "Event_String EventRRcvMessage = ''R-Rcv-Message''"
| "Event_String EventStop = ''Stop''"

lemma State_String_inject: "State_String s = State_String t \<longleftrightarrow> s = t"
  by (cases s; cases t) simp_all

section \<open>Configuration\<close>

record TLSConfig =
  CertFile :: string
  KeyFile :: string
  CAFile :: string
  SkipVerify :: bool
  MinVersion :: string

text \<open>Durations are nanosecond counts (Go's \<open>time.Duration\<close>).\<close>

record Config =
  cDiameterIdentity :: DiamID
  cRealm :: DiamID
  Addresses :: "string list"
  Port :: int
  Network :: string
  UseTLS :: bool
  cTLSConfig :: "TLSConfig option"
  WatchdogInterval :: int
  ConnectTimeout :: int
  ReconnectInterval :: int
  Persistent :: bool
  cZone :: string
  cPartner :: string

record LocalConfig =
  lDiameterIdentity :: DiamID
  lRealm :: DiamID
  lVendorID :: VendorID
  ProductName :: string
  FirmwareRevision :: u32
  OriginStateID :: u32
  HostIPAddresses :: "byte list list"
  AuthAppIDs :: "ApplicationID list"
  AcctAppIDs :: "ApplicationID list"

section \<open>The peer\<close>

type_synonym conn = nat

datatype peer_error =
    ResponderExists
  | CERMissingOriginHost
  | CERMissingOriginRealm
  | CERRejected ResultCode
  | CEAMissingResultCode
  | CEAResultCode ResultCode
  | CEAMissingOriginHost
  | CEAMissingOriginRealm
  | NoConnection
  | NoActiveConnection
  | WriteFailed conn
  | EncodeFailed wire_error
  | NonCEAReceived
  | ConnectFailed
  | TLSConfigFailed
  | ReadFailed wire_error
  | PeerNotOpen State
  | PeerStopped
  | SendQueueFull
  | NilPointer

record Stats =
  MessagesSent :: u64
  MessagesReceived :: u64
  BytesSent :: u64
  BytesReceived :: u64
  LastActivity :: int
  ConnectedSince :: int

record eventMessage =
  event :: Event
  eMsg :: "message option"
  eErr :: "peer_error option"
  eConn :: "conn option"

definition ev :: "Event \<Rightarrow> eventMessage" where
  "ev e = \<lparr>event = e, eMsg = None, eErr = None, eConn = None\<rparr>"

text \<open>
  A \<open>*time.Timer\<close> field: nil, running, or expired with its function started. \<open>Stop\<close> has no effect on
  an expired timer, \<open>Reset\<close> runs it again.
\<close>

datatype timer = NoTimer | Running | Fired

text \<open>
  The goroutines of a peer and where they are: \<open>initiateConnection\<close> with the addresses left to dial,
  a read loop at its head or blocked in a read, \<open>writeLoop\<close> before its start, with the \<open>connDone\<close> channel it captured,
  and before the deferred stop of the writer, the reconnect timer, and a goroutine about to post an event, then going
  on as another, or about to post an event unless the peer is stopped.
\<close>

datatype goroutine =
    Dialing "string list"
  | ReadLoopI
  | ReadLoopR
  | ReadingI conn
  | ReadingR conn
  | WriteLoopStart
  | WriteLoop nat
  | WriteLoopEnd
  | ReconnectTimer
  | Posting eventMessage "goroutine option"
  | PostingUnlessDone eventMessage

record highPerfWriter =
  wQueue :: lockFreeQueue
  wConn :: "conn option"
  wStarted :: bool
  wMessagesSent :: u64
  wBytesSent :: u64

record peer =
  config :: Config
  localConfig :: "LocalConfig option"
  diameterID :: DiamID
  realm :: DiamID
  acceptPolicy :: "(DiamID \<Rightarrow> DiamID \<Rightarrow> bool \<times> ResultCode) option"
  state :: State
  iConn :: "conn option"
  rConn :: "conn option"
  pendingCER :: "message option"
  hopByHopID :: u32
  eventChan :: "eventMessage list"
  sendChan :: "message list"
  recvChan :: "message list"
  writer :: highPerfWriter
  onMessage :: bool
  onStateChange :: bool
  ctxDone :: bool
  connDone :: nat
  connDoneClosed :: bool
  watchdogTimer :: timer
  timeoutTimer :: timer
  stats :: Stats
  pending :: "HopByHopID \<Rightarrow> EndToEndID option"
  nextE2E :: u32
  goroutines :: "goroutine list"
  closedConns :: "conn list"
  written :: "(conn \<times> byte list) list"
  delivered :: "message list"
  transitions :: "(State \<times> State) list"
  smBlocked :: bool

text \<open>
  What an operation reads from outside the peer: the global local configuration, whether a write to a
  connection succeeds, the clock and the random source.
\<close>

record env =
  globalConfig :: LocalConfig
  connWrite :: "conn \<Rightarrow> byte list \<Rightarrow> bool"
  clock :: int
  randomID :: u32

definition eventChanCap :: nat where [simp]: "eventChanCap = 256"
definition sendChanCap :: nat where [simp]: "sendChanCap = 1024"
definition recvChanCap :: nat where [simp]: "recvChanCap = 1024"

definition newHighPerfWriter :: highPerfWriter where
  "newHighPerfWriter = \<lparr>wQueue = newLockFreeQueue, wConn = None, wStarted = False, wMessagesSent = 0, wBytesSent = 0\<rparr>"

definition second :: int where [simp]: "second = 1000000000"

definition default_config :: "Config \<Rightarrow> Config" where
  "default_config c =
     (let c = (if Port c = 0 then c\<lparr>Port := 3868\<rparr> else c);
          c = (if Network c = '''' then c\<lparr>Network := ''tcp''\<rparr> else c);
          c = (if WatchdogInterval c = 0 then c\<lparr>WatchdogInterval := 30 * second\<rparr> else c);
          c = (if ConnectTimeout c = 0 then c\<lparr>ConnectTimeout := 10 * second\<rparr> else c)
      in if ReconnectInterval c = 0 then c\<lparr>ReconnectInterval := 30 * second\<rparr> else c)"

definition New :: "Config \<Rightarrow> peer" where
  "New c = \<lparr>config = default_config c, localConfig = None, diameterID = '''', realm = '''', acceptPolicy = None,
     state = StateClosed, iConn = None, rConn = None, pendingCER = None, hopByHopID = 0, eventChan = [],
     sendChan = [], recvChan = [], writer = newHighPerfWriter, onMessage = False, onStateChange = False,
     ctxDone = False, connDone = 0, connDoneClosed = False, watchdogTimer = NoTimer, timeoutTimer = NoTimer,
     stats = \<lparr>MessagesSent = 0, MessagesReceived = 0, BytesSent = 0, BytesReceived = 0, LastActivity = 0, ConnectedSince = 0\<rparr>,
     pending = Map.empty, nextE2E = 0, goroutines = [], closedConns = [], written = [], delivered = [],
     transitions = [], smBlocked = False\<rparr>"

section \<open>Accessors\<close>

definition Zone :: "peer \<Rightarrow> string" where "Zone p = cZone (config p)"
definition Partner :: "peer \<Rightarrow> string" where "Partner p = cPartner (config p)"

definition SetZone :: "peer \<Rightarrow> string \<Rightarrow> string \<Rightarrow> peer" where
  "SetZone p z q = p\<lparr>config := (config p)\<lparr>cZone := z, cPartner := q\<rparr>\<rparr>"

definition Peer_Stats :: "peer \<Rightarrow> Stats" where
  "Peer_Stats p = (stats p)\<lparr>MessagesSent := MessagesSent (stats p) + wMessagesSent (writer p),
     BytesSent := BytesSent (stats p) + wBytesSent (writer p)\<rparr>"

definition IsOpen :: "peer \<Rightarrow> bool" where
  "IsOpen p \<longleftrightarrow> state p = StateIOpen \<or> state p = StateROpen"

definition SetLocalOverride :: "peer \<Rightarrow> LocalConfig \<Rightarrow> peer" where
  "SetLocalOverride p c = p\<lparr>localConfig := Some c\<rparr>"

definition SetAcceptPolicy :: "peer \<Rightarrow> (DiamID \<Rightarrow> DiamID \<Rightarrow> bool \<times> ResultCode) option \<Rightarrow> peer" where
  "SetAcceptPolicy p f = p\<lparr>acceptPolicy := f\<rparr>"

definition getEffectiveLocalConfig :: "env \<Rightarrow> peer \<Rightarrow> LocalConfig" where
  "getEffectiveLocalConfig e p = (case localConfig p of Some c \<Rightarrow> c | None \<Rightarrow> globalConfig e)"

text \<open>\<open>SetLocalConfig\<close> draws a random Origin-State-Id when none is given.\<close>

definition SetLocalConfig :: "env \<Rightarrow> LocalConfig \<Rightarrow> env" where
  "SetLocalConfig e c = e\<lparr>globalConfig := (if OriginStateID c = 0 then c\<lparr>OriginStateID := randomID e\<rparr> else c)\<rparr>"

definition SetOnMessage :: "peer \<Rightarrow> bool \<Rightarrow> peer" where "SetOnMessage p cb = p\<lparr>onMessage := cb\<rparr>"
definition SetOnStateChange :: "peer \<Rightarrow> bool \<Rightarrow> peer" where "SetOnStateChange p cb = p\<lparr>onStateChange := cb\<rparr>"

definition NextHopByHopID :: "peer \<Rightarrow> HopByHopID \<times> peer" where
  "NextHopByHopID p = (let h = hopByHopID p + 1 in (h, p\<lparr>hopByHopID := h\<rparr>))"

definition nextEndToEndID :: "peer \<Rightarrow> EndToEndID \<times> peer" where
  "nextEndToEndID p = (let n = nextE2E p + 1 in (n, p\<lparr>nextE2E := n\<rparr>))"

definition generateEndToEndID :: "env \<Rightarrow> u32" where
  "generateEndToEndID e = (let ts = word_of_int (clock e) :: u32 in randomID e XOR ts)"

section \<open>Pending requests\<close>

definition trackPending :: "message \<Rightarrow> peer \<Rightarrow> peer" where
  "trackPending m p = p\<lparr>pending := (pending p)(mHopByHopID m \<mapsto> mEndToEndID m)\<rparr>"

definition popPending :: "HopByHopID \<Rightarrow> peer \<Rightarrow> EndToEndID option \<times> peer" where
  "popPending h p = (case pending p h of None \<Rightarrow> (None, p) | Some e \<Rightarrow> (Some e, p\<lparr>pending := (pending p)(h := None)\<rparr>))"

definition clearPending :: "peer \<Rightarrow> nat \<times> peer" where
  "clearPending p = (card (dom (pending p)), p\<lparr>pending := Map.empty\<rparr>)"

definition PendingCount :: "peer \<Rightarrow> nat" where
  "PendingCount p = card (dom (pending p))"

definition track :: "HopByHopID \<Rightarrow> EndToEndID \<Rightarrow> peer \<Rightarrow> peer" where
  "track h e p = p\<lparr>pending := (pending p)(h \<mapsto> e)\<rparr>"

lemma trackPending_track: "trackPending m = track (mHopByHopID m) (mEndToEndID m)"
  by (rule ext) (simp add: trackPending_def track_def)

interpretation pending_table: txn_table track popPending pending
  by unfold_locales (auto simp: track_def popPending_def split: option.split)

section \<open>State changes and timers\<close>

definition setState :: "State \<Rightarrow> peer \<Rightarrow> peer" where
  "setState s p =
     (let old = state p; p' = p\<lparr>state := s\<rparr>
      in if onStateChange p \<and> old \<noteq> s then p'\<lparr>transitions := transitions p @ [(old, s)]\<rparr> else p')"

definition startTimeout :: "peer \<Rightarrow> peer" where "startTimeout p = p\<lparr>timeoutTimer := Running\<rparr>"
definition stopTimeout :: "peer \<Rightarrow> peer" where "stopTimeout p = p\<lparr>timeoutTimer := NoTimer\<rparr>"
definition startWatchdog :: "peer \<Rightarrow> peer" where "startWatchdog p = p\<lparr>watchdogTimer := Running\<rparr>"
definition stopWatchdog :: "peer \<Rightarrow> peer" where "stopWatchdog p = p\<lparr>watchdogTimer := NoTimer\<rparr>"

definition resetWatchdog :: "peer \<Rightarrow> peer" where
  "resetWatchdog p = (if watchdogTimer p \<noteq> NoTimer then p\<lparr>watchdogTimer := Running\<rparr> else p)"

definition spawn :: "goroutine \<Rightarrow> peer \<Rightarrow> peer" where
  "spawn g p = p\<lparr>goroutines := goroutines p @ [g]\<rparr>"

section \<open>Connections\<close>

definition close_conn :: "conn \<Rightarrow> peer \<Rightarrow> peer" where
  "close_conn c p = p\<lparr>closedConns := closedConns p @ [c]\<rparr>"

definition acceptResponderConnection :: "conn option \<Rightarrow> peer \<Rightarrow> (peer_error + unit) \<times> peer" where
  "acceptResponderConnection c p = (if rConn p \<noteq> None then (Inl ResponderExists, p) else (Inr (), p\<lparr>rConn := c\<rparr>))"

definition closeIConn :: "peer \<Rightarrow> peer" where
  "closeIConn p = (case iConn p of None \<Rightarrow> p | Some c \<Rightarrow> (close_conn c p)\<lparr>iConn := None\<rparr>)"

definition closeRConn :: "peer \<Rightarrow> peer" where
  "closeRConn p = (case rConn p of None \<Rightarrow> p | Some c \<Rightarrow> (close_conn c p)\<lparr>rConn := None\<rparr>)"

definition errorCleanup :: "peer \<Rightarrow> peer" where
  "errorCleanup p =
     (let p = stopTimeout p; p = stopWatchdog p; p = closeIConn p; p = closeRConn p; p = snd (clearPending p)
      in p\<lparr>pendingCER := None, connDoneClosed := True\<rparr>)"

definition resetConnDone :: "peer \<Rightarrow> peer" where
  "resetConnDone p = (if connDoneClosed p then p\<lparr>connDone := connDone p + 1, connDoneClosed := False\<rparr> else p)"

definition scheduleReconnect :: "peer \<Rightarrow> peer" where
  "scheduleReconnect p = (if Persistent (config p) then spawn ReconnectTimer p else setState StateZombie p)"

definition getActiveConn :: "peer \<Rightarrow> conn option" where
  "getActiveConn p =
     (if state p = StateIOpen \<and> iConn p \<noteq> None then iConn p
      else if state p = StateROpen \<and> rConn p \<noteq> None then rConn p
      else if iConn p \<noteq> None then iConn p else rConn p)"

text \<open>Posting from the state machine's own goroutine: it blocks for good when the channel is full.\<close>

definition post_self :: "eventMessage \<Rightarrow> peer \<Rightarrow> peer" where
  "post_self x p = (if length (eventChan p) < eventChanCap then p\<lparr>eventChan := eventChan p @ [x]\<rparr> else p\<lparr>smBlocked := True\<rparr>)"

lemmas op_defs = setState_def startTimeout_def stopTimeout_def startWatchdog_def stopWatchdog_def
  resetWatchdog_def spawn_def close_conn_def closeIConn_def closeRConn_def resetConnDone_def

end
