(* ===== verification/Peer_Messages.thy ===== *)
theory Peer_Messages
  imports Peer_Types
begin

text \<open>
  Sending and receiving in \<open>state_machine.go\<close> and \<open>cer_cea.go\<close>: the six base-protocol messages a
  peer builds, the path of every message to a connection, the processing of CER and CEA, and the
  delivery of inbound messages with answer correlation.
\<close>

section \<open>Writing to a connection\<close>

text \<open>
  \<open>conn.Write\<close>: fails on a closed connection, otherwise as the environment decides. On success the
  statistics are updated.
\<close>

definition write_conn :: "env \<Rightarrow> conn \<Rightarrow> byte list \<Rightarrow> peer \<Rightarrow> (peer_error + unit) \<times> peer" where
  "write_conn e c data p =
     (if c \<in> set (closedConns p) \<or> \<not> connWrite e c data then (Inl (WriteFailed c), p)
      else (Inr (), p\<lparr>written := written p @ [(c, data)],
        stats := (stats p)\<lparr>MessagesSent := MessagesSent (stats p) + 1,
          BytesSent := BytesSent (stats p) + of_nat (length data), LastActivity := clock e\<rparr>\<rparr>))"

text \<open>The identifiers of a request are filled in when they are zero, and the request is tracked.\<close>

definition assign_ids :: "message \<Rightarrow> peer \<Rightarrow> message \<times> peer" where
  "assign_ids m p =
     (if \<not> IsRequest m then (m, p)
      else let (m, p) = (if mHopByHopID m = 0 then let (h, p) = NextHopByHopID p in (m\<lparr>mHopByHopID := h\<rparr>, p) else (m, p));
               (m, p) = (if mEndToEndID m = 0 then let (n, p) = nextEndToEndID p in (m\<lparr>mEndToEndID := n\<rparr>, p) else (m, p))
           in (m, trackPending m p))"

definition sendMessageOnConn :: "env \<Rightarrow> conn option \<Rightarrow> message \<Rightarrow> peer \<Rightarrow> (peer_error + unit) \<times> peer" where
  "sendMessageOnConn e conn m p =
     (case conn of None \<Rightarrow> (Inl NoConnection, p)
      | Some c \<Rightarrow> (case assign_ids m p of (m, p) \<Rightarrow>
          (case Encode m of Inl err \<Rightarrow> (Inl (EncodeFailed err), p) | Inr data \<Rightarrow> write_conn e c data p)))"

definition sendMessageOnActiveConn :: "env \<Rightarrow> message \<Rightarrow> peer \<Rightarrow> (peer_error + unit) \<times> peer" where
  "sendMessageOnActiveConn e m p =
     (case getActiveConn p of None \<Rightarrow> (Inl NoActiveConnection, p) | Some c \<Rightarrow> sendMessageOnConn e (Some c) m p)"

section \<open>The base protocol messages\<close>

definition add_origin :: "LocalConfig \<Rightarrow> message \<Rightarrow> message" where
  "add_origin cfg m = AddAVP (AddAVP m (NewDiameterIdentityAVP AVPCodeOriginHost AVPFlagMandatory (lDiameterIdentity cfg)))
     (NewDiameterIdentityAVP AVPCodeOriginRealm AVPFlagMandatory (lRealm cfg))"

text \<open>The capabilities part shared by CER and CEA: addresses to application identifiers.\<close>

definition add_capabilities :: "LocalConfig \<Rightarrow> message \<Rightarrow> message" where
  "add_capabilities cfg m =
     (let m = AddAVPs m (map (\<lambda>ip. NewAddressAVP AVPCodeHostIPAddress AVPFlagMandatory (NewAddressFromIP ip)) (HostIPAddresses cfg));
          m = AddAVP m (NewUnsigned32AVP AVPCodeVendorID AVPFlagMandatory (lVendorID cfg));
          m = (if ProductName cfg \<noteq> '''' then AddAVP m (NewUTF8StringAVP AVPCodeProductName 0 (ProductName cfg)) else m);
          m = AddAVP m (NewUnsigned32AVP AVPCodeOriginStateID AVPFlagMandatory (OriginStateID cfg));
          m = AddAVPs m (map (NewUnsigned32AVP AVPCodeAuthApplicationID AVPFlagMandatory) (AuthAppIDs cfg))
      in AddAVPs m (map (NewUnsigned32AVP AVPCodeAcctApplicationID AVPFlagMandatory) (AcctAppIDs cfg)))"

definition build_CER :: "LocalConfig \<Rightarrow> HopByHopID \<Rightarrow> EndToEndID \<Rightarrow> message" where
  "build_CER cfg h n =
     (let m = (NewRequest CmdCodeCapabilitiesExchange AppIDCommon)\<lparr>mHopByHopID := h, mEndToEndID := n\<rparr>;
          m = add_capabilities cfg (add_origin cfg m)
      in if FirmwareRevision cfg \<noteq> 0 then AddAVP m (NewUnsigned32AVP AVPCodeFirmwareRevision 0 (FirmwareRevision cfg)) else m)"

definition build_CEA :: "LocalConfig \<Rightarrow> message \<Rightarrow> ResultCode \<Rightarrow> message" where
  "build_CEA cfg req code = add_capabilities cfg (add_origin cfg (SetResultCode (NewAnswer req) code))"

definition build_DWR :: "LocalConfig \<Rightarrow> HopByHopID \<Rightarrow> EndToEndID \<Rightarrow> message" where
  "build_DWR cfg h n = AddAVP (add_origin cfg ((NewRequest CmdCodeDeviceWatchdog AppIDCommon)\<lparr>mHopByHopID := h, mEndToEndID := n\<rparr>))
     (NewUnsigned32AVP AVPCodeOriginStateID AVPFlagMandatory (OriginStateID cfg))"

definition build_DWA :: "LocalConfig \<Rightarrow> message \<Rightarrow> message" where
  "build_DWA cfg req = AddAVP (add_origin cfg (SetResultCode (NewAnswer req) ResultSuccess))
     (NewUnsigned32AVP AVPCodeOriginStateID AVPFlagMandatory (OriginStateID cfg))"

definition build_DPR :: "LocalConfig \<Rightarrow> HopByHopID \<Rightarrow> EndToEndID \<Rightarrow> u32 \<Rightarrow> message" where
  "build_DPR cfg h n cause = AddAVP (add_origin cfg ((NewRequest CmdCodeDisconnectPeer AppIDCommon)\<lparr>mHopByHopID := h, mEndToEndID := n\<rparr>))
     (NewUnsigned32AVP AVPCodeDisconnectCause AVPFlagMandatory cause)"

definition build_DPA :: "LocalConfig \<Rightarrow> message \<Rightarrow> message" where
  "build_DPA cfg req = add_origin cfg (SetResultCode (NewAnswer req) ResultSuccess)"

definition sendCER :: "env \<Rightarrow> peer \<Rightarrow> (peer_error + unit) \<times> peer" where
  "sendCER e p =
     (let cfg = getEffectiveLocalConfig e p; (h, p) = NextHopByHopID p
      in sendMessageOnActiveConn e (build_CER cfg h (generateEndToEndID e)) p)"

text \<open>\<open>message.NewAnswer\<close> dereferences the request: a nil request is a panic.\<close>

definition sendCEAOnConn :: "env \<Rightarrow> conn option \<Rightarrow> message option \<Rightarrow> ResultCode \<Rightarrow> peer \<Rightarrow> (peer_error + unit) \<times> peer" where
  "sendCEAOnConn e conn req code p =
     (case req of None \<Rightarrow> (Inl NilPointer, p)
      | Some r \<Rightarrow> sendMessageOnConn e conn (build_CEA (getEffectiveLocalConfig e p) r code) p)"

definition sendDWROnConn :: "env \<Rightarrow> conn option \<Rightarrow> peer \<Rightarrow> (peer_error + unit) \<times> peer" where
  "sendDWROnConn e conn p =
     (let cfg = getEffectiveLocalConfig e p; (h, p) = NextHopByHopID p; (n, p) = nextEndToEndID p
      in sendMessageOnConn e conn (build_DWR cfg h n) p)"

definition sendDWAOnConn :: "env \<Rightarrow> conn option \<Rightarrow> message option \<Rightarrow> peer \<Rightarrow> (peer_error + unit) \<times> peer" where
  "sendDWAOnConn e conn req p =
     (case req of None \<Rightarrow> (Inl NilPointer, p)
      | Some r \<Rightarrow> sendMessageOnConn e conn (build_DWA (getEffectiveLocalConfig e p) r) p)"

definition sendDPROnConn :: "env \<Rightarrow> conn option \<Rightarrow> u32 \<Rightarrow> peer \<Rightarrow> (peer_error + unit) \<times> peer" where
  "sendDPROnConn e conn cause p =
     (let cfg = getEffectiveLocalConfig e p; (h, p) = NextHopByHopID p; (n, p) = nextEndToEndID p
      in sendMessageOnConn e conn (build_DPR cfg h n cause) p)"

definition sendDPAOnConn :: "env \<Rightarrow> conn option \<Rightarrow> message option \<Rightarrow> peer \<Rightarrow> (peer_error + unit) \<times> peer" where
  "sendDPAOnConn e conn req p =
     (case req of None \<Rightarrow> (Inl NilPointer, p)
      | Some r \<Rightarrow> sendMessageOnConn e conn (build_DPA (getEffectiveLocalConfig e p) r) p)"

section \<open>Capabilities exchange\<close>

definition processCEA :: "message option \<Rightarrow> peer \<Rightarrow> (peer_error + unit) \<times> peer" where
  "processCEA msg p =
     (case msg of None \<Rightarrow> (Inl NilPointer, p) | Some m \<Rightarrow>
     (case GetResultCode m of None \<Rightarrow> (Inl CEAMissingResultCode, p) | Some code \<Rightarrow>
       if code \<noteq> ResultSuccess then (Inl (CEAResultCode code), p)
       else (case GetOriginHost m of None \<Rightarrow> (Inl CEAMissingOriginHost, p) | Some host \<Rightarrow>
            (case GetOriginRealm m of None \<Rightarrow> (Inl CEAMissingOriginRealm, p) | Some r \<Rightarrow>
               (Inr (), p\<lparr>diameterID := host, realm := r\<rparr>)))))"

definition processCER :: "message option \<Rightarrow> peer \<Rightarrow> (peer_error + unit) \<times> peer" where
  "processCER msg p =
     (case msg of None \<Rightarrow> (Inl NilPointer, p) | Some m \<Rightarrow>
     (case GetOriginHost m of None \<Rightarrow> (Inl CERMissingOriginHost, p) | Some host \<Rightarrow>
     (case GetOriginRealm m of None \<Rightarrow> (Inl CERMissingOriginRealm, p) | Some r \<Rightarrow>
       let p' = p\<lparr>diameterID := host, realm := r\<rparr> in
       (case acceptPolicy p of None \<Rightarrow> (Inr (), p')
        | Some policy \<Rightarrow> (case policy host r of (ok, code) \<Rightarrow> if \<not> ok then (Inl (CERRejected code), p') else (Inr (), p'))))))"

definition rejectConnection :: "env \<Rightarrow> conn option \<Rightarrow> message option \<Rightarrow> ResultCode \<Rightarrow> peer \<Rightarrow> (peer_error + unit) \<times> peer" where
  "rejectConnection e conn cer code p =
     (case sendCEAOnConn e conn cer code p of (r, p) \<Rightarrow>
        if r = Inl NilPointer then (r, p)
        else (case conn of None \<Rightarrow> (Inl NilPointer, p) | Some c \<Rightarrow> (Inr (), close_conn c p)))"

text \<open>The result code of a failed \<open>processCER\<close>: the policy's, or "unable to comply".\<close>

fun reject_code :: "peer_error \<Rightarrow> ResultCode" where
  "reject_code (CERRejected code) = code"
| "reject_code _ = ResultUnableToComply"

section \<open>Delivery\<close>

definition deliverMessage :: "message \<Rightarrow> peer \<Rightarrow> peer" where
  "deliverMessage m p =
     (let p = (if onMessage p then p\<lparr>delivered := delivered p @ [m]\<rparr> else p)
      in if length (recvChan p) < recvChanCap then p\<lparr>recvChan := recvChan p @ [m]\<rparr> else p)"

definition processInboundMessage :: "message \<Rightarrow> peer \<Rightarrow> bool \<times> peer" where
  "processInboundMessage m p =
     (if IsRequest m then (True, deliverMessage m p)
      else if IsRetransmit m then (False, p)
      else (case popPending (mHopByHopID m) p of
          (None, p) \<Rightarrow> (False, p)
        | (Some e, p) \<Rightarrow> if e \<noteq> 0 \<and> e \<noteq> mEndToEndID m then (False, p) else (True, deliverMessage m p)))"

section \<open>Classification\<close>

definition classifyMessageI :: "message \<Rightarrow> Event" where
  "classifyMessageI m =
     (if mCommandCode m = CmdCodeCapabilitiesExchange then (if IsRequest m then EventIRcvCER else EventIRcvCEA)
      else if mCommandCode m = CmdCodeDeviceWatchdog then (if IsRequest m then EventIRcvDWR else EventIRcvDWA)
      else if mCommandCode m = CmdCodeDisconnectPeer then (if IsRequest m then EventIRcvDPR else EventIRcvDPA)
      else EventIRcvMessage)"

definition classifyMessageR :: "message \<Rightarrow> Event" where
  "classifyMessageR m =
     (if mCommandCode m = CmdCodeCapabilitiesExchange then (if IsRequest m then EventRRcvCER else EventRRcvCEA)
      else if mCommandCode m = CmdCodeDeviceWatchdog then (if IsRequest m then EventRRcvDWR else EventRRcvDWA)
      else if mCommandCode m = CmdCodeDisconnectPeer then (if IsRequest m then EventRRcvDPR else EventRRcvDPA)
      else EventRRcvMessage)"

section \<open>What the operations leave alone\<close>

text \<open>The control part of a peer: everything the state machine decides on.\<close>

definition control :: "peer \<Rightarrow> _" where
  "control p = (config p, localConfig p, acceptPolicy p, state p, iConn p, rConn p, pendingCER p,
     eventChan p, connDone p, connDoneClosed p, watchdogTimer p, timeoutTimer p, goroutines p,
     closedConns p, transitions p, smBlocked p, onStateChange p, ctxDone p)"

lemma control_assign_ids: "control (snd (assign_ids m p)) = control p"
  by (simp add: assign_ids_def control_def Let_def NextHopByHopID_def nextEndToEndID_def trackPending_def)

lemma control_write_conn: "control (snd (write_conn e c d p)) = control p"
  by (simp add: write_conn_def control_def)

lemma control_sendMessageOnConn: "control (snd (sendMessageOnConn e c m p)) = control p"
  using control_assign_ids [of m p]
  by (auto simp: sendMessageOnConn_def control_write_conn split: option.split prod.split sum.split)

lemma control_sends:
  "control (snd (sendCER e p)) = control p"
  "control (snd (sendCEAOnConn e c r code p)) = control p"
  "control (snd (sendDWROnConn e c p)) = control p"
  "control (snd (sendDWAOnConn e c r p)) = control p"
  "control (snd (sendDPROnConn e c cause p)) = control p"
  "control (snd (sendDPAOnConn e c r p)) = control p"
  by (simp_all add: sendCER_def sendCEAOnConn_def sendDWROnConn_def sendDWAOnConn_def sendDPROnConn_def
      sendDPAOnConn_def sendMessageOnActiveConn_def Let_def control_sendMessageOnConn NextHopByHopID_def
      nextEndToEndID_def split: option.split) (simp_all add: control_def)

lemma control_processCEA: "control (snd (processCEA msg p)) = control p"
  by (simp add: processCEA_def control_def split: option.split)

lemma control_processCER: "control (snd (processCER msg p)) = control p"
  by (simp add: processCER_def control_def Let_def split: option.split prod.split)

lemma control_deliverMessage: "control (deliverMessage m p) = control p"
  by (simp add: deliverMessage_def control_def Let_def)

lemma control_processInboundMessage: "control (snd (processInboundMessage m p)) = control p"
  by (simp add: processInboundMessage_def popPending_def control_deliverMessage split: option.split prod.split)
    (simp add: control_def deliverMessage_def Let_def split: option.split)

text \<open>Read as rewrite rules, field by field.\<close>

lemma control_fields:
  "control q = control p \<Longrightarrow> config q = config p \<and> localConfig q = localConfig p \<and> acceptPolicy q = acceptPolicy p \<and>
     state q = state p \<and> iConn q = iConn p \<and> rConn q = rConn p \<and> pendingCER q = pendingCER p \<and>
     eventChan q = eventChan p \<and> connDone q = connDone p \<and> connDoneClosed q = connDoneClosed p \<and>
     watchdogTimer q = watchdogTimer p \<and> timeoutTimer q = timeoutTimer p \<and> goroutines q = goroutines p \<and>
     closedConns q = closedConns p \<and> transitions q = transitions p \<and> smBlocked q = smBlocked p \<and>
     onStateChange q = onStateChange p \<and> ctxDone q = ctxDone p"
  by (simp add: control_def)

lemmas control_frame [frame_simps] = control_sends [THEN control_fields] control_processCEA [THEN control_fields]
  control_processCER [THEN control_fields] control_processInboundMessage [THEN control_fields]
  control_deliverMessage [THEN control_fields]

end
