(* ===== verification/Peer_Machine.thy ===== *)
theory Peer_Machine
  imports Peer_Messages
begin

text \<open>
  File \<open>state_machine.go\<close>: the ten event handlers of the peer state machine (RFC 6733 5.6), the
  election, and \<open>Send\<close>. A handler maps an event and the peer to the error the code returns and
  the peer afterwards; a nil dereference would be the error \<open>NilPointer\<close>.
\<close>

section \<open>Handlers\<close>

definition reject_and :: "env \<Rightarrow> eventMessage \<Rightarrow> ResultCode \<Rightarrow> peer_error + unit \<Rightarrow> peer \<Rightarrow> (peer_error + unit) \<times> peer" where
  "reject_and e x code r p = (case rejectConnection e (eConn x) (eMsg x) code p of
     (Inl err, p) \<Rightarrow> (Inl err, p) | (Inr _, p) \<Rightarrow> (r, p))"

text \<open>\<open>_ = p.send...\<close>: the error is dropped, a panic is not.\<close>

definition ignoring :: "(peer_error + unit) \<times> peer \<Rightarrow> (peer \<Rightarrow> peer) \<Rightarrow> (peer_error + unit) \<times> peer" where
  "ignoring rp f = (case rp of (r, p) \<Rightarrow> if r = Inl NilPointer then (r, p) else (Inr (), f p))"

text \<open>The end of every path into an open state.\<close>

definition enter_ROpen :: "peer \<Rightarrow> peer" where
  "enter_ROpen p = spawn WriteLoopStart (spawn ReadLoopR (startWatchdog (setState StateROpen p)))"

definition enter_IOpen :: "peer \<Rightarrow> peer" where
  "enter_IOpen p = spawn WriteLoopStart (startWatchdog (setState StateIOpen p))"

definition fail_closed :: "peer \<Rightarrow> peer" where
  "fail_closed p = scheduleReconnect (setState StateClosed (errorCleanup p))"

definition handleStateClosed :: "env \<Rightarrow> eventMessage \<Rightarrow> peer \<Rightarrow> (peer_error + unit) \<times> peer" where
  "handleStateClosed e x p = (case event x of
     EventStart \<Rightarrow>
       (Inr (), spawn (Dialing (Addresses (config p))) (startTimeout (setState StateWaitConnAck (resetConnDone p))))
   | EventRConnCER \<Rightarrow>
       (case acceptResponderConnection (eConn x) (resetConnDone p) of
          (Inl err, p) \<Rightarrow> reject_and e x ResultUnableToComply (Inl err) p
        | (Inr _, p) \<Rightarrow> (case processCER (eMsg x) p of
            (Inl err, p) \<Rightarrow> reject_and e x (reject_code err) (Inl err) p
          | (Inr _, p) \<Rightarrow> (case sendCEAOnConn e (rConn p) (eMsg x) ResultSuccess p of
              (Inl err, p) \<Rightarrow> (Inl err, closeRConn p)
            | (Inr _, p) \<Rightarrow> (Inr (), enter_ROpen p))))
   | _ \<Rightarrow> (Inr (), p))"

text \<open>The R-Conn-CER branch that Wait-Conn-Ack and Wait-I-CEA share up to its continuation.\<close>

definition accept_during_connect :: "env \<Rightarrow> eventMessage \<Rightarrow> (peer \<Rightarrow> peer) \<Rightarrow> peer \<Rightarrow> (peer_error + unit) \<times> peer" where
  "accept_during_connect e x f p =
     (case acceptResponderConnection (eConn x) p of
        (Inl err, p) \<Rightarrow> reject_and e x ResultUnableToComply (Inr ()) p
      | (Inr _, p) \<Rightarrow> (case processCER (eMsg x) p of
          (Inl err, p) \<Rightarrow> (case reject_and e x (reject_code err) (Inr ()) p of (r, p) \<Rightarrow> (r, closeRConn p))
        | (Inr _, p) \<Rightarrow> (Inr (), f (p\<lparr>pendingCER := eMsg x\<rparr>))))"

text \<open>Go's \<open>>\<close> on strings: bytewise lexicographic.\<close>

fun string_less :: "string \<Rightarrow> string \<Rightarrow> bool" where
  "string_less _ [] = False"
| "string_less [] (d # ds) = True"
| "string_less (c # cs) (d # ds) =
     (if (of_char c :: nat) = of_char d then string_less cs ds else (of_char c :: nat) < of_char d)"

definition wins_election :: "DiamID \<Rightarrow> DiamID \<Rightarrow> bool" where
  "wins_election localHost peerHost \<longleftrightarrow> string_less (ToLower peerHost) (ToLower localHost)"

definition performElection :: "env \<Rightarrow> peer \<Rightarrow> peer" where
  "performElection e p =
     (if wins_election (lDiameterIdentity (getEffectiveLocalConfig e p)) (diameterID p)
      then post_self (ev EventWinElection) p else p)"

definition handleStateWaitConnAck :: "env \<Rightarrow> eventMessage \<Rightarrow> peer \<Rightarrow> (peer_error + unit) \<times> peer" where
  "handleStateWaitConnAck e x p = (case event x of
     EventIRcvConnAck \<Rightarrow> (case sendCER e (stopTimeout p) of
         (Inl err, p) \<Rightarrow> (Inl err, setState StateClosed (errorCleanup p))
       | (Inr _, p) \<Rightarrow> (Inr (), spawn ReadLoopI (startTimeout (setState StateWaitICEA p))))
   | EventIRcvConnNack \<Rightarrow> (case eErr x of None \<Rightarrow> Inr () | Some err \<Rightarrow> Inl err, fail_closed (stopTimeout p))
   | EventRConnCER \<Rightarrow> accept_during_connect e x (setState StateWaitConnAckElect) p
   | EventTimeout \<Rightarrow> (Inr (), fail_closed p)
   | _ \<Rightarrow> (Inr (), p))"

definition handleStateWaitICEA :: "env \<Rightarrow> eventMessage \<Rightarrow> peer \<Rightarrow> (peer_error + unit) \<times> peer" where
  "handleStateWaitICEA e x p = (case event x of
     EventIRcvCEA \<Rightarrow> (case processCEA (eMsg x) (stopTimeout p) of
         (Inl err, p) \<Rightarrow> (Inl err, setState StateClosed (errorCleanup p))
       | (Inr _, p) \<Rightarrow> (Inr (), enter_IOpen p))
   | EventRConnCER \<Rightarrow> accept_during_connect e x (\<lambda>p. performElection e (setState StateWaitReturns p)) p
   | EventIPeerDisc \<Rightarrow> (Inr (), fail_closed p)
   | EventIRcvNonCEA \<Rightarrow> (Inl NonCEAReceived, fail_closed p)
   | EventTimeout \<Rightarrow> (Inr (), fail_closed p)
   | _ \<Rightarrow> (Inr (), p))"

text \<open>R-Snd-CEA -> R-Open, the end of three branches.\<close>

definition answer_pending_CER :: "env \<Rightarrow> peer \<Rightarrow> (peer_error + unit) \<times> peer" where
  "answer_pending_CER e p =
     (case sendCEAOnConn e (rConn p) (pendingCER p) ResultSuccess p of
        (Inl err, p) \<Rightarrow> (Inl err, setState StateClosed (closeRConn p))
      | (Inr _, p) \<Rightarrow> (Inr (), enter_ROpen (p\<lparr>pendingCER := None\<rparr>)))"

definition handleStateWaitConnAckElect :: "env \<Rightarrow> eventMessage \<Rightarrow> peer \<Rightarrow> (peer_error + unit) \<times> peer" where
  "handleStateWaitConnAckElect e x p = (case event x of
     EventIRcvConnAck \<Rightarrow> (case sendCER e (stopTimeout p) of
         (Inl err, p) \<Rightarrow> (Inl err, setState StateClosed (errorCleanup p))
       | (Inr _, p) \<Rightarrow> (Inr (), performElection e (spawn ReadLoopI (startTimeout (setState StateWaitReturns p)))))
   | EventIRcvConnNack \<Rightarrow> answer_pending_CER e (stopTimeout p)
   | EventRPeerDisc \<Rightarrow> (Inr (), setState StateWaitConnAck ((closeRConn p)\<lparr>pendingCER := None\<rparr>))
   | EventRConnCER \<Rightarrow> reject_and e x ResultUnableToComply (Inr ()) p
   | EventTimeout \<Rightarrow> (Inr (), fail_closed p)
   | _ \<Rightarrow> (Inr (), p))"

definition handleStateWaitReturns :: "env \<Rightarrow> eventMessage \<Rightarrow> peer \<Rightarrow> (peer_error + unit) \<times> peer" where
  "handleStateWaitReturns e x p = (case event x of
     EventWinElection \<Rightarrow> answer_pending_CER e (closeIConn (stopTimeout p))
   | EventIPeerDisc \<Rightarrow> answer_pending_CER e (closeIConn (stopTimeout p))
   | EventIRcvCEA \<Rightarrow> (case processCEA (eMsg x) ((closeRConn (stopTimeout p))\<lparr>pendingCER := None\<rparr>) of
         (Inl err, p) \<Rightarrow> (Inl err, setState StateClosed (closeIConn p))
       | (Inr _, p) \<Rightarrow> (Inr (), enter_IOpen p))
   | EventRPeerDisc \<Rightarrow> (Inr (), setState StateWaitICEA ((closeRConn p)\<lparr>pendingCER := None\<rparr>))
   | EventRConnCER \<Rightarrow> reject_and e x ResultUnableToComply (Inr ()) p
   | EventTimeout \<Rightarrow> (Inr (), fail_closed p)
   | _ \<Rightarrow> (Inr (), p))"

definition handle_inbound :: "eventMessage \<Rightarrow> peer \<Rightarrow> (peer_error + unit) \<times> peer" where
  "handle_inbound x p = (case eMsg x of None \<Rightarrow> (Inl NilPointer, p) | Some m \<Rightarrow> (Inr (), snd (processInboundMessage m p)))"

text \<open>Cause 0, rebooting.\<close>

definition DisconnectRebooting :: u32 where [simp]: "DisconnectRebooting = 0"

definition handleStateROpen :: "env \<Rightarrow> eventMessage \<Rightarrow> peer \<Rightarrow> (peer_error + unit) \<times> peer" where
  "handleStateROpen e x p = (case event x of
     EventRRcvMessage \<Rightarrow> handle_inbound x (resetWatchdog p)
   | EventRRcvDWR \<Rightarrow> (let p = resetWatchdog p in sendDWAOnConn e (rConn p) (eMsg x) p)
   | EventRRcvDWA \<Rightarrow> (let p = resetWatchdog p in (Inr (), if state p = StateSuspect then setState StateROpen p else p))
   | EventRConnCER \<Rightarrow> reject_and e x ResultUnableToComply (Inr ()) p
   | EventStop \<Rightarrow> ignoring (let p = stopWatchdog p in sendDPROnConn e (rConn p) DisconnectRebooting p)
       (\<lambda>p. startTimeout (setState StateClosing p))
   | EventRRcvDPR \<Rightarrow> ignoring (let p = stopWatchdog p in sendDPAOnConn e (rConn p) (eMsg x) p) (setState StateClosing)
   | EventRPeerDisc \<Rightarrow> (Inr (), fail_closed p)
   | EventTimeout \<Rightarrow> (let p = startWatchdog (setState StateSuspect p) in sendDWROnConn e (rConn p) p)
   | _ \<Rightarrow> (Inr (), p))"

definition handleStateIOpen :: "env \<Rightarrow> eventMessage \<Rightarrow> peer \<Rightarrow> (peer_error + unit) \<times> peer" where
  "handleStateIOpen e x p = (case event x of
     EventIRcvMessage \<Rightarrow> handle_inbound x (resetWatchdog p)
   | EventIRcvDWR \<Rightarrow> (let p = resetWatchdog p in sendDWAOnConn e (iConn p) (eMsg x) p)
   | EventIRcvDWA \<Rightarrow> (let p = resetWatchdog p in (Inr (), if state p = StateSuspect then setState StateIOpen p else p))
   | EventRConnCER \<Rightarrow> reject_and e x ResultUnableToComply (Inr ()) p
   | EventStop \<Rightarrow> ignoring (let p = stopWatchdog p in sendDPROnConn e (iConn p) DisconnectRebooting p)
       (\<lambda>p. startTimeout (setState StateClosing p))
   | EventIRcvDPR \<Rightarrow> ignoring (let p = stopWatchdog p in sendDPAOnConn e (iConn p) (eMsg x) p) (setState StateClosing)
   | EventIPeerDisc \<Rightarrow> (Inr (), fail_closed p)
   | EventTimeout \<Rightarrow> (let p = startWatchdog (setState StateSuspect p) in sendDWROnConn e (iConn p) p)
   | _ \<Rightarrow> (Inr (), p))"

definition reopen :: "peer \<Rightarrow> peer" where
  "reopen p = resetWatchdog (if iConn p \<noteq> None then setState StateIOpen p else setState StateROpen p)"

definition handleStateSuspect :: "env \<Rightarrow> eventMessage \<Rightarrow> peer \<Rightarrow> (peer_error + unit) \<times> peer" where
  "handleStateSuspect e x p =
     (if event x = EventIRcvDWA \<or> event x = EventRRcvDWA then (Inr (), reopen p)
      else if event x = EventIRcvMessage \<or> event x = EventRRcvMessage then handle_inbound x (reopen p)
      else if event x = EventTimeout then (Inr (), fail_closed p)
      else if event x = EventIPeerDisc then (Inr (), fail_closed p)
      else if event x = EventRPeerDisc then (Inr (), fail_closed p)
      else (Inr (), p))"

definition handleStateClosing :: "env \<Rightarrow> eventMessage \<Rightarrow> peer \<Rightarrow> (peer_error + unit) \<times> peer" where
  "handleStateClosing e x p =
     (if event x \<in> {EventIRcvDPA, EventRRcvDPA, EventTimeout, EventIPeerDisc, EventRPeerDisc}
      then (Inr (), setState StateClosed (errorCleanup p)) else (Inr (), p))"

definition handleEvent :: "env \<Rightarrow> eventMessage \<Rightarrow> peer \<Rightarrow> (peer_error + unit) \<times> peer" where
  "handleEvent e x p = (case state p of
     StateClosed \<Rightarrow> handleStateClosed e x p
   | StateWaitConnAck \<Rightarrow> handleStateWaitConnAck e x p
   | StateWaitICEA \<Rightarrow> handleStateWaitICEA e x p
   | StateWaitConnAckElect \<Rightarrow> handleStateWaitConnAckElect e x p
   | StateWaitReturns \<Rightarrow> handleStateWaitReturns e x p
   | StateROpen \<Rightarrow> handleStateROpen e x p
   | StateIOpen \<Rightarrow> handleStateIOpen e x p
   | StateClosing \<Rightarrow> handleStateClosing e x p
   | StateSuspect \<Rightarrow> handleStateSuspect e x p
   | StateZombie \<Rightarrow> (Inr (), p))"

section \<open>Sending application messages\<close>

definition highPerfWriter_Send :: "message \<Rightarrow> highPerfWriter \<Rightarrow> bool \<times> highPerfWriter" where
  "highPerfWriter_Send m w =
     (if \<not> wStarted w then (False, w) else case Push (wQueue w) m of (ok, q) \<Rightarrow> (ok, w\<lparr>wQueue := q\<rparr>))"

definition Send :: "message \<Rightarrow> peer \<Rightarrow> (peer_error + unit) \<times> peer" where
  "Send m p =
     (if \<not> IsOpen p then (Inl (PeerNotOpen (state p)), p)
      else let p = (if IsRequest m \<and> mHopByHopID m \<noteq> 0 then trackPending m p else p) in
        (case highPerfWriter_Send m (writer p) of (ok, w) \<Rightarrow>
          if ok then (Inr (), p\<lparr>writer := w\<rparr>)
          else if length (sendChan p) < sendChanCap then (Inr (), p\<lparr>sendChan := sendChan p @ [m]\<rparr>)
          else if ctxDone p then (Inl PeerStopped, p)
          else (Inl SendQueueFull, p)))"

text \<open>\<open>Disconnect\<close>, \<open>InjectRConnCER\<close> and \<open>Start\<close> post one event each (the poster blocks while the channel is full).\<close>

definition Disconnect :: "peer \<Rightarrow> peer" where
  "Disconnect p = spawn (Posting (ev EventStop) None) p"

definition InjectRConnCER :: "conn \<Rightarrow> message \<Rightarrow> peer \<Rightarrow> peer" where
  "InjectRConnCER c cer p = spawn (Posting ((ev EventRConnCER)\<lparr>eConn := Some c, eMsg := Some cer\<rparr>) None) p"

definition Start :: "peer \<Rightarrow> peer" where
  "Start p = spawn (Posting (ev EventStart) None) p"

section \<open>Field rules\<close>

lemma errorCleanup_simps [simp]:
  "state (errorCleanup p) = state p" "iConn (errorCleanup p) = None" "rConn (errorCleanup p) = None"
  "pendingCER (errorCleanup p) = None" "watchdogTimer (errorCleanup p) = NoTimer"
  "timeoutTimer (errorCleanup p) = NoTimer" "pending (errorCleanup p) = Map.empty"
  "connDoneClosed (errorCleanup p)" "config (errorCleanup p) = config p" "eventChan (errorCleanup p) = eventChan p"
  "delivered (errorCleanup p) = delivered p" "goroutines (errorCleanup p) = goroutines p"
  "smBlocked (errorCleanup p) = smBlocked p" "onStateChange (errorCleanup p) = onStateChange p"
  "transitions (errorCleanup p) = transitions p" "localConfig (errorCleanup p) = localConfig p" "acceptPolicy (errorCleanup p) = acceptPolicy p"
  "diameterID (errorCleanup p) = diameterID p" "written (errorCleanup p) = written p"
  by (simp_all add: errorCleanup_def Let_def op_defs clearPending_def split: option.split)

lemma setState_simps [simp]:
  "state (setState s p) = s" "iConn (setState s p) = iConn p" "rConn (setState s p) = rConn p"
  "pendingCER (setState s p) = pendingCER p" "watchdogTimer (setState s p) = watchdogTimer p"
  "timeoutTimer (setState s p) = timeoutTimer p" "pending (setState s p) = pending p"
  "config (setState s p) = config p" "eventChan (setState s p) = eventChan p" "delivered (setState s p) = delivered p"
  "goroutines (setState s p) = goroutines p" "connDoneClosed (setState s p) = connDoneClosed p"
  "smBlocked (setState s p) = smBlocked p" "localConfig (setState s p) = localConfig p"
  "diameterID (setState s p) = diameterID p" "closedConns (setState s p) = closedConns p" "written (setState s p) = written p"
  "acceptPolicy (setState s p) = acceptPolicy p"
  by (simp_all add: setState_def Let_def)

lemma closeConn_simps [simp]:
  "state (closeIConn p) = state p" "iConn (closeIConn p) = None" "rConn (closeIConn p) = rConn p"
  "pendingCER (closeIConn p) = pendingCER p" "watchdogTimer (closeIConn p) = watchdogTimer p"
  "timeoutTimer (closeIConn p) = timeoutTimer p" "pending (closeIConn p) = pending p" "config (closeIConn p) = config p"
  "delivered (closeIConn p) = delivered p" "eventChan (closeIConn p) = eventChan p"
  "state (closeRConn p) = state p" "rConn (closeRConn p) = None" "iConn (closeRConn p) = iConn p"
  "pendingCER (closeRConn p) = pendingCER p" "watchdogTimer (closeRConn p) = watchdogTimer p"
  "timeoutTimer (closeRConn p) = timeoutTimer p" "pending (closeRConn p) = pending p" "config (closeRConn p) = config p"
  "delivered (closeRConn p) = delivered p" "eventChan (closeRConn p) = eventChan p"
  by (simp_all add: closeIConn_def closeRConn_def close_conn_def split: option.split)

lemma timer_simps [simp]:
  "state (startTimeout p) = state p" "state (stopTimeout p) = state p" "state (startWatchdog p) = state p"
  "state (stopWatchdog p) = state p" "state (resetWatchdog p) = state p"
  "iConn (startTimeout p) = iConn p" "iConn (stopTimeout p) = iConn p" "iConn (startWatchdog p) = iConn p"
  "iConn (stopWatchdog p) = iConn p" "iConn (resetWatchdog p) = iConn p"
  "rConn (startTimeout p) = rConn p" "rConn (stopTimeout p) = rConn p" "rConn (startWatchdog p) = rConn p"
  "rConn (stopWatchdog p) = rConn p" "rConn (resetWatchdog p) = rConn p"
  "pendingCER (startTimeout p) = pendingCER p" "pendingCER (stopTimeout p) = pendingCER p" "pendingCER (startWatchdog p) = pendingCER p"
  "pendingCER (stopWatchdog p) = pendingCER p" "pendingCER (resetWatchdog p) = pendingCER p"
  "timeoutTimer (startTimeout p) = Running" "timeoutTimer (stopTimeout p) = NoTimer" "timeoutTimer (startWatchdog p) = timeoutTimer p"
  "timeoutTimer (stopWatchdog p) = timeoutTimer p" "timeoutTimer (resetWatchdog p) = timeoutTimer p"
  "watchdogTimer (startTimeout p) = watchdogTimer p" "watchdogTimer (stopTimeout p) = watchdogTimer p"
  "watchdogTimer (startWatchdog p) = Running" "watchdogTimer (stopWatchdog p) = NoTimer"
  "watchdogTimer (resetWatchdog p) = (if watchdogTimer p = NoTimer then NoTimer else Running)"
  "config (startTimeout p) = config p" "config (stopTimeout p) = config p" "config (startWatchdog p) = config p"
  "config (stopWatchdog p) = config p" "config (resetWatchdog p) = config p"
  by (simp_all add: op_defs)

lemma spawn_simps [simp]:
  "state (spawn g p) = state p" "iConn (spawn g p) = iConn p" "rConn (spawn g p) = rConn p"
  "pendingCER (spawn g p) = pendingCER p" "watchdogTimer (spawn g p) = watchdogTimer p"
  "timeoutTimer (spawn g p) = timeoutTimer p" "config (spawn g p) = config p"
  "goroutines (spawn g p) = goroutines p @ [g]" "eventChan (spawn g p) = eventChan p"
  by (simp_all add: spawn_def)

lemma resetConnDone_simps [simp]:
  "state (resetConnDone p) = state p" "iConn (resetConnDone p) = iConn p" "rConn (resetConnDone p) = rConn p"
  "pendingCER (resetConnDone p) = pendingCER p" "watchdogTimer (resetConnDone p) = watchdogTimer p"
  "timeoutTimer (resetConnDone p) = timeoutTimer p" "config (resetConnDone p) = config p"
  by (simp_all add: resetConnDone_def)

lemma performElection_simps [simp]:
  "state (performElection e p) = state p" "iConn (performElection e p) = iConn p" "rConn (performElection e p) = rConn p"
  "pendingCER (performElection e p) = pendingCER p" "watchdogTimer (performElection e p) = watchdogTimer p"
  "timeoutTimer (performElection e p) = timeoutTimer p" "config (performElection e p) = config p"
  by (simp_all add: performElection_def post_self_def)

lemma close_conn_simps [simp]:
  "state (close_conn c p) = state p" "iConn (close_conn c p) = iConn p" "rConn (close_conn c p) = rConn p"
  "pendingCER (close_conn c p) = pendingCER p" "watchdogTimer (close_conn c p) = watchdogTimer p"
  "timeoutTimer (close_conn c p) = timeoutTimer p" "config (close_conn c p) = config p"
  by (simp_all add: close_conn_def)

end
