(* ===== verification/Peer_Invariant.thy ===== *)
theory Peer_Invariant
  imports Peer_Machine
begin

text \<open>
  The invariants of the peer state machine: which connections, which pending CER and which timers each state has, for events
  that find what they announce (\<open>psm_inv\<close>); the part that holds for every event that carries what is posted with it
  (\<open>core_inv\<close>), over any run; and that a CER waiting for its answer was accepted.
\<close>

section \<open>Well-formed events\<close>

definition message_event :: "Event \<Rightarrow> bool" where
  "message_event x \<longleftrightarrow> x \<in> {EventIRcvCEA, EventIRcvDWR, EventRRcvDWR, EventIRcvDPR, EventRRcvDPR, EventIRcvMessage, EventRRcvMessage}"

text \<open>
  What the code that posts events guarantees: R-Conn-CER carries the connection and the CER, the
  events of a read loop carry the message, and \<open>iConn\<close> is set before I-Rcv-Conn-Ack is posted.
\<close>

definition wf_event :: "eventMessage \<Rightarrow> peer \<Rightarrow> bool" where
  "wf_event x p \<longleftrightarrow> (event x = EventRConnCER \<longrightarrow> eConn x \<noteq> None \<and> eMsg x \<noteq> None) \<and>
     (message_event (event x) \<longrightarrow> eMsg x \<noteq> None) \<and>
     (event x = EventIRcvConnAck \<longrightarrow> iConn p \<noteq> None) \<and> eErr x \<noteq> Some NilPointer"

section \<open>The invariant\<close>

definition waiting :: "State \<Rightarrow> bool" where
  "waiting s \<longleftrightarrow> s \<in> {StateWaitConnAck, StateWaitICEA, StateWaitConnAckElect, StateWaitReturns}"

definition opened :: "State \<Rightarrow> bool" where
  "opened s \<longleftrightarrow> s \<in> {StateROpen, StateIOpen, StateSuspect}"

definition psm_inv :: "peer \<Rightarrow> bool" where
  "psm_inv p \<longleftrightarrow>
     (state p \<in> {StateWaitICEA, StateWaitReturns, StateIOpen} \<longrightarrow> iConn p \<noteq> None) \<and>
     (state p \<in> {StateWaitConnAckElect, StateWaitReturns, StateROpen} \<longrightarrow> rConn p \<noteq> None) \<and>
     (state p = StateSuspect \<longrightarrow> iConn p \<noteq> None \<or> rConn p \<noteq> None) \<and>
     (state p \<in> {StateWaitConnAckElect, StateWaitReturns} \<longrightarrow> pendingCER p \<noteq> None) \<and>
     (waiting (state p) \<longrightarrow> timeoutTimer p \<noteq> NoTimer) \<and>
     (opened (state p) \<longleftrightarrow> watchdogTimer p \<noteq> NoTimer) \<and>
     (\<not> waiting (state p) \<and> state p \<noteq> StateClosing \<longrightarrow> timeoutTimer p = NoTimer)"

lemmas inv_simps = psm_inv_def waiting_def opened_def

lemma psm_inv_New: "psm_inv (New c)"
  by (simp add: inv_simps New_def)

text \<open>What a rejection leaves alone.\<close>

definition kept :: "peer \<Rightarrow> _" where
  "kept p = (config p, localConfig p, acceptPolicy p, state p, iConn p, rConn p, pendingCER p,
     eventChan p, connDone p, connDoneClosed p, watchdogTimer p, timeoutTimer p, goroutines p,
     transitions p, smBlocked p, onStateChange p, ctxDone p)"

lemma kept_control: "control q = control p \<Longrightarrow> kept q = kept p"
  by (auto simp: control_def kept_def)

lemma kept_reject: "kept (snd (rejectConnection e c m code p)) = kept p"
proof -
  have "kept (snd (sendCEAOnConn e c m code p)) = kept p"
    by (intro kept_control control_sends)
  then show ?thesis
    by (auto simp: rejectConnection_def split_beta split: option.split)
      (simp add: kept_def close_conn_def)
qed

lemma kept_reject_and: "kept (snd (reject_and e x code r p)) = kept p"
  using kept_reject by (auto simp: reject_and_def split_beta split: sum.split)

lemma kept_fields:
  "kept q = kept p \<Longrightarrow> config q = config p \<and> localConfig q = localConfig p \<and> acceptPolicy q = acceptPolicy p \<and>
     state q = state p \<and> iConn q = iConn p \<and> rConn q = rConn p \<and> pendingCER q = pendingCER p \<and>
     eventChan q = eventChan p \<and> watchdogTimer q = watchdogTimer p \<and> timeoutTimer q = timeoutTimer p \<and>
     goroutines q = goroutines p \<and> transitions q = transitions p"
  by (simp add: kept_def)

lemmas frames = control_frame kept_reject_and [THEN kept_fields] kept_reject [THEN kept_fields]

text \<open>No send of a present message dereferences nil.\<close>

lemma send_no_nil [simp]:
  "fst (sendMessageOnConn e c m p) \<noteq> Inl NilPointer"
  "fst (sendMessageOnActiveConn e m p) \<noteq> Inl NilPointer"
  "fst (sendCER e p) \<noteq> Inl NilPointer"
  "fst (sendDWROnConn e c p) \<noteq> Inl NilPointer"
  "fst (sendDPROnConn e c cause p) \<noteq> Inl NilPointer"
  "fst (sendCEAOnConn e c (Some r) code p) \<noteq> Inl NilPointer"
  "fst (sendDWAOnConn e c (Some r) p) \<noteq> Inl NilPointer"
  "fst (sendDPAOnConn e c (Some r) p) \<noteq> Inl NilPointer"
proof -
  show *: "fst (sendMessageOnConn e c m p) \<noteq> Inl NilPointer" for c m p
    by (simp add: sendMessageOnConn_def write_conn_def split: option.split prod.split sum.split)
  show "fst (sendMessageOnActiveConn e m p) \<noteq> Inl NilPointer" for m p
    using * by (simp add: sendMessageOnActiveConn_def split: option.split)
  then show "fst (sendCER e p) \<noteq> Inl NilPointer" by (simp add: sendCER_def split_beta Let_def)
  show "fst (sendDWROnConn e c p) \<noteq> Inl NilPointer" "fst (sendDPROnConn e c cause p) \<noteq> Inl NilPointer"
    "fst (sendCEAOnConn e c (Some r) code p) \<noteq> Inl NilPointer"
    "fst (sendDWAOnConn e c (Some r) p) \<noteq> Inl NilPointer" "fst (sendDPAOnConn e c (Some r) p) \<noteq> Inl NilPointer"
    using * by (simp_all add: sendDWROnConn_def sendDPROnConn_def sendCEAOnConn_def sendDWAOnConn_def
        sendDPAOnConn_def split_beta Let_def)
qed

lemmas handler_defs = handleStateClosed_def handleStateWaitConnAck_def handleStateWaitICEA_def
  handleStateWaitConnAckElect_def handleStateWaitReturns_def handleStateROpen_def handleStateIOpen_def
  handleStateSuspect_def handleStateClosing_def

lemmas branch_defs = acceptResponderConnection_def accept_during_connect_def answer_pending_CER_def
  enter_ROpen_def enter_IOpen_def fail_closed_def scheduleReconnect_def handle_inbound_def ignoring_def reopen_def

lemma inv_Closed: "psm_inv p \<Longrightarrow> state p = StateClosed \<Longrightarrow> wf_event x p \<Longrightarrow> psm_inv (snd (handleStateClosed e x p))"
  by (cases "event x") (auto simp: handleStateClosed_def branch_defs frames split_beta inv_simps wf_event_def split: sum.split)

lemma inv_WaitConnAck:
  "psm_inv p \<Longrightarrow> state p = StateWaitConnAck \<Longrightarrow> wf_event x p \<Longrightarrow> psm_inv (snd (handleStateWaitConnAck e x p))"
  by (cases "event x")
    (auto simp: handleStateWaitConnAck_def branch_defs frames split_beta inv_simps wf_event_def split: sum.split option.split)

lemma inv_WaitICEA:
  "psm_inv p \<Longrightarrow> state p = StateWaitICEA \<Longrightarrow> wf_event x p \<Longrightarrow> psm_inv (snd (handleStateWaitICEA e x p))"
  by (cases "event x")
    (auto simp: handleStateWaitICEA_def branch_defs frames split_beta inv_simps wf_event_def split: sum.split option.split)

lemma inv_WaitConnAckElect:
  "psm_inv p \<Longrightarrow> state p = StateWaitConnAckElect \<Longrightarrow> wf_event x p \<Longrightarrow> psm_inv (snd (handleStateWaitConnAckElect e x p))"
  by (cases "event x")
    (auto simp: handleStateWaitConnAckElect_def branch_defs frames split_beta inv_simps wf_event_def split: sum.split option.split)

lemma inv_WaitReturns:
  "psm_inv p \<Longrightarrow> state p = StateWaitReturns \<Longrightarrow> wf_event x p \<Longrightarrow> psm_inv (snd (handleStateWaitReturns e x p))"
  by (cases "event x")
    (auto simp: handleStateWaitReturns_def branch_defs frames split_beta inv_simps wf_event_def split: sum.split option.split)

lemma inv_ROpen:
  "psm_inv p \<Longrightarrow> state p = StateROpen \<Longrightarrow> wf_event x p \<Longrightarrow> psm_inv (snd (handleStateROpen e x p))"
  by (cases "event x")
    (auto simp: handleStateROpen_def branch_defs frames split_beta inv_simps wf_event_def Let_def message_event_def split: sum.split option.split)

lemma inv_IOpen:
  "psm_inv p \<Longrightarrow> state p = StateIOpen \<Longrightarrow> wf_event x p \<Longrightarrow> psm_inv (snd (handleStateIOpen e x p))"
  by (cases "event x")
    (auto simp: handleStateIOpen_def branch_defs frames split_beta inv_simps wf_event_def Let_def message_event_def split: sum.split option.split)

lemma inv_Suspect:
  "psm_inv p \<Longrightarrow> state p = StateSuspect \<Longrightarrow> wf_event x p \<Longrightarrow> psm_inv (snd (handleStateSuspect e x p))"
  by (cases "event x"; cases "eMsg x")
    (auto simp: handleStateSuspect_def branch_defs frames inv_simps wf_event_def message_event_def)

lemma inv_Closing:
  "psm_inv p \<Longrightarrow> state p = StateClosing \<Longrightarrow> psm_inv (snd (handleStateClosing e x p))"
  by (auto simp: handleStateClosing_def inv_simps)

lemma handleEvent_inv:
  assumes "psm_inv p" and "wf_event x p"
  shows "psm_inv (snd (handleEvent e x p))"
  using assms
  by (cases "state p")
    (simp_all add: handleEvent_def inv_Closed inv_WaitConnAck inv_WaitICEA inv_WaitConnAckElect inv_WaitReturns
      inv_ROpen inv_IOpen inv_Closing inv_Suspect)

section \<open>What holds without the initiator connection\<close>

text \<open>
  What an event carries, whatever the state it is handled in: the part of \<open>wf_event\<close> that does not speak of the peer. All posts of
  the code carry it (\<open>Peer_Goroutines_Properties\<close>).
\<close>

definition carries :: "eventMessage \<Rightarrow> bool" where
  "carries x \<longleftrightarrow> (event x = EventRConnCER \<longrightarrow> eConn x \<noteq> None \<and> eMsg x \<noteq> None) \<and>
     (message_event (event x) \<longrightarrow> eMsg x \<noteq> None) \<and> eErr x \<noteq> Some NilPointer"

lemma carries_wf: "carries x \<Longrightarrow> event x \<noteq> EventIRcvConnAck \<Longrightarrow> wf_event x p"
  by (simp add: carries_def wf_event_def)

text \<open>
  The part of the invariant that does not speak of \<open>iConn\<close>, which \<open>initiateConnection\<close> sets whenever it likes: a late
  I-Rcv-Conn-Ack can find the connection closed again.
\<close>

definition core_inv :: "peer \<Rightarrow> bool" where
  "core_inv p \<longleftrightarrow>
     (state p \<in> {StateWaitConnAckElect, StateWaitReturns} \<longrightarrow> rConn p \<noteq> None \<and> pendingCER p \<noteq> None) \<and>
     (waiting (state p) \<longrightarrow> timeoutTimer p \<noteq> NoTimer) \<and>
     (opened (state p) \<longleftrightarrow> watchdogTimer p \<noteq> NoTimer) \<and>
     (\<not> waiting (state p) \<and> state p \<noteq> StateClosing \<longrightarrow> timeoutTimer p = NoTimer)"


lemmas core_simps = core_inv_def waiting_def opened_def carries_def

lemma core_inv_New: "core_inv (New c)"
  by (simp add: core_simps New_def)

lemma core_Closed: "core_inv p \<Longrightarrow> state p = StateClosed \<Longrightarrow> carries x \<Longrightarrow> core_inv (snd (handleStateClosed e x p))"
  by (cases "event x") (auto simp: handleStateClosed_def branch_defs frames split_beta core_simps split: sum.split)

lemma core_WaitConnAck:
  "core_inv p \<Longrightarrow> state p = StateWaitConnAck \<Longrightarrow> carries x \<Longrightarrow> core_inv (snd (handleStateWaitConnAck e x p))"
  by (cases "event x")
    (auto simp: handleStateWaitConnAck_def branch_defs frames split_beta core_simps split: sum.split option.split)

lemma core_WaitICEA:
  "core_inv p \<Longrightarrow> state p = StateWaitICEA \<Longrightarrow> carries x \<Longrightarrow> core_inv (snd (handleStateWaitICEA e x p))"
  by (cases "event x")
    (auto simp: handleStateWaitICEA_def branch_defs frames split_beta core_simps split: sum.split option.split)

lemma core_WaitConnAckElect:
  "core_inv p \<Longrightarrow> state p = StateWaitConnAckElect \<Longrightarrow> carries x \<Longrightarrow> core_inv (snd (handleStateWaitConnAckElect e x p))"
  by (cases "event x")
    (auto simp: handleStateWaitConnAckElect_def branch_defs frames split_beta core_simps split: sum.split option.split)

lemma core_WaitReturns:
  "core_inv p \<Longrightarrow> state p = StateWaitReturns \<Longrightarrow> carries x \<Longrightarrow> core_inv (snd (handleStateWaitReturns e x p))"
  by (cases "event x")
    (auto simp: handleStateWaitReturns_def branch_defs frames split_beta core_simps split: sum.split option.split)

lemma core_ROpen:
  "core_inv p \<Longrightarrow> state p = StateROpen \<Longrightarrow> carries x \<Longrightarrow> core_inv (snd (handleStateROpen e x p))"
  by (cases "event x")
    (auto simp: handleStateROpen_def branch_defs frames split_beta core_simps Let_def message_event_def split: sum.split option.split)

lemma core_IOpen:
  "core_inv p \<Longrightarrow> state p = StateIOpen \<Longrightarrow> carries x \<Longrightarrow> core_inv (snd (handleStateIOpen e x p))"
  by (cases "event x")
    (auto simp: handleStateIOpen_def branch_defs frames split_beta core_simps Let_def message_event_def split: sum.split option.split)

lemma core_Suspect:
  "core_inv p \<Longrightarrow> state p = StateSuspect \<Longrightarrow> carries x \<Longrightarrow> core_inv (snd (handleStateSuspect e x p))"
  by (cases "event x"; cases "eMsg x")
    (auto simp: handleStateSuspect_def branch_defs frames core_simps message_event_def)

lemma core_Closing: "core_inv p \<Longrightarrow> state p = StateClosing \<Longrightarrow> core_inv (snd (handleStateClosing e x p))"
  by (auto simp: handleStateClosing_def core_simps)

lemma core_handleEvent: "core_inv p \<Longrightarrow> carries x \<Longrightarrow> core_inv (snd (handleEvent e x p))"
  by (cases "state p") (simp_all add: handleEvent_def core_Closed core_WaitConnAck core_WaitICEA core_WaitConnAckElect
      core_WaitReturns core_ROpen core_IOpen core_Suspect core_Closing)

section \<open>The CER that waits for an answer\<close>

text \<open>What \<open>processCER\<close> accepts: both identities are there and the policy, if there is one, agrees to them.\<close>

definition acceptable_CER :: "peer \<Rightarrow> message \<Rightarrow> bool" where
  "acceptable_CER p m \<longleftrightarrow> (\<exists>host r. GetOriginHost m = Some host \<and> GetOriginRealm m = Some r \<and>
     (\<forall>policy. acceptPolicy p = Some policy \<longrightarrow> fst (policy host r)))"

definition pending_accepted :: "peer \<Rightarrow> bool" where
  "pending_accepted p \<longleftrightarrow> (\<forall>m. pendingCER p = Some m \<longrightarrow> acceptable_CER p m)"

lemma processCER_accepts: "fst (processCER (Some m) p) = Inr () \<Longrightarrow> acceptable_CER p m"
  by (auto simp: processCER_def acceptable_CER_def Let_def split: option.splits prod.splits if_splits)

text \<open>What a handler does to the pending CER.\<close>

definition CER_step :: "eventMessage \<Rightarrow> peer \<Rightarrow> peer \<Rightarrow> bool" where
  "CER_step x p q \<longleftrightarrow> acceptPolicy q = acceptPolicy p \<and>
     (pendingCER q = pendingCER p \<or> pendingCER q = None \<or> (\<exists>m. eMsg x = Some m \<and> pendingCER q = Some m \<and> acceptable_CER p m))"

lemma accepted_step: "CER_step x p q \<Longrightarrow> pending_accepted p \<Longrightarrow> pending_accepted q"
  by (auto simp: CER_step_def pending_accepted_def acceptable_CER_def)

lemma policy_simps [simp]:
  "acceptPolicy (closeIConn p) = acceptPolicy p" "acceptPolicy (closeRConn p) = acceptPolicy p" "acceptPolicy (resetConnDone p) = acceptPolicy p"
  "acceptPolicy (startTimeout p) = acceptPolicy p" "acceptPolicy (stopTimeout p) = acceptPolicy p" "acceptPolicy (startWatchdog p) = acceptPolicy p"
  "acceptPolicy (stopWatchdog p) = acceptPolicy p" "acceptPolicy (resetWatchdog p) = acceptPolicy p" "acceptPolicy (close_conn c p) = acceptPolicy p"
  "acceptPolicy (spawn g p) = acceptPolicy p"
  by (simp_all add: op_defs split: option.split)

lemma CER_accept:
  assumes "\<And>q. acceptPolicy (f q) = acceptPolicy q \<and> pendingCER (f q) = pendingCER q" and "carries x" and "event x = EventRConnCER"
  shows "CER_step x p (snd (accept_during_connect e x f p))"
proof -
  obtain m where m: "eMsg x = Some m" using assms(2,3) by (auto simp: carries_def)
  have ok: "acceptable_CER p m" if "fst (processCER (Some m) (p\<lparr>rConn := c\<rparr>)) = Inr ()" for c
    using processCER_accepts [OF that] by (simp add: acceptable_CER_def)
  show ?thesis
    using ok by (auto simp: accept_during_connect_def acceptResponderConnection_def m split_beta CER_step_def assms(1) frames split: sum.splits)
qed

lemmas CER_simps = CER_step_def branch_defs frames split_beta Let_def

lemma CER_Closed: "CER_step x p (snd (handleStateClosed e x p))"
  by (cases "event x") (simp_all add: handleStateClosed_def CER_simps split: sum.split)

lemma performElection_kept: "acceptPolicy (performElection e p) = acceptPolicy p" "pendingCER (performElection e p) = pendingCER p"
  by (simp_all add: performElection_def post_self_def)

lemma CER_WaitConnAck: "carries x \<Longrightarrow> CER_step x p (snd (handleStateWaitConnAck e x p))"
  using CER_accept [of "setState StateWaitConnAckElect" x p e]
  by (cases "event x") (simp_all add: handleStateWaitConnAck_def CER_step_def fail_closed_def scheduleReconnect_def frames split_beta split: sum.split option.split)

lemma CER_WaitICEA: "carries x \<Longrightarrow> CER_step x p (snd (handleStateWaitICEA e x p))"
  using CER_accept [of "\<lambda>p. performElection e (setState StateWaitReturns p)" x p e]
  by (cases "event x") (simp_all add: handleStateWaitICEA_def CER_step_def performElection_kept fail_closed_def scheduleReconnect_def
      enter_IOpen_def frames split_beta split: sum.split option.split)

lemma CER_WaitConnAckElect: "CER_step x p (snd (handleStateWaitConnAckElect e x p))"
  by (cases "event x") (simp_all add: handleStateWaitConnAckElect_def CER_simps performElection_kept split: sum.split option.split)

lemma CER_WaitReturns: "CER_step x p (snd (handleStateWaitReturns e x p))"
  by (cases "event x") (simp_all add: handleStateWaitReturns_def CER_simps split: sum.split option.split)

lemma CER_ROpen: "CER_step x p (snd (handleStateROpen e x p))"
  by (cases "event x") (simp_all add: handleStateROpen_def CER_simps split: sum.split option.split)

lemma CER_IOpen: "CER_step x p (snd (handleStateIOpen e x p))"
  by (cases "event x") (simp_all add: handleStateIOpen_def CER_simps split: sum.split option.split)

lemma CER_Suspect: "CER_step x p (snd (handleStateSuspect e x p))"
  by (simp add: handleStateSuspect_def CER_simps split: option.split)

lemma CER_Closing: "CER_step x p (snd (handleStateClosing e x p))"
  by (simp add: handleStateClosing_def CER_simps)

lemma CER_handleEvent: "carries x \<Longrightarrow> CER_step x p (snd (handleEvent e x p))"
  by (cases "state p") (simp_all add: handleEvent_def CER_Closed CER_WaitConnAck CER_WaitICEA CER_WaitConnAckElect CER_WaitReturns
      CER_ROpen CER_IOpen CER_Suspect CER_Closing, simp add: CER_step_def)

section \<open>Runs\<close>

text \<open>
  A step is one event handled, with what the environment does meanwhile, or the dialler storing the connection it got. The order is any.
\<close>

datatype psm_act = HandleEvent env eventMessage | ConnStored conn

definition psm_step :: "peer \<Rightarrow> psm_act \<Rightarrow> peer" where
  "psm_step p a = (case a of HandleEvent e x \<Rightarrow> snd (handleEvent e x p) | ConnStored c \<Rightarrow> p\<lparr>iConn := Some c\<rparr>)"

definition posted :: "psm_act \<Rightarrow> bool" where
  "posted a = (case a of HandleEvent e x \<Rightarrow> carries x | ConnStored c \<Rightarrow> True)"

text \<open>Every I-Rcv-Conn-Ack of the run finds a connection.\<close>

fun acks_connected :: "peer \<Rightarrow> psm_act list \<Rightarrow> bool" where
  "acks_connected p [] = True"
| "acks_connected p (a # as) =
     ((case a of HandleEvent e x \<Rightarrow> event x = EventIRcvConnAck \<longrightarrow> iConn p \<noteq> None | ConnStored c \<Rightarrow> True) \<and> acks_connected (psm_step p a) as)"

lemma carries_ack_wf: "carries x \<Longrightarrow> (event x = EventIRcvConnAck \<longrightarrow> iConn p \<noteq> None) \<Longrightarrow> wf_event x p"
  by (simp add: carries_def wf_event_def)

interpretation psm: guarded_machine psm_step posted core_inv
proof
  fix a p
  assume "posted a" and "core_inv p"
  then show "core_inv (psm_step p a)"
    by (cases a) (simp_all add: psm_step_def posted_def core_handleEvent, simp add: core_inv_def)
qed

interpretation psm_CER: guarded_machine psm_step posted pending_accepted
proof
  fix a p
  assume "posted a" and "pending_accepted p"
  then show "pending_accepted (psm_step p a)"
  proof (cases a)
    case (HandleEvent e x)
    with \<open>posted a\<close> have "CER_step x p (psm_step p a)" by (simp add: posted_def psm_step_def CER_handleEvent)
    then show ?thesis using \<open>pending_accepted p\<close> by (rule accepted_step)
  next
    case (ConnStored c)
    with \<open>pending_accepted p\<close> show ?thesis by (simp add: psm_step_def pending_accepted_def acceptable_CER_def)
  qed
qed

lemma psm_inv_run:
  "psm_inv p \<Longrightarrow> list_all posted as \<Longrightarrow> acks_connected p as \<Longrightarrow> psm_inv (foldl psm_step p as)"
proof (induction as arbitrary: p)
  case (Cons a as)
  have "psm_inv (psm_step p a)"
  proof (cases a)
    case (HandleEvent e x)
    then have "wf_event x p" using Cons.prems(2,3) by (intro carries_ack_wf) (simp_all add: posted_def)
    then show ?thesis using HandleEvent handleEvent_inv [OF Cons.prems(1)] by (simp add: psm_step_def)
  next
    case (ConnStored c)
    then show ?thesis using Cons.prems(1) by (simp add: psm_step_def inv_simps)
  qed
  then show ?case using Cons by simp
qed simp

end
