(* ===== verification/Peer_Properties.thy ===== *)
theory Peer_Properties
  imports Peer_Invariant
begin

text \<open>
  The properties of the peer state machine: absence of nil dereferences, the transition table of
  RFC 6733 5.6 as the code realises it, opening only after a successful capabilities exchange,
  the watchdog, collisions and the election, answer correlation, and the corner cases in which a
  connection is left behind.
\<close>

section \<open>Support\<close>

lemma fst_reject_and:
  "eConn x = Some c \<Longrightarrow> eMsg x = Some m \<Longrightarrow> fst (reject_and e x code r p) = r"
  by (simp add: reject_and_def rejectConnection_def split_beta)

lemma processCER_no_nil [simp]: "fst (processCER (Some m) p) \<noteq> Inl NilPointer"
  by (simp add: processCER_def Let_def split: option.split prod.split)

lemma processCEA_no_nil [simp]: "fst (processCEA (Some m) p) \<noteq> Inl NilPointer"
  by (simp add: processCEA_def split: option.split)

lemmas no_nil_simps = acceptResponderConnection_def accept_during_connect_def answer_pending_CER_def handle_inbound_def
  ignoring_def fst_reject_and split_beta wf_event_def message_event_def Let_def

lemma no_nil_Closed: "wf_event x p \<Longrightarrow> fst (handleStateClosed e x p) \<noteq> Inl NilPointer"
  by (cases "event x") (auto simp: handleStateClosed_def no_nil_simps split: sum.split)

lemma no_nil_WaitConnAck: "wf_event x p \<Longrightarrow> fst (handleStateWaitConnAck e x p) \<noteq> Inl NilPointer"
  by (cases "event x") (auto simp: handleStateWaitConnAck_def no_nil_simps split: sum.split option.split)

lemma no_nil_WaitICEA: "wf_event x p \<Longrightarrow> fst (handleStateWaitICEA e x p) \<noteq> Inl NilPointer"
  by (cases "event x") (auto simp: handleStateWaitICEA_def no_nil_simps split: sum.split)

lemma no_nil_WaitConnAckElect:
  "psm_inv p \<Longrightarrow> state p = StateWaitConnAckElect \<Longrightarrow> wf_event x p \<Longrightarrow> fst (handleStateWaitConnAckElect e x p) \<noteq> Inl NilPointer"
  by (cases "event x") (auto simp: handleStateWaitConnAckElect_def no_nil_simps psm_inv_def split: sum.split)

lemma no_nil_WaitReturns:
  "psm_inv p \<Longrightarrow> state p = StateWaitReturns \<Longrightarrow> wf_event x p \<Longrightarrow> fst (handleStateWaitReturns e x p) \<noteq> Inl NilPointer"
  by (cases "event x") (auto simp: handleStateWaitReturns_def no_nil_simps psm_inv_def split: sum.split)

lemma no_nil_ROpen: "wf_event x p \<Longrightarrow> fst (handleStateROpen e x p) \<noteq> Inl NilPointer"
  by (cases "event x") (auto simp: handleStateROpen_def no_nil_simps)

lemma no_nil_IOpen: "wf_event x p \<Longrightarrow> fst (handleStateIOpen e x p) \<noteq> Inl NilPointer"
  by (cases "event x") (auto simp: handleStateIOpen_def no_nil_simps)

lemma no_nil_Suspect: "wf_event x p \<Longrightarrow> fst (handleStateSuspect e x p) \<noteq> Inl NilPointer"
  by (cases "event x"; cases "eMsg x") (simp_all add: handleStateSuspect_def handle_inbound_def wf_event_def message_event_def)

text \<open>The two states in which a handler relies on the pending CER.\<close>

lemma core_no_nil:
  assumes "core_inv p" and "carries x"
  shows "fst (handleEvent e x p) \<noteq> Inl NilPointer"
proof (cases "event x = EventIRcvConnAck")
  case True
  then show ?thesis
    using send_no_nil(3) [of e "stopTimeout p"]
    by (cases "state p") (auto simp: handleEvent_def handler_defs split_beta split: sum.split)
next
  case False
  note wf = carries_wf [OF assms(2) False]
  have "state p = StateWaitConnAckElect \<Longrightarrow> fst (handleStateWaitConnAckElect e x p) \<noteq> Inl NilPointer"
    "state p = StateWaitReturns \<Longrightarrow> fst (handleStateWaitReturns e x p) \<noteq> Inl NilPointer"
    using assms(1) wf [of p]
    by (cases "event x"; auto simp: handleStateWaitConnAckElect_def handleStateWaitReturns_def no_nil_simps core_inv_def split: sum.split)+
  then show ?thesis
    using no_nil_Closed [OF wf] no_nil_WaitConnAck [OF wf] no_nil_WaitICEA [OF wf] no_nil_ROpen [OF wf] no_nil_IOpen [OF wf] no_nil_Suspect [OF wf]
    by (cases "state p") (simp_all add: handleEvent_def handleStateClosing_def)
qed

lemma no_nil_handleEvent:
  "psm_inv p \<Longrightarrow> wf_event x p \<Longrightarrow> fst (handleEvent e x p) \<noteq> Inl NilPointer"
  by (cases "state p")
    (simp_all add: handleEvent_def no_nil_Closed no_nil_WaitConnAck no_nil_WaitICEA no_nil_WaitConnAckElect
      no_nil_WaitReturns no_nil_ROpen no_nil_IOpen no_nil_Suspect, simp add: handleStateClosing_def)

section \<open>The transition table\<close>

text \<open>
  The states an event can lead to, from RFC 6733 5.6 and RFC 3539, with the two ends of a failed
  connection (Closed, or Zombie for a peer that is not persistent). Where an error branch of
  the code leads elsewhere, it is listed. Events that are not listed leave the state alone.
\<close>

definition psm_table :: "State \<Rightarrow> Event \<Rightarrow> State list" where
  "psm_table s x = (case s of
     StateClosed \<Rightarrow> (case x of EventStart \<Rightarrow> [StateWaitConnAck]
       | EventRConnCER \<Rightarrow> [StateROpen, StateClosed] | _ \<Rightarrow> [s])
   | StateWaitConnAck \<Rightarrow> (case x of EventIRcvConnAck \<Rightarrow> [StateWaitICEA, StateClosed]
       | EventIRcvConnNack \<Rightarrow> [StateClosed, StateZombie]
       | EventRConnCER \<Rightarrow> [StateWaitConnAckElect, StateWaitConnAck]
       | EventTimeout \<Rightarrow> [StateClosed, StateZombie] | _ \<Rightarrow> [s])
   | StateWaitICEA \<Rightarrow> (case x of EventIRcvCEA \<Rightarrow> [StateIOpen, StateClosed]
       | EventRConnCER \<Rightarrow> [StateWaitReturns, StateWaitICEA] | EventIPeerDisc \<Rightarrow> [StateClosed, StateZombie]
       | EventIRcvNonCEA \<Rightarrow> [StateClosed, StateZombie]
       | EventTimeout \<Rightarrow> [StateClosed, StateZombie] | _ \<Rightarrow> [s])
   | StateWaitConnAckElect \<Rightarrow> (case x of EventIRcvConnAck \<Rightarrow> [StateWaitReturns, StateClosed]
       | EventIRcvConnNack \<Rightarrow> [StateROpen, StateClosed] | EventRPeerDisc \<Rightarrow> [StateWaitConnAck]
       | EventTimeout \<Rightarrow> [StateClosed, StateZombie] | _ \<Rightarrow> [s])
   | StateWaitReturns \<Rightarrow> (case x of EventWinElection \<Rightarrow> [StateROpen, StateClosed]
       | EventIPeerDisc \<Rightarrow> [StateROpen, StateClosed] | EventIRcvCEA \<Rightarrow> [StateIOpen, StateClosed]
       | EventRPeerDisc \<Rightarrow> [StateWaitICEA]
       | EventTimeout \<Rightarrow> [StateClosed, StateZombie] | _ \<Rightarrow> [s])
   | StateROpen \<Rightarrow> (case x of EventStop \<Rightarrow> [StateClosing] | EventRRcvDPR \<Rightarrow> [StateClosing]
       | EventRPeerDisc \<Rightarrow> [StateClosed, StateZombie]
       | EventTimeout \<Rightarrow> [StateSuspect] | _ \<Rightarrow> [s])
   | StateIOpen \<Rightarrow> (case x of EventStop \<Rightarrow> [StateClosing] | EventIRcvDPR \<Rightarrow> [StateClosing]
       | EventIPeerDisc \<Rightarrow> [StateClosed, StateZombie]
       | EventTimeout \<Rightarrow> [StateSuspect] | _ \<Rightarrow> [s])
   | StateSuspect \<Rightarrow> (case x of EventIRcvDWA \<Rightarrow> [StateIOpen, StateROpen]
       | EventRRcvDWA \<Rightarrow> [StateIOpen, StateROpen] | EventIRcvMessage \<Rightarrow> [StateIOpen, StateROpen]
       | EventRRcvMessage \<Rightarrow> [StateIOpen, StateROpen] | EventTimeout \<Rightarrow> [StateClosed, StateZombie]
       | EventIPeerDisc \<Rightarrow> [StateClosed, StateZombie]
       | EventRPeerDisc \<Rightarrow> [StateClosed, StateZombie] | _ \<Rightarrow> [s])
   | StateClosing \<Rightarrow> (case x of EventIRcvDPA \<Rightarrow> [StateClosed] | EventRRcvDPA \<Rightarrow> [StateClosed]
       | EventTimeout \<Rightarrow> [StateClosed] | EventIPeerDisc \<Rightarrow> [StateClosed]
       | EventRPeerDisc \<Rightarrow> [StateClosed] | _ \<Rightarrow> [s])
   | StateZombie \<Rightarrow> [s])"

lemmas table_simps = psm_table_def branch_defs frames split_beta Let_def

lemma table_Closed: "state p = StateClosed \<Longrightarrow> state (snd (handleStateClosed e x p)) \<in> set (psm_table StateClosed (event x))"
  by (cases "event x") (auto simp: handleStateClosed_def table_simps split: sum.split)

lemma table_WaitConnAck:
  "state p = StateWaitConnAck \<Longrightarrow> state (snd (handleStateWaitConnAck e x p)) \<in> set (psm_table StateWaitConnAck (event x))"
  by (cases "event x") (auto simp: handleStateWaitConnAck_def table_simps split: sum.split)

lemma table_WaitICEA:
  "state p = StateWaitICEA \<Longrightarrow> state (snd (handleStateWaitICEA e x p)) \<in> set (psm_table StateWaitICEA (event x))"
  by (cases "event x") (auto simp: handleStateWaitICEA_def table_simps split: sum.split)

lemma table_WaitConnAckElect:
  "state p = StateWaitConnAckElect \<Longrightarrow>
   state (snd (handleStateWaitConnAckElect e x p)) \<in> set (psm_table StateWaitConnAckElect (event x))"
  by (cases "event x") (auto simp: handleStateWaitConnAckElect_def table_simps split: sum.split)

lemma table_WaitReturns:
  "state p = StateWaitReturns \<Longrightarrow> state (snd (handleStateWaitReturns e x p)) \<in> set (psm_table StateWaitReturns (event x))"
  by (cases "event x") (auto simp: handleStateWaitReturns_def table_simps split: sum.split)

lemma table_ROpen:
  "wf_event x p \<Longrightarrow> state p = StateROpen \<Longrightarrow> state (snd (handleStateROpen e x p)) \<in> set (psm_table StateROpen (event x))"
  by (cases "event x")
    (auto simp: handleStateROpen_def table_simps wf_event_def message_event_def split: option.split)

lemma table_IOpen:
  "wf_event x p \<Longrightarrow> state p = StateIOpen \<Longrightarrow> state (snd (handleStateIOpen e x p)) \<in> set (psm_table StateIOpen (event x))"
  by (cases "event x")
    (auto simp: handleStateIOpen_def table_simps wf_event_def message_event_def split: option.split)

lemma table_Suspect:
  "wf_event x p \<Longrightarrow> state p = StateSuspect \<Longrightarrow> state (snd (handleStateSuspect e x p)) \<in> set (psm_table StateSuspect (event x))"
  by (cases "event x"; cases "eMsg x")
    (auto simp: handleStateSuspect_def table_simps wf_event_def message_event_def)

lemma table_Closing:
  "state p = StateClosing \<Longrightarrow> state (snd (handleStateClosing e x p)) \<in> set (psm_table StateClosing (event x))"
  by (cases "event x") (auto simp: handleStateClosing_def table_simps)

lemma handleEvent_table:
  "wf_event x p \<Longrightarrow> state (snd (handleEvent e x p)) \<in> set (psm_table (state p) (event x))"
  by (cases "state p")
    (simp_all add: handleEvent_def table_Closed table_WaitConnAck table_WaitICEA table_WaitConnAckElect table_WaitReturns
      table_ROpen table_IOpen table_Suspect table_Closing, simp add: psm_table_def)

text \<open>A late I-Rcv-Conn-Ack, too: the open states ignore it.\<close>

lemma ack_table: "event x = EventIRcvConnAck \<Longrightarrow> state (snd (handleEvent e x p)) \<in> set (psm_table (state p) (event x))"
  using table_Closed [of p e x] table_WaitConnAck [of p e x] table_WaitICEA [of p e x] table_WaitConnAckElect [of p e x] table_WaitReturns [of p e x]
  by (cases "state p") (simp_all add: handleEvent_def handleStateROpen_def handleStateIOpen_def handleStateSuspect_def handleStateClosing_def
      ignoring_def psm_table_def)

section \<open>More field rules\<close>

lemma identity_simps [simp]:
  "diameterID (setState s p) = diameterID p" "realm (setState s p) = realm p"
  "diameterID (spawn g p) = diameterID p" "realm (spawn g p) = realm p" "written (spawn g p) = written p"
  "diameterID (startWatchdog p) = diameterID p" "realm (startWatchdog p) = realm p" "written (startWatchdog p) = written p"
  "written (stopTimeout p) = written p" "written (closeIConn p) = written p" "written (resetConnDone p) = written p"
  "written (resetWatchdog p) = written p" "pending (resetWatchdog p) = pending p" "delivered (resetWatchdog p) = delivered p"
  "onMessage (resetWatchdog p) = onMessage p" "recvChan (resetWatchdog p) = recvChan p"
  by (simp_all add: op_defs Let_def split: option.split)

lemma config_simps [simp]:
  "getEffectiveLocalConfig e (stopTimeout p) = getEffectiveLocalConfig e p"
  "getEffectiveLocalConfig e (closeIConn p) = getEffectiveLocalConfig e p"
  "getEffectiveLocalConfig e (resetConnDone p) = getEffectiveLocalConfig e p"
  "getEffectiveLocalConfig e (p\<lparr>rConn := c\<rparr>) = getEffectiveLocalConfig e p"
  by (simp_all add: getEffectiveLocalConfig_def op_defs split: option.split)

lemma closedConns_errorCleanup:
  "set (closedConns (errorCleanup p)) = set (closedConns p) \<union> set_option (iConn p) \<union> set_option (rConn p)"
  by (auto simp: errorCleanup_def Let_def op_defs clearPending_def split: option.splits)

text \<open>Answers carry the identifiers of their request and are no requests, so sending one tracks nothing.\<close>

lemma CEA_not_request [simp]: "\<not> IsRequest (build_CEA cfg r code)"
proof -
  have f: "Flags (build_CEA cfg r code) = Flags (NewAnswer r)"
    by (simp add: build_CEA_def add_capabilities_def add_origin_def Let_def AddAVP_def AddAVPs_def SetResultCode_def split: option.split)
  show ?thesis using NewAnswer_not_request [of r] by (simp add: IsRequest_def f)
qed

lemma sendCEA_success:
  assumes "fst (sendCEAOnConn e c (Some r) code p) = Inr ()"
  shows "\<exists>k data. c = Some k \<and> Encode (build_CEA (getEffectiveLocalConfig e p) r code) = Inr data \<and>
     written (snd (sendCEAOnConn e c (Some r) code p)) = written p @ [(k, data)] \<and>
     diameterID (snd (sendCEAOnConn e c (Some r) code p)) = diameterID p"
  using assms
  by (auto simp: sendCEAOnConn_def sendMessageOnConn_def assign_ids_def write_conn_def split: option.splits sum.splits if_splits)

lemma processCER_success:
  "fst (processCER (Some m) p) = Inr () \<Longrightarrow>
   GetOriginHost m = Some (diameterID (snd (processCER (Some m) p))) \<and>
   GetOriginRealm m = Some (realm (snd (processCER (Some m) p))) \<and>
   written (snd (processCER (Some m) p)) = written p \<and>
   (\<forall>policy. acceptPolicy p = Some policy \<longrightarrow>
      fst (policy (diameterID (snd (processCER (Some m) p))) (realm (snd (processCER (Some m) p)))))"
  by (auto simp: processCER_def Let_def split: option.splits prod.splits if_splits)

lemma processCEA_success:
  "fst (processCEA (Some m) p) = Inr () \<Longrightarrow> GetResultCode m = Some ResultSuccess \<and>
   GetOriginHost m = Some (diameterID (snd (processCEA (Some m) p))) \<and>
   GetOriginRealm m = Some (realm (snd (processCEA (Some m) p)))"
  by (auto simp: processCEA_def split: option.splits if_splits)

section \<open>Opening\<close>

definition opened_as_initiator :: "eventMessage \<Rightarrow> peer \<Rightarrow> bool" where
  "opened_as_initiator x p' \<longleftrightarrow> state p' = StateIOpen \<and> event x = EventIRcvCEA \<and>
     (\<exists>m. eMsg x = Some m \<and> GetResultCode m = Some ResultSuccess \<and>
        GetOriginHost m = Some (diameterID p') \<and> GetOriginRealm m = Some (realm p'))"

definition opened_as_responder :: "env \<Rightarrow> eventMessage \<Rightarrow> peer \<Rightarrow> peer \<Rightarrow> bool" where
  "opened_as_responder e x p p' \<longleftrightarrow> state p' = StateROpen \<and>
     (\<exists>c req data. rConn p' = Some c \<and> (eMsg x = Some req \<or> pendingCER p = Some req) \<and> acceptable_CER p req \<and>
        Encode (build_CEA (getEffectiveLocalConfig e p) req ResultSuccess) = Inr data \<and>
        written p' = written p @ [(c, data)])"

lemma answer_pending_CER_opens:
  assumes "pendingCER p = Some req" and "acceptable_CER p req" and "opened (state (snd (answer_pending_CER e p)))"
  shows "opened_as_responder e x p (snd (answer_pending_CER e p))"
proof -
  have ok: "fst (sendCEAOnConn e (rConn p) (pendingCER p) ResultSuccess p) = Inr ()"
    using assms(3) by (auto simp: answer_pending_CER_def split_beta opened_def split: sum.splits)
  then show ?thesis
    using sendCEA_success [of e "rConn p" req ResultSuccess p] assms(1,2)
    by (auto simp: answer_pending_CER_def split_beta opened_as_responder_def enter_ROpen_def frames)
qed

lemma opens_Closed:
  assumes "state p = StateClosed" "wf_event x p" "opened (state (snd (handleStateClosed e x p)))"
  shows "opened_as_responder e x p (snd (handleStateClosed e x p))"
proof -
  have x: "event x = EventRConnCER"
    using assms by (cases "event x") (simp_all add: handleStateClosed_def opened_def)
  then obtain c m where c: "eConn x = Some c" "eMsg x = Some m"
    using assms(2) by (auto simp: wf_event_def)
  let ?q = "(resetConnDone p)\<lparr>rConn := Some c\<rparr>"
  let ?r = "snd (processCER (Some m) ?q)"
  have free: "rConn p = None" and cer: "fst (processCER (Some m) ?q) = Inr ()"
    and sent: "fst (sendCEAOnConn e (Some c) (Some m) ResultSuccess ?r) = Inr ()"
    using assms(1,3) x c
    by (auto simp: handleStateClosed_def acceptResponderConnection_def split_beta opened_def frames split: sum.splits if_splits)
  have p': "snd (handleStateClosed e x p) = enter_ROpen (snd (sendCEAOnConn e (Some c) (Some m) ResultSuccess ?r))"
    using x c free cer sent by (simp add: handleStateClosed_def acceptResponderConnection_def split_beta frames)
  have "getEffectiveLocalConfig e ?r = getEffectiveLocalConfig e p"
    using control_processCER [THEN control_fields, of "Some m" ?q] by (simp add: getEffectiveLocalConfig_def resetConnDone_def)
  then show ?thesis
    using sendCEA_success [OF sent] processCER_success [OF cer] processCER_accepts [OF cer] c
    by (auto simp: p' opened_as_responder_def enter_ROpen_def acceptable_CER_def frames)
qed

lemma opens_WaitICEA:
  assumes "state p = StateWaitICEA" "wf_event x p" "opened (state (snd (handleStateWaitICEA e x p)))"
  shows "opened_as_initiator x (snd (handleStateWaitICEA e x p))"
proof -
  have x: "event x = EventIRcvCEA"
    using assms table_WaitICEA [of p e x] by (cases "event x") (auto simp: psm_table_def opened_def)
  then obtain m where m: "eMsg x = Some m" using assms(2) by (auto simp: wf_event_def message_event_def)
  show ?thesis
    using assms x m processCEA_success [of m "stopTimeout p"]
    by (auto simp: handleStateWaitICEA_def split_beta opened_def opened_as_initiator_def enter_IOpen_def split: sum.splits)
qed

lemma opens_WaitConnAckElect:
  assumes "core_inv p" "pending_accepted p" "state p = StateWaitConnAckElect" "opened (state (snd (handleStateWaitConnAckElect e x p)))"
  shows "opened_as_responder e x p (snd (handleStateWaitConnAckElect e x p))"
proof -
  have x: "event x = EventIRcvConnNack"
    using assms table_WaitConnAckElect [of p e x] by (cases "event x") (auto simp: psm_table_def opened_def)
  obtain req where req: "pendingCER (stopTimeout p) = Some req" using assms by (auto simp: core_inv_def)
  then have "acceptable_CER (stopTimeout p) req" using assms(2) by (simp add: pending_accepted_def acceptable_CER_def)
  from answer_pending_CER_opens [OF req this, of e x] show ?thesis
    using assms(4) x by (simp add: handleStateWaitConnAckElect_def opened_as_responder_def acceptable_CER_def)
qed

lemma opens_WaitReturns:
  assumes "core_inv p" "pending_accepted p" "wf_event x p" "state p = StateWaitReturns" "opened (state (snd (handleStateWaitReturns e x p)))"
  shows "opened_as_initiator x (snd (handleStateWaitReturns e x p)) \<or> opened_as_responder e x p (snd (handleStateWaitReturns e x p))"
proof -
  obtain req where req: "pendingCER (closeIConn (stopTimeout p)) = Some req" using assms by (auto simp: core_inv_def)
  have acc: "acceptable_CER (closeIConn (stopTimeout p)) req" using assms(2) req by (simp add: pending_accepted_def acceptable_CER_def)
  consider "event x = EventWinElection \<or> event x = EventIPeerDisc" | "event x = EventIRcvCEA"
    using assms(4,5) table_WaitReturns [of p e x] by (cases "event x") (auto simp: psm_table_def opened_def)
  then show ?thesis
  proof cases
    case 1
    then show ?thesis
      using answer_pending_CER_opens [OF req acc, of e x] assms(5)
      by (auto simp: handleStateWaitReturns_def opened_as_responder_def acceptable_CER_def)
  next
    case 2
    then obtain m where m: "eMsg x = Some m" using assms(3) by (auto simp: wf_event_def message_event_def)
    show ?thesis
      using assms(5) 2 m processCEA_success [of m "(closeRConn (stopTimeout p))\<lparr>pendingCER := None\<rparr>"]
      by (auto simp: handleStateWaitReturns_def split_beta opened_def opened_as_initiator_def enter_IOpen_def split: sum.splits)
  qed
qed

lemma opens_other:
  "\<not> opened (state p) \<Longrightarrow> opened (state (snd (handleEvent e x p))) \<Longrightarrow> wf_event x p \<Longrightarrow>
   state p \<in> {StateClosed, StateWaitICEA, StateWaitConnAckElect, StateWaitReturns}"
  using handleEvent_table [of x p e] by (cases "state p"; cases "event x") (auto simp: psm_table_def opened_def)

text \<open>No I-Rcv-Conn-Ack opens a peer, connected or not.\<close>

lemma ack_opens_nothing:
  assumes "event x = EventIRcvConnAck" and "\<not> opened (state p)"
  shows "\<not> opened (state (snd (handleEvent e x p)))"
  using assms by (cases "state p") (auto simp: handleEvent_def handler_defs opened_def performElection_def post_self_def split_beta frames split: sum.split)

lemma opening_event:
  "carries x \<Longrightarrow> \<not> opened (state p) \<Longrightarrow> opened (state (snd (handleEvent e x p))) \<Longrightarrow> event x \<noteq> EventIRcvConnAck"
  using ack_opens_nothing by blast

lemma run_policy: "list_all posted as \<Longrightarrow> acceptPolicy (foldl psm_step p as) = acceptPolicy p"
proof (induction as arbitrary: p)
  case (Cons a as)
  have "acceptPolicy (psm_step p a) = acceptPolicy p"
    using CER_handleEvent Cons.prems by (cases a) (auto simp: psm_step_def posted_def CER_step_def)
  then show ?case using Cons by simp
qed simp

section \<open>The watchdog\<close>

lemma timeout_open:
  assumes "IsOpen p"
  shows "state (snd (handleEvent e (ev EventTimeout) p)) = StateSuspect"
    and "watchdogTimer (snd (handleEvent e (ev EventTimeout) p)) = Running"
    and "iConn (snd (handleEvent e (ev EventTimeout) p)) = iConn p"
    and "rConn (snd (handleEvent e (ev EventTimeout) p)) = rConn p"
    and "goroutines (snd (handleEvent e (ev EventTimeout) p)) = goroutines p"
    and "config (snd (handleEvent e (ev EventTimeout) p)) = config p"
  using assms
  by (auto simp: IsOpen_def handleEvent_def ev_def handleStateROpen_def handleStateIOpen_def Let_def frames)
     (auto simp: op_defs Let_def)

lemma fail_closed_effect:
  "iConn (fail_closed p) = None" "rConn (fail_closed p) = None" "pending (fail_closed p) = Map.empty"
  "watchdogTimer (fail_closed p) = NoTimer" "timeoutTimer (fail_closed p) = NoTimer"
  "state (fail_closed p) = (if Persistent (config p) then StateClosed else StateZombie)"
  "goroutines (fail_closed p) = goroutines p @ (if Persistent (config p) then [ReconnectTimer] else [])"
  "set (closedConns (fail_closed p)) = set (closedConns p) \<union> set_option (iConn p) \<union> set_option (rConn p)"
  by (simp_all add: fail_closed_def scheduleReconnect_def closedConns_errorCleanup spawn_def)

lemma timeout_suspect: "state p = StateSuspect \<Longrightarrow> snd (handleEvent e (ev EventTimeout) p) = fail_closed p"
  by (simp add: handleEvent_def ev_def handleStateSuspect_def)

section \<open>The election\<close>

lemma string_less_antisym: "string_less s t \<Longrightarrow> \<not> string_less t s"
  by (induction s t rule: string_less.induct) (auto split: if_splits)

lemma string_less_total: "s \<noteq> t \<Longrightarrow> string_less s t \<or> string_less t s"
proof (induction s t rule: string_less.induct)
  case (1 s)
  then show ?case by (cases s) simp_all
next
  case (3 c cs d ds)
  then show ?case
    using linorder_cases [of "of_char c :: nat" "of_char d" "string_less (c # cs) (d # ds) \<or> string_less (d # ds) (c # cs)"]
    by auto
qed simp

lemma string_less_irrefl: "\<not> string_less s s"
  using string_less_antisym by blast

lemma wins_election_exclusive: "\<not> (wins_election a b \<and> wins_election b a)"
  using string_less_antisym by (auto simp: wins_election_def)

lemma wins_election_total: "ToLower a \<noteq> ToLower b \<Longrightarrow> wins_election a b \<or> wins_election b a"
  using string_less_total by (auto simp: wins_election_def)

section \<open>Answer correlation\<close>

text \<open>When an answer is accepted: not a retransmission, and a pending request with its identifiers.\<close>

definition answers_pending :: "message \<Rightarrow> peer \<Rightarrow> bool" where
  "answers_pending m p \<longleftrightarrow> \<not> IsRetransmit m \<and>
     (\<exists>n. pending p (mHopByHopID m) = Some n \<and> (n = 0 \<or> n = mEndToEndID m))"

lemma deliverMessage_simps [simp]:
  "pending (deliverMessage m p) = pending p"
  "delivered (deliverMessage m p) = (if onMessage p then delivered p @ [m] else delivered p)"
  "onMessage (deliverMessage m p) = onMessage p"
  by (simp_all add: deliverMessage_def Let_def)

lemma process_answer:
  assumes "\<not> IsRequest m"
  shows "fst (processInboundMessage m p) \<longleftrightarrow> answers_pending m p"
    and "delivered (snd (processInboundMessage m p)) = (if answers_pending m p \<and> onMessage p then delivered p @ [m] else delivered p)"
    and "\<not> IsRetransmit m \<Longrightarrow> pending (snd (processInboundMessage m p)) = (pending p)(mHopByHopID m := None)"
    and "onMessage (snd (processInboundMessage m p)) = onMessage p"
  using assms
  by (auto simp: processInboundMessage_def popPending_def answers_pending_def split: option.split)

lemma processInboundMessage_pending_le:
  "pending (snd (processInboundMessage m p)) h = None \<or> pending (snd (processInboundMessage m p)) h = pending p h"
  by (auto simp: processInboundMessage_def popPending_def split: option.split)

lemma process_all_not_pending:
  "pending p h = None \<Longrightarrow> pending (foldl (\<lambda>p m. snd (processInboundMessage m p)) p ms) h = None"
proof (induction ms arbitrary: p)
  case (Cons m ms)
  then show ?case using processInboundMessage_pending_le [of m p h] by (metis foldl_Cons)
qed simp

section \<open>Properties\<close>

definition sample_local :: LocalConfig where
  "sample_local = \<lparr>lDiameterIdentity = ''b.example'', lRealm = ''example'', lVendorID = 0, ProductName = ''godiam'',
     FirmwareRevision = 0, OriginStateID = 1, HostIPAddresses = [[127, 0, 0, 1]], AuthAppIDs = [4], AcctAppIDs = []\<rparr>"

definition sample_env :: env where
  "sample_env = \<lparr>globalConfig = sample_local, connWrite = (\<lambda>_ _. True), clock = 0, randomID = 7\<rparr>"

definition sample_config :: Config where
  "sample_config = \<lparr>cDiameterIdentity = ''a.example'', cRealm = ''example'', Addresses = [''10.0.0.1''], Port = 0, Network = '''',
     UseTLS = False, cTLSConfig = None, WatchdogInterval = 0, ConnectTimeout = 0, ReconnectInterval = 0, Persistent = True,
     cZone = '''', cPartner = ''''\<rparr>"

definition sample_cer :: message where
  "sample_cer = add_origin (sample_local\<lparr>lDiameterIdentity := ''a.example''\<rparr>)
     ((NewRequest CmdCodeCapabilitiesExchange AppIDCommon)\<lparr>mHopByHopID := 3, mEndToEndID := 4\<rparr>)"

definition sample_open :: peer where
  "sample_open = (New sample_config)\<lparr>state := StateROpen, rConn := Some 5, watchdogTimer := Running, onMessage := True,
     pending := [9 \<mapsto> 8]\<rparr>"

lemma sample_open_inv: "psm_inv sample_open"
  by (simp add: sample_open_def New_def inv_simps)

text \<open>
  C7: the invariant of the peer state machine. Through any sequence of events and stored connections, whatever the network, the clocks
  and the random sources do, as long as each event carries what the code that posts it puts in: each waiting state has its timeout
  timer, exactly the open states and Suspect have the watchdog, and the two election states have the responder connection and the
  pending CER. Moreover, if no I-Rcv-Conn-Ack is handled when the initiator connection it announced is already closed (a late one is),
  then every state has each connection it uses.
\<close>
theorem psm_invariant_reachable:
  assumes "list_all posted as"
  shows "core_inv (foldl psm_step (New c) as) \<and> (acks_connected (New c) as \<longrightarrow> psm_inv (foldl psm_step (New c) as))"
  using psm.run_inv [OF assms core_inv_New] psm_inv_run [OF psm_inv_New assms] by blast

theorem psm_invariant_reachable_witness:
  "psm_inv (foldl psm_step (New sample_config) [HandleEvent sample_env (ev EventStart), ConnStored 5, HandleEvent sample_env (ev EventIRcvConnAck)])"
proof -
  have "list_all posted [HandleEvent sample_env (ev EventStart), ConnStored 5, HandleEvent sample_env (ev EventIRcvConnAck)]"
    by (simp add: posted_def carries_def ev_def message_event_def)
  moreover have "acks_connected (New sample_config) [HandleEvent sample_env (ev EventStart), ConnStored 5, HandleEvent sample_env (ev EventIRcvConnAck)]"
    by (simp add: psm_step_def ev_def)
  ultimately show ?thesis using psm_invariant_reachable by blast
qed

text \<open>
  The condition is needed: an I-Rcv-Conn-Ack that finds no connection takes the peer to Wait-Returns without one, because the CER
  goes out over the responder connection instead.
\<close>
theorem late_ack_sends_CER_to_the_responder:
  assumes "state p = StateWaitConnAckElect" and "iConn p = None" and "rConn p = Some c" and "fst (sendCER e (stopTimeout p)) = Inr ()"
    and "event x = EventIRcvConnAck"
  shows "state (snd (handleEvent e x p)) = StateWaitReturns \<and> iConn (snd (handleEvent e x p)) = None"
  using assms by (simp add: handleEvent_def handleStateWaitConnAckElect_def performElection_def post_self_def split_beta frames)

text \<open>
  No event makes the state machine dereference nil. In every state a peer reaches, \<open>handleEvent\<close> on an event that carries what it
  should ends with success or an ordinary error: \<open>pendingCER\<close>, the message of the event and the connection it closes are present
  wherever they are used.
\<close>
theorem psm_no_nil_dereference:
  assumes "list_all posted as" and "carries x"
  shows "fst (handleEvent e x (foldl psm_step (New c) as)) \<noteq> Inl NilPointer"
  using core_no_nil [OF psm.run_inv [OF assms(1) core_inv_New] assms(2)] .

theorem psm_no_nil_dereference_witness:
  "fst (handleEvent sample_env (ev EventTimeout) (foldl psm_step (New sample_config) [HandleEvent sample_env (ev EventStart)])) \<noteq> Inl NilPointer"
  by (rule psm_no_nil_dereference) (simp_all add: posted_def carries_def ev_def message_event_def)

text \<open>
  C8: the state machine follows the transition table of RFC 6733 5.6. For every event that carries what the code that posts it puts in,
  and whether or not writes succeed, \<open>handleEvent\<close> leads to one of the states the table lists for the state and event, and leaves the
  state alone for every other pair.
\<close>
theorem psm_follows_table:
  assumes "carries x"
  shows "state (snd (handleEvent e x p)) \<in> set (psm_table (state p) (event x))"
proof (cases "event x = EventIRcvConnAck")
  case True
  then show ?thesis by (rule ack_table)
next
  case False
  then show ?thesis using handleEvent_table carries_wf [OF assms] by blast
qed

theorem psm_follows_table_witness:
  "state (snd (handleEvent sample_env (ev EventStop) sample_open)) \<in> set (psm_table StateROpen EventStop)"
  using psm_follows_table [of "ev EventStop" sample_env sample_open]
  by (simp add: carries_def ev_def message_event_def sample_open_def)

text \<open>
  C9: a peer opens only through a capabilities exchange. In any run from \<open>New\<close> with the policy of the server, a step from a state that
  is neither open nor Suspect into one that is either processed a CEA with Result-Code success on the initiator connection and took
  the peer's identity from it (I-Open), or wrote a CEA with success to the responder connection (R-Open); the CER that one answers,
  the event's or the pending one, names its Origin-Host and Origin-Realm, and the policy accepts them.
\<close>
theorem open_requires_capabilities_exchange:
  assumes "list_all posted as" and "p = foldl psm_step (SetAcceptPolicy (New c) policy) as" and "carries x"
    and "\<not> opened (state p)" and "opened (state (snd (handleEvent e x p)))"
  shows "acceptPolicy p = policy \<and>
    (opened_as_initiator x (snd (handleEvent e x p)) \<or> opened_as_responder e x p (snd (handleEvent e x p)))"
proof -
  have start: "core_inv (SetAcceptPolicy (New c) policy)" "pending_accepted (SetAcceptPolicy (New c) policy)"
    by (simp_all add: SetAcceptPolicy_def core_simps New_def pending_accepted_def)
  have inv: "core_inv p" "pending_accepted p"
    unfolding assms(2) by (rule psm.run_inv [OF assms(1) start(1)], rule psm_CER.run_inv [OF assms(1) start(2)])
  have "acceptPolicy p = policy"
    using run_policy [OF assms(1), of "SetAcceptPolicy (New c) policy"] by (simp add: assms(2) SetAcceptPolicy_def)
  moreover have "event x \<noteq> EventIRcvConnAck"
    using opening_event [OF assms(3-5)] by simp
  note wf = carries_wf [OF assms(3) this, of p]
  ultimately show ?thesis
    using opens_other [OF assms(4,5) wf] assms(4,5) inv wf opens_Closed [of p x e] opens_WaitICEA [of p x e]
      opens_WaitConnAckElect [of p e x] opens_WaitReturns [of p x e]
    by (auto simp: handleEvent_def)
qed

theorem open_requires_capabilities_exchange_witness:
  "let x = (ev EventRConnCER)\<lparr>eConn := Some 5, eMsg := Some sample_cer\<rparr>; p = New sample_config in
   opened_as_initiator x (snd (handleEvent sample_env x p)) \<or> opened_as_responder sample_env x p (snd (handleEvent sample_env x p))"
proof -
  let ?x = "(ev EventRConnCER)\<lparr>eConn := Some 5, eMsg := Some sample_cer\<rparr>"
  let ?p = "New sample_config"
  have w: "carries ?x" by (simp add: carries_def ev_def message_event_def)
  have h: "GetOriginHost sample_cer = Some ''a.example''" "GetOriginRealm sample_cer = Some ''example''"
    by (simp_all add: GetOriginHost_def GetOriginRealm_def identity_of_def sample_cer_def add_origin_def FindAVP_def AddAVP_def
        NewRequest_def NewMessage_def avp_matches_def NewDiameterIdentityAVP_def NewUTF8StringAVP_def NewAVP_def
        GetDiameterIdentity_def sample_local_def)
  have "Message_EncodedLen (build_CEA sample_local sample_cer ResultSuccess) \<le> 0xFFFFFF"
    by (simp add: build_CEA_def add_capabilities_def add_origin_def Let_def AddAVP_def AddAVPs_def sample_local_def
        SetResultCode_def FindAVP_def NewAnswer_def Message_EncodedLen_def NewDiameterIdentityAVP_def NewUTF8StringAVP_def
        NewUnsigned32AVP_def NewAddressAVP_def NewAVP_def padding_of_def vendor_flag_def NewAddressFromIP_def To4_def
        Address_Encode_eq)
  then obtain data where "Encode (build_CEA sample_local sample_cer ResultSuccess) = Inr data"
    by (simp add: Encode_eq)
  then have "opened (state (snd (handleEvent sample_env ?x ?p)))"
    using h
    by (simp add: handleEvent_def handleStateClosed_def New_def ev_def acceptResponderConnection_def resetConnDone_def
        processCER_def sendCEAOnConn_def sendMessageOnConn_def assign_ids_def write_conn_def getEffectiveLocalConfig_def
        sample_env_def enter_ROpen_def opened_def)
  then show ?thesis
    using open_requires_capabilities_exchange [of "[]" ?p sample_config None ?x sample_env] w
    by (simp add: New_def opened_def SetAcceptPolicy_def)
qed

text \<open>
  C10: a silent peer is given up after one probe. In an open state, the watchdog's expiry moves the peer to
  Suspect with the watchdog running again; if it expires once more, both connections are closed and
  forgotten, no timer and no pending request is left, and the peer is Closed with one reconnect
  scheduled when it is persistent, and Zombie otherwise. Failed writes make no difference.
\<close>
theorem silent_peer_is_closed:
  assumes "IsOpen p"
  shows "let p1 = snd (handleEvent e1 (ev EventTimeout) p); p2 = snd (handleEvent e2 (ev EventTimeout) p1) in
    state p1 = StateSuspect \<and> watchdogTimer p1 = Running \<and>
    iConn p2 = None \<and> rConn p2 = None \<and> set_option (iConn p) \<union> set_option (rConn p) \<subseteq> set (closedConns p2) \<and>
    watchdogTimer p2 = NoTimer \<and> timeoutTimer p2 = NoTimer \<and> pending p2 = Map.empty \<and>
    (if Persistent (config p) then state p2 = StateClosed \<and> goroutines p2 = goroutines p @ [ReconnectTimer]
     else state p2 = StateZombie \<and> goroutines p2 = goroutines p)"
  using timeout_open [OF assms, of e1]
  by (auto simp: Let_def timeout_suspect fail_closed_effect)

theorem silent_peer_is_closed_witness:
  "let p1 = snd (handleEvent sample_env (ev EventTimeout) sample_open);
       p2 = snd (handleEvent sample_env (ev EventTimeout) p1) in
    state p1 = StateSuspect \<and> state p2 = StateClosed \<and> goroutines p2 = [ReconnectTimer] \<and> 5 \<in> set (closedConns p2)"
proof -
  have "IsOpen sample_open" by (simp add: IsOpen_def sample_open_def)
  from silent_peer_is_closed [OF this, of sample_env sample_env] show ?thesis
    by (simp add: Let_def sample_open_def New_def default_config_def sample_config_def)
qed

text \<open>
  C11: an answer is delivered at most once, and only for its own request. An inbound answer reaches the
  application exactly when it is no retransmission and a pending request has its Hop-by-Hop and
  End-to-End identifiers; afterwards, whatever other messages arrive, a further answer with the
  same Hop-by-Hop identifier is not delivered.
\<close>
theorem answer_delivered_once:
  assumes "\<not> IsRequest m" and "\<not> IsRequest m'" and "mHopByHopID m' = mHopByHopID m" and "\<not> IsRetransmit m"
  shows "let p1 = snd (processInboundMessage m p); p2 = foldl (\<lambda>p x. snd (processInboundMessage x p)) p1 ms in
    delivered p1 = (if answers_pending m p \<and> onMessage p then delivered p @ [m] else delivered p) \<and>
    delivered (snd (processInboundMessage m' p2)) = delivered p2"
proof -
  define p1 where "p1 = snd (processInboundMessage m p)"
  have "pending p1 (mHopByHopID m) = None"
    using process_answer(3) [OF assms(1,4)] by (simp add: p1_def)
  then have "\<not> answers_pending m' (foldl (\<lambda>p x. snd (processInboundMessage x p)) p1 ms)"
    using process_all_not_pending [of p1 "mHopByHopID m" ms] assms(3) by (simp add: answers_pending_def)
  then show ?thesis
    using process_answer(2) [OF assms(1)] process_answer(2) [OF assms(2)] by (simp add: Let_def p1_def)
qed

theorem answer_delivered_once_witness:
  "let m = (NewAnswer (NewRequest 272 4))\<lparr>mHopByHopID := 9, mEndToEndID := 8\<rparr>;
       p1 = snd (processInboundMessage m sample_open) in
   delivered p1 = [m] \<and> delivered (snd (processInboundMessage m p1)) = [m]"
proof -
  let ?m = "(NewAnswer (NewRequest 272 4))\<lparr>mHopByHopID := 9, mEndToEndID := 8\<rparr>"
  have r: "\<not> IsRequest ?m" "\<not> IsRetransmit ?m"
    by (simp_all add: IsRequest_def IsRetransmit_def NewAnswer_def NewRequest_def NewMessage_def)
  have "answers_pending ?m sample_open" using r by (simp add: answers_pending_def sample_open_def)
  with answer_delivered_once [OF r(1) r(1) refl r(2), of sample_open "[]"] show ?thesis
    by (simp add: Let_def sample_open_def New_def)
qed

text \<open>
  A request sent on an open peer can be answered. When \<open>Send\<close> accepts a request that has its
  identifiers, the answer with the same identifiers is then delivered to the application.
\<close>
theorem sent_request_is_answerable:
  assumes "fst (Send m p) = Inr ()" and "IsRequest m" and "mHopByHopID m \<noteq> 0" and "onMessage p"
    and "\<not> IsRequest a" and "\<not> IsRetransmit a" and "mHopByHopID a = mHopByHopID m" and "mEndToEndID a = mEndToEndID m"
  shows "delivered (snd (processInboundMessage a (snd (Send m p)))) = delivered p @ [a]"
proof -
  have s: "pending (snd (Send m p)) = (pending p)(mHopByHopID m \<mapsto> mEndToEndID m)" "delivered (snd (Send m p)) = delivered p"
    "onMessage (snd (Send m p)) = onMessage p"
    using assms(1-3) by (auto simp: Send_def Let_def trackPending_def split: if_splits prod.splits)
  then show ?thesis
    using process_answer(2) [OF assms(5), of "snd (Send m p)"] assms(4,6-8) by (simp add: answers_pending_def)
qed

theorem sent_request_is_answerable_witness:
  "let m = (NewRequest 272 4)\<lparr>mHopByHopID := 21, mEndToEndID := 22\<rparr>; a = NewAnswer m in
   delivered (snd (processInboundMessage a (snd (Send m sample_open)))) = [a]"
proof -
  let ?m = "(NewRequest 272 4)\<lparr>mHopByHopID := 21, mEndToEndID := 22\<rparr>"
  have "fst (Send ?m sample_open) = Inr ()"
    by (simp add: Send_def IsOpen_def sample_open_def New_def newHighPerfWriter_def highPerfWriter_Send_def
        trackPending_def IsRequest_def NewRequest_def NewMessage_def)
  then have "delivered (snd (processInboundMessage (NewAnswer ?m) (snd (Send ?m sample_open)))) = delivered sample_open @ [NewAnswer ?m]"
    by (rule sent_request_is_answerable)
      (simp_all add: sample_open_def IsRequest_def IsRetransmit_def NewAnswer_def NewRequest_def NewMessage_def)
  then show ?thesis by (simp add: Let_def sample_open_def New_def)
qed

text \<open>
  A second connection from a peer that is already open is refused. On R-Conn-CER in I-Open and R-Open
  the new connection is closed after the CEA "unable to comply" was tried on it, and the peer keeps its
  state, connections, timers and pending CER.
\<close>
theorem second_connection_rejected:
  assumes "IsOpen p" and "event x = EventRConnCER" and "eConn x = Some c" and "eMsg x = Some cer"
  shows "let p' = snd (handleEvent e x p) in
    c \<in> set (closedConns p') \<and> kept p' = kept p \<and>
    (c \<notin> set (closedConns p) \<and> (\<forall>data. connWrite e c data) \<and>
       Message_EncodedLen (build_CEA (getEffectiveLocalConfig e p) cer ResultUnableToComply) \<le> 0xFFFFFF \<longrightarrow>
     written p' = written p @ [(c, message_wire (build_CEA (getEffectiveLocalConfig e p) cer ResultUnableToComply))])"
proof -
  have h: "handleEvent e x p = reject_and e x ResultUnableToComply (Inr ()) p"
    using assms(1,2) by (auto simp: IsOpen_def handleEvent_def handleStateIOpen_def handleStateROpen_def)
  have "c \<in> set (closedConns (snd (reject_and e x ResultUnableToComply (Inr ()) p)))"
    using assms(3,4) by (simp add: reject_and_def rejectConnection_def split_beta close_conn_def)
  moreover have "written (snd (reject_and e x ResultUnableToComply (Inr ()) p)) =
      written p @ [(c, message_wire (build_CEA (getEffectiveLocalConfig e p) cer ResultUnableToComply))]"
    if "c \<notin> set (closedConns p)" "\<forall>data. connWrite e c data"
      "Message_EncodedLen (build_CEA (getEffectiveLocalConfig e p) cer ResultUnableToComply) \<le> 0xFFFFFF"
    using assms(3,4) that
    by (simp add: reject_and_def rejectConnection_def split_beta close_conn_def sendCEAOnConn_def
        sendMessageOnConn_def assign_ids_def Encode_eq write_conn_def)
  ultimately show ?thesis by (simp add: h Let_def kept_reject_and)
qed

theorem second_connection_rejected_witness:
  "let x = (ev EventRConnCER)\<lparr>eConn := Some 6, eMsg := Some sample_cer\<rparr>; p' = snd (handleEvent sample_env x sample_open) in
   6 \<in> set (closedConns p') \<and> state p' = StateROpen \<and> rConn p' = Some 5"
proof -
  let ?x = "(ev EventRConnCER)\<lparr>eConn := Some 6, eMsg := Some sample_cer\<rparr>"
  have "6 \<in> set (closedConns (snd (handleEvent sample_env ?x sample_open))) \<and>
      kept (snd (handleEvent sample_env ?x sample_open)) = kept sample_open"
    using second_connection_rejected [of sample_open ?x 6 sample_cer sample_env]
    by (simp add: Let_def IsOpen_def sample_open_def ev_def)
  then show ?thesis
    using kept_fields [of "snd (handleEvent sample_env ?x sample_open)" sample_open] by (simp add: Let_def sample_open_def)
qed

text \<open>
  The election has exactly one winner. When two peers with different identities (compared without case)
  each received the other's CER, exactly one of them posts Win-Election to itself.
\<close>
theorem election_has_one_winner:
  assumes "localConfig p = Some cp" and "localConfig q = Some cq"
    and "diameterID p = lDiameterIdentity cq" and "diameterID q = lDiameterIdentity cp"
    and "ToLower (lDiameterIdentity cp) \<noteq> ToLower (lDiameterIdentity cq)"
    and "eventChan p = []" and "eventChan q = []"
  shows "(eventChan (performElection e p) = [ev EventWinElection] \<and> eventChan (performElection e' q) = []) \<or>
    (eventChan (performElection e p) = [] \<and> eventChan (performElection e' q) = [ev EventWinElection])"
  using wins_election_exclusive wins_election_total [OF assms(5)] assms
  by (auto simp: performElection_def getEffectiveLocalConfig_def post_self_def)

theorem election_has_one_winner_witness:
  "let p = (New sample_config)\<lparr>localConfig := Some sample_local, diameterID := ''A.EXAMPLE''\<rparr>;
       q = (New sample_config)\<lparr>localConfig := Some (sample_local\<lparr>lDiameterIdentity := ''A.EXAMPLE''\<rparr>), diameterID := ''b.example''\<rparr> in
   (eventChan (performElection sample_env p) = [ev EventWinElection] \<and> eventChan (performElection sample_env q) = []) \<or>
   (eventChan (performElection sample_env p) = [] \<and> eventChan (performElection sample_env q) = [ev EventWinElection])"
  unfolding Let_def
  by (rule election_has_one_winner [where cp = sample_local and cq = "sample_local\<lparr>lDiameterIdentity := ''A.EXAMPLE''\<rparr>"])
    (simp_all add: New_def sample_local_def, code_simp)

text \<open>
  A rejected CER leaves its connection in place. When the first inbound CER of a Closed peer is refused
  by \<open>processCER\<close>, the connection is answered and closed but stays in \<open>rConn\<close>, unlike in the two other
  states that accept one; every later R-Conn-CER is then refused as "responder connection already
  exists", whatever the CER says, for as long as the peer only sees such events.
\<close>
theorem rejected_cer_blocks_responder:
  assumes "state p = StateClosed" and "rConn p = None"
    and "event x = EventRConnCER" and "eConn x = Some c" and "eMsg x = Some cer"
    and "fst (processCER (Some cer) ((resetConnDone p)\<lparr>rConn := Some c\<rparr>)) = Inl err"
    and "event y = EventRConnCER" and "eConn y = Some d" and "eMsg y = Some cer'"
  shows "let p1 = snd (handleEvent e x p) in
    state p1 = StateClosed \<and> rConn p1 = Some c \<and> c \<in> set (closedConns p1) \<and>
    fst (handleEvent e' y p1) = Inl ResponderExists \<and> state (snd (handleEvent e' y p1)) = StateClosed"
proof -
  let ?q = "snd (processCER (Some cer) ((resetConnDone p)\<lparr>rConn := Some c\<rparr>))"
  have h: "handleEvent e x p = reject_and e x (reject_code err) (Inl err) ?q"
    using assms(1-6) by (simp add: handleEvent_def handleStateClosed_def acceptResponderConnection_def split_beta)
  have p1: "state (snd (handleEvent e x p)) = StateClosed" "rConn (snd (handleEvent e x p)) = Some c"
    using assms(1) by (simp_all add: h frames)
  moreover have "c \<in> set (closedConns (snd (handleEvent e x p)))"
    using assms(4,5) by (simp add: h reject_and_def rejectConnection_def split_beta close_conn_def)
  moreover have "handleEvent e' y q = reject_and e' y ResultUnableToComply (Inl ResponderExists) (resetConnDone q)"
    if "state q = StateClosed" "rConn q = Some c" for q
    using that assms(7) by (simp add: handleEvent_def handleStateClosed_def acceptResponderConnection_def)
  ultimately show ?thesis
    using assms(8,9) by (simp add: Let_def fst_reject_and frames)
qed

theorem rejected_cer_blocks_responder_witness:
  "let x = (ev EventRConnCER)\<lparr>eConn := Some 5, eMsg := Some (NewRequest CmdCodeCapabilitiesExchange 0)\<rparr>;
       y = (ev EventRConnCER)\<lparr>eConn := Some 6, eMsg := Some sample_cer\<rparr>;
       p1 = snd (handleEvent sample_env x (New sample_config)) in
   rConn p1 = Some 5 \<and> fst (handleEvent sample_env y p1) = Inl ResponderExists"
proof -
  have "fst (processCER (Some (NewRequest CmdCodeCapabilitiesExchange 0)) ((resetConnDone (New sample_config))\<lparr>rConn := Some 5\<rparr>)) =
      Inl CERMissingOriginHost"
    by (simp add: processCER_def GetOriginHost_def identity_of_def FindAVP_def NewRequest_def NewMessage_def)
  from rejected_cer_blocks_responder [OF _ _ _ _ _ this,
      of "(ev EventRConnCER)\<lparr>eConn := Some 5, eMsg := Some (NewRequest CmdCodeCapabilitiesExchange 0)\<rparr>"
        "(ev EventRConnCER)\<lparr>eConn := Some 6, eMsg := Some sample_cer\<rparr>" 6 sample_cer sample_env sample_env]
  show ?thesis by (simp add: New_def ev_def Let_def)
qed

text \<open>
  An inbound connection is neither answered nor closed in Suspect, Closing and Zombie. \<open>handleEvent\<close> ignores
  R-Conn-CER there, so the connection the event carries is left open with nobody to read or close it.
\<close>
theorem inbound_connection_leaks:
  assumes "state p \<in> {StateSuspect, StateClosing, StateZombie}" and "event x = EventRConnCER"
  shows "handleEvent e x p = (Inr (), p)"
  using assms by (auto simp: handleEvent_def handleStateSuspect_def handleStateClosing_def)

theorem inbound_connection_leaks_witness:
  "handleEvent sample_env ((ev EventRConnCER)\<lparr>eConn := Some 6\<rparr>) (sample_open\<lparr>state := StateSuspect\<rparr>) =
   (Inr (), sample_open\<lparr>state := StateSuspect\<rparr>)"
  by (rule inbound_connection_leaks) (simp_all add: ev_def)

text \<open>
  A disconnect requested by the peer is bounded by no timer. After a DPR in an open state the peer is in
  Closing with neither the timeout timer nor the watchdog running (a local Stop starts the timeout), so
  only the peer's own DPA or the end of the connection moves it on.
\<close>
theorem closing_after_dpr_has_no_timer:
  assumes "psm_inv p" and "state p = StateROpen \<and> event x = EventRRcvDPR \<or> state p = StateIOpen \<and> event x = EventIRcvDPR"
    and "eMsg x = Some m"
  shows "let p' = snd (handleEvent e x p) in
    state p' = StateClosing \<and> timeoutTimer p' = NoTimer \<and> watchdogTimer p' = NoTimer"
  using assms(2)
proof (elim disjE conjE)
  assume "state p = StateROpen" "event x = EventRRcvDPR"
  with assms(1,3) show ?thesis
    by (simp add: handleEvent_def handleStateROpen_def ignoring_def Let_def frames inv_simps split_beta)
next
  assume "state p = StateIOpen" "event x = EventIRcvDPR"
  with assms(1,3) show ?thesis
    by (simp add: handleEvent_def handleStateIOpen_def ignoring_def Let_def frames inv_simps split_beta)
qed

theorem closing_after_dpr_has_no_timer_witness:
  "let p' = snd (handleEvent sample_env ((ev EventRRcvDPR)\<lparr>eMsg := Some (NewRequest CmdCodeDisconnectPeer 0)\<rparr>) sample_open) in
    state p' = StateClosing \<and> timeoutTimer p' = NoTimer \<and> watchdogTimer p' = NoTimer"
  by (rule closing_after_dpr_has_no_timer [OF sample_open_inv, where m = "NewRequest CmdCodeDisconnectPeer 0"])
    (simp_all add: sample_open_def ev_def)

end
