(* ===== verification/Router.thy ===== *)
theory Router
  imports Peer_Properties "HOL-Library.AList"
begin

text \<open>
  File \<open>pkg/core/routing/router.go\<close>: the routing tables, the registries of routing and dispatch
  handlers, the candidate list and the selection of a next hop, and the table of relay
  transactions. Peers are objects of a store, addressed by a number as the code addresses them by
  pointer. Handlers are parameters: functions that may change the message, as the code's may;
  what else they do is theirs. Error texts are not modelled, their kinds and codes are.
\<close>

section \<open>Data\<close>

record Route =
  PeerIdentity :: DiamID
  Score :: int
  Reason :: string

datatype route_error =
    ErrConsumed
  | HandlerError string
  | RoutingError ResultCode message bool
  | DispatchError ResultCode
  | NoRoutesAvailable
  | EliminatedAll string
  | NoRoutesAfterExclusions
  | SendError peer_error
  | SenderRefused

type_synonym peer_ref = nat

type_synonym InHandler = "peer_ref option \<Rightarrow> message \<Rightarrow> Route list \<Rightarrow> message \<times> (route_error + Route list)"
type_synonym OutHandler = "message \<Rightarrow> Route list \<Rightarrow> message \<times> (route_error + Route list)"
type_synonym DispatchHandler = "peer_ref option \<Rightarrow> message \<Rightarrow> route_error + unit"

record inHandlerEntry =
  iPriority :: int
  iHandler :: InHandler
  iName :: string
  iOwner :: string

record outHandlerEntry =
  oPriority :: int
  oHandler :: OutHandler
  oName :: string
  oOwner :: string

text \<open>
  A post-route handler sees the message after the choice of a peer and may change it. That it was called, and with which
  peer, is recorded; its own state is that of the moment of the call.
\<close>

type_synonym PostRouteHandler = "message \<Rightarrow> DiamID \<Rightarrow> message"

record postRouteHandlerEntry =
  pName :: string
  pOwner :: string
  pHandler :: PostRouteHandler

record relayKey =
  OutboundPeer :: DiamID
  HBHID :: HopByHopID

record relayTxn =
  OriginalPeer :: DiamID
  OriginalHBHID :: HopByHopID
  txnOutboundPeer :: DiamID
  CreatedAt :: int

record RouterStats =
  RequestsRouted :: u64
  RequestsRelayed :: u64
  RequestsDispatched :: u64
  RoutingErrors :: u64
  LoopDetections :: u64
  AnswersRelayed :: u64

record router =
  realmRoutes :: "string \<Rightarrow> DiamID list option"
  hostRoutes :: "string \<Rightarrow> DiamID option"
  appRoutes :: "ApplicationID \<Rightarrow> DiamID list option"
  localIdentity :: string
  localRealm :: string
  relayEnabled :: bool
  defaultRealm :: string
  outHandlers :: "outHandlerEntry list"
  inHandlers :: "inHandlerEntry list"
  postRouteHandlers :: "postRouteHandlerEntry list"
  dispatchHandlers :: "ApplicationID \<Rightarrow> DispatchHandler option"
  dispatchOwner :: "ApplicationID \<Rightarrow> string option"
  peerLookup :: "(DiamID \<Rightarrow> peer_ref option) option"
  peerEnumerate :: "peer_ref list option"
  dynamicRealmPeers :: bool
  prevHopByHop :: "(relayKey \<times> relayTxn) list"
  nextHBH :: u32
  rstats :: RouterStats
  sweepTTL :: int

text \<open>
  What a lookup can return: a \<open>*peer.Peer\<close>, another value with a \<open>Send\<close> method (here: the messages it
  accepted, and whether it accepts), or a value without one.
\<close>

datatype peer_obj = FullPeer peer | Sender "message list" bool | Opaque

text \<open>The world of the router: the objects, and the calls made to handlers outside of it.\<close>

record world =
  objects :: "peer_ref \<Rightarrow> peer_obj"
  randCalls :: nat
  postRouted :: "(string \<times> DiamID) list"
  dispatched :: "(peer_ref option \<times> message) list"

text \<open>The clock, and the generator: the \<open>k\<close>-th call of \<open>rand.Intn(n)\<close> gives \<open>intn k n\<close>.\<close>

record renv =
  rnow :: int
  intn :: "nat \<Rightarrow> nat \<Rightarrow> nat"

definition NewRouter :: router where
  "NewRouter = \<lparr>realmRoutes = Map.empty, hostRoutes = Map.empty, appRoutes = Map.empty, localIdentity = '''',
     localRealm = '''', relayEnabled = False, defaultRealm = '''', outHandlers = [], inHandlers = [],
     postRouteHandlers = [], dispatchHandlers = Map.empty, dispatchOwner = Map.empty, peerLookup = None,
     peerEnumerate = None, dynamicRealmPeers = False, prevHopByHop = [], nextHBH = 0,
     rstats = \<lparr>RequestsRouted = 0, RequestsRelayed = 0, RequestsDispatched = 0, RoutingErrors = 0,
       LoopDetections = 0, AnswersRelayed = 0\<rparr>, sweepTTL = 0\<rparr>"

section \<open>Routing tables\<close>

definition SetDefaultRealm :: "router \<Rightarrow> string \<Rightarrow> router" where "SetDefaultRealm r x = r\<lparr>defaultRealm := x\<rparr>"

definition SetLocalIdentity :: "router \<Rightarrow> string \<Rightarrow> string \<Rightarrow> router" where
  "SetLocalIdentity r i x = r\<lparr>localIdentity := i, localRealm := x\<rparr>"

definition entries :: "'v list option \<Rightarrow> 'v list" where
  "entries x = (case x of None \<Rightarrow> [] | Some l \<Rightarrow> l)"

definition AddRealmRoute :: "router \<Rightarrow> string \<Rightarrow> DiamID list \<Rightarrow> router" where
  "AddRealmRoute r x ps = r\<lparr>realmRoutes := (realmRoutes r)(x \<mapsto> entries (realmRoutes r x) @ ps)\<rparr>"

definition AddHostRoute :: "router \<Rightarrow> string \<Rightarrow> DiamID \<Rightarrow> router" where
  "AddHostRoute r h p = r\<lparr>hostRoutes := (hostRoutes r)(h \<mapsto> p)\<rparr>"

definition AddAppRoute :: "router \<Rightarrow> ApplicationID \<Rightarrow> DiamID list \<Rightarrow> router" where
  "AddAppRoute r a ps = r\<lparr>appRoutes := (appRoutes r)(a \<mapsto> entries (appRoutes r a) @ ps)\<rparr>"

definition SetRelay :: "router \<Rightarrow> bool \<Rightarrow> router" where "SetRelay r b = r\<lparr>relayEnabled := b\<rparr>"

definition SetPeerLookup :: "router \<Rightarrow> (DiamID \<Rightarrow> peer_ref option) \<Rightarrow> router" where
  "SetPeerLookup r f = r\<lparr>peerLookup := Some f\<rparr>"

definition LookupPeer :: "router \<Rightarrow> DiamID \<Rightarrow> peer_ref option" where
  "LookupPeer r i = (case peerLookup r of None \<Rightarrow> None | Some f \<Rightarrow> f i)"

definition SetPeerEnumerator :: "router \<Rightarrow> peer_ref list \<Rightarrow> router" where
  "SetPeerEnumerator r f = r\<lparr>peerEnumerate := Some f\<rparr>"

definition SetDynamicRealmPeers :: "router \<Rightarrow> bool \<Rightarrow> router" where
  "SetDynamicRealmPeers r b = r\<lparr>dynamicRealmPeers := b\<rparr>"

section \<open>Handler registries\<close>

text \<open>\<open>sort.Slice\<close> by priority; the order of equal priorities is the order of registration here.\<close>

definition RegisterOutHandlerWithOwner :: "router \<Rightarrow> string \<Rightarrow> string \<Rightarrow> int \<Rightarrow> OutHandler \<Rightarrow> router" where
  "RegisterOutHandlerWithOwner r n own pr h =
     r\<lparr>outHandlers := sort_key oPriority (outHandlers r @ [\<lparr>oPriority = pr, oHandler = h, oName = n, oOwner = own\<rparr>])\<rparr>"

definition RegisterOutHandler :: "router \<Rightarrow> string \<Rightarrow> int \<Rightarrow> OutHandler \<Rightarrow> router" where
  "RegisterOutHandler r n pr h = RegisterOutHandlerWithOwner r n n pr h"

definition RegisterInHandlerWithOwner :: "router \<Rightarrow> string \<Rightarrow> string \<Rightarrow> int \<Rightarrow> InHandler \<Rightarrow> router" where
  "RegisterInHandlerWithOwner r n own pr h =
     r\<lparr>inHandlers := sort_key iPriority (inHandlers r @ [\<lparr>iPriority = pr, iHandler = h, iName = n, iOwner = own\<rparr>])\<rparr>"

definition RegisterInHandler :: "router \<Rightarrow> string \<Rightarrow> int \<Rightarrow> InHandler \<Rightarrow> router" where
  "RegisterInHandler r n pr h = RegisterInHandlerWithOwner r n n pr h"

definition RegisterPostRouteHandlerWithOwner :: "router \<Rightarrow> string \<Rightarrow> string \<Rightarrow> PostRouteHandler \<Rightarrow> router" where
  "RegisterPostRouteHandlerWithOwner r n own h =
     r\<lparr>postRouteHandlers := postRouteHandlers r @ [\<lparr>pName = n, pOwner = own, pHandler = h\<rparr>]\<rparr>"

definition RegisterPostRouteHandler :: "router \<Rightarrow> string \<Rightarrow> PostRouteHandler \<Rightarrow> router" where
  "RegisterPostRouteHandler r n h = RegisterPostRouteHandlerWithOwner r n n h"

definition RegisterDispatchHandlerWithOwner :: "router \<Rightarrow> ApplicationID \<Rightarrow> string \<Rightarrow> DispatchHandler \<Rightarrow> router" where
  "RegisterDispatchHandlerWithOwner r a own h =
     r\<lparr>dispatchHandlers := (dispatchHandlers r)(a \<mapsto> h), dispatchOwner := (dispatchOwner r)(a \<mapsto> own)\<rparr>"

definition RegisterDispatchHandler :: "router \<Rightarrow> ApplicationID \<Rightarrow> DispatchHandler \<Rightarrow> router" where
  "RegisterDispatchHandler r a h = RegisterDispatchHandlerWithOwner r a '''' h"

text \<open>Removing the first entry that satisfies a predicate, and whether there was one.\<close>

fun remove_first :: "('a \<Rightarrow> bool) \<Rightarrow> 'a list \<Rightarrow> 'a list \<times> bool" where
  "remove_first P [] = ([], False)"
| "remove_first P (x # xs) = (if P x then (xs, True) else (case remove_first P xs of (ys, b) \<Rightarrow> (x # ys, b)))"

definition DeregisterInHandler :: "router \<Rightarrow> string \<Rightarrow> router \<times> bool" where
  "DeregisterInHandler r n = (case remove_first (\<lambda>h. iName h = n) (inHandlers r) of (hs, b) \<Rightarrow> (r\<lparr>inHandlers := hs\<rparr>, b))"

definition DeregisterOutHandler :: "router \<Rightarrow> string \<Rightarrow> router \<times> bool" where
  "DeregisterOutHandler r n = (case remove_first (\<lambda>h. oName h = n) (outHandlers r) of (hs, b) \<Rightarrow> (r\<lparr>outHandlers := hs\<rparr>, b))"

definition DeregisterDispatchHandler :: "router \<Rightarrow> ApplicationID \<Rightarrow> router \<times> bool" where
  "DeregisterDispatchHandler r a =
     (if dispatchHandlers r a \<noteq> None
      then (r\<lparr>dispatchHandlers := (dispatchHandlers r)(a := None), dispatchOwner := (dispatchOwner r)(a := None)\<rparr>, True)
      else (r, False))"

definition DeregisterAllByOwner :: "router \<Rightarrow> string \<Rightarrow> router" where
  "DeregisterAllByOwner r own =
     r\<lparr>inHandlers := filter (\<lambda>h. iOwner h \<noteq> own) (inHandlers r),
       outHandlers := filter (\<lambda>h. oOwner h \<noteq> own) (outHandlers r),
       postRouteHandlers := filter (\<lambda>h. pOwner h \<noteq> own) (postRouteHandlers r),
       dispatchHandlers := (\<lambda>a. if dispatchOwner r a = Some own then None else dispatchHandlers r a),
       dispatchOwner := (\<lambda>a. if dispatchOwner r a = Some own then None else dispatchOwner r a)\<rparr>"

section \<open>Candidates\<close>

definition peer_of :: "world \<Rightarrow> peer_ref \<Rightarrow> peer option" where
  "peer_of w p = (case objects w p of FullPeer x \<Rightarrow> Some x | _ \<Rightarrow> None)"

text \<open>Connected peers of the target realm that are not candidates yet.\<close>

fun dynamic_candidates :: "world \<Rightarrow> DiamID \<Rightarrow> DiamID list \<Rightarrow> peer_ref list \<Rightarrow> Route list" where
  "dynamic_candidates w dest added [] = []"
| "dynamic_candidates w dest added (p # ps) = (case peer_of w p of
     None \<Rightarrow> dynamic_candidates w dest added ps
   | Some x \<Rightarrow>
       if realm x = dest \<and> diameterID x \<notin> set added
       then \<lparr>PeerIdentity = diameterID x, Score = 90, Reason = ''connected peer in realm '' @ dest\<rparr> #
         dynamic_candidates w dest (diameterID x # added) ps
       else dynamic_candidates w dest added ps)"

definition realm_candidates :: "router \<Rightarrow> world \<Rightarrow> DiamID list \<Rightarrow> DiamID \<Rightarrow> Route list" where
  "realm_candidates r w added dest =
     (if dest = '''' then []
      else let static = entries (realmRoutes r dest) in
        map (\<lambda>p. \<lparr>PeerIdentity = p, Score = 100, Reason = ''realm route for '' @ dest\<rparr>) static @
        (case peerEnumerate r of Some ps \<Rightarrow>
            (if dynamicRealmPeers r then dynamic_candidates w dest (added @ static) ps else [])
         | None \<Rightarrow> []))"

fun app_candidates :: "ApplicationID \<Rightarrow> int \<Rightarrow> DiamID list \<Rightarrow> Route list" where
  "app_candidates a i [] = []"
| "app_candidates a i (p # ps) = \<lparr>PeerIdentity = p, Score = 200 - i, Reason = ''application route for '' @ decimal (uint a)\<rparr> #
    app_candidates a (i + 1) ps"

definition target_realm :: "router \<Rightarrow> message \<Rightarrow> DiamID" where
  "target_realm r m = (case GetDestinationRealm m of Some d \<Rightarrow> d | None \<Rightarrow> defaultRealm r)"

definition buildCandidates :: "router \<Rightarrow> world \<Rightarrow> message \<Rightarrow> Route list" where
  "buildCandidates r w m =
     (let app = app_candidates (mApplicationID m) 0 (entries (appRoutes r (mApplicationID m))) in
      case GetDestinationHost m of
        Some h \<Rightarrow>
          if h = '''' then realm_candidates r w [] (target_realm r m) @ app
          else (case hostRoutes r h of
              Some p \<Rightarrow> [\<lparr>PeerIdentity = p, Score = 1000, Reason = ''direct host route''\<rparr>]
            | None \<Rightarrow> \<lparr>PeerIdentity = h, Score = 500, Reason = ''destination host''\<rparr> #
                realm_candidates r w [h] (target_realm r m) @ app)
      | None \<Rightarrow> realm_candidates r w [] (target_realm r m) @ app)"

section \<open>Selecting a next hop\<close>

fun apply_out_handlers :: "outHandlerEntry list \<Rightarrow> message \<Rightarrow> Route list \<Rightarrow> message \<times> (route_error + Route list)" where
  "apply_out_handlers [] m cs = (m, Inr cs)"
| "apply_out_handlers (h # hs) m cs = (case oHandler h m cs of
     (m, Inl err) \<Rightarrow> (m, Inl err)
   | (m, Inr cs) \<Rightarrow> if cs = [] then (m, Inl (EliminatedAll (oName h))) else apply_out_handlers hs m cs)"

text \<open>
  The tiers of equal score, highest first; in the first tier with a candidate that is not excluded,
  one of those is picked, at random when there are several. \<open>None\<close>: every tier is excluded.
\<close>

definition tier_choices :: "Route list \<Rightarrow> DiamID list \<Rightarrow> Route list" where
  "tier_choices tier exclude = filter (\<lambda>c. PeerIdentity c \<notin> set exclude) tier"

function pick_tier :: "renv \<Rightarrow> Route list \<Rightarrow> DiamID list \<Rightarrow> nat \<Rightarrow> (DiamID \<times> nat) option" where
  "pick_tier e [] exclude calls = None"
| "pick_tier e (c # cs) exclude calls =
     (let tier = takeWhile (\<lambda>d. Score d = Score c) (c # cs);
          rest = dropWhile (\<lambda>d. Score d = Score c) (c # cs);
          choices = tier_choices tier exclude in
      case choices of
        [] \<Rightarrow> pick_tier e rest exclude calls
      | [x] \<Rightarrow> Some (PeerIdentity x, calls)
      | _ \<Rightarrow> Some (PeerIdentity (choices ! intn e calls (length choices)), Suc calls))"
  by pat_completeness auto
termination
  by (relation "measure (\<lambda>(_, cs, _, _). length cs)") (auto simp: less_Suc_eq_le length_dropWhile_le)

definition firePostRouteHandlers :: "router \<Rightarrow> DiamID \<Rightarrow> message \<Rightarrow> world \<Rightarrow> message \<times> world" where
  "firePostRouteHandlers r x m w = (fold (\<lambda>h m. pHandler h m x) (postRouteHandlers r) m,
     w\<lparr>postRouted := postRouted w @ map (\<lambda>h. (pName h, x)) (postRouteHandlers r)\<rparr>)"

definition by_score :: "Route list \<Rightarrow> Route list" where
  "by_score cs = sort_key (\<lambda>c. - Score c) cs"

definition RouteOutWithExclusion :: "renv \<Rightarrow> router \<Rightarrow> world \<Rightarrow> message \<Rightarrow> DiamID list
    \<Rightarrow> message \<times> (route_error + DiamID) \<times> world" where
  "RouteOutWithExclusion e r w m exclude =
     (let cs = buildCandidates r w m in
      if cs = [] then (m, Inl NoRoutesAvailable, w)
      else case apply_out_handlers (outHandlers r) m cs of
        (m, Inl err) \<Rightarrow> (m, Inl err, w)
      | (m, Inr cs) \<Rightarrow> (case pick_tier e (by_score cs) exclude (randCalls w) of
          None \<Rightarrow> (m, Inl NoRoutesAfterExclusions, w)
        | Some (x, calls) \<Rightarrow> (case firePostRouteHandlers r x m (w\<lparr>randCalls := calls\<rparr>) of (m, w) \<Rightarrow> (m, Inr x, w))))"

definition RouteOut :: "renv \<Rightarrow> router \<Rightarrow> world \<Rightarrow> message \<Rightarrow> message \<times> (route_error + DiamID) \<times> world" where
  "RouteOut e r w m = RouteOutWithExclusion e r w m []"

section \<open>Relay transactions\<close>

definition relayPeerIdentity :: "peer \<Rightarrow> DiamID" where
  "relayPeerIdentity p = (if diameterID p \<noteq> '''' then diameterID p else cDiameterIdentity (config p))"

definition store_txn :: "relayKey \<Rightarrow> relayTxn \<Rightarrow> router \<Rightarrow> router" where
  "store_txn k t r = r\<lparr>prevHopByHop := AList.update k t (prevHopByHop r)\<rparr>"

definition delete_txn :: "relayKey \<Rightarrow> router \<Rightarrow> router" where
  "delete_txn k r = r\<lparr>prevHopByHop := AList.delete k (prevHopByHop r)\<rparr>"

definition load_and_delete :: "relayKey \<Rightarrow> router \<Rightarrow> relayTxn option \<times> router" where
  "load_and_delete k r = (map_of (prevHopByHop r) k, delete_txn k r)"

definition txns :: "router \<Rightarrow> relayKey \<Rightarrow> relayTxn option" where
  "txns r = map_of (prevHopByHop r)"

definition RelayOrigin :: "router \<Rightarrow> DiamID \<Rightarrow> HopByHopID \<Rightarrow> DiamID option" where
  "RelayOrigin r p h = map_option OriginalPeer (map_of (prevHopByHop r) \<lparr>OutboundPeer = p, HBHID = h\<rparr>)"

definition drop_txns :: "(relayTxn \<Rightarrow> bool) \<Rightarrow> router \<Rightarrow> nat \<times> router" where
  "drop_txns P r = (length (filter (\<lambda>(k, t). P t) (prevHopByHop r)),
     r\<lparr>prevHopByHop := filter (\<lambda>(k, t). \<not> P t) (prevHopByHop r)\<rparr>)"

definition FailoverPeer :: "router \<Rightarrow> DiamID \<Rightarrow> nat \<times> router" where
  "FailoverPeer r x = drop_txns (\<lambda>t. OriginalPeer t = x \<or> txnOutboundPeer t = x) r"

definition RelayTxnCount :: "router \<Rightarrow> nat" where
  "RelayTxnCount r = length (prevHopByHop r)"

definition sweepExpired :: "renv \<Rightarrow> router \<Rightarrow> nat \<times> router" where
  "sweepExpired e r =
     (if sweepTTL r \<le> 0 then (0, r)
      else let cutoff = rnow e - sweepTTL r in drop_txns (\<lambda>t. CreatedAt t < cutoff) r)"

interpretation relay_table: txn_table store_txn load_and_delete txns
  by unfold_locales
    (simp_all add: store_txn_def load_and_delete_def delete_txn_def txns_def update_conv' delete_conv' fun_eq_iff
      map_of_delete restrict_map_def)

end
