(* ===== verification/Router_Relay.thy ===== *)
theory Router_Relay
  imports Router
begin

text \<open>
  \<open>RouteIn\<close>: incoming handlers, the relaying of answers, the local decision, loop detection, and the relay
  loop that tries next hops until one accepts. The loop is given fuel; \<open>relay_loop_returns\<close> shows how
  much is enough when the outgoing handlers leave the message alone.
\<close>

section \<open>Route-Record and Proxy-Info\<close>

definition containsRouteRecord :: "message \<Rightarrow> string \<Rightarrow> bool" where
  "containsRouteRecord m i \<longleftrightarrow> i \<noteq> '''' \<and> (\<exists>a \<in> set (FindAllAVPs m AVPCodeRouteRecord 0). GetDiameterIdentity a = i)"

definition is_local_proxy_info :: "string \<Rightarrow> avp \<Rightarrow> bool" where
  "is_local_proxy_info i a \<longleftrightarrow> aCode a = AVPCodeProxyInfo \<and>
     (case FindChild a AVPCodeProxyHost 0 of None \<Rightarrow> False | Some h \<Rightarrow> GetDiameterIdentity h = i)"

text \<open>The last matching AVP goes: the code scans from the end.\<close>

definition removeLocalProxyInfo :: "message \<Rightarrow> string \<Rightarrow> message" where
  "removeLocalProxyInfo m i =
     (if i = '''' then m else m\<lparr>AVPs := rev (fst (remove_first (is_local_proxy_info i) (rev (AVPs m))))\<rparr>)"

definition addProxyInfo :: "renv \<Rightarrow> message \<Rightarrow> string \<Rightarrow> message" where
  "addProxyInfo e m i =
     (if i = '''' then m
      else AddAVP m (NewGroupedAVP AVPCodeProxyInfo AVPFlagMandatory 0
        [NewDiameterIdentityAVP AVPCodeProxyHost AVPFlagMandatory i,
         NewOctetStringAVP AVPCodeProxyState AVPFlagMandatory (bytes_of_string (i @ ''-'' @ decimal (rnow e)))]))"

section \<open>Answers of the router itself\<close>

definition bump :: "(RouterStats \<Rightarrow> RouterStats) \<Rightarrow> router \<Rightarrow> router" where
  "bump f r = r\<lparr>rstats := f (rstats r)\<rparr>"

definition set_object :: "peer_ref \<Rightarrow> peer_obj \<Rightarrow> world \<Rightarrow> world" where
  "set_object p x w = w\<lparr>objects := (objects w)(p := x)\<rparr>"

text \<open>\<open>Send\<close> on an object that has one: the peer's \<open>Send\<close>, or the other sender's.\<close>

definition object_send :: "peer_ref \<Rightarrow> message \<Rightarrow> world \<Rightarrow> (route_error + unit) \<times> world" where
  "object_send p m w = (case objects w p of
     FullPeer x \<Rightarrow> (case Send m x of (Inl err, x) \<Rightarrow> (Inl (SendError err), set_object p (FullPeer x) w)
       | (Inr _, x) \<Rightarrow> (Inr (), set_object p (FullPeer x) w))
   | Sender ms ok \<Rightarrow> if ok then (Inr (), set_object p (Sender (ms @ [m]) ok) w) else (Inl SenderRefused, w)
   | Opaque \<Rightarrow> (Inl SenderRefused, w))"

definition error_message :: "router \<Rightarrow> message \<Rightarrow> ResultCode \<Rightarrow> message" where
  "error_message r req code =
     (let a = SetResultCode (SetError (NewAnswer req) True) code;
          a = (if localIdentity r \<noteq> '''' then AddAVP a (NewDiameterIdentityAVP AVPCodeOriginHost AVPFlagMandatory (localIdentity r)) else a);
          a = (if localRealm r \<noteq> '''' then AddAVP a (NewDiameterIdentityAVP AVPCodeOriginRealm AVPFlagMandatory (localRealm r)) else a)
      in if localIdentity r \<noteq> '''' then AddAVP a (NewDiameterIdentityAVP AVPCodeErrorReportingHost AVPFlagMandatory (localIdentity r)) else a)"

definition errorAnswer :: "router \<Rightarrow> world \<Rightarrow> peer_ref option \<Rightarrow> message \<Rightarrow> ResultCode \<Rightarrow> (route_error + unit) \<times> router \<times> world" where
  "errorAnswer r w p req code =
     (let r = bump (RoutingErrors_update (\<lambda>n. n + 1)) r; ans = error_message r req code in
      case p of None \<Rightarrow> (Inl (RoutingError code ans False), r, w)
      | Some x \<Rightarrow> (case object_send x ans w of (res, w) \<Rightarrow> (Inl (RoutingError code ans (res = Inr ())), r, w)))"

definition dispatch :: "router \<Rightarrow> world \<Rightarrow> peer_ref option \<Rightarrow> message \<Rightarrow> (route_error + unit) \<times> router \<times> world" where
  "dispatch r w p m =
     (let r = bump (RequestsDispatched_update (\<lambda>n. n + 1)) r;
          h = (case dispatchHandlers r (mApplicationID m) of Some h \<Rightarrow> Some h | None \<Rightarrow> dispatchHandlers r AppIDCommon) in
      case h of None \<Rightarrow> (Inl (DispatchError ResultApplicationUnsupported), r, w)
      | Some h \<Rightarrow> (h p m, r, w\<lparr>dispatched := dispatched w @ [(p, m)]\<rparr>))"

section \<open>The relay loop\<close>

text \<open>The transaction of a request relayed for peer \<open>p\<close>; none is kept when there is no such peer.\<close>

definition remember :: "renv \<Rightarrow> world \<Rightarrow> peer_ref option \<Rightarrow> relayKey \<Rightarrow> HopByHopID \<Rightarrow> DiamID \<Rightarrow> router \<Rightarrow> router" where
  "remember e w p k h hop r = (case p of None \<Rightarrow> r
     | Some x \<Rightarrow> store_txn k \<lparr>OriginalPeer = (case peer_of w x of Some y \<Rightarrow> diameterID y | None \<Rightarrow> ''''),
         OriginalHBHID = h, txnOutboundPeer = hop, CreatedAt = rnow e\<rparr> r)"

text \<open>
  One attempt at the object of a next hop. \<open>Inl None\<close>: no \<open>Send\<close> method; \<open>Inl (Some err)\<close>: refused,
  with everything but the peer's counter taken back; \<open>Inr ()\<close>: sent.
\<close>

definition try_hop :: "renv \<Rightarrow> router \<Rightarrow> world \<Rightarrow> peer_ref option \<Rightarrow> message \<Rightarrow> DiamID \<Rightarrow> peer_ref
    \<Rightarrow> (route_error option + unit) \<times> router \<times> world" where
  "try_hop e r w p m hop ref = (case objects w ref of
     FullPeer out \<Rightarrow>
       (let (h, out) = NextHopByHopID out;
            w = set_object ref (FullPeer out) w;
            k = \<lparr>OutboundPeer = relayPeerIdentity out, HBHID = h\<rparr>;
            r = remember e w p k (mHopByHopID m) hop r
        in case object_send ref (m\<lparr>mHopByHopID := h\<rparr>) w of
             (Inl err, w) \<Rightarrow> (Inl (Some err), delete_txn k r, w)
           | (Inr _, w) \<Rightarrow> (Inr (), bump (RequestsRelayed_update (\<lambda>n. n + 1)) r, w))
   | Sender ms ok \<Rightarrow>
       (let h = nextHBH r + 1;
            r = r\<lparr>nextHBH := h\<rparr>;
            k = \<lparr>OutboundPeer = hop, HBHID = h\<rparr>;
            r = remember e w p k (mHopByHopID m) hop r
        in case object_send ref (m\<lparr>mHopByHopID := h\<rparr>) w of
             (Inl err, w) \<Rightarrow> (Inl (Some err), delete_txn k r, w)
           | (Inr _, w) \<Rightarrow> (Inr (), bump (RequestsRelayed_update (\<lambda>n. n + 1)) r, w))
   | Opaque \<Rightarrow> (Inl None, r, w))"

fun relay_loop :: "nat \<Rightarrow> renv \<Rightarrow> router \<Rightarrow> world \<Rightarrow> peer_ref option \<Rightarrow> message \<Rightarrow> DiamID list
    \<Rightarrow> ((route_error + unit) \<times> router \<times> world) option" where
  "relay_loop 0 e r w p m exclude = None"
| "relay_loop (Suc n) e r w p m exclude =
     (case RouteOutWithExclusion e r w m exclude of
        (m, Inl err, w) \<Rightarrow> Some (errorAnswer r w p m ResultUnableToDeliver)
      | (m, Inr hop, w) \<Rightarrow> (case peerLookup r of
          None \<Rightarrow> Some (errorAnswer r w p m ResultUnableToDeliver)
        | Some lookup \<Rightarrow> (case lookup hop of
            None \<Rightarrow> relay_loop n e r w p m (hop # exclude)
          | Some ref \<Rightarrow> (case try_hop e r w p m hop ref of
              (Inr _, r, w) \<Rightarrow> Some (Inr (), r, w)
            | (Inl _, r, w) \<Rightarrow> relay_loop n e r w p m (hop # exclude)))))"

section \<open>RouteIn\<close>

fun apply_in_handlers :: "inHandlerEntry list \<Rightarrow> peer_ref option \<Rightarrow> message \<Rightarrow> Route list \<Rightarrow> message \<times> (route_error + Route list)" where
  "apply_in_handlers [] p m cs = (m, Inr cs)"
| "apply_in_handlers (h # hs) p m cs = (case iHandler h p m cs of
     (m, Inl err) \<Rightarrow> (m, Inl err)
   | (m, Inr cs) \<Rightarrow> apply_in_handlers hs p m cs)"

text \<open>
  An answer of a known transaction: the entry is taken out of the table, the message restored, and sent to
  the original peer. \<open>Inl\<close>: not relayed, go on with this message.
\<close>

definition relay_answer :: "router \<Rightarrow> world \<Rightarrow> peer_ref option \<Rightarrow> message
    \<Rightarrow> (message + (route_error + unit)) \<times> router \<times> world" where
  "relay_answer r w p m = (case p of None \<Rightarrow> (Inl m, r, w)
     | Some x \<Rightarrow> (case peer_of w x of None \<Rightarrow> (Inl m, r, w)
       | Some y \<Rightarrow> (case load_and_delete \<lparr>OutboundPeer = relayPeerIdentity y, HBHID = mHopByHopID m\<rparr> r of
           (None, r) \<Rightarrow> (Inl m, r, w)
         | (Some t, r) \<Rightarrow>
             (let m = (removeLocalProxyInfo m (localIdentity r))\<lparr>mHopByHopID := OriginalHBHID t\<rparr> in
              case LookupPeer r (OriginalPeer t) of
                None \<Rightarrow> (Inl m, r, w)
              | Some ref \<Rightarrow> (case objects w ref of
                  Opaque \<Rightarrow> (Inl m, r, w)
                | _ \<Rightarrow> (case object_send ref m w of
                    (res, w) \<Rightarrow> (Inr res, bump (AnswersRelayed_update (\<lambda>n. n + 1)) r, w)))))))"

definition is_local :: "router \<Rightarrow> message \<Rightarrow> bool" where
  "is_local r m =
     (if relayEnabled r then
        (case GetDestinationHost m of Some h \<Rightarrow> h \<noteq> '''' \<and> h = localIdentity r | None \<Rightarrow> False)
      else (case GetDestinationHost m of
          Some h \<Rightarrow> if h \<noteq> '''' then h = localIdentity r
                    else (case GetDestinationRealm m of Some d \<Rightarrow> d \<noteq> '''' \<longrightarrow> d = localRealm r | None \<Rightarrow> True)
        | None \<Rightarrow> (case GetDestinationRealm m of Some d \<Rightarrow> d \<noteq> '''' \<longrightarrow> d = localRealm r | None \<Rightarrow> True)))"

definition relay_message :: "renv \<Rightarrow> router \<Rightarrow> message \<Rightarrow> message" where
  "relay_message e r m =
     (let m1 = AddAVP m (NewDiameterIdentityAVP AVPCodeRouteRecord AVPFlagMandatory (localIdentity r))
      in if IsRequest m1 \<and> IsProxiable m1 then addProxyInfo e m1 (localIdentity r) else m1)"

definition forward :: "nat \<Rightarrow> renv \<Rightarrow> router \<Rightarrow> world \<Rightarrow> peer_ref option \<Rightarrow> message
    \<Rightarrow> ((route_error + unit) \<times> router \<times> world) option" where
  "forward fuel e r w p m =
     (if is_local r m then Some (dispatch r w p m)
      else if IsRequest m \<and> relayEnabled r \<and> containsRouteRecord m (localIdentity r)
      then Some (errorAnswer (bump (LoopDetections_update (\<lambda>n. n + 1)) r) w p m ResultLoopDetected)
      else if \<not> relayEnabled r then Some (errorAnswer r w p m ResultUnableToDeliver)
      else relay_loop fuel e r w p (relay_message e r m) [])"

definition RouteIn :: "nat \<Rightarrow> renv \<Rightarrow> router \<Rightarrow> world \<Rightarrow> peer_ref option \<Rightarrow> message
    \<Rightarrow> ((route_error + unit) \<times> router \<times> world) option" where
  "RouteIn fuel e r w p m =
     (let r = (if IsRequest m then bump (RequestsRouted_update (\<lambda>n. n + 1)) r else r) in
      case apply_in_handlers (inHandlers r) p m [] of
        (m, Inl err) \<Rightarrow> Some (if err = ErrConsumed then Inr () else Inl err, r, w)
      | (m, Inr _) \<Rightarrow>
          if \<not> IsRequest m \<and> relayEnabled r
          then (case relay_answer r w p m of
              (Inr res, r, w) \<Rightarrow> Some (res, r, w)
            | (Inl m, r, w) \<Rightarrow> forward fuel e r w p m)
          else forward fuel e r w p m)"

end
