(* ===== verification/Router_Properties.thy ===== *)
theory Router_Properties
  imports Router_Relay
begin

text \<open>
  The properties of the router: the selection of the next hop, termination of the relay loop, relay
  transactions from the request to the answer, loop detection, the handler registries, and what
  happens to answers that match nothing.
\<close>

section \<open>Selection\<close>

text \<open>What is documented of \<open>rand.Intn\<close>.\<close>

definition valid_rand :: "renv \<Rightarrow> bool" where
  "valid_rand e \<longleftrightarrow> (\<forall>k n. 0 < n \<longrightarrow> intn e k n < n)"

definition best :: "Route list \<Rightarrow> DiamID list \<Rightarrow> DiamID \<Rightarrow> bool" where
  "best cs exclude x \<longleftrightarrow> x \<notin> set exclude \<and>
     (\<exists>d \<in> set cs. PeerIdentity d = x \<and> (\<forall>c \<in> set cs. PeerIdentity c \<notin> set exclude \<longrightarrow> Score c \<le> Score d))"

lemma set_by_score [simp]: "set (by_score cs) = set cs"
  by (simp add: by_score_def)

lemma by_score_sorted: "sorted_wrt (\<lambda>c d. Score d \<le> Score c) (by_score cs)"
proof -
  have "sorted (map (\<lambda>c. - Score c) (by_score cs))" by (simp add: by_score_def)
  then show ?thesis by (simp add: sorted_wrt_map)
qed

lemma choice_in: "choices = y # ys \<Longrightarrow> valid_rand e \<Longrightarrow>
  (case choices of [] \<Rightarrow> None | [x] \<Rightarrow> Some (PeerIdentity x, k)
   | _ \<Rightarrow> Some (PeerIdentity (choices ! intn e k (length choices)), Suc k)) = Some (x, k') \<Longrightarrow>
  \<exists>d \<in> set choices. PeerIdentity d = x"
proof -
  assume c: "choices = y # ys" and v: "valid_rand e"
    and x: "(case choices of [] \<Rightarrow> None | [x] \<Rightarrow> Some (PeerIdentity x, k)
      | _ \<Rightarrow> Some (PeerIdentity (choices ! intn e k (length choices)), Suc k)) = Some (x, k')"
  have "choices ! intn e k (length choices) \<in> set choices"
    using v c by (intro nth_mem) (simp add: valid_rand_def)
  then show ?thesis using x c by (cases ys) auto
qed

lemma pick_tier_best:
  "sorted_wrt (\<lambda>c d. Score d \<le> Score c) cs \<Longrightarrow> valid_rand e \<Longrightarrow> pick_tier e cs exclude k = Some (x, k') \<Longrightarrow> best cs exclude x"
proof (induction e cs exclude k rule: pick_tier.induct)
  case (2 e c cs exclude k)
  define tier where "tier = takeWhile (\<lambda>d. Score d = Score c) (c # cs)"
  define rest where "rest = dropWhile (\<lambda>d. Score d = Score c) (c # cs)"
  define choices where "choices = tier_choices tier exclude"
  have all: "set (c # cs) = set tier \<union> set rest"
    unfolding tier_def rest_def by (metis set_append takeWhile_dropWhile_id)
  have tier: "Score d = Score c" if "d \<in> set tier" for d
    using that unfolding tier_def by (rule set_takeWhileD [THEN conjunct2])
  have step: "pick_tier e (c # cs) exclude k = (case choices of [] \<Rightarrow> pick_tier e rest exclude k
      | [x] \<Rightarrow> Some (PeerIdentity x, k) | _ \<Rightarrow> Some (PeerIdentity (choices ! intn e k (length choices)), Suc k))"
    by (simp only: pick_tier.simps Let_def tier_def rest_def choices_def)
  have top: "Score d \<le> Score c" if "d \<in> set (c # cs)" for d
    using that "2.prems"(1) by auto
  show ?case
  proof (cases choices)
    case Nil
    have "sorted_wrt (\<lambda>c d. Score d \<le> Score c) rest"
      unfolding rest_def dropWhile_eq_drop using "2.prems"(1) by (rule sorted_wrt_drop)
    moreover have "pick_tier e rest exclude k = Some (x, k')"
      using "2.prems"(3) Nil unfolding step by simp
    ultimately have "best rest exclude x"
      using "2.IH" [OF tier_def rest_def choices_def Nil] "2.prems"(2) by blast
    moreover have "PeerIdentity d \<in> set exclude" if "d \<in> set tier" for d
      using that Nil by (auto simp: choices_def tier_choices_def filter_empty_conv)
    ultimately show ?thesis unfolding best_def all by blast
  next
    case (Cons y ys)
    then obtain d where d: "d \<in> set choices" "PeerIdentity d = x"
      using choice_in [OF Cons "2.prems"(2), of k x k'] "2.prems"(3) Cons unfolding step by auto
    then have "d \<in> set tier" "x \<notin> set exclude" by (auto simp: choices_def tier_choices_def)
    then show ?thesis using d tier top all unfolding best_def by (metis Un_iff)
  qed
qed simp

lemma pick_tier_None: "pick_tier e cs exclude k = None \<longleftrightarrow> (\<forall>c \<in> set cs. PeerIdentity c \<in> set exclude)"
proof (induction e cs exclude k rule: pick_tier.induct)
  case (2 e c cs exclude k)
  define tier where "tier = takeWhile (\<lambda>d. Score d = Score c) (c # cs)"
  define rest where "rest = dropWhile (\<lambda>d. Score d = Score c) (c # cs)"
  define choices where "choices = tier_choices tier exclude"
  have all: "set (c # cs) = set tier \<union> set rest"
    unfolding tier_def rest_def by (metis set_append takeWhile_dropWhile_id)
  have nil: "choices = [] \<longleftrightarrow> (\<forall>d \<in> set tier. PeerIdentity d \<in> set exclude)"
    by (auto simp: choices_def tier_choices_def filter_empty_conv)
  have step: "pick_tier e (c # cs) exclude k = (case choices of [] \<Rightarrow> pick_tier e rest exclude k
      | [x] \<Rightarrow> Some (PeerIdentity x, k) | _ \<Rightarrow> Some (PeerIdentity (choices ! intn e k (length choices)), Suc k))"
    by (simp only: pick_tier.simps Let_def tier_def rest_def choices_def)
  show ?case
  proof (cases choices)
    case Nil
    then show ?thesis using "2.IH" [OF tier_def rest_def choices_def Nil] nil unfolding step all by auto
  next
    case (Cons y ys)
    then show ?thesis using nil unfolding step all by (cases ys) auto
  qed
qed simp

section \<open>What relaying leaves alone\<close>

text \<open>The identities of the peers, which the candidate list reads.\<close>

definition same_ids :: "world \<Rightarrow> world \<Rightarrow> bool" where
  "same_ids w w' \<longleftrightarrow> (\<forall>p. map_option (\<lambda>x. (realm x, diameterID x)) (peer_of w' p) = map_option (\<lambda>x. (realm x, diameterID x)) (peer_of w p))"

lemma same_ids_refl [simp]: "same_ids w w"
  by (simp add: same_ids_def)

lemma same_ids_trans: "same_ids w w' \<Longrightarrow> same_ids w' w'' \<Longrightarrow> same_ids w w''"
  by (simp add: same_ids_def)

lemma dynamic_candidates_cong: "same_ids w w' \<Longrightarrow> dynamic_candidates w' d added ps = dynamic_candidates w d added ps"
proof (induction ps arbitrary: added)
  case (Cons p ps)
  then have "map_option (\<lambda>x. (realm x, diameterID x)) (peer_of w' p) = map_option (\<lambda>x. (realm x, diameterID x)) (peer_of w p)"
    by (simp add: same_ids_def)
  with Cons show ?case by (cases "peer_of w p"; cases "peer_of w' p") auto
qed simp

text \<open>The tables of the router, which relaying never changes.\<close>

definition tables :: "router \<Rightarrow> _" where
  "tables r = (realmRoutes r, hostRoutes r, appRoutes r, localIdentity r, localRealm r, relayEnabled r, defaultRealm r,
     outHandlers r, inHandlers r, postRouteHandlers r, peerLookup r, peerEnumerate r, dynamicRealmPeers r)"

lemma buildCandidates_cong:
  "same_ids w w' \<Longrightarrow> tables r' = tables r \<Longrightarrow> buildCandidates r' w' m = buildCandidates r w m"
proof -
  assume ids: "same_ids w w'" and t: "tables r' = tables r"
  have "target_realm r' m = target_realm r m"
    using t by (simp add: target_realm_def tables_def cong: option.case_cong)
  moreover have "realm_candidates r' w' added d = realm_candidates r w added d" for added d
    using t dynamic_candidates_cong [OF ids] by (simp add: realm_candidates_def tables_def Let_def cong: option.case_cong if_cong)
  ultimately show ?thesis
    using t by (simp add: buildCandidates_def tables_def Let_def cong: option.case_cong if_cong)
qed

lemma tables_simps [simp]:
  "tables (bump f r) = tables r" "tables (store_txn k t r) = tables r" "tables (delete_txn k r) = tables r"
  "tables (remember e w p k h hop r) = tables r" "tables (r\<lparr>nextHBH := n\<rparr>) = tables r"
  by (simp_all add: tables_def bump_def store_txn_def delete_txn_def remember_def split: option.split)

lemma Send_ids: "realm (snd (Send m p)) = realm p \<and> diameterID (snd (Send m p)) = diameterID p \<and> config (snd (Send m p)) = config p"
  by (simp add: Send_def Let_def trackPending_def split: prod.split)

lemma object_send_ids: "same_ids w (snd (object_send p m w))"
  using Send_ids
  by (auto simp: object_send_def same_ids_def set_object_def peer_of_def split: peer_obj.split prod.split sum.split)
    (metis snd_conv)+

lemma try_hop_frame:
  assumes "try_hop e r w p m hop ref = (res, r', w')"
  shows "tables r' = tables r" and "same_ids w w'"
proof -
  have same: "same_ids w (set_object ref (FullPeer (snd (NextHopByHopID out))) w)" if "objects w ref = FullPeer out" for out
    using that by (simp add: same_ids_def set_object_def peer_of_def NextHopByHopID_def Let_def)
  show "tables r' = tables r"
    using assms by (auto simp: try_hop_def Let_def split: peer_obj.splits prod.splits sum.splits)
  show "same_ids w w'"
  proof (cases "objects w ref")
    case (FullPeer out)
    let ?w = "set_object ref (FullPeer (snd (NextHopByHopID out))) w"
    have "w' = snd (object_send ref (m\<lparr>mHopByHopID := fst (NextHopByHopID out)\<rparr>) ?w)"
      using assms FullPeer by (auto simp: try_hop_def Let_def split_beta split: sum.splits)
    then show ?thesis using same [OF FullPeer] object_send_ids same_ids_trans by metis
  next
    case (Sender ms ok)
    have "w' = snd (object_send ref (m\<lparr>mHopByHopID := nextHBH r + 1\<rparr>) w)"
      using assms Sender by (auto simp: try_hop_def Let_def split_beta split: sum.splits)
    then show ?thesis using object_send_ids by metis
  next
    case Opaque
    then show ?thesis using assms by (simp add: try_hop_def)
  qed
qed

section \<open>The relay loop returns\<close>

text \<open>Outgoing handlers that only filter and score, and post-route handlers that only listen: the message is left as it is.\<close>

definition pure_handlers :: "router \<Rightarrow> bool" where
  "pure_handlers r \<longleftrightarrow> (\<forall>h \<in> set (outHandlers r). \<forall>m cs. fst (oHandler h m cs) = m) \<and>
     (\<forall>h \<in> set (postRouteHandlers r). \<forall>m x. pHandler h m x = m)"

lemma fold_post_handlers_pure: "\<forall>h \<in> set hs. \<forall>m x. pHandler h m x = m \<Longrightarrow> fold (\<lambda>h m. pHandler h m x) hs m = m"
  by (induction hs) auto

lemma firePostRouteHandlers_pure: "pure_handlers r \<Longrightarrow> fst (firePostRouteHandlers r x m w) = m"
  by (simp add: firePostRouteHandlers_def pure_handlers_def fold_post_handlers_pure)

lemma firePostRouteHandlers_world:
  "snd (firePostRouteHandlers r x m w) = w\<lparr>postRouted := postRouted w @ map (\<lambda>h. (pName h, x)) (postRouteHandlers r)\<rparr>"
  by (simp add: firePostRouteHandlers_def)

text \<open>The candidates that the handlers leave.\<close>

definition usable :: "router \<Rightarrow> world \<Rightarrow> message \<Rightarrow> Route list" where
  "usable r w m = (case snd (apply_out_handlers (outHandlers r) m (buildCandidates r w m)) of Inr cs \<Rightarrow> cs | Inl _ \<Rightarrow> [])"

lemma apply_out_handlers_pure:
  "\<forall>h \<in> set hs. \<forall>m cs. fst (oHandler h m cs) = m \<Longrightarrow> fst (apply_out_handlers hs m cs) = m"
proof (induction hs m cs rule: apply_out_handlers.induct)
  case (2 h hs m cs)
  have "fst (oHandler h m cs) = m" using "2.prems" by simp
  then obtain res where h: "oHandler h m cs = (m, res)" by (cases "oHandler h m cs") auto
  show ?case
  proof (cases res)
    case (Inr b)
    then show ?thesis using h "2.IH" [OF h [symmetric] Inr] "2.prems" by auto
  qed (simp add: h)
qed simp

lemma RouteOut_pure:
  assumes "pure_handlers r" and "RouteOutWithExclusion e r w m exclude = (m', res, w')"
  shows "m' = m" and "same_ids w w'" and "objects w' = objects w"
    and "\<forall>x. res = Inr x \<longrightarrow> pick_tier e (by_score (usable r w m)) exclude (randCalls w) = Some (x, randCalls w')"
proof -
  have "fst (apply_out_handlers (outHandlers r) m (buildCandidates r w m)) = m"
    using assms(1) by (intro apply_out_handlers_pure) (simp add: pure_handlers_def)
  then obtain y where y: "apply_out_handlers (outHandlers r) m (buildCandidates r w m) = (m, y)"
    by (cases "apply_out_handlers (outHandlers r) m (buildCandidates r w m)") auto
  show o: "objects w' = objects w" and "m' = m"
    using assms(2) y firePostRouteHandlers_pure [OF assms(1)]
    by (auto simp: RouteOutWithExclusion_def split_beta firePostRouteHandlers_world Let_def split: if_splits sum.splits option.splits)
  show "same_ids w w'" by (simp add: same_ids_def peer_of_def o)
  show "\<forall>x. res = Inr x \<longrightarrow> pick_tier e (by_score (usable r w m)) exclude (randCalls w) = Some (x, randCalls w')"
    using assms(2) y by (auto simp: RouteOutWithExclusion_def firePostRouteHandlers_def usable_def Let_def
        split: if_splits sum.splits option.splits)
qed

lemma usable_cong: "same_ids w w' \<Longrightarrow> tables r' = tables r \<Longrightarrow> usable r' w' m = usable r w m"
  using buildCandidates_cong [of w w' r' r m] by (simp add: usable_def tables_def)

lemma relay_loop_fuel:
  "pure_handlers r \<Longrightarrow> valid_rand e \<Longrightarrow>
   card (set (map PeerIdentity (usable r w m)) - set exclude) < fuel \<Longrightarrow> relay_loop fuel e r w p m exclude \<noteq> None"
proof (induction fuel arbitrary: r w exclude)
  case (Suc fuel)
  obtain m' res w' where out: "RouteOutWithExclusion e r w m exclude = (m', res, w')" by (metis prod_cases3)
  note R = RouteOut_pure [OF Suc.prems(1) out]
  let ?C = "set (map PeerIdentity (usable r w m))"
  have less: "relay_loop fuel e r1 w1 p m (hop # exclude) \<noteq> None"
    if hop: "res = Inr hop" and t: "tables r1 = tables r" and s: "same_ids w w1" for r1 w1 hop
  proof -
    have "best (by_score (usable r w m)) exclude hop"
      using R(4) hop pick_tier_best [OF by_score_sorted Suc.prems(2)] by blast
    then have h: "hop \<in> ?C - set exclude" by (auto simp: best_def)
    have "usable r1 w1 m = usable r w m" using usable_cong [OF s t] .
    moreover have "?C - set (hop # exclude) \<subset> ?C - set exclude" using h by auto
    then have "card (?C - set (hop # exclude)) < card (?C - set exclude)" by (intro psubset_card_mono) auto
    ultimately show ?thesis
      using Suc.prems t by (intro Suc.IH) (auto simp: pure_handlers_def tables_def)
  qed
  show ?case
  proof (cases res)
    case (Inl err)
    then show ?thesis using out by simp
  next
    case (Inr hop)
    have "relay_loop fuel e r w' p m (hop # exclude) \<noteq> None" using less [OF Inr refl R(2)] .
    moreover have "relay_loop fuel e r1 w1 p m (hop # exclude) \<noteq> None"
      if "try_hop e r w' p m hop ref = (x, r1, w1)" for ref x r1 w1
      using less [OF Inr] try_hop_frame [OF that] same_ids_trans [OF R(2)] by blast
    ultimately show ?thesis
      using out Inr R(1) by (auto simp: prod_eq_iff split: option.splits prod.splits sum.splits)
  qed
qed simp

section \<open>Relay transactions\<close>

definition no_new_txns :: "router \<Rightarrow> router \<Rightarrow> bool" where
  "no_new_txns r r' \<longleftrightarrow> (\<forall>k. txns r' k = None \<or> txns r' k = txns r k)"

lemma no_new_txns_refl [simp]: "no_new_txns r r"
  by (simp add: no_new_txns_def)

lemma no_new_txns_trans: "no_new_txns r r' \<Longrightarrow> no_new_txns r' r'' \<Longrightarrow> no_new_txns r r''"
  unfolding no_new_txns_def by metis

lemma txns_simps [simp]:
  "txns (bump f r) = txns r" "txns (r\<lparr>nextHBH := n\<rparr>) = txns r"
  "txns (store_txn k t r) = (txns r)(k \<mapsto> t)" "txns (delete_txn k r) = (txns r)(k := None)"
  using relay_table.entry_store [of k t r] relay_table.entry_consume [of k r]
  by (simp_all add: txns_def bump_def load_and_delete_def)

lemma txns_remember: "txns (remember e w p k h hop r) k' = txns r k' \<or> k' = k"
  by (simp add: remember_def split: option.split)

lemma no_new_remember: "no_new_txns r (delete_txn k (remember e w p k h hop r'))" if "txns r' = txns r"
  using that txns_remember [of e w p k h hop r'] by (auto simp: no_new_txns_def)

lemma try_hop_refused:
  assumes "try_hop e r w p m hop ref = (Inl x, r', w')" shows "no_new_txns r r'"
  using assms no_new_remember
  by (auto simp: try_hop_def Let_def split: peer_obj.splits prod.splits sum.splits)

lemma relay_loop_error:
  "relay_loop fuel e r w p m exclude = Some (Inl err, r', w') \<Longrightarrow> no_new_txns r r'"
proof (induction fuel arbitrary: r w m exclude)
  case (Suc fuel)
  have ans: "no_new_txns r q" if "errorAnswer r w1 p m1 c = (x, q, w2)" for w1 m1 c x q w2
    using that by (auto simp: errorAnswer_def Let_def no_new_txns_def split: option.splits prod.splits)
  obtain m1 res w1 where out: "RouteOutWithExclusion e r w m exclude = (m1, res, w1)" by (metis prod_cases3)
  show ?case
  proof (cases res)
    case (Inl x)
    then show ?thesis using Suc.prems out ans by simp
  next
    case (Inr hop)
    show ?thesis
    proof (cases "\<exists>lookup ref. peerLookup r = Some lookup \<and> lookup hop = Some ref")
      case True
      then obtain ref where ref: "\<And>x y z. (case try_hop e r w1 p m1 hop ref of (Inr _, r, w) \<Rightarrow> Some (Inr (), r, w)
            | (Inl _, r, w) \<Rightarrow> relay_loop fuel e r w p m1 (hop # exclude)) = Some (Inl err, r', w')"
        using Suc.prems out Inr by auto
      obtain x r1 w2 where t: "try_hop e r w1 p m1 hop ref = (x, r1, w2)" by (metis prod_cases3)
      show ?thesis
      proof (cases x)
        case (Inl y)
        then have "no_new_txns r1 r'" using ref t Suc.IH by auto
        then show ?thesis by (rule no_new_txns_trans [OF try_hop_refused [OF t [unfolded Inl]]])
      qed (use ref t in auto)
    next
      case False
      show ?thesis
      proof (cases "peerLookup r")
        case None
        then show ?thesis using Suc.prems out Inr ans by simp
      next
        case (Some lookup)
        then have "lookup hop = None" using False by auto
        then show ?thesis using Suc.prems Suc.IH out Inr Some by simp
      qed
    qed
  qed
qed simp

text \<open>The transaction that a relayed request leaves behind, when the next hop is a peer.\<close>

lemma try_hop_stores:
  assumes "try_hop e r w (Some i) m hop ref = (Inr (), r', w')"
    and "objects w ref = FullPeer out" and "objects w i = FullPeer orig"
  shows "txns r' = (txns r)(\<lparr>OutboundPeer = relayPeerIdentity out, HBHID = hopByHopID out + 1\<rparr> \<mapsto>
     \<lparr>OriginalPeer = diameterID orig, OriginalHBHID = mHopByHopID m, txnOutboundPeer = hop, CreatedAt = rnow e\<rparr>)"
    and "localIdentity r' = localIdentity r"
proof -
  have id: "relayPeerIdentity (snd (NextHopByHopID out)) = relayPeerIdentity out"
    "fst (NextHopByHopID out) = hopByHopID out + 1"
    by (simp_all add: relayPeerIdentity_def NextHopByHopID_def Let_def)
  have "(case peer_of (set_object ref (FullPeer (snd (NextHopByHopID out))) w) i of Some y \<Rightarrow> diameterID y | None \<Rightarrow> '''') = diameterID orig"
    using assms(2,3) by (auto simp: peer_of_def set_object_def NextHopByHopID_def Let_def)
  then show "txns r' = (txns r)(\<lparr>OutboundPeer = relayPeerIdentity out, HBHID = hopByHopID out + 1\<rparr> \<mapsto>
     \<lparr>OriginalPeer = diameterID orig, OriginalHBHID = mHopByHopID m, txnOutboundPeer = hop, CreatedAt = rnow e\<rparr>)"
    using assms(1,2) by (auto simp: try_hop_def Let_def split_beta id remember_def split: sum.splits)
  show "localIdentity r' = localIdentity r"
    using try_hop_frame(1) [OF assms(1)] by (simp add: tables_def)
qed

lemma drop_txns_lookup:
  assumes "distinct (map fst (prevHopByHop r))"
  shows "txns (snd (drop_txns P r)) k = (case txns r k of Some t \<Rightarrow> if P t then None else Some t | None \<Rightarrow> None)"
proof -
  have "map_of (filter (\<lambda>(k, t). \<not> P t) xs) k = (case map_of xs k of Some t \<Rightarrow> if P t then None else Some t | None \<Rightarrow> None)"
    if "distinct (map fst xs)" for xs :: "(relayKey \<times> relayTxn) list"
    using that
  proof (induction xs)
    case (Cons x xs)
    have "map_of xs (fst x) = None" using Cons.prems by (simp add: map_of_eq_None_iff)
    then show ?case using Cons by (cases x) (auto split: option.splits)
  qed simp
  with assms show ?thesis by (simp add: drop_txns_def txns_def)
qed

section \<open>Support for the properties\<close>

lemma is_local_cong:
  "relayEnabled r' = relayEnabled r \<Longrightarrow> localIdentity r' = localIdentity r \<Longrightarrow> localRealm r' = localRealm r \<Longrightarrow>
   is_local r' m = is_local r m"
  by (simp add: is_local_def cong: option.case_cong if_cong)

lemma GetDiameterIdentity_NewIdentity: "GetDiameterIdentity (NewDiameterIdentityAVP c f i) = i"
  by simp

text \<open>A relayed message carries this node in its Route-Record.\<close>

lemma relay_message_has_route_record:
  assumes "localIdentity r \<noteq> ''''"
  shows "containsRouteRecord ((relay_message e r m)\<lparr>mHopByHopID := h\<rparr>) (localIdentity r)"
proof -
  let ?rr = "NewDiameterIdentityAVP AVPCodeRouteRecord AVPFlagMandatory (localIdentity r)"
  have "avp_matches AVPCodeRouteRecord 0 ?rr"
    by (simp add: avp_matches_def NewDiameterIdentityAVP_def NewUTF8StringAVP_def NewAVP_def)
  moreover have "?rr \<in> set (AVPs (relay_message e r m))"
    by (simp add: relay_message_def addProxyInfo_def AddAVP_def Let_def)
  ultimately have "?rr \<in> set (FindAllAVPs ((relay_message e r m)\<lparr>mHopByHopID := h\<rparr>) AVPCodeRouteRecord 0)"
    by (simp add: FindAllAVPs_def)
  then show ?thesis using assms by (auto simp: containsRouteRecord_def intro!: bexI [of _ ?rr])
qed

lemma relay_message_fields [simp]:
  "Flags (relay_message e r m) = Flags m" "mHopByHopID (relay_message e r m) = mHopByHopID m"
  "IsRequest (relay_message e r m) = IsRequest m"
  by (simp_all add: relay_message_def addProxyInfo_def AddAVP_def Let_def IsRequest_def)

lemma remove_first_none: "\<forall>x \<in> set xs. \<not> P x \<Longrightarrow> remove_first P xs = (xs, False)"
  by (induction xs) auto

lemma forward_error: "\<not> is_local r m \<Longrightarrow> relayEnabled r \<Longrightarrow> \<not> (IsRequest m \<and> containsRouteRecord m (localIdentity r)) \<Longrightarrow>
  forward fuel e r w p m = relay_loop fuel e r w p (relay_message e r m) []"
  by (auto simp: forward_def)

section \<open>Properties\<close>

lemma selected_is_best:
  assumes "valid_rand e" and "RouteOutWithExclusion e r w m exclude = (m', Inr x, w')"
  shows "\<exists>m1 cs. apply_out_handlers (outHandlers r) m (buildCandidates r w m) = (m1, Inr cs) \<and> best cs exclude x \<and>
    m' = fold (\<lambda>h m. pHandler h m x) (postRouteHandlers r) m1 \<and>
    postRouted w' = postRouted w @ map (\<lambda>h. (pName h, x)) (postRouteHandlers r)"
proof -
  obtain m1 cs where cs: "apply_out_handlers (outHandlers r) m (buildCandidates r w m) = (m1, Inr cs)"
    and m': "m' = fold (\<lambda>h m. pHandler h m x) (postRouteHandlers r) m1"
    and x: "pick_tier e (by_score cs) exclude (randCalls w) = Some (x, randCalls w')"
    and w: "postRouted w' = postRouted w @ map (\<lambda>h. (pName h, x)) (postRouteHandlers r)"
    using assms(2) by (auto simp: RouteOutWithExclusion_def firePostRouteHandlers_def Let_def
        split: if_splits sum.splits option.splits prod.splits)
  have "best (by_score cs) exclude x" using pick_tier_best [OF by_score_sorted assms(1) x] .
  then have "best cs exclude x" by (simp add: best_def)
  with cs w m' show ?thesis by blast
qed

text \<open>
  C12: the next hop is a best candidate. Whatever the outgoing handlers leave of the candidates, the peer that
  \<open>RouteOutWithExclusion\<close> selects is one of them, is not excluded, and no candidate that is not
  excluded has a higher score; every post-route handler is told of exactly this peer and given the message in turn.
\<close>
theorem next_hop_is_best:
  assumes "valid_rand e" and "RouteOutWithExclusion e r w m exclude = (m', Inr x, w')"
  shows "\<exists>m1 cs. apply_out_handlers (outHandlers r) m (buildCandidates r w m) = (m1, Inr cs) \<and> best cs exclude x \<and>
    m' = fold (\<lambda>h m. pHandler h m x) (postRouteHandlers r) m1 \<and>
    postRouted w' = postRouted w @ map (\<lambda>h. (pName h, x)) (postRouteHandlers r)"
  by (rule selected_is_best [OF assms])

definition sample_renv :: renv where
  "sample_renv = \<lparr>rnow = 1000, intn = (\<lambda>_ _. 0)\<rparr>"

definition sample_router :: router where
  "sample_router = RegisterPostRouteHandler (SetRelay (SetLocalIdentity
     (AddAppRoute (AddRealmRoute NewRouter ''home'' [''hss1'', ''hss2'']) 4 [''ocs'']) ''dra.example'' ''example'') True) ''bind'' (\<lambda>m _. m)"

definition sample_request :: message where
  "sample_request = AddAVP ((NewRequest 272 4)\<lparr>mHopByHopID := 77\<rparr>)
     (NewDiameterIdentityAVP AVPCodeDestinationRealm AVPFlagMandatory ''home'')"

lemma sample_realm: "GetDestinationHost sample_request = None" "GetDestinationRealm sample_request = Some ''home''"
  by (simp_all add: GetDestinationHost_def GetDestinationRealm_def identity_of_def sample_request_def FindAVP_def AddAVP_def
      NewRequest_def NewMessage_def avp_matches_def NewDiameterIdentityAVP_def NewUTF8StringAVP_def NewAVP_def
      GetDiameterIdentity_def)

lemma sample_router_fields:
  "realmRoutes sample_router = [''home'' \<mapsto> [''hss1'', ''hss2'']]" "appRoutes sample_router = [4 \<mapsto> [''ocs'']]"
  "peerEnumerate sample_router = None" "outHandlers sample_router = []" "inHandlers sample_router = []"
  "relayEnabled sample_router" "localIdentity sample_router = ''dra.example''" "prevHopByHop sample_router = []"
  "\<forall>h \<in> set (postRouteHandlers sample_router). \<forall>m x. pHandler h m x = m"
  by (simp_all add: sample_router_def RegisterPostRouteHandler_def RegisterPostRouteHandlerWithOwner_def SetRelay_def
      SetLocalIdentity_def AddAppRoute_def AddRealmRoute_def NewRouter_def entries_def)

lemma sample_request_fields:
  "mApplicationID sample_request = 4" "mHopByHopID sample_request = 77" "IsRequest sample_request"
  by (simp_all add: sample_request_def AddAVP_def NewRequest_def NewMessage_def IsRequest_def)

lemma sample_candidates:
  "buildCandidates sample_router w sample_request =
    [\<lparr>PeerIdentity = ''hss1'', Score = 100, Reason = ''realm route for home''\<rparr>,
     \<lparr>PeerIdentity = ''hss2'', Score = 100, Reason = ''realm route for home''\<rparr>,
     \<lparr>PeerIdentity = ''ocs'', Score = 200, Reason = ''application route for 4''\<rparr>]"
  by (simp add: buildCandidates_def sample_realm target_realm_def realm_candidates_def sample_router_fields
      sample_request_fields entries_def Let_def decimal_def char_of_def bit_0)

lemma sample_valid_rand: "valid_rand sample_renv"
  by (simp add: valid_rand_def sample_renv_def)

lemma sample_pure: "outHandlers sample_router = []" "pure_handlers sample_router"
  by (simp_all add: pure_handlers_def sample_router_fields)

lemma sample_fires: "firePostRouteHandlers sample_router x sample_request w = (sample_request, snd (firePostRouteHandlers sample_router x sample_request w))"
  by (simp add: prod_eq_iff firePostRouteHandlers_pure sample_pure)

definition sample_world :: world where
  "sample_world = \<lparr>objects = (\<lambda>p. if p = 0 then FullPeer sample_open else if p = 1 then Sender [] True else Opaque),
     randCalls = 0, postRouted = [], dispatched = []\<rparr>"

theorem next_hop_is_best_witness:
  "\<exists>m' w'. RouteOutWithExclusion sample_renv sample_router sample_world sample_request [''ocs''] = (m', Inr ''hss1'', w') \<and>
    best (buildCandidates sample_router sample_world sample_request) [''ocs''] ''hss1''"
proof -
  have sel: "RouteOutWithExclusion sample_renv sample_router sample_world sample_request [''ocs''] =
      (sample_request, Inr ''hss1'', snd (firePostRouteHandlers sample_router ''hss1'' sample_request (sample_world\<lparr>randCalls := 1\<rparr>)))"
    using sample_fires by (simp add: RouteOutWithExclusion_def sample_candidates sample_pure by_score_def tier_choices_def
      sample_renv_def sample_world_def split_beta prod_eq_iff)
  from next_hop_is_best [OF sample_valid_rand sel] show ?thesis using sel by (auto simp: sample_pure)
qed

text \<open>
  C13: the relay loop returns. When the outgoing and the post-route handlers leave the message alone, the loop ends after at most
  one round for each different candidate plus one, whatever the peers do: every failed round excludes
  one more candidate.
\<close>
theorem relay_loop_returns:
  assumes "pure_handlers r" and "valid_rand e"
    and "card (PeerIdentity ` set (usable r w m)) < fuel"
  shows "relay_loop fuel e r w p m [] \<noteq> None"
  using relay_loop_fuel [OF assms(1,2), of w m "[]" fuel p] assms(3) by simp

theorem relay_loop_returns_witness:
  "relay_loop 4 sample_renv (SetPeerLookup sample_router (\<lambda>_. None)) sample_world (Some 0) sample_request [] \<noteq> None"
proof (rule relay_loop_returns)
  have t: "buildCandidates (SetPeerLookup sample_router (\<lambda>_. None)) sample_world sample_request =
      buildCandidates sample_router sample_world sample_request"
    by (simp add: SetPeerLookup_def buildCandidates_def sample_realm target_realm_def realm_candidates_def
        sample_router_fields sample_request_fields Let_def)
  show "pure_handlers (SetPeerLookup sample_router (\<lambda>_. None))"
    using sample_pure by (simp add: pure_handlers_def SetPeerLookup_def)
  let ?u = "usable (SetPeerLookup sample_router (\<lambda>_. None)) sample_world sample_request"
  have "?u = buildCandidates sample_router sample_world sample_request"
    unfolding usable_def t by (simp add: SetPeerLookup_def sample_pure)
  then have "length ?u = 3" by (simp add: sample_candidates)
  then show "card (PeerIdentity ` set ?u) < 4"
    using card_length [of "map PeerIdentity ?u"] by simp
qed (rule sample_valid_rand)

text \<open>
  C14: an answer goes back where its request came from. After a request of a peer was relayed to another peer, an answer that arrives
  from that peer and still has the Hop-by-Hop identifier it was given when the in-handlers have passed it on is sent to the originating
  peer with the request's own Hop-by-Hop identifier, and the transaction is gone. Other requests, answers and clean-ups may come in
  between: the router need only be a relay with the same identity that still knows the origin by its identity and whose entry for
  the transaction has neither been replaced nor expired.
\<close>
theorem relayed_answer_returns:
  assumes "try_hop e r w (Some i) m hop ref = (Inr (), r1, w1)"
    and "objects w ref = FullPeer out" and "objects w i = FullPeer orig"
    and "k = \<lparr>OutboundPeer = relayPeerIdentity out, HBHID = hopByHopID out + 1\<rparr>" and "txns r2 k = txns r1 k"
    and "relayEnabled r2" and "localIdentity r2 = localIdentity r" and "LookupPeer r2 (diameterID orig) = Some i"
    and "objects w2 ref = FullPeer out2" and "relayPeerIdentity out2 = relayPeerIdentity out"
    and "objects w2 i = FullPeer orig2"
    and "\<not> IsRequest a0" and "apply_in_handlers (inHandlers r2) (Some ref) a0 [] = (a, Inr cs)"
    and "\<not> IsRequest a" and "mHopByHopID a = hopByHopID out + 1"
  shows "\<exists>r3. RouteIn fuel e2 r2 w2 (Some ref) a0 =
      Some (fst (object_send i ((removeLocalProxyInfo a (localIdentity r))\<lparr>mHopByHopID := mHopByHopID m\<rparr>) w2), r3,
            snd (object_send i ((removeLocalProxyInfo a (localIdentity r))\<lparr>mHopByHopID := mHopByHopID m\<rparr>) w2)) \<and>
    txns r3 = (txns r2)(k := None)"
proof -
  have txn: "txns r2 k = Some \<lparr>OriginalPeer = diameterID orig, OriginalHBHID = mHopByHopID m, txnOutboundPeer = hop, CreatedAt = rnow e\<rparr>"
    using try_hop_stores(1) [OF assms(1-3)] assms(4,5) by simp
  then have l: "load_and_delete k r2 = (Some \<lparr>OriginalPeer = diameterID orig, OriginalHBHID = mHopByHopID m,
      txnOutboundPeer = hop, CreatedAt = rnow e\<rparr>, delete_txn k r2)"
    by (simp add: load_and_delete_def txns_def [symmetric])
  have lk: "LookupPeer (delete_txn k r2) (diameterID orig) = Some i" "localIdentity (delete_txn k r2) = localIdentity r"
    using assms(7,8) by (simp_all add: LookupPeer_def delete_txn_def)
  have p: "peer_of w2 ref = Some out2" using assms(9) by (simp add: peer_of_def)
  have k: "\<lparr>OutboundPeer = relayPeerIdentity out2, HBHID = mHopByHopID a\<rparr> = k" using assms(4,10,15) by simp
  show ?thesis
    using assms(6,11-14)
    by (auto simp: RouteIn_def Let_def relay_answer_def p k l lk split: prod.split)
qed

theorem relayed_answer_returns_witness:
  "let w = sample_world\<lparr>objects := (\<lambda>p. FullPeer (sample_open\<lparr>diameterID := (if p = 0 then ''client'' else ''hss1'')\<rparr>))\<rparr>;
       r = SetPeerLookup sample_router (\<lambda>i. if i = ''client'' then Some 0 else Some 1);
       (res, r1, w1) = try_hop sample_renv r w (Some 0) sample_request ''hss1'' 1;
       a = (NewAnswer sample_request)\<lparr>mHopByHopID := 1\<rparr> in
   res = Inr () \<and> (\<exists>r2. RouteIn 0 sample_renv r1 w (Some 1) a =
     Some (fst (object_send 0 ((removeLocalProxyInfo a ''dra.example'')\<lparr>mHopByHopID := 77\<rparr>) w), r2,
           snd (object_send 0 ((removeLocalProxyInfo a ''dra.example'')\<lparr>mHopByHopID := 77\<rparr>) w)))"
proof -
  define w where "w = sample_world\<lparr>objects := (\<lambda>p. FullPeer (sample_open\<lparr>diameterID := (if p = 0 then ''client'' else ''hss1'')\<rparr>))\<rparr>"
  define r where "r = SetPeerLookup sample_router (\<lambda>i. if i = ''client'' then Some (0::nat) else Some 1)"
  define a where "a = (NewAnswer sample_request)\<lparr>mHopByHopID := 1\<rparr>"
  have o: "objects w 1 = FullPeer (sample_open\<lparr>diameterID := ''hss1''\<rparr>)" "objects w 0 = FullPeer (sample_open\<lparr>diameterID := ''client''\<rparr>)"
    by (simp_all add: w_def)
  note rq = sample_request_fields(2)
  have ok: "fst (object_send 1 m (set_object 1 (FullPeer (snd (NextHopByHopID (sample_open\<lparr>diameterID := ''hss1''\<rparr>)))) w)) = Inr ()" for m
    by (simp add: object_send_def set_object_def NextHopByHopID_def Let_def Send_def IsOpen_def sample_open_def New_def
        newHighPerfWriter_def highPerfWriter_Send_def trackPending_def)
  obtain r1 w1 where t: "try_hop sample_renv r w (Some 0) sample_request ''hss1'' 1 = (Inr (), r1, w1)"
    using ok o(1) by (auto simp: try_hop_def Let_def split_beta split: sum.splits)
  have cfg: "relayEnabled r" "inHandlers r = []" "LookupPeer r ''client'' = Some 0" "localIdentity r = ''dra.example''"
    by (simp_all add: r_def SetPeerLookup_def LookupPeer_def sample_router_fields)
  have a: "\<not> IsRequest a" "mHopByHopID a = 1"
    using NewAnswer_not_request [of sample_request] by (simp_all add: a_def IsRequest_def)
  have cfg1: "relayEnabled r1" "localIdentity r1 = localIdentity r" "LookupPeer r1 (diameterID (sample_open\<lparr>diameterID := ''client''\<rparr>)) = Some 0" "inHandlers r1 = []"
    using try_hop_frame(1) [OF t] cfg by (simp_all add: tables_def LookupPeer_def)
  have "\<exists>r2. RouteIn 0 sample_renv r1 w (Some 1) a =
     Some (fst (object_send 0 ((removeLocalProxyInfo a ''dra.example'')\<lparr>mHopByHopID := 77\<rparr>) w), r2,
           snd (object_send 0 ((removeLocalProxyInfo a ''dra.example'')\<lparr>mHopByHopID := 77\<rparr>) w))"
    using relayed_answer_returns [OF t o refl refl cfg1(1,2,3) o(1) refl o(2) a(1) _ a(1), of "[]" 0 sample_renv] cfg1(4) cfg(4) rq a(2)
    by (auto simp: sample_open_def New_def)
  with t show ?thesis by (simp add: Let_def flip: w_def r_def a_def)
qed

text \<open>
  C15: a relaying loop is cut where Route-Records are kept. Let a request come back, with whatever other changes the post-route handlers
  and the nodes on the way made to it, that still is a request and still has the Route-Record AVPs it was relayed with when the
  in-handlers have passed it on: it is not relayed again. \<open>RouteIn\<close> counts the loop and answers DIAMETER_LOOP_DETECTED, unless the
  request is addressed to this very node. (Hiding the Route-Records from a partner takes this protection away.)
\<close>
theorem relayed_request_not_relayed_twice:
  assumes "localIdentity r \<noteq> ''''" and "relayEnabled r'" and "localIdentity r' = localIdentity r"
    and "IsRequest m0" and "apply_in_handlers (inHandlers r') p m0 [] = (m', Inr cs)" and "IsRequest m'"
    and "set (FindAllAVPs (relay_message e r m) AVPCodeRouteRecord 0) \<subseteq> set (FindAllAVPs m' AVPCodeRouteRecord 0)"
    and "\<not> is_local r' m'"
  shows "\<exists>r''. RouteIn fuel e' r' w p m0 = Some (errorAnswer r'' w p m' ResultLoopDetected) \<and>
    LoopDetections (rstats r'') = LoopDetections (rstats r') + 1 \<and> prevHopByHop r'' = prevHopByHop r'"
proof -
  have "containsRouteRecord (relay_message e r m) (localIdentity r)"
    using relay_message_has_route_record [OF assms(1)] by (simp add: containsRouteRecord_def FindAllAVPs_def)
  then have c: "containsRouteRecord m' (localIdentity r')"
    using assms(3,7) by (auto simp: containsRouteRecord_def)
  have l: "\<not> is_local (bump f r') m'" for f
    using assms(8) is_local_cong [of "bump f r'" r' m'] by (simp add: bump_def)
  show ?thesis
  proof (intro exI conjI)
    let ?r = "bump (LoopDetections_update (\<lambda>n. n + 1)) (bump (RequestsRouted_update (\<lambda>n. n + 1)) r')"
    have "relayEnabled (bump f r') = relayEnabled r'" "localIdentity (bump f r') = localIdentity r'" "inHandlers (bump f r') = inHandlers r'" for f
      by (simp_all add: bump_def)
    then show "RouteIn fuel e' r' w p m0 = Some (errorAnswer ?r w p m' ResultLoopDetected)"
      using assms(2,4-6) c l [of "RequestsRouted_update (\<lambda>n. n + 1)"] by (simp add: RouteIn_def forward_def Let_def)
  qed (simp_all add: bump_def)
qed

theorem relayed_request_not_relayed_twice_witness:
  "\<exists>r'. RouteIn 0 sample_renv sample_router sample_world (Some 0) ((relay_message sample_renv sample_router sample_request)\<lparr>mHopByHopID := 3\<rparr>) =
      Some (errorAnswer r' sample_world (Some 0) ((relay_message sample_renv sample_router sample_request)\<lparr>mHopByHopID := 3\<rparr>) ResultLoopDetected) \<and>
    LoopDetections (rstats r') = LoopDetections (rstats sample_router) + 1 \<and> prevHopByHop r' = prevHopByHop sample_router"
proof (rule relayed_request_not_relayed_twice [where r = sample_router and e = sample_renv and m = sample_request and cs = "[]"])
  have "FindAVP ((relay_message sample_renv sample_router sample_request)\<lparr>mHopByHopID := 3\<rparr>) AVPCodeDestinationHost 0 = None"
    by (simp add: relay_message_def addProxyInfo_def Let_def FindAVP_def AddAVP_def sample_request_def NewRequest_def NewMessage_def
        avp_matches_def NewDiameterIdentityAVP_def NewUTF8StringAVP_def NewAVP_def NewGroupedAVP_def IsProxiable_def)
  then show "\<not> is_local sample_router ((relay_message sample_renv sample_router sample_request)\<lparr>mHopByHopID := 3\<rparr>)"
    by (simp add: is_local_def sample_router_fields GetDestinationHost_def identity_of_def)
  show "IsRequest ((relay_message sample_renv sample_router sample_request)\<lparr>mHopByHopID := 3\<rparr>)"
    "IsRequest ((relay_message sample_renv sample_router sample_request)\<lparr>mHopByHopID := 3\<rparr>)"
    using sample_request_fields(3) by (simp_all add: IsRequest_def)
qed (simp_all add: sample_router_fields FindAllAVPs_def)

text \<open>
  A failed relay leaves nothing behind. When the relay loop gives up and answers with an error, no relay
  transaction exists that did not exist before: each refused attempt takes its own back.
\<close>
theorem failed_relay_leaves_no_transaction:
  assumes "relay_loop fuel e r w p m exclude = Some (Inl err, r', w')"
  shows "\<forall>k. txns r' k = None \<or> txns r' k = txns r k"
  using relay_loop_error [OF assms] by (simp add: no_new_txns_def)

theorem failed_relay_leaves_no_transaction_witness:
  "\<forall>k. txns (fst (snd (the (relay_loop 1 sample_renv sample_router sample_world None sample_request [])))) k = None"
proof -
  have "RouteOutWithExclusion sample_renv sample_router sample_world sample_request [] =
      (sample_request, Inr ''ocs'', snd (firePostRouteHandlers sample_router ''ocs'' sample_request (sample_world\<lparr>randCalls := 0\<rparr>)))"
    using sample_fires by (simp add: RouteOutWithExclusion_def sample_candidates sample_pure by_score_def tier_choices_def
      sample_renv_def sample_world_def split_beta prod_eq_iff)
  moreover have "peerLookup sample_router = None"
    by (simp add: sample_router_def RegisterPostRouteHandler_def RegisterPostRouteHandlerWithOwner_def SetRelay_def
      SetLocalIdentity_def AddAppRoute_def AddRealmRoute_def NewRouter_def)
  ultimately obtain err r' w' where l: "relay_loop 1 sample_renv sample_router sample_world None sample_request [] = Some (Inl err, r', w')"
    by (simp add: errorAnswer_def Let_def)
  have "\<forall>k. txns r' k = None"
    using failed_relay_leaves_no_transaction [OF l] by (simp add: txns_def sample_router_fields)
  then show ?thesis
    by (simp only: l option.sel fst_conv snd_conv simp_thms)
qed

text \<open>
  Concurrent relays to different peers do not collide. When two requests are relayed to peers with different
  identities, even if both peers assign the same Hop-by-Hop identifier, the transaction of the first
  is still there after the second, with its own origin and identifier.
\<close>
theorem relays_to_different_peers_do_not_collide:
  assumes "try_hop e r w (Some i) m hop ref = (Inr (), r1, w1)"
    and "objects w ref = FullPeer out" and "objects w i = FullPeer orig"
    and "try_hop e' r1 w2 (Some j) m' hop' ref' = (Inr (), r2, w3)"
    and "objects w2 ref' = FullPeer out'" and "objects w2 j = FullPeer orig'"
    and "relayPeerIdentity out' \<noteq> relayPeerIdentity out"
  shows "RelayOrigin r2 (relayPeerIdentity out) (hopByHopID out + 1) = Some (diameterID orig) \<and>
    RelayOrigin r2 (relayPeerIdentity out') (hopByHopID out' + 1) = Some (diameterID orig')"
  using try_hop_stores(1) [OF assms(1-3)] try_hop_stores(1) [OF assms(4-6)] assms(7)
  by (simp add: RelayOrigin_def txns_def [symmetric])

theorem relays_to_different_peers_do_not_collide_witness:
  "let w = sample_world\<lparr>objects := (\<lambda>p. FullPeer (sample_open\<lparr>diameterID := (if p = 0 then ''client'' else if p = 1 then ''hss1'' else ''hss2'')\<rparr>))\<rparr>;
       (res, r1, w1) = try_hop sample_renv sample_router w (Some 0) sample_request ''hss1'' 1;
       (res2, r2, w2) = try_hop sample_renv r1 w (Some 0) sample_request ''hss2'' 2 in
   RelayOrigin r2 ''hss1'' 1 = Some ''client'' \<and> RelayOrigin r2 ''hss2'' 1 = Some ''client''"
proof -
  define w where "w = sample_world\<lparr>objects := (\<lambda>p. FullPeer (sample_open\<lparr>diameterID := (if p = 0 then ''client'' else if p = 1 then ''hss1'' else ''hss2'')\<rparr>))\<rparr>"
  have o: "objects w 1 = FullPeer (sample_open\<lparr>diameterID := ''hss1''\<rparr>)" "objects w 0 = FullPeer (sample_open\<lparr>diameterID := ''client''\<rparr>)"
    "objects w 2 = FullPeer (sample_open\<lparr>diameterID := ''hss2''\<rparr>)"
    by (simp_all add: w_def)
  have "\<exists>r1 w1. try_hop sample_renv r w (Some 0) sample_request hop ref = (Inr (), r1, w1)" if ref: "ref \<in> {1, 2}" for r hop ref
  proof -
    obtain x where x: "objects w ref = FullPeer (sample_open\<lparr>diameterID := x\<rparr>)" using ref o by blast
    have "fst (object_send ref m (set_object ref (FullPeer (snd (NextHopByHopID (sample_open\<lparr>diameterID := x\<rparr>)))) w)) = Inr ()" for m
      by (simp add: object_send_def set_object_def NextHopByHopID_def Let_def Send_def IsOpen_def sample_open_def New_def
          newHighPerfWriter_def highPerfWriter_Send_def trackPending_def)
    then show ?thesis using x by (auto simp: try_hop_def Let_def split_beta split: sum.splits)
  qed
  then obtain r1 w1 r2 w2 where t: "try_hop sample_renv sample_router w (Some 0) sample_request ''hss1'' 1 = (Inr (), r1, w1)"
    "try_hop sample_renv r1 w (Some 0) sample_request ''hss2'' 2 = (Inr (), r2, w2)"
    by (metis insertCI)
  from relays_to_different_peers_do_not_collide [OF t(1) o(1,2) t(2) o(3,2)]
  have "RelayOrigin r2 ''hss1'' 1 = Some ''client'' \<and> RelayOrigin r2 ''hss2'' 1 = Some ''client''"
    by (simp add: relayPeerIdentity_def sample_open_def New_def)
  with t show ?thesis by (simp add: Let_def flip: w_def)
qed

text \<open>
  A disconnected peer's transactions go, the others stay. \<open>FailoverPeer\<close> removes exactly the transactions that the
  peer originated or that were routed to it under this name, and returns how many there were.
\<close>
theorem failover_removes_transactions_of_peer:
  assumes "distinct (map fst (prevHopByHop r))"
  shows "txns (snd (FailoverPeer r x)) k =
      (case txns r k of Some t \<Rightarrow> if OriginalPeer t = x \<or> txnOutboundPeer t = x then None else Some t | None \<Rightarrow> None) \<and>
    RelayTxnCount (snd (FailoverPeer r x)) + fst (FailoverPeer r x) = RelayTxnCount r"
proof -
  have len: "length (filter (\<lambda>y. \<not> P y) xs) + length (filter P xs) = length xs" for P and xs :: "(relayKey \<times> relayTxn) list"
    by (induction xs) auto
  have "snd (FailoverPeer r x) = snd (drop_txns (\<lambda>t. OriginalPeer t = x \<or> txnOutboundPeer t = x) r)"
    by (simp add: FailoverPeer_def)
  moreover have "RelayTxnCount (snd (FailoverPeer r x)) + fst (FailoverPeer r x) = RelayTxnCount r"
    using len [of "\<lambda>y. OriginalPeer (snd y) = x \<or> txnOutboundPeer (snd y) = x" "prevHopByHop r"]
    by (simp add: FailoverPeer_def RelayTxnCount_def drop_txns_def case_prod_beta')
  ultimately show ?thesis
    using drop_txns_lookup [OF assms] by simp
qed

theorem failover_removes_transactions_of_peer_witness:
  "let t = \<lparr>OriginalPeer = ''client'', OriginalHBHID = 5, txnOutboundPeer = ''hss1'', CreatedAt = 0\<rparr>;
       k = \<lparr>OutboundPeer = ''hss1'', HBHID = 1\<rparr>; r = store_txn k t NewRouter in
   txns (snd (FailoverPeer r ''hss1'')) k = None \<and> RelayTxnCount (snd (FailoverPeer r ''hss1'')) + fst (FailoverPeer r ''hss1'') = 1"
proof -
  let ?t = "\<lparr>OriginalPeer = ''client'', OriginalHBHID = 5, txnOutboundPeer = ''hss1'', CreatedAt = 0\<rparr>"
  let ?k = "\<lparr>OutboundPeer = ''hss1'', HBHID = 1\<rparr>"
  have d: "distinct (map fst (prevHopByHop (store_txn ?k ?t NewRouter)))"
    by (simp add: store_txn_def NewRouter_def)
  show ?thesis
    using failover_removes_transactions_of_peer [OF d, of "''hss1''" ?k]
    by (simp add: Let_def) (simp add: RelayTxnCount_def store_txn_def NewRouter_def)
qed

text \<open>
  An answer that matches nothing is answered. On a relay, an answer that belongs to no transaction and
  for which there is no route is not dropped: \<open>RouteIn\<close> builds an error answer to the answer, and sends it
  to the peer the answer came from.
\<close>
theorem unmatched_answer_is_answered:
  assumes "relayEnabled r" and "inHandlers r = []" and "\<not> IsRequest a" and "\<not> is_local r a"
    and "objects w x = FullPeer y" and "txns r \<lparr>OutboundPeer = relayPeerIdentity y, HBHID = mHopByHopID a\<rparr> = None"
    and "buildCandidates r w (relay_message e r a) = []"
  shows "\<exists>r' res. RouteIn (Suc n) e r w (Some x) a =
      Some (Inl (RoutingError ResultUnableToDeliver (error_message r (relay_message e r a) ResultUnableToDeliver) (res = Inr ())), r',
        snd (object_send x (error_message r (relay_message e r a) ResultUnableToDeliver) w)) \<and>
    res = fst (object_send x (error_message r (relay_message e r a) ResultUnableToDeliver) w)"
proof -
  let ?k = "\<lparr>OutboundPeer = relayPeerIdentity y, HBHID = mHopByHopID a\<rparr>"
  have ra: "relay_answer r w (Some x) a = (Inl a, delete_txn ?k r, w)"
    using assms(5,6) by (simp add: relay_answer_def peer_of_def load_and_delete_def txns_def)
  have d: "relayEnabled (delete_txn ?k r)" "\<not> is_local (delete_txn ?k r) a" "relay_message e (delete_txn ?k r) a = relay_message e r a"
    "buildCandidates (delete_txn ?k r) w (relay_message e r a) = []"
  proof -
    show "relay_message e (delete_txn ?k r) a = relay_message e r a"
      by (simp add: delete_txn_def relay_message_def Let_def)
    show "buildCandidates (delete_txn ?k r) w (relay_message e r a) = []"
      using assms(7) buildCandidates_cong [OF same_ids_refl, of "delete_txn ?k r" r w] by (simp add: delete_txn_def tables_def)
    show "\<not> is_local (delete_txn ?k r) a"
      using assms(4) is_local_cong [of "delete_txn ?k r" r a] by (simp add: delete_txn_def)
    show "relayEnabled (delete_txn ?k r)"
      using assms(1) by (simp add: delete_txn_def)
  qed
  have em: "error_message (bump f (delete_txn ?k r)) m c = error_message r m c" for f m c
    by (simp add: error_message_def bump_def delete_txn_def Let_def)
  have "forward (Suc n) e (delete_txn ?k r) w (Some x) a =
      Some (errorAnswer (delete_txn ?k r) w (Some x) (relay_message e r a) ResultUnableToDeliver)"
    using d assms(3) by (simp add: forward_def RouteOutWithExclusion_def Let_def)
  then show ?thesis
    using assms(1-3) ra by (auto simp: RouteIn_def errorAnswer_def Let_def em split_beta)
qed

theorem unmatched_answer_is_answered_witness:
  "\<exists>r' w' code sent. RouteIn 1 sample_renv sample_router sample_world (Some 0) (NewAnswer (NewRequest 272 9)) =
     Some (Inl (RoutingError code (error_message sample_router (relay_message sample_renv sample_router (NewAnswer (NewRequest 272 9))) code) sent), r', w')"
proof -
  let ?a = "NewAnswer (NewRequest 272 9)"
  have f: "Flags ?a AND CmdFlagRequest = 0"
    using NewAnswer_not_request [of "NewRequest 272 9"] by (simp add: IsRequest_def)
  have h: "GetDestinationHost (relay_message e sample_router ?a) = None" "GetDestinationRealm (relay_message e sample_router ?a) = None"
    "GetDestinationHost ?a = None" "mApplicationID (relay_message e sample_router ?a) = 9" for e
    using f by (simp_all add: relay_message_def IsRequest_def Let_def GetDestinationHost_def GetDestinationRealm_def identity_of_def
        FindAVP_def AddAVP_def NewAnswer_def NewRequest_def NewMessage_def avp_matches_def NewDiameterIdentityAVP_def
        NewUTF8StringAVP_def NewAVP_def)
  have "defaultRealm sample_router = ''''"
    by (simp add: sample_router_def RegisterPostRouteHandler_def RegisterPostRouteHandlerWithOwner_def SetRelay_def
        SetLocalIdentity_def AddAppRoute_def AddRealmRoute_def NewRouter_def)
  then have c: "buildCandidates sample_router sample_world (relay_message sample_renv sample_router ?a) = []"
    using h by (simp add: buildCandidates_def target_realm_def realm_candidates_def sample_router_fields entries_def)
  have o: "objects sample_world 0 = FullPeer sample_open" by (simp add: sample_world_def)
  have "\<not> is_local sample_router ?a" by (simp add: is_local_def sample_router_fields h)
  from unmatched_answer_is_answered [OF sample_router_fields(6,5) NewAnswer_not_request this o _ c, of 0]
  show ?thesis by (auto simp: txns_def sample_router_fields)
qed

text \<open>
  The local Proxy-Info is never found in a message from the wire. \<open>removeLocalProxyInfo\<close> looks for the
  Proxy-Host among the decoded children of a Proxy-Info, but \<open>DecodeMessage\<close> does not decode the data of
  grouped AVPs, so it removes nothing from any message that was read from a connection.
\<close>
theorem local_proxy_info_not_removed:
  assumes "DecodeMessage data = Inr m"
  shows "removeLocalProxyInfo m i = m"
proof -
  have "\<forall>a \<in> set (AVPs m). aChildren a = []"
    using DecodeMessage_inverse(1) [OF assms] by (auto simp: wire_message_def wire_avp_def)
  then have "\<forall>a \<in> set (rev (AVPs m)). \<not> is_local_proxy_info i a"
    by (simp add: is_local_proxy_info_def FindChild_def)
  then show ?thesis
    by (simp add: removeLocalProxyInfo_def remove_first_none)
qed

theorem local_proxy_info_not_removed_witness:
  "let m = addProxyInfo sample_renv (NewAnswer (NewRequest 272 4)) ''dra.example'' in
   AVPs (removeLocalProxyInfo m ''dra.example'') = [] \<and>
   (\<exists>m'. DecodeMessage (message_wire m) = Inr m' \<and> removeLocalProxyInfo m' ''dra.example'' = m')"
proof -
  let ?m = "addProxyInfo sample_renv (NewAnswer (NewRequest 272 4)) ''dra.example''"
  have one: "AVPs (removeLocalProxyInfo ?m ''dra.example'') = []"
    by (simp add: removeLocalProxyInfo_def addProxyInfo_def AddAVP_def NewAnswer_def NewRequest_def NewMessage_def is_local_proxy_info_def
        FindChild_def NewGroupedAVP_def avp_matches_def NewDiameterIdentityAVP_def NewUTF8StringAVP_def NewAVP_def
        GetDiameterIdentity_def)
  have "wire_message (message_on_wire ?m)"
    by (rule wire_message_on_wire)
      (simp_all add: addProxyInfo_def AddAVP_def NewAnswer_def NewRequest_def NewMessage_def Message_EncodedLen_def
        NewGroupedAVP_def NewOctetStringAVP_def NewDiameterIdentityAVP_def NewUTF8StringAVP_def NewAVP_def padding_of_def
        vendor_flag_def sample_renv_def decimal_def)
  then have "DecodeMessage (message_wire ?m) = Inr (message_on_wire ?m)"
    using DecodeMessage_wire [of "message_on_wire ?m" "[]"] by simp
  with one local_proxy_info_not_removed show ?thesis unfolding Let_def by blast
qed

end
