(* ===== verification/Session.thy ===== *)
theory Session
  imports Diam_Types "HOL-Library.AList"
begin

text \<open>
  Package \<open>pkg/core/session\<close>: sessions and their manager. Sessions are objects that the program and the
  manager share by pointer, so they live in a heap and the manager's two indexes hold references.
  Callbacks are opaque: a call is recorded with its arguments. The one callback the package builds
  itself, the wrapper that \<open>Register\<close> installs, is a constructor. The clock and the random bytes are
  arguments.
\<close>

section \<open>Sessions\<close>

datatype session_state = StateIdle | StateOpen | StateDisconnected | StatePending

text \<open>\<open>RemoveThen f\<close> is the closure of \<open>Register\<close>: take the session out of the manager, then call \<open>f\<close>.\<close>

datatype terminate_callback = NoCallback | UserCallback nat | RemoveThen terminate_callback

text \<open>A timer that fired is not nil; \<open>Reset\<close> arms it again.\<close>

datatype session_timer = NilTimer | Armed int | Expired

record 'v Session =
  sID :: string
  sAppID :: ApplicationID
  authState :: u32
  sState :: session_state
  sOriginHost :: DiamID
  sOriginRealm :: DiamID
  sDestHost :: DiamID
  sDestRealm :: DiamID
  sCreatedAt :: int
  sExpiresAt :: int
  sTimeout :: int
  sData :: "string \<Rightarrow> 'v option"
  onTimeout :: "nat option"
  onTerminate :: terminate_callback
  sTimer :: session_timer

text \<open>Go's zero time, 1 January of year 1, in Unix nanoseconds.\<close>

definition zeroTime :: int where "zeroTime = - 62135596800000000000"

text \<open>\<open>uint32(time.Now().Unix())\<close> keeps the low 32 bits of the seconds.\<close>

definition generateSessionID :: "int \<Rightarrow> byte list \<Rightarrow> DiamID \<Rightarrow> string" where
  "generateSessionID now random originHost =
     originHost @ '';'' @ decimal (uint (of_int (now div 1000000000) :: u32)) @ '';'' @ EncodeToString random"

definition NewSessionWithID :: "int \<Rightarrow> string \<Rightarrow> ApplicationID \<Rightarrow> 'v Session" where
  "NewSessionWithID now i app = \<lparr>sID = i, sAppID = app, authState = AuthStateIdle, sState = StateIdle, sOriginHost = '''',
     sOriginRealm = '''', sDestHost = '''', sDestRealm = '''', sCreatedAt = now, sExpiresAt = zeroTime, sTimeout = 0,
     sData = Map.empty, onTimeout = None, onTerminate = NoCallback, sTimer = NilTimer\<rparr>"

definition NewSession :: "int \<Rightarrow> byte list \<Rightarrow> DiamID \<Rightarrow> ApplicationID \<Rightarrow> 'v Session" where
  "NewSession now random originHost app =
     (NewSessionWithID now (generateSessionID now random originHost) app)\<lparr>sOriginHost := originHost\<rparr>"

definition SetAuthState :: "u32 \<Rightarrow> 'v Session \<Rightarrow> 'v Session" where "SetAuthState a s = s\<lparr>authState := a\<rparr>"
definition SetOriginHost :: "DiamID \<Rightarrow> 'v Session \<Rightarrow> 'v Session" where "SetOriginHost h s = s\<lparr>sOriginHost := h\<rparr>"
definition SetOriginRealm :: "DiamID \<Rightarrow> 'v Session \<Rightarrow> 'v Session" where "SetOriginRealm h s = s\<lparr>sOriginRealm := h\<rparr>"
definition SetDestHost :: "DiamID \<Rightarrow> 'v Session \<Rightarrow> 'v Session" where "SetDestHost h s = s\<lparr>sDestHost := h\<rparr>"
definition SetDestRealm :: "DiamID \<Rightarrow> 'v Session \<Rightarrow> 'v Session" where "SetDestRealm h s = s\<lparr>sDestRealm := h\<rparr>"

definition SetTimeout :: "int \<Rightarrow> int \<Rightarrow> 'v Session \<Rightarrow> 'v Session" where
  "SetTimeout now d s = s\<lparr>sTimeout := d, sExpiresAt := now + d, sTimer := Armed (now + d)\<rparr>"

definition RefreshTimeout :: "int \<Rightarrow> 'v Session \<Rightarrow> 'v Session" where
  "RefreshTimeout now s =
     (if 0 < sTimeout s
      then s\<lparr>sExpiresAt := now + sTimeout s, sTimer := (if sTimer s = NilTimer then NilTimer else Armed (now + sTimeout s))\<rparr>
      else s)"

definition Session_Open :: "'v Session \<Rightarrow> 'v Session" where "Session_Open s = s\<lparr>sState := StateOpen\<rparr>"
definition Session_IsOpen :: "'v Session \<Rightarrow> bool" where "Session_IsOpen s \<longleftrightarrow> sState s = StateOpen"
definition SetOnTimeout :: "nat option \<Rightarrow> 'v Session \<Rightarrow> 'v Session" where "SetOnTimeout cb s = s\<lparr>onTimeout := cb\<rparr>"
definition SetOnTerminate :: "terminate_callback \<Rightarrow> 'v Session \<Rightarrow> 'v Session" where "SetOnTerminate cb s = s\<lparr>onTerminate := cb\<rparr>"
definition Session_Get :: "'v Session \<Rightarrow> string \<Rightarrow> 'v option" where "Session_Get s k = sData s k"
definition Session_Set :: "string \<Rightarrow> 'v \<Rightarrow> 'v Session \<Rightarrow> 'v Session" where "Session_Set k v s = s\<lparr>sData := (sData s)(k \<mapsto> v)\<rparr>"
definition Session_Delete :: "string \<Rightarrow> 'v Session \<Rightarrow> 'v Session" where "Session_Delete k s = s\<lparr>sData := (sData s)(k := None)\<rparr>"

definition Session_Close :: "'v Session \<Rightarrow> 'v Session" where
  "Session_Close s = s\<lparr>sTimer := NilTimer, sState := StateDisconnected\<rparr>"

section \<open>The manager\<close>

type_synonym session_ref = nat

datatype session_call =
    TimeoutCalled nat session_ref
  | TerminateCalled nat session_ref u32
  | CreateCalled session_ref
  | CloseCalled session_ref

text \<open>The callbacks \<open>onSessionCreate\<close> and \<open>onSessionClose\<close> are set or not; \<open>session_calls\<close> records the calls.\<close>

record 'v Manager =
  sheap :: "session_ref \<Rightarrow> 'v Session"
  nextRef :: session_ref
  sessions :: "(string \<times> session_ref) list"
  byAppID :: "(ApplicationID \<times> (string \<times> session_ref) list) list"
  onSessionCreate :: bool
  onSessionClose :: bool
  session_calls :: "session_call list"

definition NewManager :: "'v Manager" where
  "NewManager = \<lparr>sheap = (\<lambda>_. NewSessionWithID 0 '''' 0), nextRef = 0, sessions = [], byAppID = [],
     onSessionCreate = False, onSessionClose = False, session_calls = []\<rparr>"

definition update_session :: "session_ref \<Rightarrow> ('v Session \<Rightarrow> 'v Session) \<Rightarrow> 'v Manager \<Rightarrow> 'v Manager" where
  "update_session r f m = m\<lparr>sheap := (sheap m)(r := f (sheap m r))\<rparr>"

definition alloc_session :: "'v Session \<Rightarrow> 'v Manager \<Rightarrow> session_ref \<times> 'v Manager" where
  "alloc_session s m = (nextRef m, m\<lparr>sheap := (sheap m)(nextRef m := s), nextRef := nextRef m + 1\<rparr>)"

definition Manager_call :: "session_call \<Rightarrow> bool \<Rightarrow> 'v Manager \<Rightarrow> 'v Manager" where
  "Manager_call c b m = (if b then m\<lparr>session_calls := session_calls m @ [c]\<rparr> else m)"

definition app_sessions :: "'v Manager \<Rightarrow> ApplicationID \<Rightarrow> (string \<times> session_ref) list" where
  "app_sessions m app = (case map_of (byAppID m) app of None \<Rightarrow> [] | Some l \<Rightarrow> l)"

definition Register :: "session_ref \<Rightarrow> 'v Manager \<Rightarrow> (string + unit) \<times> 'v Manager" where
  "Register r m =
     (let i = sID (sheap m r); app = sAppID (sheap m r) in
      if map_of (sessions m) i \<noteq> None then (Inl (''session already exists: '' @ i), m)
      else
        let m = m\<lparr>sessions := AList.update i r (sessions m),
                  byAppID := AList.update app (AList.update i r (app_sessions m app)) (byAppID m)\<rparr>;
            m = update_session r (\<lambda>s. SetOnTerminate (RemoveThen (onTerminate s)) s) m
        in (Inr (), Manager_call (CreateCalled r) (onSessionCreate m) m))"

definition Create :: "int \<Rightarrow> byte list \<Rightarrow> DiamID \<Rightarrow> ApplicationID \<Rightarrow> 'v Manager \<Rightarrow> session_ref \<times> 'v Manager" where
  "Create now random host app m =
     (let (r, m) = alloc_session (NewSession now random host app) m in (r, snd (Register r m)))"

definition Manager_Get :: "'v Manager \<Rightarrow> string \<Rightarrow> session_ref option" where
  "Manager_Get m i = map_of (sessions m) i"

definition GetByAppID :: "'v Manager \<Rightarrow> ApplicationID \<Rightarrow> session_ref list" where
  "GetByAppID m app = map snd (app_sessions m app)"

definition Manager_Remove :: "string \<Rightarrow> 'v Manager \<Rightarrow> 'v Manager" where
  "Manager_Remove i m = (case map_of (sessions m) i of
     None \<Rightarrow> m
   | Some r \<Rightarrow>
       (let app = sAppID (sheap m r);
            m = m\<lparr>sessions := AList.delete i (sessions m),
                  byAppID := (case map_of (byAppID m) app of None \<Rightarrow> byAppID m
                    | Some l \<Rightarrow> AList.update app (AList.delete i l) (byAppID m))\<rparr>
        in Manager_call (CloseCalled r) (onSessionClose m) m))"

definition Manager_Count :: "'v Manager \<Rightarrow> nat" where "Manager_Count m = length (sessions m)"
definition CountByAppID :: "'v Manager \<Rightarrow> ApplicationID \<Rightarrow> nat" where "CountByAppID m app = length (app_sessions m app)"
definition Manager_All :: "'v Manager \<Rightarrow> session_ref list" where "Manager_All m = map snd (sessions m)"

text \<open>\<open>Terminate\<close>, and the call of whatever termination callback the session has at that moment.\<close>

fun run_terminate :: "terminate_callback \<Rightarrow> session_ref \<Rightarrow> u32 \<Rightarrow> 'v Manager \<Rightarrow> 'v Manager" where
  "run_terminate NoCallback r cause m = m"
| "run_terminate (UserCallback k) r cause m = Manager_call (TerminateCalled k r cause) True m"
| "run_terminate (RemoveThen cb) r cause m = run_terminate cb r cause (Manager_Remove (sID (sheap m r)) m)"

definition Terminate :: "u32 \<Rightarrow> session_ref \<Rightarrow> 'v Manager \<Rightarrow> 'v Manager" where
  "Terminate cause r m =
     (let cb = onTerminate (sheap m r) in
      run_terminate cb r cause (update_session r (\<lambda>s. s\<lparr>sState := StateDisconnected, sTimer := NilTimer\<rparr>) m))"

definition handleTimeout :: "session_ref \<Rightarrow> 'v Manager \<Rightarrow> 'v Manager" where
  "handleTimeout r m =
     (let m = update_session r (\<lambda>s. s\<lparr>sState := StateDisconnected\<rparr>) m in
      case onTimeout (sheap m r) of None \<Rightarrow> m | Some k \<Rightarrow> Manager_call (TimeoutCalled k r) True m)"

text \<open>The expiry of a session's timer, when it is armed and due.\<close>

definition timer_fires :: "int \<Rightarrow> session_ref \<Rightarrow> 'v Manager \<Rightarrow> 'v Manager" where
  "timer_fires now r m = (case sTimer (sheap m r) of
     Armed t \<Rightarrow> if t \<le> now then handleTimeout r (update_session r (\<lambda>s. s\<lparr>sTimer := Expired\<rparr>) m) else m
   | _ \<Rightarrow> m)"

definition CloseAll :: "u32 \<Rightarrow> 'v Manager \<Rightarrow> 'v Manager" where
  "CloseAll cause m = fold (Terminate cause) (Manager_All m) m"

definition SetOnSessionCreate :: "bool \<Rightarrow> 'v Manager \<Rightarrow> 'v Manager" where "SetOnSessionCreate b m = m\<lparr>onSessionCreate := b\<rparr>"
definition SetOnSessionClose :: "bool \<Rightarrow> 'v Manager \<Rightarrow> 'v Manager" where "SetOnSessionClose b m = m\<lparr>onSessionClose := b\<rparr>"

definition Manager_Stats :: "'v Manager \<Rightarrow> nat \<times> (ApplicationID \<times> nat) list" where
  "Manager_Stats m = (length (sessions m), map (\<lambda>(app, l). (app, length l)) (byAppID m))"

section \<open>What a program does with the package\<close>

datatype 'v session_op =
    OpAuthState u32 | OpOriginHost DiamID | OpOriginRealm DiamID | OpDestHost DiamID | OpDestRealm DiamID
  | OpTimeout int int | OpRefresh int | OpOpen | OpClose | OpOnTimeout "nat option" | OpOnTerminate terminate_callback
  | OpSet string 'v | OpDelete string

fun apply_session_op :: "'v session_op \<Rightarrow> 'v Session \<Rightarrow> 'v Session" where
  "apply_session_op (OpAuthState a) = SetAuthState a"
| "apply_session_op (OpOriginHost h) = SetOriginHost h"
| "apply_session_op (OpOriginRealm h) = SetOriginRealm h"
| "apply_session_op (OpDestHost h) = SetDestHost h"
| "apply_session_op (OpDestRealm h) = SetDestRealm h"
| "apply_session_op (OpTimeout now d) = SetTimeout now d"
| "apply_session_op (OpRefresh now) = RefreshTimeout now"
| "apply_session_op OpOpen = Session_Open"
| "apply_session_op OpClose = Session_Close"
| "apply_session_op (OpOnTimeout cb) = SetOnTimeout cb"
| "apply_session_op (OpOnTerminate cb) = SetOnTerminate cb"
| "apply_session_op (OpSet k v) = Session_Set k v"
| "apply_session_op (OpDelete k) = Session_Delete k"

datatype 'v manager_op =
    DoNew string ApplicationID int
  | DoCreate int "byte list" DiamID ApplicationID
  | DoRegister session_ref
  | DoRemove string
  | DoTerminate u32 session_ref
  | DoCloseAll u32
  | DoSession session_ref "'v session_op"
  | DoFire int session_ref
  | DoSetCallbacks bool bool

text \<open>A program can only use references to sessions that exist.\<close>

fun manager_step :: "'v Manager \<Rightarrow> 'v manager_op \<Rightarrow> 'v Manager" where
  "manager_step m (DoNew i app now) = snd (alloc_session (NewSessionWithID now i app) m)"
| "manager_step m (DoCreate now random host app) = snd (Create now random host app m)"
| "manager_step m (DoRegister r) = (if r < nextRef m then snd (Register r m) else m)"
| "manager_step m (DoRemove i) = Manager_Remove i m"
| "manager_step m (DoTerminate cause r) = (if r < nextRef m then Terminate cause r m else m)"
| "manager_step m (DoCloseAll cause) = CloseAll cause m"
| "manager_step m (DoSession r op) = (if r < nextRef m then update_session r (apply_session_op op) m else m)"
| "manager_step m (DoFire now r) = (if r < nextRef m then timer_fires now r m else m)"
| "manager_step m (DoSetCallbacks b c) = SetOnSessionClose c (SetOnSessionCreate b m)"

end
