(* ===== verification/Session_Properties.thy ===== *)
theory Session_Properties
  imports Session
begin

text \<open>
  The properties of the session manager: its two indexes agree in every state a program reaches,
  termination takes sessions out of it, and expiry does not.
\<close>

section \<open>The invariant\<close>

definition app_entry :: "'v Manager \<Rightarrow> ApplicationID \<Rightarrow> string \<Rightarrow> session_ref option" where
  "app_entry m app = map_of (app_sessions m app)"

definition keys_distinct :: "'v Manager \<Rightarrow> bool" where
  "keys_distinct m \<longleftrightarrow> distinct (map fst (sessions m)) \<and> distinct (map fst (byAppID m)) \<and>
     (\<forall>app. distinct (map fst (app_sessions m app)))"

definition manager_inv :: "'v Manager \<Rightarrow> bool" where
  "manager_inv m \<longleftrightarrow> keys_distinct m \<and>
     (\<forall>i r. map_of (sessions m) i = Some r \<longrightarrow> sID (sheap m r) = i \<and> r < nextRef m) \<and>
     (\<forall>app i. app_entry m app i =
        (case map_of (sessions m) i of Some r \<Rightarrow> if sAppID (sheap m r) = app then Some r else None | None \<Rightarrow> None))"

text \<open>The invariant only reads the indexes, and the identifiers of the sessions that exist.\<close>

lemma manager_inv_frame:
  assumes "manager_inv m" and "sessions m' = sessions m" and "byAppID m' = byAppID m" and "nextRef m \<le> nextRef m'"
    and "\<forall>r < nextRef m. sID (sheap m' r) = sID (sheap m r) \<and> sAppID (sheap m' r) = sAppID (sheap m r)"
  shows "manager_inv m'"
proof -
  have app: "app_sessions m' a = app_sessions m a" for a
    using assms(3) by (simp add: app_sessions_def)
  have inv: "keys_distinct m" "\<And>i r. map_of (sessions m) i = Some r \<Longrightarrow> sID (sheap m r) = i \<and> r < nextRef m"
    "\<And>a i. app_entry m a i =
        (case map_of (sessions m) i of Some r \<Rightarrow> if sAppID (sheap m r) = a then Some r else None | None \<Rightarrow> None)"
    using assms(1) by (simp_all add: manager_inv_def)
  show ?thesis
    unfolding manager_inv_def
  proof (intro conjI allI impI)
    show "keys_distinct m'"
      using inv(1) assms(2,3) app by (simp add: keys_distinct_def)
    show "sID (sheap m' r) = i" "r < nextRef m'" if "map_of (sessions m') i = Some r" for i r
      using that inv(2) [of i r] assms(2,4,5) by auto
    show "app_entry m' a i =
        (case map_of (sessions m') i of Some r \<Rightarrow> if sAppID (sheap m' r) = a then Some r else None | None \<Rightarrow> None)" for a i
    proof (cases "map_of (sessions m) i")
      case (Some r)
      then have "sAppID (sheap m' r) = sAppID (sheap m r)" using inv(2) assms(5) by blast
      then show ?thesis using inv(3) [of a i] Some assms(2) app by (simp add: app_entry_def)
    qed (use inv(3) [of a i] assms(2) app in \<open>simp add: app_entry_def\<close>)
  qed
qed

lemma Manager_call_simps [simp]:
  "sheap (Manager_call c b m) = sheap m" "nextRef (Manager_call c b m) = nextRef m"
  "sessions (Manager_call c b m) = sessions m" "byAppID (Manager_call c b m) = byAppID m"
  "onSessionClose (Manager_call c b m) = onSessionClose m" "onSessionCreate (Manager_call c b m) = onSessionCreate m"
  by (simp_all add: Manager_call_def)

lemma update_session_simps [simp]:
  "sheap (update_session r f m) = (sheap m)(r := f (sheap m r))" "nextRef (update_session r f m) = nextRef m"
  "sessions (update_session r f m) = sessions m" "byAppID (update_session r f m) = byAppID m"
  "onSessionClose (update_session r f m) = onSessionClose m" "session_calls (update_session r f m) = session_calls m"
  by (simp_all add: update_session_def)

lemma session_op_ids [simp]: "sID (apply_session_op op s) = sID s" "sAppID (apply_session_op op s) = sAppID s"
  by (cases op; simp add: SetAuthState_def SetOriginHost_def SetOriginRealm_def SetDestHost_def SetDestRealm_def
      SetTimeout_def RefreshTimeout_def Session_Open_def Session_Close_def SetOnTimeout_def SetOnTerminate_def
      Session_Set_def Session_Delete_def)+

lemma manager_inv_update:
  assumes "manager_inv m" and "sID (f (sheap m r)) = sID (sheap m r)" and "sAppID (f (sheap m r)) = sAppID (sheap m r)"
  shows "manager_inv (update_session r f m)"
  by (rule manager_inv_frame [OF assms(1)]) (simp_all add: assms(2,3))

lemma manager_inv_call: "manager_inv m \<Longrightarrow> manager_inv (Manager_call c b m)"
  by (erule manager_inv_frame) simp_all

lemma manager_inv_Register:
  assumes "manager_inv m" and "r < nextRef m"
  shows "manager_inv (snd (Register r m))"
proof (cases "map_of (sessions m) (sID (sheap m r))")
  case None
  let ?i = "sID (sheap m r)" and ?a = "sAppID (sheap m r)"
  let ?m = "m\<lparr>sessions := AList.update ?i r (sessions m),
              byAppID := AList.update ?a (AList.update ?i r (app_sessions m ?a)) (byAppID m)\<rparr>"
  have app: "app_sessions ?m a = (if a = ?a then AList.update ?i r (app_sessions m ?a) else app_sessions m a)" for a
    by (simp add: app_sessions_def update_conv')
  have inv: "keys_distinct m" "\<And>i r. map_of (sessions m) i = Some r \<Longrightarrow> sID (sheap m r) = i \<and> r < nextRef m"
    "\<And>a i. map_of (app_sessions m a) i =
        (case map_of (sessions m) i of Some r \<Rightarrow> if sAppID (sheap m r) = a then Some r else None | None \<Rightarrow> None)"
    using assms(1) by (simp_all add: manager_inv_def app_entry_def)
  have "manager_inv ?m"
    unfolding manager_inv_def app_entry_def app
  proof (intro conjI allI impI)
    show "keys_distinct ?m"
      using inv(1) unfolding keys_distinct_def app by (simp add: distinct_update)
    show "sID (sheap ?m s) = i" "s < nextRef ?m" if "map_of (sessions ?m) i = Some s" for i s
      using that inv(2) [of i s] assms(2) by (auto simp: update_conv' split: if_splits)
    show "map_of (if a = ?a then AList.update ?i r (app_sessions m ?a) else app_sessions m a) i =
        (case map_of (sessions ?m) i of None \<Rightarrow> None | Some r \<Rightarrow> if sAppID (sheap ?m r) = a then Some r else None)" for a i
      using None by (simp add: update_conv' inv(3) cong: option.case_cong if_cong)
  qed
  then show ?thesis
    using None by (auto simp: Register_def Let_def SetOnTerminate_def intro!: manager_inv_call manager_inv_update)
qed (use assms in \<open>simp add: Register_def Let_def\<close>)

lemma manager_inv_Remove:
  assumes "manager_inv m"
  shows "manager_inv (Manager_Remove i m)"
proof (cases "map_of (sessions m) i")
  case (Some r)
  have inv: "keys_distinct m" "\<And>i r. map_of (sessions m) i = Some r \<Longrightarrow> sID (sheap m r) = i \<and> r < nextRef m"
    "\<And>a i. map_of (app_sessions m a) i =
        (case map_of (sessions m) i of Some r \<Rightarrow> if sAppID (sheap m r) = a then Some r else None | None \<Rightarrow> None)"
    using assms by (simp_all add: manager_inv_def app_entry_def)
  let ?a = "sAppID (sheap m r)"
  let ?m = "m\<lparr>sessions := AList.delete i (sessions m),
      byAppID := (case map_of (byAppID m) ?a of None \<Rightarrow> byAppID m | Some l \<Rightarrow> AList.update ?a (AList.delete i l) (byAppID m))\<rparr>"
  have app: "app_sessions ?m a = (if a = ?a then AList.delete i (app_sessions m ?a) else app_sessions m a)" for a
    by (simp add: app_sessions_def update_conv' split: option.split)
  have "manager_inv ?m"
    unfolding manager_inv_def app_entry_def app
  proof (intro conjI allI impI)
    show "keys_distinct ?m"
      using inv(1) unfolding keys_distinct_def app by (simp add: distinct_update distinct_delete split: option.split)
    show "sID (sheap ?m s) = j" "s < nextRef ?m" if "map_of (sessions ?m) j = Some s" for j s
      using that inv(2) [of j s] by (auto simp: delete_conv' split: if_splits)
    show "map_of (if a = ?a then AList.delete i (app_sessions m ?a) else app_sessions m a) j =
        (case map_of (sessions ?m) j of None \<Rightarrow> None | Some r \<Rightarrow> if sAppID (sheap ?m r) = a then Some r else None)" for a j
      using Some by (simp add: delete_conv' inv(3) cong: option.case_cong if_cong)
  qed
  then show ?thesis
    using Some by (simp add: Manager_Remove_def Let_def manager_inv_call)
qed (use assms in \<open>simp add: Manager_Remove_def\<close>)

lemma Remove_simps [simp]:
  "sheap (Manager_Remove i m) = sheap m" "nextRef (Manager_Remove i m) = nextRef m"
  "sessions (Manager_Remove i m) = AList.delete i (sessions m)"
  by (auto simp: Manager_Remove_def Let_def delete_id map_of_eq_None_iff split: option.split)

lemma manager_inv_run_terminate: "manager_inv m \<Longrightarrow> manager_inv (run_terminate cb r cause m)"
  by (induction cb r cause m rule: run_terminate.induct) (simp_all add: manager_inv_call manager_inv_Remove)

lemma manager_inv_Terminate: "manager_inv m \<Longrightarrow> manager_inv (Terminate cause r m)"
  by (simp add: Terminate_def Let_def manager_inv_run_terminate manager_inv_update)

lemma manager_inv_fold: "manager_inv m \<Longrightarrow> manager_inv (fold (Terminate cause) rs m)"
  by (induction rs arbitrary: m) (simp_all add: manager_inv_Terminate)

lemma manager_inv_timer: "manager_inv m \<Longrightarrow> manager_inv (timer_fires now r m)"
  by (auto simp: timer_fires_def handleTimeout_def Let_def intro!: manager_inv_update manager_inv_call
      split: session_timer.split option.split)

lemma manager_inv_alloc: "manager_inv m \<Longrightarrow> manager_inv (snd (alloc_session s m))"
  by (erule manager_inv_frame) (simp_all add: alloc_session_def)

lemma manager_inv_step: "manager_inv m \<Longrightarrow> manager_inv (manager_step m op)"
proof (induction m op rule: manager_step.induct)
  case (2 m now random host app)
  have "fst (alloc_session s m) < nextRef (snd (alloc_session s m))" for s
    by (simp add: alloc_session_def)
  with manager_inv_alloc [OF 2] show ?case
    by (simp add: Create_def split_beta manager_inv_Register)
next
  case (9 m b c)
  then show ?case by (auto simp: SetOnSessionClose_def SetOnSessionCreate_def intro: manager_inv_frame)
qed (simp_all add: manager_inv_alloc manager_inv_Register manager_inv_Remove manager_inv_Terminate CloseAll_def
    manager_inv_fold manager_inv_update manager_inv_timer)

interpretation manager: machine manager_step manager_inv
  by unfold_locales (rule manager_inv_step)

lemma manager_inv_New: "manager_inv NewManager"
  by (simp add: manager_inv_def keys_distinct_def app_entry_def app_sessions_def NewManager_def)

lemma manager_inv_reachable: "manager_inv (foldl manager_step NewManager ops)"
  by (rule manager.run_inv [OF manager_inv_New])


section \<open>Termination\<close>

text \<open>The program's own callback inside the wrappers, and whether there is a wrapper.\<close>

fun user_callback :: "terminate_callback \<Rightarrow> nat option" where
  "user_callback NoCallback = None"
| "user_callback (UserCallback k) = Some k"
| "user_callback (RemoveThen cb) = user_callback cb"

definition auto_removed :: "terminate_callback \<Rightarrow> bool" where
  "auto_removed cb \<longleftrightarrow> (case cb of RemoveThen _ \<Rightarrow> True | _ \<Rightarrow> False)"

lemma run_terminate_simps [simp]:
  "sheap (run_terminate cb r cause m) = sheap m"
  "map_of (sessions (run_terminate cb r cause m)) =
     (if auto_removed cb then (map_of (sessions m))(sID (sheap m r) := None) else map_of (sessions m))"
  by (induction cb r cause m rule: run_terminate.induct) (auto simp: auto_removed_def delete_conv')

lemma session_calls_Remove: "set (session_calls m) \<subseteq> set (session_calls (Manager_Remove i m))"
  by (auto simp: Manager_Remove_def Let_def Manager_call_def split: option.split)

lemma session_calls_run: "set (session_calls m) \<subseteq> set (session_calls (run_terminate cb r cause m))"
proof (induction cb r cause m rule: run_terminate.induct)
  case (3 cb r cause m)
  then show ?case using session_calls_Remove [of m "sID (sheap m r)"] by auto
qed (auto simp: Manager_call_def)

lemma user_callback_run:
  "user_callback cb = Some k \<Longrightarrow> TerminateCalled k r cause \<in> set (session_calls (run_terminate cb r cause m))"
  by (induction cb r cause m rule: run_terminate.induct) (auto simp: Manager_call_def)

lemma Terminate_simps:
  "sheap (Terminate cause r m) = (sheap m)(r := (sheap m r)\<lparr>sState := StateDisconnected, sTimer := NilTimer\<rparr>)"
  "auto_removed (onTerminate (sheap m r)) \<Longrightarrow>
   map_of (sessions (Terminate cause r m)) = (map_of (sessions m))(sID (sheap m r) := None)"
  by (simp_all add: Terminate_def Let_def)

lemma fold_Terminate:
  assumes "\<forall>r \<in> set rs. auto_removed (onTerminate (sheap m r))"
  shows "sheap (fold (Terminate cause) rs m) r =
      (if r \<in> set rs then (sheap m r)\<lparr>sState := StateDisconnected, sTimer := NilTimer\<rparr> else sheap m r)" (is ?heap)
    and "map_of (sessions (fold (Terminate cause) rs m)) i =
      (if i \<in> (\<lambda>r. sID (sheap m r)) ` set rs then None else map_of (sessions m) i)" (is ?sessions)
    and "set (session_calls m) \<subseteq> set (session_calls (fold (Terminate cause) rs m))" (is ?mono)
    and "r \<in> set rs \<Longrightarrow> user_callback (onTerminate (sheap m r)) = Some k \<Longrightarrow>
      TerminateCalled k r cause \<in> set (session_calls (fold (Terminate cause) rs m))"
proof -
  have "?heap \<and> ?sessions \<and> ?mono \<and> (r \<in> set rs \<longrightarrow> user_callback (onTerminate (sheap m r)) = Some k \<longrightarrow>
      TerminateCalled k r cause \<in> set (session_calls (fold (Terminate cause) rs m)))"
    using assms
  proof (induction rs arbitrary: m)
    case (Cons x rs)
    let ?m = "Terminate cause x m"
    have ok: "auto_removed (onTerminate (sheap m x))" "\<forall>r \<in> set rs. auto_removed (onTerminate (sheap ?m r))"
      using Cons.prems by (simp_all add: Terminate_simps)
    have ids: "sID (sheap ?m s) = sID (sheap m s)" "onTerminate (sheap ?m s) = onTerminate (sheap m s)" for s
      by (simp_all add: Terminate_simps(1))
    have calls: "set (session_calls m) \<subseteq> set (session_calls ?m)"
      using session_calls_run [of "update_session x _ m"] by (auto simp: Terminate_def Let_def)
    have user: "user_callback (onTerminate (sheap m x)) = Some k \<Longrightarrow> TerminateCalled k x cause \<in> set (session_calls ?m)"
      by (simp add: Terminate_def Let_def user_callback_run)
    note IH = Cons.IH [OF ok(2)]
    show ?case
    proof (intro conjI impI)
      show "sheap (fold (Terminate cause) (x # rs) m) r =
          (if r \<in> set (x # rs) then (sheap m r)\<lparr>sState := StateDisconnected, sTimer := NilTimer\<rparr> else sheap m r)"
        using IH by (simp add: Terminate_simps(1))
      show "map_of (sessions (fold (Terminate cause) (x # rs) m)) i =
          (if i \<in> (\<lambda>r. sID (sheap m r)) ` set (x # rs) then None else map_of (sessions m) i)"
        using IH by (simp add: Terminate_simps(2) [OF ok(1)] ids)
      show "set (session_calls m) \<subseteq> set (session_calls (fold (Terminate cause) (x # rs) m))"
        using IH calls by auto
      show "TerminateCalled k r cause \<in> set (session_calls (fold (Terminate cause) (x # rs) m))"
        if "r \<in> set (x # rs)" "user_callback (onTerminate (sheap m r)) = Some k"
        using that IH user by (auto simp: ids)
    qed
  qed simp
  then show ?heap ?sessions ?mono
    "r \<in> set rs \<Longrightarrow> user_callback (onTerminate (sheap m r)) = Some k \<Longrightarrow>
      TerminateCalled k r cause \<in> set (session_calls (fold (Terminate cause) rs m))" by simp_all
qed

lemma Manager_All_registered:
  assumes "manager_inv m"
  shows "r \<in> set (Manager_All m) \<longleftrightarrow> Manager_Get m (sID (sheap m r)) = Some r"
proof
  assume "r \<in> set (Manager_All m)"
  then obtain i where "(i, r) \<in> set (sessions m)" by (auto simp: Manager_All_def)
  moreover have "distinct (map fst (sessions m))" using assms by (simp add: manager_inv_def keys_distinct_def)
  ultimately have "map_of (sessions m) i = Some r" by simp
  with assms show "Manager_Get m (sID (sheap m r)) = Some r" by (auto simp: manager_inv_def Manager_Get_def)
next
  assume "Manager_Get m (sID (sheap m r)) = Some r"
  then show "r \<in> set (Manager_All m)" by (auto simp: Manager_Get_def Manager_All_def dest: map_of_SomeD intro: rev_image_eqI)
qed

text \<open>Everything a program can do but removing and terminating.\<close>

fun keeps_registered :: "'v manager_op \<Rightarrow> bool" where
  "keeps_registered (DoRemove i) = False"
| "keeps_registered (DoTerminate cause r) = False"
| "keeps_registered (DoCloseAll cause) = False"
| "keeps_registered op = True"

lemma keeps_registered_step:
  "Manager_Get m i = Some r \<Longrightarrow> keeps_registered op \<Longrightarrow> Manager_Get (manager_step m op) i = Some r"
  by (cases op) (auto simp: Manager_Get_def alloc_session_def Create_def Register_def Let_def update_conv' timer_fires_def
      handleTimeout_def SetOnSessionClose_def SetOnSessionCreate_def split: session_timer.split option.split)

lemma keeps_registered_run:
  "Manager_Get m i = Some r \<Longrightarrow> list_all keeps_registered ops \<Longrightarrow> Manager_Get (foldl manager_step m ops) i = Some r"
  by (induction ops arbitrary: m) (simp_all add: keeps_registered_step)

section \<open>Properties\<close>

text \<open>
  C16: the two indexes of the session manager agree. In every state a program reaches, whatever it does with
  sessions and the manager, the sessions listed for an application are exactly the registered ones
  with this Application-ID, each once, each registered under its own Session-ID, and the counter agrees.
\<close>
theorem session_indexes_agree:
  "let m = foldl manager_step NewManager ops in
   set (GetByAppID m app) = {r. Manager_Get m (sID (sheap m r)) = Some r \<and> sAppID (sheap m r) = app} \<and>
   distinct (GetByAppID m app) \<and> CountByAppID m app = length (GetByAppID m app)"
proof -
  define m where "m = foldl manager_step NewManager ops"
  have inv: "manager_inv m" unfolding m_def by (rule manager_inv_reachable)
  then have d: "distinct (map fst (app_sessions m app))" by (simp add: manager_inv_def keys_distinct_def)
  have mem: "(i, r) \<in> set (app_sessions m app) \<longleftrightarrow> map_of (sessions m) i = Some r \<and> sAppID (sheap m r) = app" for i r
    using inv d by (auto simp: manager_inv_def app_entry_def simp flip: map_of_eq_Some_iff split: option.splits if_splits)
  have key: "map_of (sessions m) i = Some r \<Longrightarrow> sID (sheap m r) = i" for i r
    using inv by (simp add: manager_inv_def)
  have "inj_on snd (set (app_sessions m app))"
    by (rule inj_onI) (metis mem key prod.collapse)
  moreover have "distinct (app_sessions m app)"
    using d by (simp add: distinct_map)
  ultimately have "distinct (GetByAppID m app)"
    by (simp add: GetByAppID_def distinct_map)
  moreover have "set (GetByAppID m app) = {r. Manager_Get m (sID (sheap m r)) = Some r \<and> sAppID (sheap m r) = app}"
  proof (rule set_eqI)
    fix r
    have "r \<in> set (GetByAppID m app) \<longleftrightarrow> (\<exists>i. (i, r) \<in> set (app_sessions m app))"
      by (force simp: GetByAppID_def)
    also have "\<dots> \<longleftrightarrow> Manager_Get m (sID (sheap m r)) = Some r \<and> sAppID (sheap m r) = app"
      unfolding mem Manager_Get_def using key by blast
    finally show "r \<in> set (GetByAppID m app) \<longleftrightarrow> r \<in> {r. Manager_Get m (sID (sheap m r)) = Some r \<and> sAppID (sheap m r) = app}"
      by simp
  qed
  ultimately show ?thesis
    by (simp add: GetByAppID_def CountByAppID_def flip: m_def)
qed

text \<open>
  \<open>CloseAll\<close> closes all. When no program replaced the termination callback that \<open>Register\<close> installed,
  afterwards the manager is empty in both indexes, every session it had is Disconnected without a
  timer, and the program's own termination callbacks were called with the cause.
\<close>
theorem close_all_terminates_sessions:
  assumes "m = foldl manager_step NewManager ops"
    and "\<forall>r \<in> set (Manager_All m). auto_removed (onTerminate (sheap m r))"
  shows "Manager_Count (CloseAll cause m) = 0 \<and> CountByAppID (CloseAll cause m) app = 0 \<and>
    (Manager_Get m i = Some r \<longrightarrow>
      sState (sheap (CloseAll cause m) r) = StateDisconnected \<and> sTimer (sheap (CloseAll cause m) r) = NilTimer \<and>
      (user_callback (onTerminate (sheap m r)) = Some k \<longrightarrow>
        TerminateCalled k r cause \<in> set (session_calls (CloseAll cause m))))"
proof -
  let ?m = "CloseAll cause m"
  have inv: "manager_inv m" unfolding assms(1) by (rule manager_inv_reachable)
  then have inv': "manager_inv ?m" by (simp add: CloseAll_def manager_inv_fold)
  note facts = fold_Terminate [OF assms(2), where cause = cause, folded CloseAll_def]
  have "map_of (sessions ?m) j = None" for j
  proof (cases "map_of (sessions m) j")
    case (Some s)
    then have "sID (sheap m s) = j" using inv by (simp add: manager_inv_def)
    moreover from this Some have "s \<in> set (Manager_All m)"
      using Manager_All_registered [OF inv] by (simp add: Manager_Get_def)
    ultimately show ?thesis by (auto simp: facts(2))
  qed (simp add: facts(2))
  then have "map_of (sessions ?m) = Map.empty" by blast
  then have e: "sessions ?m = []" by simp
  then have "app_entry ?m app = Map.empty"
    using inv' by (simp add: manager_inv_def fun_eq_iff)
  then have a: "app_sessions ?m app = []" by (simp add: app_entry_def)
  have "r \<in> set (Manager_All m)" if "Manager_Get m i = Some r"
    using that inv Manager_All_registered [OF inv, of r] by (auto simp: manager_inv_def Manager_Get_def)
  with e a facts(1,4) show ?thesis
    by (auto simp: Manager_Count_def CountByAppID_def)
qed

text \<open>A registered and an unregistered session; the first has a program callback inside the wrapper.\<close>

definition sample_sessions :: "nat manager_op list" where
  "sample_sessions = [DoSetCallbacks True True, DoNew ''a;1;1'' 4 0, DoSession 0 (OpOnTerminate (UserCallback 7)),
     DoSession 0 (OpTimeout 0 60), DoRegister 0, DoNew ''a;1;2'' 4 0]"

lemma sample_sessions_run:
  "Manager_All (foldl manager_step NewManager sample_sessions) = [0]"
  "sheap (foldl manager_step NewManager sample_sessions) 0 =
     (NewSessionWithID 0 ''a;1;1'' 4)\<lparr>onTerminate := RemoveThen (UserCallback 7), sTimeout := 60, sExpiresAt := 60, sTimer := Armed 60\<rparr>"
  "Manager_Get (foldl manager_step NewManager sample_sessions) ''a;1;1'' = Some 0"
  by (simp_all add: sample_sessions_def alloc_session_def Register_def Let_def NewManager_def SetOnSessionClose_def
      SetOnSessionCreate_def SetOnTerminate_def SetTimeout_def Manager_call_def app_sessions_def NewSessionWithID_def
      Manager_All_def Manager_Get_def update_session_def)

theorem close_all_terminates_sessions_witness:
  "let m = CloseAll 4 (foldl manager_step NewManager sample_sessions) in
   Manager_Count m = 0 \<and> sState (sheap m 0) = StateDisconnected \<and> TerminateCalled 7 0 4 \<in> set (session_calls m)"
  using close_all_terminates_sessions [OF refl, where ops = sample_sessions and cause = 4 and i = "''a;1;1''" and r = 0 and k = 7] sample_sessions_run
  by (simp add: auto_removed_def)

text \<open>
  Expiry does not remove a session. A registered session whose timer expires becomes Disconnected, and
  stays registered for as long as the program does not terminate or remove it: neither the expiry nor
  \<open>Close\<close> tells the manager.
\<close>
theorem expired_session_stays_registered:
  assumes "Manager_Get m i = Some r" and "sTimer (sheap m r) = Armed t" and "t \<le> now" and "list_all keeps_registered ops"
  shows "sState (sheap (timer_fires now r m) r) = StateDisconnected \<and>
    Manager_Get (foldl manager_step (timer_fires now r m) ops) i = Some r"
proof
  have "Manager_Get (timer_fires now r m) i = Some r"
    using assms(1-3) by (simp add: timer_fires_def handleTimeout_def Let_def Manager_Get_def split: option.split)
  then show "Manager_Get (foldl manager_step (timer_fires now r m) ops) i = Some r"
    using keeps_registered_run [OF _ assms(4)] by blast
  show "sState (sheap (timer_fires now r m) r) = StateDisconnected"
    using assms(2,3) by (simp add: timer_fires_def handleTimeout_def Let_def split: option.split)
qed

theorem expired_session_stays_registered_witness:
  "let m = timer_fires 61 0 (foldl manager_step NewManager sample_sessions) in
   sState (sheap m 0) = StateDisconnected \<and>
   Manager_Get (foldl manager_step m [DoSession 0 OpClose, DoFire 100 0]) ''a;1;1'' = Some 0"
  using expired_session_stays_registered [OF sample_sessions_run(3), where t = 60 and now = 61 and ops = "[DoSession 0 OpClose, DoFire 100 0]"]
    sample_sessions_run(2) by simp

end
