(* ===== verification/Conf_Types.thy ===== *)
theory Conf_Types
  imports Complex_Main Diam_Types
begin

text \<open>
  Package \<open>pkg/core/config\<close>: the configuration of a node, its zones and its roaming partners, and the
  defaults. YAML is decoded by a library, so a configuration starts here as the decoded value. A
  \<open>float64\<close> that is finite is a rational number; the package only compares them with zero and
  truncates them, which is exact. Go maps are association lists.
\<close>

section \<open>The node\<close>

datatype yaml_value =
    YNull | YBool bool | YInt int | YFloat rat | YString string | YSeq "yaml_value list" | YMap "(string \<times> yaml_value) list"

record ListenConfig =
  lnAddresses :: "string list"
  lnPort :: int
  lnSecurePort :: int
  lnEnableTCP :: bool
  lnEnableTLS :: bool
  lnEnableSCTP :: bool

record NodeTLSConfig =
  ntEnabled :: bool
  ntCertFile :: string
  ntKeyFile :: string
  ntCAFile :: string
  ntVerifyPeer :: bool
  ntMinVersion :: string

record NodeLocalConfig =
  nlVendorID :: u32
  nlProductName :: string
  nlFirmwareRevision :: u32
  nlWatchdogInterval :: int
  nlConnectTimeout :: int
  nlRequestTimeout :: int

record PeerConfig =
  pcIdentity :: string
  pcRealm :: string
  pcAddresses :: "string list"
  pcPort :: int
  pcNetwork :: string
  pcTLS :: bool
  pcTLSOptional :: bool
  pcConnectOnStart :: bool
  pcPersistent :: bool
  pcReconnectInterval :: int
  pcZone :: string

record ApplicationConfig =
  acID :: u32
  acVendorID :: u32
  acType :: string
  acRouteTo :: "string list"

record RoutingConfig =
  rcDefaultRealm :: string
  rcRealmRoutes :: "(string \<times> string list) list"
  rcHostRoutes :: "(string \<times> string) list"
  rcRelayEnabled :: bool
  rcDynamicRealmPeers :: bool
  rcDynamicRealmAllowIdentities :: "string list"

record PeersPolicy =
  ppAllowUnknown :: bool
  ppAllowIdentities :: "string list"

record ExtensionConfig =
  ecName :: string
  ecConfig :: "(string \<times> yaml_value) list"

section \<open>Zones and partners (\<open>edge.go\<close>)\<close>

definition ZoneRoleInternal :: string where "ZoneRoleInternal = ''internal''"
definition ZoneRoleExternal :: string where "ZoneRoleExternal = ''external''"
definition DefaultTopoHideMaxEntries :: int where "DefaultTopoHideMaxEntries = 100000"
definition DefaultZoneName :: string where "DefaultZoneName = ''default''"
definition ActionReject :: string where "ActionReject = ''reject''"
definition ActionDrop :: string where "ActionDrop = ''drop''"
definition ActionLog :: string where "ActionLog = ''log''"
definition TopoHideNone :: string where "TopoHideNone = ''none''"
definition TopoHideStatic :: string where "TopoHideStatic = ''static''"
definition TopoHideStateful :: string where "TopoHideStateful = ''stateful''"

text \<open>The embedded \<open>TLSConfig\<close> of \<open>ZoneTLSConfig\<close> is an extended record.\<close>

record ZoneTLSConfig = NodeTLSConfig +
  ztRequireClientCertIdentity :: bool

record ZoneConfig =
  zName :: string
  zRole :: string
  zRealms :: "string list"
  zListen :: ListenConfig
  zTLS :: ZoneTLSConfig
  zPeersPolicy :: PeersPolicy
  zImplicit :: bool

record PartnerPeer =
  prIdentity :: string
  prPriority :: int
  prWeight :: int

record AVPSelector =
  selCode :: AVPCode
  selVendorID :: VendorID

record ScreeningPolicy =
  scEnabled :: "bool option"
  scDefaultAction :: string
  scRejectResultCode :: u32
  scMaxRouteRecords :: int
  scCheckOriginRealm :: "bool option"
  scCheckOriginHost :: "bool option"
  scCheckPeerIdentity :: "bool option"
  scCheckDestinationRealm :: "bool option"
  scCheckPLMN :: "bool option"
  scCheckApplications :: "bool option"
  scCheckCommands :: "bool option"
  scDenyAVPs :: "AVPSelector list"
  scAllowAVPs :: "AVPSelector list"
  scRuleActions :: "(string \<times> string) list"

record TopologyHidingPolicy =
  thMode :: string
  thEdgeIdentity :: string
  thPseudonymPrefix :: string
  thPseudonymRealm :: string
  thTTL :: int
  thMaxEntries :: int
  thHideOriginRealm :: "bool option"
  thHideRouteRecords :: "bool option"
  thHideProxyInfo :: "bool option"
  thHideErrorReportingHost :: "bool option"
  thHideHostIPAddress :: "bool option"
  thHideOriginStateID :: "bool option"
  thScrubAVPs :: "AVPSelector list"

record RateLimitRule =
  rlRequestsPerSecond :: rat
  rlBurst :: int
  rlAction :: string
  rlResultCode :: u32

record RateLimitPolicy =
  rpEnabled :: bool
  rpPartner :: RateLimitRule
  rpPerPeer :: "RateLimitRule option"
  rpPerApplication :: "(u32 \<times> RateLimitRule) list"
  rpPerCommand :: "(u32 \<times> RateLimitRule) list"

record PartnerConfig =
  ptName :: string
  ptZone :: string
  ptRealms :: "string list"
  ptPeers :: "PartnerPeer list"
  ptPLMNIDs :: "string list"
  ptApplications :: "u32 list"
  ptCommands :: "u32 list"
  ptAllowTransit :: bool
  ptScreening :: ScreeningPolicy
  ptTopologyHiding :: TopologyHidingPolicy
  ptRateLimit :: RateLimitPolicy
  ptTLS :: "NodeTLSConfig option"

record NodeConfig =
  nIdentity :: string
  nRealm :: string
  nListen :: ListenConfig
  nTLS :: NodeTLSConfig
  nLocal :: NodeLocalConfig
  nPeers :: "PeerConfig list"
  nPeersPolicy :: PeersPolicy
  nZones :: "ZoneConfig list"
  nPartners :: "PartnerConfig list"
  nApplications :: "ApplicationConfig list"
  nRouting :: RoutingConfig
  nExtensions :: "ExtensionConfig list"

definition IsExternal :: "ZoneConfig \<Rightarrow> bool" where "IsExternal z \<longleftrightarrow> zRole z = ZoneRoleExternal"
definition IsImplicit :: "ZoneConfig \<Rightarrow> bool" where "IsImplicit z \<longleftrightarrow> zImplicit z"

definition EffectiveZones :: "NodeConfig \<Rightarrow> ZoneConfig list" where
  "EffectiveZones c = (if nZones c \<noteq> [] then nZones c
     else [\<lparr>zName = DefaultZoneName, zRole = ZoneRoleInternal, zRealms = [], zListen = nListen c,
       zTLS = NodeTLSConfig.extend (nTLS c) (ZoneTLSConfig.fields False), zPeersPolicy = nPeersPolicy c, zImplicit = True\<rparr>])"

definition boolValue :: "bool option \<Rightarrow> bool \<Rightarrow> bool" where
  "boolValue p d = (case p of None \<Rightarrow> d | Some b \<Rightarrow> b)"

definition ScreeningEnabled :: "PartnerConfig \<Rightarrow> bool \<Rightarrow> bool" where
  "ScreeningEnabled p external = boolValue (scEnabled (ptScreening p)) external"

section \<open>Defaults\<close>

definition or_default :: "'a \<Rightarrow> 'a \<Rightarrow> 'a \<Rightarrow> 'a" where
  "or_default zero d x = (if x = zero then d else x)"

definition conf_second :: int where "conf_second = 1000000000"

text \<open>\<open>int(r.RequestsPerSecond)\<close> truncates, and the rate is positive there.\<close>

definition applyRateLimitDefaults :: "RateLimitRule \<Rightarrow> RateLimitRule" where
  "applyRateLimitDefaults r =
     (let r = r\<lparr>rlAction := or_default '''' ActionReject (rlAction r), rlResultCode := or_default 0 3004 (rlResultCode r)\<rparr> in
      if rlBurst r = 0 \<and> 0 < rlRequestsPerSecond r
      then r\<lparr>rlBurst := (if \<lfloor>rlRequestsPerSecond r\<rfloor> < 1 then 1 else \<lfloor>rlRequestsPerSecond r\<rfloor>)\<rparr> else r)"

definition zone_defaults :: "ZoneConfig \<Rightarrow> ZoneConfig" where
  "zone_defaults z = z\<lparr>zRole := or_default '''' ZoneRoleInternal (zRole z),
     zListen := (zListen z)\<lparr>lnPort := or_default 0 3868 (lnPort (zListen z)), lnSecurePort := or_default 0 5868 (lnSecurePort (zListen z))\<rparr>,
     zTLS := (zTLS z)\<lparr>ntMinVersion := or_default '''' ''1.2'' (ntMinVersion (zTLS z))\<rparr>\<rparr>"

definition topohide_defaults :: "NodeConfig \<Rightarrow> TopologyHidingPolicy \<Rightarrow> TopologyHidingPolicy" where
  "topohide_defaults c t = t\<lparr>thMode := or_default '''' TopoHideNone (thMode t),
     thEdgeIdentity := or_default '''' (nIdentity c) (thEdgeIdentity t),
     thPseudonymRealm := or_default '''' (nRealm c) (thPseudonymRealm t),
     thPseudonymPrefix := or_default '''' ''th'' (thPseudonymPrefix t),
     thMaxEntries := or_default 0 DefaultTopoHideMaxEntries (thMaxEntries t),
     thTTL := or_default 0 (1800 * conf_second) (thTTL t)\<rparr>"

definition partner_defaults :: "NodeConfig \<Rightarrow> PartnerConfig \<Rightarrow> PartnerConfig" where
  "partner_defaults c p = p\<lparr>ptPeers := map (\<lambda>x. x\<lparr>prWeight := or_default 0 1 (prWeight x)\<rparr>) (ptPeers p),
     ptScreening := (ptScreening p)\<lparr>scDefaultAction := or_default '''' ActionReject (scDefaultAction (ptScreening p)),
       scRejectResultCode := or_default 0 5003 (scRejectResultCode (ptScreening p))\<rparr>,
     ptTopologyHiding := topohide_defaults c (ptTopologyHiding p),
     ptRateLimit := (ptRateLimit p)\<lparr>rpPartner := applyRateLimitDefaults (rpPartner (ptRateLimit p)),
       rpPerPeer := map_option applyRateLimitDefaults (rpPerPeer (ptRateLimit p)),
       rpPerApplication := map (\<lambda>(k, r). (k, applyRateLimitDefaults r)) (rpPerApplication (ptRateLimit p)),
       rpPerCommand := map (\<lambda>(k, r). (k, applyRateLimitDefaults r)) (rpPerCommand (ptRateLimit p))\<rparr>\<rparr>"

definition applyEdgeDefaults :: "NodeConfig \<Rightarrow> NodeConfig" where
  "applyEdgeDefaults c = c\<lparr>nZones := map zone_defaults (nZones c), nPartners := map (partner_defaults c) (nPartners c)\<rparr>"

definition peer_defaults :: "PeerConfig \<Rightarrow> PeerConfig" where
  "peer_defaults p = p\<lparr>pcPort := or_default 0 3868 (pcPort p), pcNetwork := or_default '''' ''tcp'' (pcNetwork p),
     pcReconnectInterval := or_default 0 (30 * conf_second) (pcReconnectInterval p)\<rparr>"

definition applyDefaults :: "NodeConfig \<Rightarrow> NodeConfig" where
  "applyDefaults c = applyEdgeDefaults (c\<lparr>
     nListen := (nListen c)\<lparr>lnPort := or_default 0 3868 (lnPort (nListen c)), lnSecurePort := or_default 0 5868 (lnSecurePort (nListen c))\<rparr>,
     nLocal := (nLocal c)\<lparr>nlWatchdogInterval := or_default 0 (30 * conf_second) (nlWatchdogInterval (nLocal c)),
       nlConnectTimeout := or_default 0 (10 * conf_second) (nlConnectTimeout (nLocal c)),
       nlRequestTimeout := or_default 0 (30 * conf_second) (nlRequestTimeout (nLocal c)),
       nlProductName := or_default '''' ''godiam'' (nlProductName (nLocal c))\<rparr>,
     nPeers := map peer_defaults (nPeers c)\<rparr>)"

definition GetAuthAppIDs :: "NodeConfig \<Rightarrow> ApplicationID list" where
  "GetAuthAppIDs c = map acID (filter (\<lambda>a. acType a = ''auth'') (nApplications c))"

definition GetAcctAppIDs :: "NodeConfig \<Rightarrow> ApplicationID list" where
  "GetAcctAppIDs c = map acID (filter (\<lambda>a. acType a = ''acct'') (nApplications c))"

section \<open>The defaults are idempotent\<close>

lemma or_default_idem [simp]: "or_default z d (or_default z d x) = or_default z d x"
  by (simp add: or_default_def)

lemma applyRateLimitDefaults_idem [simp]: "applyRateLimitDefaults (applyRateLimitDefaults r) = applyRateLimitDefaults r"
  by (simp add: applyRateLimitDefaults_def Let_def)

lemma applyDefaults_idem: "applyDefaults (applyDefaults c) = applyDefaults c"
  by (simp add: applyDefaults_def applyEdgeDefaults_def zone_defaults_def partner_defaults_def topohide_defaults_def
      peer_defaults_def comp_def map_option.compositionality case_prod_beta')

end
