(* ===== verification/Conf_Validate.thy ===== *)
theory Conf_Validate
  imports Conf_Types
begin

text \<open>
  \<open>validate\<close>, \<open>validateEdge\<close> and what they use: \<open>isValidFQDN\<close>, the textual IP addresses \<open>net.ParseIP\<close>
  accepts, the readability of the files a TLS block names. An error is the template of its message
  with the indices in it; the quoted values are left out. Where the code ranges over a map the
  entries are checked in list order.
\<close>

section \<open>Textual IP addresses\<close>

abbreviation char_code :: "char \<Rightarrow> nat" where "char_code c \<equiv> of_char c"

definition is_digit :: "char \<Rightarrow> bool" where "is_digit c \<longleftrightarrow> 48 \<le> char_code c \<and> char_code c \<le> 57"

definition is_hex :: "char \<Rightarrow> bool" where
  "is_hex c \<longleftrightarrow> is_digit c \<or> (65 \<le> char_code c \<and> char_code c \<le> 70) \<or> (97 \<le> char_code c \<and> char_code c \<le> 102)"

text \<open>Four decimal fields up to 255 without leading zeros: value, field and digit count so far.\<close>

fun ipv4_fields :: "string \<Rightarrow> nat \<Rightarrow> nat \<Rightarrow> nat \<Rightarrow> bool" where
  "ipv4_fields [] val pos digits \<longleftrightarrow> pos = 3"
| "ipv4_fields (c # cs) val pos digits =
     (if is_digit c then
        \<not> (digits = 1 \<and> val = 0) \<and>
        (let v = val * 10 + (char_code c - 48) in v \<le> 255 \<and> ipv4_fields cs v pos (digits + 1))
      else c = CHR ''.'' \<and> digits \<noteq> 0 \<and> cs \<noteq> [] \<and> pos \<noteq> 3 \<and> ipv4_fields cs 0 (pos + 1) 0)"

text \<open>
  The fields of an IPv6 address: \<open>i\<close> bytes are filled, \<open>ell\<close> says whether \<open>::\<close> was seen. At most
  four hexadecimal digits make a field; a dotted quad may stand for the last two.
\<close>

function ipv6_fields :: "string \<Rightarrow> nat \<Rightarrow> bool \<Rightarrow> bool" where
  "ipv6_fields s i ell =
     (let hex = takeWhile is_hex s; rest = dropWhile is_hex s in
      if 16 \<le> i then s = [] \<and> \<not> ell
      else if hex = [] \<or> 4 < length hex then False
      else case rest of
          [] \<Rightarrow> (if i + 2 = 16 then \<not> ell else ell)
        | c # cs \<Rightarrow>
            if c = CHR ''.'' then
              (ell \<or> i = 12) \<and> i + 4 \<le> 16 \<and> s \<noteq> [] \<and> ipv4_fields s 0 0 0 \<and> (if i + 4 = 16 then \<not> ell else ell)
            else if c \<noteq> CHR '':'' \<or> cs = [] then False
            else if hd cs = CHR '':'' then
              \<not> ell \<and> (if tl cs = [] then i + 2 < 16 else ipv6_fields (tl cs) (i + 2) True)
            else ipv6_fields cs (i + 2) ell)"
  by pat_completeness auto
termination
  by (relation "measure (\<lambda>(s, i, ell). 16 - i)") auto

definition ParseIPv6 :: "string \<Rightarrow> bool" where
  "ParseIPv6 s = (case s of
     a # b # cs \<Rightarrow> if a = CHR '':'' \<and> b = CHR '':'' then cs = [] \<or> ipv6_fields cs 0 True else ipv6_fields s 0 False
   | _ \<Rightarrow> ipv6_fields s 0 False)"

text \<open>\<open>net.ParseIP(s) != nil\<close>: the first dot, colon or percent sign decides the format; zones are refused.\<close>

definition isValidIP :: "string \<Rightarrow> bool" where
  "isValidIP s = (case find (\<lambda>c. c \<in> {CHR ''.'', CHR '':'', CHR ''%''}) s of
     None \<Rightarrow> False
   | Some c \<Rightarrow> if c = CHR ''.'' then ipv4_fields s 0 0 0
               else if c = CHR '':'' then ParseIPv6 s else False)"

section \<open>Domain names\<close>

definition is_alnum :: "char \<Rightarrow> bool" where
  "is_alnum c \<longleftrightarrow> is_digit c \<or> (65 \<le> char_code c \<and> char_code c \<le> 90) \<or> (97 \<le> char_code c \<and> char_code c \<le> 122)"

text \<open>The scan of \<open>isValidFQDN\<close>: the labels ended so far, the length of the current one, the last character.\<close>

fun fqdn_scan :: "string \<Rightarrow> nat \<Rightarrow> nat \<Rightarrow> char option \<Rightarrow> (nat \<times> nat \<times> char option) option" where
  "fqdn_scan [] labels len prev = Some (labels, len, prev)"
| "fqdn_scan (c # cs) labels len prev =
     (if c = CHR ''.'' then
        if len = 0 \<or> prev = Some (CHR ''-'') then None else fqdn_scan cs (labels + 1) 0 (Some c)
      else if c = CHR ''-'' then
        if len = 0 then None else if 63 < len + 1 then None else fqdn_scan cs labels (len + 1) (Some c)
      else if is_alnum c then
        if 63 < len + 1 then None else fqdn_scan cs labels (len + 1) (Some c)
      else None)"

definition isValidFQDN :: "string \<Rightarrow> bool" where
  "isValidFQDN s =
     (if s = ''localhost'' then True
      else if isValidIP s then False
      else if s = [] \<or> 253 < length s then False
      else case fqdn_scan (if last s = CHR ''.'' then butlast s else s) 0 0 None of
          None \<Rightarrow> False
        | Some (labels, len, prev) \<Rightarrow> len \<noteq> 0 \<and> prev \<noteq> Some (CHR ''-'') \<and> 2 \<le> labels + 1)"

section \<open>Checks\<close>

datatype config_error = ConfigError string "nat list"

type_synonym check = "config_error + unit"

definition require :: "bool \<Rightarrow> string \<Rightarrow> nat list \<Rightarrow> check" where
  "require b msg ix = (if b then Inr () else Inl (ConfigError msg ix))"

text \<open>\<open>fmt.Errorf("prefix: %w", err)\<close>.\<close>

definition wrap :: "string \<Rightarrow> nat list \<Rightarrow> check \<Rightarrow> check" where
  "wrap pre ix r = (case r of Inr _ \<Rightarrow> Inr () | Inl (ConfigError msg ix') \<Rightarrow> Inl (ConfigError (pre @ '': '' @ msg) (ix @ ix')))"

fun checks :: "check list \<Rightarrow> check" where
  "checks [] = Inr ()"
| "checks (c # cs) = bind_result c (\<lambda>_. checks cs)"

text \<open>A loop over a slice with its index.\<close>

fun for_each :: "nat \<Rightarrow> (nat \<Rightarrow> 'a \<Rightarrow> check) \<Rightarrow> 'a list \<Rightarrow> check" where
  "for_each i f [] = Inr ()"
| "for_each i f (x # xs) = bind_result (f i x) (\<lambda>_. for_each (Suc i) f xs)"

text \<open>A loop that also refuses a value seen before.\<close>

fun for_distinct :: "nat \<Rightarrow> string list \<Rightarrow> (nat \<Rightarrow> string list \<Rightarrow> 'a \<Rightarrow> check) \<Rightarrow> ('a \<Rightarrow> string) \<Rightarrow> 'a list \<Rightarrow> check" where
  "for_distinct i seen f key [] = Inr ()"
| "for_distinct i seen f key (x # xs) = bind_result (f i seen x) (\<lambda>_. for_distinct (Suc i) (key x # seen) f key xs)"

datatype file_status = Missing | Directory | Unreadable | Readable

definition checkFileReadable :: "(string \<Rightarrow> file_status) \<Rightarrow> string \<Rightarrow> check" where
  "checkFileReadable fs path = (case fs path of
     Missing \<Rightarrow> Inl (ConfigError ''cannot stat'' [])
   | Directory \<Rightarrow> Inl (ConfigError ''is a directory, not a file'' [])
   | Unreadable \<Rightarrow> Inl (ConfigError ''cannot open'' [])
   | Readable \<Rightarrow> Inr ())"

definition validateTLS :: "(string \<Rightarrow> file_status) \<Rightarrow> ('a NodeTLSConfig_scheme) \<Rightarrow> check" where
  "validateTLS fs t =
     (if \<not> ntEnabled t then Inr ()
      else checks [
        require (ntCertFile t \<noteq> '''') ''cert_file is required when TLS is enabled'' [],
        require (ntKeyFile t \<noteq> '''') ''key_file is required when TLS is enabled'' [],
        wrap ''cert_file'' [] (checkFileReadable fs (ntCertFile t)),
        wrap ''key_file'' [] (checkFileReadable fs (ntKeyFile t)),
        (if ntCAFile t \<noteq> '''' then wrap ''ca_file'' [] (checkFileReadable fs (ntCAFile t)) else Inr ()),
        require (ntMinVersion t \<in> {'''', ''1.2'', ''1.3''}) ''min_version must be 1.2 or 1.3'' []])"

definition validateAction :: "string \<Rightarrow> check" where
  "validateAction a = require (a \<in> {ActionReject, ActionDrop, ActionLog}) ''must be reject, drop or log'' []"

definition validateRateLimit :: "RateLimitRule \<Rightarrow> check" where
  "validateRateLimit r = checks [
     require (0 \<le> rlRequestsPerSecond r) ''requests_per_second must be >= 0'' [],
     require (0 \<le> rlBurst r) ''burst must be >= 0'' [],
     require (rlAction r \<in> {'''', ActionReject, ActionDrop}) ''action must be reject or drop'' []]"

definition isValidPLMN :: "string \<Rightarrow> bool" where
  "isValidPLMN s \<longleftrightarrow> (length s = 5 \<or> length s = 6) \<and> list_all is_digit s"

section \<open>Zones and partners\<close>

definition validate_zone :: "(string \<Rightarrow> file_status) \<Rightarrow> nat \<Rightarrow> string list \<Rightarrow> ZoneConfig \<Rightarrow> check" where
  "validate_zone fs i seen z = checks [
     require (zName z \<noteq> '''') ''zones[%d].name is required'' [i],
     require (zName z \<notin> set seen) ''zones[%d]: duplicate name'' [i],
     require (zRole z = ZoneRoleInternal \<or> zRole z = ZoneRoleExternal) ''zones[%d].role must be internal or external'' [i],
     require (0 \<le> lnPort (zListen z) \<and> lnPort (zListen z) \<le> 65535) ''zones[%d].listen.port: out of range'' [i],
     for_each 0 (\<lambda>j a. require (isValidIP a) ''zones[%d].listen.addresses[%d]: not a valid IP address'' [i, j]) (lnAddresses (zListen z)),
     wrap ''zones[%d].tls'' [i] (validateTLS fs (zTLS z)),
     require (\<not> (ztRequireClientCertIdentity (zTLS z) \<and> \<not> ntEnabled (zTLS z))) ''zones[%d].tls.require_client_cert_identity requires tls.enabled'' [i],
     require (\<not> (ztRequireClientCertIdentity (zTLS z) \<and> \<not> ntVerifyPeer (zTLS z))) ''zones[%d].tls.require_client_cert_identity requires tls.verify_peer'' [i],
     require (\<not> (ntEnabled (zTLS z) \<and> ntVerifyPeer (zTLS z) \<and> ntCAFile (zTLS z) = '''')) ''zones[%d].tls.verify_peer requires ca_file'' [i],
     require (\<not> (lnEnableTLS (zListen z) \<and> \<not> ntEnabled (zTLS z))) ''zones[%d].listen.enable_tls requires tls.enabled'' [i],
     require (\<not> (ntEnabled (zTLS z) \<and> \<not> lnEnableTCP (zListen z) \<and> \<not> lnEnableTLS (zListen z) \<and> \<not> lnEnableSCTP (zListen z)))
       ''zones[%d]: tls.enabled but no transport is enabled'' [i],
     require (\<not> (zRole z = ZoneRoleExternal \<and> ppAllowUnknown (zPeersPolicy z)))
       ''zones[%d]: peers_policy.allow_unknown is not permitted on an external zone'' [i]]"

text \<open>\<open>peerOwner\<close> maps the identities of the partners before, and of the earlier peers of this one, to their partner.\<close>

definition validate_partner_peer :: "nat \<Rightarrow> nat \<Rightarrow> string list \<Rightarrow> PartnerPeer \<Rightarrow> check" where
  "validate_partner_peer i j owned pp = checks [
     require (prIdentity pp \<noteq> '''') ''partners[%d].peers[%d].identity is required'' [i, j],
     require (isValidFQDN (prIdentity pp)) ''partners[%d].peers[%d].identity: not a valid FQDN'' [i, j],
     require (0 \<le> prWeight pp) ''partners[%d].peers[%d].weight must be >= 0'' [i, j],
     require (prIdentity pp \<notin> set owned) ''partners[%d].peers[%d]: already belongs to a partner'' [i, j]]"

text \<open>\<open>strings.TrimPrefix(realm, "*.")\<close>.\<close>

definition trim_wildcard :: "string \<Rightarrow> string" where
  "trim_wildcard s = (if take 2 s = ''*.'' then drop 2 s else s)"

definition validate_partner :: "(string \<Rightarrow> file_status) \<Rightarrow> string list \<Rightarrow> nat \<Rightarrow> string list \<Rightarrow> string list \<Rightarrow> PartnerConfig \<Rightarrow> check" where
  "validate_partner fs zoneNames i owned seen p = checks [
     require (ptName p \<noteq> '''') ''partners[%d].name is required'' [i],
     require (ptName p \<notin> set seen) ''partners[%d]: duplicate name'' [i],
     require (ptZone p \<noteq> '''') ''partners[%d].zone is required'' [i],
     require (ptZone p \<in> set zoneNames) ''partners[%d].zone: unknown zone'' [i],
     require (ptRealms p \<noteq> []) ''partners[%d].realms is required'' [i],
     for_each 0 (\<lambda>j r. require (trim_wildcard r \<noteq> '''' \<and> isValidFQDN (trim_wildcard r)) ''partners[%d].realms[%d]: not a valid realm'' [i, j]) (ptRealms p),
     for_distinct 0 owned (validate_partner_peer i) prIdentity (ptPeers p),
     for_each 0 (\<lambda>j s. require (isValidPLMN s) ''partners[%d].plmn_ids[%d]: must be 5 or 6 digits'' [i, j]) (ptPLMNIDs p),
     wrap ''partners[%d].screening.default_action'' [i] (validateAction (scDefaultAction (ptScreening p))),
     for_each 0 (\<lambda>_ (rule, a). wrap (''partners[%d].screening.rule_actions['' @ rule @ '']'') [i] (validateAction a)) (scRuleActions (ptScreening p)),
     require (0 \<le> scMaxRouteRecords (ptScreening p)) ''partners[%d].screening.max_route_records must be >= 0'' [i],
     require (thMode (ptTopologyHiding p) \<in> {TopoHideNone, TopoHideStatic, TopoHideStateful}) ''partners[%d].topology_hiding.mode must be none, static or stateful'' [i],
     require (- 1 \<le> thMaxEntries (ptTopologyHiding p)) ''partners[%d].topology_hiding.max_entries must be >= 0, or -1 for unlimited'' [i],
     wrap ''partners[%d].rate_limit'' [i] (validateRateLimit (rpPartner (ptRateLimit p))),
     (case rpPerPeer (ptRateLimit p) of None \<Rightarrow> Inr () | Some r \<Rightarrow> wrap ''partners[%d].rate_limit.per_peer'' [i] (validateRateLimit r)),
     for_each 0 (\<lambda>_ (k, r). wrap ''partners[%d].rate_limit.per_application[%d]'' [i, unat k] (validateRateLimit r)) (rpPerApplication (ptRateLimit p)),
     for_each 0 (\<lambda>_ (k, r). wrap ''partners[%d].rate_limit.per_command[%d]'' [i, unat k] (validateRateLimit r)) (rpPerCommand (ptRateLimit p)),
     (case ptTLS p of None \<Rightarrow> Inr () | Some t \<Rightarrow> wrap ''partners[%d].tls'' [i] (validateTLS fs t))]"

fun validate_partners :: "(string \<Rightarrow> file_status) \<Rightarrow> string list \<Rightarrow> nat \<Rightarrow> string list \<Rightarrow> string list \<Rightarrow> PartnerConfig list \<Rightarrow> check" where
  "validate_partners fs zoneNames i owned seen [] = Inr ()"
| "validate_partners fs zoneNames i owned seen (p # ps) =
     bind_result (validate_partner fs zoneNames i owned seen p)
       (\<lambda>_. validate_partners fs zoneNames (Suc i) (rev (map prIdentity (ptPeers p)) @ owned) (ptName p # seen) ps)"

definition partner_identities :: "PartnerConfig list \<Rightarrow> string list" where
  "partner_identities ps = concat (map (\<lambda>p. map prIdentity (ptPeers p)) ps)"

definition owned_identities :: "NodeConfig \<Rightarrow> string list" where
  "owned_identities c = partner_identities (nPartners c)"

definition externalZones :: "NodeConfig \<Rightarrow> string list" where
  "externalZones c = map zName (filter (\<lambda>z. zRole z = ZoneRoleExternal) (nZones c))"

definition validate_peer_zone :: "NodeConfig \<Rightarrow> nat \<Rightarrow> PeerConfig \<Rightarrow> check" where
  "validate_peer_zone c i pc =
     (if pcZone pc = '''' then Inr ()
      else checks [
        require (pcZone pc \<in> set (map zName (nZones c))) ''peers[%d].zone: unknown zone'' [i],
        require (pcZone pc \<in> set (externalZones c) \<longrightarrow> pcIdentity pc \<in> set (owned_identities c))
          ''peers[%d]: is on an external zone but belongs to no partner'' [i]])"

definition validateEdge :: "(string \<Rightarrow> file_status) \<Rightarrow> NodeConfig \<Rightarrow> check" where
  "validateEdge fs c = checks [
     for_distinct 0 [] (validate_zone fs) zName (nZones c),
     validate_partners fs (map zName (nZones c)) 0 [] [] (nPartners c),
     for_each 0 (validate_peer_zone c) (nPeers c)]"

section \<open>The whole configuration\<close>

definition validate_peer :: "nat \<Rightarrow> PeerConfig \<Rightarrow> check" where
  "validate_peer i pc = checks [
     require (pcIdentity pc \<noteq> '''') ''peers[%d].identity is required'' [i],
     require (isValidFQDN (pcIdentity pc)) ''peers[%d].identity: not a valid FQDN'' [i],
     require (pcAddresses pc \<noteq> []) ''peers[%d].addresses is required'' [i],
     for_each 0 (\<lambda>j a. require (isValidIP a \<or> isValidFQDN a) ''peers[%d].addresses[%d]: not a valid IP or FQDN'' [i, j]) (pcAddresses pc),
     require (0 \<le> pcPort pc \<and> pcPort pc \<le> 65535) ''peers[%d].port: out of range'' [i],
     require (pcNetwork pc \<in> {'''', ''tcp'', ''sctp''}) ''peers[%d].network must be tcp or sctp'' [i]]"

definition validate_application :: "nat \<Rightarrow> ApplicationConfig \<Rightarrow> check" where
  "validate_application i a = checks [
     require (acID a \<noteq> 0) ''applications[%d].id is required'' [i],
     require (acType a = ''auth'' \<or> acType a = ''acct'') ''applications[%d].type must be auth or acct'' [i]]"

definition validate_extension :: "nat \<Rightarrow> string list \<Rightarrow> ExtensionConfig \<Rightarrow> check" where
  "validate_extension i seen x = checks [
     require (ecName x \<noteq> '''') ''extensions[%d].name is required'' [i],
     require (ecName x \<notin> set seen) ''extensions[%d]: duplicate name'' [i]]"

definition validate :: "(string \<Rightarrow> file_status) \<Rightarrow> NodeConfig \<Rightarrow> check" where
  "validate fs c = checks [
     require (nIdentity c \<noteq> '''') ''identity is required'' [],
     require (nRealm c \<noteq> '''') ''realm is required'' [],
     require (isValidFQDN (nIdentity c)) ''invalid identity'' [],
     wrap ''tls'' [] (validateTLS fs (nTLS c)),
     for_each 0 validate_peer (nPeers c),
     for_each 0 validate_application (nApplications c),
     for_each 0 (\<lambda>i a. require (isValidIP a) ''listen.addresses[%d]: not a valid IP address'' [i]) (lnAddresses (nListen c)),
     validateEdge fs c,
     for_distinct 0 [] validate_extension ecName (nExtensions c)]"

text \<open>\<open>Parse\<close> after YAML: defaults, then validation.\<close>

definition Parse :: "(string \<Rightarrow> file_status) \<Rightarrow> NodeConfig \<Rightarrow> config_error + NodeConfig" where
  "Parse fs raw = (let c = applyDefaults raw in bind_result (wrap ''validating config'' [] (validate fs c)) (\<lambda>_. Inr c))"

section \<open>What accepted configurations satisfy\<close>

named_theorems check_simps \<open>acceptance of the checks\<close>

lemma require_ok [check_simps]: "require b msg ix = Inr () \<longleftrightarrow> b"
  by (simp add: require_def)

lemma wrap_ok [check_simps]: "wrap pre ix r = Inr () \<longleftrightarrow> r = Inr ()"
  by (simp add: wrap_def split: sum.splits config_error.splits)

lemma checks_ok [check_simps]: "checks cs = Inr () \<longleftrightarrow> list_all (\<lambda>c. c = Inr ()) cs"
  by (induction cs) (auto simp: bind_result_eq_Inr)

lemma for_each_ok [check_simps]: "for_each i f xs = Inr () \<longleftrightarrow> (\<forall>j < length xs. f (i + j) (xs ! j) = Inr ())"
proof (induction xs arbitrary: i)
  case (Cons x xs)
  show ?case
    by (simp add: bind_result_eq_Inr Cons.IH All_less_Suc2)
qed simp


lemma for_distinct_ok:
  "for_distinct i seen f key xs = Inr () \<longleftrightarrow>
   (\<forall>j < length xs. f (i + j) (rev (map key (take j xs)) @ seen) (xs ! j) = Inr ())"
proof (induction xs arbitrary: i seen)
  case (Cons x xs)
  show ?case
    by (simp add: bind_result_eq_Inr Cons.IH All_less_Suc2)
qed simp

declare checks.simps [simp del] for_each.simps [simp del]

text \<open>A loop whose body refuses the values seen before accepts only lists of different values.\<close>

lemma for_distinct_distinct:
  assumes "for_distinct i seen f key xs = Inr ()"
    and "\<And>i seen x. f i seen x = Inr () \<Longrightarrow> key x \<notin> set seen"
  shows "distinct (map key xs) \<and> set (map key xs) \<inter> set seen = {}"
  using assms(1)
proof (induction xs arbitrary: i seen)
  case (Cons x xs)
  then have "f i seen x = Inr ()" and "for_distinct (Suc i) (key x # seen) f key xs = Inr ()"
    by (simp_all add: bind_result_eq_Inr)
  with Cons.IH assms(2) show ?case by force
qed simp

lemma partner_identities_Cons:
  "partner_identities (p # ps) = map prIdentity (ptPeers p) @ partner_identities ps"
  by (simp add: partner_identities_def)

lemma validate_partners_distinct:
  assumes "validate_partners fs zn i owned seen ps = Inr ()"
  shows "distinct (map ptName ps) \<and> distinct (partner_identities ps) \<and> set (partner_identities ps) \<inter> set owned = {} \<and>
    (\<forall>p \<in> set ps. ptZone p \<in> set zn \<and> ptName p \<noteq> '''' \<and> ptName p \<notin> set seen)"
  using assms
proof (induction ps arbitrary: i owned seen)
  case (Cons p ps)
  define xs where "xs = map prIdentity (ptPeers p)"
  from Cons.prems have p: "validate_partner fs zn i owned seen p = Inr ()"
    and ps: "validate_partners fs zn (Suc i) (rev xs @ owned) (ptName p # seen) ps = Inr ()"
    by (simp_all add: bind_result_eq_Inr xs_def)
  from p have "for_distinct 0 owned (validate_partner_peer i) prIdentity (ptPeers p) = Inr ()"
    and names: "ptName p \<noteq> ''''" "ptName p \<notin> set seen" "ptZone p \<in> set zn"
    by (simp_all add: validate_partner_def check_simps)
  from for_distinct_distinct [OF this(1)] have xs: "distinct xs" "set xs \<inter> set owned = {}"
    unfolding xs_def by (simp_all add: validate_partner_peer_def check_simps)
  have "distinct (partner_identities ps)" "set (partner_identities ps) \<inter> (set xs \<union> set owned) = {}"
    using Cons.IH [OF ps] by simp_all
  with xs have "distinct (xs @ partner_identities ps)" "set (xs @ partner_identities ps) \<inter> set owned = {}"
    unfolding distinct_append set_append by blast+
  then show ?case
    using Cons.IH [OF ps] names by (auto simp add: partner_identities_Cons simp flip: xs_def)
qed (simp add: partner_identities_def)

lemma validateEdge_ok:
  assumes "validateEdge fs c = Inr ()"
  shows "distinct (map zName (nZones c))" and "distinct (map ptName (nPartners c))" and "distinct (owned_identities c)"
    and "\<forall>p \<in> set (nPartners c). ptZone p \<in> zName ` set (nZones c)"
    and "\<forall>pc \<in> set (nPeers c). pcZone pc \<in> set (externalZones c) \<longrightarrow> pcZone pc = '''' \<or> pcIdentity pc \<in> set (owned_identities c)"
    and "\<forall>z \<in> set (nZones c). zRole z = ZoneRoleInternal \<or> zRole z = ZoneRoleExternal"
    and "\<forall>z \<in> set (nZones c). zName z \<noteq> ''''"
    and "\<forall>z \<in> set (nZones c). \<not> (zRole z = ZoneRoleExternal \<and> ppAllowUnknown (zPeersPolicy z))"
proof -
  have zones: "for_distinct 0 [] (validate_zone fs) zName (nZones c) = Inr ()"
    and partners: "validate_partners fs (map zName (nZones c)) 0 [] [] (nPartners c) = Inr ()"
    and peers: "for_each 0 (validate_peer_zone c) (nPeers c) = Inr ()"
    using assms by (simp_all add: validateEdge_def check_simps)
  from for_distinct_distinct [OF zones] show "distinct (map zName (nZones c))"
    by (simp add: validate_zone_def check_simps)
  from validate_partners_distinct [OF partners]
  show "distinct (map ptName (nPartners c))" "distinct (owned_identities c)"
    "\<forall>p \<in> set (nPartners c). ptZone p \<in> zName ` set (nZones c)"
    by (simp_all add: owned_identities_def)
  have "\<forall>pc \<in> set (nPeers c). \<exists>i. validate_peer_zone c i pc = Inr ()"
    using peers by (fastforce simp: check_simps in_set_conv_nth)
  then show "\<forall>pc \<in> set (nPeers c). pcZone pc \<in> set (externalZones c) \<longrightarrow> pcZone pc = '''' \<or> pcIdentity pc \<in> set (owned_identities c)"
    by (auto simp: validate_peer_zone_def check_simps split: if_splits)
  have z: "\<forall>z \<in> set (nZones c). \<exists>i seen. validate_zone fs i seen z = Inr ()"
    using zones by (fastforce simp: for_distinct_ok in_set_conv_nth)
  then show "\<forall>z \<in> set (nZones c). zRole z = ZoneRoleInternal \<or> zRole z = ZoneRoleExternal"
    and "\<forall>z \<in> set (nZones c). zName z \<noteq> ''''"
    and "\<forall>z \<in> set (nZones c). \<not> (zRole z = ZoneRoleExternal \<and> ppAllowUnknown (zPeersPolicy z))"
    by (auto simp: validate_zone_def check_simps)
qed

lemma validate_Edge: "validate fs c = Inr () \<Longrightarrow> validateEdge fs c = Inr ()"
  by (simp add: validate_def check_simps)

end
