(* ===== verification/Edge_Registry.thy ===== *)
theory Edge_Registry
  imports Conf_Validate "HOL-Library.AList" "HOL-Library.List_Lexorder" "HOL-Library.Char_ord"
begin

text \<open>
  File \<open>pkg/core/edge/registry.go\<close>: the index of zones and partners that the edge extensions consult. It is
  rebuilt from a configuration; only the bindings of peers admitted at run time survive a reload.
  Maps that are only looked up are functions, those that are ranged over are association lists.
  \<open>sort.Strings\<close> orders bytewise, which is the lexicographic order of HOL strings here.
\<close>

section \<open>Names\<close>

definition HasPrefix :: "string \<Rightarrow> string \<Rightarrow> bool" where "HasPrefix s p \<longleftrightarrow> take (length p) s = p"

definition HasSuffix :: "string \<Rightarrow> string \<Rightarrow> bool" where
  "HasSuffix s x \<longleftrightarrow> length x \<le> length s \<and> drop (length s - length x) s = x"

definition normalize_name :: "string \<Rightarrow> string" where
  "normalize_name s = ToLower (if HasSuffix s ''.'' then butlast s else s)"

text \<open>\<open>hostRealm\<close>: what follows the first dot.\<close>

definition hostRealm :: "string \<Rightarrow> string" where
  "hostRealm h = (if CHR ''.'' \<in> set h then tl (dropWhile (\<lambda>c. c \<noteq> CHR ''.'') h) else h)"

definition pattern_matches :: "string \<Rightarrow> string \<Rightarrow> bool" where
  "pattern_matches key p \<longleftrightarrow> (if HasPrefix p ''*.'' then HasSuffix key (tl p) else key = p)"

definition RealmMatches :: "string \<Rightarrow> string list \<Rightarrow> bool" where
  "RealmMatches d patterns \<longleftrightarrow> d \<noteq> '''' \<and> (\<exists>p \<in> set patterns. pattern_matches (normalize_name d) (normalize_name p))"

definition HostInRealm :: "string \<Rightarrow> string \<Rightarrow> bool" where
  "HostInRealm h d \<longleftrightarrow> normalize_name h \<noteq> '''' \<and> normalize_name d \<noteq> '''' \<and>
     (normalize_name h = normalize_name d \<or> HasSuffix (normalize_name h) (CHR ''.'' # normalize_name d))"

section \<open>The registry\<close>

record suffixEntry =
  seSuffix :: string
  sePartner :: PartnerConfig

record registry =
  rgZones :: "string \<Rightarrow> ZoneConfig option"
  zoneOrder :: "string list"
  defaultZone :: string
  rgPartners :: "string \<Rightarrow> PartnerConfig option"
  partnerOrder :: "string list"
  partnerByPeer :: "string \<Rightarrow> PartnerConfig option"
  realmExact :: "string \<Rightarrow> PartnerConfig option"
  realmSuffix :: "suffixEntry list"
  peerZone :: "(string \<times> string) list"
  boundPeers :: "string \<Rightarrow> string option"
  servedExact :: "string list"
  servedSuffix :: "string list"
  servedOrder :: "string list"
  rgIdentity :: string
  rgRealm :: string
  rgConfigured :: bool

definition emptyRegistry :: registry where
  "emptyRegistry = \<lparr>rgZones = Map.empty, zoneOrder = [], defaultZone = '''', rgPartners = Map.empty, partnerOrder = [],
     partnerByPeer = Map.empty, realmExact = Map.empty, realmSuffix = [], peerZone = [], boundPeers = Map.empty,
     servedExact = [], servedSuffix = [], servedOrder = [], rgIdentity = '''', rgRealm = '''', rgConfigured = False\<rparr>"

definition reset :: "registry \<Rightarrow> registry" where
  "reset r = emptyRegistry\<lparr>boundPeers := boundPeers r, rgIdentity := rgIdentity r, rgRealm := rgRealm r\<rparr>"

definition isExternalZoneLocked :: "registry \<Rightarrow> string \<Rightarrow> bool" where
  "isExternalZoneLocked r n = (case rgZones r n of None \<Rightarrow> False | Some z \<Rightarrow> IsExternal z)"

definition add_zone :: "ZoneConfig \<Rightarrow> registry \<Rightarrow> registry" where
  "add_zone z r = r\<lparr>rgZones := (rgZones r)(zName z \<mapsto> z), zoneOrder := zoneOrder r @ [zName z],
     defaultZone := (if defaultZone r = '''' \<and> \<not> IsExternal z then zName z else defaultZone r)\<rparr>"

definition fallback_zone :: "registry \<Rightarrow> registry" where
  "fallback_zone r = (if defaultZone r = '''' \<and> zoneOrder r \<noteq> [] then r\<lparr>defaultZone := hd (zoneOrder r)\<rparr> else r)"

definition add_partner_peer :: "PartnerConfig \<Rightarrow> PartnerPeer \<Rightarrow> registry \<Rightarrow> registry" where
  "add_partner_peer p x r = (let i = normalize_name (prIdentity x) in
     r\<lparr>partnerByPeer := (partnerByPeer r)(i \<mapsto> p), peerZone := AList.update i (ptZone p) (peerZone r)\<rparr>)"

definition add_partner_realm :: "PartnerConfig \<Rightarrow> string \<Rightarrow> registry \<Rightarrow> registry" where
  "add_partner_realm p d r = (let d = normalize_name d in
     if HasPrefix d ''*.'' then r\<lparr>realmSuffix := realmSuffix r @ [\<lparr>seSuffix = tl d, sePartner = p\<rparr>]\<rparr>
     else r\<lparr>realmExact := (realmExact r)(d \<mapsto> p)\<rparr>)"

definition add_partner :: "PartnerConfig \<Rightarrow> registry \<Rightarrow> registry" where
  "add_partner p r = fold (add_partner_realm p) (ptRealms p) (fold (add_partner_peer p) (ptPeers p)
     (r\<lparr>rgPartners := (rgPartners r)(ptName p \<mapsto> p), partnerOrder := partnerOrder r @ [ptName p]\<rparr>))"

text \<open>\<open>sort.SliceStable\<close>, longest suffix first.\<close>

definition sort_suffixes :: "registry \<Rightarrow> registry" where
  "sort_suffixes r = r\<lparr>realmSuffix := sort_key (\<lambda>e. - int (length (seSuffix e))) (realmSuffix r)\<rparr>"

definition add_peer :: "PeerConfig \<Rightarrow> registry \<Rightarrow> registry" where
  "add_peer pc r = (let i = normalize_name (pcIdentity pc) in
     if pcZone pc \<noteq> '''' then r\<lparr>peerZone := AList.update i (pcZone pc) (peerZone r)\<rparr>
     else if map_of (peerZone r) i = None then r\<lparr>peerZone := AList.update i (defaultZone r) (peerZone r)\<rparr>
     else r)"

section \<open>Served realms\<close>

definition add_served :: "string \<Rightarrow> registry \<Rightarrow> registry" where
  "add_served d r = (let d = normalize_name d in
     if d = '''' then r
     else if HasPrefix d ''*.'' then
       (if tl d \<in> set (servedSuffix r) then r
        else r\<lparr>servedSuffix := servedSuffix r @ [tl d], servedOrder := servedOrder r @ [d]\<rparr>)
     else if d \<in> set (servedExact r) then r
     else r\<lparr>servedExact := servedExact r @ [d], servedOrder := servedOrder r @ [d]\<rparr>)"

definition internalPeer :: "registry \<Rightarrow> string \<Rightarrow> bool" where
  "internalPeer r i = (let i = normalize_name i in
     partnerByPeer r i = None \<and>
     \<not> isExternalZoneLocked r (case map_of (peerZone r) i of None \<Rightarrow> '''' | Some z \<Rightarrow> z))"

definition rebuildServedLocked :: "NodeConfig \<Rightarrow> registry \<Rightarrow> registry" where
  "rebuildServedLocked c r0 =
     (let r = add_served (nRealm c) r0;
          r = fold (\<lambda>z r. if IsExternal z then r else fold add_served (zRealms z) r) (nZones c) r;
          r = fold (\<lambda>pc r. if internalPeer r0 (pcIdentity pc) then add_served (pcRealm pc) r else r) (nPeers c) r;
          r = fold (\<lambda>(d, hops) r. if hops \<noteq> [] \<and> list_all (internalPeer r0) hops then add_served d r else r)
                (rcRealmRoutes (nRouting c)) r
      in r\<lparr>servedOrder := sort (servedOrder r), servedSuffix := sort_key (\<lambda>s. - int (length s)) (servedSuffix r)\<rparr>)"

definition rebuildLocked :: "NodeConfig option \<Rightarrow> registry \<Rightarrow> registry" where
  "rebuildLocked cfg r = (case cfg of
     None \<Rightarrow> reset r
   | Some c \<Rightarrow>
       (let r = (reset r)\<lparr>rgIdentity := nIdentity c, rgRealm := nRealm c,
              rgConfigured := nZones c \<noteq> [] \<or> nPartners c \<noteq> []\<rparr>;
            r = fallback_zone (fold add_zone (EffectiveZones c) r);
            r = sort_suffixes (fold add_partner (nPartners c) r);
            r = fold add_peer (nPeers c) r
        in rebuildServedLocked c r))"

definition Reload :: "NodeConfig option \<Rightarrow> registry \<Rightarrow> registry" where "Reload cfg r = rebuildLocked cfg r"
definition NewRegistry :: "NodeConfig option \<Rightarrow> registry" where "NewRegistry cfg = Reload cfg emptyRegistry"

section \<open>Lookups\<close>

definition ServesRealm :: "registry \<Rightarrow> string \<Rightarrow> bool" where
  "ServesRealm r d = (let d = normalize_name d in
     d \<noteq> '''' \<and> (d \<in> set (servedExact r) \<or> list_ex (HasSuffix d) (servedSuffix r)))"

definition hostInServedRealmLocked :: "registry \<Rightarrow> string \<Rightarrow> bool" where
  "hostInServedRealmLocked r h \<longleftrightarrow>
     hostRealm h \<in> set (servedExact r) \<or> list_ex (HostInRealm h) (servedExact r) \<or> list_ex (HasSuffix h) (servedSuffix r)"

definition IsInternalHost :: "registry \<Rightarrow> string \<Rightarrow> bool" where
  "IsInternalHost r h = (let h = normalize_name h in
     if h = '''' then False
     else if h = normalize_name (rgIdentity r) then True
     else if partnerByPeer r h \<noteq> None then False
     else case map_of (peerZone r) h of
       Some z \<Rightarrow> \<not> isExternalZoneLocked r z
     | None \<Rightarrow>
         if realmExact r (hostRealm h) \<noteq> None then False
         else if list_ex (\<lambda>e. HasSuffix h (seSuffix e)) (realmSuffix r) then False
         else hostInServedRealmLocked r h)"

definition ServedRealms :: "registry \<Rightarrow> string list" where "ServedRealms r = servedOrder r"
definition Configured :: "registry \<Rightarrow> bool" where "Configured r = rgConfigured r"
definition DefaultZone :: "registry \<Rightarrow> string" where "DefaultZone r = defaultZone r"
definition Zones :: "registry \<Rightarrow> ZoneConfig option list" where "Zones r = map (rgZones r) (zoneOrder r)"
definition Edge_Zone :: "registry \<Rightarrow> string \<Rightarrow> ZoneConfig option" where "Edge_Zone r n = rgZones r n"
definition Partners :: "registry \<Rightarrow> PartnerConfig option list" where "Partners r = map (rgPartners r) (partnerOrder r)"
definition Edge_Partner :: "registry \<Rightarrow> string \<Rightarrow> PartnerConfig option" where "Edge_Partner r n = rgPartners r n"

definition PartnersForZone :: "registry \<Rightarrow> string \<Rightarrow> PartnerConfig list" where
  "PartnersForZone r zone = filter (\<lambda>p. normalize_name (ptZone p) = normalize_name zone) (List.map_filter (rgPartners r) (partnerOrder r))"

definition PartnerForPeer :: "registry \<Rightarrow> string \<Rightarrow> PartnerConfig option" where
  "PartnerForPeer r i =
     (if i = '''' then None
      else case partnerByPeer r (normalize_name i) of
        Some p \<Rightarrow> Some p
      | None \<Rightarrow> (case boundPeers r (normalize_name i) of Some n \<Rightarrow> rgPartners r n | None \<Rightarrow> None))"

definition BindPeer :: "string \<Rightarrow> string \<Rightarrow> registry \<Rightarrow> registry" where
  "BindPeer i partner r =
     (if i = '''' \<or> partner = '''' then r
      else if partnerByPeer r (normalize_name i) \<noteq> None then r
      else r\<lparr>boundPeers := (boundPeers r)(normalize_name i \<mapsto> partner)\<rparr>)"

definition UnbindPeer :: "string \<Rightarrow> registry \<Rightarrow> registry" where
  "UnbindPeer i r = (if i = '''' then r else r\<lparr>boundPeers := (boundPeers r)(normalize_name i := None)\<rparr>)"

definition PartnerForRealm :: "registry \<Rightarrow> string \<Rightarrow> PartnerConfig option" where
  "PartnerForRealm r d =
     (if d = '''' then None
      else case realmExact r (normalize_name d) of
        Some p \<Rightarrow> Some p
      | None \<Rightarrow> map_option sePartner (find (\<lambda>e. HasSuffix (normalize_name d) (seSuffix e)) (realmSuffix r)))"

definition ZoneNameForPeer :: "registry \<Rightarrow> string \<Rightarrow> string" where
  "ZoneNameForPeer r i = (case map_of (peerZone r) (normalize_name i) of Some z \<Rightarrow> z | None \<Rightarrow> defaultZone r)"

definition ZoneForPeer :: "registry \<Rightarrow> string \<Rightarrow> ZoneConfig option" where
  "ZoneForPeer r i = rgZones r (ZoneNameForPeer r i)"

definition IsExternalZone :: "registry \<Rightarrow> string \<Rightarrow> bool" where "IsExternalZone r n = isExternalZoneLocked r n"

definition PeerIdentitiesForZone :: "registry \<Rightarrow> string \<Rightarrow> string list" where
  "PeerIdentitiesForZone r zone = sort (map fst (filter (\<lambda>(i, z). z = zone) (peerZone r)))"

end
