(* ===== verification/Edge_Properties.thy ===== *)
theory Edge_Properties
  imports Edge_Registry
begin

text \<open>
  The properties of the edge registry: what a rebuild puts into the tables, that the realm lookup agrees
  with the partners' patterns and prefers the most specific one, and that a validated configuration
  places no peer on an external zone without the partner whose policies apply to it.
\<close>

section \<open>Accepted configurations\<close>













lemma for_each_all: "for_each i f xs = Inr () \<Longrightarrow> x \<in> set xs \<Longrightarrow> \<exists>i. f i x = Inr ()"
  by (fastforce simp: check_simps in_set_conv_nth)









section \<open>What a rebuild puts into the tables\<close>

definition exact_realms :: "PartnerConfig \<Rightarrow> string list" where
  "exact_realms p = filter (\<lambda>d. \<not> HasPrefix d ''*.'') (map normalize_name (ptRealms p))"

definition wildcard_entries :: "PartnerConfig \<Rightarrow> suffixEntry list" where
  "wildcard_entries p = map (\<lambda>d. \<lparr>seSuffix = tl d, sePartner = p\<rparr>) (filter (\<lambda>d. HasPrefix d ''*.'') (map normalize_name (ptRealms p)))"

definition partner_peer_ids :: "PartnerConfig \<Rightarrow> string list" where
  "partner_peer_ids p = map (\<lambda>x. normalize_name (prIdentity x)) (ptPeers p)"

text \<open>The last partner with a property: later entries of a map overwrite earlier ones.\<close>

definition last_partner :: "(PartnerConfig \<Rightarrow> bool) \<Rightarrow> PartnerConfig list \<Rightarrow> PartnerConfig option" where
  "last_partner P ps = find P (rev ps)"

lemma find_SomeD: "find P xs = Some x \<Longrightarrow> x \<in> set xs \<and> P x"
  by (induction xs) (auto split: if_splits)

lemma last_partner_Some: "last_partner P ps = Some p \<Longrightarrow> p \<in> set ps \<and> P p"
  using find_SomeD [of P "rev ps" p] by (simp add: last_partner_def)

lemma last_partner_None: "last_partner P ps = None \<longleftrightarrow> (\<forall>p \<in> set ps. \<not> P p)"
  by (auto simp: last_partner_def find_None_iff)

lemma last_partner_Cons: "last_partner P (p # ps) = (case last_partner P ps of Some q \<Rightarrow> Some q | None \<Rightarrow> if P p then Some p else None)"
proof -
  have "find P (xs @ [p]) = (case find P xs of Some q \<Rightarrow> Some q | None \<Rightarrow> if P p then Some p else None)" for xs
    by (induction xs) auto
  then show ?thesis by (simp add: last_partner_def)
qed

lemma add_partner_realm_frame [simp]:
  "rgZones (add_partner_realm p d r) = rgZones r" "defaultZone (add_partner_realm p d r) = defaultZone r"
  "partnerByPeer (add_partner_realm p d r) = partnerByPeer r" "peerZone (add_partner_realm p d r) = peerZone r"
  "rgPartners (add_partner_realm p d r) = rgPartners r" "boundPeers (add_partner_realm p d r) = boundPeers r"
  "rgIdentity (add_partner_realm p d r) = rgIdentity r"
  by (simp_all add: add_partner_realm_def Let_def)

lemma add_partner_peer_frame [simp]:
  "rgZones (add_partner_peer p x r) = rgZones r" "defaultZone (add_partner_peer p x r) = defaultZone r"
  "realmExact (add_partner_peer p x r) = realmExact r" "realmSuffix (add_partner_peer p x r) = realmSuffix r"
  "rgPartners (add_partner_peer p x r) = rgPartners r" "boundPeers (add_partner_peer p x r) = boundPeers r"
  "rgIdentity (add_partner_peer p x r) = rgIdentity r"
  by (simp_all add: add_partner_peer_def Let_def)

lemma fold_add_partner_realm:
  "rgZones (fold (add_partner_realm p) ds r) = rgZones r"
  "defaultZone (fold (add_partner_realm p) ds r) = defaultZone r"
  "partnerByPeer (fold (add_partner_realm p) ds r) = partnerByPeer r"
  "peerZone (fold (add_partner_realm p) ds r) = peerZone r"
  "rgPartners (fold (add_partner_realm p) ds r) = rgPartners r"
  "realmSuffix (fold (add_partner_realm p) ds r) =
     realmSuffix r @ map (\<lambda>d. \<lparr>seSuffix = tl d, sePartner = p\<rparr>) (filter (\<lambda>d. HasPrefix d ''*.'') (map normalize_name ds))"
  "realmExact (fold (add_partner_realm p) ds r) =
     (\<lambda>d. if d \<in> set (filter (\<lambda>d. \<not> HasPrefix d ''*.'') (map normalize_name ds)) then Some p else realmExact r d)"
  by (induction ds arbitrary: r) (auto simp: add_partner_realm_def Let_def fun_eq_iff)

lemma fold_add_partner_peer:
  "rgZones (fold (add_partner_peer p) xs r) = rgZones r"
  "defaultZone (fold (add_partner_peer p) xs r) = defaultZone r"
  "realmExact (fold (add_partner_peer p) xs r) = realmExact r"
  "realmSuffix (fold (add_partner_peer p) xs r) = realmSuffix r"
  "rgPartners (fold (add_partner_peer p) xs r) = rgPartners r"
  "partnerByPeer (fold (add_partner_peer p) xs r) =
     (\<lambda>i. if i \<in> set (map (\<lambda>x. normalize_name (prIdentity x)) xs) then Some p else partnerByPeer r i)"
  "map_of (peerZone (fold (add_partner_peer p) xs r)) =
     (\<lambda>i. if i \<in> set (map (\<lambda>x. normalize_name (prIdentity x)) xs) then Some (ptZone p) else map_of (peerZone r) i)"
  by (induction xs arbitrary: r) (auto simp: add_partner_peer_def Let_def fun_eq_iff update_conv')

lemma add_partner_fields:
  "rgZones (add_partner p r) = rgZones r" "defaultZone (add_partner p r) = defaultZone r"
  "realmSuffix (add_partner p r) = realmSuffix r @ wildcard_entries p"
  "realmExact (add_partner p r) = (\<lambda>d. if d \<in> set (exact_realms p) then Some p else realmExact r d)"
  "partnerByPeer (add_partner p r) = (\<lambda>i. if i \<in> set (partner_peer_ids p) then Some p else partnerByPeer r i)"
  "map_of (peerZone (add_partner p r)) = (\<lambda>i. if i \<in> set (partner_peer_ids p) then Some (ptZone p) else map_of (peerZone r) i)"
  by (simp_all add: add_partner_def fold_add_partner_realm fold_add_partner_peer wildcard_entries_def exact_realms_def partner_peer_ids_def
      cong: if_cong)

lemma fold_add_partner:
  "rgZones (fold add_partner ps r) = rgZones r"
  "defaultZone (fold add_partner ps r) = defaultZone r"
  "realmSuffix (fold add_partner ps r) = realmSuffix r @ concat (map wildcard_entries ps)"
  "realmExact (fold add_partner ps r) d = (case last_partner (\<lambda>p. d \<in> set (exact_realms p)) ps of Some p \<Rightarrow> Some p | None \<Rightarrow> realmExact r d)"
  "partnerByPeer (fold add_partner ps r) i = (case last_partner (\<lambda>p. i \<in> set (partner_peer_ids p)) ps of Some p \<Rightarrow> Some p | None \<Rightarrow> partnerByPeer r i)"
  "map_of (peerZone (fold add_partner ps r)) i =
     (case last_partner (\<lambda>p. i \<in> set (partner_peer_ids p)) ps of Some p \<Rightarrow> Some (ptZone p) | None \<Rightarrow> map_of (peerZone r) i)"
  by (induction ps arbitrary: r)
    (simp_all add: add_partner_fields last_partner_Cons last_partner_def [of _ "[]"] split: option.split)

lemma add_zone_frame [simp]:
  "realmSuffix (add_zone z r) = realmSuffix r" "realmExact (add_zone z r) = realmExact r"
  "partnerByPeer (add_zone z r) = partnerByPeer r" "peerZone (add_zone z r) = peerZone r"
  by (simp_all add: add_zone_def)

lemma fold_add_zone:
  "realmSuffix (fold add_zone zs r) = realmSuffix r" "realmExact (fold add_zone zs r) = realmExact r"
  "partnerByPeer (fold add_zone zs r) = partnerByPeer r" "peerZone (fold add_zone zs r) = peerZone r"
  "distinct (map zName zs) \<Longrightarrow> rgZones (fold add_zone zs r) n =
     (case find (\<lambda>z. zName z = n) zs of Some z \<Rightarrow> Some z | None \<Rightarrow> rgZones r n)"
  "\<forall>z \<in> set zs. zName z \<noteq> '''' \<Longrightarrow> defaultZone (fold add_zone zs r) =
     (if defaultZone r \<noteq> '''' then defaultZone r else case find (\<lambda>z. \<not> IsExternal z) zs of Some z \<Rightarrow> zName z | None \<Rightarrow> '''')"
proof (induction zs arbitrary: r)
  case (Cons z zs)
  { case 5
    then have "find (\<lambda>y. zName y = zName z) zs = None" by (force simp: find_None_iff image_iff)
    with 5 show ?case using Cons.IH(5) by (auto simp: add_zone_def split: option.split)
  next
    case 6
    then show ?case using Cons.IH(6) by (auto simp: add_zone_def split: option.split) }
qed (simp_all)


text \<open>The tables that indexing the served realms leaves alone.\<close>

definition lookup_tables :: "registry \<Rightarrow> _" where
  "lookup_tables r = (rgZones r, defaultZone r, rgPartners r, partnerByPeer r, realmExact r, realmSuffix r, peerZone r, boundPeers r, rgIdentity r)"

lemma fold_frame: "(\<And>x r. proj (g x r) = proj r) \<Longrightarrow> proj (fold g xs r) = proj r"
  by (induction xs arbitrary: r) auto

lemma lookup_tables_add_served: "lookup_tables (add_served d r) = lookup_tables r"
  by (simp add: add_served_def lookup_tables_def Let_def)

lemma lookup_tables_served: "lookup_tables (rebuildServedLocked c r) = lookup_tables r"
proof -
  have frame: "lookup_tables (s\<lparr>servedOrder := a, servedSuffix := b\<rparr>) = lookup_tables s" for s a b
    by (simp add: lookup_tables_def)
  show ?thesis
    unfolding rebuildServedLocked_def Let_def frame
    by (simp add: fold_frame [where proj = lookup_tables] lookup_tables_add_served split: prod.split)
qed

lemma add_peer_frame:
  "realmSuffix (fold add_peer pcs r) = realmSuffix r" "realmExact (fold add_peer pcs r) = realmExact r"
  "partnerByPeer (fold add_peer pcs r) = partnerByPeer r" "rgZones (fold add_peer pcs r) = rgZones r"
  "defaultZone (fold add_peer pcs r) = defaultZone r"
  by (induction pcs arbitrary: r) (simp_all add: add_peer_def Let_def)

text \<open>The zone of a peer is one the configuration gives it: its own, its partner's, or the default.\<close>

lemma fold_add_peer_zone:
  "map_of (peerZone (fold add_peer pcs r)) i = Some z \<Longrightarrow>
   map_of (peerZone r) i = Some z \<or> z = defaultZone r \<or> (\<exists>pc \<in> set pcs. normalize_name (pcIdentity pc) = i \<and> pcZone pc = z \<and> z \<noteq> '''')"
proof (induction pcs arbitrary: r)
  case (Cons pc pcs)
  have d: "defaultZone (add_peer pc r) = defaultZone r" by (simp add: add_peer_def Let_def)
  from Cons.IH [of "add_peer pc r"] Cons.prems
  consider "map_of (peerZone (add_peer pc r)) i = Some z" | "z = defaultZone r"
    | "\<exists>pc \<in> set pcs. normalize_name (pcIdentity pc) = i \<and> pcZone pc = z \<and> z \<noteq> ''''"
    by (auto simp: d)
  then show ?case
  proof cases
    case 1
    then show ?thesis by (auto simp: add_peer_def Let_def update_conv' split: if_splits)
  qed auto
qed simp

text \<open>The registry once its zones are in.\<close>

definition rebuilt_zones :: "NodeConfig \<Rightarrow> registry \<Rightarrow> registry" where
  "rebuilt_zones c r = fallback_zone (fold add_zone (EffectiveZones c)
     ((reset r)\<lparr>rgIdentity := nIdentity c, rgRealm := nRealm c, rgConfigured := nZones c \<noteq> [] \<or> nPartners c \<noteq> []\<rparr>))"

lemma Reload_lookup:
  "lookup_tables (Reload (Some c) r) =
   lookup_tables (fold add_peer (nPeers c) (sort_suffixes (fold add_partner (nPartners c) (rebuilt_zones c r))))"
  by (simp add: Reload_def rebuildLocked_def Let_def lookup_tables_served rebuilt_zones_def)

lemma Reload_tables:
  "realmSuffix (Reload (Some c) r) = sort_key (\<lambda>e. - int (length (seSuffix e))) (concat (map wildcard_entries (nPartners c)))"
  "realmExact (Reload (Some c) r) d = last_partner (\<lambda>p. d \<in> set (exact_realms p)) (nPartners c)"
  "partnerByPeer (Reload (Some c) r) i = last_partner (\<lambda>p. i \<in> set (partner_peer_ids p)) (nPartners c)"
  "boundPeers (Reload (Some c) r) = boundPeers r"
proof -
  have base: "realmSuffix (rebuilt_zones c r) = []" "realmExact (rebuilt_zones c r) = Map.empty"
    "partnerByPeer (rebuilt_zones c r) = Map.empty" "boundPeers (rebuilt_zones c r) = boundPeers r"
    unfolding rebuilt_zones_def
    by (simp_all add: fallback_zone_def fold_add_zone reset_def emptyRegistry_def
        fold_frame [where proj = boundPeers and g = add_zone] add_zone_def [THEN arg_cong [where f = boundPeers]])
  have bp: "boundPeers (fold add_peer xs s) = boundPeers s" "boundPeers (fold add_partner ps s) = boundPeers s" for xs ps s
    by (rule fold_frame; simp add: add_peer_def add_partner_def Let_def fold_frame [where proj = boundPeers])+
  note l = Reload_lookup [of c r]
  show "realmSuffix (Reload (Some c) r) = sort_key (\<lambda>e. - int (length (seSuffix e))) (concat (map wildcard_entries (nPartners c)))"
    using l by (simp add: lookup_tables_def add_peer_frame sort_suffixes_def fold_add_partner base)
  show "realmExact (Reload (Some c) r) d = last_partner (\<lambda>p. d \<in> set (exact_realms p)) (nPartners c)"
    using l by (simp add: lookup_tables_def add_peer_frame sort_suffixes_def fold_add_partner base split: option.split)
  show "partnerByPeer (Reload (Some c) r) i = last_partner (\<lambda>p. i \<in> set (partner_peer_ids p)) (nPartners c)"
    using l by (simp add: lookup_tables_def add_peer_frame sort_suffixes_def fold_add_partner base split: option.split)
  show "boundPeers (Reload (Some c) r) = boundPeers r"
    using l by (simp add: lookup_tables_def sort_suffixes_def base bp)
qed


section \<open>Realms\<close>

text \<open>How specific a pattern is for a name: an exact one beats every wildcard, a longer wildcard a shorter one.\<close>

definition pattern_rank :: "string \<Rightarrow> string \<Rightarrow> nat" where
  "pattern_rank key p = (if HasPrefix p ''*.'' then length p else length key + 2)"

definition most_specific :: "PartnerConfig list \<Rightarrow> string \<Rightarrow> string \<Rightarrow> bool" where
  "most_specific ps key x \<longleftrightarrow> (\<forall>q \<in> set ps. \<forall>y \<in> set (ptRealms q).
     pattern_matches key (normalize_name y) \<longrightarrow> pattern_rank key (normalize_name y) \<le> pattern_rank key x)"

lemma wildcard_rank: "HasPrefix p ''*.'' \<Longrightarrow> pattern_matches key p \<Longrightarrow> pattern_rank key p < length key + 2"
  by (cases p) (auto simp: pattern_rank_def pattern_matches_def HasSuffix_def)

lemma find_sorted_least:
  assumes "find P (sort_key f xs) = Some x"
  shows "x \<in> set xs \<and> P x \<and> (\<forall>y \<in> set xs. P y \<longrightarrow> f x \<le> f y)"
proof -
  let ?ys = "sort_key f xs"
  obtain i where i: "i < length ?ys" "P (?ys ! i)" "x = ?ys ! i" "\<forall>j < i. \<not> P (?ys ! j)"
    using assms by (auto simp: find_Some_iff)
  have "f x \<le> f y" if "y \<in> set xs" "P y" for y
  proof -
    from that(1) obtain j where j: "j < length ?ys" "y = ?ys ! j" by (metis in_set_conv_nth set_sort)
    then have "i \<le> j" using i(4) that(2) by (metis not_le)
    moreover have "sorted (map f ?ys)" by simp
    ultimately show ?thesis using i(3) j by (auto simp: sorted_iff_nth_mono)
  qed
  with i show ?thesis by (metis nth_mem set_sort)
qed

lemma RealmMatches_alt:
  "RealmMatches d (ptRealms p) \<longleftrightarrow> d \<noteq> '''' \<and> (normalize_name d \<in> set (exact_realms p) \<or>
     (\<exists>e \<in> set (wildcard_entries p). HasSuffix (normalize_name d) (seSuffix e)))"
  by (auto simp: RealmMatches_def pattern_matches_def exact_realms_def wildcard_entries_def)

text \<open>What the lookup of a realm promises, and the two ways it finds a partner: by the exact realm, or by the longest suffix.\<close>

abbreviation specific_lookup :: "NodeConfig \<Rightarrow> registry \<Rightarrow> string \<Rightarrow> bool" where
  "specific_lookup c r d \<equiv> (PartnerForRealm (Reload (Some c) r) d \<noteq> None) = list_ex (\<lambda>p. RealmMatches d (ptRealms p)) (nPartners c) \<and>
     (case PartnerForRealm (Reload (Some c) r) d of None \<Rightarrow> True
      | Some p \<Rightarrow> p \<in> set (nPartners c) \<and>
         (\<exists>x \<in> set (ptRealms p). pattern_matches (normalize_name d) (normalize_name x) \<and>
            most_specific (nPartners c) (normalize_name d) (normalize_name x)))"

lemma exact_lookup:
  assumes "d \<noteq> ''''" and "realmExact (Reload (Some c) r) (normalize_name d) = Some p"
  shows "specific_lookup c r d"
proof -
  let ?k = "normalize_name d"
  note t = Reload_tables(1,2)
  have p: "p \<in> set (nPartners c)" "?k \<in> set (exact_realms p)"
    using last_partner_Some assms(2) by (simp_all add: t(2)) blast+
  then obtain x where x: "x \<in> set (ptRealms p)" "normalize_name x = ?k" "\<not> HasPrefix ?k ''*.''"
    by (auto simp: exact_realms_def)
  have "pattern_rank ?k y \<le> pattern_rank ?k ?k" if "pattern_matches ?k y" for y
    using that wildcard_rank [of y ?k] x(3) by (cases "HasPrefix y ''*.''") (simp_all add: pattern_rank_def)
  moreover have "pattern_matches ?k (normalize_name x)"
    using x by (simp add: pattern_matches_def)
  ultimately show ?thesis
    using assms p x by (auto simp: PartnerForRealm_def list_ex_iff most_specific_def RealmMatches_alt intro!: bexI [of _ x])
qed

lemma wildcard_lookup:
  assumes False: "d \<noteq> ''''" and none: "realmExact (Reload (Some c) r) (normalize_name d) = None"
  shows "specific_lookup c r d"
proof -
  let ?k = "normalize_name d"
  let ?es = "concat (map wildcard_entries (nPartners c))"
  note t = Reload_tables(1,2)
  have no: "\<forall>p \<in> set (nPartners c). ?k \<notin> set (exact_realms p)"
    using none by (simp add: t(2) last_partner_None)
  have look: "PartnerForRealm (Reload (Some c) r) d =
      map_option sePartner (find (\<lambda>e. HasSuffix ?k (seSuffix e)) (sort_key (\<lambda>e. - int (length (seSuffix e))) ?es))"
    using none False by (simp add: PartnerForRealm_def t(1))
  show ?thesis
  proof (cases "find (\<lambda>e. HasSuffix ?k (seSuffix e)) (sort_key (\<lambda>e. - int (length (seSuffix e))) ?es)")
    case None
    then have "\<forall>p \<in> set (nPartners c). \<forall>e \<in> set (wildcard_entries p). \<not> HasSuffix ?k (seSuffix e)"
      by (auto simp: find_None_iff)
    with no have "\<not> list_ex (\<lambda>p. RealmMatches d (ptRealms p)) (nPartners c)"
      by (auto simp: list_ex_iff RealmMatches_alt)
    then show ?thesis using None look by simp
  next
    case (Some e)
    from find_sorted_least [OF Some]
    have e: "e \<in> set ?es" "HasSuffix ?k (seSuffix e)"
      "\<forall>y \<in> set ?es. HasSuffix ?k (seSuffix y) \<longrightarrow> length (seSuffix y) \<le> length (seSuffix e)"
      by auto
    then obtain p x where p: "p \<in> set (nPartners c)" "x \<in> set (ptRealms p)" "HasPrefix (normalize_name x) ''*.''"
      "e = \<lparr>seSuffix = tl (normalize_name x), sePartner = p\<rparr>"
      by (auto simp: wildcard_entries_def)
    have best: "pattern_rank ?k (normalize_name y) \<le> pattern_rank ?k (normalize_name x)"
      if q: "q \<in> set (nPartners c)" "y \<in> set (ptRealms q)" "pattern_matches ?k (normalize_name y)" for q y
    proof -
      have wild: "HasPrefix (normalize_name y) ''*.''"
        using no q by (auto simp: pattern_matches_def exact_realms_def split: if_splits)
      then have "HasSuffix ?k (tl (normalize_name y))"
        using q(3) by (simp add: pattern_matches_def)
      moreover from q(1,2) wild have "\<lparr>seSuffix = tl (normalize_name y), sePartner = q\<rparr> \<in> set ?es"
        by (auto simp: wildcard_entries_def)
      ultimately have "length (tl (normalize_name y)) \<le> length (tl (normalize_name x))"
        using e(3) p(4) by fastforce
      moreover have "0 < length (normalize_name x)" "0 < length (normalize_name y)"
        using p(3) wild by (auto simp: HasPrefix_def)
      ultimately have "length (normalize_name y) \<le> length (normalize_name x)"
        unfolding length_tl by linarith
      then show ?thesis using wild p(3) by (simp add: pattern_rank_def)
    qed
    have m: "pattern_matches ?k (normalize_name x)"
      using p(3,4) e(2) by (simp add: pattern_matches_def)
    then have "RealmMatches d (ptRealms p)"
      using False p(2) by (auto simp: RealmMatches_def)
    then show ?thesis
      using Some look p best m by (auto simp: list_ex_iff most_specific_def)
  qed
qed

lemma lookup_most_specific: "specific_lookup c r d"
proof (cases "d = '''' \<or> realmExact (Reload (Some c) r) (normalize_name d) \<noteq> None")
  case True
  then show ?thesis using exact_lookup by (cases "d = ''''") (auto simp: PartnerForRealm_def RealmMatches_def list_ex_iff)
qed (use wildcard_lookup in blast)

text \<open>
  C17: the realm lookup of the registry agrees with the partners' patterns. After a rebuild, \<open>PartnerForRealm\<close>
  finds a partner exactly when some partner has a pattern that matches the realm in the sense of
  \<open>RealmMatches\<close>; the partner it finds has one, and no partner has a more specific one: an exact
  realm beats every wildcard, a longer wildcard a shorter one, whatever the order of the configuration.
\<close>
theorem partner_for_realm_most_specific:
  "(PartnerForRealm (Reload (Some c) r) d \<noteq> None) = list_ex (\<lambda>p. RealmMatches d (ptRealms p)) (nPartners c) \<and>
   (case PartnerForRealm (Reload (Some c) r) d of None \<Rightarrow> True
    | Some p \<Rightarrow> p \<in> set (nPartners c) \<and>
       (\<exists>x \<in> set (ptRealms p). pattern_matches (normalize_name d) (normalize_name x) \<and>
          most_specific (nPartners c) (normalize_name d) (normalize_name x)))"
  by (rule lookup_most_specific)

section \<open>Peers on external zones\<close>

lemma validated_zones:
  assumes "validateEdge fs c = Inr ()"
  shows "distinct (map zName (EffectiveZones c))" and "\<forall>z \<in> set (EffectiveZones c). zName z \<noteq> ''''"
  using validateEdge_ok(1,7) [OF assms] by (auto simp: EffectiveZones_def DefaultZoneName_def)

lemma Reload_zones:
  assumes "validateEdge fs c = Inr ()"
  shows "rgZones (Reload (Some c) r) n = find (\<lambda>z. zName z = n) (EffectiveZones c)"
    and "defaultZone (Reload (Some c) r) = (case find (\<lambda>z. \<not> IsExternal z) (EffectiveZones c) of Some z \<Rightarrow> zName z
      | None \<Rightarrow> zName (hd (EffectiveZones c)))"
    and "map_of (peerZone (Reload (Some c) r)) i = Some z \<Longrightarrow>
      (\<exists>p. last_partner (\<lambda>p. i \<in> set (partner_peer_ids p)) (nPartners c) = Some p \<and> z = ptZone p) \<or>
      z = defaultZone (Reload (Some c) r) \<or>
      (\<exists>pc \<in> set (nPeers c). normalize_name (pcIdentity pc) = i \<and> pcZone pc = z \<and> z \<noteq> '''')"
proof -
  note zones = validated_zones [OF assms]
  define start where "start = (reset r)\<lparr>rgIdentity := nIdentity c, rgRealm := nRealm c, rgConfigured := nZones c \<noteq> [] \<or> nPartners c \<noteq> []\<rparr>"
  have start: "rgZones start = Map.empty" "defaultZone start = ''''" "peerZone start = []" "zoneOrder start = []"
    by (simp_all add: start_def reset_def emptyRegistry_def)
  define base where "base = fallback_zone (fold add_zone (EffectiveZones c) start)"
  have order: "zoneOrder (fold add_zone zs s) = zoneOrder s @ map zName zs" for zs s
    by (induction zs arbitrary: s) (simp_all add: add_zone_def)
  have ne: "EffectiveZones c \<noteq> []" by (simp add: EffectiveZones_def)
  have base: "rgZones base n = find (\<lambda>z. zName z = n) (EffectiveZones c)" "peerZone base = []" for n
    using zones by (simp_all add: base_def fallback_zone_def fold_add_zone start split: option.split)
  have base_default: "defaultZone base = (case find (\<lambda>z. \<not> IsExternal z) (EffectiveZones c) of Some z \<Rightarrow> zName z | None \<Rightarrow> zName (hd (EffectiveZones c)))"
  proof (cases "find (\<lambda>z. \<not> IsExternal z) (EffectiveZones c)")
    case None
    with zones ne show ?thesis by (simp add: base_def fallback_zone_def fold_add_zone start order hd_map)
  next
    case (Some z)
    with zones find_SomeD [OF Some] show ?thesis by (simp add: base_def fallback_zone_def fold_add_zone start order)
  qed
  let ?p = "sort_suffixes (fold add_partner (nPartners c) base)"
  have l: "lookup_tables (Reload (Some c) r) = lookup_tables (fold add_peer (nPeers c) ?p)"
    using Reload_lookup [of c r] by (simp add: rebuilt_zones_def base_def start_def)
  show "rgZones (Reload (Some c) r) n = find (\<lambda>z. zName z = n) (EffectiveZones c)"
    using l by (simp add: lookup_tables_def add_peer_frame sort_suffixes_def fold_add_partner base)
  have d: "defaultZone (Reload (Some c) r) = defaultZone base"
    using l by (simp add: lookup_tables_def add_peer_frame sort_suffixes_def fold_add_partner)
  then show "defaultZone (Reload (Some c) r) = (case find (\<lambda>z. \<not> IsExternal z) (EffectiveZones c) of Some z \<Rightarrow> zName z
      | None \<Rightarrow> zName (hd (EffectiveZones c)))"
    by (simp add: base_default)
  assume "map_of (peerZone (Reload (Some c) r)) i = Some z"
  then have "map_of (peerZone (fold add_peer (nPeers c) ?p)) i = Some z"
    using l by (simp add: lookup_tables_def)
  from fold_add_peer_zone [OF this]
  show "(\<exists>p. last_partner (\<lambda>p. i \<in> set (partner_peer_ids p)) (nPartners c) = Some p \<and> z = ptZone p) \<or>
      z = defaultZone (Reload (Some c) r) \<or>
      (\<exists>pc \<in> set (nPeers c). normalize_name (pcIdentity pc) = i \<and> pcZone pc = z \<and> z \<noteq> '''')"
    by (auto simp: d sort_suffixes_def fold_add_partner base split: option.splits)
qed

lemma find_distinct: "distinct (map f xs) \<Longrightarrow> x \<in> set xs \<Longrightarrow> find (\<lambda>y. f y = f x) xs = Some x"
  by (induction xs) auto

lemma external_zone_name:
  assumes "validateEdge fs c = Inr ()" and "IsExternalZone (Reload (Some c) r) n"
  shows "n \<in> set (externalZones c)"
proof -
  from assms(2) obtain z where z: "find (\<lambda>z. zName z = n) (EffectiveZones c) = Some z" "IsExternal z"
    by (auto simp: IsExternalZone_def isExternalZoneLocked_def Reload_zones [OF assms(1)] split: option.splits)
  then have "z \<in> set (EffectiveZones c)" "zName z = n"
    using find_SomeD by fastforce+
  with z(2) show ?thesis
    by (auto simp: externalZones_def IsExternal_def EffectiveZones_def ZoneRoleInternal_def ZoneRoleExternal_def split: if_splits)
qed

text \<open>
  C18: a peer of a validated configuration that sits on an external zone belongs to a partner, so the partner's screening, rate limit and
  topology hiding apply to it, if its entry names a zone, or the configuration has an internal zone (or no zones at all) for the peers
  without a zone to default to. Without this condition it fails (\<open>external_default_zone_escapes_the_check\<close>).
\<close>
theorem external_peer_has_partner:
  assumes "validate fs c = Inr ()" and "pcZone pc \<noteq> '''' \<or> nZones c = [] \<or> list_ex (\<lambda>z. \<not> IsExternal z) (nZones c)"
    and "pc \<in> set (nPeers c)"
    and "IsExternalZone (Reload (Some c) r) (ZoneNameForPeer (Reload (Some c) r) (pcIdentity pc))"
  shows "\<exists>p. PartnerForPeer (Reload (Some c) r) (pcIdentity pc) = Some p \<and> p \<in> set (nPartners c)"
proof -
  let ?r = "Reload (Some c) r" and ?i = "normalize_name (pcIdentity pc)"
  note edge = validate_Edge [OF assms(1)]
  have ext: "ZoneNameForPeer ?r (pcIdentity pc) \<in> set (externalZones c)"
    using external_zone_name [OF edge assms(4)] .
  have id: "pcIdentity pc \<noteq> ''''"
  proof -
    have "for_each 0 validate_peer (nPeers c) = Inr ()" using assms(1) by (simp add: validate_def check_simps)
    then show ?thesis using assms(3) by (fastforce simp: check_simps validate_peer_def in_set_conv_nth)
  qed
  have claimed: "\<exists>p \<in> set (nPartners c). ?i \<in> set (partner_peer_ids p)" if "pcIdentity q \<in> set (owned_identities c)" "normalize_name (pcIdentity q) = ?i" for q
    using that by (force simp: owned_identities_def partner_identities_def partner_peer_ids_def)
  have "\<exists>p \<in> set (nPartners c). ?i \<in> set (partner_peer_ids p)"
  proof (cases "nZones c = [] \<or> list_ex (\<lambda>z. \<not> IsExternal z) (nZones c)")
    case False
    then have "pcZone pc \<noteq> ''''" using assms(2) by simp
    moreover obtain j where "validate_peer_zone c j pc = Inr ()"
      using edge assms(3) for_each_all [of 0 "validate_peer_zone c" "nPeers c" pc] by (auto simp: validateEdge_def check_simps)
    ultimately have "pcZone pc \<in> set (map zName (nZones c))" by (simp add: validate_peer_zone_def check_simps)
    then have "pcZone pc \<in> set (externalZones c)"
      using False by (auto simp: externalZones_def list_ex_iff IsExternal_def)
    then show ?thesis
      using validateEdge_ok(5) [OF edge] assms(3) \<open>pcZone pc \<noteq> ''''\<close> by (intro claimed [of pc]) auto
  next
    case True
    have "\<exists>z \<in> set (EffectiveZones c). \<not> IsExternal z"
      using True by (auto simp: EffectiveZones_def list_ex_iff IsExternal_def ZoneRoleInternal_def ZoneRoleExternal_def)
    then obtain z where z: "find (\<lambda>z. \<not> IsExternal z) (EffectiveZones c) = Some z"
      by (metis find_None_iff option.exhaust)
    then have "\<not> IsExternal z" "z \<in> set (EffectiveZones c)" using find_SomeD [OF z] by auto
    then have "find (\<lambda>y. zName y = zName z) (EffectiveZones c) = Some z"
      using find_distinct [OF validated_zones(1) [OF edge], of z] by simp
    then have default: "\<not> IsExternalZone ?r (defaultZone ?r)"
      using \<open>\<not> IsExternal z\<close> z by (simp add: IsExternalZone_def isExternalZoneLocked_def Reload_zones [OF edge])
    then obtain n where n: "map_of (peerZone ?r) ?i = Some n" "n \<in> set (externalZones c)" "n \<noteq> defaultZone ?r"
      using assms(4) ext by (auto simp: ZoneNameForPeer_def split: option.splits)
    have "\<exists>p \<in> set (nPartners c). ?i \<in> set (partner_peer_ids p)"
      using Reload_zones(3) [OF edge n(1)]
    proof (elim disjE bexE exE conjE)
      fix p assume "last_partner (\<lambda>p. ?i \<in> set (partner_peer_ids p)) (nPartners c) = Some p"
      then show ?thesis using last_partner_Some by fastforce
    next
      fix q assume q: "q \<in> set (nPeers c)" "normalize_name (pcIdentity q) = ?i" "pcZone q = n" "n \<noteq> ''''"
      then have "pcIdentity q \<in> set (owned_identities c)"
        using validateEdge_ok(5) [OF edge] n(2) by auto
      then show ?thesis using claimed q(2) by blast
    qed (use n in auto)
    then show ?thesis .
  qed
  then obtain p where "partnerByPeer ?r ?i = Some p"
    by (metis Reload_tables(3) last_partner_None not_None_eq)
  moreover from this have "p \<in> set (nPartners c)"
    using last_partner_Some by (auto simp: Reload_tables(3))
  ultimately show ?thesis using id by (simp add: PartnerForPeer_def)
qed


text \<open>A configuration with one partner, peer \<open>e.c.d\<close>, and one more peer \<open>x.y\<close>; its zones are an argument.\<close>

definition sample_zone :: "string \<Rightarrow> string \<Rightarrow> ZoneConfig" where
  "sample_zone n role = \<lparr>zName = n, zRole = role, zRealms = [],
     zListen = \<lparr>lnAddresses = [], lnPort = 3868, lnSecurePort = 5868, lnEnableTCP = True, lnEnableTLS = False, lnEnableSCTP = False\<rparr>,
     zTLS = \<lparr>ntEnabled = False, ntCertFile = '''', ntKeyFile = '''', ntCAFile = '''', ntVerifyPeer = False, ntMinVersion = ''1.2'',
       ztRequireClientCertIdentity = False\<rparr>,
     zPeersPolicy = \<lparr>ppAllowUnknown = False, ppAllowIdentities = []\<rparr>, zImplicit = False\<rparr>"

definition sample_partner :: PartnerConfig where
  "sample_partner = \<lparr>ptName = ''p'', ptZone = ''ipx'', ptRealms = [''*.c.d''],
     ptPeers = [\<lparr>prIdentity = ''e.c.d'', prPriority = 0, prWeight = 1\<rparr>], ptPLMNIDs = [], ptApplications = [], ptCommands = [],
     ptAllowTransit = False,
     ptScreening = \<lparr>scEnabled = None, scDefaultAction = ''reject'', scRejectResultCode = 5003, scMaxRouteRecords = 0,
       scCheckOriginRealm = None, scCheckOriginHost = None, scCheckPeerIdentity = None, scCheckDestinationRealm = None,
       scCheckPLMN = None, scCheckApplications = None, scCheckCommands = None, scDenyAVPs = [], scAllowAVPs = [], scRuleActions = []\<rparr>,
     ptTopologyHiding = \<lparr>thMode = ''none'', thEdgeIdentity = ''a.b'', thPseudonymPrefix = ''th'', thPseudonymRealm = ''b'', thTTL = 1,
       thMaxEntries = 10, thHideOriginRealm = None, thHideRouteRecords = None, thHideProxyInfo = None,
       thHideErrorReportingHost = None, thHideHostIPAddress = None, thHideOriginStateID = None, thScrubAVPs = []\<rparr>,
     ptRateLimit = \<lparr>rpEnabled = False, rpPartner = \<lparr>rlRequestsPerSecond = 0, rlBurst = 0, rlAction = ''reject'', rlResultCode = 3004\<rparr>,
       rpPerPeer = None, rpPerApplication = [], rpPerCommand = []\<rparr>, ptTLS = None\<rparr>"

definition sample_peer :: "string \<Rightarrow> string \<Rightarrow> PeerConfig" where
  "sample_peer i z = \<lparr>pcIdentity = i, pcRealm = '''', pcAddresses = [i], pcPort = 3868, pcNetwork = ''tcp'', pcTLS = False,
     pcTLSOptional = False, pcConnectOnStart = False, pcPersistent = False, pcReconnectInterval = 1, pcZone = z\<rparr>"

definition sample_node :: "ZoneConfig list \<Rightarrow> NodeConfig" where
  "sample_node zs = \<lparr>nIdentity = ''a.b'', nRealm = ''b'',
     nListen = \<lparr>lnAddresses = [], lnPort = 3868, lnSecurePort = 5868, lnEnableTCP = True, lnEnableTLS = False, lnEnableSCTP = False\<rparr>,
     nTLS = \<lparr>ntEnabled = False, ntCertFile = '''', ntKeyFile = '''', ntCAFile = '''', ntVerifyPeer = False, ntMinVersion = ''''\<rparr>,
     nLocal = \<lparr>nlVendorID = 0, nlProductName = ''godiam'', nlFirmwareRevision = 0, nlWatchdogInterval = 1, nlConnectTimeout = 1, nlRequestTimeout = 1\<rparr>,
     nPeers = [sample_peer ''e.c.d'' ''ipx'', sample_peer ''x.y'' ''''], nPeersPolicy = \<lparr>ppAllowUnknown = False, ppAllowIdentities = []\<rparr>,
     nZones = zs, nPartners = [sample_partner], nApplications = [],
     nRouting = \<lparr>rcDefaultRealm = '''', rcRealmRoutes = [], rcHostRoutes = [], rcRelayEnabled = True, rcDynamicRealmPeers = False,
       rcDynamicRealmAllowIdentities = []\<rparr>, nExtensions = []\<rparr>"

lemma sample_names:
  "isValidFQDN ''a.b''" "isValidFQDN ''c.d''" "isValidFQDN ''e.c.d''" "isValidFQDN ''x.y''"
  by (simp_all add: isValidFQDN_def isValidIP_def is_alnum_def is_digit_def)

lemma sample_zone_ok:
  assumes "n \<noteq> ''''" "n \<notin> set seen" "role = ''internal'' \<or> role = ''external''"
  shows "validate_zone fs i seen (sample_zone n role) = Inr ()"
  using assms by (auto simp: validate_zone_def check_simps sample_zone_def ZoneRoleInternal_def ZoneRoleExternal_def validateTLS_def)

lemma sample_partner_ok:
  assumes "''ipx'' \<in> set zn"
  shows "validate_partner fs zn i [] [] sample_partner = Inr ()"
  using assms
  by (simp add: validate_partner_def check_simps sample_partner_def trim_wildcard_def sample_names bind_result_eq_Inr validate_partner_peer_def
      validateAction_def ActionReject_def TopoHideNone_def validateRateLimit_def)

lemma sample_peer_ok: "isValidFQDN n \<Longrightarrow> n \<noteq> '''' \<Longrightarrow> validate_peer i (sample_peer n z) = Inr ()"
  by (simp add: validate_peer_def check_simps sample_peer_def)

lemma sample_validate:
  assumes "for_distinct 0 [] (validate_zone fs) zName zs = Inr ()" "''ipx'' \<in> set (map zName zs)"
  shows "validate fs (sample_node zs) = Inr ()"
proof -
  have "validate_partners fs (map zName zs) 0 [] [] [sample_partner] = Inr ()"
    using assms(2) by (simp add: bind_result_eq_Inr sample_partner_ok)
  moreover have "''e.c.d'' \<in> set (owned_identities (sample_node zs))"
    by (simp add: owned_identities_def partner_identities_def sample_node_def sample_partner_def)
  ultimately have "validateEdge fs (sample_node zs) = Inr ()"
    using assms by (simp add: validateEdge_def check_simps sample_node_def All_less_Suc2 validate_peer_zone_def sample_peer_def)
  then show ?thesis
    by (simp add: validate_def check_simps All_less_Suc2 sample_names sample_peer_ok validateTLS_def for_distinct_ok)
      (simp add: sample_node_def All_less_Suc2 sample_names sample_peer_ok)
qed

text \<open>All zones of the first configuration are external; the second has an internal zone as well.\<close>

definition sample_external :: NodeConfig where
  "sample_external = sample_node [sample_zone ''ipx'' ''external'']"

definition sample_mixed :: NodeConfig where
  "sample_mixed = sample_node [sample_zone ''core'' ''internal'', sample_zone ''ipx'' ''external'']"

lemma sample_valid: "validate fs sample_external = Inr ()" "validate fs sample_mixed = Inr ()"
  unfolding sample_external_def sample_mixed_def
  by (rule sample_validate; simp add: bind_result_eq_Inr sample_zone_ok sample_zone_def [THEN arg_cong [where f = zName]])+


lemma sample_normalize:
  "normalize_name ''e.c.d'' = ''e.c.d''" "normalize_name ''x.y'' = ''x.y''" "normalize_name ''*.c.d'' = ''*.c.d''"
  by (simp_all add: normalize_name_def HasSuffix_def ToLower_def lower_char_def)

lemma sample_fields:
  "EffectiveZones sample_mixed = [sample_zone ''core'' ''internal'', sample_zone ''ipx'' ''external'']"
  "EffectiveZones sample_external = [sample_zone ''ipx'' ''external'']"
  "nPartners sample_mixed = [sample_partner]" "nPartners sample_external = [sample_partner]"
  "nPeers sample_mixed = [sample_peer ''e.c.d'' ''ipx'', sample_peer ''x.y'' '''']"
  "nPeers sample_external = [sample_peer ''e.c.d'' ''ipx'', sample_peer ''x.y'' '''']"
  "nZones sample_mixed = EffectiveZones sample_mixed"
  "zName (sample_zone n role) = n" "IsExternal (sample_zone n role) \<longleftrightarrow> role = ''external''"
  "ptZone sample_partner = ''ipx''" "partner_peer_ids sample_partner = [''e.c.d'']"
  "pcIdentity (sample_peer i z) = i" "pcZone (sample_peer i z) = z"
  by (simp_all add: sample_mixed_def sample_external_def sample_node_def EffectiveZones_def sample_zone_def IsExternal_def
      ZoneRoleExternal_def sample_peer_def sample_partner_def partner_peer_ids_def sample_normalize)

lemma sample_peerZone:
  "map_of (peerZone (Reload (Some sample_mixed) r)) ''e.c.d'' = Some ''ipx''"
  "map_of (peerZone (Reload (Some sample_external) r)) ''x.y'' = Some ''ipx''"
  using arg_cong [OF Reload_lookup [of sample_mixed r], of "\<lambda>(_, _, _, _, _, _, pz, _, _). map_of pz ''e.c.d''"]
    arg_cong [OF Reload_lookup [of sample_external r], of "\<lambda>(_, _, _, _, _, _, pz, _, _). map_of pz ''x.y''"]
  by (simp_all add: lookup_tables_def sample_fields add_peer_def Let_def sample_normalize update_conv' sort_suffixes_def add_partner_fields
      if_distrib [of peerZone] if_distrib [of map_of] rebuilt_zones_def fallback_zone_def add_zone_def reset_def emptyRegistry_def)

lemmas sample_zones = sample_fields Reload_zones [OF validate_Edge [OF sample_valid(1)]] Reload_zones [OF validate_Edge [OF sample_valid(2)]]

theorem external_peer_has_partner_witness:
  "PartnerForPeer (Reload (Some sample_mixed) emptyRegistry) ''e.c.d'' = Some sample_partner"
proof -
  let ?r = "Reload (Some sample_mixed) emptyRegistry"
  have "IsExternalZone ?r (ZoneNameForPeer ?r ''e.c.d'')"
    by (simp add: ZoneNameForPeer_def sample_normalize sample_peerZone IsExternalZone_def isExternalZoneLocked_def sample_zones)
  then have "\<exists>p. PartnerForPeer ?r ''e.c.d'' = Some p \<and> p \<in> set (nPartners sample_mixed)"
    using external_peer_has_partner [OF sample_valid(2), of "sample_peer ''e.c.d'' ''ipx''" emptyRegistry]
    by (simp add: sample_fields)
  then show ?thesis by (simp add: sample_fields)
qed

text \<open>
  The check that a peer on an external zone has a partner looks at the zone named in the peer's own entry only. A
  configuration all of whose zones are external is accepted with a peer that names no zone and belongs to no
  partner; the registry then places that peer on the first zone, which is external, with no partner whose policies would apply.
\<close>
theorem external_default_zone_escapes_the_check:
  "validate fs sample_external = Inr () \<and> sample_peer ''x.y'' '''' \<in> set (nPeers sample_external) \<and>
   IsExternalZone (Reload (Some sample_external) emptyRegistry) (ZoneNameForPeer (Reload (Some sample_external) emptyRegistry) ''x.y'') \<and>
   PartnerForPeer (Reload (Some sample_external) emptyRegistry) ''x.y'' = None"
  (is "_ \<and> _ \<and> ?zone \<and> ?partner")
proof -
  have ?zone
    by (simp add: ZoneNameForPeer_def sample_normalize sample_peerZone IsExternalZone_def isExternalZoneLocked_def sample_zones)
  moreover have ?partner
    by (simp add: PartnerForPeer_def Reload_tables sample_fields last_partner_def sample_normalize
        emptyRegistry_def)
  ultimately show ?thesis by (simp add: sample_valid) (simp add: sample_fields)
qed

end
