(* ===== verification/Ext_Common.thy ===== *)
theory Ext_Common
  imports Conf_Validate
begin

text \<open>
  What the extensions share: how they read their options, \<open>time.ParseDuration\<close>, the identities' normal form, and the
  interface of a store whose entries expire, with the facts its clients rely on.
\<close>

section \<open>Options of an extension\<close>

text \<open>The type switch over \<open>int\<close> and \<open>float64\<close>; \<open>int(n)\<close> truncates toward zero.\<close>

definition truncate :: "rat \<Rightarrow> int" where
  "truncate q = (if 0 \<le> q then \<lfloor>q\<rfloor> else - \<lfloor>- q\<rfloor>)"

fun as_int :: "yaml_value \<Rightarrow> int option" where
  "as_int (YInt n) = Some n"
| "as_int (YFloat q) = Some (truncate q)"
| "as_int _ = None"

fun as_bool :: "yaml_value \<Rightarrow> bool option" where
  "as_bool (YBool b) = Some b"
| "as_bool _ = None"

fun as_string :: "yaml_value \<Rightarrow> string option" where
  "as_string (YString s) = Some s"
| "as_string _ = None"

type_synonym ext_config = "(string \<times> yaml_value) list"

definition option_of :: "(yaml_value \<Rightarrow> 'a option) \<Rightarrow> ext_config \<Rightarrow> string \<Rightarrow> 'a option" where
  "option_of get cfg key = Option.bind (map_of cfg key) get"

definition option_or :: "(yaml_value \<Rightarrow> 'a option) \<Rightarrow> ext_config \<Rightarrow> string \<Rightarrow> 'a \<Rightarrow> 'a" where
  "option_or get cfg key d = (case option_of get cfg key of Some x \<Rightarrow> x | None \<Rightarrow> d)"

section \<open>Durations\<close>

text \<open>\<open>time.ParseDuration\<close>, in nanoseconds; fractions are computed exactly.\<close>

fun leadingInt :: "nat \<Rightarrow> string \<Rightarrow> (nat \<times> string) option" where
  "leadingInt v [] = Some (v, [])"
| "leadingInt v (c # cs) =
     (if \<not> is_digit c then Some (v, c # cs)
      else if 2 ^ 63 div 10 < v then None
      else let v = v * 10 + (char_code c - 48) in if 2 ^ 63 < v then None else leadingInt v cs)"

text \<open>Digits of a fraction: value, scale; digits that no longer fit are dropped.\<close>

fun leadingFraction :: "nat \<Rightarrow> nat \<Rightarrow> bool \<Rightarrow> string \<Rightarrow> nat \<times> nat \<times> string" where
  "leadingFraction v scale over [] = (v, scale, [])"
| "leadingFraction v scale over (c # cs) =
     (if \<not> is_digit c then (v, scale, c # cs)
      else if over \<or> (2 ^ 63 - 1) div 10 < v then leadingFraction v scale True cs
      else let y = v * 10 + (char_code c - 48) in
        if 2 ^ 63 < y then leadingFraction v scale True cs else leadingFraction y (scale * 10) False cs)"

definition unit_nanos :: "string \<Rightarrow> nat option" where
  "unit_nanos u = map_of [(''ns'', 1), (''us'', 1000), ([CHR 0xC2, CHR 0xB5, CHR ''s''], 1000), ([CHR 0xCE, CHR 0xBC, CHR ''s''], 1000),
     (''ms'', 1000000), (''s'', 1000000000), (''m'', 60000000000), (''h'', 3600000000000)] u"

text \<open>One number with its unit, and the rest.\<close>

definition duration_term :: "string \<Rightarrow> (nat \<times> string) option" where
  "duration_term s =
     (if s = [] \<or> \<not> (hd s = CHR ''.'' \<or> is_digit (hd s)) then None
      else case leadingInt 0 s of None \<Rightarrow> None
      | Some (v, s1) \<Rightarrow>
          (let (f, scale, s2) = (if s1 \<noteq> [] \<and> hd s1 = CHR ''.'' then leadingFraction 0 1 False (tl s1) else (0, 1, s1));
               post = (s1 \<noteq> [] \<and> hd s1 = CHR ''.'' \<and> s2 \<noteq> tl s1);
               u = takeWhile (\<lambda>c. c \<noteq> CHR ''.'' \<and> \<not> is_digit c) s2;
               s3 = dropWhile (\<lambda>c. c \<noteq> CHR ''.'' \<and> \<not> is_digit c) s2 in
           if s1 = s \<and> \<not> post then None
           else case unit_nanos u of None \<Rightarrow> None
           | Some unit \<Rightarrow>
               if 2 ^ 63 div unit < v then None
               else let w = v * unit + (f * unit) div scale in if 2 ^ 63 < w then None else Some (w, s3)))"

fun duration_terms :: "nat \<Rightarrow> nat \<Rightarrow> string \<Rightarrow> nat option" where
  "duration_terms 0 d s = None"
| "duration_terms (Suc n) d s =
     (if s = [] then Some d
      else case duration_term s of None \<Rightarrow> None
      | Some (w, s') \<Rightarrow> if 2 ^ 63 < d + w then None else duration_terms n (d + w) s')"

text \<open>Every term consumes a character, so the length of the text is enough fuel.\<close>

definition ParseDuration :: "string \<Rightarrow> int option" where
  "ParseDuration s =
     (let neg = (s \<noteq> [] \<and> hd s = CHR ''-'');
          t = (if s \<noteq> [] \<and> (hd s = CHR ''-'' \<or> hd s = CHR ''+'') then tl s else s) in
      if t = ''0'' then Some 0
      else if t = [] then None
      else case duration_terms (Suc (length t)) 0 t of None \<Rightarrow> None
      | Some d \<Rightarrow> if neg then Some (- int d) else if 2 ^ 63 - 1 < d then None else Some (int d))"

lemma ParseDuration_examples:
  "ParseDuration ''24h'' = Some (86400 * conf_second)" "ParseDuration ''1m30.5s'' = Some 90500000000" "ParseDuration ''5'' = None"
  by (simp_all add: ParseDuration_def duration_term_def unit_nanos_def is_digit_def conf_second_def)

section \<open>Stores whose entries expire\<close>

text \<open>
  \<open>put now k v s\<close> stores a value under a name, \<open>look now s k\<close> finds it while it is alive; names with the same
  \<open>index\<close> are the same entry. A full store may give up other entries to make room, but it never invents one.
\<close>

locale expiring_store =
  fixes look :: "int \<Rightarrow> 's \<Rightarrow> 'k \<Rightarrow> 'v option"
    and put :: "int \<Rightarrow> 'k \<Rightarrow> 'v \<Rightarrow> 's \<Rightarrow> 's"
    and index :: "'k \<Rightarrow> 'i"
    and life :: "'s \<Rightarrow> int"
    and ok :: "'s \<Rightarrow> bool"
  assumes ok_put: "ok s \<Longrightarrow> ok (put now k v s)"
    and life_put: "life (put now k v s) = life s"
    and look_put: "ok s \<Longrightarrow> index k' = index k \<Longrightarrow> now' < now + life s \<Longrightarrow> look now' (put now k v s) k' = Some v"
    and look_expired: "ok s \<Longrightarrow> index k' = index k \<Longrightarrow> now + life s < now' \<Longrightarrow> look now' (put now k v s) k' = None"
    and look_same: "ok s \<Longrightarrow> index k' = index k \<Longrightarrow> look now' (put now k v s) k' \<in> {None, Some v}"
    and look_put_other: "ok s \<Longrightarrow> index k' \<noteq> index k \<Longrightarrow> look now' (put now k v s) k' \<in> {None, look now' s k'}"
begin

definition put_all :: "(int \<times> 'k \<times> 'v) list \<Rightarrow> 's \<Rightarrow> 's" where
  "put_all ps s = fold (\<lambda>(now, k, v). put now k v) ps s"

definition last_put :: "(int \<times> 'k \<times> 'v) list \<Rightarrow> 'k \<Rightarrow> (int \<times> 'k \<times> 'v) option" where
  "last_put ps k = find (\<lambda>(_, k', _). index k' = index k) (rev ps)"

lemma put_all_snoc: "put_all (ps @ [(now, k, v)]) s = put now k v (put_all ps s)"
  by (simp add: put_all_def)

lemma put_all_ok: "ok s \<Longrightarrow> ok (put_all ps s) \<and> life (put_all ps s) = life s"
proof (induction ps rule: rev_induct)
  case (snoc p ps)
  then show ?case by (cases p) (simp add: put_all_snoc ok_put life_put)
qed (simp add: put_all_def)

text \<open>A lookup never returns an overwritten value: what it finds is what was put last, or what was there before.\<close>

lemma look_latest:
  assumes "ok s" and "look now (put_all ps s) k = Some v"
  shows "case last_put ps k of None \<Rightarrow> look now s k = Some v | Some (t, _, w) \<Rightarrow> v = w \<and> now \<le> t + life s"
  using assms(2)
proof (induction ps rule: rev_induct)
  case (snoc p ps)
  obtain t k' w where p: "p = (t, k', w)" by (cases p)
  have o: "ok (put_all ps s)" "life (put_all ps s) = life s" using put_all_ok [OF assms(1)] by auto
  show ?case
  proof (cases "index k = index k'")
    case True
    have found: "look now (put t k' w (put_all ps s)) k = Some v" using snoc.prems by (simp add: p put_all_snoc)
    have le: "now \<le> t + life s" using look_expired [OF o(1) True, of t now w] found o(2) by force
    have "v = w" using look_same [OF o(1) True, of now t w] found by auto
    then show ?thesis using True le by (simp add: p last_put_def)
  next
    case False
    have "look now (put_all ps s) k = Some v"
      using look_put_other [OF o(1) False, of now t w] snoc.prems by (auto simp: p put_all_snoc)
    with False snoc.IH show ?thesis by (simp add: p last_put_def)
  qed
qed (simp add: put_all_def last_put_def)

end

end
