(* ===== verification/Session_Bind.thy ===== *)
theory Session_Bind
  imports Router_Properties Ext_Common
begin

text \<open>
  Extension \<open>rt_session_bind\<close>: the store of bindings (\<open>binding_store.go\<close>) and the two router handlers that use it
  (\<open>rt_session_bind.go\<close>). The map of bindings is an association list; among bindings used equally long ago the
  first of the list is evicted. Times are nanoseconds and each operation is given the time its call of \<open>time.Now\<close> returns.
\<close>

section \<open>The store\<close>

record binding =
  bPeerIdentity :: DiamID
  bCreatedAt :: int
  bLastUsed :: int
  bExpiresAt :: int

record bindingStore =
  bindings :: "(string \<times> binding) list"
  maxSize :: int
  bsTTL :: int
  bsLookups :: u64
  bsHits :: u64
  bsMisses :: u64
  bsEvictions :: u64
  bsCleanups :: u64

definition newBindingStore :: "int \<Rightarrow> int \<Rightarrow> bindingStore" where
  "newBindingStore ttl limit = \<lparr>bindings = [], maxSize = limit, bsTTL = ttl, bsLookups = 0, bsHits = 0, bsMisses = 0, bsEvictions = 0, bsCleanups = 0\<rparr>"

definition Binding_Get :: "int \<Rightarrow> string \<Rightarrow> bindingStore \<Rightarrow> DiamID option \<times> bindingStore" where
  "Binding_Get now k s =
     (let s = s\<lparr>bsLookups := bsLookups s + 1\<rparr> in
      case map_of (bindings s) k of
        None \<Rightarrow> (None, s\<lparr>bsMisses := bsMisses s + 1\<rparr>)
      | Some b \<Rightarrow> if bExpiresAt b < now then (None, s\<lparr>bsMisses := bsMisses s + 1\<rparr>)
                  else (Some (bPeerIdentity b), s\<lparr>bsHits := bsHits s + 1\<rparr>))"

fun oldest_of :: "string \<times> binding \<Rightarrow> (string \<times> binding) list \<Rightarrow> string \<times> binding" where
  "oldest_of x [] = x"
| "oldest_of x (y # ys) = oldest_of (if bLastUsed (snd y) < bLastUsed (snd x) then y else x) ys"

definition evictOldest :: "bindingStore \<Rightarrow> bindingStore" where
  "evictOldest s = (case bindings s of
     [] \<Rightarrow> s
   | x # xs \<Rightarrow> s\<lparr>bindings := AList.delete (fst (oldest_of x xs)) (bindings s), bsEvictions := bsEvictions s + 1\<rparr>)"

definition make_room :: "bindingStore \<Rightarrow> bindingStore" where
  "make_room s = (if 0 < maxSize s \<and> maxSize s \<le> int (length (bindings s)) then evictOldest s else s)"

definition Binding_Set :: "int \<Rightarrow> string \<Rightarrow> DiamID \<Rightarrow> bindingStore \<Rightarrow> bindingStore" where
  "Binding_Set now k p s = (case map_of (bindings s) k of
     Some b \<Rightarrow> s\<lparr>bindings := AList.update k (b\<lparr>bPeerIdentity := p, bLastUsed := now, bExpiresAt := now + bsTTL s\<rparr>) (bindings s)\<rparr>
   | None \<Rightarrow> (let s = make_room s in
       s\<lparr>bindings := AList.update k \<lparr>bPeerIdentity = p, bCreatedAt = now, bLastUsed = now, bExpiresAt = now + bsTTL s\<rparr> (bindings s)\<rparr>))"

definition Binding_Touch :: "int \<Rightarrow> string \<Rightarrow> bindingStore \<Rightarrow> bindingStore" where
  "Binding_Touch now k s = (case map_of (bindings s) k of
     None \<Rightarrow> s
   | Some b \<Rightarrow> s\<lparr>bindings := AList.update k (b\<lparr>bLastUsed := now, bExpiresAt := now + bsTTL s\<rparr>) (bindings s)\<rparr>)"

definition RemoveByPeer :: "DiamID \<Rightarrow> bindingStore \<Rightarrow> bindingStore" where
  "RemoveByPeer p s = s\<lparr>bindings := filter (\<lambda>(k, b). bPeerIdentity b \<noteq> p) (bindings s)\<rparr>"

definition Binding_Remove :: "string \<Rightarrow> bindingStore \<Rightarrow> bindingStore" where
  "Binding_Remove k s = s\<lparr>bindings := AList.delete k (bindings s)\<rparr>"

definition Cleanup :: "int \<Rightarrow> bindingStore \<Rightarrow> nat \<times> bindingStore" where
  "Cleanup now s =
     (let removed = length (filter (\<lambda>(k, b). bExpiresAt b < now) (bindings s)) in
      (removed, s\<lparr>bindings := filter (\<lambda>(k, b). \<not> bExpiresAt b < now) (bindings s), bsCleanups := bsCleanups s + of_nat removed\<rparr>))"

definition Binding_Len :: "bindingStore \<Rightarrow> nat" where "Binding_Len s = length (bindings s)"

section \<open>The extension\<close>

record sessionBind =
  sbStore :: bindingStore
  bindingKey :: string
  scoreBoost :: int

text \<open>
  \<open>Init\<close> without the registration at the router, the clean-up goroutine and the log line. \<open>time.NewTicker\<close> panics when
  the clean-up interval is not positive.
\<close>

definition SessionBind_Init :: "ext_config \<Rightarrow> string + sessionBind" where
  "SessionBind_Init cfg =
     (let key = option_or as_string cfg ''binding_key'' ''session_id'' in
      if key \<noteq> ''session_id'' \<and> key \<noteq> ''subscription_id'' then Inl (''rt_session_bind: unsupported binding_key'')
      else let boost = option_or as_int cfg ''score_boost'' 80;
               limit = option_or as_int cfg ''max_bindings'' 100000 in
        case (case option_of as_string cfg ''ttl'' of None \<Rightarrow> Some (24 * 3600 * conf_second) | Some v \<Rightarrow> ParseDuration v) of
          None \<Rightarrow> Inl ''rt_session_bind: invalid ttl''
        | Some ttl \<Rightarrow>
          (case (case option_of as_string cfg ''cleanup_interval'' of None \<Rightarrow> Some (5 * 60 * conf_second) | Some v \<Rightarrow> ParseDuration v) of
             None \<Rightarrow> Inl ''rt_session_bind: invalid cleanup_interval''
           | Some interval \<Rightarrow> if interval \<le> 0 then Inl ''panic: non-positive interval for NewTicker''
               else Inr \<lparr>sbStore = newBindingStore ttl limit, bindingKey = key, scoreBoost = boost\<rparr>))"

text \<open>The key of a message; decoding the Subscription-Id happens in place, in the message.\<close>

definition extractKey :: "sessionBind \<Rightarrow> message \<Rightarrow> message \<times> string option" where
  "extractKey e m =
     (if bindingKey e = ''session_id'' then (m, GetSessionID m)
      else if bindingKey e = ''subscription_id'' then
        (case FindAVP m AVPCodeSubscriptionID 0 of None \<Rightarrow> (m, None)
         | Some a \<Rightarrow> (case DecodeGrouped a of Inl _ \<Rightarrow> (m, None)
           | Inr a' \<Rightarrow> (m\<lparr>AVPs := update_first (avp_matches AVPCodeSubscriptionID 0) (\<lambda>_. a') (AVPs m)\<rparr>,
               case FindChild a' AVPCodeSubscriptionIDData 0 of None \<Rightarrow> None
               | Some d \<Rightarrow> if GetUTF8String d = '''' then None else Some (GetUTF8String d))))
      else (m, None))"

fun boost_first :: "DiamID \<Rightarrow> int \<Rightarrow> Route list \<Rightarrow> Route list option" where
  "boost_first p n [] = None"
| "boost_first p n (c # cs) =
     (if PeerIdentity c = p then Some (c\<lparr>Score := Score c + n, Reason := ''session-bind''\<rparr> # cs)
      else map_option ((#) c) (boost_first p n cs))"

definition SessionBind_handleOutgoing :: "int \<Rightarrow> message \<Rightarrow> Route list \<Rightarrow> sessionBind \<Rightarrow> message \<times> Route list \<times> sessionBind" where
  "SessionBind_handleOutgoing now m cs e =
     (if \<not> IsRequest m then (m, cs, e)
      else case extractKey e m of
        (m, None) \<Rightarrow> (m, cs, e)
      | (m, Some k) \<Rightarrow> (case Binding_Get now k (sbStore e) of
          (None, s) \<Rightarrow> (m, cs, e\<lparr>sbStore := s\<rparr>)
        | (Some p, s) \<Rightarrow> (case boost_first p (scoreBoost e) cs of
            None \<Rightarrow> (m, cs, e\<lparr>sbStore := s\<rparr>)
          | Some cs \<Rightarrow> (m, cs, e\<lparr>sbStore := Binding_Touch now k s\<rparr>))))"

definition handlePostRoute :: "int \<Rightarrow> message \<Rightarrow> DiamID \<Rightarrow> sessionBind \<Rightarrow> message \<times> sessionBind" where
  "handlePostRoute now m p e =
     (if \<not> IsRequest m then (m, e)
      else case extractKey e m of
        (m, None) \<Rightarrow> (m, e)
      | (m, Some k) \<Rightarrow> (m, e\<lparr>sbStore := Binding_Set now k p (sbStore e)\<rparr>))"

text \<open>The handler as the router calls it, with the store as it is at that moment.\<close>

definition bind_handler :: "int \<Rightarrow> sessionBind \<Rightarrow> OutHandler" where
  "bind_handler now e m cs = (case SessionBind_handleOutgoing now m cs e of (m, cs, _) \<Rightarrow> (m, Inr cs))"

definition SessionBind_register :: "int \<Rightarrow> sessionBind \<Rightarrow> router \<Rightarrow> router" where
  "SessionBind_register now e r =
     RegisterPostRouteHandler (RegisterOutHandler r ''rt_session_bind'' 80 (bind_handler now e)) ''rt_session_bind'' (\<lambda>m p. fst (handlePostRoute now m p e))"

end
