(* ===== verification/Session_Bind_Properties.thy ===== *)
theory Session_Bind_Properties
  imports Session_Bind
begin

text \<open>
  The bindings stay within the configured size and the least recently used one makes room, the store is one
  whose entries expire, and a session stays with its peer as long as routing allows.
\<close>

section \<open>The store\<close>

definition store_ok :: "bindingStore \<Rightarrow> bool" where
  "store_ok s \<longleftrightarrow> distinct (map fst (bindings s)) \<and> (0 < maxSize s \<longrightarrow> int (length (bindings s)) \<le> maxSize s)"

lemma oldest_of_in: "oldest_of x xs \<in> set (x # xs)"
  by (induction xs arbitrary: x) auto

lemma oldest_of_le: "bLastUsed (snd (oldest_of x xs)) \<le> bLastUsed (snd x)"
proof (induction xs arbitrary: x)
  case (Cons z zs)
  from Cons [of z] Cons [of x] show ?case by simp
qed simp

lemma oldest_of_least: "y \<in> set xs \<Longrightarrow> bLastUsed (snd (oldest_of x xs)) \<le> bLastUsed (snd y)"
proof (induction xs arbitrary: x)
  case (Cons z zs)
  show ?case
  proof (cases "y = z")
    case True
    with oldest_of_le [of z zs] oldest_of_le [of x zs] show ?thesis by simp
  qed (use Cons in simp)
qed simp

lemma length_update_alist:
  "length (AList.update k v al) = (if k \<in> fst ` set al then length al else Suc (length al))"
  using arg_cong [OF update_keys [of k v al], of length] by (simp split: if_splits)

lemma length_delete_alist:
  "distinct (map fst al) \<Longrightarrow> k \<in> fst ` set al \<Longrightarrow> length (AList.delete k al) = length al - 1"
  by (metis delete_keys distinct_remove1_removeAll length_map length_remove1 list.set_map)

lemma distinct_filter_alist: "distinct (map fst al) \<Longrightarrow> distinct (map fst (filter P al))"
  by (induction al) auto

lemma evictOldest_frame [simp]:
  "maxSize (evictOldest s) = maxSize s" "bsTTL (evictOldest s) = bsTTL s"
  by (simp_all add: evictOldest_def split: list.split)

lemma evictOldest_bindings:
  "bindings s \<noteq> [] \<Longrightarrow> bindings (evictOldest s) =
     AList.delete (fst (oldest_of (hd (bindings s)) (tl (bindings s)))) (bindings s)"
  by (cases "bindings s") (simp_all add: evictOldest_def)

lemma make_room_frame [simp]: "maxSize (make_room s) = maxSize s" "bsTTL (make_room s) = bsTTL s"
  by (simp_all add: make_room_def)

lemma make_room_ok:
  assumes "store_ok s"
  shows "distinct (map fst (bindings (make_room s)))" and "0 < maxSize s \<Longrightarrow> int (length (bindings (make_room s))) < maxSize s"
    and "set (bindings (make_room s)) \<subseteq> set (bindings s)"
proof -
  let ?o = "fst (oldest_of (hd (bindings s)) (tl (bindings s)))"
  have o: "bindings s \<noteq> [] \<Longrightarrow> ?o \<in> fst ` set (bindings s)"
    using oldest_of_in [of "hd (bindings s)" "tl (bindings s)"] by (cases "bindings s") auto
  have e: "bindings (make_room s) = bindings s \<or> bindings s \<noteq> [] \<and> bindings (make_room s) = AList.delete ?o (bindings s)"
    by (cases "bindings s") (simp_all add: make_room_def evictOldest_def)
  then show "distinct (map fst (bindings (make_room s)))" "set (bindings (make_room s)) \<subseteq> set (bindings s)"
    using assms by (auto simp: store_ok_def AList.delete_eq distinct_filter_alist)
  assume "0 < maxSize s"
  show "int (length (bindings (make_room s))) < maxSize s"
  proof (cases "maxSize s \<le> int (length (bindings s))")
    case True
    then have "bindings s \<noteq> []" using \<open>0 < maxSize s\<close> by auto
    with True \<open>0 < maxSize s\<close> assms o show ?thesis
      by (simp add: make_room_def evictOldest_bindings store_ok_def length_delete_alist)
  qed (simp add: make_room_def)
qed

datatype bind_op = OpGet int string | OpSet int string DiamID | OpTouch int string | OpRemoveByPeer DiamID | OpRemove string | OpCleanup int

fun bind_step :: "bindingStore \<Rightarrow> bind_op \<Rightarrow> bindingStore" where
  "bind_step s (OpGet now k) = snd (Binding_Get now k s)"
| "bind_step s (OpSet now k p) = Binding_Set now k p s"
| "bind_step s (OpTouch now k) = Binding_Touch now k s"
| "bind_step s (OpRemoveByPeer p) = RemoveByPeer p s"
| "bind_step s (OpRemove k) = Binding_Remove k s"
| "bind_step s (OpCleanup now) = snd (Cleanup now s)"

lemma bind_step_limit: "maxSize (bind_step s op) = maxSize s \<and> bsTTL (bind_step s op) = bsTTL s"
  by (cases op) (simp_all add: Binding_Get_def Binding_Set_def Binding_Touch_def RemoveByPeer_def Binding_Remove_def Cleanup_def Let_def
      split: option.split)

lemma Set_ok:
  assumes "store_ok s" shows "store_ok (Binding_Set now k p s)"
proof (cases "map_of (bindings s) k")
  case None
  note room = make_room_ok [OF assms]
  have "k \<notin> fst ` set (bindings s)" using None by (simp add: map_of_eq_None_iff)
  with room(3) have "k \<notin> fst ` set (bindings (make_room s))" by blast
  with None room(1) show ?thesis
    using room(2) by (auto simp: Binding_Set_def Let_def store_ok_def distinct_update length_update_alist)
next
  case (Some b)
  then have "k \<in> fst ` set (bindings s)" by (metis map_of_eq_None_iff option.simps(3))
  with Some assms show ?thesis
    by (simp add: Binding_Set_def store_ok_def distinct_update length_update_alist)
qed

lemma Touch_ok:
  assumes "store_ok s" shows "store_ok (Binding_Touch now k s)"
proof (cases "map_of (bindings s) k")
  case (Some b)
  then have "k \<in> fst ` set (bindings s)" by (metis map_of_eq_None_iff option.simps(3))
  with Some assms show ?thesis
    by (simp add: Binding_Touch_def store_ok_def distinct_update length_update_alist)
qed (use assms in \<open>simp add: Binding_Touch_def\<close>)

lemma shrink_ok:
  assumes "store_ok s" and "bindings s' = filter P (bindings s)" and "maxSize s' = maxSize s"
  shows "store_ok s'"
proof -
  have "int (length (filter P (bindings s))) \<le> int (length (bindings s))" by simp
  then show ?thesis
    using assms unfolding store_ok_def by (metis distinct_filter_alist order_trans)
qed

lemma bind_step_ok:
  assumes "store_ok s" shows "store_ok (bind_step s op)"
proof (cases op)
  case (OpGet now k)
  with assms show ?thesis by (simp add: Binding_Get_def Let_def store_ok_def split: option.split)
next
  case (OpRemoveByPeer p)
  show ?thesis by (rule shrink_ok [OF assms]) (simp_all add: OpRemoveByPeer RemoveByPeer_def)
next
  case (OpRemove k)
  show ?thesis by (rule shrink_ok [OF assms]) (simp_all add: OpRemove Binding_Remove_def AList.delete_eq)
next
  case (OpCleanup now)
  show ?thesis by (rule shrink_ok [OF assms]) (simp_all add: OpCleanup Cleanup_def Let_def)
qed (simp_all add: Set_ok Touch_ok assms)

interpretation binds: machine bind_step store_ok
  by unfold_locales (rule bind_step_ok)

lemma Set_lookup: "map_of (bindings (Binding_Set now k p s)) k =
    Some (case map_of (bindings s) k of
        Some b \<Rightarrow> b\<lparr>bPeerIdentity := p, bLastUsed := now, bExpiresAt := now + bsTTL s\<rparr>
      | None \<Rightarrow> \<lparr>bPeerIdentity = p, bCreatedAt = now, bLastUsed = now, bExpiresAt = now + bsTTL s\<rparr>)"
  by (simp add: Binding_Set_def Let_def update_conv' split: option.split)

lemma make_room_lookup:
  assumes "store_ok s" shows "map_of (bindings (make_room s)) k \<in> {None, map_of (bindings s) k}"
proof (cases "map_of (bindings (make_room s)) k")
  case (Some b)
  then have "(k, b) \<in> set (bindings s)" using make_room_ok(3) [OF assms] map_of_SomeD by fast
  with Some assms show ?thesis by (simp add: store_ok_def map_of_is_SomeI)
qed simp

lemma Set_lookup_other:
  assumes "store_ok s" and "k' \<noteq> k"
  shows "map_of (bindings (Binding_Set now k p s)) k' \<in> {None, map_of (bindings s) k'}"
  using make_room_lookup [OF assms(1), of k'] assms(2)
  by (auto simp: Binding_Set_def Let_def update_conv' split: option.split)

lemma Get_eq: "fst (Binding_Get now k s) =
    (case map_of (bindings s) k of None \<Rightarrow> None | Some b \<Rightarrow> if bExpiresAt b < now then None else Some (bPeerIdentity b))"
  by (simp add: Binding_Get_def Let_def split: option.split)

interpretation bound: expiring_store "\<lambda>now s k. fst (Binding_Get now k s)" "\<lambda>now k p. Binding_Set now k p" "\<lambda>k. k" bsTTL store_ok
proof
  fix s now p now' and k k' :: string
  assume "store_ok s" "k' \<noteq> k"
  then show "fst (Binding_Get now' k' (Binding_Set now k p s)) \<in> {None, fst (Binding_Get now' k' s)}"
    using Set_lookup_other [of s k' k now p] by (auto simp: Get_eq)
qed (auto simp: Set_ok Get_eq Set_lookup bind_step_limit [of _ "OpSet _ _ _", simplified] split: option.split)


lemma update_new: "k \<notin> fst ` set al \<Longrightarrow> AList.update k v al = al @ [(k, v)]"
  by (induction al) auto

text \<open>
  C21: whatever is done to the store of bindings, it never holds more than the configured number, and when a new
  session comes while it is full, exactly one binding goes, one that was not used more recently than any other.
\<close>
theorem binding_store_bounded:
  assumes "s = foldl bind_step (newBindingStore ttl limit) ops" and "0 < limit"
  shows "int (Binding_Len s) \<le> limit \<and>
    (\<forall>k now p. map_of (bindings s) k = None \<longrightarrow> int (Binding_Len s) = limit \<longrightarrow>
      (\<exists>old b. (old, b) \<in> set (bindings s) \<and> (\<forall>(k', b') \<in> set (bindings s). bLastUsed b \<le> bLastUsed b') \<and>
        bindings (Binding_Set now k p s) = AList.delete old (bindings s) @
          [(k, \<lparr>bPeerIdentity = p, bCreatedAt = now, bLastUsed = now, bExpiresAt = now + ttl\<rparr>)]))"
proof -
  have params: "maxSize (foldl bind_step s0 ops) = maxSize s0 \<and> bsTTL (foldl bind_step s0 ops) = bsTTL s0" for s0
    by (induction ops arbitrary: s0) (simp_all add: bind_step_limit)
  have s: "store_ok s" "maxSize s = limit" "bsTTL s = ttl"
    using binds.run_inv [of "newBindingStore ttl limit" ops] params [of "newBindingStore ttl limit"] assms
    by (simp_all add: store_ok_def newBindingStore_def)
  have "\<exists>old b. (old, b) \<in> set (bindings s) \<and> (\<forall>(k', b') \<in> set (bindings s). bLastUsed b \<le> bLastUsed b') \<and>
        bindings (Binding_Set now k p s) = AList.delete old (bindings s) @
          [(k, \<lparr>bPeerIdentity = p, bCreatedAt = now, bLastUsed = now, bExpiresAt = now + ttl\<rparr>)]"
    if k: "map_of (bindings s) k = None" and full: "int (Binding_Len s) = limit" for k now p
  proof -
    obtain x xs where xs: "bindings s = x # xs"
      using full assms(2) by (cases "bindings s") (simp_all add: Binding_Len_def)
    obtain old b where o: "oldest_of x xs = (old, b)" by (cases "oldest_of x xs")
    have room: "bindings (make_room s) = AList.delete old (bindings s)"
      using full assms(2) s(2) o xs by (simp add: make_room_def Binding_Len_def evictOldest_def)
    have "k \<notin> fst ` set (AList.delete old (bindings s))"
      using k by (auto simp: map_of_eq_None_iff AList.delete_eq)
    then have "bindings (Binding_Set now k p s) = AList.delete old (bindings s) @
        [(k, \<lparr>bPeerIdentity = p, bCreatedAt = now, bLastUsed = now, bExpiresAt = now + ttl\<rparr>)]"
      using k s(3) by (simp add: Binding_Set_def Let_def room update_new)
    moreover have "bLastUsed b \<le> bLastUsed (snd y)" if "y \<in> set (bindings s)" for y
      using oldest_of_le [of x xs] oldest_of_least [of y xs x] that o xs by auto
    moreover have "(old, b) \<in> set (bindings s)" using oldest_of_in [of x xs] o xs by simp
    ultimately show ?thesis by (intro exI [of _ old] exI [of _ b]) auto
  qed
  then show ?thesis using s(1,2) assms(2) by (simp add: store_ok_def Binding_Len_def)
qed

theorem binding_store_bounded_witness:
  "int (Binding_Len (foldl bind_step (newBindingStore 10 1) [OpSet 0 ''a'' ''p'', OpSet 1 ''b'' ''q''])) \<le> 1"
  using binding_store_bounded [OF refl, of 1 10 "[OpSet 0 ''a'' ''p'', OpSet 1 ''b'' ''q'']"] by simp

section \<open>Affinity\<close>

lemma boost_first_found:
  assumes "find (\<lambda>c. PeerIdentity c = p) cs = Some b"
  shows "\<exists>xs ys. cs = xs @ b # ys \<and> boost_first p n cs = Some (xs @ b\<lparr>Score := Score b + n, Reason := ''session-bind''\<rparr> # ys)"
  using assms
proof (induction cs)
  case (Cons c cs)
  show ?case
  proof (cases "PeerIdentity c = p")
    case True
    with Cons.prems show ?thesis by (auto intro: exI [of _ "[]"])
  next
    case False
    with Cons obtain xs ys where "cs = xs @ b # ys"
      "boost_first p n cs = Some (xs @ b\<lparr>Score := Score b + n, Reason := ''session-bind''\<rparr> # ys)"
      by auto
    with False show ?thesis by (auto intro: exI [of _ "c # xs"])
  qed
qed simp

lemmas register_defs = RegisterPostRouteHandler_def RegisterPostRouteHandlerWithOwner_def RegisterOutHandler_def RegisterOutHandlerWithOwner_def

text \<open>The peer with the strictly best score is chosen.\<close>

lemma route_out_strictly_best:
  assumes "valid_rand env" and "buildCandidates r w m \<noteq> []"
    and "apply_out_handlers (outHandlers r) m (buildCandidates r w m) = (m', Inr cs)"
    and "d \<in> set cs" and "\<forall>c \<in> set cs. PeerIdentity c \<noteq> PeerIdentity d \<longrightarrow> Score c < Score d"
  shows "\<exists>m2 w'. RouteOut env r w m = (m2, Inr (PeerIdentity d), w')"
proof -
  have "pick_tier env (by_score cs) [] (randCalls w) \<noteq> None"
    using assms(4) by (auto simp: pick_tier_None)
  then obtain x k where x: "pick_tier env (by_score cs) [] (randCalls w) = Some (x, k)" by auto
  from pick_tier_best [OF by_score_sorted assms(1) x] obtain c where "c \<in> set cs" "PeerIdentity c = x" "Score d \<le> Score c"
    using assms(4) by (auto simp: best_def)
  with assms(5) have "x = PeerIdentity d" by force
  with x assms(2,3) show ?thesis by (simp add: RouteOut_def RouteOutWithExclusion_def split_beta)
qed

text \<open>What may happen to the store meanwhile without touching a binding: anything done for other keys and other peers.\<close>

fun spares :: "string \<Rightarrow> DiamID \<Rightarrow> int \<Rightarrow> bind_op \<Rightarrow> bool" where
  "spares k p expiry (OpGet now k') = True"
| "spares k p expiry (OpSet now k' p') = (k' \<noteq> k)"
| "spares k p expiry (OpTouch now k') = (k' \<noteq> k)"
| "spares k p expiry (OpRemoveByPeer p') = (p' \<noteq> p)"
| "spares k p expiry (OpRemove k') = (k' \<noteq> k)"
| "spares k p expiry (OpCleanup now) = (now \<le> expiry)"

definition roomy :: "nat \<Rightarrow> bindingStore \<Rightarrow> bool" where
  "roomy n s \<longleftrightarrow> maxSize s \<le> 0 \<or> int (Binding_Len s + n) \<le> maxSize s"

lemma length_update_le: "length (AList.update k v al) \<le> Suc (length al)"
  by (induction al) auto

lemma roomy_step:
  assumes "roomy (Suc n) s"
  shows "roomy n (bind_step s op)"
proof -
  have len: "Binding_Len (bind_step s op) \<le> Suc (Binding_Len s)"
  proof (cases op)
    case (OpSet now k p)
    then show ?thesis
      using assms length_update_le [of k _ "bindings s"]
      by (auto simp: Binding_Set_def Let_def Binding_Len_def make_room_def roomy_def split: option.split)
  next
    case (OpTouch now k)
    then show ?thesis using length_update_le [of k _ "bindings s"] by (auto simp: Binding_Touch_def Binding_Len_def split: option.split)
  next
    case (OpRemoveByPeer p)
    then show ?thesis using length_filter_le [of _ "bindings s"] by (simp add: RemoveByPeer_def Binding_Len_def le_SucI)
  next
    case (OpRemove k)
    then show ?thesis by (simp add: Binding_Remove_def Binding_Len_def AList.delete_eq le_SucI)
  next
    case (OpCleanup now)
    then show ?thesis using length_filter_le [of _ "bindings s"] by (simp add: Cleanup_def Binding_Len_def Let_def le_SucI)
  qed (simp add: Binding_Get_def Binding_Len_def Let_def split: option.split)
  show ?thesis using assms len bind_step_limit [of s op] by (auto simp: roomy_def)
qed

lemma map_of_filter_Some:
  "distinct (map fst xs) \<Longrightarrow> map_of xs k = Some b \<Longrightarrow> P (k, b) \<Longrightarrow> map_of (filter P xs) k = Some b"
  by (auto intro!: map_of_is_SomeI dest: map_of_SomeD simp: distinct_filter_alist)

lemma spared_step:
  assumes "store_ok s" and "roomy (Suc n) s" and "map_of (bindings s) k = Some b" and "spares k (bPeerIdentity b) (bExpiresAt b) op"
  shows "map_of (bindings (bind_step s op)) k = Some b"
proof -
  have d: "distinct (map fst (bindings s))" using assms(1) by (simp add: store_ok_def)
  show ?thesis
  proof (cases op)
    case (OpSet now k' p)
    have "make_room s = s" using assms(2) by (auto simp: make_room_def roomy_def Binding_Len_def)
    with OpSet assms(3,4) show ?thesis by (simp add: Binding_Set_def Let_def update_conv' split: option.split)
  qed (use assms(3,4) d in \<open>simp_all add: Binding_Get_def Let_def Binding_Touch_def RemoveByPeer_def Binding_Remove_def Cleanup_def update_conv'
      AList.delete_eq map_of_filter_Some split: option.split\<close>)
qed

lemma spared_run:
  "store_ok s \<Longrightarrow> roomy (length ops) s \<Longrightarrow> map_of (bindings s) k = Some b \<Longrightarrow> list_all (spares k (bPeerIdentity b) (bExpiresAt b)) ops \<Longrightarrow>
   map_of (bindings (foldl bind_step s ops)) k = Some b"
proof (induction ops arbitrary: s)
  case (Cons op ops)
  then show ?case
    using bind_step_ok [of s op] roomy_step [of "length ops" s op] spared_step [of s "length ops" k b op] by simp
qed simp

text \<open>
  C20: a session stays with its peer. After a request of a session was routed to a peer, and whatever was done meanwhile for other
  sessions and other peers, a later request of the session that comes before the binding expires is routed to the same peer, if the
  store never got full (a full one evicts), the peer is still a candidate, the configured boost lifts it above the other candidates, and
  \<open>rt_session_bind\<close> is the only out-handler of the router.
\<close>
theorem session_sticks_to_peer:
  assumes "valid_rand env" and "store_ok (sbStore e)"
    and "IsRequest first" and "snd (extractKey e first) = Some k"
    and "IsRequest m" and "snd (extractKey e m) = Some k"
    and "now < t + bsTTL (sbStore e)"
    and "e2 = (snd (handlePostRoute t first p e))\<lparr>sbStore := foldl bind_step (sbStore (snd (handlePostRoute t first p e))) ops\<rparr>"
    and "list_all (spares k p (t + bsTTL (sbStore e))) ops" and "roomy (length ops) (sbStore (snd (handlePostRoute t first p e)))"
    and "outHandlers r = []" and "find (\<lambda>c. PeerIdentity c = p) (buildCandidates r w m) = Some b"
    and "\<forall>c \<in> set (buildCandidates r w m). PeerIdentity c \<noteq> p \<longrightarrow> Score c < Score b + scoreBoost e"
  shows "\<exists>m' w'. RouteOut env (SessionBind_register now e2 r) w m = (m', Inr p, w')"
proof -
  let ?e = e2
  let ?r = "SessionBind_register now ?e r"
  let ?s = "Binding_Set t k p (sbStore e)"
  have post: "snd (handlePostRoute t first p e) = e\<lparr>sbStore := ?s\<rparr>"
    using assms(3,4) by (auto simp: handlePostRoute_def split: prod.split)
  then have e: "?e = e\<lparr>sbStore := foldl bind_step ?s ops\<rparr>" by (simp add: assms(8))
  obtain b' where b': "map_of (bindings ?s) k = Some b'" "bPeerIdentity b' = p" "bExpiresAt b' = t + bsTTL (sbStore e)"
    by (auto simp: Set_lookup split: option.split)
  have "map_of (bindings (sbStore ?e)) k = Some b'"
    using spared_run [OF Set_ok [OF assms(2)] _ b'(1), of ops] assms(9,10) b'(2,3) by (simp add: e post)
  then have look: "fst (Binding_Get now k (sbStore ?e)) = Some p"
    using b'(2,3) assms(7) by (simp add: Get_eq)
  have same: "buildCandidates ?r w m = buildCandidates r w m"
    by (simp add: SessionBind_register_def register_defs buildCandidates_def target_realm_def realm_candidates_def
        cong: option.case_cong if_cong)
  obtain xs ys where cs: "buildCandidates r w m = xs @ b # ys"
    "boost_first p (scoreBoost e) (buildCandidates r w m) = Some (xs @ b\<lparr>Score := Score b + scoreBoost e, Reason := ''session-bind''\<rparr> # ys)"
    using boost_first_found [OF assms(12)] by blast
  obtain m1 where m1: "extractKey ?e m = (m1, Some k)"
    using assms(6) by (cases "extractKey e m") (simp add: e extractKey_def split: if_splits)
  have h: "bind_handler now ?e m (buildCandidates r w m) = (m1, Inr (xs @ b\<lparr>Score := Score b + scoreBoost e, Reason := ''session-bind''\<rparr> # ys))"
  proof -
    obtain st where get: "Binding_Get now k (sbStore ?e) = (Some p, st)"
      using look by (cases "Binding_Get now k (sbStore ?e)") simp
    have "scoreBoost ?e = scoreBoost e" by (simp add: e)
    with get cs(2) m1 assms(5) show ?thesis by (simp add: bind_handler_def SessionBind_handleOutgoing_def)
  qed
  let ?b = "b\<lparr>Score := Score b + scoreBoost e, Reason := ''session-bind''\<rparr>"
  have id: "PeerIdentity b = p" using assms(12) by (auto simp: find_Some_iff)
  have hs: "outHandlers ?r = [\<lparr>oPriority = 80, oHandler = bind_handler now ?e, oName = ''rt_session_bind'', oOwner = ''rt_session_bind''\<rparr>]"
    using assms(11) by (simp add: SessionBind_register_def register_defs)
  have "apply_out_handlers (outHandlers ?r) m (buildCandidates ?r w m) = (m1, Inr (xs @ ?b # ys))"
    by (simp add: hs same h)
  moreover have "\<forall>c \<in> set (xs @ ?b # ys). PeerIdentity c \<noteq> PeerIdentity ?b \<longrightarrow> Score c < Score ?b"
    using assms(13) cs(1) id by auto
  ultimately have "\<exists>m2 w'. RouteOut env ?r w m = (m2, Inr (PeerIdentity ?b), w')"
    using cs(1) by (intro route_out_strictly_best [OF assms(1), where cs = "xs @ ?b # ys"]) (simp_all add: same)
  then show ?thesis using id by auto
qed

definition sample_bind :: sessionBind where
  "sample_bind = \<lparr>sbStore = newBindingStore 100 10, bindingKey = ''session_id'', scoreBoost = 80\<rparr>"

definition session_request :: message where
  "session_request = AddAVP sample_request (NewUTF8StringAVP AVPCodeSessionID AVPFlagMandatory ''s;1'')"

definition bind_router :: router where
  "bind_router = AddRealmRoute NewRouter ''home'' [''hss1'', ''hss2'']"

theorem session_sticks_to_peer_witness:
  "\<exists>m' w'. RouteOut sample_renv (SessionBind_register 50
       (sample_bind\<lparr>sbStore := Binding_Set 7 ''s;2'' ''hss1'' (Binding_Set 0 ''s;1'' ''hss2'' (sbStore sample_bind))\<rparr>) bind_router)
     sample_world session_request = (m', Inr ''hss2'', w')"
proof -
  have dest: "GetDestinationHost session_request = None" "GetDestinationRealm session_request = Some ''home''"
    by (simp_all add: session_request_def GetDestinationHost_def GetDestinationRealm_def identity_of_def sample_request_def FindAVP_def
      AddAVP_def NewRequest_def NewMessage_def avp_matches_def NewDiameterIdentityAVP_def NewUTF8StringAVP_def NewAVP_def GetDiameterIdentity_def)
  have key: "snd (extractKey sample_bind session_request) = Some ''s;1''" "IsRequest session_request"
    by (simp_all add: extractKey_def sample_bind_def session_request_def GetSessionID_def sample_request_def FindAVP_def
      AddAVP_def NewRequest_def NewMessage_def avp_matches_def NewDiameterIdentityAVP_def NewUTF8StringAVP_def NewAVP_def GetUTF8String_def IsRequest_def)
  have cands: "buildCandidates bind_router sample_world session_request =
    [\<lparr>PeerIdentity = ''hss1'', Score = 100, Reason = ''realm route for home''\<rparr>, \<lparr>PeerIdentity = ''hss2'', Score = 100, Reason = ''realm route for home''\<rparr>]"
    by (simp add: buildCandidates_def dest target_realm_def realm_candidates_def bind_router_def AddRealmRoute_def NewRouter_def entries_def)
  have hs: "outHandlers bind_router = []" by (simp add: bind_router_def AddRealmRoute_def NewRouter_def)
  have "find (\<lambda>c. PeerIdentity c = ''hss2'') (buildCandidates bind_router sample_world session_request) =
      Some \<lparr>PeerIdentity = ''hss2'', Score = 100, Reason = ''realm route for home''\<rparr>"
    by (simp add: cands)
  moreover have post: "snd (handlePostRoute 0 session_request ''hss2'' sample_bind) = sample_bind\<lparr>sbStore := Binding_Set 0 ''s;1'' ''hss2'' (sbStore sample_bind)\<rparr>"
    using key by (auto simp: handlePostRoute_def split: prod.split)
  moreover have "store_ok (sbStore sample_bind)" "bsTTL (sbStore sample_bind) = 100" "scoreBoost sample_bind = 80"
    by (simp_all add: sample_bind_def store_ok_def newBindingStore_def)
  moreover have "roomy 1 (Binding_Set 0 ''s;1'' ''hss2'' (sbStore sample_bind))"
    by (simp add: roomy_def Binding_Set_def Binding_Len_def sample_bind_def newBindingStore_def make_room_def)
  ultimately show ?thesis
    using session_sticks_to_peer [OF sample_valid_rand _ key(2,1) key(2,1) _ refl _ _ hs,
        where now = 50 and t = 0 and ops = "[OpSet 7 ''s;2'' ''hss1'']" and p = "''hss2''" and w = sample_world]
    by (simp add: cands)
qed

end
