(* ===== verification/Edge_Common.thy ===== *)
theory Edge_Common
  imports Router Edge_Registry Ext_Common
begin

text \<open>
  What the edge extensions do alike: which partner and zone a message is judged by, the answer that refuses a
  request without disclosing internal topology, and reading the children of an AVP on demand.
\<close>

definition zoneOf :: "registry \<Rightarrow> peer \<Rightarrow> string" where
  "zoneOf reg p = (if Zone p \<noteq> '''' then Zone p else ZoneNameForPeer reg (diameterID p))"

text \<open>Origin-Realm only decides for a peer inside the network.\<close>

definition partnerFor :: "registry \<Rightarrow> peer \<Rightarrow> message \<Rightarrow> bool \<Rightarrow> PartnerConfig option" where
  "partnerFor reg p m external =
     (case (if Partner p \<noteq> '''' then Edge_Partner reg (Partner p) else None) of
        Some q \<Rightarrow> Some q
      | None \<Rightarrow> (case PartnerForPeer reg (diameterID p) of
          Some q \<Rightarrow> Some q
        | None \<Rightarrow>
            if external then None
            else (case GetOriginRealm m of None \<Rightarrow> None | Some d \<Rightarrow> PartnerForRealm reg d)))"

definition refusal :: "string \<Rightarrow> string \<Rightarrow> message \<Rightarrow> ResultCode \<Rightarrow> string \<Rightarrow> message" where
  "refusal identity rlm req code txt =
     (let a = SetResultCode (SetError (NewAnswer req) True) code;
          a = (if identity \<noteq> '''' then AddAVP a (NewDiameterIdentityAVP AVPCodeOriginHost AVPFlagMandatory identity) else a);
          a = (if rlm \<noteq> '''' then AddAVP a (NewDiameterIdentityAVP AVPCodeOriginRealm AVPFlagMandatory rlm) else a)
      in AddAVP a (NewUTF8StringAVP AVPCodeErrorMessage 0 txt))"

definition count_up :: "'k \<Rightarrow> ('k \<times> u64) list \<Rightarrow> ('k \<times> u64) list" where
  "count_up k cs = AList.update k ((case map_of cs k of None \<Rightarrow> 0 | Some n \<Rightarrow> n) + 1) cs"

text \<open>Decoding on demand happens in place: the AVP afterwards, and its children.\<close>

definition groupedChildren :: "avp \<Rightarrow> avp \<times> avp list" where
  "groupedChildren a =
     (if IsGrouped a then (a, Children a)
      else if length (aData a) < 8 then (a, [])
      else case DecodeGrouped a of Inl _ \<Rightarrow> (a, []) | Inr a' \<Rightarrow> (a', Children a'))"

definition selects :: "AVPSelector list \<Rightarrow> avp \<Rightarrow> bool" where
  "selects sels a \<longleftrightarrow> list_ex (\<lambda>s. aCode a = selCode s \<and> aVendorID a = selVendorID s) sels"

text \<open>An optional flag of a policy that is on unless it is switched off.\<close>

definition enabledCheck :: "bool option \<Rightarrow> bool" where
  "enabledCheck p = (case p of None \<Rightarrow> True | Some b \<Rightarrow> b)"

end
