(* ===== verification/Rate_Limit.thy ===== *)
theory Rate_Limit
  imports Edge_Common
begin

text \<open>
  Extension \<open>dea_ratelimit\<close>: the token buckets (\<open>limiter.go\<close>) and the handler that throttles the requests of a
  partner (\<open>dea_ratelimit.go\<close>). Rates and tokens are rational numbers where the code has \<open>float64\<close>, times are
  nanoseconds. The shards only split the lock: the buckets are one map here. The memoised bucket keys are the
  strings they are computed from.
\<close>

section \<open>Token buckets\<close>

record bucket =
  tokens :: rat
  burst :: rat
  rate :: rat
  lastFill :: int
  lastUsed :: int

type_synonym limiter = "(string \<times> bucket) list"

definition idleBucketTTL :: int where "idleBucketTTL = 600 * conf_second"

definition Limiter_sweep :: "int \<Rightarrow> limiter \<Rightarrow> limiter" where
  "Limiter_sweep now l = filter (\<lambda>(k, b). \<not> lastUsed b < now - idleBucketTTL) l"

definition capacity_of :: "rat \<Rightarrow> int \<Rightarrow> rat" where
  "capacity_of r n = (if of_int n \<le> (0::rat) then r else of_int n)"

definition rescale :: "rat \<Rightarrow> rat \<Rightarrow> bucket \<Rightarrow> bucket" where
  "rescale r cap b = (if rate b \<noteq> r \<or> burst b \<noteq> cap
     then b\<lparr>tokens := min cap (tokens b), rate := r, burst := cap\<rparr> else b)"

text \<open>\<open>elapsed.Seconds() * rate\<close>.\<close>

definition refill :: "int \<Rightarrow> bucket \<Rightarrow> bucket" where
  "refill now b = (let elapsed = now - lastFill b in
     if 0 < elapsed
     then b\<lparr>tokens := min (burst b) (tokens b + of_int elapsed / of_int conf_second * rate b), lastFill := now\<rparr> else b)"

definition Allow :: "int \<Rightarrow> string \<Rightarrow> rat \<Rightarrow> int \<Rightarrow> limiter \<Rightarrow> bool \<times> limiter" where
  "Allow now key r n l =
     (if r \<le> 0 then (True, l)
      else let cap = capacity_of r n;
               b = (case map_of l key of Some b \<Rightarrow> b
                    | None \<Rightarrow> \<lparr>tokens = cap, burst = cap, rate = r, lastFill = now, lastUsed = 0\<rparr>);
               b = (refill now (rescale r cap b))\<lparr>lastUsed := now\<rparr>
           in if tokens b < 1 then (False, AList.update key b l)
              else (True, AList.update key (b\<lparr>tokens := tokens b - 1\<rparr>) l))"

definition Utilization :: "limiter \<Rightarrow> string \<Rightarrow> rat option" where
  "Utilization l key = (case map_of l key of None \<Rightarrow> None
     | Some b \<Rightarrow> if burst b \<le> 0 then None
                 else Some (let used = (burst b - tokens b) / burst b in
                   if 1 < (if used < 0 then 0 else used) then 1 else (if used < 0 then 0 else used)))"

definition Limiter_Len :: "limiter \<Rightarrow> nat" where "Limiter_Len l = length l"

section \<open>The extension\<close>

record deaRateLimit =
  rlReg :: "registry option"
  rlLimiter :: "limiter option"
  rlIdentity :: string
  rlRealm :: string
  rlEnabled :: bool
  rlAuditLog :: bool
  rlChecked :: u64
  rlAllowed :: u64
  rlRejected :: u64
  rlDropped :: u64
  rlLimited :: "((string \<times> string) \<times> u64) list"

definition ScopeCommand :: string where "ScopeCommand = ''command''"
definition ScopeApplication :: string where "ScopeApplication = ''application''"
definition ScopePeer :: string where "ScopePeer = ''peer''"
definition ScopePartner :: string where "ScopePartner = ''partner''"

definition peerKey :: "string \<Rightarrow> string \<Rightarrow> string" where "peerKey q i = q @ ''|peer|'' @ i"
definition commandKey :: "string \<Rightarrow> u32 \<Rightarrow> string" where "commandKey q c = q @ ''|cmd|'' @ decimal (uint c)"
definition applicationKey :: "string \<Rightarrow> u32 \<Rightarrow> string" where "applicationKey q a = q @ ''|app|'' @ decimal (uint a)"
definition aggregateKey :: "string \<Rightarrow> string" where "aggregateKey q = q @ ''|partner''"

definition RateLimit_applyConfig :: "ext_config \<Rightarrow> deaRateLimit \<Rightarrow> deaRateLimit" where
  "RateLimit_applyConfig cfg e = e\<lparr>rlEnabled := option_or as_bool cfg ''enabled'' (rlEnabled e),
     rlAuditLog := option_or as_bool cfg ''audit_log'' (rlAuditLog e)\<rparr>"

definition RateLimit_Init :: "registry option \<Rightarrow> NodeConfig option \<Rightarrow> ext_config \<Rightarrow> deaRateLimit \<Rightarrow> deaRateLimit" where
  "RateLimit_Init reg conf cfg e =
     (let e = e\<lparr>rlReg := reg\<rparr>;
          e = (case conf of None \<Rightarrow> e | Some c \<Rightarrow> e\<lparr>rlIdentity := nIdentity c, rlRealm := nRealm c\<rparr>);
          e = (if rlLimiter e = None then e\<lparr>rlLimiter := Some []\<rparr> else e)
      in RateLimit_applyConfig cfg (e\<lparr>rlEnabled := True, rlAuditLog := True\<rparr>))"

record decision =
  dRule :: RateLimitRule
  dScope :: string
  dKey :: string

definition selectRule :: "PartnerConfig \<Rightarrow> string \<Rightarrow> message \<Rightarrow> decision option" where
  "selectRule q i m =
     (let rl = ptRateLimit q; active = (\<lambda>r. case r of None \<Rightarrow> None | Some x \<Rightarrow> if 0 < rlRequestsPerSecond x then Some x else None) in
      case active (map_of (rpPerCommand rl) (mCommandCode m)) of
        Some r \<Rightarrow> Some \<lparr>dRule = r, dScope = ScopeCommand, dKey = commandKey (ptName q) (mCommandCode m)\<rparr>
      | None \<Rightarrow> (case active (map_of (rpPerApplication rl) (mApplicationID m)) of
          Some r \<Rightarrow> Some \<lparr>dRule = r, dScope = ScopeApplication, dKey = applicationKey (ptName q) (mApplicationID m)\<rparr>
        | None \<Rightarrow> (case active (rpPerPeer rl) of
            Some r \<Rightarrow> Some \<lparr>dRule = r, dScope = ScopePeer, dKey = peerKey (ptName q) i\<rparr>
          | None \<Rightarrow>
              if 0 < rlRequestsPerSecond (rpPartner rl)
              then Some \<lparr>dRule = rpPartner rl, dScope = ScopePartner, dKey = aggregateKey (ptName q)\<rparr> else None)))"

text \<open>The answer goes out through the peer's \<open>Send\<close>; its error is only logged.\<close>

definition RateLimit_enforce :: "peer \<Rightarrow> message \<Rightarrow> PartnerConfig \<Rightarrow> decision \<Rightarrow> deaRateLimit \<Rightarrow> (route_error + Route list) \<times> peer \<times> deaRateLimit" where
  "RateLimit_enforce p m q d e =
     (let e = e\<lparr>rlLimited := count_up (ptName q, dScope d) (rlLimited e)\<rparr> in
      if rlAction (dRule d) = ActionDrop then (Inl ErrConsumed, p, e\<lparr>rlDropped := rlDropped e + 1\<rparr>)
      else let code = (if rlResultCode (dRule d) = 0 then ResultTooBusy else rlResultCode (dRule d));
               ans = refusal (rlIdentity e) (rlRealm e) m code ''rate limit exceeded''
           in (Inl ErrConsumed, snd (Send ans p), e\<lparr>rlRejected := rlRejected e + 1\<rparr>))"

definition RateLimit_handleRouting :: "int \<Rightarrow> peer \<Rightarrow> message \<Rightarrow> Route list \<Rightarrow> deaRateLimit \<Rightarrow> (route_error + Route list) \<times> peer \<times> deaRateLimit" where
  "RateLimit_handleRouting now p m cs e =
     (if \<not> rlEnabled e \<or> \<not> IsRequest m then (Inr cs, p, e)
      else case (rlReg e, rlLimiter e) of
        (Some reg, Some l) \<Rightarrow>
          (if \<not> Configured reg then (Inr cs, p, e)
           else case partnerFor reg p m (IsExternalZone reg (zoneOf reg p)) of
             None \<Rightarrow> (Inr cs, p, e)
           | Some q \<Rightarrow>
               if \<not> rpEnabled (ptRateLimit q) then (Inr cs, p, e)
               else (case selectRule q (diameterID p) m of
                 None \<Rightarrow> (Inr cs, p, e)
               | Some d \<Rightarrow> (case Allow now (dKey d) (rlRequestsPerSecond (dRule d)) (rlBurst (dRule d)) l of
                   (ok, l) \<Rightarrow>
                     let e = e\<lparr>rlChecked := rlChecked e + 1, rlLimiter := Some l\<rparr> in
                     if ok then (Inr cs, p, e\<lparr>rlAllowed := rlAllowed e + 1\<rparr>) else RateLimit_enforce p m q d e)))
      | _ \<Rightarrow> (Inr cs, p, e))"

definition RateLimit_Stop :: "deaRateLimit \<Rightarrow> deaRateLimit" where
  "RateLimit_Stop e = e\<lparr>rlEnabled := False, rlLimiter := None\<rparr>"

definition RateLimit_Reconfigure :: "ext_config \<Rightarrow> deaRateLimit \<Rightarrow> deaRateLimit" where
  "RateLimit_Reconfigure cfg e = RateLimit_applyConfig cfg e"

end
