(* ===== verification/Rate_Limit_Properties.thy ===== *)
theory Rate_Limit_Properties
  imports Rate_Limit
begin

text \<open>
  How many requests a token bucket lets through. Between the sweeps a bucket admits at most its capacity plus what
  the rate gives in the time; reclaiming idle buckets keeps this bound only when an idle bucket would be full again.
\<close>

datatype limiter_op = LAllow int string rat int | LSweep int

fun op_time :: "limiter_op \<Rightarrow> int" where
  "op_time (LAllow t _ _ _) = t"
| "op_time (LSweep t) = t"

fun limiter_step :: "limiter \<Rightarrow> limiter_op \<Rightarrow> limiter" where
  "limiter_step l (LAllow t k r n) = snd (Allow t k r n l)"
| "limiter_step l (LSweep t) = Limiter_sweep t l"

fun admits :: "string \<Rightarrow> limiter \<Rightarrow> limiter_op \<Rightarrow> bool" where
  "admits k l (LAllow t k' r n) = (k' = k \<and> fst (Allow t k' r n l))"
| "admits k l (LSweep t) = False"

fun admitted :: "string \<Rightarrow> limiter \<Rightarrow> limiter_op list \<Rightarrow> nat" where
  "admitted k l [] = 0"
| "admitted k l (x # xs) = (if admits k l x then 1 else 0) + admitted k (limiter_step l x) xs"

text \<open>All calls for the key come with the same rule.\<close>

fun follows :: "string \<Rightarrow> rat \<Rightarrow> int \<Rightarrow> limiter_op \<Rightarrow> bool" where
  "follows k r n (LAllow t k' r' n') = (k' = k \<longrightarrow> r' = r \<and> n' = n)"
| "follows k r n (LSweep t) = True"

definition earned :: "rat \<Rightarrow> int \<Rightarrow> rat" where
  "earned r d = of_int d / of_int conf_second * r"

lemma earned_add: "earned r (a + b) = earned r a + earned r b"
  by (simp add: earned_def add_divide_distrib distrib_right)

lemma earned_mono: "0 < r \<Longrightarrow> a \<le> b \<Longrightarrow> earned r a \<le> earned r b"
  by (simp add: earned_def conf_second_def divide_right_mono mult_right_mono)

lemma earned_nonneg: "0 < r \<Longrightarrow> 0 \<le> a \<Longrightarrow> 0 \<le> earned r a"
  using earned_mono [of r 0 a] by (simp add: earned_def)

section \<open>The bucket of one key\<close>

definition bucket_ok :: "rat \<Rightarrow> rat \<Rightarrow> int \<Rightarrow> bucket \<Rightarrow> bool" where
  "bucket_ok r cap t b \<longleftrightarrow> rate b = r \<and> burst b = cap \<and> 0 \<le> tokens b \<and> tokens b \<le> cap \<and> lastFill b \<le> lastUsed b \<and> lastUsed b \<le> t"

definition limiter_ok :: "string \<Rightarrow> rat \<Rightarrow> rat \<Rightarrow> int \<Rightarrow> limiter \<Rightarrow> bool" where
  "limiter_ok k r cap t l \<longleftrightarrow> distinct (map fst l) \<and> (\<forall>b. map_of l k = Some b \<longrightarrow> bucket_ok r cap t b)"

text \<open>The tokens the key could spend at a time.\<close>

definition avail :: "string \<Rightarrow> rat \<Rightarrow> rat \<Rightarrow> int \<Rightarrow> limiter \<Rightarrow> rat" where
  "avail k r cap t l = (case map_of l k of None \<Rightarrow> cap | Some b \<Rightarrow> min cap (tokens b + earned r (t - lastFill b)))"

lemma avail_later:
  assumes "0 < r" "t \<le> u"
  shows "avail k r cap u l \<le> avail k r cap t l + earned r (u - t)"
proof (cases "map_of l k")
  case None
  then show ?thesis using earned_nonneg [of r "u - t"] assms by (simp add: avail_def)
next
  case (Some b)
  have "earned r (u - lastFill b) = earned r (t - lastFill b) + earned r (u - t)"
    using earned_add [of r "t - lastFill b" "u - t"] by simp
  moreover have "0 \<le> earned r (u - t)" using assms by (intro earned_nonneg) auto
  ultimately show ?thesis using Some by (simp add: avail_def min_def)
qed

lemma avail_bounds: "limiter_ok k r cap t l \<Longrightarrow> 0 < r \<Longrightarrow> 0 < cap \<Longrightarrow> 0 \<le> avail k r cap t l \<and> avail k r cap t l \<le> cap"
  using earned_nonneg [of r] by (auto simp: avail_def limiter_ok_def bucket_ok_def split: option.split)

lemma limiter_ok_later: "limiter_ok k r cap t l \<Longrightarrow> t \<le> u \<Longrightarrow> limiter_ok k r cap u l"
  by (auto simp: limiter_ok_def bucket_ok_def)

text \<open>The bucket an \<open>Allow\<close> of the key works on, filled up to now.\<close>

definition current :: "string \<Rightarrow> rat \<Rightarrow> rat \<Rightarrow> int \<Rightarrow> limiter \<Rightarrow> bucket" where
  "current k r cap t l = (refill t (rescale r cap (case map_of l k of Some b \<Rightarrow> b
     | None \<Rightarrow> \<lparr>tokens = cap, burst = cap, rate = r, lastFill = t, lastUsed = 0\<rparr>)))\<lparr>lastUsed := t\<rparr>"

lemma current_ok:
  assumes "limiter_ok k r cap t l" "0 < r" "0 < cap"
  shows "bucket_ok r cap t (current k r cap t l)" and "lastFill (current k r cap t l) = t"
    and "tokens (current k r cap t l) = avail k r cap t l"
proof (atomize (full), cases "map_of l k")
  case None
  with assms show "bucket_ok r cap t (current k r cap t l) \<and> lastFill (current k r cap t l) = t \<and> tokens (current k r cap t l) = avail k r cap t l"
    by (simp add: current_def rescale_def refill_def avail_def bucket_ok_def Let_def)
next
  case (Some b)
  then have b: "bucket_ok r cap t b" using assms by (simp add: limiter_ok_def)
  then have "0 \<le> earned r (t - lastFill b)" using assms by (intro earned_nonneg) (auto simp: bucket_ok_def)
  moreover have "lastFill b < t \<or> lastFill b = t" using b by (auto simp: bucket_ok_def)
  ultimately show "bucket_ok r cap t (current k r cap t l) \<and> lastFill (current k r cap t l) = t \<and> tokens (current k r cap t l) = avail k r cap t l"
    using Some b by (elim disjE) (auto simp: current_def rescale_def refill_def avail_def bucket_ok_def Let_def earned_def min_def)
qed

lemma Allow_eq:
  assumes "0 < r"
  shows "Allow t k r n l = (let b = current k r (capacity_of r n) t l in
     if tokens b < 1 then (False, AList.update k b l) else (True, AList.update k (b\<lparr>tokens := tokens b - 1\<rparr>) l))"
  using assms by (simp add: Allow_def current_def Let_def)

lemma limiter_ok_update:
  "distinct (map fst l) \<Longrightarrow> bucket_ok r cap t b \<Longrightarrow> limiter_ok k r cap t (AList.update k b l)"
  using update_conv' [of k b l] by (auto simp: limiter_ok_def distinct_update simp del: map_of_eq_Some_iff)

lemma Allow_same:
  assumes "limiter_ok k r (capacity_of r n) t l" "0 < r" "0 < capacity_of r n"
  shows "limiter_ok k r (capacity_of r n) t (snd (Allow t k r n l))"
    and "avail k r (capacity_of r n) t (snd (Allow t k r n l)) + (if fst (Allow t k r n l) then 1 else 0) = avail k r (capacity_of r n) t l"
proof -
  note c = current_ok [OF assms]
  have "distinct (map fst l)" using assms(1) by (simp add: limiter_ok_def)
  have a: "avail k r (capacity_of r n) t l \<le> capacity_of r n" using avail_bounds [OF assms] by simp
  show "limiter_ok k r (capacity_of r n) t (snd (Allow t k r n l))"
    using c \<open>distinct (map fst l)\<close>
    by (auto simp: Allow_eq [OF assms(2)] Let_def bucket_ok_def intro!: limiter_ok_update)
  show "avail k r (capacity_of r n) t (snd (Allow t k r n l)) + (if fst (Allow t k r n l) then 1 else 0) = avail k r (capacity_of r n) t l"
    using c(2,3) a by (simp add: Allow_eq [OF assms(2)] Let_def avail_def [of k r _ t "AList.update k _ l"] update_conv' earned_def)
qed

lemma Allow_other:
  assumes "k' \<noteq> k" "distinct (map fst l)"
  shows "map_of (snd (Allow t k' r n l)) k = map_of l k" and "distinct (map fst (snd (Allow t k' r n l)))"
  using assms by (simp_all add: Allow_def Let_def update_conv' distinct_update)

lemma map_of_filter_distinct:
  "distinct (map fst l) \<Longrightarrow> map_of (filter P l) k = (case map_of l k of None \<Rightarrow> None | Some b \<Rightarrow> if P (k, b) then Some b else None)"
  by (induction l) (auto split: option.split simp: map_of_eq_None_iff image_iff)

lemma sweep_ok:
  assumes "limiter_ok k r cap t l" "0 < r" "cap \<le> earned r idleBucketTTL"
  shows "limiter_ok k r cap t (Limiter_sweep t l)" and "avail k r cap t (Limiter_sweep t l) = avail k r cap t l"
proof -
  have d: "distinct (map fst l)" using assms(1) by (simp add: limiter_ok_def)
  note m = map_of_filter_distinct [OF d]
  have "distinct (map fst (filter P l))" for P using d by (induction l) auto
  then show "limiter_ok k r cap t (Limiter_sweep t l)"
    using assms(1) by (auto simp: limiter_ok_def Limiter_sweep_def m split: option.splits if_splits)
  show "avail k r cap t (Limiter_sweep t l) = avail k r cap t l"
  proof (cases "map_of l k")
    case (Some b)
    then have b: "bucket_ok r cap t b" using assms(1) by (simp add: limiter_ok_def)
    have "cap \<le> tokens b + earned r (t - lastFill b)" if "lastUsed b < t - idleBucketTTL"
    proof -
      have "earned r idleBucketTTL \<le> earned r (t - lastFill b)"
        using assms(2) b that by (intro earned_mono) (auto simp: bucket_ok_def)
      then show ?thesis using assms(3) b by (simp add: bucket_ok_def)
    qed
    with Some show ?thesis by (simp add: avail_def Limiter_sweep_def m)
  qed (simp add: avail_def Limiter_sweep_def m)
qed

section \<open>Sequences of operations\<close>

lemma step_avail:
  assumes "limiter_ok k r (capacity_of r n) t l" "0 < r" "0 < capacity_of r n" "capacity_of r n \<le> earned r idleBucketTTL"
    and "follows k r n x" "t \<le> op_time x"
  shows "limiter_ok k r (capacity_of r n) (op_time x) (limiter_step l x)"
    and "avail k r (capacity_of r n) (op_time x) (limiter_step l x) + (if admits k l x then 1 else 0) \<le>
      avail k r (capacity_of r n) t l + earned r (op_time x - t)"
proof -
  have ok: "limiter_ok k r (capacity_of r n) (op_time x) l" using limiter_ok_later assms(1,6) .
  have later: "avail k r (capacity_of r n) (op_time x) l \<le> avail k r (capacity_of r n) t l + earned r (op_time x - t)"
    by (rule avail_later [OF assms(2,6)])
  have "limiter_ok k r (capacity_of r n) (op_time x) (limiter_step l x) \<and>
    avail k r (capacity_of r n) (op_time x) (limiter_step l x) + (if admits k l x then 1 else 0) = avail k r (capacity_of r n) (op_time x) l"
  proof (cases x)
    case (LAllow u k' r' n')
    show ?thesis
    proof (cases "k' = k")
      case True
      with LAllow assms(5) have "r' = r" "n' = n" by simp_all
      with True LAllow Allow_same [OF ok assms(2,3)] show ?thesis by simp
    next
      case False
      then have "distinct (map fst l)" using assms(1) by (simp add: limiter_ok_def)
      with False LAllow ok Allow_other [OF False] show ?thesis by (simp add: limiter_ok_def avail_def)
    qed
  next
    case (LSweep u)
    with sweep_ok [OF ok assms(2,4)] show ?thesis by simp
  qed
  with later show "limiter_ok k r (capacity_of r n) (op_time x) (limiter_step l x)"
    "avail k r (capacity_of r n) (op_time x) (limiter_step l x) + (if admits k l x then 1 else 0) \<le>
      avail k r (capacity_of r n) t l + earned r (op_time x - t)" by auto
qed

lemma run_avail:
  assumes "0 < r" "0 < capacity_of r n" "capacity_of r n \<le> earned r idleBucketTTL"
  shows "limiter_ok k r (capacity_of r n) t l \<Longrightarrow> sorted (t # map op_time xs) \<Longrightarrow> list_all (follows k r n) xs \<Longrightarrow>
    limiter_ok k r (capacity_of r n) (last (t # map op_time xs)) (foldl limiter_step l xs) \<and>
    rat_of_nat (admitted k l xs) \<le> avail k r (capacity_of r n) t l + earned r (last (t # map op_time xs) - t)"
proof (induction xs arbitrary: t l)
  case Nil
  then show ?case using avail_bounds [OF Nil(1) assms(1,2)] by (simp add: earned_def)
next
  case (Cons x xs)
  then have x: "follows k r n x" "t \<le> op_time x" by simp_all
  note st = step_avail [OF Cons.prems(1) assms x]
  have IH: "limiter_ok k r (capacity_of r n) (last (op_time x # map op_time xs)) (foldl limiter_step (limiter_step l x) xs)"
    "rat_of_nat (admitted k (limiter_step l x) xs) \<le>
      avail k r (capacity_of r n) (op_time x) (limiter_step l x) + earned r (last (op_time x # map op_time xs) - op_time x)"
    using Cons.IH [OF st(1)] Cons.prems(2,3) by auto
  have split: "earned r (last (op_time x # map op_time xs) - t) = earned r (last (op_time x # map op_time xs) - op_time x) + earned r (op_time x - t)"
    using earned_add [of r "last (op_time x # map op_time xs) - op_time x" "op_time x - t"] by simp
  have last: "last (t # map op_time (x # xs)) = last (op_time x # map op_time xs)" by simp
  have "rat_of_nat (admitted k l (x # xs)) = (if admits k l x then 1 else 0) + rat_of_nat (admitted k (limiter_step l x) xs)"
    by simp
  then show ?case using IH st(2) split unfolding last foldl_Cons by linarith
qed

text \<open>
  C22: a bucket whose rate fills its capacity within the idle time of ten minutes admits in any window of time at most its capacity plus what
  its rate earns in the window, whatever other keys, calls and sweeps come between, if the rule of the key does not change and the
  operations come in the order of their time stamps. (A slower bucket gets its burst back from the sweep: \<open>sweep_refills_slow_bucket\<close>.)
\<close>
theorem rate_limit_bound:
  assumes "0 < r" and "capacity_of r n \<le> r * 600"
    and "sorted (map op_time (before @ during))" and "list_all (follows k r n) (before @ during)"
    and "t0 \<le> t1" and "list_all (\<lambda>x. t0 \<le> op_time x \<and> op_time x \<le> t1) during"
  shows "rat_of_nat (admitted k (foldl limiter_step [] before) during) \<le> capacity_of r n + r * of_int (t1 - t0) / of_int conf_second"
proof (cases during)
  case Nil
  have "0 \<le> r * rat_of_int (t1 - t0) / rat_of_int conf_second"
    using assms(1,5) by (simp add: conf_second_def)
  then show ?thesis using assms(1) Nil by (simp add: capacity_of_def)
next
  case (Cons x xs)
  have pos: "0 < capacity_of r n" using assms(1) by (simp add: capacity_of_def)
  have idle: "capacity_of r n \<le> earned r idleBucketTTL"
    using assms(2) by (simp add: earned_def idleBucketTTL_def conf_second_def mult.commute)
  note run = run_avail [OF assms(1) pos idle]
  define s where "s = last (hd (map op_time (before @ during)) # map op_time before)"
  have start: "limiter_ok k r (capacity_of r n) (hd (map op_time (before @ during))) []"
    by (simp add: limiter_ok_def)
  have srt: "sorted (hd (map op_time (before @ during)) # map op_time before)"
    using assms(3) by (cases before) (simp_all add: sorted_append)
  have le: "s \<le> op_time x"
  proof (cases "before = []")
    case False
    then have "s \<in> set (map op_time before)" using last_in_set [of "map op_time before"] by (simp add: s_def)
    moreover have "\<forall>y \<in> set (map op_time before). y \<le> op_time x" using assms(3) Cons by (simp add: sorted_append)
    ultimately show ?thesis by blast
  qed (simp add: s_def Cons)
  have ok: "limiter_ok k r (capacity_of r n) (op_time x) (foldl limiter_step [] before)"
    using run [OF start srt] assms(4) limiter_ok_later [OF _ le] by (simp add: s_def)
  have "sorted (op_time x # map op_time during)" using assms(3) Cons by (auto simp: sorted_append)
  then have "rat_of_nat (admitted k (foldl limiter_step [] before) during) \<le>
      avail k r (capacity_of r n) (op_time x) (foldl limiter_step [] before) + earned r (last (op_time x # map op_time during) - op_time x)"
    using run [OF ok] assms(4) by simp
  moreover have "avail k r (capacity_of r n) (op_time x) (foldl limiter_step [] before) \<le> capacity_of r n"
    using avail_bounds [OF ok assms(1) pos] by simp
  moreover have "last (op_time x # map op_time during) - op_time x \<le> t1 - t0"
  proof -
    have "last (map op_time during) \<in> set (map op_time during)" using Cons by (intro last_in_set) simp
    then have "last (map op_time during) \<le> t1" using assms(6) by (auto simp: list_all_iff)
    moreover have "t0 \<le> op_time x" using assms(6) Cons by simp
    ultimately show ?thesis using Cons by simp
  qed
  then have "earned r (last (op_time x # map op_time during) - op_time x) \<le> r * of_int (t1 - t0) / of_int conf_second"
    using earned_mono [OF assms(1), of "last (op_time x # map op_time during) - op_time x" "t1 - t0"]
    unfolding earned_def by (simp only: mult.commute times_divide_eq_right)
  ultimately show ?thesis by linarith
qed

theorem rate_limit_bound_witness:
  "admitted ''p'' (foldl limiter_step [] [LAllow 0 ''p'' 1 2]) [LAllow 0 ''p'' 1 2, LAllow 0 ''q'' 1 2, LAllow 0 ''p'' 1 2, LSweep 7] \<le> 2"
proof -
  have "rat_of_nat (admitted ''p'' (foldl limiter_step [] [LAllow 0 ''p'' 1 2]) [LAllow 0 ''p'' 1 2, LAllow 0 ''q'' 1 2, LAllow 0 ''p'' 1 2, LSweep 7])
      \<le> capacity_of 1 2 + 1 * of_int (7 - 0) / of_int conf_second"
    by (rule rate_limit_bound) (simp_all add: capacity_of_def)
  also have "\<dots> < 3" by (simp add: capacity_of_def conf_second_def)
  finally show ?thesis by linarith
qed

section \<open>Slow rules\<close>

lemma drain:
  assumes "0 < r" "0 < n" "limiter_ok k r (of_int n) t l" "avail k r (of_int n) t l = rat_of_nat m"
  shows "admitted k l (replicate m (LAllow t k r n)) = m \<and>
    avail k r (of_int n) t (foldl limiter_step l (replicate m (LAllow t k r n))) = 0 \<and>
    limiter_ok k r (of_int n) t (foldl limiter_step l (replicate m (LAllow t k r n)))"
  using assms(3,4)
proof (induction m arbitrary: l)
  case (Suc m)
  have cap: "capacity_of r n = of_int n" using assms(2) by (simp add: capacity_of_def)
  have ok: "limiter_ok k r (capacity_of r n) t l" using Suc.prems(1) by (simp add: cap)
  have pos: "0 < capacity_of r n" using assms(2) by (simp add: cap)
  have "tokens (current k r (capacity_of r n) t l) = rat_of_nat (Suc m)"
    using current_ok(3) [OF ok assms(1) pos] Suc.prems(2) by (simp add: cap)
  then have "fst (Allow t k r n l)" by (simp add: Allow_eq [OF assms(1)] Let_def)
  with Allow_same [OF ok assms(1) pos] Suc.prems(2) Suc.IH [of "snd (Allow t k r n l)"] show ?case
    by (simp add: cap)
qed simp

text \<open>
  Reclaiming an idle bucket forgets what it spent. A key that used up its burst and stays away for a little more than
  the idle time gets the whole burst again after the sweep, however little its rate earned in that time.
\<close>
theorem sweep_refills_slow_bucket:
  assumes "0 < r" and "0 < n" and "idleBucketTTL < t"
  shows "admitted k [] (replicate (nat n) (LAllow 0 k r n) @ [LSweep t] @ replicate (nat n) (LAllow t k r n)) = 2 * nat n"
proof -
  let ?burst = "\<lambda>t. replicate (nat n) (LAllow t k r n)"
  have n: "rat_of_int n = rat_of_nat (nat n)" using assms(2) by simp
  have adm: "admitted k l (xs @ ys) = admitted k l xs + admitted k (foldl limiter_step l xs) ys" for l xs ys
    by (induction xs arbitrary: l) simp_all
  have start: "limiter_ok k r (of_int n) t []" "avail k r (of_int n) t [] = rat_of_nat (nat n)" for t
    by (simp_all add: limiter_ok_def avail_def n [symmetric])
  define l where "l = foldl limiter_step [] (?burst 0)"
  have used: "map fst l \<in> {[], [k]} \<and> (\<forall>b \<in> set l. lastUsed (snd b) \<le> 0)"
  proof -
    have "map fst (foldl limiter_step l' (replicate m (LAllow 0 k r n))) \<in> {[], [k]} \<and>
        (\<forall>b \<in> set (foldl limiter_step l' (replicate m (LAllow 0 k r n))). lastUsed (snd b) \<le> 0)"
      if unused: "map fst l' \<in> {[], [k]} \<and> (\<forall>b \<in> set l'. lastUsed (snd b) \<le> 0)" for m l'
      using unused
    proof (induction m arbitrary: l')
      case (Suc m)
      have "map fst (snd (Allow 0 k r n l')) \<in> {[], [k]} \<and> (\<forall>b \<in> set (snd (Allow 0 k r n l')). lastUsed (snd b) \<le> 0)"
        using Suc.prems assms(1) by (cases l') (auto simp: Allow_eq Let_def current_def)
      from Suc.IH [OF this] show ?case by simp
    qed simp
    from this [of "[]" "nat n"] show ?thesis unfolding l_def by fastforce
  qed
  then have "Limiter_sweep t l = []"
    using assms(3) by (auto simp: Limiter_sweep_def filter_empty_conv)
  then have "foldl limiter_step [] (?burst 0 @ [LSweep t]) = []" by (simp add: l_def)
  then show ?thesis
    using drain [OF assms(1,2) start] by (simp add: adm l_def [symmetric] flip: append_assoc)
qed

theorem sweep_refills_slow_bucket_witness:
  "admitted ''p'' [] (replicate 10 (LAllow 0 ''p'' (1/1000) 10) @ [LSweep (601 * conf_second)] @ replicate 10 (LAllow (601 * conf_second) ''p'' (1/1000) 10)) = 20"
  using sweep_refills_slow_bucket [of "1/1000" 10 "601 * conf_second" "''p''"] by (simp add: idleBucketTTL_def conf_second_def)

end
