(* ===== verification/Dict_Codes.thy ===== *)
theory Dict_Codes
  imports Diam_Types
begin

text \<open>
  The codes of the application dictionaries: the rest of \<open>proto/types/avp_codes.go\<close> and the constants at the head of
  \<open>proto/dictionary/dict_3gpp.go\<close>. \<open>Diam_Types\<close> has those of the base protocol.
\<close>

section \<open>\<open>types/avp_codes.go\<close>\<close>

definition AVPCodeCCRequestType :: AVPCode where [simp]: "AVPCodeCCRequestType = 416"
definition AVPCodeCCRequestNumber :: AVPCode where [simp]: "AVPCodeCCRequestNumber = 415"
definition AVPCodeCCSessionFailover :: AVPCode where [simp]: "AVPCodeCCSessionFailover = 418"
definition AVPCodeCCSubSessionID :: AVPCode where [simp]: "AVPCodeCCSubSessionID = 419"
definition AVPCodeCheckBalanceResult :: AVPCode where [simp]: "AVPCodeCheckBalanceResult = 422"
definition AVPCodeCostInformation :: AVPCode where [simp]: "AVPCodeCostInformation = 423"
definition AVPCodeCostUnit :: AVPCode where [simp]: "AVPCodeCostUnit = 424"
definition AVPCodeCreditControl :: AVPCode where [simp]: "AVPCodeCreditControl = 426"
definition AVPCodeCreditControlFailureHandling :: AVPCode where [simp]: "AVPCodeCreditControlFailureHandling = 427"
definition AVPCodeDirectDebitingFailureHandling :: AVPCode where [simp]: "AVPCodeDirectDebitingFailureHandling = 428"
definition AVPCodeExponent :: AVPCode where [simp]: "AVPCodeExponent = 429"
definition AVPCodeFinalUnitAction :: AVPCode where [simp]: "AVPCodeFinalUnitAction = 449"
definition AVPCodeFinalUnitIndication :: AVPCode where [simp]: "AVPCodeFinalUnitIndication = 430"
definition AVPCodeGrantedServiceUnit :: AVPCode where [simp]: "AVPCodeGrantedServiceUnit = 431"
definition AVPCodeMultipleServicesCreditControl :: AVPCode where [simp]: "AVPCodeMultipleServicesCreditControl = 456"
definition AVPCodeMultipleServicesIndicator :: AVPCode where [simp]: "AVPCodeMultipleServicesIndicator = 455"
definition AVPCodeRatingGroup :: AVPCode where [simp]: "AVPCodeRatingGroup = 432"
definition AVPCodeRedirectAddressType :: AVPCode where [simp]: "AVPCodeRedirectAddressType = 433"
definition AVPCodeRedirectServer :: AVPCode where [simp]: "AVPCodeRedirectServer = 434"
definition AVPCodeRedirectServerAddress :: AVPCode where [simp]: "AVPCodeRedirectServerAddress = 435"
definition AVPCodeRequestedAction :: AVPCode where [simp]: "AVPCodeRequestedAction = 436"
definition AVPCodeRequestedServiceUnit :: AVPCode where [simp]: "AVPCodeRequestedServiceUnit = 437"
definition AVPCodeRestrictionFilterRule :: AVPCode where [simp]: "AVPCodeRestrictionFilterRule = 438"
definition AVPCodeServiceContextID :: AVPCode where [simp]: "AVPCodeServiceContextID = 461"
definition AVPCodeServiceIdentifier :: AVPCode where [simp]: "AVPCodeServiceIdentifier = 439"
definition AVPCodeTariffChangeUsage :: AVPCode where [simp]: "AVPCodeTariffChangeUsage = 452"
definition AVPCodeTariffTimeChange :: AVPCode where [simp]: "AVPCodeTariffTimeChange = 451"
definition AVPCodeUnitValue :: AVPCode where [simp]: "AVPCodeUnitValue = 445"
definition AVPCodeUsedServiceUnit :: AVPCode where [simp]: "AVPCodeUsedServiceUnit = 446"
definition AVPCodeUserEquipmentInfo :: AVPCode where [simp]: "AVPCodeUserEquipmentInfo = 458"
definition AVPCodeUserEquipmentInfoType :: AVPCode where [simp]: "AVPCodeUserEquipmentInfoType = 459"
definition AVPCodeUserEquipmentInfoValue :: AVPCode where [simp]: "AVPCodeUserEquipmentInfoValue = 460"
definition AVPCodeValueDigits :: AVPCode where [simp]: "AVPCodeValueDigits = 447"
definition AVPCodeValidityTime :: AVPCode where [simp]: "AVPCodeValidityTime = 448"
definition CmdCodeAAReq :: CommandCode where [simp]: "CmdCodeAAReq = 265"
definition AVPCodeEAPPayload :: AVPCode where [simp]: "AVPCodeEAPPayload = 462"
definition AVPCodeEAPReissuedPayload :: AVPCode where [simp]: "AVPCodeEAPReissuedPayload = 463"
definition AVPCodeEAPMasterSessionKey :: AVPCode where [simp]: "AVPCodeEAPMasterSessionKey = 464"
definition AVPCodeEAPKeyName :: AVPCode where [simp]: "AVPCodeEAPKeyName = 102"
definition CmdCodeEAP :: CommandCode where [simp]: "CmdCodeEAP = 268"
definition AVPCodeNASPort :: AVPCode where [simp]: "AVPCodeNASPort = 5"
definition AVPCodeNASPortID :: AVPCode where [simp]: "AVPCodeNASPortID = 87"
definition AVPCodeNASPortType :: AVPCode where [simp]: "AVPCodeNASPortType = 61"
definition AVPCodeCalledStationID :: AVPCode where [simp]: "AVPCodeCalledStationID = 30"
definition AVPCodeCallingStationID :: AVPCode where [simp]: "AVPCodeCallingStationID = 31"
definition AVPCodeConnectInfo :: AVPCode where [simp]: "AVPCodeConnectInfo = 77"
definition AVPCodeOriginatingLineInfo :: AVPCode where [simp]: "AVPCodeOriginatingLineInfo = 94"
definition AVPCodeReplyMessage :: AVPCode where [simp]: "AVPCodeReplyMessage = 18"
definition AVPCodeNASIdentifier :: AVPCode where [simp]: "AVPCodeNASIdentifier = 32"
definition AVPCodeNASIPAddress :: AVPCode where [simp]: "AVPCodeNASIPAddress = 4"
definition AVPCodeNASIPv6Address :: AVPCode where [simp]: "AVPCodeNASIPv6Address = 95"
definition AVPCodeState :: AVPCode where [simp]: "AVPCodeState = 24"
definition AVPCodeFramedIPAddress :: AVPCode where [simp]: "AVPCodeFramedIPAddress = 8"
definition AVPCodeFramedIPv6Prefix :: AVPCode where [simp]: "AVPCodeFramedIPv6Prefix = 97"
definition AVPCodeFramedIPv6Pool :: AVPCode where [simp]: "AVPCodeFramedIPv6Pool = 100"
definition AVPCodeFramedIPNetmask :: AVPCode where [simp]: "AVPCodeFramedIPNetmask = 9"
definition AVPCodeFramedMTU :: AVPCode where [simp]: "AVPCodeFramedMTU = 12"
definition AVPCodeFramedProtocol :: AVPCode where [simp]: "AVPCodeFramedProtocol = 7"
definition AVPCodeFramedRouting :: AVPCode where [simp]: "AVPCodeFramedRouting = 10"
definition AVPCodeServiceType :: AVPCode where [simp]: "AVPCodeServiceType = 6"
definition AVPCodeLoginIPHost :: AVPCode where [simp]: "AVPCodeLoginIPHost = 14"
definition AVPCodeLoginIPv6Host :: AVPCode where [simp]: "AVPCodeLoginIPv6Host = 98"
definition AVPCodeLoginService :: AVPCode where [simp]: "AVPCodeLoginService = 15"
definition AVPCodeLoginTCPPort :: AVPCode where [simp]: "AVPCodeLoginTCPPort = 16"
definition AVPCodeLoginLATService :: AVPCode where [simp]: "AVPCodeLoginLATService = 34"
definition AVPCodeLoginLATNode :: AVPCode where [simp]: "AVPCodeLoginLATNode = 35"
definition AVPCodeLoginLATGroup :: AVPCode where [simp]: "AVPCodeLoginLATGroup = 36"
definition AVPCodeLoginLATPort :: AVPCode where [simp]: "AVPCodeLoginLATPort = 63"
definition AVPCodeFilterID :: AVPCode where [simp]: "AVPCodeFilterID = 11"
definition AVPCodeIdleTimeout :: AVPCode where [simp]: "AVPCodeIdleTimeout = 28"
definition AVPCodePortLimit :: AVPCode where [simp]: "AVPCodePortLimit = 62"
definition AVPCodeCallbackNumber :: AVPCode where [simp]: "AVPCodeCallbackNumber = 19"
definition AVPCodeCallbackID :: AVPCode where [simp]: "AVPCodeCallbackID = 20"
definition CmdCodeSIPUserAuthorization :: CommandCode where [simp]: "CmdCodeSIPUserAuthorization = 283"
definition CmdCodeSIPServerAssignment :: CommandCode where [simp]: "CmdCodeSIPServerAssignment = 284"
definition CmdCodeSIPLocationInfo :: CommandCode where [simp]: "CmdCodeSIPLocationInfo = 285"
definition CmdCodeSIPMultimediaAuth :: CommandCode where [simp]: "CmdCodeSIPMultimediaAuth = 286"
definition CmdCodeSIPPushProfile :: CommandCode where [simp]: "CmdCodeSIPPushProfile = 288"
definition AVPCodeSIPAccountingInformation :: AVPCode where [simp]: "AVPCodeSIPAccountingInformation = 368"
definition AVPCodeSIPAccountingServerURI :: AVPCode where [simp]: "AVPCodeSIPAccountingServerURI = 369"
definition AVPCodeSIPAuthDataItem :: AVPCode where [simp]: "AVPCodeSIPAuthDataItem = 376"
definition AVPCodeSIPAuthenticationScheme :: AVPCode where [simp]: "AVPCodeSIPAuthenticationScheme = 377"
definition AVPCodeSIPAuthenticate :: AVPCode where [simp]: "AVPCodeSIPAuthenticate = 378"
definition AVPCodeSIPAuthorization :: AVPCode where [simp]: "AVPCodeSIPAuthorization = 379"
definition AVPCodeSIPAuthenticationInfo :: AVPCode where [simp]: "AVPCodeSIPAuthenticationInfo = 381"
definition AVPCodeSIPMemberUser :: AVPCode where [simp]: "AVPCodeSIPMemberUser = 371"
definition AVPCodeSIPMethod :: AVPCode where [simp]: "AVPCodeSIPMethod = 393"
definition AVPCodeSIPNumberAuthItems :: AVPCode where [simp]: "AVPCodeSIPNumberAuthItems = 382"
definition AVPCodeSIPReasonData :: AVPCode where [simp]: "AVPCodeSIPReasonData = 390"
definition AVPCodeSIPReasonInfo :: AVPCode where [simp]: "AVPCodeSIPReasonInfo = 391"
definition AVPCodeSIPServerAssignmentType :: AVPCode where [simp]: "AVPCodeSIPServerAssignmentType = 375"
definition AVPCodeSIPServerURI :: AVPCode where [simp]: "AVPCodeSIPServerURI = 372"
definition AVPCodeSIPUserData :: AVPCode where [simp]: "AVPCodeSIPUserData = 389"
definition AVPCodeSIPUserAuthorizationType :: AVPCode where [simp]: "AVPCodeSIPUserAuthorizationType = 387"
definition AVPCodeSIPUserRoutingInfo :: AVPCode where [simp]: "AVPCodeSIPUserRoutingInfo = 373"

section \<open>\<open>dictionary/dict_3gpp.go\<close>\<close>

definition AVPCode3GPPSubscriptionData :: AVPCode where [simp]: "AVPCode3GPPSubscriptionData = 1400"
definition AVPCode3GPPTerminalInformation :: AVPCode where [simp]: "AVPCode3GPPTerminalInformation = 1401"
definition AVPCode3GPPIMEI :: AVPCode where [simp]: "AVPCode3GPPIMEI = 1402"
definition AVPCode3GPPSoftwareVersion :: AVPCode where [simp]: "AVPCode3GPPSoftwareVersion = 1403"
definition AVPCode3GPPQoSSubscribed :: AVPCode where [simp]: "AVPCode3GPPQoSSubscribed = 1404"
definition AVPCode3GPPULRFlags :: AVPCode where [simp]: "AVPCode3GPPULRFlags = 1405"
definition AVPCode3GPPULAFlags :: AVPCode where [simp]: "AVPCode3GPPULAFlags = 1406"
definition AVPCode3GPPVisitedPLMNID :: AVPCode where [simp]: "AVPCode3GPPVisitedPLMNID = 1407"
definition AVPCode3GPPRequestedEUTRANAuthInfo :: AVPCode where [simp]: "AVPCode3GPPRequestedEUTRANAuthInfo = 1408"
definition AVPCode3GPPNumberOfRequestedVectors :: AVPCode where [simp]: "AVPCode3GPPNumberOfRequestedVectors = 1410"
definition AVPCode3GPPAuthenticationInfo :: AVPCode where [simp]: "AVPCode3GPPAuthenticationInfo = 1413"
definition AVPCode3GPPNetworkAccessMode :: AVPCode where [simp]: "AVPCode3GPPNetworkAccessMode = 1417"
definition AVPCode3GPPCancellationType :: AVPCode where [simp]: "AVPCode3GPPCancellationType = 1420"
definition AVPCode3GPPContextIdentifier :: AVPCode where [simp]: "AVPCode3GPPContextIdentifier = 1423"
definition AVPCode3GPPSubscriberStatus :: AVPCode where [simp]: "AVPCode3GPPSubscriberStatus = 1424"
definition AVPCode3GPPAPNConfigurationProfile :: AVPCode where [simp]: "AVPCode3GPPAPNConfigurationProfile = 1429"
definition AVPCode3GPPAPNConfiguration :: AVPCode where [simp]: "AVPCode3GPPAPNConfiguration = 1430"
definition AVPCode3GPPEPSSubscribedQoSProfile :: AVPCode where [simp]: "AVPCode3GPPEPSSubscribedQoSProfile = 1431"
definition AVPCode3GPPAMBr :: AVPCode where [simp]: "AVPCode3GPPAMBr = 1435"
definition AVPCode3GPPPDNType :: AVPCode where [simp]: "AVPCode3GPPPDNType = 1438"
definition AVPCode3GPPAllAPNConfigsIncluded :: AVPCode where [simp]: "AVPCode3GPPAllAPNConfigsIncluded = 1428"
definition AVPCode3GPPMaxRequestedBandwidthDL :: AVPCode where [simp]: "AVPCode3GPPMaxRequestedBandwidthDL = 515"
definition AVPCode3GPPMaxRequestedBandwidthUL :: AVPCode where [simp]: "AVPCode3GPPMaxRequestedBandwidthUL = 516"
definition CmdCode3GPPUpdateLocation :: CommandCode where [simp]: "CmdCode3GPPUpdateLocation = 316"
definition AVPCode3GPPVisitedNetworkID :: AVPCode where [simp]: "AVPCode3GPPVisitedNetworkID = 600"
definition AVPCode3GPPPublicIdentity :: AVPCode where [simp]: "AVPCode3GPPPublicIdentity = 601"
definition AVPCode3GPPServerName :: AVPCode where [simp]: "AVPCode3GPPServerName = 602"
definition AVPCode3GPPServerCapabilities :: AVPCode where [simp]: "AVPCode3GPPServerCapabilities = 603"
definition AVPCode3GPPMandatoryCapability :: AVPCode where [simp]: "AVPCode3GPPMandatoryCapability = 604"
definition AVPCode3GPPOptionalCapability :: AVPCode where [simp]: "AVPCode3GPPOptionalCapability = 605"
definition AVPCode3GPPUserData :: AVPCode where [simp]: "AVPCode3GPPUserData = 606"
definition AVPCode3GPPSIPNumberAuthItems :: AVPCode where [simp]: "AVPCode3GPPSIPNumberAuthItems = 607"
definition AVPCode3GPPSIPAuthDataItem :: AVPCode where [simp]: "AVPCode3GPPSIPAuthDataItem = 612"
definition AVPCode3GPPSIPAuthScheme :: AVPCode where [simp]: "AVPCode3GPPSIPAuthScheme = 608"
definition AVPCode3GPPSIPAuthenticate :: AVPCode where [simp]: "AVPCode3GPPSIPAuthenticate = 609"
definition AVPCode3GPPSIPAuthorization :: AVPCode where [simp]: "AVPCode3GPPSIPAuthorization = 610"
definition AVPCode3GPPSIPAuthContext :: AVPCode where [simp]: "AVPCode3GPPSIPAuthContext = 611"
definition AVPCode3GPPUserAuthType :: AVPCode where [simp]: "AVPCode3GPPUserAuthType = 623"
definition AVPCode3GPPServerAssignType :: AVPCode where [simp]: "AVPCode3GPPServerAssignType = 614"
definition AVPCode3GPPReasonCode :: AVPCode where [simp]: "AVPCode3GPPReasonCode = 616"
definition AVPCode3GPPReasonInfo :: AVPCode where [simp]: "AVPCode3GPPReasonInfo = 617"
definition AVPCode3GPPDeregistrationReason :: AVPCode where [simp]: "AVPCode3GPPDeregistrationReason = 615"
definition AVPCode3GPPChargingInformation :: AVPCode where [simp]: "AVPCode3GPPChargingInformation = 618"
definition AVPCode3GPPPrimaryChargingCollectionFunctionName :: AVPCode where [simp]: "AVPCode3GPPPrimaryChargingCollectionFunctionName = 621"
definition AVPCode3GPPSecondaryChargingCollectionFunctionName :: AVPCode where [simp]: "AVPCode3GPPSecondaryChargingCollectionFunctionName = 622"
definition AVPCode3GPPRequestedUTRANGERANAuthInfo :: AVPCode where [simp]: "AVPCode3GPPRequestedUTRANGERANAuthInfo = 1409"
definition AVPCode3GPPReAuthRequestType :: AVPCode where [simp]: "AVPCode3GPPReAuthRequestType = 1411"
definition AVPCode3GPPImmediateResponsePreferred :: AVPCode where [simp]: "AVPCode3GPPImmediateResponsePreferred = 1412"
definition AVPCode3GPPEUTRANVector :: AVPCode where [simp]: "AVPCode3GPPEUTRANVector = 1414"
definition AVPCode3GPPUTRANVector :: AVPCode where [simp]: "AVPCode3GPPUTRANVector = 1415"
definition AVPCode3GPPGERANVector :: AVPCode where [simp]: "AVPCode3GPPGERANVector = 1416"
definition AVPCode3GPPHPLMNODBc :: AVPCode where [simp]: "AVPCode3GPPHPLMNODBc = 1418"
definition AVPCode3GPPItemNumber :: AVPCode where [simp]: "AVPCode3GPPItemNumber = 1419"
definition AVPCode3GPPDSAFlags :: AVPCode where [simp]: "AVPCode3GPPDSAFlags = 1421"
definition AVPCode3GPPOperatorDeterminedBarring :: AVPCode where [simp]: "AVPCode3GPPOperatorDeterminedBarring = 1425"
definition AVPCode3GPPAccessRestrictionData :: AVPCode where [simp]: "AVPCode3GPPAccessRestrictionData = 1426"
definition AVPCode3GPPAPNOIReplacement :: AVPCode where [simp]: "AVPCode3GPPAPNOIReplacement = 1427"
definition AVPCode3GPPVPLMNDynamicAddressAllowed :: AVPCode where [simp]: "AVPCode3GPPVPLMNDynamicAddressAllowed = 1432"
definition AVPCode3GPPSTNSr :: AVPCode where [simp]: "AVPCode3GPPSTNSr = 1433"
definition AVPCode3GPPAlertReason :: AVPCode where [simp]: "AVPCode3GPPAlertReason = 1434"
definition AVPCode3GPPCSGSubscriptionData :: AVPCode where [simp]: "AVPCode3GPPCSGSubscriptionData = 1436"
definition AVPCode3GPPCSGID :: AVPCode where [simp]: "AVPCode3GPPCSGID = 1437"
definition AVPCode3GPPTraceData :: AVPCode where [simp]: "AVPCode3GPPTraceData = 1439"
definition AVPCode3GPPTraceReference :: AVPCode where [simp]: "AVPCode3GPPTraceReference = 1459"
definition AVPCode3GPPTraceDepth :: AVPCode where [simp]: "AVPCode3GPPTraceDepth = 1462"
definition AVPCode3GPPTraceNETypeList :: AVPCode where [simp]: "AVPCode3GPPTraceNETypeList = 1463"
definition AVPCode3GPPTraceInterfaceList :: AVPCode where [simp]: "AVPCode3GPPTraceInterfaceList = 1464"
definition AVPCode3GPPTraceEventList :: AVPCode where [simp]: "AVPCode3GPPTraceEventList = 1465"
definition AVPCode3GPPOMC :: AVPCode where [simp]: "AVPCode3GPPOMC = 1466"
definition AVPCode3GPPGPRSSubscriptionData :: AVPCode where [simp]: "AVPCode3GPPGPRSSubscriptionData = 1467"
definition AVPCode3GPPCSGIDList :: AVPCode where [simp]: "AVPCode3GPPCSGIDList = 1469"
definition AVPCode3GPPExpirationDate :: AVPCode where [simp]: "AVPCode3GPPExpirationDate = 1439"
definition AVPCode3GPPRand :: AVPCode where [simp]: "AVPCode3GPPRand = 1447"
definition AVPCode3GPPXRES :: AVPCode where [simp]: "AVPCode3GPPXRES = 1448"
definition AVPCode3GPPAUTN :: AVPCode where [simp]: "AVPCode3GPPAUTN = 1449"
definition AVPCode3GPPKASME :: AVPCode where [simp]: "AVPCode3GPPKASME = 1450"
definition AVPCode3GPPBearerUsage :: AVPCode where [simp]: "AVPCode3GPPBearerUsage = 1000"
definition AVPCode3GPPChargingRuleInstall :: AVPCode where [simp]: "AVPCode3GPPChargingRuleInstall = 1001"
definition AVPCode3GPPChargingRuleRemove :: AVPCode where [simp]: "AVPCode3GPPChargingRuleRemove = 1002"
definition AVPCode3GPPChargingRuleDefinition :: AVPCode where [simp]: "AVPCode3GPPChargingRuleDefinition = 1003"
definition AVPCode3GPPChargingRuleName :: AVPCode where [simp]: "AVPCode3GPPChargingRuleName = 1005"
definition AVPCode3GPPChargingRuleBaseName :: AVPCode where [simp]: "AVPCode3GPPChargingRuleBaseName = 1004"
definition AVPCode3GPPEventTrigger :: AVPCode where [simp]: "AVPCode3GPPEventTrigger = 1006"
definition AVPCode3GPPMeteringMethod :: AVPCode where [simp]: "AVPCode3GPPMeteringMethod = 1007"
definition AVPCode3GPPOffline :: AVPCode where [simp]: "AVPCode3GPPOffline = 1008"
definition AVPCode3GPPOnline :: AVPCode where [simp]: "AVPCode3GPPOnline = 1009"
definition AVPCode3GPPPrecedence :: AVPCode where [simp]: "AVPCode3GPPPrecedence = 1010"
definition AVPCode3GPPReportingLevel :: AVPCode where [simp]: "AVPCode3GPPReportingLevel = 1011"
definition AVPCode3GPPChargingKey :: AVPCode where [simp]: "AVPCode3GPPChargingKey = 1012"
definition AVPCode3GPPQCI :: AVPCode where [simp]: "AVPCode3GPPQCI = 1028"
definition AVPCode3GPPAllocationRetentionPriority :: AVPCode where [simp]: "AVPCode3GPPAllocationRetentionPriority = 1034"
definition AVPCode3GPPPreEmptionCapability :: AVPCode where [simp]: "AVPCode3GPPPreEmptionCapability = 1047"
definition AVPCode3GPPPreEmptionVulnerability :: AVPCode where [simp]: "AVPCode3GPPPreEmptionVulnerability = 1048"
definition AVPCode3GPPDefaultEPSBearerQoS :: AVPCode where [simp]: "AVPCode3GPPDefaultEPSBearerQoS = 1049"
definition AVPCode3GPPANGWAddress :: AVPCode where [simp]: "AVPCode3GPPANGWAddress = 1050"
definition AVPCode3GPPBearerIdentifier :: AVPCode where [simp]: "AVPCode3GPPBearerIdentifier = 1020"
definition AVPCode3GPPBearerOperation :: AVPCode where [simp]: "AVPCode3GPPBearerOperation = 1021"
definition AVPCode3GPPAccessNetworkChargingIdentifierGx :: AVPCode where [simp]: "AVPCode3GPPAccessNetworkChargingIdentifierGx = 1022"
definition AVPCode3GPPBearerControlMode :: AVPCode where [simp]: "AVPCode3GPPBearerControlMode = 1023"
definition AVPCode3GPPNetworkRequestSupport :: AVPCode where [simp]: "AVPCode3GPPNetworkRequestSupport = 1024"
definition AVPCode3GPPGuaranteedBitrateUL :: AVPCode where [simp]: "AVPCode3GPPGuaranteedBitrateUL = 1025"
definition AVPCode3GPPGuaranteedBitrateDL :: AVPCode where [simp]: "AVPCode3GPPGuaranteedBitrateDL = 1026"
definition AVPCode3GPPIPCANType :: AVPCode where [simp]: "AVPCode3GPPIPCANType = 1027"
definition AVPCode3GPPDefaultQoSInformation :: AVPCode where [simp]: "AVPCode3GPPDefaultQoSInformation = 2816"
definition AVPCode3GPPANTrusted :: AVPCode where [simp]: "AVPCode3GPPANTrusted = 1503"
definition AVPCode3GPPMediaComponentDescription :: AVPCode where [simp]: "AVPCode3GPPMediaComponentDescription = 517"
definition AVPCode3GPPMediaComponentNumber :: AVPCode where [simp]: "AVPCode3GPPMediaComponentNumber = 518"
definition AVPCode3GPPMediaSubComponent :: AVPCode where [simp]: "AVPCode3GPPMediaSubComponent = 519"
definition AVPCode3GPPMediaType :: AVPCode where [simp]: "AVPCode3GPPMediaType = 520"
definition AVPCode3GPPMaxRequestedBandwidth :: AVPCode where [simp]: "AVPCode3GPPMaxRequestedBandwidth = 521"
definition AVPCode3GPPFlowDescription :: AVPCode where [simp]: "AVPCode3GPPFlowDescription = 507"
definition AVPCode3GPPFlowNumber :: AVPCode where [simp]: "AVPCode3GPPFlowNumber = 509"
definition AVPCode3GPPFlowStatus :: AVPCode where [simp]: "AVPCode3GPPFlowStatus = 511"
definition AVPCode3GPPFlowUsage :: AVPCode where [simp]: "AVPCode3GPPFlowUsage = 512"
definition AVPCode3GPPSpecificAction :: AVPCode where [simp]: "AVPCode3GPPSpecificAction = 513"
definition AVPCode3GPPAFChargingIdentifier :: AVPCode where [simp]: "AVPCode3GPPAFChargingIdentifier = 505"
definition AVPCode3GPPSponsorIdentity :: AVPCode where [simp]: "AVPCode3GPPSponsorIdentity = 531"
definition AVPCode3GPPApplicationServiceProviderIdentity :: AVPCode where [simp]: "AVPCode3GPPApplicationServiceProviderIdentity = 532"
definition CmdCode3GPPUserAuthorization :: CommandCode where [simp]: "CmdCode3GPPUserAuthorization = 300"
definition CmdCode3GPPServerAssignment :: CommandCode where [simp]: "CmdCode3GPPServerAssignment = 301"
definition CmdCode3GPPLocationInfo :: CommandCode where [simp]: "CmdCode3GPPLocationInfo = 302"
definition CmdCode3GPPMultimediaAuthentication :: CommandCode where [simp]: "CmdCode3GPPMultimediaAuthentication = 303"
definition CmdCode3GPPRegistrationTermination :: CommandCode where [simp]: "CmdCode3GPPRegistrationTermination = 304"
definition CmdCode3GPPPushProfile :: CommandCode where [simp]: "CmdCode3GPPPushProfile = 305"
definition CmdCode3GPPCancelLocation :: CommandCode where [simp]: "CmdCode3GPPCancelLocation = 317"
definition CmdCode3GPPAuthenticationInformation :: CommandCode where [simp]: "CmdCode3GPPAuthenticationInformation = 318"
definition CmdCode3GPPInsertSubscriberData :: CommandCode where [simp]: "CmdCode3GPPInsertSubscriberData = 319"
definition CmdCode3GPPDeleteSubscriberData :: CommandCode where [simp]: "CmdCode3GPPDeleteSubscriberData = 320"
definition CmdCode3GPPPurgeUE :: CommandCode where [simp]: "CmdCode3GPPPurgeUE = 321"
definition CmdCode3GPPReset :: CommandCode where [simp]: "CmdCode3GPPReset = 322"
definition CmdCode3GPPNotify :: CommandCode where [simp]: "CmdCode3GPPNotify = 323"
definition CmdCode3GPPCreditControl :: CommandCode where [simp]: "CmdCode3GPPCreditControl = 272"
definition CmdCode3GPPAARequest :: CommandCode where [simp]: "CmdCode3GPPAARequest = 265"
definition CmdCode3GPPSessionTermination :: CommandCode where [simp]: "CmdCode3GPPSessionTermination = 275"
definition CmdCode3GPPAbortSession :: CommandCode where [simp]: "CmdCode3GPPAbortSession = 274"

end
