(* ===== verification/Screening.thy ===== *)
theory Screening
  imports Edge_Common Dict_Codes
begin

text \<open>
  Extension \<open>dea_screening\<close>: the rules a request from a partner is checked by, and the handler that enforces them.
  A verdict keeps the rule and the action; the detail text, which is only logged, is left out. Decoding grouped AVPs
  on demand changes the message, so the search for denied AVPs returns the message it leaves behind.
\<close>

section \<open>Rules\<close>

definition RuleOriginRealm :: string where "RuleOriginRealm = ''origin_realm''"
definition RuleOriginHost :: string where "RuleOriginHost = ''origin_host''"
definition RulePeerIdentity :: string where "RulePeerIdentity = ''peer_identity''"
definition RuleDestinationRealm :: string where "RuleDestinationRealm = ''destination_realm''"
definition RulePLMN :: string where "RulePLMN = ''plmn''"
definition RuleApplication :: string where "RuleApplication = ''application''"
definition RuleCommand :: string where "RuleCommand = ''command''"
definition RuleAVPDenied :: string where "RuleAVPDenied = ''avp_denied''"
definition RuleAVPNotAllowed :: string where "RuleAVPNotAllowed = ''avp_not_allowed''"
definition RuleRouteRecords :: string where "RuleRouteRecords = ''route_records''"
definition RuleUnknownPartner :: string where "RuleUnknownPartner = ''unknown_partner''"
definition vendor3GPP :: VendorID where "vendor3GPP = 10415"

record verdict =
  vRule :: string
  vAction :: string
  vPartner :: string

section \<open>Content checks\<close>

definition nibble :: "byte \<Rightarrow> byte" where "nibble b = b AND 0x0F"

definition digit_char :: "byte \<Rightarrow> char" where "digit_char d = char_of_byte (48 + d)"

definition decodeVisitedPLMN :: "byte list \<Rightarrow> string option" where
  "decodeVisitedPLMN d =
     (if length d < 3 then None
      else let mnc3 = drop_bit 4 (d ! 1);
               digits = [nibble (d ! 0), drop_bit 4 (d ! 0), nibble (d ! 1), nibble (d ! 2), drop_bit 4 (d ! 2)]
        in if list_ex (\<lambda>x. 9 < x) digits then None
           else if mnc3 = 0x0F then Some (map digit_char digits)
           else if 9 < mnc3 then None
           else Some (map digit_char digits @ [digit_char mnc3]))"

definition plmn_equal :: "string \<Rightarrow> string \<Rightarrow> bool" where
  "plmn_equal plmn p \<longleftrightarrow> p = plmn \<or>
     (length p = 6 \<and> length plmn = 5 \<and> take 3 p = take 3 plmn \<and> p ! 3 = CHR ''0'' \<and> drop 4 p = drop 3 plmn) \<or>
     (length plmn = 6 \<and> length p = 5 \<and> take 3 plmn = take 3 p \<and> plmn ! 3 = CHR ''0'' \<and> drop 4 plmn = drop 3 p)"

definition plmnMatches :: "string \<Rightarrow> string list \<Rightarrow> bool" where
  "plmnMatches plmn ps \<longleftrightarrow> list_ex (plmn_equal plmn) ps"

definition imsiMatches :: "string \<Rightarrow> string list \<Rightarrow> bool" where
  "imsiMatches imsi ps \<longleftrightarrow> list_ex (HasPrefix imsi) ps"

definition isIMSI :: "string \<Rightarrow> bool" where
  "isIMSI s \<longleftrightarrow> 6 \<le> length s \<and> length s \<le> 15 \<and> list_all is_digit s"

text \<open>Whether the PLMN check is passed.\<close>

definition checkPLMN :: "message \<Rightarrow> string list \<Rightarrow> bool" where
  "checkPLMN m ps \<longleftrightarrow>
     (case FindAVP m AVPCode3GPPVisitedPLMNID vendor3GPP of None \<Rightarrow> True
      | Some a \<Rightarrow> (case decodeVisitedPLMN (aData a) of None \<Rightarrow> True | Some plmn \<Rightarrow> plmnMatches plmn ps)) \<and>
     (case GetUserName m of None \<Rightarrow> True | Some u \<Rightarrow> isIMSI u \<longrightarrow> imsiMatches u ps)"

text \<open>Size of an AVP: what is still to be decoded, or the children already decoded.\<close>

primrec avp_weight :: "avp \<Rightarrow> nat" where
  "avp_weight (AVP c f v d cs) = (if cs = [] then length d + 1 else 1 + sum_list (map avp_weight cs))"

fun with_children :: "avp list \<Rightarrow> avp \<Rightarrow> avp" where
  "with_children cs (AVP c f v d _) = AVP c f v d cs"

lemma avp_weight_pos: "0 < avp_weight a"
  by (cases a) simp

lemma avp_weight_flat: "aChildren a = [] \<Longrightarrow> avp_weight a = length (aData a) + 1"
  by (cases a) simp

lemma flat_weights:
  "\<forall>c \<in> set cs. aChildren c = [] \<Longrightarrow> sum_list (map avp_weight cs) \<le> length (concat (map avp_wire cs))"
proof (induction cs)
  case (Cons c cs)
  then have c: "avp_weight c = length (aData c) + 1" "payload c = aData c" by (simp_all add: avp_weight_flat payload_def)
  have "length (aData c) + 1 \<le> EncodedLen c"
    using header_payload_le [of c] c(2) by (simp add: header_size_def AVPHeaderSize_def AVPHeaderSizeVendor_def split: if_splits)
  with Cons c(1) show ?case by simp
qed simp

lemma weight_children: "sum_list (map avp_weight (snd (groupedChildren a))) < avp_weight a"
proof (cases "IsGrouped a")
  case True
  then show ?thesis by (cases a) (simp add: groupedChildren_def Children_def IsGrouped_def)
next
  case False
  then have flat: "aChildren a = []" by (simp add: IsGrouped_def)
  show ?thesis
  proof (cases "length (aData a) < 8 \<or> (\<exists>e. DecodeGrouped a = Inl e)")
    case True
    with False show ?thesis using avp_weight_pos [of a] by (auto simp: groupedChildren_def)
  next
    case False2: False
    then obtain b where b: "DecodeGrouped a = Inr b" by (cases "DecodeGrouped a") auto
    then have "decodeAVPs (aData a) = Inr (aChildren b)"
      using False2 by (auto simp: DecodeGrouped_def split: if_splits sum.splits)
    from decodeAVPs_inverse [OF this] have d: "\<forall>c \<in> set (aChildren b). aChildren c = []" "aData a = concat (map avp_wire (aChildren b))"
      by (auto simp: wire_avp_def)
    have "sum_list (map avp_weight (aChildren b)) \<le> length (aData a)" using flat_weights [OF d(1)] d(2) by simp
    then show ?thesis
      using False False2 b flat by (simp add: groupedChildren_def Children_def avp_weight_flat)
  qed
qed

text \<open>The search for a denied AVP: the AVPs afterwards, and what was found.\<close>

function findDeniedAVP :: "AVPSelector list \<Rightarrow> avp list \<Rightarrow> avp list \<times> avp option" where
  "findDeniedAVP deny [] = ([], None)"
| "findDeniedAVP deny (a # as) =
     (if selects deny a then (a # as, Some a)
      else let a' = fst (groupedChildren a) in
        if snd (groupedChildren a) = [] then (case findDeniedAVP deny as of (as', r) \<Rightarrow> (a' # as', r))
        else (case findDeniedAVP deny (snd (groupedChildren a)) of
            (cs, Some found) \<Rightarrow> (with_children cs a' # as, Some found)
          | (cs, None) \<Rightarrow> (case findDeniedAVP deny as of (as', r) \<Rightarrow> (with_children cs a' # as', r))))"
  by pat_completeness auto
termination
  by (relation "measure (\<lambda>(_, as). sum_list (map avp_weight as))")
    (use weight_children avp_weight_pos in \<open>auto simp: trans_less_add1\<close>)

section \<open>The catalogue\<close>

definition violate :: "PartnerConfig \<Rightarrow> string \<Rightarrow> verdict" where
  "violate q rule =
     (let s = ptScreening q;
          action = (case map_of (scRuleActions s) rule of Some a \<Rightarrow> if a \<noteq> '''' then a else scDefaultAction s | None \<Rightarrow> scDefaultAction s)
      in \<lparr>vRule = rule, vAction = (if action = '''' then ActionReject else action), vPartner = ptName q\<rparr>)"

definition EqualFold :: "string \<Rightarrow> string \<Rightarrow> bool" where
  "EqualFold a b \<longleftrightarrow> ToLower a = ToLower b"

definition or_empty :: "string option \<Rightarrow> string" where
  "or_empty x = (case x of None \<Rightarrow> '''' | Some s \<Rightarrow> s)"

text \<open>The first rule about the source, the destination or the values of a request that it violates.\<close>

definition violated_rule :: "registry \<Rightarrow> PartnerConfig \<Rightarrow> string \<Rightarrow> message \<Rightarrow> string \<Rightarrow> string option" where
  "violated_rule reg q peerIdentity m lrealm =
     (let s = ptScreening q; originHost = or_empty (GetOriginHost m); originRealm = or_empty (GetOriginRealm m);
          destRealm = or_empty (GetDestinationRealm m) in
      if enabledCheck (scCheckOriginRealm s) \<and> (originRealm = '''' \<or> \<not> RealmMatches originRealm (ptRealms q)) then Some RuleOriginRealm
      else if enabledCheck (scCheckOriginHost s) \<and> (originHost = '''' \<or> (originRealm \<noteq> '''' \<and> \<not> HostInRealm originHost originRealm))
      then Some RuleOriginHost
      else if enabledCheck (scCheckPeerIdentity s) \<and> peerIdentity \<noteq> '''' \<and> originHost \<noteq> '''' \<and> \<not> EqualFold peerIdentity originHost \<and>
        \<not> RealmMatches originRealm (ptRealms q) then Some RulePeerIdentity
      else if enabledCheck (scCheckDestinationRealm s) \<and> \<not> ptAllowTransit q \<and>
        (destRealm = '''' \<or> \<not> (EqualFold destRealm lrealm \<or> ServesRealm reg destRealm)) then Some RuleDestinationRealm
      else if enabledCheck (scCheckApplications s) \<and> ptApplications q \<noteq> [] \<and> mApplicationID m \<notin> set (ptApplications q)
      then Some RuleApplication
      else if enabledCheck (scCheckCommands s) \<and> ptCommands q \<noteq> [] \<and> mCommandCode m \<notin> set (ptCommands q) then Some RuleCommand
      else if enabledCheck (scCheckPLMN s) \<and> ptPLMNIDs q \<noteq> [] \<and> \<not> checkPLMN m (ptPLMNIDs q) then Some RulePLMN
      else None)"

text \<open>The rules about the AVPs; the last two look at the message the search has left.\<close>

definition violated_content :: "ScreeningPolicy \<Rightarrow> message \<Rightarrow> message \<times> string option" where
  "violated_content s m =
     (case (if scDenyAVPs s \<noteq> [] then findDeniedAVP (scDenyAVPs s) (AVPs m) else (AVPs m, None)) of
        (as, found) \<Rightarrow>
          (let m = m\<lparr>AVPs := as\<rparr> in
           (m, if found \<noteq> None then Some RuleAVPDenied
               else if scAllowAVPs s \<noteq> [] \<and> \<not> list_all (selects (scAllowAVPs s)) (AVPs m) then Some RuleAVPNotAllowed
               else if 0 < scMaxRouteRecords s \<and> scMaxRouteRecords s < int (length (FindAllAVPs m AVPCodeRouteRecord 0)) then Some RuleRouteRecords
               else None)))"

definition evaluate :: "registry \<Rightarrow> PartnerConfig \<Rightarrow> string \<Rightarrow> message \<Rightarrow> string \<Rightarrow> message \<times> verdict option" where
  "evaluate reg q peerIdentity m lrealm =
     (case violated_rule reg q peerIdentity m lrealm of
        Some rule \<Rightarrow> (m, Some (violate q rule))
      | None \<Rightarrow> (case violated_content (ptScreening q) m of (m, rule) \<Rightarrow> (m, map_option (violate q) rule)))"

section \<open>The extension\<close>

record deaScreening =
  scrReg :: "registry option"
  scrIdentity :: string
  scrRealm :: string
  scrEnabled :: bool
  scrAuditLog :: bool
  scrScreened :: u64
  scrRejected :: u64
  scrDropped :: u64
  scrLogged :: u64
  scrViolations :: "((string \<times> string) \<times> u64) list"

definition Screening_applyConfig :: "ext_config \<Rightarrow> deaScreening \<Rightarrow> deaScreening" where
  "Screening_applyConfig cfg e = e\<lparr>scrEnabled := option_or as_bool cfg ''enabled'' (scrEnabled e),
     scrAuditLog := option_or as_bool cfg ''audit_log'' (scrAuditLog e)\<rparr>"

definition Screening_Init :: "registry option \<Rightarrow> NodeConfig option \<Rightarrow> ext_config \<Rightarrow> deaScreening \<Rightarrow> deaScreening" where
  "Screening_Init reg conf cfg e =
     (let e = e\<lparr>scrReg := reg\<rparr>;
          e = (case conf of None \<Rightarrow> e | Some c \<Rightarrow> e\<lparr>scrIdentity := nIdentity c, scrRealm := nRealm c\<rparr>)
      in Screening_applyConfig cfg (e\<lparr>scrEnabled := True, scrAuditLog := True\<rparr>))"

definition countViolation :: "string \<Rightarrow> string \<Rightarrow> deaScreening \<Rightarrow> deaScreening" where
  "countViolation q rule e = e\<lparr>scrViolations := count_up (q, rule) (scrViolations e)\<rparr>"

definition screening_answer :: "deaScreening \<Rightarrow> message \<Rightarrow> ResultCode \<Rightarrow> string \<Rightarrow> message" where
  "screening_answer e m code rule = refusal (scrIdentity e) (scrRealm e) m code (''screening: '' @ rule)"

definition rejectUnknownPartner :: "peer \<Rightarrow> message \<Rightarrow> deaScreening \<Rightarrow> (route_error + Route list) \<times> message \<times> peer \<times> deaScreening" where
  "rejectUnknownPartner p m e =
     (let e = (countViolation '''' RuleUnknownPartner (e\<lparr>scrScreened := scrScreened e + 1\<rparr>));
          e = e\<lparr>scrRejected := scrRejected e + 1\<rparr>
      in (Inl ErrConsumed, m, snd (Send (screening_answer e m ResultAuthorizationRejected RuleUnknownPartner) p), e))"

definition Screening_enforce :: "peer \<Rightarrow> message \<Rightarrow> PartnerConfig \<Rightarrow> verdict \<Rightarrow> deaScreening \<Rightarrow> (route_error + Route list) \<times> message \<times> peer \<times> deaScreening" where
  "Screening_enforce p m q v e =
     (let e = countViolation (vPartner v) (vRule v) e in
      if vAction v = ActionLog then (Inr [], m, p, e\<lparr>scrLogged := scrLogged e + 1\<rparr>)
      else if vAction v = ActionDrop then (Inl ErrConsumed, m, p, e\<lparr>scrDropped := scrDropped e + 1\<rparr>)
      else let e = e\<lparr>scrRejected := scrRejected e + 1\<rparr>;
               code = (if scRejectResultCode (ptScreening q) = 0 then ResultAuthorizationRejected else scRejectResultCode (ptScreening q))
           in (Inl ErrConsumed, m, snd (Send (screening_answer e m code (vRule v)) p), e))"

definition Screening_handleRouting :: "peer \<Rightarrow> message \<Rightarrow> Route list \<Rightarrow> deaScreening \<Rightarrow> (route_error + Route list) \<times> message \<times> peer \<times> deaScreening" where
  "Screening_handleRouting p m cs e =
     (if \<not> scrEnabled e \<or> \<not> IsRequest m then (Inr cs, m, p, e)
      else case scrReg e of None \<Rightarrow> (Inr cs, m, p, e)
      | Some reg \<Rightarrow> (case Edge_Zone reg (zoneOf reg p) of None \<Rightarrow> (Inr cs, m, p, e)
        | Some z \<Rightarrow> (case partnerFor reg p m (IsExternal z) of
            None \<Rightarrow> if IsExternal z then rejectUnknownPartner p m e else (Inr cs, m, p, e)
          | Some q \<Rightarrow>
              if \<not> ScreeningEnabled q (IsExternal z) then (Inr cs, m, p, e)
              else let e = e\<lparr>scrScreened := scrScreened e + 1\<rparr> in
                (case evaluate reg q (diameterID p) m (scrRealm e) of
                   (m, None) \<Rightarrow> (Inr cs, m, p, e)
                 | (m, Some v) \<Rightarrow> Screening_enforce p m q v e))))"

definition Screening_Stop :: "deaScreening \<Rightarrow> deaScreening" where "Screening_Stop e = e\<lparr>scrEnabled := False\<rparr>"

definition Screening_Reconfigure :: "ext_config \<Rightarrow> deaScreening \<Rightarrow> deaScreening" where
  "Screening_Reconfigure cfg e = Screening_applyConfig cfg e"

end
