(* ===== verification/Screening_Properties.thy ===== *)
theory Screening_Properties
  imports Screening Edge_Properties
begin

text \<open>
  What screening lets through: exactly the requests that satisfy every rule of the policy of the partner the peer
  belongs to, with denied AVPs searched at every depth.
\<close>

text \<open>An AVP occurs in a list at top level, or among the children an AVP of the list has or decodes to.\<close>

inductive occurs :: "avp \<Rightarrow> avp list \<Rightarrow> bool" where
  here: "a \<in> set as \<Longrightarrow> occurs a as"
| below: "b \<in> set as \<Longrightarrow> occurs a (snd (groupedChildren b)) \<Longrightarrow> occurs a as"

inductive_simps occurs_Nil: "occurs a []"

lemma occurs_Cons: "occurs a (b # as) \<longleftrightarrow> a = b \<or> occurs a (snd (groupedChildren b)) \<or> occurs a as"
proof
  show "occurs a (b # as) \<Longrightarrow> a = b \<or> occurs a (snd (groupedChildren b)) \<or> occurs a as"
    by (cases rule: occurs.cases) (auto intro: occurs.intros)
  show "a = b \<or> occurs a (snd (groupedChildren b)) \<or> occurs a as \<Longrightarrow> occurs a (b # as)"
    by (elim disjE; (cases rule: occurs.cases)?) (auto intro: occurs.intros elim: occurs.cases)
qed

lemma occurs_None: "\<not> occurs a []"
  by (simp add: occurs_Nil)

lemma findDeniedAVP_None: "snd (findDeniedAVP deny as) = None \<longleftrightarrow> (\<forall>a. occurs a as \<longrightarrow> \<not> selects deny a)"
proof (induction deny as rule: findDeniedAVP.induct)
  case (2 deny a as)
  show ?case
  proof (cases "selects deny a")
    case False
    show ?thesis
    proof (cases "snd (groupedChildren a) = []")
      case True
      with False 2(1) show ?thesis by (cases "findDeniedAVP deny as") (simp add: occurs_Cons occurs_None)
    next
      case nonempty: False
      obtain cs r where cs: "findDeniedAVP deny (snd (groupedChildren a)) = (cs, r)" by fastforce
      have below: "r = None \<longleftrightarrow> (\<forall>b. occurs b (snd (groupedChildren a)) \<longrightarrow> \<not> selects deny b)"
        using 2(2) [OF False refl nonempty] by (simp add: cs)
      show ?thesis
      proof (cases r)
        case None
        have "snd (findDeniedAVP deny as) = None \<longleftrightarrow> (\<forall>b. occurs b as \<longrightarrow> \<not> selects deny b)"
          using 2(3) [OF False refl nonempty cs [symmetric] None] .
        moreover have "snd (findDeniedAVP deny (a # as)) = snd (findDeniedAVP deny as)"
          using False nonempty cs None by (cases "findDeniedAVP deny as") simp
        ultimately show ?thesis using False below None by (auto simp: occurs_Cons)
      next
        case (Some found)
        with False below cs nonempty show ?thesis by (auto simp: occurs_Cons)
      qed
    qed
  qed (auto simp: occurs_Cons)
qed (simp add: occurs_None)


text \<open>The search changes no code or vendor at top level.\<close>

definition avp_ids :: "avp list \<Rightarrow> (AVPCode \<times> VendorID) list" where
  "avp_ids as = map (\<lambda>a. (aCode a, aVendorID a)) as"

lemma groupedChildren_ids: "aCode (fst (groupedChildren a)) = aCode a \<and> aVendorID (fst (groupedChildren a)) = aVendorID a"
  by (auto simp: groupedChildren_def DecodeGrouped_def split: sum.split)

lemma with_children_ids [simp]: "aCode (with_children cs a) = aCode a" "aVendorID (with_children cs a) = aVendorID a"
  by (cases a; simp)+

lemma findDeniedAVP_ids: "avp_ids (fst (findDeniedAVP deny as)) = avp_ids as"
  by (induction deny as rule: findDeniedAVP.induct)
    (auto simp: avp_ids_def groupedChildren_ids Let_def split: prod.split option.split)

lemma ids_list_all: "list_all (selects sels) as \<longleftrightarrow> list_all (\<lambda>(c, v). list_ex (\<lambda>s. c = selCode s \<and> v = selVendorID s) sels) (avp_ids as)"
  by (induction as) (simp_all add: avp_ids_def selects_def)

lemma ids_count: "length (filter (avp_matches c v) as) = length (filter (\<lambda>(c', v'). c' = c \<and> (v = 0 \<or> v' = v)) (avp_ids as))"
  by (induction as) (auto simp: avp_ids_def avp_matches_def)

text \<open>The policy of a partner, as a condition on a request.\<close>

definition authorised :: "registry \<Rightarrow> PartnerConfig \<Rightarrow> string \<Rightarrow> string \<Rightarrow> message \<Rightarrow> bool" where
  "authorised reg q peerIdentity lrealm m \<longleftrightarrow>
     (let s = ptScreening q; originHost = or_empty (GetOriginHost m); originRealm = or_empty (GetOriginRealm m);
          destRealm = or_empty (GetDestinationRealm m) in
      (enabledCheck (scCheckOriginRealm s) \<longrightarrow> RealmMatches originRealm (ptRealms q)) \<and>
      (enabledCheck (scCheckOriginHost s) \<longrightarrow> originHost \<noteq> '''' \<and> (originRealm \<noteq> '''' \<longrightarrow> HostInRealm originHost originRealm)) \<and>
      (enabledCheck (scCheckPeerIdentity s) \<longrightarrow> peerIdentity = '''' \<or> originHost = '''' \<or> EqualFold peerIdentity originHost \<or>
        RealmMatches originRealm (ptRealms q)) \<and>
      (enabledCheck (scCheckDestinationRealm s) \<and> \<not> ptAllowTransit q \<longrightarrow> destRealm \<noteq> '''' \<and> (EqualFold destRealm lrealm \<or> ServesRealm reg destRealm)) \<and>
      (enabledCheck (scCheckApplications s) \<longrightarrow> ptApplications q = [] \<or> mApplicationID m \<in> set (ptApplications q)) \<and>
      (enabledCheck (scCheckCommands s) \<longrightarrow> ptCommands q = [] \<or> mCommandCode m \<in> set (ptCommands q)) \<and>
      (enabledCheck (scCheckPLMN s) \<longrightarrow> ptPLMNIDs q = [] \<or> checkPLMN m (ptPLMNIDs q)) \<and>
      (\<forall>a. occurs a (AVPs m) \<longrightarrow> \<not> selects (scDenyAVPs s) a) \<and>
      (scAllowAVPs s = [] \<or> list_all (selects (scAllowAVPs s)) (AVPs m)) \<and>
      (0 < scMaxRouteRecords s \<longrightarrow> int (length (FindAllAVPs m AVPCodeRouteRecord 0)) \<le> scMaxRouteRecords s))"

lemma violated_content_None:
  "snd (violated_content s m) = None \<longleftrightarrow>
     (\<forall>a. occurs a (AVPs m) \<longrightarrow> \<not> selects (scDenyAVPs s) a) \<and>
     (scAllowAVPs s = [] \<or> list_all (selects (scAllowAVPs s)) (AVPs m)) \<and>
     (0 < scMaxRouteRecords s \<longrightarrow> int (length (FindAllAVPs m AVPCodeRouteRecord 0)) \<le> scMaxRouteRecords s)"
proof -
  define found where "found = (if scDenyAVPs s \<noteq> [] then findDeniedAVP (scDenyAVPs s) (AVPs m) else (AVPs m, None))"
  have denied: "snd found = None \<longleftrightarrow> (\<forall>a. occurs a (AVPs m) \<longrightarrow> \<not> selects (scDenyAVPs s) a)"
    by (simp add: found_def findDeniedAVP_None) (simp add: selects_def)
  have ids: "avp_ids (fst found) = avp_ids (AVPs m)"
    by (simp add: found_def findDeniedAVP_ids)
  show ?thesis
    unfolding violated_content_def found_def [symmetric] denied [symmetric]
    using ids by (cases found) (simp add: Let_def FindAllAVPs_def not_less ids_list_all ids_count)
qed

lemma evaluate_authorised: "snd (evaluate reg q i m lrealm) = None \<longleftrightarrow> authorised reg q i lrealm m"
proof -
  have empty: "\<not> RealmMatches '''' ps" for ps by (simp add: RealmMatches_def)
  have eq: "snd (evaluate reg q i m lrealm) = None \<longleftrightarrow>
      violated_rule reg q i m lrealm = None \<and> snd (violated_content (ptScreening q) m) = None"
    by (simp add: evaluate_def split: option.split prod.split)
  have chain: "(if c then Some x else y) = None \<longleftrightarrow> \<not> c \<and> y = None" for c and x :: string and y by simp
  have last: "(\<not> c \<and> (None :: string option) = None) = (\<not> c)" for c by simp
  show ?thesis
    unfolding eq violated_content_None authorised_def violated_rule_def Let_def chain last conj_assoc
    by (intro arg_cong2 [where f = "(\<and>)"]) (auto simp: empty)
qed

text \<open>
  C23: of the requests of a peer on an external zone, screening passes exactly those that satisfy the whole policy of the
  partner the peer belongs to; every other request, and every request of a peer without a partner, is consumed. This
  holds when the policy is on and no rule is set to log only.
\<close>
theorem screening_passes_authorised_only:
  assumes "scrEnabled e" and "IsRequest m" and "scrReg e = Some reg"
    and "Edge_Zone reg (zoneOf reg p) = Some z" and "IsExternal z"
    and "\<forall>q rule. partnerFor reg p m True = Some q \<longrightarrow> ScreeningEnabled q True \<and> vAction (violate q rule) \<noteq> ActionLog"
  shows "fst (Screening_handleRouting p m cs e) =
    (if \<exists>q. partnerFor reg p m True = Some q \<and> authorised reg q (diameterID p) (scrRealm e) m then Inr cs else Inl ErrConsumed)"
proof (cases "partnerFor reg p m True")
  case None
  then show ?thesis using assms by (simp add: Screening_handleRouting_def rejectUnknownPartner_def Let_def)
next
  case (Some q)
  then have q: "ScreeningEnabled q True" "vAction (violate q rule) \<noteq> ActionLog" for rule using assms(6) by auto
  obtain m' v where v: "evaluate reg q (diameterID p) m (scrRealm e) = (m', v)" by fastforce
  have auth: "v = None \<longleftrightarrow> authorised reg q (diameterID p) (scrRealm e) m"
    using evaluate_authorised [of reg q "diameterID p" m "scrRealm e"] by (simp add: v)
  have rule: "\<exists>rule. x = violate q rule" if "v = Some x" for x
    using v that by (auto simp: evaluate_def split: option.splits prod.splits)
  show ?thesis
  proof (cases v)
    case None
    with auth v q Some assms show ?thesis by (simp add: Screening_handleRouting_def Let_def)
  next
    case (Some x)
    from rule [OF this] q(2) have "vAction x \<noteq> ActionLog" by auto
    with Some auth v q(1) \<open>partnerFor reg p m True = Some q\<close> assms show ?thesis
      by (simp add: Screening_handleRouting_def Screening_enforce_def Let_def)
  qed
qed


definition sample_screening :: "registry option \<Rightarrow> deaScreening" where
  "sample_screening reg = \<lparr>scrReg = reg, scrIdentity = ''a.b'', scrRealm = ''b'', scrEnabled = True, scrAuditLog = False, scrScreened = 0,
     scrRejected = 0, scrDropped = 0, scrLogged = 0, scrViolations = []\<rparr>"

text \<open>
  Screening looks at the first Origin-Host, Origin-Realm and Destination-Realm only, and takes an AVP of any vendor for
  it. When a request has an AVP with such a code, appending another one with an arbitrary value is never noticed, unless
  the policy lists denied or allowed AVPs.
\<close>
theorem later_origin_avp_escapes_screening:
  assumes "aCode a \<in> {AVPCodeOriginHost, AVPCodeOriginRealm, AVPCodeDestinationRealm}"
    and "FindAVP m (aCode a) 0 \<noteq> None"
    and "scDenyAVPs (ptScreening q) = []" and "scAllowAVPs (ptScreening q) = []"
  shows "authorised reg q i lrealm (AddAVP m a) \<longleftrightarrow> authorised reg q i lrealm m"
proof -
  have first: "FindAVP (AddAVP m a) c v = FindAVP m c v"
    if "c \<noteq> aCode a \<or> v = 0" for c v
  proof (cases "c = aCode a")
    case True
    with that assms(2) show ?thesis by (auto simp: FindAVP_AddAVP split: option.split)
  next
    case False
    then show ?thesis by (simp add: FindAVP_AddAVP avp_matches_def split: option.split)
  qed
  have other: "aCode a \<noteq> AVPCode3GPPVisitedPLMNID" "aCode a \<noteq> AVPCodeRouteRecord"
    using assms(1) by (auto simp: AVPCode3GPPVisitedPLMNID_def)
  then have "FindAllAVPs (AddAVP m a) AVPCodeRouteRecord 0 = FindAllAVPs m AVPCodeRouteRecord 0"
    by (simp add: FindAllAVPs_def AddAVP_def avp_matches_def)
  moreover have "checkPLMN (AddAVP m a) ps = checkPLMN m ps" for ps
    using other first by (simp add: checkPLMN_def GetUserName_def)
  ultimately show ?thesis
    using first assms(3,4)
    by (simp add: authorised_def Let_def GetOriginHost_def GetOriginRealm_def GetDestinationRealm_def identity_of_def selects_def AddAVP_frame)
qed


section \<open>Examples\<close>

definition sample_edge :: registry where "sample_edge = Reload (Some sample_mixed) emptyRegistry"

definition roaming_peer :: peer where
  "roaming_peer = sample_open\<lparr>diameterID := ''e.c.d'', config := (config sample_open)\<lparr>cZone := '''', cPartner := ''''\<rparr>\<rparr>"

definition roaming_request :: message where
  "roaming_request = (NewRequest 316 16777251)\<lparr>AVPs := [NewDiameterIdentityAVP AVPCodeOriginHost AVPFlagMandatory ''h.x.c.d'',
     NewDiameterIdentityAVP AVPCodeOriginRealm AVPFlagMandatory ''x.c.d'', NewDiameterIdentityAVP AVPCodeDestinationRealm AVPFlagMandatory ''b'']\<rparr>"

lemma roaming_peer_simps: "Zone roaming_peer = ''''" "Partner roaming_peer = ''''" "diameterID roaming_peer = ''e.c.d''"
  by (simp_all add: roaming_peer_def Zone_def Partner_def)

lemma sample_edge_peer:
  "zoneOf sample_edge roaming_peer = ''ipx''" "Edge_Zone sample_edge ''ipx'' = Some (sample_zone ''ipx'' ''external'')"
  "partnerFor sample_edge roaming_peer m external = Some sample_partner"
  by (simp_all add: zoneOf_def roaming_peer_simps sample_edge_def ZoneNameForPeer_def sample_normalize sample_peerZone Edge_Zone_def sample_zones
      partnerFor_def PartnerForPeer_def Reload_tables last_partner_def)

lemma roaming_request_simps:
  "GetOriginHost roaming_request = Some ''h.x.c.d''" "GetOriginRealm roaming_request = Some ''x.c.d''"
  "GetDestinationRealm roaming_request = Some ''b''" "IsRequest roaming_request"
  by (simp_all add: roaming_request_def GetOriginHost_def GetOriginRealm_def GetDestinationRealm_def identity_of_def FindAVP_def
      avp_matches_def NewDiameterIdentityAVP_def NewAVP_def GetDiameterIdentity_def NewRequest_def NewMessage_def IsRequest_def)

lemma roaming_request_authorised: "authorised sample_edge sample_partner ''e.c.d'' ''b'' roaming_request"
  by (simp add: authorised_def Let_def or_empty_def roaming_request_simps sample_partner_def RealmMatches_def HostInRealm_def pattern_matches_def
      HasPrefix_def HasSuffix_def normalize_name_def ToLower_def lower_char_def EqualFold_def enabledCheck_def selects_def)

theorem screening_passes_authorised_only_witness:
  "fst (Screening_handleRouting roaming_peer roaming_request [] (sample_screening (Some sample_edge))) = Inr []"
proof -
  have "fst (Screening_handleRouting roaming_peer roaming_request [] (sample_screening (Some sample_edge))) =
    (if \<exists>q. partnerFor sample_edge roaming_peer roaming_request True = Some q \<and>
        authorised sample_edge q (diameterID roaming_peer) (scrRealm (sample_screening (Some sample_edge))) roaming_request
     then Inr [] else Inl ErrConsumed)"
    by (rule screening_passes_authorised_only [where z = "sample_zone ''ipx'' ''external''"])
      (simp_all add: sample_screening_def roaming_request_simps sample_edge_peer sample_fields ScreeningEnabled_def boolValue_def
        violate_def sample_partner_def ActionReject_def ActionLog_def)
  then show ?thesis
    by (simp add: sample_edge_peer roaming_peer_simps sample_screening_def roaming_request_authorised)
qed

theorem later_origin_avp_escapes_screening_witness:
  "authorised sample_edge sample_partner ''e.c.d'' ''b''
     (AddAVP roaming_request (NewDiameterIdentityAVP AVPCodeOriginRealm AVPFlagMandatory ''victim.example''))"
proof -
  let ?a = "NewDiameterIdentityAVP AVPCodeOriginRealm AVPFlagMandatory ''victim.example''"
  have code: "aCode ?a = AVPCodeOriginRealm" by (simp add: NewDiameterIdentityAVP_def NewAVP_def)
  have "scDenyAVPs (ptScreening sample_partner) = []" "scAllowAVPs (ptScreening sample_partner) = []"
    by (simp_all add: sample_partner_def)
  moreover have "FindAVP roaming_request (aCode ?a) 0 \<noteq> None"
    using roaming_request_simps(2) unfolding code by (auto simp: GetOriginRealm_def identity_of_def)
  moreover have "aCode ?a \<in> {AVPCodeOriginHost, AVPCodeOriginRealm, AVPCodeDestinationRealm}" by (simp add: code)
  ultimately show ?thesis
    using later_origin_avp_escapes_screening roaming_request_authorised by blast
qed

end
