(* ===== verification/Dea_Route.thy ===== *)
theory Dea_Route
  imports Edge_Common Edge_Properties Router_Relay
begin

text \<open>
  Extension \<open>dea_route\<close>: candidates from the peers of the partner that owns the destination, and the two delivery
  rules of the edge: no external peer gets a message whose destination it does not own, and a partner reaches another
  one only with leave. Random draws are those of the environment, numbered from \<open>calls\<close>.
\<close>

section \<open>The extension\<close>

definition tierStep :: int where "tierStep = 10"
definition winnerBonus :: int where "winnerBonus = 1"
definition defaultBaseScore :: int where "defaultBaseScore = 300"

record deaRoute =
  drReg :: "registry option"
  baseScore :: int
  drEnabled :: bool
  drEvaluated :: u64
  drRouted :: u64
  drTransit :: u64
  drMisdeliver :: u64
  drPerPartner :: "(string \<times> u64) list"

definition positive_option :: "ext_config \<Rightarrow> string \<Rightarrow> int \<Rightarrow> int" where
  "positive_option cfg key d = (case option_of as_int cfg key of Some v \<Rightarrow> if 0 < v then v else d | None \<Rightarrow> d)"

definition DeaRoute_Init :: "registry option \<Rightarrow> ext_config \<Rightarrow> deaRoute \<Rightarrow> deaRoute" where
  "DeaRoute_Init reg cfg e =
     e\<lparr>drReg := reg, baseScore := positive_option cfg ''base_score'' defaultBaseScore, drEnabled := option_or as_bool cfg ''enabled'' True\<rparr>"

definition DeaRoute_Reconfigure :: "ext_config \<Rightarrow> deaRoute \<Rightarrow> deaRoute" where
  "DeaRoute_Reconfigure cfg e =
     e\<lparr>baseScore := positive_option cfg ''base_score'' (baseScore e), drEnabled := option_or as_bool cfg ''enabled'' (drEnabled e)\<rparr>"

definition DeaRoute_Stop :: "deaRoute \<Rightarrow> deaRoute" where "DeaRoute_Stop e = e\<lparr>drEnabled := False\<rparr>"

text \<open>The partner named by a host and, failing that, by a realm; empty names count as missing.\<close>

definition partner_by :: "registry \<Rightarrow> DiamID option \<Rightarrow> DiamID option \<Rightarrow> PartnerConfig option" where
  "partner_by reg host rlm =
     (case (case host of None \<Rightarrow> None | Some h \<Rightarrow> if h = '''' then None else PartnerForPeer reg h) of
        Some q \<Rightarrow> Some q
      | None \<Rightarrow> (case rlm of None \<Rightarrow> None | Some d \<Rightarrow> if d = '''' then None else PartnerForRealm reg d))"

definition destinationPartner :: "registry \<Rightarrow> message \<Rightarrow> PartnerConfig option" where
  "destinationPartner reg m = partner_by reg (GetDestinationHost m) (GetDestinationRealm m)"

definition originPartnerOf :: "registry \<Rightarrow> message \<Rightarrow> PartnerConfig option" where
  "originPartnerOf reg m = partner_by reg (GetOriginHost m) (GetOriginRealm m)"

definition foreign_external :: "registry \<Rightarrow> PartnerConfig option \<Rightarrow> Route \<Rightarrow> bool" where
  "foreign_external reg dest c \<longleftrightarrow> (case PartnerForPeer reg (PeerIdentity c) of None \<Rightarrow> False
     | Some q \<Rightarrow> IsExternalZone reg (ptZone q) \<and> (case dest of None \<Rightarrow> True | Some d \<Rightarrow> ptName q \<noteq> ptName d))"

definition dropForeignExternal :: "registry \<Rightarrow> Route list \<Rightarrow> PartnerConfig option \<Rightarrow> deaRoute \<Rightarrow> Route list \<times> deaRoute" where
  "dropForeignExternal reg cs dest e =
     (filter (\<lambda>c. \<not> foreign_external reg dest c) cs,
      e\<lparr>drMisdeliver := drMisdeliver e + of_nat (length (filter (foreign_external reg dest) cs))\<rparr>)"

definition weightOf :: "PartnerPeer \<Rightarrow> int" where
  "weightOf pp = (if prWeight pp \<le> 0 then 1 else prWeight pp)"

fun draw_peer :: "int \<Rightarrow> PartnerPeer list \<Rightarrow> string option" where
  "draw_peer n [] = None"
| "draw_peer n (pp # ps) = (if n - weightOf pp < 0 then Some (prIdentity pp) else draw_peer (n - weightOf pp) ps)"

definition electWinner :: "PartnerPeer list \<Rightarrow> (nat \<Rightarrow> nat) \<Rightarrow> string" where
  "electWinner tier draw =
     (let total = sum_list (map weightOf tier) in
      if total \<le> 0 then ''''
      else (case draw_peer (int (draw (nat total))) tier of Some i \<Rightarrow> i | None \<Rightarrow> prIdentity (last tier)))"

text \<open>The index of the code finds the last candidate with an identity.\<close>

definition merge_route :: "Route \<Rightarrow> Route list \<Rightarrow> Route list" where
  "merge_route x cs =
     (if \<exists>c \<in> set cs. PeerIdentity c = PeerIdentity x
      then rev (update_first (\<lambda>c. PeerIdentity c = PeerIdentity x) (\<lambda>c. if Score c < Score x then x else c) (rev cs))
      else cs @ [x])"

definition apply_tier :: "int \<Rightarrow> PartnerConfig \<Rightarrow> string \<Rightarrow> int \<Rightarrow> Route list \<Rightarrow> Route list" where
  "apply_tier base q winner priority cs =
     fold (\<lambda>pp. merge_route \<lparr>PeerIdentity = prIdentity pp,
         Score = base - priority * tierStep + (if prIdentity pp = winner then winnerBonus else 0), Reason = ''partner '' @ ptName q\<rparr>)
       (filter (\<lambda>pp. prPriority pp = priority) (ptPeers q)) cs"

fun apply_tiers :: "renv \<Rightarrow> int \<Rightarrow> PartnerConfig \<Rightarrow> int list \<Rightarrow> nat \<Rightarrow> Route list \<Rightarrow> Route list \<times> nat" where
  "apply_tiers env base q [] calls cs = (cs, calls)"
| "apply_tiers env base q (p # ps) calls cs =
     (let winner = electWinner (filter (\<lambda>pp. prPriority pp = p) (ptPeers q)) (intn env calls)
      in apply_tiers env base q ps (Suc calls) (apply_tier base q winner p cs))"

definition applyPartnerPeers :: "renv \<Rightarrow> nat \<Rightarrow> Route list \<Rightarrow> PartnerConfig \<Rightarrow> deaRoute \<Rightarrow> Route list \<times> nat" where
  "applyPartnerPeers env calls cs q e = apply_tiers env (baseScore e) q (sort (remdups (map prPriority (ptPeers q)))) calls cs"

definition refuses_transit :: "PartnerConfig option \<Rightarrow> PartnerConfig option \<Rightarrow> bool" where
  "refuses_transit origin dest = (case (origin, dest) of
     (Some q, Some d) \<Rightarrow> ptName q \<noteq> ptName d \<and> \<not> ptAllowTransit q | _ \<Rightarrow> False)"

definition DeaRoute_handleRouting :: "renv \<Rightarrow> nat \<Rightarrow> message \<Rightarrow> Route list \<Rightarrow> deaRoute \<Rightarrow> Route list \<times> nat \<times> deaRoute" where
  "DeaRoute_handleRouting env calls m cs e =
     (if \<not> drEnabled e then (cs, calls, e)
      else case drReg e of None \<Rightarrow> (cs, calls, e)
      | Some reg \<Rightarrow>
          if \<not> Configured reg then (cs, calls, e)
          else let e = e\<lparr>drEvaluated := drEvaluated e + 1\<rparr>;
                   dest = destinationPartner reg m
            in if refuses_transit (originPartnerOf reg m) dest then ([], calls, e\<lparr>drTransit := drTransit e + 1\<rparr>)
               else (case dropForeignExternal reg cs dest e of (cs, e) \<Rightarrow>
                 (case dest of None \<Rightarrow> (cs, calls, e)
                  | Some d \<Rightarrow>
                      if ptPeers d = [] then (cs, calls, e)
                      else (case applyPartnerPeers env calls cs d e of (cs, calls) \<Rightarrow>
                        (cs, calls, e\<lparr>drRouted := drRouted e + 1, drPerPartner := count_up (ptName d) (drPerPartner e)\<rparr>)))))"

section \<open>Merging\<close>

lemma update_first_ids: "(\<And>c. P c \<Longrightarrow> PeerIdentity (f c) = PeerIdentity c) \<Longrightarrow> map PeerIdentity (update_first P f cs) = map PeerIdentity cs"
  by (induction cs) auto

lemma merge_route_ids: "PeerIdentity ` set (merge_route x cs) = insert (PeerIdentity x) (PeerIdentity ` set cs)"
proof (cases "\<exists>c \<in> set cs. PeerIdentity c = PeerIdentity x")
  case True
  have "map PeerIdentity (update_first (\<lambda>c. PeerIdentity c = PeerIdentity x) (\<lambda>c. if Score c < Score x then x else c) (rev cs)) = map PeerIdentity (rev cs)"
    by (rule update_first_ids) simp
  then have "set (map PeerIdentity (update_first (\<lambda>c. PeerIdentity c = PeerIdentity x) (\<lambda>c. if Score c < Score x then x else c) (rev cs))) = PeerIdentity ` set cs"
    by simp
  moreover have "PeerIdentity x \<in> PeerIdentity ` set cs" using True by (metis image_eqI)
  ultimately show ?thesis using True by (simp add: merge_route_def insert_absorb)
qed (simp add: merge_route_def)

lemma fold_merge_ids: "PeerIdentity ` set (fold (\<lambda>y. merge_route (f y)) ys cs) = PeerIdentity ` set cs \<union> (PeerIdentity \<circ> f) ` set ys"
  by (induction ys arbitrary: cs) (auto simp: merge_route_ids)

lemma apply_tiers_ids:
  "PeerIdentity ` set (fst (apply_tiers env base q ps calls cs)) \<subseteq> PeerIdentity ` set cs \<union> prIdentity ` set (ptPeers q)"
proof (induction env base q ps calls cs rule: apply_tiers.induct)
  case (2 env base q p ps calls cs)
  let ?w = "electWinner (filter (\<lambda>pp. prPriority pp = p) (ptPeers q)) (intn env calls)"
  have "PeerIdentity ` set (apply_tier base q ?w p cs) \<subseteq> PeerIdentity ` set cs \<union> prIdentity ` set (ptPeers q)"
    unfolding apply_tier_def fold_merge_ids by auto
  with 2 [OF refl] show ?case by auto
qed simp

lemma DeaRoute_candidates:
  assumes "drEnabled e" "drReg e = Some reg" "Configured reg"
  shows "fst (DeaRoute_handleRouting env calls m cs e) =
    (let dest = destinationPartner reg m; kept = filter (\<lambda>x. \<not> foreign_external reg dest x) cs in
     if refuses_transit (originPartnerOf reg m) dest then []
     else case dest of None \<Rightarrow> kept
       | Some d \<Rightarrow> if ptPeers d = [] then kept
           else fst (apply_tiers env (baseScore e) d (sort (remdups (map prPriority (ptPeers d)))) calls kept))"
  using assms
  by (simp add: DeaRoute_handleRouting_def Let_def dropForeignExternal_def applyPartnerPeers_def split: option.split prod.split)

section \<open>Partners of a configuration\<close>

lemma rgPartners_fold: "rgPartners (fold add_partner ps r) n = (case last_partner (\<lambda>p. ptName p = n) ps of Some p \<Rightarrow> Some p | None \<Rightarrow> rgPartners r n)"
proof (induction ps arbitrary: r)
  case (Cons p ps)
  have "rgPartners (add_partner p r) = (rgPartners r)(ptName p \<mapsto> p)"
    by (simp add: add_partner_def fold_add_partner_realm fold_add_partner_peer)
  with Cons show ?case by (simp add: last_partner_Cons split: option.split)
qed (simp add: last_partner_def)

lemma Reload_partners: "rgPartners (Reload (Some c) r) n = last_partner (\<lambda>p. ptName p = n) (nPartners c)"
proof -
  have "rgPartners (fold add_zone zs s) = rgPartners s" for zs s
    by (rule fold_frame [where proj = rgPartners]) (simp add: add_zone_def)
  then have base: "rgPartners (rebuilt_zones c r) = Map.empty"
    by (simp add: rebuilt_zones_def fallback_zone_def reset_def emptyRegistry_def)
  have peer: "rgPartners (fold add_peer xs s) = rgPartners s" for xs s
    by (rule fold_frame [where proj = rgPartners]) (simp add: add_peer_def Let_def)
  show ?thesis
    using Reload_lookup [of c r] by (simp add: lookup_tables_def peer sort_suffixes_def rgPartners_fold base split: option.split)
qed

lemma Reload_configured: "rgConfigured (Reload (Some c) r) \<longleftrightarrow> nZones c \<noteq> [] \<or> nPartners c \<noteq> []"
proof -
  have one: "rgConfigured (add_served d s) = rgConfigured s" for d s by (simp add: add_served_def Let_def)
  have served: "rgConfigured (rebuildServedLocked c s) = rgConfigured s" for s
    unfolding rebuildServedLocked_def Let_def
    by (simp add: fold_frame [where proj = rgConfigured] one split: prod.split)
  have parts: "rgConfigured (fold add_peer xs s) = rgConfigured s" "rgConfigured (fold add_zone zs s) = rgConfigured s"
    "rgConfigured (fold add_partner ps s) = rgConfigured s" for xs zs ps s
    by (rule fold_frame [where proj = rgConfigured];
        simp add: add_peer_def add_zone_def add_partner_def add_partner_realm_def add_partner_peer_def Let_def
          fold_frame [where proj = rgConfigured])+
  show ?thesis
    by (simp add: Reload_def rebuildLocked_def Let_def served parts sort_suffixes_def fallback_zone_def)
qed

lemma PartnerForPeer_configured: "PartnerForPeer (Reload (Some c) r) i = Some p \<Longrightarrow> p \<in> set (nPartners c)"
  using last_partner_Some by (fastforce simp: PartnerForPeer_def Reload_tables Reload_partners split: if_splits option.splits)

lemma PartnerForRealm_configured:
  assumes "PartnerForRealm (Reload (Some c) r) d = Some p" shows "p \<in> set (nPartners c)"
proof (cases "last_partner (\<lambda>p. normalize_name d \<in> set (exact_realms p)) (nPartners c)")
  case None
  with assms obtain e where "find (\<lambda>e. HasSuffix (normalize_name d) (seSuffix e)) (realmSuffix (Reload (Some c) r)) = Some e" "p = sePartner e"
    by (auto simp: PartnerForRealm_def Reload_tables split: if_splits)
  then have "e \<in> set (concat (map wildcard_entries (nPartners c)))" using find_SomeD by (fastforce simp: Reload_tables)
  then show ?thesis using \<open>p = sePartner e\<close> by (auto simp: wildcard_entries_def)
next
  case (Some q)
  with assms last_partner_Some [OF this] show ?thesis by (simp add: PartnerForRealm_def Reload_tables split: if_splits)
qed

lemma destinationPartner_configured: "destinationPartner (Reload (Some c) r) m = Some d \<Longrightarrow> d \<in> set (nPartners c)"
  by (auto simp: destinationPartner_def partner_by_def split: option.splits if_splits
      dest: PartnerForPeer_configured PartnerForRealm_configured)

lemma distinct_concat_unique:
  "distinct (concat (map f xs)) \<Longrightarrow> a \<in> set xs \<Longrightarrow> b \<in> set xs \<Longrightarrow> x \<in> set (f a) \<Longrightarrow> x \<in> set (f b) \<Longrightarrow> a = b"
  by (induction xs) auto

text \<open>When no identity is claimed twice, a peer's partner is the one that lists it.\<close>

lemma listed_peer_partner:
  assumes "distinct (map normalize_name (owned_identities c))" "p \<in> set (nPartners c)" "pp \<in> set (ptPeers p)" "prIdentity pp \<noteq> ''''"
  shows "PartnerForPeer (Reload (Some c) r) (prIdentity pp) = Some p"
proof -
  let ?i = "normalize_name (prIdentity pp)"
  have uniq: "q = p" if q: "q \<in> set (nPartners c)" "?i \<in> set (partner_peer_ids q)" for q
  proof -
    have d: "distinct (concat (map partner_peer_ids (nPartners c)))"
      using assms(1) by (simp add: owned_identities_def partner_identities_def partner_peer_ids_def [abs_def] map_concat comp_def)
    have "?i \<in> set (partner_peer_ids p)" using assms(3) by (auto simp: partner_peer_ids_def)
    then show ?thesis by (rule distinct_concat_unique [OF d q(1) assms(2) q(2)])
  qed
  have "last_partner (\<lambda>p. ?i \<in> set (partner_peer_ids p)) (nPartners c) = Some p"
  proof (cases "last_partner (\<lambda>p. ?i \<in> set (partner_peer_ids p)) (nPartners c)")
    case None
    then show ?thesis using assms(2,3) by (auto simp: last_partner_None partner_peer_ids_def)
  next
    case (Some q)
    then show ?thesis using last_partner_Some [OF Some] uniq by simp
  qed
  then show ?thesis using assms(4) by (simp add: PartnerForPeer_def Reload_tables)
qed


text \<open>
  C24: after the edge's routing step no candidate is an external peer of a partner that does not own the destination, and
  a request of a partner without transit leave toward another partner has no candidate left; for a registry loaded from a
  configuration whose peers are each claimed by one partner.
\<close>
theorem external_candidates_own_destination:
  assumes "drEnabled e" and "drReg e = Some reg" and "reg = Reload (Some c) r0" and "Configured reg"
    and "distinct (map normalize_name (owned_identities c))" and "'''' \<notin> set (owned_identities c)"
    and "DeaRoute_handleRouting env calls m cs e = (cs', calls', e')"
  shows "(\<forall>x \<in> set cs'. \<forall>q. PartnerForPeer reg (PeerIdentity x) = Some q \<and> IsExternalZone reg (ptZone q) \<longrightarrow>
      (\<exists>d. destinationPartner reg m = Some d \<and> ptName q = ptName d)) \<and>
    (\<forall>og d. originPartnerOf reg m = Some og \<and> destinationPartner reg m = Some d \<and> ptName og \<noteq> ptName d \<and> \<not> ptAllowTransit og \<longrightarrow> cs' = [])"
proof -
  define dest where "dest = destinationPartner reg m"
  define kept where "kept = filter (\<lambda>x. \<not> foreign_external reg dest x) cs"
  have result: "cs' = (if refuses_transit (originPartnerOf reg m) dest then [] else case dest of None \<Rightarrow> kept
      | Some d \<Rightarrow> if ptPeers d = [] then kept
          else fst (apply_tiers env (baseScore e) d (sort (remdups (map prPriority (ptPeers d)))) calls kept))"
    using DeaRoute_candidates [OF assms(1,2,4), of env calls m cs] unfolding assms(7) kept_def dest_def Let_def by simp
  have kept_ok: "\<exists>d. dest = Some d \<and> ptName q = ptName d"
    if "x \<in> set kept" "PartnerForPeer reg (PeerIdentity x) = Some q" "IsExternalZone reg (ptZone q)" for x q
    using that by (auto simp: kept_def foreign_external_def split: option.splits)
  have owned: "\<exists>d. dest = Some d \<and> ptName q = ptName d"
    if x: "x \<in> set cs'" and q: "PartnerForPeer reg (PeerIdentity x) = Some q" "IsExternalZone reg (ptZone q)" for x q
  proof (cases "x \<in> set kept \<or> (\<exists>y \<in> set kept. PeerIdentity y = PeerIdentity x)")
    case True
    then show ?thesis using kept_ok q by metis
  next
    case False
    with x result obtain d where d: "dest = Some d"
      "x \<in> set (fst (apply_tiers env (baseScore e) d (sort (remdups (map prPriority (ptPeers d)))) calls kept))"
      by (auto split: if_splits option.splits)
    then have "PeerIdentity x \<in> PeerIdentity ` set kept \<union> prIdentity ` set (ptPeers d)"
      using apply_tiers_ids [of env "baseScore e" d _ calls kept] by blast
    with False obtain pp where pp: "pp \<in> set (ptPeers d)" "PeerIdentity x = prIdentity pp" by fastforce
    have "d \<in> set (nPartners c)" using d(1) destinationPartner_configured assms(3) by (simp add: dest_def)
    moreover from this have "prIdentity pp \<noteq> ''''" using assms(6) pp(1) by (force simp: owned_identities_def partner_identities_def)
    ultimately have "q = d" using listed_peer_partner [OF assms(5) _ pp(1)] q(1) pp(2) assms(3) by simp
    then show ?thesis using d(1) by simp
  qed
  moreover have "refuses_transit (originPartnerOf reg m) dest"
    if "originPartnerOf reg m = Some og" "dest = Some d" "ptName og \<noteq> ptName d" "\<not> ptAllowTransit og" for og d
    using that by (simp add: refuses_transit_def)
  ultimately show ?thesis unfolding dest_def [symmetric] using result by auto
qed

definition sample_route :: "deaRoute" where
  "sample_route = \<lparr>drReg = Some (Reload (Some sample_mixed) emptyRegistry), baseScore = 300, drEnabled = True, drEvaluated = 0, drRouted = 0,
     drTransit = 0, drMisdeliver = 0, drPerPartner = []\<rparr>"

theorem external_candidates_own_destination_witness:
  "fst (DeaRoute_handleRouting \<lparr>rnow = 0, intn = (\<lambda>_ _. 0)\<rparr> 0 (NewRequest 316 1) [\<lparr>PeerIdentity = ''e.c.d'', Score = 500, Reason = ''''\<rparr>] sample_route) = []"
proof -
  let ?reg = "Reload (Some sample_mixed) emptyRegistry"
  let ?env = "\<lparr>rnow = 0, intn = (\<lambda>_ _. 0)\<rparr>"
  let ?m = "NewRequest 316 1" and ?cs = "[\<lparr>PeerIdentity = ''e.c.d'', Score = 500, Reason = ''''\<rparr>]"
  obtain cs' calls' e' where res: "DeaRoute_handleRouting ?env 0 ?m ?cs sample_route = (cs', calls', e')" by (metis prod_cases3)
  have none: "GetDestinationHost ?m = None" "GetDestinationRealm ?m = None"
    by (simp_all add: GetDestinationHost_def GetDestinationRealm_def identity_of_def FindAVP_def NewRequest_def NewMessage_def)
  then have dest: "destinationPartner ?reg ?m = None" by (simp add: destinationPartner_def partner_by_def)
  have conf: "Configured ?reg"
    by (simp add: Configured_def Reload_configured sample_fields)
  have p: "PartnerForPeer ?reg ''e.c.d'' = Some sample_partner"
    by (simp add: PartnerForPeer_def Reload_tables sample_fields last_partner_def sample_normalize)
  have ext: "IsExternalZone ?reg (ptZone sample_partner)"
    by (simp add: IsExternalZone_def isExternalZoneLocked_def sample_zones)
  have own: "owned_identities sample_mixed = [''e.c.d'']"
    by (simp add: owned_identities_def partner_identities_def sample_fields) (simp add: sample_partner_def)
  have "\<forall>x \<in> set cs'. \<forall>q. PartnerForPeer ?reg (PeerIdentity x) = Some q \<and> IsExternalZone ?reg (ptZone q) \<longrightarrow>
      (\<exists>d. destinationPartner ?reg ?m = Some d \<and> ptName q = ptName d)"
    using external_candidates_own_destination [OF _ _ refl conf _ _ res] by (simp add: own sample_route_def)
  then have "\<forall>x \<in> set cs'. PeerIdentity x \<noteq> ''e.c.d''" using dest p ext by auto
  moreover have "set cs' \<subseteq> set ?cs"
  proof -
    have "drEnabled sample_route" "drReg sample_route = Some ?reg" by (simp_all add: sample_route_def)
    from DeaRoute_candidates [OF this conf, of ?env 0 ?m ?cs] have "cs' = (if refuses_transit (originPartnerOf ?reg ?m) None then []
        else filter (\<lambda>x. \<not> foreign_external ?reg None x) ?cs)"
      unfolding res dest by (simp add: Let_def)
    then show ?thesis by (auto split: if_splits)
  qed
  ultimately have "cs' = []" by (cases cs') auto
  then show ?thesis using res by simp
qed

end
