(* ===== verification/Topo_Store.thy ===== *)
theory Topo_Store
  imports Ext_Common Edge_Registry
begin

text \<open>
  File \<open>dea_topohide/store.go\<close>: the pseudonyms of stateful topology hiding, with an index from host and session, one
  least-recently-used list per partner, and the two caps. A list holds its entries, oldest first; an entry that is in
  the table of pseudonyms is in exactly one list, so the pointer from an entry to its list element is left out. The caller
  gives the time, and the order in which the runtime ranges over the partners when it looks for the largest.
\<close>

section \<open>Normal form of an identity\<close>

definition is_space :: "char \<Rightarrow> bool" where
  "is_space c \<longleftrightarrow> of_char c \<in> {9, 10, 11, 12, 13, 32 :: nat}"

text \<open>\<open>strings.TrimSpace\<close> on ASCII text.\<close>

definition TrimSpace :: "string \<Rightarrow> string" where
  "TrimSpace s = rev (dropWhile is_space (rev (dropWhile is_space s)))"

definition topo_normalize :: "string \<Rightarrow> string" where
  "topo_normalize s = normalize_name (TrimSpace s)"

section \<open>State\<close>

record topoEntry =
  teKey :: string
  teValue :: string
  teAlias :: string
  tePartner :: string
  teExpiresAt :: int

record topoBucket =
  lru :: "topoEntry list"
  bkLimit :: int

record topoStore =
  pseudonyms :: "(string \<times> topoEntry) list"
  forward_index :: "string \<Rightarrow> string option"
  buckets :: "(string \<times> topoBucket) list"
  maxEntries :: int
  tsTotal :: int
  tsHits :: int
  tsMisses :: int
  tsEvictions :: int
  tsExpired :: int

definition newMemoryStore :: "int \<Rightarrow> topoStore" where
  "newMemoryStore n = \<lparr>pseudonyms = [], forward_index = Map.empty, buckets = [], maxEntries = n, tsTotal = 0,
     tsHits = 0, tsMisses = 0, tsEvictions = 0, tsExpired = 0\<rparr>"

text \<open>\<open>bucketLocked\<close> creates the list of a partner on first use.\<close>

definition bucketLocked :: "string \<Rightarrow> topoStore \<Rightarrow> topoBucket \<times> topoStore" where
  "bucketLocked p s = (case map_of (buckets s) p of
     Some b \<Rightarrow> (b, s)
   | None \<Rightarrow> (\<lparr>lru = [], bkLimit = 0\<rparr>, s\<lparr>buckets := buckets s @ [(p, \<lparr>lru = [], bkLimit = 0\<rparr>)]\<rparr>))"

definition set_bucket :: "string \<Rightarrow> topoBucket \<Rightarrow> topoStore \<Rightarrow> topoStore" where
  "set_bucket p b s = s\<lparr>buckets := AList.update p b (buckets s)\<rparr>"

definition SetPartnerLimit :: "string \<Rightarrow> int \<Rightarrow> topoStore \<Rightarrow> topoStore" where
  "SetPartnerLimit p n s = (case bucketLocked p s of (b, s) \<Rightarrow> set_bucket p (b\<lparr>bkLimit := n\<rparr>) s)"

section \<open>Removal and eviction\<close>

definition detachLocked :: "topoEntry \<Rightarrow> topoStore \<Rightarrow> topoStore" where
  "detachLocked e s =
     (let s = (case map_of (buckets s) (tePartner e) of None \<Rightarrow> s
                | Some b \<Rightarrow> set_bucket (tePartner e) (b\<lparr>lru := remove1 e (lru b)\<rparr>) s)
      in s\<lparr>tsTotal := tsTotal s - 1\<rparr>)"

definition removeLocked :: "topoEntry \<Rightarrow> topoStore \<Rightarrow> topoStore" where
  "removeLocked e s =
     (let s = detachLocked e s;
          s = (if forward_index s (teAlias e) = Some (teKey e) then s\<lparr>forward_index := (forward_index s)(teAlias e := None)\<rparr> else s)
      in s\<lparr>pseudonyms := AList.delete (teKey e) (pseudonyms s)\<rparr>)"

definition evictOldestLocked :: "string \<Rightarrow> topoStore \<Rightarrow> bool \<times> topoStore" where
  "evictOldestLocked p s = (case map_of (buckets s) p of
     None \<Rightarrow> (False, s)
   | Some b \<Rightarrow> (case lru b of [] \<Rightarrow> (False, s)
       | e # _ \<Rightarrow> (True, (removeLocked e s)\<lparr>tsEvictions := tsEvictions s + 1\<rparr>)))"

definition bucket_len :: "string \<Rightarrow> topoStore \<Rightarrow> nat" where
  "bucket_len p s = (case map_of (buckets s) p of None \<Rightarrow> 0 | Some b \<Rightarrow> length (lru b))"

definition bucket_limit :: "string \<Rightarrow> topoStore \<Rightarrow> int" where
  "bucket_limit p s = (case map_of (buckets s) p of None \<Rightarrow> 0 | Some b \<Rightarrow> bkLimit b)"

text \<open>Every round of the two loops removes an entry, so the number of entries is enough fuel.\<close>

primrec evict_partner_loop :: "nat \<Rightarrow> string \<Rightarrow> topoStore \<Rightarrow> topoStore" where
  "evict_partner_loop 0 p s = s"
| "evict_partner_loop (Suc n) p s =
     (if bucket_limit p s < int (bucket_len p s)
      then (case evictOldestLocked p s of (ok, s') \<Rightarrow> if ok then evict_partner_loop n p s' else s')
      else s)"

definition evictPartnerLocked :: "string \<Rightarrow> topoStore \<Rightarrow> topoStore" where
  "evictPartnerLocked p s = (if bucket_limit p s \<le> 0 then s else evict_partner_loop (bucket_len p s) p s)"

text \<open>The first partner, in the order of the range, that has more entries than all before it.\<close>

primrec largest_of :: "topoStore \<Rightarrow> string option \<Rightarrow> string list \<Rightarrow> string option" where
  "largest_of s l [] = l"
| "largest_of s l (p # ps) =
     largest_of s (case l of None \<Rightarrow> Some p | Some q \<Rightarrow> if bucket_len q s < bucket_len p s then Some p else Some q) ps"

type_synonym range_order = "int \<Rightarrow> string list \<Rightarrow> string list"

primrec evict_global_loop :: "nat \<Rightarrow> range_order \<Rightarrow> topoStore \<Rightarrow> topoStore" where
  "evict_global_loop 0 ord s = s"
| "evict_global_loop (Suc n) ord s =
     (if maxEntries s < tsTotal s
      then (case largest_of s None (ord (tsTotal s) (map fst (buckets s))) of None \<Rightarrow> s
            | Some p \<Rightarrow> (case evictOldestLocked p s of (ok, s') \<Rightarrow> if ok then evict_global_loop n ord s' else s'))
      else s)"

definition evictGlobalLocked :: "range_order \<Rightarrow> topoStore \<Rightarrow> topoStore" where
  "evictGlobalLocked ord s = (if maxEntries s \<le> 0 then s else evict_global_loop (nat (tsTotal s)) ord s)"

section \<open>Operations\<close>

definition insertLocked :: "range_order \<Rightarrow> topoEntry \<Rightarrow> topoStore \<Rightarrow> topoStore" where
  "insertLocked ord e s =
     (case bucketLocked (tePartner e) s of (b, s) \<Rightarrow>
        let s = (set_bucket (tePartner e) (b\<lparr>lru := lru b @ [e]\<rparr>) s)\<lparr>tsTotal := tsTotal s + 1\<rparr>
        in evictGlobalLocked ord (evictPartnerLocked (tePartner e) s))"

definition forwardKey :: "string \<Rightarrow> string \<Rightarrow> string" where
  "forwardKey host session = topo_normalize host @ ''|'' @ session"

definition new_entry :: "int \<Rightarrow> string \<Rightarrow> string \<Rightarrow> string \<Rightarrow> string \<Rightarrow> int \<Rightarrow> topoEntry" where
  "new_entry now partner pseudonym host session ttl = \<lparr>teKey = topo_normalize pseudonym, teValue = host,
     teAlias = forwardKey host session, tePartner = partner, teExpiresAt = now + ttl\<rparr>"

definition PutPseudonym :: "int \<Rightarrow> range_order \<Rightarrow> string \<Rightarrow> string \<Rightarrow> string \<Rightarrow> string \<Rightarrow> int \<Rightarrow> topoStore \<Rightarrow> topoStore" where
  "PutPseudonym now ord partner pseudonym host session ttl s =
     (let e = new_entry now partner pseudonym host session ttl;
          s = (case map_of (pseudonyms s) (teKey e) of Some old \<Rightarrow> removeLocked old s | None \<Rightarrow> s)
      in insertLocked ord e (s\<lparr>pseudonyms := AList.update (teKey e) e (pseudonyms s),
           forward_index := (forward_index s)(teAlias e \<mapsto> teKey e)\<rparr>))"

definition touchLocked :: "topoEntry \<Rightarrow> topoStore \<Rightarrow> topoStore" where
  "touchLocked e s = (case map_of (buckets s) (tePartner e) of None \<Rightarrow> s
     | Some b \<Rightarrow> set_bucket (tePartner e) (b\<lparr>lru := remove1 e (lru b) @ [e]\<rparr>) s)"

definition expireLocked :: "topoEntry \<Rightarrow> topoStore \<Rightarrow> topoStore" where
  "expireLocked e s = (removeLocked e s)\<lparr>tsExpired := tsExpired s + 1\<rparr>"

definition Pseudonym :: "int \<Rightarrow> string \<Rightarrow> string \<Rightarrow> topoStore \<Rightarrow> string option \<times> topoStore" where
  "Pseudonym now host session s = (case forward_index s (forwardKey host session) of
     None \<Rightarrow> (None, s)
   | Some k \<Rightarrow> (case map_of (pseudonyms s) k of
       None \<Rightarrow> (None, s)
     | Some e \<Rightarrow> if teExpiresAt e \<le> now then (None, expireLocked e s) else (Some k, touchLocked e s)))"

definition RealHost :: "int \<Rightarrow> string \<Rightarrow> topoStore \<Rightarrow> string option \<times> topoStore" where
  "RealHost now pseudonym s = (case map_of (pseudonyms s) (topo_normalize pseudonym) of
     None \<Rightarrow> (None, s\<lparr>tsMisses := tsMisses s + 1\<rparr>)
   | Some e \<Rightarrow>
       if teExpiresAt e \<le> now then (let s = expireLocked e s in (None, s\<lparr>tsMisses := tsMisses s + 1\<rparr>))
       else (let s = touchLocked e s in (Some (teValue e), s\<lparr>tsHits := tsHits s + 1\<rparr>)))"

text \<open>One pass over all lists; removing an entry does not disturb the others.\<close>

definition Store_sweep :: "int \<Rightarrow> topoStore \<Rightarrow> topoStore" where
  "Store_sweep now s = fold (\<lambda>e s. if teExpiresAt e \<le> now then expireLocked e s else s) (concat (map (lru \<circ> snd) (buckets s))) s"

definition Store_Stats :: "topoStore \<Rightarrow> int \<times> int \<times> int \<times> int \<times> int" where
  "Store_Stats s = (int (length (pseudonyms s)), tsHits s, tsMisses s, tsEvictions s, tsExpired s)"

end
