(* ===== verification/Topo_Hide.thy ===== *)
theory Topo_Hide
  imports Edge_Common Topo_Store
begin

text \<open>
  Extension \<open>dea_topohide\<close> (\<open>dea_topohide.go\<close>): it masks internal identities in messages on their way to a partner and
  resolves the pseudonyms the partner sends back. Every handler is given the time and the order of ranges over maps; the
  \<open>k\<close>-th request for random bytes gives \<open>trand k\<close>, \<open>None\<close> when reading them fails.
\<close>

section \<open>State\<close>

record topo_env =
  tnow :: int
  tord :: range_order
  trand :: "nat \<Rightarrow> byte list option"

record topoHide =
  thReg :: "registry option"
  thStore :: "topoStore option"
  thIdentity :: string
  thRealm :: string
  thEnabled :: bool
  thRandCalls :: nat
  thHiddenRequests :: u64
  thHiddenAnswers :: u64
  thAllocated :: u64
  thRestored :: u64
  thRestoreMisses :: u64
  thScrubbed :: u64
  thPerPartner :: "(string \<times> u64) list"

definition newTopoHide :: topoHide where
  "newTopoHide = \<lparr>thReg = None, thStore = None, thIdentity = '''', thRealm = '''', thEnabled = False, thRandCalls = 0, thHiddenRequests = 0,
     thHiddenAnswers = 0, thAllocated = 0, thRestored = 0, thRestoreMisses = 0, thScrubbed = 0, thPerPartner = []\<rparr>"

section \<open>Initialisation\<close>

definition TopoHide_applyConfig :: "ext_config \<Rightarrow> topoHide \<Rightarrow> topoHide" where
  "TopoHide_applyConfig cfg e = e\<lparr>thEnabled := option_or as_bool cfg ''enabled'' (thEnabled e)\<rparr>"

text \<open>The sum of the partners' caps; a partner without a cap makes the sum unlimited.\<close>

fun sum_entries :: "int \<Rightarrow> PartnerConfig list \<Rightarrow> int" where
  "sum_entries n [] = n"
| "sum_entries n (q # qs) =
     (if thMode (ptTopologyHiding q) = TopoHideNone then sum_entries n qs
      else if thMaxEntries (ptTopologyHiding q) < 0 then 0
      else sum_entries (n + thMaxEntries (ptTopologyHiding q)) qs)"

definition maxPartnerEntries :: "NodeConfig \<Rightarrow> int" where
  "maxPartnerEntries c = sum_entries 0 (nPartners c)"

definition partner_cap :: "PartnerConfig \<Rightarrow> int" where
  "partner_cap q = (if thMaxEntries (ptTopologyHiding q) < 0 then 0 else thMaxEntries (ptTopologyHiding q))"

definition set_partner_limits :: "NodeConfig \<Rightarrow> topoStore \<Rightarrow> topoStore" where
  "set_partner_limits c s = fold (\<lambda>q. SetPartnerLimit (ptName q) (partner_cap q)) (nPartners c) s"

definition store_size :: "ext_config \<Rightarrow> NodeConfig option \<Rightarrow> int" where
  "store_size cfg c = (let n = option_or as_int cfg ''max_entries'' 0 in
     case c of None \<Rightarrow> n | Some c \<Rightarrow> if n = 0 then maxPartnerEntries c else n)"

definition TopoHide_Init :: "ext_config \<Rightarrow> registry option \<Rightarrow> NodeConfig option \<Rightarrow> topoHide \<Rightarrow> topoHide" where
  "TopoHide_Init cfg reg c e =
     (let e = e\<lparr>thReg := reg\<rparr>;
          e = (case c of None \<Rightarrow> e | Some c \<Rightarrow> e\<lparr>thIdentity := nIdentity c, thRealm := nRealm c\<rparr>);
          s = (case thStore e of Some s \<Rightarrow> s | None \<Rightarrow> newMemoryStore (store_size cfg c));
          s = (case c of None \<Rightarrow> s | Some c \<Rightarrow> set_partner_limits c s)
      in TopoHide_applyConfig cfg (e\<lparr>thStore := Some s, thEnabled := True\<rparr>))"

definition TopoHide_Stop :: "topoHide \<Rightarrow> topoHide" where
  "TopoHide_Stop e = e\<lparr>thEnabled := False, thStore := None\<rparr>"

definition TopoHide_Reconfigure :: "ext_config \<Rightarrow> topoHide \<Rightarrow> topoHide" where
  "TopoHide_Reconfigure cfg e = TopoHide_applyConfig cfg e"

section \<open>What must be hidden\<close>

definition hideFlag :: "bool option \<Rightarrow> bool" where
  "hideFlag p = (case p of None \<Rightarrow> True | Some b \<Rightarrow> b)"

definition isInternal :: "topoHide \<Rightarrow> string \<Rightarrow> bool" where
  "isInternal e host =
     (if host = '''' then False
      else let host = topo_normalize host in
        if host = topo_normalize (thIdentity e) then True
        else case thReg e of
          Some reg \<Rightarrow> if Configured reg then IsInternalHost reg host else thRealm e \<noteq> '''' \<and> HostInRealm host (thRealm e)
        | None \<Rightarrow> thRealm e \<noteq> '''' \<and> HostInRealm host (thRealm e))"

definition mustMask :: "topoHide \<Rightarrow> string \<Rightarrow> string \<Rightarrow> bool" where
  "mustMask e host edge = (if host = '''' \<or> topo_normalize host = topo_normalize edge then False else isInternal e host)"

text \<open>Whether a Proxy-Info names an internal proxy; reading it decodes it in place.\<close>

definition proxyInfoIsInternal :: "topoHide \<Rightarrow> avp \<Rightarrow> string \<Rightarrow> avp \<times> bool" where
  "proxyInfoIsInternal e a edge = (case groupedChildren a of (a, cs) \<Rightarrow>
     (a, case List.find (\<lambda>c. aCode c = AVPCodeProxyHost) cs of
           Some c \<Rightarrow> mustMask e (string_of_bytes (aData c)) edge
         | None \<Rightarrow> True))"

definition outwardRealm :: "TopologyHidingPolicy \<Rightarrow> string" where
  "outwardRealm th = (if thPseudonymRealm th \<noteq> '''' then thPseudonymRealm th
     else if CHR ''.'' \<in> set (thEdgeIdentity th) then tl (dropWhile (\<lambda>c. c \<noteq> CHR ''.'') (thEdgeIdentity th))
     else '''')"

definition topo_ttl :: "PartnerConfig \<Rightarrow> int" where
  "topo_ttl q = (if 0 < thTTL (ptTopologyHiding q) then thTTL (ptTopologyHiding q) else 30 * 60 * conf_second)"

section \<open>Masks\<close>

definition pseudonym_of :: "TopologyHidingPolicy \<Rightarrow> byte list \<Rightarrow> string" where
  "pseudonym_of th bs =
     (let label = topo_normalize (thPseudonymPrefix th) @ EncodeToString bs in
      if thPseudonymRealm th = '''' then label else label @ ''.'' @ topo_normalize (thPseudonymRealm th))"

definition newPseudonym :: "topo_env \<Rightarrow> TopologyHidingPolicy \<Rightarrow> topoHide \<Rightarrow> string option \<times> topoHide" where
  "newPseudonym v th e =
     (map_option (pseudonym_of th) (trand v (thRandCalls e)), e\<lparr>thRandCalls := thRandCalls e + 1\<rparr>)"

definition mask :: "topo_env \<Rightarrow> string \<Rightarrow> string \<Rightarrow> PartnerConfig \<Rightarrow> topoStore \<Rightarrow> topoHide \<Rightarrow> string \<times> topoStore \<times> topoHide" where
  "mask v host session q s e =
     (let th = ptTopologyHiding q in
      if thMode th \<noteq> TopoHideStateful then (thEdgeIdentity th, s, e)
      else case Pseudonym (tnow v) host session s of
        (Some p, s) \<Rightarrow> (p, s, e)
      | (None, s) \<Rightarrow> (case newPseudonym v th e of
          (None, e) \<Rightarrow> (thEdgeIdentity th, s, e)
        | (Some p, e) \<Rightarrow> (p, PutPseudonym (tnow v) (tord v) (ptName q) p host session (topo_ttl q) s, e\<lparr>thAllocated := thAllocated e + 1\<rparr>)))"

section \<open>Hiding\<close>

text \<open>The state of the pass over the AVPs: the store, the extension, and the two flags.\<close>

record hide_state =
  hsStore :: topoStore
  hsExt :: topoHide
  hsChanged :: bool
  hsMasked :: bool

definition hide_avp :: "topo_env \<Rightarrow> PartnerConfig \<Rightarrow> string \<Rightarrow> avp \<Rightarrow> hide_state \<Rightarrow> avp \<times> bool \<times> hide_state" where
  "hide_avp v q session a h =
     (let th = ptTopologyHiding q; e = hsExt h; host = string_of_bytes (aData a) in
      if aCode a = AVPCodeOriginHost then
        (if mustMask e host (thEdgeIdentity th)
         then (case mask v host session q (hsStore h) e of (x, s, e) \<Rightarrow>
           (set_Data a (bytes_of_string x), False, h\<lparr>hsStore := s, hsExt := e, hsChanged := True, hsMasked := True\<rparr>))
         else (a, False, h))
      else if aCode a = AVPCodeErrorReportingHost then
        (if hideFlag (thHideErrorReportingHost th) \<and> mustMask e host (thEdgeIdentity th)
         then (set_Data a (bytes_of_string (thEdgeIdentity th)), False, h\<lparr>hsChanged := True\<rparr>)
         else (a, False, h))
      else if aCode a = AVPCodeRouteRecord then
        (a, hideFlag (thHideRouteRecords th) \<and> mustMask e host (thEdgeIdentity th), h)
      else if aCode a = AVPCodeProxyInfo then
        (if hideFlag (thHideProxyInfo th) then (case proxyInfoIsInternal e a (thEdgeIdentity th) of (a, r) \<Rightarrow> (a, r, h)) else (a, False, h))
      else if aCode a = AVPCodeHostIPAddress then (a, hideFlag (thHideHostIPAddress th), h)
      else if aCode a = AVPCodeOriginStateID then (a, hideFlag (thHideOriginStateID th), h)
      else (a, False, h))"

primrec hide_avps :: "topo_env \<Rightarrow> PartnerConfig \<Rightarrow> string \<Rightarrow> avp list \<Rightarrow> hide_state \<Rightarrow> avp list \<times> hide_state" where
  "hide_avps v q session [] h = ([], h)"
| "hide_avps v q session (a # as) h =
     (case hide_avp v q session a h of (a, remove, h) \<Rightarrow>
        if remove \<or> selects (thScrubAVPs (ptTopologyHiding q)) a
        then hide_avps v q session as (h\<lparr>hsChanged := True, hsExt := (hsExt h)\<lparr>thScrubbed := thScrubbed (hsExt h) + 1\<rparr>\<rparr>)
        else (case hide_avps v q session as h of (as, h) \<Rightarrow> (a # as, h)))"

definition hasRouteRecord :: "message \<Rightarrow> string \<Rightarrow> bool" where
  "hasRouteRecord m identity \<longleftrightarrow>
     list_ex (\<lambda>a. topo_normalize (string_of_bytes (aData a)) = topo_normalize identity) (FindAllAVPs m AVPCodeRouteRecord 0)"

definition hide_realm :: "TopologyHidingPolicy \<Rightarrow> message \<Rightarrow> message \<times> bool" where
  "hide_realm th m = (case FindAVP m AVPCodeOriginRealm 0 of
     None \<Rightarrow> (m, False)
   | Some a \<Rightarrow> (let r = outwardRealm th in
       if r \<noteq> '''' \<and> ToLower (string_of_bytes (aData a)) \<noteq> ToLower r
       then (m\<lparr>AVPs := update_first (avp_matches AVPCodeOriginRealm 0) (\<lambda>a. set_Data a (bytes_of_string r)) (AVPs m)\<rparr>, True)
       else (m, False)))"

definition hide :: "topo_env \<Rightarrow> message \<Rightarrow> PartnerConfig \<Rightarrow> topoStore \<Rightarrow> topoHide \<Rightarrow> message \<times> bool \<times> topoStore \<times> topoHide" where
  "hide v m q s e =
     (let th = ptTopologyHiding q; session = (case GetSessionID m of None \<Rightarrow> '''' | Some x \<Rightarrow> x) in
      case hide_avps v q session (AVPs m) \<lparr>hsStore = s, hsExt = e, hsChanged = False, hsMasked = False\<rparr> of (as, h) \<Rightarrow>
        let (m, c1) = (if hsMasked h \<and> hideFlag (thHideOriginRealm th) then hide_realm th (m\<lparr>AVPs := as\<rparr>) else (m\<lparr>AVPs := as\<rparr>, False));
            (m, c2) = (if hideFlag (thHideRouteRecords th) \<and> IsRequest m \<and> \<not> hasRouteRecord m (thEdgeIdentity th)
                       then (AddAVP m (NewDiameterIdentityAVP AVPCodeRouteRecord AVPFlagMandatory (thEdgeIdentity th)), True) else (m, False))
        in (m, hsChanged h \<or> c1 \<or> c2, hsStore h, hsExt h))"

section \<open>Handlers\<close>

definition restoreDestinationHost :: "topo_env \<Rightarrow> message \<Rightarrow> topoStore \<Rightarrow> topoHide \<Rightarrow> message \<times> topoStore \<times> topoHide" where
  "restoreDestinationHost v m s e = (case FindAVP m AVPCodeDestinationHost 0 of
     None \<Rightarrow> (m, s, e)
   | Some a \<Rightarrow> (let host = topo_normalize (string_of_bytes (aData a)) in
       if host = '''' then (m, s, e)
       else (case RealHost (tnow v) host s of
           (None, s) \<Rightarrow> (m, s, e\<lparr>thRestoreMisses := thRestoreMisses e + 1\<rparr>)
         | (Some h, s) \<Rightarrow>
             (m\<lparr>AVPs := update_first (avp_matches AVPCodeDestinationHost 0) (\<lambda>a. set_Data a (bytes_of_string h)) (AVPs m)\<rparr>,
              s, e\<lparr>thRestored := thRestored e + 1\<rparr>))))"

text \<open>The partner an answer is for: that of the peer the router relayed the request from.\<close>

definition answerPartner :: "registry \<Rightarrow> router option \<Rightarrow> DiamID \<Rightarrow> message \<Rightarrow> PartnerConfig option" where
  "answerPartner reg r peerID m = (case r of None \<Rightarrow> None
     | Some r \<Rightarrow> (case RelayOrigin r peerID (mHopByHopID m) of None \<Rightarrow> None | Some x \<Rightarrow> PartnerForPeer reg x))"

definition hidden :: "PartnerConfig \<Rightarrow> topoHide \<Rightarrow> topoHide" where
  "hidden q e = e\<lparr>thPerPartner := count_up (ptName q) (thPerPartner e)\<rparr>"

definition TopoHide_handleIn :: "topo_env \<Rightarrow> router option \<Rightarrow> peer option \<Rightarrow> message \<Rightarrow> topoHide \<Rightarrow> message \<times> topoHide" where
  "TopoHide_handleIn v r p m e = (case (thEnabled e, p, thReg e, thStore e) of
     (True, Some p, Some reg, Some s) \<Rightarrow>
       if \<not> Configured reg then (m, e)
       else if IsRequest m then (case restoreDestinationHost v m s e of (m, s, e) \<Rightarrow> (m, e\<lparr>thStore := Some s\<rparr>))
       else (case answerPartner reg r (diameterID p) m of
           None \<Rightarrow> (m, e)
         | Some q \<Rightarrow>
             if thMode (ptTopologyHiding q) = TopoHideNone then (m, e)
             else (case hide v m q s e of (m, changed, s, e) \<Rightarrow>
               (m, (if changed then hidden q (e\<lparr>thHiddenAnswers := thHiddenAnswers e + 1\<rparr>) else e)\<lparr>thStore := Some s\<rparr>)))
   | _ \<Rightarrow> (m, e))"

definition TopoHide_handlePostRoute :: "topo_env \<Rightarrow> message \<Rightarrow> DiamID \<Rightarrow> topoHide \<Rightarrow> message \<times> topoHide" where
  "TopoHide_handlePostRoute v m x e =
     (if \<not> thEnabled e \<or> \<not> IsRequest m then (m, e)
      else case (thReg e, thStore e) of
        (Some reg, Some s) \<Rightarrow>
          if \<not> Configured reg then (m, e)
          else (case PartnerForPeer reg x of None \<Rightarrow> (m, e)
            | Some q \<Rightarrow>
                if thMode (ptTopologyHiding q) = TopoHideNone \<or> \<not> IsExternalZone reg (ptZone q) then (m, e)
                else (case hide v m q s e of (m, changed, s, e) \<Rightarrow>
                  (m, (if changed then hidden q (e\<lparr>thHiddenRequests := thHiddenRequests e + 1\<rparr>) else e)\<lparr>thStore := Some s\<rparr>)))
      | _ \<Rightarrow> (m, e))"

text \<open>As the router calls them; the handlers leave the candidates alone.\<close>

definition TopoHide_register :: "topo_env \<Rightarrow> (peer_ref \<Rightarrow> peer option) \<Rightarrow> topoHide \<Rightarrow> router \<Rightarrow> router" where
  "TopoHide_register v find_peer e r =
     RegisterPostRouteHandler
       (RegisterInHandler r ''dea_topohide'' 30 (\<lambda>p m cs. (fst (TopoHide_handleIn v (Some r) (Option.bind p find_peer) m e), Inr cs)))
       ''dea_topohide'' (\<lambda>m x. fst (TopoHide_handlePostRoute v m x e))"

end
