(* ===== verification/Topo_Store_Properties.thy ===== *)
theory Topo_Store_Properties
  imports Topo_Store
begin

text \<open>
  Laws of the store of pseudonyms: what each operation does to the table and to the lists, the invariant that ties them
  together, the two caps, and that partners within their budget do not disturb each other.
\<close>

section \<open>Views\<close>

abbreviation tbl :: "topoStore \<Rightarrow> string \<Rightarrow> topoEntry option" where "tbl s \<equiv> map_of (pseudonyms s)"

definition lruOf :: "topoStore \<Rightarrow> string \<Rightarrow> topoEntry list" where
  "lruOf s p = (case map_of (buckets s) p of None \<Rightarrow> [] | Some b \<Rightarrow> lru b)"

lemma bucket_len_lruOf: "bucket_len p s = length (lruOf s p)"
  by (simp add: bucket_len_def lruOf_def split: option.split)

named_theorems store_views \<open>what an operation does to the table, the lists, the limits and the index\<close>

lemma map_of_snoc: "map_of (xs @ [(k, v)]) x = (case map_of xs x of None \<Rightarrow> if x = k then Some v else None | Some y \<Rightarrow> Some y)"
  by (simp add: map_add_def split: option.split)

lemma set_bucket_views [store_views]:
  "lruOf (set_bucket p b s) q = (if q = p then lru b else lruOf s q)"
  "bucket_limit q (set_bucket p b s) = (if q = p then bkLimit b else bucket_limit q s)"
  "pseudonyms (set_bucket p b s) = pseudonyms s" "forward_index (set_bucket p b s) = forward_index s"
  "maxEntries (set_bucket p b s) = maxEntries s" "tsTotal (set_bucket p b s) = tsTotal s"
  by (simp_all add: lruOf_def bucket_limit_def set_bucket_def update_conv')

lemma bucketLocked_views:
  "bucketLocked p s = (b, s') \<Longrightarrow> lru b = lruOf s p \<and> bkLimit b = bucket_limit p s \<and> lruOf s' q = lruOf s q \<and>
     bucket_limit q s' = bucket_limit q s \<and> pseudonyms s' = pseudonyms s \<and> forward_index s' = forward_index s \<and>
     maxEntries s' = maxEntries s \<and> tsTotal s' = tsTotal s"
  by (auto simp: bucketLocked_def lruOf_def bucket_limit_def map_of_snoc split: option.splits if_splits)

lemma detachLocked_views [store_views]:
  "lruOf (detachLocked e s) q = (if q = tePartner e then remove1 e (lruOf s q) else lruOf s q)"
  "bucket_limit q (detachLocked e s) = bucket_limit q s"
  "pseudonyms (detachLocked e s) = pseudonyms s" "forward_index (detachLocked e s) = forward_index s"
  "maxEntries (detachLocked e s) = maxEntries s" "tsTotal (detachLocked e s) = tsTotal s - 1"
  by (auto simp: detachLocked_def lruOf_def bucket_limit_def set_bucket_def update_conv' split: option.split)

lemma removeLocked_views [store_views]:
  "lruOf (removeLocked e s) q = (if q = tePartner e then remove1 e (lruOf s q) else lruOf s q)"
  "bucket_limit q (removeLocked e s) = bucket_limit q s"
  "tbl (removeLocked e s) = (tbl s)(teKey e := None)"
  "forward_index (removeLocked e s) = (if forward_index s (teAlias e) = Some (teKey e) then (forward_index s)(teAlias e := None) else forward_index s)"
  "maxEntries (removeLocked e s) = maxEntries s" "tsTotal (removeLocked e s) = tsTotal s - 1"
  by (simp_all add: removeLocked_def Let_def lruOf_def bucket_limit_def delete_conv')
    (simp_all add: detachLocked_views flip: lruOf_def bucket_limit_def)

lemma touchLocked_views [store_views]:
  "e \<in> set (lruOf s (tePartner e)) \<Longrightarrow> lruOf (touchLocked e s) q = (if q = tePartner e then remove1 e (lruOf s q) @ [e] else lruOf s q)"
  "bucket_limit q (touchLocked e s) = bucket_limit q s"
  "pseudonyms (touchLocked e s) = pseudonyms s" "forward_index (touchLocked e s) = forward_index s"
  "maxEntries (touchLocked e s) = maxEntries s" "tsTotal (touchLocked e s) = tsTotal s"
  by (auto simp: touchLocked_def lruOf_def bucket_limit_def set_bucket_def update_conv' split: option.splits)

lemma keys_set_bucket: "p \<in> set (map fst (buckets s)) \<Longrightarrow> map fst (buckets (set_bucket p b s)) = map fst (buckets s)"
  by (simp add: set_bucket_def update_keys)

section \<open>The invariant\<close>

definition store_wf :: "topoStore \<Rightarrow> bool" where
  "store_wf s \<longleftrightarrow>
     (\<forall>k e. tbl s k = Some e \<longrightarrow> teKey e = k \<and> e \<in> set (lruOf s (tePartner e))) \<and>
     (\<forall>p. distinct (lruOf s p) \<and> (\<forall>e \<in> set (lruOf s p). tePartner e = p \<and> tbl s (teKey e) = Some e)) \<and>
     tsTotal s = int (card (dom (tbl s))) \<and>
     (\<forall>a k. forward_index s a = Some k \<longrightarrow> (\<exists>e. tbl s k = Some e \<and> teAlias e = a))"

lemma store_wf_key: "store_wf s \<Longrightarrow> tbl s k = Some e \<Longrightarrow> teKey e = k"
  and store_wf_listed: "store_wf s \<Longrightarrow> tbl s k = Some e \<Longrightarrow> e \<in> set (lruOf s (tePartner e))"
  and store_wf_distinct: "store_wf s \<Longrightarrow> distinct (lruOf s p)"
  and store_wf_entry: "store_wf s \<Longrightarrow> e \<in> set (lruOf s p) \<Longrightarrow> tePartner e = p \<and> tbl s (teKey e) = Some e"
  and store_wf_total: "store_wf s \<Longrightarrow> tsTotal s = int (card (dom (tbl s)))"
  and store_wf_forward: "store_wf s \<Longrightarrow> forward_index s a = Some k \<Longrightarrow> \<exists>e. tbl s k = Some e \<and> teAlias e = a"
  by (auto simp: store_wf_def)

lemma set_remove1_lru: "store_wf s \<Longrightarrow> set (remove1 e (lruOf s p)) = set (lruOf s p) - {e}"
  by (simp add: store_wf_distinct set_remove1_eq)

lemma store_wfI:
  assumes "\<And>k e. tbl s k = Some e \<Longrightarrow> teKey e = k \<and> e \<in> set (lruOf s (tePartner e))"
    and "\<And>p. distinct (lruOf s p)"
    and "\<And>p e. e \<in> set (lruOf s p) \<Longrightarrow> tePartner e = p \<and> tbl s (teKey e) = Some e"
    and "tsTotal s = int (card (dom (tbl s)))"
    and "\<And>a k. forward_index s a = Some k \<Longrightarrow> \<exists>e. tbl s k = Some e \<and> teAlias e = a"
  shows "store_wf s"
  using assms unfolding store_wf_def by blast

text \<open>The lists determine the table.\<close>

lemma tbl_iff: "store_wf s \<Longrightarrow> tbl s k = Some e \<longleftrightarrow> teKey e = k \<and> e \<in> set (lruOf s (tePartner e))"
  using store_wf_key store_wf_listed store_wf_entry by metis

text \<open>Bookkeeping that the invariant does not depend on.\<close>

definition same_store :: "topoStore \<Rightarrow> topoStore \<Rightarrow> bool" where
  "same_store s s' \<longleftrightarrow> tbl s' = tbl s \<and> lruOf s' = lruOf s \<and> tsTotal s' = tsTotal s \<and> forward_index s' = forward_index s \<and>
     maxEntries s' = maxEntries s"

lemma store_wf_same: "same_store s s' \<Longrightarrow> store_wf s' \<longleftrightarrow> store_wf s"
  by (simp add: store_wf_def same_store_def)

lemma store_wf_counters [simp]:
  "store_wf (s\<lparr>tsHits := n\<rparr>) = store_wf s" "store_wf (s\<lparr>tsMisses := n\<rparr>) = store_wf s"
  "store_wf (s\<lparr>tsEvictions := n\<rparr>) = store_wf s" "store_wf (s\<lparr>tsExpired := n\<rparr>) = store_wf s"
  by (simp_all add: store_wf_def lruOf_def)

lemma counters_views [store_views, simp]:
  "lruOf (s\<lparr>tsHits := n\<rparr>) = lruOf s" "lruOf (s\<lparr>tsMisses := n\<rparr>) = lruOf s"
  "lruOf (s\<lparr>tsEvictions := n\<rparr>) = lruOf s" "lruOf (s\<lparr>tsExpired := n\<rparr>) = lruOf s"
  "bucket_limit p (s\<lparr>tsHits := n\<rparr>) = bucket_limit p s" "bucket_limit p (s\<lparr>tsMisses := n\<rparr>) = bucket_limit p s"
  "bucket_limit p (s\<lparr>tsEvictions := n\<rparr>) = bucket_limit p s" "bucket_limit p (s\<lparr>tsExpired := n\<rparr>) = bucket_limit p s"
  by (simp_all add: lruOf_def fun_eq_iff bucket_limit_def)

lemma removeLocked_wf:
  assumes "store_wf s" and "tbl s (teKey e) = Some e"
  shows "store_wf (removeLocked e s)"
proof -
  have other: "e' \<noteq> e \<Longrightarrow> tbl s k = Some e' \<Longrightarrow> k \<noteq> teKey e" for e' k using assms(2) by auto
  have "finite (dom (tbl s))" by (rule finite_dom_map_of)
  then have card: "tsTotal s - 1 = int (card (dom (tbl s) - {teKey e}))"
    using assms store_wf_total [OF assms(1)] by (simp add: card_Diff_singleton domI) (metis card_gt_0_iff domI empty_iff of_nat_diff of_nat_1 Suc_leI One_nat_def)
  have fwd: "\<exists>e'. tbl (removeLocked e s) k = Some e' \<and> teAlias e' = a" if "forward_index (removeLocked e s) a = Some k" for a k
  proof -
    have f: "forward_index s a = Some k" "\<not> (a = teAlias e \<and> k = teKey e)"
      using that by (auto simp: store_views split: if_splits)
    obtain e' where "tbl s k = Some e'" "teAlias e' = a" using store_wf_forward [OF assms(1) f(1)] by auto
    then show ?thesis using f(2) assms(2) by (auto simp: store_views)
  qed
  have listed: "teKey e' = k \<and> e' \<in> set (lruOf (removeLocked e s) (tePartner e'))" if "tbl (removeLocked e s) k = Some e'" for k e'
  proof -
    have "tbl s k = Some e'" "k \<noteq> teKey e" using that by (auto simp: store_views split: if_splits)
    then show ?thesis
      using store_wf_key [OF assms(1) \<open>tbl s k = Some e'\<close>] store_wf_listed [OF assms(1) \<open>tbl s k = Some e'\<close>]
        set_remove1_lru [OF assms(1)] by (auto simp: store_views)
  qed
  have entry: "tePartner e' = p \<and> tbl (removeLocked e s) (teKey e') = Some e'" if "e' \<in> set (lruOf (removeLocked e s) p)" for p e'
  proof -
    have l: "e' \<in> set (lruOf s p)" using that set_remove1_lru [OF assms(1)] by (simp add: store_views split: if_splits)
    have t: "tePartner e' = p" "tbl s (teKey e') = Some e'" using store_wf_entry [OF assms(1) l] by auto
    have "e' \<noteq> e"
      using that t(1) set_remove1_lru [OF assms(1)] by (auto simp: store_views)
    then have "teKey e' \<noteq> teKey e" using t(2) assms(2) by auto
    with t show ?thesis by (simp add: store_views)
  qed
  have "distinct (lruOf (removeLocked e s) p)" for p
    using store_wf_distinct [OF assms(1)] by (simp add: store_views distinct_remove1)
  moreover have "tsTotal (removeLocked e s) = int (card (dom (tbl (removeLocked e s))))"
    using card by (simp add: store_views)
  ultimately show ?thesis using listed entry fwd by (simp add: store_wf_def)
qed

section \<open>Eviction\<close>

text \<open>What evicting changes: the lists lose their oldest entries, nothing else of the lists and limits moves.\<close>

definition evicts :: "topoStore \<Rightarrow> topoStore \<Rightarrow> bool" where
  "evicts s s' \<longleftrightarrow> store_wf s' \<and> maxEntries s' = maxEntries s \<and> (\<forall>p. bucket_limit p s' = bucket_limit p s) \<and>
     (\<forall>p. \<exists>n. lruOf s' p = drop n (lruOf s p))"

lemma evicts_refl: "store_wf s \<Longrightarrow> evicts s s"
  by (simp add: evicts_def) (metis drop0)

lemma evicts_trans: "evicts s s' \<Longrightarrow> evicts s' s'' \<Longrightarrow> evicts s s''"
  unfolding evicts_def by (metis drop_drop)

lemma evicts_wf: "evicts s s' \<Longrightarrow> store_wf s'"
  by (simp add: evicts_def)

lemma evictOldestLocked_Cons:
  assumes "store_wf s" and "lruOf s p = e # es"
  shows "evictOldestLocked p s = (True, (removeLocked e s)\<lparr>tsEvictions := tsEvictions s + 1\<rparr>)"
    and "evicts s (snd (evictOldestLocked p s))"
    and "lruOf (snd (evictOldestLocked p s)) q = (if q = p then es else lruOf s q)"
    and "tsTotal (snd (evictOldestLocked p s)) = tsTotal s - 1"
proof -
  show ev: "evictOldestLocked p s = (True, (removeLocked e s)\<lparr>tsEvictions := tsEvictions s + 1\<rparr>)"
    using assms(2) by (simp add: evictOldestLocked_def lruOf_def split: option.splits)
  have e: "tePartner e = p" "tbl s (teKey e) = Some e" using store_wf_entry [OF assms(1), of e p] assms(2) by auto
  show l: "lruOf (snd (evictOldestLocked p s)) q = (if q = p then es else lruOf s q)" for q
    using assms(2) e(1) by (simp add: ev store_views)
  show "tsTotal (snd (evictOldestLocked p s)) = tsTotal s - 1" by (simp add: ev store_views)
  have "\<exists>n. lruOf (snd (evictOldestLocked p s)) q = drop n (lruOf s q)" for q
    using l [of q] assms(2) by (cases "q = p") (auto intro: exI [of _ "0 :: nat"] exI [of _ "1 :: nat"])
  moreover have "store_wf (snd (evictOldestLocked p s))" using removeLocked_wf [OF assms(1) e(2)] by (simp add: ev)
  ultimately show "evicts s (snd (evictOldestLocked p s))" by (simp add: evicts_def) (simp add: ev store_views)
qed

lemma evictOldestLocked_Nil: "lruOf s p = [] \<Longrightarrow> evictOldestLocked p s = (False, s)"
  by (simp add: evictOldestLocked_def lruOf_def split: option.splits)

lemma evict_partner_loop:
  assumes "store_wf s" and "0 \<le> bucket_limit p s"
  shows "evicts s (evict_partner_loop n p s) \<and> (\<forall>q. q \<noteq> p \<longrightarrow> lruOf (evict_partner_loop n p s) q = lruOf s q) \<and>
    lruOf (evict_partner_loop n p s) p = drop (min n (length (lruOf s p) - nat (bucket_limit p s))) (lruOf s p)"
  using assms
proof (induction n arbitrary: s)
  case (Suc n)
  show ?case
  proof (cases "lruOf s p")
    case (Cons e es)
    let ?s = "snd (evictOldestLocked p s)"
    note ev = evictOldestLocked_Cons [OF Suc.prems(1) Cons]
    have wf: "store_wf ?s" and lim: "bucket_limit p ?s = bucket_limit p s" using ev(2) by (auto simp: evicts_def)
    note IH = Suc.IH [OF wf, unfolded lim, OF Suc.prems(2)]
    show ?thesis
    proof (cases "bucket_limit p s < int (bucket_len p s)")
      case True
      then have step: "evict_partner_loop (Suc n) p s = evict_partner_loop n p ?s" by (simp add: ev(1))
      have "min (Suc n) (length (lruOf s p) - nat (bucket_limit p s)) = Suc (min n (length es - nat (bucket_limit p s)))"
        using True Suc.prems(2) Cons by (simp add: bucket_len_lruOf)
      then show ?thesis using IH evicts_trans [OF ev(2)] Cons ev(3) unfolding step by simp
    next
      case False
      then show ?thesis using evicts_refl [OF Suc.prems(1)] by (simp add: bucket_len_lruOf)
    qed
  next
    case Nil
    then show ?thesis using Suc.prems evicts_refl [OF Suc.prems(1)] by (simp add: bucket_len_lruOf)
  qed
qed (simp add: evicts_refl)

text \<open>A partner over its cap loses its oldest entries and no other partner does.\<close>

lemma evictPartnerLocked:
  assumes "store_wf s"
  shows "evicts s (evictPartnerLocked p s)" and "q \<noteq> p \<Longrightarrow> lruOf (evictPartnerLocked p s) q = lruOf s q"
    and "0 < bucket_limit p s \<Longrightarrow> lruOf (evictPartnerLocked p s) p = drop (length (lruOf s p) - nat (bucket_limit p s)) (lruOf s p)"
    and "bucket_limit p s \<le> 0 \<Longrightarrow> evictPartnerLocked p s = s"
  using evict_partner_loop [OF assms, of p "bucket_len p s"] evicts_refl [OF assms]
  by (auto simp: evictPartnerLocked_def bucket_len_lruOf)

text \<open>The runtime may range over a map in any order, but it visits every key.\<close>

definition visits_all :: "range_order \<Rightarrow> bool" where
  "visits_all ord \<longleftrightarrow> (\<forall>n ps. set (ord n ps) = set ps)"

lemma largest_of: "largest_of s l ps = Some q \<Longrightarrow>
  (l = Some q \<or> q \<in> set ps) \<and> (\<forall>p \<in> set ps \<union> set_option l. length (lruOf s p) \<le> length (lruOf s q))"
proof (induction ps arbitrary: l)
  case (Cons p ps)
  show ?case
  proof (cases l)
    case None
    with Cons show ?thesis by fastforce
  next
    case (Some r)
    show ?thesis
    proof (cases "bucket_len r s < bucket_len p s")
      case True
      with Cons.prems Some have "largest_of s (Some p) ps = Some q" by simp
      from Cons.IH [OF this] True show ?thesis by (auto simp: Some bucket_len_lruOf)
    next
      case False
      with Cons.prems Some have "largest_of s (Some r) ps = Some q" by simp
      from Cons.IH [OF this] False show ?thesis by (auto simp: Some bucket_len_lruOf)
    qed
  qed
qed auto

lemma largest_of_None: "largest_of s l ps = None \<Longrightarrow> l = None \<and> ps = []"
proof (induction ps arbitrary: l)
  case (Cons p ps)
  from Cons.IH [OF Cons.prems [unfolded largest_of.simps]] show ?case by (simp split: option.splits if_splits)
qed simp

lemma lruOf_key: "lruOf s p \<noteq> [] \<Longrightarrow> p \<in> set (map fst (buckets s))"
  by (auto simp: lruOf_def split: option.splits) (metis fst_conv image_eqI map_of_SomeD)

lemma some_list_nonempty: "store_wf s \<Longrightarrow> 0 < tsTotal s \<Longrightarrow> \<exists>p. lruOf s p \<noteq> []"
proof -
  assume wf: "store_wf s" and "0 < tsTotal s"
  then have "dom (tbl s) \<noteq> {}" using store_wf_total [OF wf] by auto
  then obtain k e where "tbl s k = Some e" unfolding dom_def by blast
  from store_wf_listed [OF wf this] have "lruOf s (tePartner e) \<noteq> []" by (cases "lruOf s (tePartner e)") auto
  then show ?thesis by blast
qed

lemma evict_global_loop:
  assumes "store_wf s" and "visits_all ord" and "0 \<le> maxEntries s" and "tsTotal s \<le> int n + maxEntries s"
  shows "evicts s (evict_global_loop n ord s) \<and> tsTotal (evict_global_loop n ord s) \<le> maxEntries s"
  using assms
proof (induction n arbitrary: s)
  case (Suc n)
  show ?case
  proof (cases "maxEntries s < tsTotal s")
    case True
    let ?ps = "ord (tsTotal s) (map fst (buckets s))"
    obtain p where p: "lruOf s p \<noteq> []" using some_list_nonempty [OF Suc.prems(1)] True Suc.prems(3) by auto
    then have "p \<in> set ?ps" using Suc.prems(2) lruOf_key by (simp add: visits_all_def)
    then obtain q where q: "largest_of s None ?ps = Some q" using largest_of_None [of s None ?ps] by fastforce
    have "lruOf s q \<noteq> []" using largest_of [OF q] \<open>p \<in> set ?ps\<close> p by fastforce
    then obtain e es where l: "lruOf s q = e # es" by (cases "lruOf s q") auto
    note ev = evictOldestLocked_Cons [OF Suc.prems(1) l]
    let ?s = "snd (evictOldestLocked q s)"
    have wf: "store_wf ?s" and lim: "maxEntries ?s = maxEntries s" using ev(2) by (auto simp: evicts_def)
    have "evict_global_loop (Suc n) ord s = evict_global_loop n ord ?s" using True q by (simp add: ev(1))
    then show ?thesis
      using Suc.IH [OF wf Suc.prems(2)] Suc.prems(3,4) ev(4) lim evicts_trans [OF ev(2)] by auto
  next
    case False
    then show ?thesis using evicts_refl [OF Suc.prems(1)] by simp
  qed
qed (use evicts_refl in simp)

lemma evictGlobalLocked:
  assumes "store_wf s" and "visits_all ord"
  shows "evicts s (evictGlobalLocked ord s)" and "0 < maxEntries s \<Longrightarrow> tsTotal (evictGlobalLocked ord s) \<le> maxEntries s"
proof -
  have t: "tsTotal s \<le> int (nat (tsTotal s)) + maxEntries s" if "0 < maxEntries s" using that by simp
  show "evicts s (evictGlobalLocked ord s)"
    using evict_global_loop [OF assms _ t] evicts_refl [OF assms(1)] by (cases "maxEntries s \<le> 0") (auto simp: evictGlobalLocked_def)
  show "0 < maxEntries s \<Longrightarrow> tsTotal (evictGlobalLocked ord s) \<le> maxEntries s"
    using evict_global_loop [OF assms _ t] by (simp add: evictGlobalLocked_def)
qed

lemma evict_global_loop_idle: "tsTotal s \<le> maxEntries s \<Longrightarrow> evict_global_loop n ord s = s"
  by (cases n) auto

lemma evictGlobalLocked_idle: "maxEntries s \<le> 0 \<or> tsTotal s \<le> maxEntries s \<Longrightarrow> evictGlobalLocked ord s = s"
  by (auto simp: evictGlobalLocked_def evict_global_loop_idle)

section \<open>Insertion and lookup\<close>

text \<open>The state in which the two caps are enforced.\<close>

definition linked :: "topoEntry \<Rightarrow> topoStore \<Rightarrow> topoStore" where
  "linked e s = (case bucketLocked (tePartner e) (s\<lparr>pseudonyms := AList.update (teKey e) e (pseudonyms s),
       forward_index := (forward_index s)(teAlias e \<mapsto> teKey e)\<rparr>) of
     (b, s) \<Rightarrow> (set_bucket (tePartner e) (b\<lparr>lru := lru b @ [e]\<rparr>) s)\<lparr>tsTotal := tsTotal s + 1\<rparr>)"

lemma tsTotal_views [simp]:
  "lruOf (s\<lparr>tsTotal := n\<rparr>) = lruOf s" "bucket_limit p (s\<lparr>tsTotal := n\<rparr>) = bucket_limit p s"
  "lruOf (s\<lparr>pseudonyms := a, forward_index := b\<rparr>) = lruOf s" "bucket_limit p (s\<lparr>pseudonyms := a, forward_index := b\<rparr>) = bucket_limit p s"
  by (simp_all add: lruOf_def fun_eq_iff bucket_limit_def)

lemma linked_views:
  "tbl (linked e s) = (tbl s)(teKey e \<mapsto> e)" "forward_index (linked e s) = (forward_index s)(teAlias e \<mapsto> teKey e)"
  "lruOf (linked e s) q = (if q = tePartner e then lruOf s q @ [e] else lruOf s q)"
  "bucket_limit q (linked e s) = bucket_limit q s" "maxEntries (linked e s) = maxEntries s" "tsTotal (linked e s) = tsTotal s + 1"
proof -
  let ?s = "s\<lparr>pseudonyms := AList.update (teKey e) e (pseudonyms s), forward_index := (forward_index s)(teAlias e \<mapsto> teKey e)\<rparr>"
  obtain b s' where b: "bucketLocked (tePartner e) ?s = (b, s')" by (metis prod.exhaust)
  note v = bucketLocked_views [OF b]
  show "tbl (linked e s) = (tbl s)(teKey e \<mapsto> e)" "forward_index (linked e s) = (forward_index s)(teAlias e \<mapsto> teKey e)"
    "lruOf (linked e s) q = (if q = tePartner e then lruOf s q @ [e] else lruOf s q)"
    "bucket_limit q (linked e s) = bucket_limit q s" "maxEntries (linked e s) = maxEntries s" "tsTotal (linked e s) = tsTotal s + 1"
    using v [of q] by (simp_all add: linked_def b store_views update_conv')
qed

lemma insertLocked_linked:
  "insertLocked ord e (s\<lparr>pseudonyms := AList.update (teKey e) e (pseudonyms s), forward_index := (forward_index s)(teAlias e \<mapsto> teKey e)\<rparr>) =
     evictGlobalLocked ord (evictPartnerLocked (tePartner e) (linked e s))"
  by (simp add: insertLocked_def linked_def Let_def split_beta)

lemma linked_wf:
  assumes "store_wf s" and "tbl s (teKey e) = None"
  shows "store_wf (linked e s)"
proof -
  have new: "e \<notin> set (lruOf s p)" for p using store_wf_entry [OF assms(1), of e p] assms(2) by auto
  have "finite (dom (tbl s))" by (rule finite_dom_map_of)
  moreover have "teKey e \<notin> dom (tbl s)" using assms(2) by (simp add: domIff)
  ultimately have total: "tsTotal (linked e s) = int (card (dom (tbl (linked e s))))"
    using store_wf_total [OF assms(1)] by (simp add: linked_views)
  have forward: "\<exists>e'. tbl (linked e s) k = Some e' \<and> teAlias e' = a" if "forward_index (linked e s) a = Some k" for a k
    using that store_wf_forward [OF assms(1), of a k] assms(2) by (auto simp: linked_views split: if_splits)
  have listed: "teKey e' = k \<and> e' \<in> set (lruOf (linked e s) (tePartner e'))" if "tbl (linked e s) k = Some e'" for k e'
    using that store_wf_key [OF assms(1), of k e'] store_wf_listed [OF assms(1), of k e'] by (auto simp: linked_views split: if_splits)
  have entry: "tePartner e' = p \<and> tbl (linked e s) (teKey e') = Some e'" if "e' \<in> set (lruOf (linked e s) p)" for p e'
    using that store_wf_entry [OF assms(1), of e' p] assms(2) by (auto simp: linked_views split: if_splits)
  have dist: "distinct (lruOf (linked e s) p)" for p
    using new store_wf_distinct [OF assms(1)] by (simp add: linked_views)
  show ?thesis by (rule store_wfI [OF listed dist entry total forward])
qed

text \<open>What \<open>PutPseudonym\<close> starts from: the pseudonym's old entry is gone.\<close>

definition vacated :: "string \<Rightarrow> topoStore \<Rightarrow> topoStore" where
  "vacated k s = (case tbl s k of Some old \<Rightarrow> removeLocked old s | None \<Rightarrow> s)"

lemma vacated_wf: "store_wf s \<Longrightarrow> store_wf (vacated k s) \<and> tbl (vacated k s) k = None"
  using removeLocked_wf [of s] store_wf_key [of s k] by (auto simp: vacated_def store_views split: option.split)

lemma vacated_views:
  assumes "store_wf s"
  shows "bucket_limit q (vacated k s) = bucket_limit q s" "maxEntries (vacated k s) = maxEntries s"
    "set (lruOf (vacated k s) q) = {e \<in> set (lruOf s q). teKey e \<noteq> k}" "tsTotal (vacated k s) \<le> tsTotal s"
    "length (lruOf (vacated k s) q) \<le> length (lruOf s q)"
proof -
  show "bucket_limit q (vacated k s) = bucket_limit q s" "maxEntries (vacated k s) = maxEntries s"
    "tsTotal (vacated k s) \<le> tsTotal s" "length (lruOf (vacated k s) q) \<le> length (lruOf s q)"
    by (simp_all add: vacated_def store_views length_remove1 split: option.split)
  show "set (lruOf (vacated k s) q) = {e \<in> set (lruOf s q). teKey e \<noteq> k}"
  proof (cases "tbl s k")
    case None
    then show ?thesis using store_wf_entry [OF assms] by (force simp: vacated_def)
  next
    case (Some old)
    have "teKey e = k \<longleftrightarrow> e = old" if "e \<in> set (lruOf s q)" for e
      using store_wf_entry [OF assms that] store_wf_key [OF assms Some] Some by auto
    moreover have "old \<notin> set (lruOf s q)" if "q \<noteq> tePartner old" using store_wf_entry [OF assms, of old q] that by auto
    moreover have "set (lruOf (vacated k s) q) = (if q = tePartner old then set (lruOf s q) - {old} else set (lruOf s q))"
      by (simp add: vacated_def Some store_views set_remove1_lru [OF assms])
    ultimately show ?thesis by (cases "q = tePartner old") auto
  qed
qed

lemma PutPseudonym_stages:
  "PutPseudonym now ord p n h x ttl s =
    (let e = new_entry now p n h x ttl in evictGlobalLocked ord (evictPartnerLocked p (linked e (vacated (topo_normalize n) s))))"
  by (simp add: PutPseudonym_def Let_def insertLocked_linked vacated_def new_entry_def)

lemma PutPseudonym_wf:
  assumes "store_wf s" and "visits_all ord"
  shows "store_wf (PutPseudonym now ord p n h x ttl s)" and "maxEntries (PutPseudonym now ord p n h x ttl s) = maxEntries s"
    and "bucket_limit q (PutPseudonym now ord p n h x ttl s) = bucket_limit q s"
    and "0 < maxEntries s \<Longrightarrow> tsTotal (PutPseudonym now ord p n h x ttl s) \<le> maxEntries s"
proof -
  let ?e = "new_entry now p n h x ttl" and ?v = "vacated (topo_normalize n) s"
  have v: "store_wf ?v" "tbl ?v (teKey ?e) = None" using vacated_wf [OF assms(1)] by (simp_all add: new_entry_def)
  note l = linked_wf [OF v]
  note ep = evictPartnerLocked(1) [OF l, of p]
  note eg = evictGlobalLocked [OF evicts_wf [OF ep] assms(2)]
  have all: "evicts (linked ?e ?v) (PutPseudonym now ord p n h x ttl s)"
    using evicts_trans [OF ep eg(1)] by (simp add: PutPseudonym_stages Let_def)
  then show "store_wf (PutPseudonym now ord p n h x ttl s)" "maxEntries (PutPseudonym now ord p n h x ttl s) = maxEntries s"
    "bucket_limit q (PutPseudonym now ord p n h x ttl s) = bucket_limit q s"
    by (simp_all add: evicts_def linked_views vacated_views [OF assms(1)])
  have "maxEntries (evictPartnerLocked p (linked ?e ?v)) = maxEntries s"
    using ep by (simp add: evicts_def linked_views vacated_views [OF assms(1)])
  with eg(2) show "0 < maxEntries s \<Longrightarrow> tsTotal (PutPseudonym now ord p n h x ttl s) \<le> maxEntries s"
    by (simp add: PutPseudonym_stages Let_def)
qed

lemma touchLocked_wf:
  assumes "store_wf s" and "tbl s k = Some e"
  shows "store_wf (touchLocked e s)" and "set (lruOf (touchLocked e s) q) = set (lruOf s q)" and "length (lruOf (touchLocked e s) q) = length (lruOf s q)"
proof -
  have e: "e \<in> set (lruOf s (tePartner e))" using store_wf_listed [OF assms] .
  show lru: "set (lruOf (touchLocked e s) q) = set (lruOf s q)" for q
    using set_remove1_lru [OF assms(1)] e by (auto simp: touchLocked_views(1) [OF e])
  show "length (lruOf (touchLocked e s) q) = length (lruOf s q)"
    using e by (auto simp: touchLocked_views(1) [OF e] length_remove1 dest: length_pos_if_in_set)
  have "distinct (remove1 e (lruOf s p))" for p using store_wf_distinct [OF assms(1)] by (simp add: distinct_remove1)
  then have "distinct (lruOf (touchLocked e s) p)" for p
    using store_wf_distinct [OF assms(1)] set_remove1_lru [OF assms(1)] by (simp add: touchLocked_views(1) [OF e])
  with assms(1) lru show "store_wf (touchLocked e s)" by (simp add: store_wf_def touchLocked_views)
qed

lemma expireLocked_wf: "store_wf s \<Longrightarrow> tbl s k = Some e \<Longrightarrow> store_wf (expireLocked e s)"
  using removeLocked_wf store_wf_key by (simp add: expireLocked_def)

text \<open>A lookup drops at most entries; nothing is added and the caps stay as they are.\<close>

definition narrows :: "topoStore \<Rightarrow> topoStore \<Rightarrow> bool" where
  "narrows s s' \<longleftrightarrow> store_wf s' \<and> maxEntries s' = maxEntries s \<and> (\<forall>q. bucket_limit q s' = bucket_limit q s) \<and>
     tsTotal s' \<le> tsTotal s \<and> (\<forall>q. set (lruOf s' q) \<subseteq> set (lruOf s q) \<and> length (lruOf s' q) \<le> length (lruOf s q))"

lemma narrows_refl: "store_wf s \<Longrightarrow> narrows s s"
  by (simp add: narrows_def)

lemma narrows_trans: "narrows s s' \<Longrightarrow> narrows s' s'' \<Longrightarrow> narrows s s''"
  unfolding narrows_def by (metis le_trans order_trans subset_trans)

lemma expireLocked_narrows: "store_wf s \<Longrightarrow> tbl s k = Some e \<Longrightarrow> narrows s (expireLocked e s)"
  using expireLocked_wf [of s k e] set_remove1_lru [of s]
  by (auto simp: narrows_def expireLocked_def store_views length_remove1)

lemma touchLocked_narrows: "store_wf s \<Longrightarrow> tbl s k = Some e \<Longrightarrow> narrows s (touchLocked e s)"
  using touchLocked_wf [of s k e] by (simp add: narrows_def touchLocked_views)

lemma narrows_counters: "narrows s s' \<Longrightarrow> narrows s (s'\<lparr>tsMisses := n\<rparr>)" "narrows s s' \<Longrightarrow> narrows s (s'\<lparr>tsHits := n\<rparr>)"
  by (simp_all add: narrows_def)

lemma Pseudonym_narrows: "store_wf s \<Longrightarrow> narrows s (snd (Pseudonym now h x s))"
  using expireLocked_narrows touchLocked_narrows narrows_refl by (simp add: Pseudonym_def split: option.split)

lemma RealHost_narrows: "store_wf s \<Longrightarrow> narrows s (snd (RealHost now n s))"
  using expireLocked_narrows touchLocked_narrows narrows_refl
  by (simp add: RealHost_def Let_def narrows_counters split: option.split)

text \<open>An entry that was listed when the sweep began is still in the table when the sweep reaches it.\<close>

lemma sweep_narrows:
  assumes "store_wf s" and "distinct es" and "\<forall>e \<in> set es. tbl s (teKey e) = Some e"
  shows "narrows s (fold (\<lambda>e s. if teExpiresAt e \<le> now then expireLocked e s else s) es s)"
  using assms
proof (induction es arbitrary: s)
  case (Cons e es)
  show ?case
  proof (cases "teExpiresAt e \<le> now")
    case True
    have e: "tbl s (teKey e) = Some e" using Cons.prems(3) by simp
    have "tbl (expireLocked e s) (teKey e') = Some e'" if m: "e' \<in> set es" for e'
    proof -
      have t: "tbl s (teKey e') = Some e'" by (rule bspec [OF Cons.prems(3)]) (simp add: m)
      then have "teKey e' \<noteq> teKey e" using e m Cons.prems(2) by (metis distinct.simps(2) option.inject)
      with t show ?thesis by (simp add: expireLocked_def removeLocked_views(3))
    qed
    then have "narrows (expireLocked e s) (fold (\<lambda>e s. if teExpiresAt e \<le> now then expireLocked e s else s) es (expireLocked e s))"
      using Cons.IH [OF expireLocked_wf [OF Cons.prems(1) e]] Cons.prems(2) by simp
    from narrows_trans [OF expireLocked_narrows [OF Cons.prems(1) e] this] show ?thesis using True by simp
  next
    case False
    have "narrows s (fold (\<lambda>e s. if teExpiresAt e \<le> now then expireLocked e s else s) es s)"
      using Cons.IH [OF Cons.prems(1)] Cons.prems(2,3) by simp
    then show ?thesis using False by simp
  qed
qed (simp add: narrows_refl)

lemma bucket_lists:
  assumes "distinct (map fst (buckets s))" shows "map (lru \<circ> snd) (buckets s) = map (lruOf s) (map fst (buckets s))"
proof -
  have "lru (snd x) = lruOf s (fst x)" if "x \<in> set (buckets s)" for x
    using map_of_is_SomeI [OF assms, of "fst x" "snd x"] that by (simp add: lruOf_def)
  then show ?thesis by simp
qed

definition names_ok :: "topoStore \<Rightarrow> bool" where "names_ok s \<longleftrightarrow> distinct (map fst (buckets s))"

lemma Store_sweep_narrows: "store_wf s \<Longrightarrow> names_ok s \<Longrightarrow> narrows s (Store_sweep now s)"
proof -
  assume wf: "store_wf s" and names: "names_ok s"
  have "distinct (concat (map (lruOf s) ps))" if "distinct ps" for ps
    using that
  proof (induction ps)
    case (Cons p ps)
    have "set (lruOf s p) \<inter> set (lruOf s q) = {}" if "q \<in> set ps" for q
      using Cons.prems that store_wf_entry [OF wf, of _ p] store_wf_entry [OF wf, of _ q] by fastforce
    then show ?case using Cons store_wf_distinct [OF wf] by auto
  qed simp
  from this [of "map fst (buckets s)"] have "distinct (concat (map (lru \<circ> snd) (buckets s)))"
    using names bucket_lists [of s] by (simp add: names_ok_def del: map_map)
  moreover have "\<forall>e \<in> set (concat (map (lru \<circ> snd) (buckets s))). tbl s (teKey e) = Some e"
    using store_wf_entry [OF wf] names bucket_lists [of s] by (auto simp: names_ok_def simp del: map_map)
  ultimately show ?thesis unfolding Store_sweep_def by (intro sweep_narrows wf)
qed

section \<open>Every operation keeps the invariant\<close>

lemma names_ok_simps [simp]:
  "names_ok s \<Longrightarrow> names_ok (set_bucket p b s)" "names_ok (s\<lparr>pseudonyms := ps\<rparr>) = names_ok s"
  "names_ok (s\<lparr>forward_index := f\<rparr>) = names_ok s" "names_ok (s\<lparr>tsTotal := n\<rparr>) = names_ok s"
  "names_ok (s\<lparr>tsHits := n\<rparr>) = names_ok s" "names_ok (s\<lparr>tsMisses := n\<rparr>) = names_ok s"
  "names_ok (s\<lparr>tsEvictions := n\<rparr>) = names_ok s" "names_ok (s\<lparr>tsExpired := n\<rparr>) = names_ok s"
  by (simp_all add: names_ok_def set_bucket_def distinct_update)

lemma names_ok_locked [simp]:
  "names_ok s \<Longrightarrow> names_ok (snd (bucketLocked p s))" "names_ok s \<Longrightarrow> names_ok (removeLocked e s)"
  "names_ok s \<Longrightarrow> names_ok (expireLocked e s)" "names_ok s \<Longrightarrow> names_ok (touchLocked e s)"
  "names_ok s \<Longrightarrow> names_ok (snd (evictOldestLocked p s))"
proof -
  show bl: "names_ok s \<Longrightarrow> names_ok (snd (bucketLocked p s))" for s
    by (auto simp: bucketLocked_def names_ok_def map_of_eq_None_iff split: option.split)
  show rm: "names_ok s \<Longrightarrow> names_ok (removeLocked e s)" for s e
    by (simp add: removeLocked_def detachLocked_def Let_def split: option.split)
  then show "names_ok s \<Longrightarrow> names_ok (expireLocked e s)" by (simp add: expireLocked_def)
  show "names_ok s \<Longrightarrow> names_ok (touchLocked e s)" by (simp add: touchLocked_def split: option.split)
  show "names_ok s \<Longrightarrow> names_ok (snd (evictOldestLocked p s))"
    using rm by (simp add: evictOldestLocked_def split: option.split list.split)
qed

lemma names_ok_evict [simp]:
  "names_ok s \<Longrightarrow> names_ok (evictPartnerLocked p s)" "names_ok s \<Longrightarrow> names_ok (evictGlobalLocked ord s)"
proof -
  have one: "names_ok s \<Longrightarrow> evictOldestLocked p s = (ok, s') \<Longrightarrow> names_ok s'" for s p ok s'
    using names_ok_locked(5) [of s p] by simp
  have "names_ok s \<Longrightarrow> names_ok (evict_partner_loop n p s)" for n
    using one by (induction n arbitrary: s) (auto split: prod.split)
  then show "names_ok s \<Longrightarrow> names_ok (evictPartnerLocked p s)" by (simp add: evictPartnerLocked_def)
  have "names_ok s \<Longrightarrow> names_ok (evict_global_loop n ord s)" for n
    using one by (induction n arbitrary: s) (auto split: prod.split option.split)
  then show "names_ok s \<Longrightarrow> names_ok (evictGlobalLocked ord s)" by (simp add: evictGlobalLocked_def)
qed

lemma names_ok_ops [simp]:
  "names_ok s \<Longrightarrow> names_ok (PutPseudonym now ord p n h x ttl s)" "names_ok s \<Longrightarrow> names_ok (snd (Pseudonym now h x s))"
  "names_ok s \<Longrightarrow> names_ok (snd (RealHost now n s))" "names_ok s \<Longrightarrow> names_ok (SetPartnerLimit p l s)"
proof -
  have bl: "names_ok s \<Longrightarrow> bucketLocked p s = (b, s') \<Longrightarrow> names_ok s'" for s p b s'
    using names_ok_locked(1) [of s p] by simp
  have "names_ok s \<Longrightarrow> names_ok (linked e s)" for e s
    by (simp add: linked_def split_beta)
  moreover have "names_ok s \<Longrightarrow> names_ok (vacated k s)" for k by (simp add: vacated_def split: option.split)
  ultimately show "names_ok s \<Longrightarrow> names_ok (PutPseudonym now ord p n h x ttl s)" by (simp add: PutPseudonym_stages Let_def)
  show "names_ok s \<Longrightarrow> names_ok (SetPartnerLimit p l s)" using bl by (auto simp: SetPartnerLimit_def split: prod.split)
qed (simp_all add: Pseudonym_def RealHost_def Let_def split: option.split)

lemma sweep_names_ok: "names_ok s \<Longrightarrow> names_ok (Store_sweep now s)"
proof -
  have "names_ok s \<Longrightarrow> names_ok (fold (\<lambda>e s. if teExpiresAt e \<le> now then expireLocked e s else s) es s)" for es
    by (induction es arbitrary: s) auto
  then show "names_ok s \<Longrightarrow> names_ok (Store_sweep now s)" by (simp add: Store_sweep_def)
qed

lemma SetPartnerLimit_views:
  "lruOf (SetPartnerLimit p l s) = lruOf s" "tbl (SetPartnerLimit p l s) = tbl s" "tsTotal (SetPartnerLimit p l s) = tsTotal s"
  "forward_index (SetPartnerLimit p l s) = forward_index s" "maxEntries (SetPartnerLimit p l s) = maxEntries s"
  "bucket_limit q (SetPartnerLimit p l s) = (if q = p then l else bucket_limit q s)"
proof -
  obtain b s' where b: "bucketLocked p s = (b, s')" by (metis prod.exhaust)
  note v = bucketLocked_views [OF b]
  show "lruOf (SetPartnerLimit p l s) = lruOf s" "tbl (SetPartnerLimit p l s) = tbl s" "tsTotal (SetPartnerLimit p l s) = tsTotal s"
    "forward_index (SetPartnerLimit p l s) = forward_index s" "maxEntries (SetPartnerLimit p l s) = maxEntries s"
    "bucket_limit q (SetPartnerLimit p l s) = (if q = p then l else bucket_limit q s)"
    using v by (simp_all add: SetPartnerLimit_def b store_views fun_eq_iff)
qed

lemma SetPartnerLimit_wf: "store_wf (SetPartnerLimit p l s) = store_wf s"
  by (rule store_wf_same) (simp add: same_store_def SetPartnerLimit_views)

datatype topo_op =
    PutOp int string string string string int
  | PseudonymOp int string string
  | RealHostOp int string
  | SweepOp int
  | LimitOp string int

fun topo_step :: "range_order \<Rightarrow> topoStore \<Rightarrow> topo_op \<Rightarrow> topoStore" where
  "topo_step ord s (PutOp now p n h x ttl) = PutPseudonym now ord p n h x ttl s"
| "topo_step ord s (PseudonymOp now h x) = snd (Pseudonym now h x s)"
| "topo_step ord s (RealHostOp now n) = snd (RealHost now n s)"
| "topo_step ord s (SweepOp now) = Store_sweep now s"
| "topo_step ord s (LimitOp p n) = SetPartnerLimit p n s"

definition topo_inv :: "topoStore \<Rightarrow> bool" where
  "topo_inv s \<longleftrightarrow> store_wf s \<and> names_ok s \<and> (0 < maxEntries s \<longrightarrow> tsTotal s \<le> maxEntries s)"

lemma topo_inv_step: "visits_all ord \<Longrightarrow> topo_inv s \<Longrightarrow> topo_inv (topo_step ord s e)"
proof (cases e)
  assume s: "topo_inv s" and ord: "visits_all ord"
  have narrow: "narrows s s' \<Longrightarrow> names_ok s' \<Longrightarrow> topo_inv s'" for s' using s by (auto simp: topo_inv_def narrows_def)
  {
    case (PutOp now p n h x ttl)
    then show ?thesis using PutPseudonym_wf [OF _ ord, of s] s by (simp add: topo_inv_def)
  next
    case (PseudonymOp now h x)
    then show ?thesis using narrow [OF Pseudonym_narrows] s by (simp add: topo_inv_def)
  next
    case (RealHostOp now n)
    then show ?thesis using narrow [OF RealHost_narrows] s by (simp add: topo_inv_def)
  next
    case (SweepOp now)
    then show ?thesis using narrow [OF Store_sweep_narrows sweep_names_ok] s by (simp add: topo_inv_def)
  next
    case (LimitOp p n)
    then show ?thesis using s by (simp add: topo_inv_def SetPartnerLimit_wf SetPartnerLimit_views)
  }
qed

interpretation topo: machine "topo_step ord" "\<lambda>s. visits_all ord \<longrightarrow> topo_inv s" for ord
  by unfold_locales (use topo_inv_step in blast)

lemma newMemoryStore_inv: "topo_inv (newMemoryStore n)"
  by (simp add: topo_inv_def newMemoryStore_def store_wf_def lruOf_def names_ok_def)

section \<open>Partners within their budget\<close>

text \<open>The names of the partners that use the store, each with a cap, and a store-wide cap that has room for all of them.\<close>

definition budgeted :: "string set \<Rightarrow> topoStore \<Rightarrow> bool" where
  "budgeted P s \<longleftrightarrow> maxEntries s \<le> 0 \<or>
     finite P \<and> (\<forall>q. q \<notin> P \<longrightarrow> lruOf s q = []) \<and>
     (\<forall>q \<in> P. 0 < bucket_limit q s \<and> int (length (lruOf s q)) \<le> bucket_limit q s) \<and>
     (\<Sum>q\<in>P. bucket_limit q s) \<le> maxEntries s"

lemma total_le_sum:
  assumes "store_wf s" and "finite P" and "\<forall>q. q \<notin> P \<longrightarrow> lruOf s q = []"
  shows "tsTotal s \<le> (\<Sum>q\<in>P. int (length (lruOf s q)))"
proof -
  have "dom (tbl s) \<subseteq> (\<Union>q\<in>P. teKey ` set (lruOf s q))"
  proof
    fix k assume "k \<in> dom (tbl s)"
    then obtain e where e: "tbl s k = Some e" unfolding dom_def by blast
    then have "teKey e = k" "e \<in> set (lruOf s (tePartner e))" using store_wf_key store_wf_listed assms(1) by auto
    moreover from this have "tePartner e \<in> P" using assms(3) by (metis empty_iff empty_set)
    ultimately show "k \<in> (\<Union>q\<in>P. teKey ` set (lruOf s q))" by blast
  qed
  then have "card (dom (tbl s)) \<le> card (\<Union>q\<in>P. teKey ` set (lruOf s q))" using assms(2) by (intro card_mono) auto
  also have "\<dots> \<le> (\<Sum>q\<in>P. card (teKey ` set (lruOf s q)))" by (rule card_UN_le [OF assms(2)])
  also have "\<dots> \<le> (\<Sum>q\<in>P. length (lruOf s q))"
    by (intro sum_mono) (meson card_image_le card_length le_trans finite_set)
  finally show ?thesis using store_wf_total [OF assms(1)] by (simp flip: of_nat_sum)
qed

lemma budgeted_narrows: "budgeted P s \<Longrightarrow> narrows s s' \<Longrightarrow> budgeted P s'"
proof (cases "maxEntries s \<le> 0")
  case False
  assume b: "budgeted P s" and n: "narrows s s'"
  have "lruOf s' q = []" if "lruOf s q = []" for q using n that by (simp add: narrows_def) (metis le_zero_eq length_0_conv)
  moreover have "int (length (lruOf s' q)) \<le> int (length (lruOf s q))" for q using n by (simp add: narrows_def)
  ultimately show ?thesis using b False n unfolding budgeted_def narrows_def by (metis (no_types, lifting) order_trans sum.cong)
qed (simp add: budgeted_def narrows_def)

lemma vacated_narrows: "store_wf s \<Longrightarrow> narrows s (vacated k s)"
  using vacated_views [of s] vacated_wf [of s k] by (auto simp: narrows_def)

lemma new_entry_simps [simp]:
  "teKey (new_entry now p n h x ttl) = topo_normalize n" "tePartner (new_entry now p n h x ttl) = p"
  "teValue (new_entry now p n h x ttl) = h" "teExpiresAt (new_entry now p n h x ttl) = now + ttl"
  by (simp_all add: new_entry_def)

text \<open>A put within the budget evicts nothing but the oldest entries of its own partner.\<close>

lemma PutPseudonym_budgeted:
  assumes "store_wf s" and "budgeted P s" and "p \<in> P \<or> maxEntries s \<le> 0"
  shows "PutPseudonym now ord p n h x ttl s = evictPartnerLocked p (linked (new_entry now p n h x ttl) (vacated (topo_normalize n) s))"
    and "budgeted P (PutPseudonym now ord p n h x ttl s)"
proof -
  let ?e = "new_entry now p n h x ttl" and ?v = "vacated (topo_normalize n) s"
  let ?l = "linked ?e ?v"
  let ?s = "evictPartnerLocked p ?l"
  have v: "store_wf ?v" "tbl ?v (teKey ?e) = None" using vacated_wf [OF assms(1)] by simp_all
  have part: "tePartner ?e = p" by simp
  note l = linked_wf [OF v]
  note ev = evictPartnerLocked [OF l, where p = p]
  have b: "budgeted P ?v" using budgeted_narrows [OF assms(2) vacated_narrows [OF assms(1)]] .
  have same: "maxEntries ?s = maxEntries s" "bucket_limit q ?s = bucket_limit q s" for q
    using ev(1) by (simp_all add: evicts_def linked_views vacated_views [OF assms(1)])
  have vmax: "maxEntries ?v = maxEntries s" "bucket_limit q ?v = bucket_limit q s" for q by (simp_all add: vacated_views [OF assms(1)])
  have other: "lruOf ?s q = lruOf ?v q" if "q \<noteq> p" for q using ev(2) that by (simp add: linked_views part)
  have goal: "budgeted P ?s \<and> (maxEntries ?s \<le> 0 \<or> tsTotal ?s \<le> maxEntries ?s)"
  proof (cases "maxEntries s \<le> 0")
    case True
    then show ?thesis by (simp add: budgeted_def same)
  next
    case False
    then have P: "p \<in> P" "finite P" and empty: "q \<notin> P \<Longrightarrow> lruOf ?v q = []"
      and lim: "q \<in> P \<Longrightarrow> 0 < bucket_limit q s \<and> int (length (lruOf ?v q)) \<le> bucket_limit q s"
      and sum: "(\<Sum>q\<in>P. bucket_limit q s) \<le> maxEntries s" for q
      using assms(3) b by (auto simp: budgeted_def vmax)
    have "lruOf ?s p = drop (length (lruOf ?l p) - nat (bucket_limit p s)) (lruOf ?l p)"
      using ev(3) lim [OF P(1)] by (simp add: linked_views vmax)
    then have "length (lruOf ?s p) = length (lruOf ?l p) - (length (lruOf ?l p) - nat (bucket_limit p s))"
      by (simp only: length_drop)
    then have "int (length (lruOf ?s p)) \<le> bucket_limit p s" using lim [OF P(1)] by linarith
    then have len: "q \<in> P \<Longrightarrow> int (length (lruOf ?s q)) \<le> bucket_limit q s" for q using other lim by (cases "q = p") auto
    have out: "q \<notin> P \<Longrightarrow> lruOf ?s q = []" for q using other empty P(1) by (cases "q = p") auto
    have "tsTotal ?s \<le> (\<Sum>q\<in>P. int (length (lruOf ?s q)))"
      using out by (intro total_le_sum [OF evicts_wf [OF ev(1)] P(2)]) blast
    also have "\<dots> \<le> (\<Sum>q\<in>P. bucket_limit q s)" using len by (rule sum_mono)
    finally show ?thesis using sum P(2) out len lim by (simp add: budgeted_def same)
  qed
  then show eq: "PutPseudonym now ord p n h x ttl s = ?s"
    by (simp add: PutPseudonym_stages Let_def evictGlobalLocked_idle)
  show "budgeted P (PutPseudonym now ord p n h x ttl s)" using goal eq by simp
qed

lemma PutPseudonym_found:
  assumes "store_wf s" and "budgeted P s" and "p \<in> P \<or> maxEntries s \<le> 0" and "visits_all ord"
  shows "tbl (PutPseudonym now ord p n h x ttl s) (topo_normalize n) = Some (new_entry now p n h x ttl)"
proof -
  let ?e = "new_entry now p n h x ttl" and ?v = "vacated (topo_normalize n) s"
  let ?s = "evictPartnerLocked p (linked ?e ?v)"
  have v: "store_wf ?v" "tbl ?v (teKey ?e) = None" using vacated_wf [OF assms(1)] by (simp_all add: new_entry_def)
  have part: "tePartner ?e = p" "teKey ?e = topo_normalize n" by (simp_all add: new_entry_def)
  note l = linked_wf [OF v]
  have "?e \<in> set (lruOf ?s p)"
  proof (cases "0 < bucket_limit p s")
    case True
    then have "lruOf ?s p = drop (length (lruOf ?v p) + 1 - nat (bucket_limit p s)) (lruOf ?v p @ [?e])"
      using evictPartnerLocked(3) [OF l, of p] by (simp add: linked_views part vacated_views [OF assms(1)])
    moreover have "length (lruOf ?v p) + 1 - nat (bucket_limit p s) \<le> length (lruOf ?v p)" using True by simp
    ultimately show ?thesis by simp
  next
    case False
    then show ?thesis
      using evictPartnerLocked(4) [OF l, of p] by (simp add: linked_views part vacated_views [OF assms(1)])
  qed
  then show ?thesis
    using store_wf_entry [OF PutPseudonym_wf(1) [OF assms(1,4)], of ?e now p n h x ttl p]
    unfolding PutPseudonym_budgeted(1) [OF assms(1-3)] part by simp
qed

text \<open>Other entries are kept or evicted, never changed.\<close>

lemma PutPseudonym_other:
  assumes "store_wf s" and "visits_all ord" and "k \<noteq> topo_normalize n"
  shows "tbl (PutPseudonym now ord p n h x ttl s) k \<in> {None, tbl s k}"
proof (cases "tbl (PutPseudonym now ord p n h x ttl s) k")
  case (Some e)
  let ?e = "new_entry now p n h x ttl" and ?v = "vacated (topo_normalize n) s"
  note wf = PutPseudonym_wf(1) [OF assms(1,2), of now p n h x ttl]
  have v: "store_wf ?v" "tbl ?v (teKey ?e) = None" using vacated_wf [OF assms(1)] by (simp_all add: new_entry_def)
  note l = linked_wf [OF v]
  have "evicts (linked ?e ?v) (PutPseudonym now ord p n h x ttl s)"
    using evicts_trans [OF evictPartnerLocked(1) [OF l] evictGlobalLocked(1) [OF evicts_wf [OF evictPartnerLocked(1) [OF l]] assms(2)]]
    by (simp add: PutPseudonym_stages Let_def)
  then obtain m where m: "lruOf (PutPseudonym now ord p n h x ttl s) (tePartner e) = drop m (lruOf (linked ?e ?v) (tePartner e))"
    unfolding evicts_def by blast
  have "e \<in> set (lruOf (linked ?e ?v) (tePartner e))" using store_wf_listed [OF wf Some] m in_set_dropD by metis
  moreover have k: "teKey e = k" using store_wf_key [OF wf Some] .
  moreover have "e \<noteq> ?e" using k assms(3) by (metis new_entry_simps(1))
  ultimately have "e \<in> set (lruOf ?v (tePartner e))"
    by (auto simp: linked_views split: if_splits)
  then have "e \<in> set (lruOf s (tePartner e))" using vacated_views(3) [OF assms(1)] by auto
  then show ?thesis using store_wf_entry [OF assms(1)] k Some by auto
qed simp

lemma RealHost_tbl: "fst (RealHost now n s) = (case tbl s (topo_normalize n) of None \<Rightarrow> None | Some e \<Rightarrow> if teExpiresAt e \<le> now then None else Some (teValue e))"
  by (simp add: RealHost_def Let_def split: option.split)

text \<open>For one partner, session and lifetime the store is a store of expiring entries: pseudonyms name hosts.\<close>

interpretation masks: expiring_store "\<lambda>now s n. fst (RealHost now n s)"
    "\<lambda>now n h. PutPseudonym now ord p n h x ttl" topo_normalize "\<lambda>_. ttl"
    "\<lambda>s. visits_all ord \<and> store_wf s \<and> budgeted P s \<and> (p \<in> P \<or> maxEntries s \<le> 0)" for ord p x ttl P
proof
  fix s now n h
  assume "visits_all ord \<and> store_wf s \<and> budgeted P s \<and> (p \<in> P \<or> maxEntries s \<le> 0)"
  then show "visits_all ord \<and> store_wf (PutPseudonym now ord p n h x ttl s) \<and> budgeted P (PutPseudonym now ord p n h x ttl s) \<and>
      (p \<in> P \<or> maxEntries (PutPseudonym now ord p n h x ttl s) \<le> 0)"
    using PutPseudonym_wf [of s ord] PutPseudonym_budgeted(2) by auto
next
  fix s k' k now' now v
  assume ok: "visits_all ord \<and> store_wf s \<and> budgeted P s \<and> (p \<in> P \<or> maxEntries s \<le> 0)"
  have new: "tbl (PutPseudonym now ord p k v x ttl s) (topo_normalize k) = Some (new_entry now p k v x ttl)"
    using PutPseudonym_found ok by blast
  show "fst (RealHost now' k' (PutPseudonym now ord p k v x ttl s)) = Some v" if "topo_normalize k' = topo_normalize k" "now' < now + ttl"
    using new that by (simp add: RealHost_tbl)
  show "fst (RealHost now' k' (PutPseudonym now ord p k v x ttl s)) = None" if "topo_normalize k' = topo_normalize k" "now + ttl < now'"
    using new that by (simp add: RealHost_tbl)
  show "fst (RealHost now' k' (PutPseudonym now ord p k v x ttl s)) \<in> {None, Some v}" if "topo_normalize k' = topo_normalize k"
    using new that by (simp add: RealHost_tbl)
  show "fst (RealHost now' k' (PutPseudonym now ord p k v x ttl s)) \<in> {None, fst (RealHost now' k' s)}" if "topo_normalize k' \<noteq> topo_normalize k"
    using PutPseudonym_other [of s ord "topo_normalize k'" k now p v x ttl] ok that by (auto simp: RealHost_tbl)
qed simp

section \<open>Entries that operations keep\<close>

text \<open>The time an operation reads.\<close>

fun topo_time :: "topo_op \<Rightarrow> int option" where
  "topo_time (PutOp now p n h x ttl) = Some now"
| "topo_time (PseudonymOp now h x) = Some now"
| "topo_time (RealHostOp now n) = Some now"
| "topo_time (SweepOp now) = Some now"
| "topo_time (LimitOp p n) = None"

text \<open>Only partners with a budget store anything, and caps are not changed.\<close>

fun in_budget :: "string set \<Rightarrow> topo_op \<Rightarrow> bool" where
  "in_budget P (PutOp now q n h x ttl) \<longleftrightarrow> q \<in> P"
| "in_budget P (LimitOp q n) \<longleftrightarrow> False"
| "in_budget P _ \<longleftrightarrow> True"

text \<open>An operation that another partner may cause: it stores for another partner, under another pseudonym.\<close>

fun foreign_op :: "string set \<Rightarrow> string \<Rightarrow> string \<Rightarrow> topo_op \<Rightarrow> bool" where
  "foreign_op P p k (PutOp now q n h x ttl) \<longleftrightarrow> q \<in> P \<and> q \<noteq> p \<and> topo_normalize n \<noteq> k"
| "foreign_op P p k (LimitOp q n) \<longleftrightarrow> False"
| "foreign_op P p k _ \<longleftrightarrow> True"

lemma foreign_within: "foreign_op P p k op \<Longrightarrow> in_budget P op"
  by (cases op) auto

lemma removeLocked_keeps: "tbl s k = Some e \<Longrightarrow> teKey e' \<noteq> k \<Longrightarrow> tbl (expireLocked e' s) k = Some e"
  by (simp add: expireLocked_def removeLocked_views(3))

lemma Put_keeps:
  assumes "store_wf s" and "budgeted P s" and "q \<in> P" and "visits_all ord"
    and "tbl s k = Some e" and "tePartner e \<noteq> q" and "topo_normalize n \<noteq> k"
  shows "tbl (PutPseudonym now ord q n h x ttl s) k = Some e"
proof -
  let ?e = "new_entry now q n h x ttl" and ?v = "vacated (topo_normalize n) s"
  have v: "store_wf ?v" "tbl ?v (teKey ?e) = None" using vacated_wf [OF assms(1)] by simp_all
  note l = linked_wf [OF v]
  have k: "teKey e = k" "e \<in> set (lruOf s (tePartner e))" using store_wf_key store_wf_listed assms(1,5) by auto
  then have "e \<in> set (lruOf ?v (tePartner e))" using vacated_views(3) [OF assms(1)] assms(7) by auto
  then have "e \<in> set (lruOf (evictPartnerLocked q (linked ?e ?v)) (tePartner e))"
    using evictPartnerLocked(2) [OF l assms(6)] assms(6) by (simp add: linked_views)
  then have "e \<in> set (lruOf (PutPseudonym now ord q n h x ttl s) (tePartner e))"
    using PutPseudonym_budgeted(1) [OF assms(1,2)] assms(3) by simp
  then show ?thesis using store_wf_entry [OF PutPseudonym_wf(1) [OF assms(1,4)]] k(1) by blast
qed

lemma sweep_keeps:
  assumes "tbl s k = Some e" and "\<forall>e' \<in> set es. teKey e' = k \<longrightarrow> now < teExpiresAt e'"
  shows "tbl (fold (\<lambda>e s. if teExpiresAt e \<le> now then expireLocked e s else s) es s) k = Some e"
  using assms
proof (induction es arbitrary: s)
  case (Cons e' es)
  show ?case
  proof (cases "teExpiresAt e' \<le> now")
    case True
    then have "tbl (expireLocked e' s) k = Some e" using Cons.prems by (intro removeLocked_keeps) auto
    with Cons True show ?thesis by simp
  qed (use Cons in simp)
qed simp

lemma topo_step_budgeted:
  assumes "visits_all ord" and "store_wf s" and "names_ok s" and "budgeted P s" and "in_budget P op"
  shows "store_wf (topo_step ord s op)" and "names_ok (topo_step ord s op)" and "budgeted P (topo_step ord s op)"
proof -
  have narrow: "narrows s s' \<Longrightarrow> store_wf s' \<and> budgeted P s'" for s' using budgeted_narrows [OF assms(4)] by (simp add: narrows_def)
  have "store_wf (topo_step ord s op) \<and> names_ok (topo_step ord s op) \<and> budgeted P (topo_step ord s op)"
  proof (cases op)
    case (PutOp now q n h x ttl)
    then have "q \<in> P" using assms(5) by auto
    then show ?thesis using PutOp PutPseudonym_wf(1) PutPseudonym_budgeted(2) assms(1-4) by simp
  next
    case (LimitOp q n)
    then show ?thesis using assms(5) by simp
  next
    case (SweepOp now)
    then show ?thesis using narrow Store_sweep_narrows sweep_names_ok assms(2,3) by simp
  qed (use narrow Pseudonym_narrows RealHost_narrows assms(2,3) in simp_all)
  then show "store_wf (topo_step ord s op)" and "names_ok (topo_step ord s op)" and "budgeted P (topo_step ord s op)" by auto
qed

lemma topo_step_keeps:
  assumes "visits_all ord" and "store_wf s" and "names_ok s" and "budgeted P s" and "foreign_op P p k op"
    and "tbl s k = Some e" and "tePartner e = p" and "\<forall>t. topo_time op = Some t \<longrightarrow> t < teExpiresAt e"
  shows "tbl (topo_step ord s op) k = Some e"
proof (cases op)
  case (PutOp now q n h x ttl)
  then show ?thesis using Put_keeps [OF assms(2,4) _ assms(1,6)] assms(5,7) by auto
next
  case (PseudonymOp now h x)
  have "tbl (expireLocked e' s) k = Some e" if "tbl s k' = Some e'" "teExpiresAt e' \<le> now" for k' e'
    using that removeLocked_keeps [OF assms(6)] store_wf_key [OF assms(2)] assms(6,8) PseudonymOp by force
  then show ?thesis using assms(6) by (simp add: PseudonymOp Pseudonym_def touchLocked_views(3) split: option.split)
next
  case (RealHostOp now n)
  have "tbl (expireLocked e' s) k = Some e" if "tbl s k' = Some e'" "teExpiresAt e' \<le> now" for k' e'
    using that removeLocked_keeps [OF assms(6)] store_wf_key [OF assms(2)] assms(6,8) RealHostOp by force
  then show ?thesis using assms(6) by (simp add: RealHostOp RealHost_def Let_def touchLocked_views(3) split: option.split)
next
  case (SweepOp now)
  have "now < teExpiresAt e'" if e': "e' \<in> set (concat (map (lru \<circ> snd) (buckets s)))" "teKey e' = k" for e'
  proof -
    obtain q where "e' \<in> set (lruOf s q)" using e'(1) unfolding bucket_lists [OF assms(3) [unfolded names_ok_def]] by auto
    then have "e' = e" using store_wf_entry [OF assms(2)] e'(2) assms(6) by auto
    then show ?thesis using assms(8) SweepOp by simp
  qed
  then show ?thesis unfolding SweepOp topo_step.simps Store_sweep_def by (intro sweep_keeps assms(6)) blast
next
  case (LimitOp q n)
  then show ?thesis using assms(5) by simp
qed

text \<open>While others use the store, an entry stays until its lifetime is over.\<close>

lemma foreign_ops_keep:
  assumes "visits_all ord" and "store_wf s" and "names_ok s" and "budgeted P s" and "list_all (foreign_op P p k) ops"
    and "tbl s k = Some e" and "tePartner e = p" and "\<forall>op \<in> set ops. \<forall>t. topo_time op = Some t \<longrightarrow> t < teExpiresAt e"
  shows "tbl (foldl (topo_step ord) s ops) k = Some e"
  using assms(2-6,8)
proof (induction ops arbitrary: s)
  case (Cons op ops)
  have op: "foreign_op P p k op" using Cons.prems(4) by simp
  note step = topo_step_budgeted [OF assms(1) Cons.prems(1-3) foreign_within [OF op]]
  have "tbl (topo_step ord s op) k = Some e"
    using Cons.prems(6) by (intro topo_step_keeps [OF assms(1) Cons.prems(1-3) op Cons.prems(5) assms(7)]) simp
  with Cons.IH [OF step] Cons.prems show ?case by simp
qed simp

lemma budgeted_ops:
  assumes "visits_all ord" and "store_wf s" and "names_ok s" and "budgeted P s"
    and "list_all (in_budget P) ops"
  shows "store_wf (foldl (topo_step ord) s ops) \<and> names_ok (foldl (topo_step ord) s ops) \<and> budgeted P (foldl (topo_step ord) s ops)"
  using assms(2-5)
proof (induction ops arbitrary: s)
  case (Cons op ops)
  have "in_budget P op" using Cons.prems(4) by simp
  note step = topo_step_budgeted [OF assms(1) Cons.prems(1-3) this]
  from Cons.IH [OF step] Cons.prems(4) show ?case by simp
qed simp

end
