(* ===== verification/Topo_Hide_Properties.thy ===== *)
theory Topo_Hide_Properties
  imports Topo_Hide Topo_Store_Properties Edge_Properties Router_Properties
begin

text \<open>
  What topology hiding guarantees: the identities that leave toward a partner, the way back from a pseudonym to its host,
  partners that do not recycle each other's pseudonyms; and what goes wrong when a request is masked twice or when the
  edge identity is not the node's own.
\<close>

section \<open>The pass over the AVPs\<close>

text \<open>What decides which identities are internal is not touched by hiding.\<close>

definition same_view :: "topoHide \<Rightarrow> topoHide \<Rightarrow> bool" where
  "same_view e e' \<longleftrightarrow> thReg e' = thReg e \<and> thIdentity e' = thIdentity e \<and> thRealm e' = thRealm e \<and> thEnabled e' = thEnabled e"

lemma mustMask_view: "same_view e e' \<Longrightarrow> mustMask e' = mustMask e"
  by (simp add: mustMask_def isInternal_def same_view_def fun_eq_iff cong: option.case_cong if_cong)

lemma mustMask_edge [simp]: "\<not> mustMask e edge edge"
  by (simp add: mustMask_def)

lemma mask_view: "mask v host session q s e = (x, s', e') \<Longrightarrow> same_view e e'"
  by (auto simp: mask_def Let_def newPseudonym_def same_view_def split: if_splits option.splits prod.splits)

lemma mask_not_stateful: "thMode (ptTopologyHiding q) \<noteq> TopoHideStateful \<Longrightarrow> mask v host session q s e = (thEdgeIdentity (ptTopologyHiding q), s, e)"
  by (simp add: mask_def)

lemma groupedChildren_head: "aCode (fst (groupedChildren a)) = aCode a \<and> aVendorID (fst (groupedChildren a)) = aVendorID a"
  by (auto simp: groupedChildren_def DecodeGrouped_def split: sum.split avp.split)

text \<open>One AVP: its code and vendor stay, and what stays of it is not internal.\<close>

definition settled :: "topoHide \<Rightarrow> PartnerConfig \<Rightarrow> avp \<Rightarrow> bool" where
  "settled e q a \<longleftrightarrow> (let th = ptTopologyHiding q; host = string_of_bytes (aData a) in
     (aCode a = AVPCodeOriginHost \<and> thMode th \<noteq> TopoHideStateful \<longrightarrow> \<not> mustMask e host (thEdgeIdentity th)) \<and>
     (aCode a = AVPCodeErrorReportingHost \<and> hideFlag (thHideErrorReportingHost th) \<longrightarrow> \<not> mustMask e host (thEdgeIdentity th)) \<and>
     (aCode a = AVPCodeRouteRecord \<and> hideFlag (thHideRouteRecords th) \<longrightarrow> \<not> mustMask e host (thEdgeIdentity th)) \<and>
     (aCode a = AVPCodeHostIPAddress \<longrightarrow> \<not> hideFlag (thHideHostIPAddress th)) \<and>
     (aCode a = AVPCodeOriginStateID \<longrightarrow> \<not> hideFlag (thHideOriginStateID th)))"

lemma hide_avp_view:
  assumes "hide_avp v q session a h = (a', r, h')"
  shows "same_view (hsExt h) (hsExt h')" and "aCode a' = aCode a" and "aVendorID a' = aVendorID a"
proof -
  show "same_view (hsExt h) (hsExt h')"
    using assms mask_view by (auto simp: hide_avp_def Let_def same_view_def split: if_splits prod.splits)
  show "aCode a' = aCode a" "aVendorID a' = aVendorID a"
    using assms groupedChildren_head [of a]
    by (auto simp: hide_avp_def Let_def proxyInfoIsInternal_def split_beta split: if_splits)
qed

lemma hide_avp_settled:
  assumes "hide_avp v q session a h = (a', False, h')" shows "settled (hsExt h) q a'"
  using assms hide_avp_view(2) [OF assms] mask_not_stateful
  by (auto simp: hide_avp_def settled_def Let_def split_beta split: if_splits)

lemma hide_avps_settled:
  assumes "hide_avps v q session as h = (as', h')"
  shows "same_view (hsExt h) (hsExt h')" and "\<forall>a \<in> set as'. settled (hsExt h) q a"
proof -
  have "same_view (hsExt h) (hsExt h') \<and> (\<forall>a \<in> set as'. settled (hsExt h) q a)"
    using assms
  proof (induction as arbitrary: h as')
    case Nil
    then show ?case by (simp add: same_view_def)
  next
    case (Cons a as)
    obtain a1 r h1 where one: "hide_avp v q session a h = (a1, r, h1)" by (metis prod_cases3)
    note V = hide_avp_view(1) [OF one]
    have settled_view: "settled e' q = settled e q" if "same_view e e'" for e e'
      using mustMask_view [OF that] by (simp add: settled_def fun_eq_iff)
    show ?case
    proof (cases "r \<or> selects (thScrubAVPs (ptTopologyHiding q)) a1")
      case True
      let ?h = "h1\<lparr>hsChanged := True, hsExt := (hsExt h1)\<lparr>thScrubbed := thScrubbed (hsExt h1) + 1\<rparr>\<rparr>"
      have rest: "hide_avps v q session as ?h = (as', h')" using Cons.prems True by (auto simp: one)
      have "same_view (hsExt h) (hsExt ?h)" using V by (simp add: same_view_def)
      with Cons.IH [OF rest] settled_view [OF this] show ?thesis by (simp add: same_view_def)
    next
      case False
      then obtain bs where rest: "hide_avps v q session as h1 = (bs, h')" and as': "as' = a1 # bs"
        using Cons.prems by (auto simp: one split: prod.splits)
      have "settled (hsExt h) q a1" using hide_avp_settled one False by simp
      with Cons.IH [OF rest] settled_view [OF V] V show ?thesis by (simp add: as' same_view_def)
    qed
  qed
  then show "same_view (hsExt h) (hsExt h')" and "\<forall>a \<in> set as'. settled (hsExt h) q a" by auto
qed

lemma update_first_in: "x \<in> set (update_first P f xs) \<Longrightarrow> x \<in> set xs \<or> (\<exists>y \<in> set xs. P y \<and> x = f y)"
  by (induction xs) (auto split: if_splits)

lemma hide_realm_settled:
  assumes "hide_realm th m = (m', c)" and "\<forall>a \<in> set (AVPs m). settled e q a"
  shows "\<forall>a \<in> set (AVPs m'). settled e q a" and "IsRequest m' = IsRequest m"
proof -
  have "settled e q (set_Data a d)" if "avp_matches AVPCodeOriginRealm 0 a" for a d
    using that by (auto simp: settled_def Let_def avp_matches_def)
  then show "\<forall>a \<in> set (AVPs m'). settled e q a"
    using assms by (auto simp: hide_realm_def Let_def split: option.splits if_splits dest!: update_first_in)
  show "IsRequest m' = IsRequest m"
    using assms(1) by (auto simp: hide_realm_def Let_def IsRequest_def split: option.splits if_splits)
qed

lemma hide_settled:
  assumes "hide v m q s e = (m', c, s', e')"
  shows "same_view e e'" and "\<forall>a \<in> set (AVPs m'). settled e q a" and "IsRequest m' = IsRequest m"
    and "hideFlag (thHideRouteRecords (ptTopologyHiding q)) \<and> IsRequest m \<Longrightarrow> hasRouteRecord m' (thEdgeIdentity (ptTopologyHiding q))"
proof -
  let ?th = "ptTopologyHiding q" and ?x = "case GetSessionID m of None \<Rightarrow> '''' | Some x \<Rightarrow> x"
  let ?rr = "NewDiameterIdentityAVP AVPCodeRouteRecord AVPFlagMandatory (thEdgeIdentity ?th)"
  obtain as h where pass: "hide_avps v q ?x (AVPs m) \<lparr>hsStore = s, hsExt = e, hsChanged = False, hsMasked = False\<rparr> = (as, h)"
    by (metis prod.exhaust)
  note P = hide_avps_settled [OF pass, simplified]
  obtain m1 c1 where m1: "(if hsMasked h \<and> hideFlag (thHideOriginRealm ?th) then hide_realm ?th (m\<lparr>AVPs := as\<rparr>) else (m\<lparr>AVPs := as\<rparr>, False)) = (m1, c1)"
    by (metis prod.exhaust)
  have S1: "\<forall>a \<in> set (AVPs m1). settled e q a" and R1: "IsRequest m1 = IsRequest m"
    using m1 P(2) hide_realm_settled [of ?th "m\<lparr>AVPs := as\<rparr>" m1 c1 e q] by (auto simp: IsRequest_def split: if_splits)
  have rr: "aCode ?rr = AVPCodeRouteRecord" "string_of_bytes (aData ?rr) = thEdgeIdentity ?th"
    by (simp_all add: NewDiameterIdentityAVP_def NewUTF8StringAVP_def NewAVP_def)
  have m': "m' = (if hideFlag (thHideRouteRecords ?th) \<and> IsRequest m1 \<and> \<not> hasRouteRecord m1 (thEdgeIdentity ?th) then AddAVP m1 ?rr else m1)"
    and e': "e' = hsExt h"
    using assms m1 by (auto simp: hide_def Let_def pass split: if_splits)
  show "same_view e e'" using P(1) e' by simp
  have "settled e q ?rr" using rr by (simp add: settled_def Let_def)
  then show "\<forall>a \<in> set (AVPs m'). settled e q a" using S1 by (auto simp: m' AddAVP_def)
  show "IsRequest m' = IsRequest m" using R1 by (simp add: m' AddAVP_def IsRequest_def)
  have "hasRouteRecord (AddAVP m1 ?rr) (thEdgeIdentity ?th)"
    using rr by (simp add: hasRouteRecord_def AddAVP_def FindAllAVPs_def avp_matches_def)
  then show "hideFlag (thHideRouteRecords ?th) \<and> IsRequest m \<Longrightarrow> hasRouteRecord m' (thEdgeIdentity ?th)"
    using R1 by (auto simp: m')
qed

text \<open>The conditions under which the extension hides a request for a partner.\<close>

definition hides_for :: "topoHide \<Rightarrow> message \<Rightarrow> DiamID \<Rightarrow> PartnerConfig \<Rightarrow> topoStore \<Rightarrow> bool" where
  "hides_for e m x q s \<longleftrightarrow> thEnabled e \<and> IsRequest m \<and> thStore e = Some s \<and> thMode (ptTopologyHiding q) \<noteq> TopoHideNone \<and>
     (\<exists>reg. thReg e = Some reg \<and> Configured reg \<and> PartnerForPeer reg x = Some q \<and> IsExternalZone reg (ptZone q))"

lemma handlePostRoute_hides:
  assumes "hides_for e m x q s"
  shows "\<exists>c s' e'. hide v m q s e = (fst (TopoHide_handlePostRoute v m x e), c, s', e') \<and>
    thStore (snd (TopoHide_handlePostRoute v m x e)) = Some s' \<and> same_view e (snd (TopoHide_handlePostRoute v m x e)) \<and>
    thRandCalls (snd (TopoHide_handlePostRoute v m x e)) = thRandCalls e'"
proof -
  obtain m' c s' e' where h: "hide v m q s e = (m', c, s', e')" by (metis prod_cases4)
  show ?thesis
    using assms h hide_settled(1) [OF h]
    by (auto simp: hides_for_def TopoHide_handlePostRoute_def hidden_def same_view_def)
qed

section \<open>What leaves toward a partner\<close>

text \<open>
  C25: no internal identity leaves in the AVPs the extension answers for. In a request sent to a peer of a partner with
  hiding, no Route-Record and no Error-Reporting-Host names an internal node, in static mode no Origin-Host does either,
  Host-IP-Address and Origin-State-Id are gone, and the edge identity is in the Route-Record chain; unless the policy
  switches the check off.
\<close>
theorem no_internal_identity_leaves:
  assumes "hides_for e m x q s" and "TopoHide_handlePostRoute v m x e = (m', e')"
    and "th = ptTopologyHiding q" and "list_all hideFlag [thHideRouteRecords th, thHideErrorReportingHost th, thHideHostIPAddress th, thHideOriginStateID th]"
  shows "(\<forall>a \<in> set (AVPs m'). aCode a \<notin> {AVPCodeHostIPAddress, AVPCodeOriginStateID} \<and>
      (aCode a \<in> {AVPCodeRouteRecord, AVPCodeErrorReportingHost} \<or> aCode a = AVPCodeOriginHost \<and> thMode th = TopoHideStatic \<longrightarrow>
        \<not> mustMask e (string_of_bytes (aData a)) (thEdgeIdentity th))) \<and>
    hasRouteRecord m' (thEdgeIdentity th)"
proof -
  obtain c s' e1 where h: "hide v m q s e = (m', c, s', e1)" using handlePostRoute_hides [OF assms(1), of v] assms(2) by auto
  have "IsRequest m" using assms(1) by (simp add: hides_for_def)
  moreover have "TopoHideStatic \<noteq> TopoHideStateful" by (simp add: TopoHideStatic_def TopoHideStateful_def)
  ultimately show ?thesis
    using hide_settled(2,4) [OF h] assms(3,4) unfolding settled_def Let_def by auto
qed

text \<open>
  The edge identity in the Route-Record chain does not serve loop detection. When the edge identity is not the node's
  own, the Route-Record the router added for itself is removed as internal, so the router does not recognise the request
  as its own when it comes back.
\<close>
theorem masked_request_escapes_loop_detection:
  assumes "hides_for e m x q s" and "TopoHide_handlePostRoute v m x e = (m', e')"
    and "thIdentity e \<noteq> ''''" and "topo_normalize (thEdgeIdentity (ptTopologyHiding q)) \<noteq> topo_normalize (thIdentity e)"
    and "hideFlag (thHideRouteRecords (ptTopologyHiding q))"
  shows "\<not> containsRouteRecord m' (thIdentity e)"
proof
  assume "containsRouteRecord m' (thIdentity e)"
  then obtain a where a: "a \<in> set (AVPs m')" "aCode a = AVPCodeRouteRecord" "string_of_bytes (aData a) = thIdentity e"
    by (auto simp: containsRouteRecord_def FindAllAVPs_def avp_matches_def GetDiameterIdentity_def list_ex_iff split: if_splits)
  obtain c s' e1 where h: "hide v m q s e = (m', c, s', e1)" using handlePostRoute_hides [OF assms(1), of v] assms(2) by auto
  have "mustMask e (thIdentity e) (thEdgeIdentity (ptTopologyHiding q))"
    using assms(3,4) by (simp add: mustMask_def isInternal_def)
  moreover have "settled e q a" using hide_settled(2) [OF h] a(1) by blast
  ultimately show False using a(2,3) assms(5) by (simp add: settled_def Let_def)
qed

section \<open>Pseudonyms\<close>

definition single_origin :: "message \<Rightarrow> avp \<Rightarrow> bool" where
  "single_origin m a \<longleftrightarrow> filter (\<lambda>b. aCode b = AVPCodeOriginHost) (AVPs m) = [a]"

lemma hide_avp_other: "aCode a \<noteq> AVPCodeOriginHost \<Longrightarrow> hide_avp v q session a h = (a', r, h') \<Longrightarrow>
  hsStore h' = hsStore h \<and> thRandCalls (hsExt h') = thRandCalls (hsExt h)"
  by (auto simp: hide_avp_def Let_def proxyInfoIsInternal_def split_beta split: if_splits)

text \<open>AVPs other than the Origin-Host leave the store alone.\<close>

lemma hide_avps_others:
  assumes "\<forall>a \<in> set as. aCode a \<noteq> AVPCodeOriginHost" and "hide_avps v q session as h = (as', h')"
  shows "hsStore h' = hsStore h \<and> thRandCalls (hsExt h') = thRandCalls (hsExt h) \<and> (\<forall>a \<in> set as'. aCode a \<noteq> AVPCodeOriginHost)"
  using assms
proof (induction as arbitrary: h as')
  case (Cons a as)
  obtain a1 r h1 where one: "hide_avp v q session a h = (a1, r, h1)" by (metis prod_cases3)
  have c: "aCode a \<noteq> AVPCodeOriginHost" "\<forall>a \<in> set as. aCode a \<noteq> AVPCodeOriginHost" using Cons.prems(1) by auto
  note O = hide_avp_other [OF c(1) one] hide_avp_view(2) [OF one]
  show ?case
  proof (cases "r \<or> selects (thScrubAVPs (ptTopologyHiding q)) a1")
    case True
    let ?h = "h1\<lparr>hsChanged := True, hsExt := (hsExt h1)\<lparr>thScrubbed := thScrubbed (hsExt h1) + 1\<rparr>\<rparr>"
    have rest: "hide_avps v q session as ?h = (as', h')" using Cons.prems(2) True by (auto simp: one)
    from Cons.IH [OF c(2) rest] O show ?thesis by simp
  next
    case False
    then obtain bs where rest: "hide_avps v q session as h1 = (bs, h')" and as': "as' = a1 # bs"
      using Cons.prems(2) by (auto simp: one split: prod.splits)
    from Cons.IH [OF c(2) rest] O c(1) show ?thesis by (simp add: as')
  qed
qed simp

text \<open>The outcome of the pass for a message with one Origin-Host that must be masked.\<close>

lemma hide_avps_masks:
  assumes "filter (\<lambda>b. aCode b = AVPCodeOriginHost) as = [a]"
    and "mustMask (hsExt h) (string_of_bytes (aData a)) (thEdgeIdentity (ptTopologyHiding q))"
    and "\<not> selects (thScrubAVPs (ptTopologyHiding q)) a"
    and "hide_avps v q session as h = (as', h')"
  shows "\<exists>e x e1. thRandCalls e = thRandCalls (hsExt h) \<and>
    mask v (string_of_bytes (aData a)) session q (hsStore h) e = (x, hsStore h', e1) \<and> thRandCalls (hsExt h') = thRandCalls e1 \<and>
    filter (\<lambda>b. aCode b = AVPCodeOriginHost) as' = [set_Data a (bytes_of_string x)]"
  using assms
proof (induction as arbitrary: h as')
  case (Cons b as)
  obtain b1 r h1 where one: "hide_avp v q session b h = (b1, r, h1)" by (metis prod_cases3)
  note V = hide_avp_view [OF one]
  have sel: "selects (thScrubAVPs (ptTopologyHiding q)) b1 = selects (thScrubAVPs (ptTopologyHiding q)) b"
    using V(2,3) by (simp add: selects_def)
  show ?case
  proof (cases "aCode b = AVPCodeOriginHost")
    case True
    then have b: "b = a" "\<forall>c \<in> set as. aCode c \<noteq> AVPCodeOriginHost" using Cons.prems(1) by (auto simp: filter_empty_conv)
    obtain x s1 e1 where m: "mask v (string_of_bytes (aData a)) session q (hsStore h) (hsExt h) = (x, s1, e1)" by (metis prod_cases3)
    have h1: "b1 = set_Data a (bytes_of_string x)" "\<not> r" "hsStore h1 = s1" "hsExt h1 = e1"
      using one Cons.prems(2) True m by (auto simp: hide_avp_def Let_def b(1))
    have keep: "\<not> (r \<or> selects (thScrubAVPs (ptTopologyHiding q)) b1)" using h1(2) sel Cons.prems(3) b(1) by simp
    obtain bs where rest: "hide_avps v q session as h1 = (bs, h')" and as': "as' = b1 # bs"
      using Cons.prems(4) keep unfolding hide_avps.simps one by (auto split: prod.splits)
    note O = hide_avps_others [OF b(2) rest]
    then have "filter (\<lambda>b. aCode b = AVPCodeOriginHost) as' = [b1]" using h1(1) True b(1) by (simp add: as' filter_empty_conv)
    then show ?thesis using m O h1 by (intro exI [of _ "hsExt h"] exI [of _ x] exI [of _ e1]) simp
  next
    case False
    have as: "filter (\<lambda>b. aCode b = AVPCodeOriginHost) as = [a]" using Cons.prems(1) False by simp
    note O = hide_avp_other [OF False one]
    have mm: "mustMask (hsExt h1) (string_of_bytes (aData a)) (thEdgeIdentity (ptTopologyHiding q))"
      using Cons.prems(2) mustMask_view [OF V(1)] by simp
    show ?thesis
    proof (cases "r \<or> selects (thScrubAVPs (ptTopologyHiding q)) b1")
      case True
      let ?h = "h1\<lparr>hsChanged := True, hsExt := (hsExt h1)\<lparr>thScrubbed := thScrubbed (hsExt h1) + 1\<rparr>\<rparr>"
      have rest: "hide_avps v q session as ?h = (as', h')" using Cons.prems(4) True by (auto simp: one)
      have "mustMask (hsExt ?h) (string_of_bytes (aData a)) (thEdgeIdentity (ptTopologyHiding q))"
        using mm mustMask_view [of "hsExt h1" "hsExt ?h"] by (simp add: same_view_def)
      from Cons.IH [OF as this Cons.prems(3) rest] O show ?thesis by simp
    next
      case False2: False
      then obtain bs where rest: "hide_avps v q session as h1 = (bs, h')" and as': "as' = b1 # bs"
        using Cons.prems(4) by (auto simp: one split: prod.splits)
      from Cons.IH [OF as mm Cons.prems(3) rest] O V(2) False show ?thesis by (simp add: as')
    qed
  qed
qed simp

lemma single_origin_simps:
  "single_origin (m\<lparr>AVPs := as\<rparr>) a \<longleftrightarrow> filter (\<lambda>b. aCode b = AVPCodeOriginHost) as = [a]"
  "aCode b \<noteq> AVPCodeOriginHost \<Longrightarrow> single_origin (AddAVP m b) a = single_origin m a"
  by (simp_all add: single_origin_def AddAVP_def)

lemma filter_update_first: "(\<And>x. P x \<Longrightarrow> \<not> Q x \<and> \<not> Q (f x)) \<Longrightarrow> filter Q (update_first P f xs) = filter Q xs"
  by (induction xs) auto

lemma hide_realm_origin: "hide_realm th m = (m', c) \<Longrightarrow> single_origin m' a = single_origin m a"
proof -
  have "filter (\<lambda>b. aCode b = AVPCodeOriginHost) (update_first (avp_matches AVPCodeOriginRealm 0) (\<lambda>a. set_Data a d) xs) =
      filter (\<lambda>b. aCode b = AVPCodeOriginHost) xs" for d xs
    by (rule filter_update_first) (auto simp: avp_matches_def)
  then show "hide_realm th m = (m', c) \<Longrightarrow> single_origin m' a = single_origin m a"
    by (auto simp: hide_realm_def Let_def single_origin_def split: option.splits if_splits)
qed

lemma single_origin_host: "single_origin m a \<Longrightarrow> GetOriginHost m = Some (string_of_bytes (aData a))"
proof -
  have find: "filter P xs = [y] \<Longrightarrow> List.find P xs = Some y" for P :: "avp \<Rightarrow> bool" and xs y
    by (induction xs) (auto split: if_splits)
  assume "single_origin m a"
  then have "List.find (avp_matches AVPCodeOriginHost 0) (AVPs m) = Some a"
    unfolding single_origin_def avp_matches_def by (intro find) simp
  then show ?thesis by (simp add: GetOriginHost_def identity_of_def FindAVP_def GetDiameterIdentity_def)
qed

text \<open>The session a message belongs to, as the store sees it.\<close>

definition scope :: "message \<Rightarrow> string" where
  "scope m = (case GetSessionID m of None \<Rightarrow> '''' | Some x \<Rightarrow> x)"

lemma hide_masks:
  assumes "single_origin m a" and "mustMask e (string_of_bytes (aData a)) (thEdgeIdentity (ptTopologyHiding q))"
    and "\<not> selects (thScrubAVPs (ptTopologyHiding q)) a" and "hide v m q s e = (m', c, s', e')"
  shows "\<exists>e0 x e1. thRandCalls e0 = thRandCalls e \<and> mask v (string_of_bytes (aData a)) (scope m) q s e0 = (x, s', e1) \<and>
    thRandCalls e' = thRandCalls e1 \<and> single_origin m' (set_Data a (bytes_of_string x))"
proof -
  let ?th = "ptTopologyHiding q"
  obtain as h where pass: "hide_avps v q (scope m) (AVPs m) \<lparr>hsStore = s, hsExt = e, hsChanged = False, hsMasked = False\<rparr> = (as, h)"
    by (metis prod.exhaust)
  have out: "hsStore h = s'" "hsExt h = e'" using assms(4) pass by (auto simp: hide_def scope_def Let_def split_beta)
  from hide_avps_masks [OF assms(1) [unfolded single_origin_def] _ assms(3) pass] assms(2)
  obtain e0 x e1 where M: "thRandCalls e0 = thRandCalls e" "mask v (string_of_bytes (aData a)) (scope m) q s e0 = (x, s', e1)"
    "thRandCalls e' = thRandCalls e1" "filter (\<lambda>b. aCode b = AVPCodeOriginHost) as = [set_Data a (bytes_of_string x)]"
    by (auto simp: out)
  obtain m1 c1 where m1: "(if hsMasked h \<and> hideFlag (thHideOriginRealm ?th) then hide_realm ?th (m\<lparr>AVPs := as\<rparr>) else (m\<lparr>AVPs := as\<rparr>, False)) = (m1, c1)"
    by (metis prod.exhaust)
  let ?a = "set_Data a (bytes_of_string x)"
  have "single_origin m1 ?a"
    using m1 M(4) hide_realm_origin [of ?th "m\<lparr>AVPs := as\<rparr>" m1 c1 ?a] by (auto simp: single_origin_simps split: if_splits)
  moreover have "m' = (if hideFlag (thHideRouteRecords ?th) \<and> IsRequest m1 \<and> \<not> hasRouteRecord m1 (thEdgeIdentity ?th)
      then AddAVP m1 (NewDiameterIdentityAVP AVPCodeRouteRecord AVPFlagMandatory (thEdgeIdentity ?th)) else m1)"
    using assms(4) m1 by (auto simp: hide_def Let_def pass [unfolded scope_def] split: if_splits)
  ultimately have "single_origin m' ?a"
    by (simp add: single_origin_simps NewDiameterIdentityAVP_def NewUTF8StringAVP_def NewAVP_def)
  with M show ?thesis by blast
qed

lemma mask_fresh:
  assumes "thMode (ptTopologyHiding q) = TopoHideStateful" and "forward_index s (forwardKey host session) = None"
    and "trand v (thRandCalls e) = Some bs"
  shows "\<exists>e'. mask v host session q s e = (pseudonym_of (ptTopologyHiding q) bs,
    PutPseudonym (tnow v) (tord v) (ptName q) (pseudonym_of (ptTopologyHiding q) bs) host session (topo_ttl q) s, e') \<and>
    thRandCalls e' = thRandCalls e + 1"
  using assms by (simp add: mask_def Let_def Pseudonym_def newPseudonym_def)

text \<open>
  A request of an internal host that gets a new pseudonym: the state of the store, the policy, the message, and the
  random bytes it draws.
\<close>

definition masking :: "topo_env \<Rightarrow> string set \<Rightarrow> topoHide \<Rightarrow> message \<Rightarrow> DiamID \<Rightarrow> PartnerConfig \<Rightarrow> topoStore \<Rightarrow> string \<Rightarrow> string \<Rightarrow> bool" where
  "masking v P e m x q s host pseud \<longleftrightarrow> hides_for e m x q s \<and> thMode (ptTopologyHiding q) = TopoHideStateful \<and>
     visits_all (tord v) \<and> store_wf s \<and> budgeted P s \<and> (ptName q \<in> P \<or> maxEntries s \<le> 0) \<and>
     (\<exists>a. single_origin m a \<and> string_of_bytes (aData a) = host \<and> \<not> selects (thScrubAVPs (ptTopologyHiding q)) a) \<and>
     mustMask e host (thEdgeIdentity (ptTopologyHiding q)) \<and> forward_index s (forwardKey host (scope m)) = None \<and>
     (\<exists>bs. trand v (thRandCalls e) = Some bs \<and> pseud = pseudonym_of (ptTopologyHiding q) bs)"

lemma masking_result:
  assumes "masking v P e m x q s host pseud" and "TopoHide_handlePostRoute v m x e = (m', e')"
  shows "GetOriginHost m' = Some pseud" and "same_view e e'"
    and "thStore e' = Some (PutPseudonym (tnow v) (tord v) (ptName q) pseud host (scope m) (topo_ttl q) s)"
    and "\<exists>a. single_origin m' a \<and> string_of_bytes (aData a) = pseud \<and> \<not> selects (thScrubAVPs (ptTopologyHiding q)) a"
    and "IsRequest m'"
proof -
  obtain a bs where h: "hides_for e m x q s" and st: "thMode (ptTopologyHiding q) = TopoHideStateful"
    and a: "single_origin m a" "string_of_bytes (aData a) = host" "\<not> selects (thScrubAVPs (ptTopologyHiding q)) a"
    and mm: "mustMask e host (thEdgeIdentity (ptTopologyHiding q))" and f: "forward_index s (forwardKey host (scope m)) = None"
    and r: "trand v (thRandCalls e) = Some bs" "pseud = pseudonym_of (ptTopologyHiding q) bs"
    using assms(1) by (auto simp: masking_def)
  obtain c s' e1 where hd: "hide v m q s e = (m', c, s', e1)" and s': "thStore e' = Some s'" and view: "same_view e e'"
    using handlePostRoute_hides [OF h, of v] assms(2) by auto
  obtain e0 y e2 where M: "thRandCalls e0 = thRandCalls e" "mask v host (scope m) q s e0 = (y, s', e2)" "single_origin m' (set_Data a (bytes_of_string y))"
    using hide_masks [OF a(1) _ a(3) hd] a(2) mm by auto
  from mask_fresh [OF st f, of v e0 bs] M(1,2) r have y: "y = pseud" "s' = PutPseudonym (tnow v) (tord v) (ptName q) pseud host (scope m) (topo_ttl q) s"
    by auto
  have "\<not> selects (thScrubAVPs (ptTopologyHiding q)) (set_Data a (bytes_of_string y))" using a(3) by (simp add: selects_def)
  then show "\<exists>a. single_origin m' a \<and> string_of_bytes (aData a) = pseud \<and> \<not> selects (thScrubAVPs (ptTopologyHiding q)) a"
    using M(3) y(1) by auto
  show "IsRequest m'" using hide_settled(3) [OF hd] h by (simp add: hides_for_def)
  show "GetOriginHost m' = Some pseud" using single_origin_host [OF M(3)] y(1) by simp
  show "same_view e e'" by (rule view)
  show "thStore e' = Some (PutPseudonym (tnow v) (tord v) (ptName q) pseud host (scope m) (topo_ttl q) s)" using s' y(2) by simp
qed

text \<open>What a request with a Destination-Host becomes.\<close>

lemma handleIn_restores:
  assumes "thEnabled e" "thReg e = Some reg" "Configured reg" "thStore e = Some s" "IsRequest m"
    and "GetDestinationHost m = Some n" and "topo_normalize n \<noteq> ''''" and "fst (RealHost (tnow v) (topo_normalize n) s) = Some host"
  shows "GetDestinationHost (fst (TopoHide_handleIn v r (Some p) m e)) = Some host"
proof -
  obtain a where a: "FindAVP m AVPCodeDestinationHost 0 = Some a" "n = string_of_bytes (aData a)"
    using assms(6) by (auto simp: GetDestinationHost_def identity_of_def GetDiameterIdentity_def)
  obtain s' where s': "RealHost (tnow v) (topo_normalize n) s = (Some host, s')" using assms(8) by (cases "RealHost (tnow v) (topo_normalize n) s") auto
  have "fst (restoreDestinationHost v m s e) =
      m\<lparr>AVPs := update_first (avp_matches AVPCodeDestinationHost 0) (\<lambda>a. set_Data a (bytes_of_string host)) (AVPs m)\<rparr>"
    unfolding restoreDestinationHost_def a(1) using assms(7) s' by (simp add: a(2))
  then show ?thesis
    using assms(1-5) a(1) by (simp add: TopoHide_handleIn_def split_beta GetDestinationHost_def identity_of_def FindAVP_def GetDiameterIdentity_def)
qed

lemma put_budgeted:
  assumes "visits_all ord" and "store_wf s" and "budgeted P s" and "p \<in> P \<or> maxEntries s \<le> 0" and "names_ok s"
  shows "store_wf (PutPseudonym now ord p n h x ttl s)" and "names_ok (PutPseudonym now ord p n h x ttl s)"
    and "budgeted P (PutPseudonym now ord p n h x ttl s)"
proof -
  show "store_wf (PutPseudonym now ord p n h x ttl s)" "names_ok (PutPseudonym now ord p n h x ttl s)"
    using PutPseudonym_wf(1) [OF assms(2,1)] assms(5) by simp_all
  show "budgeted P (PutPseudonym now ord p n h x ttl s)"
  proof (cases "p \<in> P")
    case True
    then show ?thesis using topo_step_budgeted(3) [OF assms(1,2,5,3), of "PutOp now p n h x ttl"] by simp
  next
    case False
    then show ?thesis using assms(4) PutPseudonym_wf(2) [OF assms(2,1)] by (simp add: budgeted_def)
  qed
qed

text \<open>
  C26: the way back. When a request of an internal host was masked once, with a new pseudonym, a request of the partner that names the
  pseudonym as its Destination-Host, in any spelling and before the pseudonym's lifetime is over, is directed to the host. Meanwhile any
  number of lookups and sweeps may happen, and any number of pseudonyms be given out to other partners within a budget that has
  room for all of them; only the partner's own further pseudonyms could evict this one. (A message masked twice loses its host, and a
  pseudonym handed out again keeps its first expiry.)
\<close>
theorem masked_host_restored:
  assumes "masking v P e m x q s host pseud" and "TopoHide_handlePostRoute v m x e = (m', e')"
    and "topo_normalize pseud = pseud" and "pseud \<noteq> ''''"
    and "names_ok s" and "visits_all ord" and "list_all (foreign_op P (ptName q) pseud) later"
    and "\<forall>op \<in> set later. \<forall>t. topo_time op = Some t \<longrightarrow> t < tnow v + topo_ttl q"
    and "thStore e' = Some s1" and "e2 = e'\<lparr>thStore := Some (foldl (topo_step ord) s1 later)\<rparr>"
    and "IsRequest m2" and "GetDestinationHost m2 = Some n" and "topo_normalize n = pseud" and "tnow v2 < tnow v + topo_ttl q"
  shows "GetOriginHost m' = Some pseud \<and> GetDestinationHost (fst (TopoHide_handleIn v2 r (Some p) m2 e2)) = Some host"
proof -
  note R = masking_result [OF assms(1,2)]
  obtain reg where e: "thEnabled e" "thReg e = Some reg" "Configured reg" using assms(1) by (auto simp: masking_def hides_for_def)
  have ok: "visits_all (tord v)" "store_wf s" "budgeted P s" "ptName q \<in> P \<or> maxEntries s \<le> 0" using assms(1) by (simp_all add: masking_def)
  have s1: "s1 = PutPseudonym (tnow v) (tord v) (ptName q) pseud host (scope m) (topo_ttl q) s" using R(3) assms(9) by simp
  have found: "tbl s1 pseud = Some (new_entry (tnow v) (ptName q) pseud host (scope m) (topo_ttl q))"
    using PutPseudonym_found [OF ok(2-4,1), of "tnow v" pseud host "scope m" "topo_ttl q"] assms(3) by (simp add: s1)
  have ok1: "store_wf s1" "names_ok s1" "budgeted P s1"
    using put_budgeted [OF ok assms(5)] by (simp_all add: s1)
  have "tbl (foldl (topo_step ord) s1 later) pseud = Some (new_entry (tnow v) (ptName q) pseud host (scope m) (topo_ttl q))"
    using foreign_ops_keep [OF assms(6) ok1 assms(7) found] assms(8) by (simp add: new_entry_def)
  then have "fst (RealHost (tnow v2) (topo_normalize n) (foldl (topo_step ord) s1 later)) = Some host"
    using assms(3,13,14) by (simp add: RealHost_tbl new_entry_def)
  then have "GetDestinationHost (fst (TopoHide_handleIn v2 r (Some p) m2 e2)) = Some host"
    using e R(2) assms(4,10-13) by (intro handleIn_restores) (auto simp: same_view_def)
  with R(1) show ?thesis by simp
qed

text \<open>
  Masking twice loses the host. When the first peer of a partner cannot be reached, the router selects another one
  and calls the post-route handlers again with the message as they left it; a pseudonym in the node's own realm is internal
  and is masked again, and what the partner sends to the second pseudonym is directed to the first one instead of the host.
\<close>
theorem masked_twice_loses_host:
  assumes "masking v P e m x q s host pseud" and "TopoHide_handlePostRoute v m x e = (m1, e1)"
    and "masking v1 P e1 m1 y q s1 pseud pseud2" and "TopoHide_handlePostRoute v1 m1 y e1 = (m2, e2)"
    and "topo_normalize pseud2 = pseud2" and "pseud2 \<noteq> ''''" and "pseud \<noteq> host"
    and "IsRequest m3" and "GetDestinationHost m3 = Some n" and "topo_normalize n = pseud2" and "tnow v2 < tnow v1 + topo_ttl q"
  shows "GetOriginHost m2 = Some pseud2 \<and> GetDestinationHost (fst (TopoHide_handleIn v2 r (Some p) m3 e2)) = Some pseud \<and> pseud \<noteq> host"
proof -
  note R = masking_result [OF assms(3,4)]
  obtain reg where e: "thEnabled e1" "thReg e1 = Some reg" "Configured reg" using assms(3) by (auto simp: masking_def hides_for_def)
  have ok: "visits_all (tord v1) \<and> store_wf s1 \<and> budgeted P s1 \<and> (ptName q \<in> P \<or> maxEntries s1 \<le> 0)" using assms(3) by (simp add: masking_def)
  have "fst (RealHost (tnow v2) (topo_normalize n) (PutPseudonym (tnow v1) (tord v1) (ptName q) pseud2 pseud (scope m1) (topo_ttl q) s1)) = Some pseud"
    using masks.look_put [OF ok _ assms(11), of "topo_normalize n" pseud2 pseud "scope m1"] assms(5,10) by simp
  then have "GetDestinationHost (fst (TopoHide_handleIn v2 r (Some p) m3 e2)) = Some pseud"
    using e R(2,3) assms(6,8-10) by (intro handleIn_restores) (auto simp: same_view_def)
  with R(1) assms(7) show ?thesis by simp
qed

section \<open>Partners do not recycle each other's pseudonyms\<close>

definition hiding_names :: "NodeConfig \<Rightarrow> string set" where
  "hiding_names c = set (map ptName (filter (\<lambda>q. thMode (ptTopologyHiding q) \<noteq> TopoHideNone) (nPartners c)))"

lemma limits_fold:
  fixes qs s
  defines "t \<equiv> fold (\<lambda>q. SetPartnerLimit (ptName q) (partner_cap q)) qs s"
  shows "lruOf t = lruOf s \<and> maxEntries t = maxEntries s \<and> store_wf t = store_wf s \<and> (names_ok s \<longrightarrow> names_ok t) \<and>
    (\<forall>p. p \<notin> ptName ` set qs \<longrightarrow> bucket_limit p t = bucket_limit p s) \<and>
    (distinct (map ptName qs) \<longrightarrow> (\<forall>q \<in> set qs. bucket_limit (ptName q) t = partner_cap q))"
  unfolding t_def
proof (induction qs arbitrary: s)
  case (Cons q qs)
  show ?case using Cons.IH [of "SetPartnerLimit (ptName q) (partner_cap q) s"]
    by (auto simp: SetPartnerLimit_views SetPartnerLimit_wf)
qed simp

lemma sum_entries:
  "sum_entries n qs =
    (if \<exists>q \<in> set qs. thMode (ptTopologyHiding q) \<noteq> TopoHideNone \<and> thMaxEntries (ptTopologyHiding q) < 0 then 0
     else n + sum_list (map (\<lambda>q. thMaxEntries (ptTopologyHiding q)) (filter (\<lambda>q. thMode (ptTopologyHiding q) \<noteq> TopoHideNone) qs)))"
  by (induction n qs rule: sum_entries.induct) auto

lemma newMemoryStore_views: "lruOf (newMemoryStore n) = (\<lambda>_. [])" "maxEntries (newMemoryStore n) = n"
  by (simp_all add: newMemoryStore_def lruOf_def fun_eq_iff)

lemma initial_budget:
  assumes "distinct (map ptName (nPartners c))" and "\<forall>q \<in> set (nPartners c). thMaxEntries (ptTopologyHiding q) \<noteq> 0"
  defines "s \<equiv> set_partner_limits c (newMemoryStore (maxPartnerEntries c))"
  shows "store_wf s \<and> names_ok s \<and> budgeted (hiding_names c) s"
proof -
  let ?A = "filter (\<lambda>q. thMode (ptTopologyHiding q) \<noteq> TopoHideNone) (nPartners c)"
  note L = limits_fold [of "nPartners c" "newMemoryStore (maxPartnerEntries c)"]
  have s: "lruOf s = (\<lambda>_. [])" "maxEntries s = maxPartnerEntries c" "store_wf s" "names_ok s"
    "\<And>q. q \<in> set (nPartners c) \<Longrightarrow> bucket_limit (ptName q) s = partner_cap q"
    using L assms(1) newMemoryStore_inv [of "maxPartnerEntries c"]
    unfolding s_def set_partner_limits_def topo_inv_def by (simp_all add: newMemoryStore_views)
  have "budgeted (hiding_names c) s"
  proof (cases "\<exists>q \<in> set (nPartners c). thMode (ptTopologyHiding q) \<noteq> TopoHideNone \<and> thMaxEntries (ptTopologyHiding q) < 0")
    case True
    then have "maxPartnerEntries c = 0" unfolding maxPartnerEntries_def sum_entries by (rule if_P)
    then show ?thesis by (simp add: budgeted_def s)
  next
    case False
    then have max: "maxPartnerEntries c = sum_list (map (\<lambda>q. thMaxEntries (ptTopologyHiding q)) ?A)"
      unfolding maxPartnerEntries_def sum_entries by (simp only: if_not_P) simp
    have cap: "partner_cap q = thMaxEntries (ptTopologyHiding q)" "0 < partner_cap q" "0 \<le> partner_cap q" if "q \<in> set ?A" for q
      using False that assms(2) by (auto simp: partner_cap_def order_less_le)
    have names: "hiding_names c = ptName ` set ?A" by (simp add: hiding_names_def)
    have "distinct ?A" "inj_on ptName (set ?A)"
      using assms(1) by (auto simp: distinct_map intro: inj_on_subset)
    then have "(\<Sum>p\<in>hiding_names c. bucket_limit p s) = sum_list (map partner_cap ?A)"
      unfolding names by (subst sum.reindex) (auto simp: s(5) sum.distinct_set_conv_list [symmetric] intro!: sum.cong)
    also have "\<dots> = maxPartnerEntries c" unfolding max using cap(1) by (metis (no_types, lifting) map_eq_conv)
    finally show ?thesis using cap(2,3) s by (auto simp: budgeted_def names)
  qed
  with s show ?thesis by simp
qed

lemma TopoHide_Init_store:
  "option_or as_int cfg ''max_entries'' 0 = 0 \<Longrightarrow>
   thStore (TopoHide_Init cfg reg (Some c) newTopoHide) = Some (set_partner_limits c (newMemoryStore (maxPartnerEntries c)))"
  by (simp add: TopoHide_Init_def TopoHide_applyConfig_def newTopoHide_def store_size_def)

text \<open>
  C27: a partner's pseudonym stays valid for its whole lifetime, whatever the other partners do. With the store the
  extension sets up from a configuration, whose caps are the partners' own, no amount of pseudonyms given out to other
  partners evicts it, and neither lookups nor the sweep take it away before it expires.
\<close>
theorem partner_pseudonyms_isolated:
  assumes "distinct (map ptName (nPartners c))" and "\<forall>q \<in> set (nPartners c). thMaxEntries (ptTopologyHiding q) \<noteq> 0"
    and "option_or as_int cfg ''max_entries'' 0 = 0" and "thStore (TopoHide_Init cfg reg (Some c) newTopoHide) = Some s0"
    and "visits_all ord" and "list_all (in_budget (hiding_names c)) earlier" and "p \<in> hiding_names c"
    and "list_all (foreign_op (hiding_names c) p (topo_normalize n)) later" and "\<forall>op \<in> set later. \<forall>t'. topo_time op = Some t' \<longrightarrow> t' < t + ttl"
    and "now < t + ttl"
  shows "fst (RealHost now n (foldl (topo_step ord) s0 (earlier @ PutOp t p n h x ttl # later))) = Some h"
proof -
  let ?P = "hiding_names c"
  have s0: "s0 = set_partner_limits c (newMemoryStore (maxPartnerEntries c))" using TopoHide_Init_store [OF assms(3)] assms(4) by simp
  let ?s = "foldl (topo_step ord) s0 earlier"
  have ok: "store_wf ?s \<and> names_ok ?s \<and> budgeted ?P ?s"
    using initial_budget [OF assms(1,2)] unfolding s0 by (intro budgeted_ops [OF assms(5) _ _ _ assms(6)]) auto
  let ?s1 = "PutPseudonym t ord p n h x ttl ?s"
  have "in_budget ?P (PutOp t p n h x ttl)" using assms(7) by simp
  from topo_step_budgeted [OF assms(5) _ _ _ this, of ?s] ok have ok1: "store_wf ?s1" "names_ok ?s1" "budgeted ?P ?s1" by simp_all
  have "tbl ?s1 (topo_normalize n) = Some (new_entry t p n h x ttl)"
    using PutPseudonym_found [OF _ _ disjI1 [OF assms(7)] assms(5), of ?s] ok by simp
  from foreign_ops_keep [OF assms(5) ok1 assms(8) this] assms(9)
  have "tbl (foldl (topo_step ord) ?s1 later) (topo_normalize n) = Some (new_entry t p n h x ttl)" by simp
  then show ?thesis using assms(10) by (simp add: RealHost_tbl)
qed

section \<open>Examples\<close>

definition hiding_partner :: "string \<Rightarrow> PartnerConfig" where
  "hiding_partner mode = sample_partner\<lparr>ptTopologyHiding := (ptTopologyHiding sample_partner)\<lparr>thMode := mode,
     thEdgeIdentity := ''edge.x'', thTTL := 1000\<rparr>\<rparr>"

definition hiding_edge :: "string \<Rightarrow> registry" where
  "hiding_edge mode = emptyRegistry\<lparr>rgConfigured := True, rgZones := [''ipx'' \<mapsto> sample_zone ''ipx'' ''external''],
     partnerByPeer := [''e.c.d'' \<mapsto> hiding_partner mode, ''f.c.d'' \<mapsto> hiding_partner mode], servedExact := [''b''], rgIdentity := ''a.b''\<rparr>"

definition sample_hide :: "string \<Rightarrow> topoHide" where
  "sample_hide mode = newTopoHide\<lparr>thReg := Some (hiding_edge mode), thStore := Some (newMemoryStore 0), thIdentity := ''a.b'',
     thRealm := ''b'', thEnabled := True\<rparr>"

definition sample_topo_env :: topo_env where
  "sample_topo_env = \<lparr>tnow = 0, tord = (\<lambda>_ ps. ps), trand = (\<lambda>k. Some (replicate 8 (of_nat k)))\<rparr>"

definition inner_request :: message where
  "inner_request = (NewRequest 316 16777251)\<lparr>AVPs := [NewDiameterIdentityAVP AVPCodeOriginHost AVPFlagMandatory ''h.b'']\<rparr>"

lemma hiding_partner_simps:
  "thMode (ptTopologyHiding (hiding_partner mode)) = mode" "thEdgeIdentity (ptTopologyHiding (hiding_partner mode)) = ''edge.x''"
  "ptName (hiding_partner mode) = ''p''" "thScrubAVPs (ptTopologyHiding (hiding_partner mode)) = []" "topo_ttl (hiding_partner mode) = 1000"
  "thPseudonymPrefix (ptTopologyHiding (hiding_partner mode)) = ''th''" "thPseudonymRealm (ptTopologyHiding (hiding_partner mode)) = ''b''"
  "thHideRouteRecords (ptTopologyHiding (hiding_partner mode)) = None" "thHideErrorReportingHost (ptTopologyHiding (hiding_partner mode)) = None"
  "thHideHostIPAddress (ptTopologyHiding (hiding_partner mode)) = None" "thHideOriginStateID (ptTopologyHiding (hiding_partner mode)) = None"
  "ptZone (hiding_partner mode) = ''ipx''"
  by (simp_all add: hiding_partner_def sample_partner_def topo_ttl_def)

lemmas normalize_defs = topo_normalize_def TrimSpace_def is_space_def normalize_name_def HasSuffix_def ToLower_def lower_char_def

lemma sample_hides:
  assumes "x \<in> {''e.c.d'', ''f.c.d''}" and "mode \<noteq> TopoHideNone" and "IsRequest m"
  shows "hides_for (sample_hide mode) m x (hiding_partner mode) (newMemoryStore 0)"
  using assms by (auto simp: hides_for_def sample_hide_def hiding_partner_simps Configured_def hiding_edge_def PartnerForPeer_def
      IsExternalZone_def isExternalZoneLocked_def sample_zone_def IsExternal_def ZoneRoleExternal_def normalize_name_def HasSuffix_def
      ToLower_def lower_char_def)

lemma inner_request_simps: "IsRequest inner_request" "scope inner_request = ''''"
  by (simp_all add: inner_request_def NewRequest_def NewMessage_def IsRequest_def scope_def GetSessionID_def FindAVP_def avp_matches_def
      NewDiameterIdentityAVP_def NewUTF8StringAVP_def NewAVP_def)

theorem no_internal_identity_leaves_witness:
  "hasRouteRecord (fst (TopoHide_handlePostRoute sample_topo_env inner_request ''e.c.d'' (sample_hide TopoHideStatic))) ''edge.x''"
proof -
  have none: "hideFlag None" by (simp add: hideFlag_def)
  have mode: "TopoHideStatic \<noteq> TopoHideNone" by (simp add: TopoHideStatic_def TopoHideNone_def)
  note h = sample_hides [OF _ mode inner_request_simps(1), of "''e.c.d''"]
  show ?thesis
    using no_internal_identity_leaves [OF h, of sample_topo_env] none by (simp add: hiding_partner_simps prod_eq_iff)
qed

theorem masked_request_escapes_loop_detection_witness:
  "\<not> containsRouteRecord (fst (TopoHide_handlePostRoute sample_topo_env (AddAVP inner_request
      (NewDiameterIdentityAVP AVPCodeRouteRecord AVPFlagMandatory ''a.b'')) ''e.c.d'' (sample_hide TopoHideStatic))) ''a.b''"
proof -
  let ?m = "AddAVP inner_request (NewDiameterIdentityAVP AVPCodeRouteRecord AVPFlagMandatory ''a.b'')"
  have mode: "TopoHideStatic \<noteq> TopoHideNone" by (simp add: TopoHideStatic_def TopoHideNone_def)
  have "IsRequest ?m" using inner_request_simps(1) by (simp add: AddAVP_def IsRequest_def)
  note h = sample_hides [OF _ mode this, of "''e.c.d''"]
  have id: "thIdentity (sample_hide TopoHideStatic) = ''a.b''" by (simp add: sample_hide_def)
  have norm: "topo_normalize ''edge.x'' \<noteq> topo_normalize ''a.b''" by (simp add: normalize_defs)
  show ?thesis
    using masked_request_escapes_loop_detection [OF h, of sample_topo_env] norm unfolding id hiding_partner_simps
    by (simp add: prod_eq_iff hideFlag_def)
qed

definition first_pseudonym :: string where "first_pseudonym = ''th0000000000000000.b''"

definition sent_request :: "message \<times> topoHide" where
  "sent_request = TopoHide_handlePostRoute sample_topo_env inner_request ''e.c.d'' (sample_hide TopoHideStateful)"

definition back_request :: message where
  "back_request = (NewRequest 316 16777251)\<lparr>AVPs := [NewDiameterIdentityAVP AVPCodeDestinationHost AVPFlagMandatory ''TH0000000000000000.b'']\<rparr>"

lemma back_request_simps: "IsRequest back_request" "GetDestinationHost back_request = Some ''TH0000000000000000.b''"
  by (simp_all add: back_request_def NewRequest_def NewMessage_def IsRequest_def GetDestinationHost_def identity_of_def FindAVP_def avp_matches_def
      NewDiameterIdentityAVP_def NewUTF8StringAVP_def NewAVP_def GetDiameterIdentity_def)

lemma pseudonym_simps:
  "pseudonym_of (ptTopologyHiding (hiding_partner mode)) (replicate 8 0) = first_pseudonym"
  "topo_normalize first_pseudonym = first_pseudonym" "topo_normalize ''TH0000000000000000.b'' = first_pseudonym" "first_pseudonym \<noteq> ''''"
proof -
  have "topo_normalize ''th'' @ EncodeToString (replicate 8 0) @ ''.'' @ topo_normalize ''b'' = first_pseudonym" by code_simp
  then show "pseudonym_of (ptTopologyHiding (hiding_partner mode)) (replicate 8 0) = first_pseudonym"
    by (simp add: pseudonym_of_def hiding_partner_simps)
  show "topo_normalize first_pseudonym = first_pseudonym" "topo_normalize ''TH0000000000000000.b'' = first_pseudonym" "first_pseudonym \<noteq> ''''"
    by code_simp+
qed

lemma sample_internal_names:
  "topo_normalize ''h.b'' = ''h.b''" "topo_normalize ''a.b'' = ''a.b''" "topo_normalize ''edge.x'' = ''edge.x''"
  "normalize_name ''h.b'' = ''h.b''" "normalize_name ''a.b'' = ''a.b''" "normalize_name first_pseudonym = first_pseudonym"
  "hostRealm ''h.b'' = ''b''" "hostRealm first_pseudonym = ''b''"
  "first_pseudonym \<notin> {''edge.x'', ''a.b'', ''h.b'', ''e.c.d'', ''f.c.d'', ''''}"
  by code_simp+

lemma sample_masked:
  assumes "y = first_pseudonym \<or> y = ''h.b''"
  shows "mustMask (sample_hide mode) y ''edge.x''"
proof -
  have n: "topo_normalize y = y" "normalize_name y = y" "hostRealm y = ''b''" "y \<notin> {''edge.x'', ''a.b'', ''e.c.d'', ''f.c.d'', ''''}"
    using assms sample_internal_names pseudonym_simps(2) by auto
  then show ?thesis
    by (simp add: mustMask_def isInternal_def sample_hide_def hiding_edge_def Configured_def IsInternalHost_def Let_def sample_internal_names
        hostInServedRealmLocked_def emptyRegistry_def)
qed

lemma sample_masking:
  "masking sample_topo_env {} (sample_hide TopoHideStateful) inner_request ''e.c.d'' (hiding_partner TopoHideStateful) (newMemoryStore 0)
     ''h.b'' first_pseudonym"
proof -
  have mode: "TopoHideStateful \<noteq> TopoHideNone" by (simp add: TopoHideStateful_def TopoHideNone_def)
  have a: "\<exists>a. single_origin inner_request a \<and> string_of_bytes (aData a) = ''h.b'' \<and> \<not> selects [] a"
    by (simp add: single_origin_def inner_request_def NewDiameterIdentityAVP_def NewUTF8StringAVP_def NewAVP_def selects_def)
  have "trand sample_topo_env (thRandCalls (sample_hide TopoHideStateful)) = Some (replicate 8 0)"
    by (simp add: sample_hide_def newTopoHide_def sample_topo_env_def)
  then have r: "\<exists>bs. trand sample_topo_env (thRandCalls (sample_hide TopoHideStateful)) = Some bs \<and>
      first_pseudonym = pseudonym_of (ptTopologyHiding (hiding_partner TopoHideStateful)) bs"
    using pseudonym_simps(1) by metis
  have v: "visits_all (tord sample_topo_env)" by (simp add: visits_all_def sample_topo_env_def)
  have f: "forward_index (newMemoryStore 0) x = None" for x by (simp add: newMemoryStore_def)
  show ?thesis
    unfolding masking_def
    using sample_hides [OF _ mode inner_request_simps(1), of "''e.c.d''"] newMemoryStore_inv [of 0] sample_masked [of "''h.b''"] a r v f
    by (simp add: hiding_partner_simps topo_inv_def budgeted_def newMemoryStore_views)
qed

theorem masked_host_restored_witness:
  "GetDestinationHost (fst (TopoHide_handleIn sample_topo_env None (Some sample_open) back_request
     ((snd sent_request)\<lparr>thStore := Some (foldl (topo_step (\<lambda>_ ps. ps)) (the (thStore (snd sent_request))) [RealHostOp 3 ''x.b'', SweepOp 5])\<rparr>))) =
   Some ''h.b''"
proof -
  note sent = sample_masking prod.collapse [symmetric, of "TopoHide_handlePostRoute sample_topo_env inner_request ''e.c.d'' (sample_hide TopoHideStateful)"]
  obtain s1 where s1: "thStore (snd sent_request) = Some s1" using masking_result(3) [OF sent] by (simp add: sent_request_def)
  have "names_ok (newMemoryStore 0)" using newMemoryStore_inv [of 0] by (simp add: topo_inv_def)
  moreover have "visits_all (\<lambda>_ ps. ps)" by (simp add: visits_all_def)
  ultimately show ?thesis
    using masked_host_restored [OF sent _ _ _ _ _ _ _ refl, where later = "[RealHostOp 3 ''x.b'', SweepOp 5]" and ord = "\<lambda>_ ps. ps"
        and ?m2.0 = back_request and n = "''TH0000000000000000.b''" and ?v2.0 = sample_topo_env and r = None and p = sample_open and ?s1.0 = s1] s1
    by (simp add: back_request_simps pseudonym_simps sent_request_def hiding_partner_simps sample_topo_env_def)
qed

definition second_topo_env :: topo_env where
  "second_topo_env = sample_topo_env\<lparr>trand := (\<lambda>_. Some (replicate 8 1))\<rparr>"

definition second_pseudonym :: string where "second_pseudonym = ''th0101010101010101.b''"

definition misdirected_request :: message where
  "misdirected_request = (NewRequest 316 16777251)\<lparr>AVPs := [NewDiameterIdentityAVP AVPCodeDestinationHost AVPFlagMandatory second_pseudonym]\<rparr>"

lemma second_pseudonym_simps:
  "pseudonym_of (ptTopologyHiding (hiding_partner mode)) (replicate 8 1) = second_pseudonym"
  "topo_normalize second_pseudonym = second_pseudonym" "second_pseudonym \<noteq> ''''" "first_pseudonym \<noteq> ''h.b''"
  "IsRequest misdirected_request" "GetDestinationHost misdirected_request = Some second_pseudonym"
proof -
  have "topo_normalize ''th'' @ EncodeToString (replicate 8 1) @ ''.'' @ topo_normalize ''b'' = second_pseudonym" by code_simp
  then show "pseudonym_of (ptTopologyHiding (hiding_partner mode)) (replicate 8 1) = second_pseudonym"
    by (simp add: pseudonym_of_def hiding_partner_simps)
  show "topo_normalize second_pseudonym = second_pseudonym" "second_pseudonym \<noteq> ''''" "first_pseudonym \<noteq> ''h.b''" by code_simp+
  show "IsRequest misdirected_request" "GetDestinationHost misdirected_request = Some second_pseudonym"
    by (simp_all add: misdirected_request_def NewRequest_def NewMessage_def IsRequest_def GetDestinationHost_def identity_of_def FindAVP_def avp_matches_def
        NewDiameterIdentityAVP_def NewUTF8StringAVP_def NewAVP_def GetDiameterIdentity_def)
qed

text \<open>Without caps a put only links the new entry.\<close>

lemma uncapped_put_forward:
  assumes "store_wf s" and "maxEntries s \<le> 0" and "bucket_limit p s \<le> 0"
  shows "forward_index (PutPseudonym now ord p n h x ttl s) =
    (forward_index (vacated (topo_normalize n) s))(forwardKey h x \<mapsto> topo_normalize n)"
proof -
  let ?e = "new_entry now p n h x ttl" and ?v = "vacated (topo_normalize n) s"
  have "store_wf ?v" "tbl ?v (teKey ?e) = None" using vacated_wf [OF assms(1)] by simp_all
  note l = linked_wf [OF this]
  have "PutPseudonym now ord p n h x ttl s = linked ?e ?v"
    using PutPseudonym_budgeted(1) [OF assms(1), of "{}" p] assms(2,3) evictPartnerLocked(4) [OF l, of p]
    by (simp add: budgeted_def linked_views vacated_views [OF assms(1)])
  then show ?thesis by (simp add: linked_views) (simp add: new_entry_def)
qed

lemma sample_masking_again:
  "\<exists>s1. masking second_topo_env {} (snd sent_request) (fst sent_request) ''f.c.d'' (hiding_partner TopoHideStateful) s1 first_pseudonym second_pseudonym"
proof -
  let ?q = "hiding_partner TopoHideStateful" and ?s0 = "newMemoryStore 0"
  let ?s1 = "PutPseudonym 0 (\<lambda>_ ps. ps) ''p'' first_pseudonym ''h.b'' '''' 1000 ?s0"
  have wf: "store_wf ?s0" using newMemoryStore_inv [of 0] by (simp add: topo_inv_def)
  have lim: "maxEntries ?s0 \<le> 0" "bucket_limit ''p'' ?s0 \<le> 0" by (simp_all add: newMemoryStore_def bucket_limit_def)
  have v: "visits_all (\<lambda>_ ps. ps)" by (simp add: visits_all_def)
  note R = masking_result [OF sample_masking prod.collapse [symmetric], folded sent_request_def]
  have s1: "thStore (snd sent_request) = Some ?s1" using R(3) by (simp add: sample_topo_env_def hiding_partner_simps inner_request_simps)
  have mode: "TopoHideStateful \<noteq> TopoHideNone" by (simp add: TopoHideStateful_def TopoHideNone_def)
  have "hides_for (snd sent_request) (fst sent_request) ''f.c.d'' ?q ?s1"
    using sample_hides [OF _ mode R(5), of "''f.c.d''"] R(2) s1 by (simp add: hides_for_def same_view_def)
  moreover have "mustMask (snd sent_request) first_pseudonym ''edge.x''"
    using sample_masked [of first_pseudonym] mustMask_view [OF R(2)] by simp
  moreover have "forwardKey first_pseudonym x \<noteq> forwardKey ''h.b'' ''''" for x
    by (simp add: forwardKey_def pseudonym_simps sample_internal_names) (simp add: first_pseudonym_def)
  then have "forward_index ?s1 (forwardKey first_pseudonym x) = None" for x
    using uncapped_put_forward [OF wf lim] by (simp add: vacated_def newMemoryStore_def)
  moreover have "\<exists>bs. trand second_topo_env k = Some bs \<and> second_pseudonym = pseudonym_of (ptTopologyHiding ?q) bs" for k
    using second_pseudonym_simps(1) by (simp add: second_topo_env_def)
  moreover have "store_wf ?s1" "maxEntries ?s1 = 0" using PutPseudonym_wf(1,2) [OF wf v] newMemoryStore_views(2) [of 0] by simp_all
  ultimately have "masking second_topo_env {} (snd sent_request) (fst sent_request) ''f.c.d'' ?q ?s1 first_pseudonym second_pseudonym"
    using R(4) v by (simp add: masking_def hiding_partner_simps budgeted_def) (simp add: second_topo_env_def sample_topo_env_def)
  then show ?thesis by blast
qed

theorem masked_twice_loses_host_witness:
  "GetDestinationHost (fst (TopoHide_handleIn sample_topo_env None (Some sample_open) misdirected_request
     (snd (TopoHide_handlePostRoute second_topo_env (fst sent_request) ''f.c.d'' (snd sent_request))))) = Some first_pseudonym"
proof -
  obtain s1 where s1: "masking second_topo_env {} (snd sent_request) (fst sent_request) ''f.c.d'' (hiding_partner TopoHideStateful) s1
      first_pseudonym second_pseudonym"
    using sample_masking_again by blast
  have first: "TopoHide_handlePostRoute sample_topo_env inner_request ''e.c.d'' (sample_hide TopoHideStateful) = (fst sent_request, snd sent_request)"
    by (simp add: sent_request_def)
  have t: "tnow sample_topo_env < tnow second_topo_env + topo_ttl (hiding_partner TopoHideStateful)"
    by (simp add: second_topo_env_def sample_topo_env_def hiding_partner_simps)
  from masked_twice_loses_host [OF sample_masking first s1 prod.collapse [symmetric] second_pseudonym_simps(2-6) second_pseudonym_simps(2) t]
  show ?thesis by blast
qed

definition two_hiding :: NodeConfig where
  "two_hiding = sample_mixed\<lparr>nPartners := [hiding_partner TopoHideStateful, (hiding_partner TopoHideStateful)\<lparr>ptName := ''q''\<rparr>]\<rparr>"

theorem partner_pseudonyms_isolated_witness:
  "fst (RealHost 5 ''x'' (foldl (topo_step (\<lambda>_ ps. ps)) (set_partner_limits two_hiding (newMemoryStore (maxPartnerEntries two_hiding)))
     ([] @ PutOp 0 ''p'' ''x'' ''h'' ''s'' 10 # [PutOp 1 ''q'' ''y'' ''h2'' ''s'' 10]))) = Some ''h''"
proof (rule partner_pseudonyms_isolated [where cfg = "[]" and reg = None])
  have mode: "TopoHideStateful \<noteq> TopoHideNone" by (simp add: TopoHideStateful_def TopoHideNone_def)
  have ps: "nPartners two_hiding = [hiding_partner TopoHideStateful, (hiding_partner TopoHideStateful)\<lparr>ptName := ''q''\<rparr>]"
    by (simp add: two_hiding_def)
  have max: "thMaxEntries (ptTopologyHiding (hiding_partner mode)) = 10" for mode by (simp add: hiding_partner_def sample_partner_def)
  have names: "hiding_names two_hiding = {''p'', ''q''}"
    using mode by (simp add: hiding_names_def ps hiding_partner_simps)
  show "distinct (map ptName (nPartners two_hiding))" by (simp add: ps hiding_partner_simps)
  show "\<forall>q \<in> set (nPartners two_hiding). thMaxEntries (ptTopologyHiding q) \<noteq> 0" by (simp add: ps max)
  show none: "option_or as_int [] ''max_entries'' 0 = 0" by (simp add: option_or_def option_of_def)
  show "thStore (TopoHide_Init [] None (Some two_hiding) newTopoHide) = Some (set_partner_limits two_hiding (newMemoryStore (maxPartnerEntries two_hiding)))"
    by (rule TopoHide_Init_store [OF none])
  have "topo_normalize ''x'' \<noteq> topo_normalize ''y''" by code_simp
  then show "list_all (foreign_op (hiding_names two_hiding) ''p'' (topo_normalize ''x'')) [PutOp 1 ''q'' ''y'' ''h2'' ''s'' 10]"
    by (auto simp: names)
qed (auto simp: visits_all_def hiding_names_def two_hiding_def hiding_partner_simps TopoHideStateful_def TopoHideNone_def)

end
