(* ===== verification/Server_Net.thy ===== *)
theory Server_Net
  imports Edge_Registry Peer_Types
begin

text \<open>
  Files \<open>pkg/core/server/zones.go\<close> and \<open>server.go\<close>, the part at the network: textual addresses as bytes, the TLS
  configuration of a zone, its listeners, and the identities a client certificate proves. Reading files, parsing
  certificates and opening a socket are the parameters of an environment; what is asked of them is the model.
\<close>

section \<open>Addresses as bytes\<close>

fun split_on :: "char \<Rightarrow> string \<Rightarrow> string list" where
  "split_on d [] = [[]]"
| "split_on d (c # cs) = (if c = d then [] # split_on d cs else (case split_on d cs of [] \<Rightarrow> [[c]] | x # xs \<Rightarrow> (c # x) # xs))"

definition hex_value :: "char \<Rightarrow> nat" where
  "hex_value c = (let n = char_code c in if n \<le> 57 then n - 48 else if n \<le> 70 then n - 55 else n - 87)"

definition number_in :: "nat \<Rightarrow> string \<Rightarrow> nat" where
  "number_in base s = foldl (\<lambda>v c. v * base + hex_value c) 0 s"

definition ipv4_bytes :: "string \<Rightarrow> byte list" where
  "ipv4_bytes s = map (\<lambda>f. of_nat (number_in 10 f)) (split_on CHR ''.'' s)"

definition ipv6_field :: "string \<Rightarrow> byte list" where
  "ipv6_field f = (if f = [] then [] else if CHR ''.'' \<in> set f then ipv4_bytes f
     else (let n = number_in 16 f in [of_nat (n div 256), of_nat (n mod 256)]))"

text \<open>The fields before and after \<open>::\<close>, whose zeros make up 16 bytes.\<close>

fun ellipsis_at :: "string \<Rightarrow> (string \<times> string) option" where
  "ellipsis_at (a # b # cs) = (if a = CHR '':'' \<and> b = CHR '':'' then Some ([], cs)
     else map_option (\<lambda>(x, y). (a # x, y)) (ellipsis_at (b # cs)))"
| "ellipsis_at _ = None"

definition ipv6_bytes :: "string \<Rightarrow> byte list" where
  "ipv6_bytes s = (let side = \<lambda>t. concat (map ipv6_field (split_on CHR '':'' t)) in
     case ellipsis_at s of
       None \<Rightarrow> side s
     | Some (l, r) \<Rightarrow> side l @ replicate (16 - length (side l) - length (side r)) 0 @ side r)"

text \<open>\<open>net.ParseIP\<close>: sixteen bytes, an IPv4 address in its mapped form.\<close>

definition ParseIP :: "string \<Rightarrow> byte list option" where
  "ParseIP s =
     (if \<not> isValidIP s then None
      else if CHR '':'' \<in> set s then Some (ipv6_bytes s)
      else Some (replicate 10 0 @ [0xFF, 0xFF] @ ipv4_bytes s))"

lemma ParseIP_examples:
  "ParseIP ''127.0.0.1'' = Some (replicate 10 0 @ [0xFF, 0xFF, 127, 0, 0, 1])" "ParseIP ''999.0.0.1'' = None"
  "ipv6_bytes ''fe80::1:2'' = [0xFE, 0x80] @ replicate 10 0 @ [0, 1, 0, 2]" "ipv6_bytes ''::'' = replicate 16 0"
  "ipv6_bytes ''::ffff:10.0.0.1'' = replicate 10 0 @ [0xFF, 0xFF, 10, 0, 0, 1]"
  by (simp_all add: ParseIP_def isValidIP_def is_digit_def ipv4_bytes_def number_in_def hex_value_def ipv6_bytes_def ipv6_field_def)

text \<open>
  What \<open>net.InterfaceAddrs\<close> returns: the addresses of the interfaces, those that are an \<open>IPNet\<close> as the bytes of the IP
  and whether it is a loopback address.
\<close>

definition loopback_ip :: "byte list" where "loopback_ip = replicate 10 0 @ [0xFF, 0xFF, 127, 0, 0, 1]"

definition getLocalIPAddresses :: "(byte list \<times> bool) option list option \<Rightarrow> NodeConfig \<Rightarrow> byte list list" where
  "getLocalIPAddresses ifaces c =
     (let configured = List.map_filter ParseIP (lnAddresses (nListen c)) in
      if configured \<noteq> [] then configured
      else case ifaces of
        None \<Rightarrow> [loopback_ip]
      | Some as \<Rightarrow> (let ips = map fst (filter (\<lambda>(ip, loopback). \<not> loopback) (List.map_filter id as)) in
          if ips = [] then [loopback_ip] else ips))"

section \<open>TLS of a zone\<close>

datatype client_auth = NoClientCert | RequireAndVerifyClientCert

definition VersionTLS12 :: u16 where "VersionTLS12 = 0x0303"
definition VersionTLS13 :: u16 where "VersionTLS13 = 0x0304"

definition tlsMinVersion :: "string \<Rightarrow> u16" where
  "tlsMinVersion v = (if v = ''1.3'' then VersionTLS13 else VersionTLS12)"

text \<open>The key pairs and certificate pools of the library are the type parameters; the functions of the library that make them are given.\<close>

record ('c, 'p) tlsConfig =
  tlsCertificates :: "'c list"
  tlsClientAuth :: client_auth
  tlsMinimum :: u16
  tlsClientCAs :: "'p option"

record ('c, 'p) tls_env =
  LoadX509KeyPair :: "string \<Rightarrow> string \<Rightarrow> string + 'c"
  ReadFile :: "string \<Rightarrow> string + byte list"
  AppendCertsFromPEM :: "byte list \<Rightarrow> 'p option"

datatype server_error =
    KeyPairError string
  | ReadingCA string string
  | NoUsableCertificates string
  | LoadingTLS server_error
  | EnableTLSRequiresTLS string
  | TCPListen string string
  | SCTPListen string
  | InZone string server_error
  | NoListeners
  | PeerNotFound string
  | SendFailed peer_error
  | StartingExtensions string
  | StartingListeners server_error

definition loadCertPool :: "('c, 'p) tls_env \<Rightarrow> string \<Rightarrow> server_error + 'p" where
  "loadCertPool e path = (case ReadFile e path of
     Inl err \<Rightarrow> Inl (ReadingCA path err)
   | Inr pem \<Rightarrow> (case AppendCertsFromPEM e pem of None \<Rightarrow> Inl (NoUsableCertificates path) | Some pool \<Rightarrow> Inr pool))"

definition buildServerTLSConfig :: "('c, 'p) tls_env \<Rightarrow> ZoneTLSConfig \<Rightarrow> server_error + ('c, 'p) tlsConfig" where
  "buildServerTLSConfig e t = (case LoadX509KeyPair e (ntCertFile t) (ntKeyFile t) of
     Inl err \<Rightarrow> Inl (KeyPairError err)
   | Inr cert \<Rightarrow>
       (let cfg = \<lparr>tlsCertificates = [cert], tlsClientAuth = NoClientCert, tlsMinimum = tlsMinVersion (ntMinVersion t), tlsClientCAs = None\<rparr> in
        bind_result (if ntCAFile t \<noteq> '''' then bind_result (loadCertPool e (ntCAFile t)) (\<lambda>pool. Inr (cfg\<lparr>tlsClientCAs := Some pool\<rparr>)) else Inr cfg)
          (\<lambda>cfg. Inr (if ntVerifyPeer t then cfg\<lparr>tlsClientAuth := RequireAndVerifyClientCert\<rparr> else cfg))))"

section \<open>Listeners\<close>

text \<open>\<open>net.JoinHostPort\<close>.\<close>

definition JoinHostPort :: "string \<Rightarrow> int \<Rightarrow> string" where
  "JoinHostPort host port =
     (if CHR '':'' \<in> set host \<or> CHR ''%'' \<in> set host then ''['' @ host @ '']:'' else host @ '':'') @ decimal port"

datatype ('c, 'p) listen_request =
    ListenTCP string
  | ListenTLS string "('c, 'p) tlsConfig"
  | ListenSCTPAddresses "byte list list" int
  | ListenSCTP string

type_synonym ('c, 'p) listeners = "(('c, 'p) listen_request \<times> ZoneConfig) list"

text \<open>The outcome of opening a socket.\<close>

type_synonym ('c, 'p) net_env = "('c, 'p) listen_request \<Rightarrow> string + unit"

definition addListener :: "('c, 'p) listen_request \<Rightarrow> ZoneConfig \<Rightarrow> ('c, 'p) listeners \<Rightarrow> ('c, 'p) listeners" where
  "addListener l z ls = ls @ [(l, z)]"

fun listenTCP :: "('c, 'p) net_env \<Rightarrow> ZoneConfig \<Rightarrow> string list \<Rightarrow> int \<Rightarrow> ('c, 'p) tlsConfig option \<Rightarrow> ('c, 'p) listeners
    \<Rightarrow> (server_error + unit) \<times> ('c, 'p) listeners" where
  "listenTCP net z [] port tls ls = (Inr (), ls)"
| "listenTCP net z (b # bs) port tls ls =
     (let addr = JoinHostPort b port; l = (case tls of Some cfg \<Rightarrow> ListenTLS addr cfg | None \<Rightarrow> ListenTCP addr) in
      case net l of
        Inl err \<Rightarrow> (Inl (TCPListen addr err), ls)
      | Inr _ \<Rightarrow> listenTCP net z bs port tls (addListener l z ls))"

definition listen_sctp :: "('c, 'p) net_env \<Rightarrow> ZoneConfig \<Rightarrow> ('c, 'p) listeners \<Rightarrow> (server_error + unit) \<times> ('c, 'p) listeners" where
  "listen_sctp net z ls =
     (let l = (if lnAddresses (zListen z) \<noteq> [] then ListenSCTPAddresses (List.map_filter ParseIP (lnAddresses (zListen z))) (lnPort (zListen z))
               else ListenSCTP ('':'' @ decimal (lnPort (zListen z)))) in
      case net l of Inl err \<Rightarrow> (Inl (SCTPListen err), ls) | Inr _ \<Rightarrow> (Inr (), addListener l z ls))"

definition zone_tls :: "('c, 'p) tls_env \<Rightarrow> ZoneConfig \<Rightarrow> server_error + ('c, 'p) tlsConfig option" where
  "zone_tls e z = (if \<not> ntEnabled (zTLS z) then Inr None
     else case buildServerTLSConfig e (zTLS z) of Inl err \<Rightarrow> Inl (LoadingTLS err) | Inr cfg \<Rightarrow> Inr (Some cfg))"

text \<open>One step after another, each adding its listeners; the first error ends it, with the listeners opened so far.\<close>

definition then_listen :: "(server_error + unit) \<times> 'l \<Rightarrow> ('l \<Rightarrow> (server_error + unit) \<times> 'l) \<Rightarrow> (server_error + unit) \<times> 'l" where
  "then_listen r f = (case r of (Inl err, ls) \<Rightarrow> (Inl err, ls) | (Inr _, ls) \<Rightarrow> f ls)"

definition startZoneListeners :: "('c, 'p) tls_env \<Rightarrow> ('c, 'p) net_env \<Rightarrow> ZoneConfig \<Rightarrow> ('c, 'p) listeners
    \<Rightarrow> (server_error + unit) \<times> ('c, 'p) listeners" where
  "startZoneListeners e net z ls =
     (let binds = (if lnAddresses (zListen z) = [] \<or> IsImplicit z then [''''] else lnAddresses (zListen z)) in
      case zone_tls e z of
        Inl err \<Rightarrow> (Inl err, ls)
      | Inr tls \<Rightarrow>
          then_listen
            (then_listen
              (if lnEnableTCP (zListen z) then listenTCP net z binds (lnPort (zListen z)) tls ls else (Inr (), ls))
              (\<lambda>ls. if lnEnableTLS (zListen z)
                 then (if tls = None then (Inl (EnableTLSRequiresTLS (zName z)), ls)
                       else listenTCP net z binds (lnSecurePort (zListen z)) tls ls)
                 else (Inr (), ls)))
            (\<lambda>ls. if lnEnableSCTP (zListen z) then listen_sctp net z ls else (Inr (), ls)))"

fun start_zones :: "('c, 'p) tls_env \<Rightarrow> ('c, 'p) net_env \<Rightarrow> ZoneConfig list \<Rightarrow> ('c, 'p) listeners
    \<Rightarrow> (server_error + unit) \<times> ('c, 'p) listeners" where
  "start_zones e net [] ls = (Inr (), ls)"
| "start_zones e net (z # zs) ls = (case startZoneListeners e net z ls of
     (Inl err, ls) \<Rightarrow> (Inl (InZone (zName z) err), ls)
   | (Inr _, ls) \<Rightarrow> start_zones e net zs ls)"

definition startListeners :: "('c, 'p) tls_env \<Rightarrow> ('c, 'p) net_env \<Rightarrow> NodeConfig \<Rightarrow> ('c, 'p) listeners
    \<Rightarrow> (server_error + unit) \<times> ('c, 'p) listeners" where
  "startListeners e net c ls = then_listen (start_zones e net (EffectiveZones c) ls)
     (\<lambda>ls. if ls = [] then (Inl NoListeners, ls) else (Inr (), ls))"

section \<open>Identities of a certificate\<close>

record certificate =
  ceCommonName :: string
  ceDNSNames :: "string list"

text \<open>A connection, as far as admission looks at it: \<open>None\<close> is one without TLS, else the certificates the peer presented.\<close>

type_synonym net_conn = "certificate list option"

definition certificateIdentities :: "certificate \<Rightarrow> string list" where
  "certificateIdentities c = (if ceCommonName c \<noteq> '''' then [ceCommonName c] else []) @ ceDNSNames c"

definition cert_id_matches :: "string \<Rightarrow> string \<Rightarrow> bool" where
  "cert_id_matches identity i \<longleftrightarrow> (let want = normalize_name identity; got = normalize_name i in
     got = want \<or> (HasPrefix got ''*.'' \<and> HasSuffix want (tl got)))"

definition certIdentityMatches :: "net_conn \<Rightarrow> string \<Rightarrow> bool" where
  "certIdentityMatches conn identity = (case conn of
     Some (leaf # _) \<Rightarrow> list_ex (cert_id_matches identity) (certificateIdentities leaf)
   | _ \<Rightarrow> False)"

end
