(* ===== verification/Ext_Manager.thy ===== *)
theory Ext_Manager
  imports Router_Properties Ext_Common
begin

text \<open>
  Package \<open>pkg/core/extension\<close>: the interface of an extension, the registry of extensions and the manager of their
  life cycle. The extensions themselves are parameters: an extension is the record of its methods, the optional
  interfaces being optional fields, and a method acts on the router and on whatever state the extensions have. A
  \<open>*ManagedExtension\<close> is shared by address, so the manager's map holds references into a store. Every operation that
  gives up the manager's lock while it calls the extension is written as the phases between which others may run;
  the uninterrupted operation is their composition. \<open>Inl\<close> is an error.
\<close>

section \<open>Extensions (\<open>extension.go\<close>)\<close>

datatype MetricType = MetricGauge | MetricCounter

record Metric =
  metName :: string
  metHelp :: string
  metType :: MetricType
  metValue :: rat
  metLabels :: "(string \<times> string) list"

datatype ExtState = StateRegistered | StateInitializing | StateActive | StateStopping | StateStopped | StateError

definition ExtState_String :: "ExtState \<Rightarrow> string" where
  "ExtState_String s = (case s of StateRegistered \<Rightarrow> ''registered'' | StateInitializing \<Rightarrow> ''initializing'' | StateActive \<Rightarrow> ''active''
     | StateStopping \<Rightarrow> ''stopping'' | StateStopped \<Rightarrow> ''stopped'' | StateError \<Rightarrow> ''error'')"

text \<open>The states are an enumeration, so that facts about all of them are computed.\<close>

instantiation ExtState :: enum
begin

definition enum_ExtState :: "ExtState list" where
  "enum_ExtState = [StateRegistered, StateInitializing, StateActive, StateStopping, StateStopped, StateError]"

definition enum_all_ExtState :: "(ExtState \<Rightarrow> bool) \<Rightarrow> bool" where
  "enum_all_ExtState P \<longleftrightarrow> list_all P [StateRegistered, StateInitializing, StateActive, StateStopping, StateStopped, StateError]"

definition enum_ex_ExtState :: "(ExtState \<Rightarrow> bool) \<Rightarrow> bool" where
  "enum_ex_ExtState P \<longleftrightarrow> list_ex P [StateRegistered, StateInitializing, StateActive, StateStopping, StateStopped, StateError]"

instance
proof
  have U: "(UNIV :: ExtState set) = {StateRegistered, StateInitializing, StateActive, StateStopping, StateStopped, StateError}"
    using ExtState.exhaust by auto
  show "UNIV = set (enum_class.enum :: ExtState list)" by (simp add: U enum_ExtState_def)
  show "distinct (enum_class.enum :: ExtState list)" by (simp add: enum_ExtState_def)
  show "enum_class.enum_all P \<longleftrightarrow> Ball UNIV P" for P :: "ExtState \<Rightarrow> bool" by (simp add: U enum_all_ExtState_def)
  show "enum_class.enum_ex P \<longleftrightarrow> Bex UNIV P" for P :: "ExtState \<Rightarrow> bool" by (simp add: U enum_ex_ExtState_def)
qed

end

text \<open>The router, and the state of everything the extensions own.\<close>

type_synonym 'x extWorld = "router \<times> 'x"
type_synonym 'x extCall = "'x extWorld \<Rightarrow> (string + unit) \<times> 'x extWorld"

record 'x Extension =
  exName :: string
  exInit :: "ext_config \<Rightarrow> 'x extCall"
  exStop :: "'x extCall option"
  exReconfigure :: "(ext_config \<Rightarrow> 'x extCall) option"
  exHealthCheck :: "('x extWorld \<Rightarrow> string \<times> (string \<times> yaml_value) list) option"
  exMetrics :: "('x extWorld \<Rightarrow> Metric list) option"

text \<open>A time that \<open>IsZero\<close> is \<open>None\<close>.\<close>

record 'x ManagedExtension =
  meExtension :: "'x Extension"
  meState :: ExtState
  meConfig :: ext_config
  meError :: string
  meStartedAt :: "int option"
  meStoppedAt :: "int option"

definition Capabilities :: "'x ManagedExtension \<Rightarrow> string list" where
  "Capabilities me = (let e = meExtension me in
     (if exStop e \<noteq> None then [''stoppable''] else []) @ (if exReconfigure e \<noteq> None then [''reconfigurable''] else []) @
     (if exHealthCheck e \<noteq> None then [''health_checkable''] else []) @ (if exMetrics e \<noteq> None then [''metrics_provider''] else []))"

type_synonym 'x ext_registry = "(string \<times> 'x Extension) list"

definition Ext_Register :: "'x Extension \<Rightarrow> 'x ext_registry \<Rightarrow> 'x ext_registry" where
  "Ext_Register e reg = AList.update (exName e) e reg"

definition Ext_Unregister :: "string \<Rightarrow> 'x ext_registry \<Rightarrow> 'x ext_registry" where
  "Ext_Unregister n reg = AList.delete n reg"

definition Ext_Get :: "string \<Rightarrow> 'x ext_registry \<Rightarrow> 'x Extension option" where "Ext_Get n reg = map_of reg n"
definition GetAll :: "'x ext_registry \<Rightarrow> 'x ext_registry" where "GetAll reg = reg"

section \<open>The manager (\<open>manager.go\<close>)\<close>

type_synonym me_ref = nat

datatype manager_error =
    UnknownExtension string
  | AlreadyActive string
  | Busy ExtState string
  | FailedToInit string string
  | NotActive ExtState string
  | NotStoppable string
  | FailedToStop string string
  | UseDisableEnable string
  | NotReconfigurable string
  | ReconfigureFailed string string
  | NotHealthCheckable string
  | FailedToInitialize string manager_error

record 'x Manager =
  extensions :: "(string \<times> me_ref) list"
  managed :: "'x ManagedExtension list"
  initOrder :: "string list"

definition NewManager :: "'x Manager" where "NewManager = \<lparr>extensions = [], managed = [], initOrder = []\<rparr>"

definition new_managed :: "'x Extension \<Rightarrow> 'x ManagedExtension" where
  "new_managed e = \<lparr>meExtension = e, meState = StateRegistered, meConfig = [], meError = '''', meStartedAt = None, meStoppedAt = None\<rparr>"

definition add_named :: "string \<Rightarrow> 'x Extension \<Rightarrow> 'x Manager \<Rightarrow> 'x Manager" where
  "add_named n e m = m\<lparr>extensions := AList.update n (length (managed m)) (extensions m), managed := managed m @ [new_managed e]\<rparr>"

definition AddExtension :: "'x Extension \<Rightarrow> 'x Manager \<Rightarrow> 'x Manager" where "AddExtension e m = add_named (exName e) e m"

definition LoadFromRegistry :: "'x ext_registry \<Rightarrow> 'x Manager \<Rightarrow> 'x Manager" where
  "LoadFromRegistry reg m = fold (\<lambda>(n, e). add_named n e) (GetAll reg) m"

definition set_managed :: "me_ref \<Rightarrow> ('x ManagedExtension \<Rightarrow> 'x ManagedExtension) \<Rightarrow> 'x Manager \<Rightarrow> 'x Manager" where
  "set_managed p f m = m\<lparr>managed := (managed m)[p := f (managed m ! p)]\<rparr>"

text \<open>The entry of a name, with its address.\<close>

definition lookup_managed :: "string \<Rightarrow> 'x Manager \<Rightarrow> (me_ref \<times> 'x ManagedExtension) option" where
  "lookup_managed n m = map_option (\<lambda>p. (p, managed m ! p)) (map_of (extensions m) n)"

section \<open>\<open>Enable\<close>\<close>

definition enable_begin :: "string \<Rightarrow> 'x Manager \<Rightarrow> (manager_error + me_ref) \<times> 'x Manager" where
  "enable_begin n m = (case lookup_managed n m of
     None \<Rightarrow> (Inl (UnknownExtension n), m)
   | Some (p, me) \<Rightarrow>
       if meState me = StateActive then (Inl (AlreadyActive n), m)
       else if meState me = StateInitializing \<or> meState me = StateStopping then (Inl (Busy (meState me) n), m)
       else (Inr p, set_managed p (\<lambda>me. me\<lparr>meState := StateInitializing\<rparr>) m))"

definition enable_end :: "int \<Rightarrow> string \<Rightarrow> ext_config \<Rightarrow> me_ref \<Rightarrow> string + unit \<Rightarrow> 'x Manager \<Rightarrow> (manager_error + unit) \<times> 'x Manager" where
  "enable_end now n cfg p res m = (case res of
     Inl err \<Rightarrow> (Inl (FailedToInit n err), set_managed p (\<lambda>me. me\<lparr>meState := StateError, meError := err\<rparr>) m)
   | Inr _ \<Rightarrow> (Inr (), set_managed p (\<lambda>me. me\<lparr>meState := StateActive, meConfig := cfg, meError := '''',
         meStartedAt := Some now, meStoppedAt := None\<rparr>) (m\<lparr>initOrder := initOrder m @ [n]\<rparr>)))"

definition Enable :: "int \<Rightarrow> string \<Rightarrow> ext_config \<Rightarrow> 'x Manager \<times> 'x extWorld \<Rightarrow> (manager_error + unit) \<times> 'x Manager \<times> 'x extWorld" where
  "Enable now n cfg = (\<lambda>(m, w). case enable_begin n m of
     (Inl err, m) \<Rightarrow> (Inl err, m, w)
   | (Inr p, m) \<Rightarrow> (case exInit (meExtension (managed m ! p)) cfg w of
       (res, w) \<Rightarrow> (case enable_end now n cfg p res m of (res, m) \<Rightarrow> (res, m, w))))"

fun InitFromConfig :: "int \<Rightarrow> ExtensionConfig list \<Rightarrow> 'x Manager \<times> 'x extWorld \<Rightarrow> (manager_error + unit) \<times> 'x Manager \<times> 'x extWorld" where
  "InitFromConfig now [] s = (Inr (), s)"
| "InitFromConfig now (c # cs) s = (case Enable now (ecName c) (ecConfig c) s of
     (Inl err, s) \<Rightarrow> (Inl (FailedToInitialize (ecName c) err), s)
   | (Inr _, s) \<Rightarrow> InitFromConfig now cs s)"

section \<open>\<open>Disable\<close>\<close>

definition disable_begin :: "string \<Rightarrow> 'x Manager \<Rightarrow> (manager_error + me_ref \<times> 'x extCall) \<times> 'x Manager" where
  "disable_begin n m = (case lookup_managed n m of
     None \<Rightarrow> (Inl (UnknownExtension n), m)
   | Some (p, me) \<Rightarrow>
       if meState me \<noteq> StateActive then (Inl (NotActive (meState me) n), m)
       else (case exStop (meExtension me) of
           None \<Rightarrow> (Inl (NotStoppable n), m)
         | Some stop \<Rightarrow> (Inr (p, stop), set_managed p (\<lambda>me. me\<lparr>meState := StateStopping\<rparr>) m)))"

definition disable_run :: "string \<Rightarrow> 'x extCall \<Rightarrow> 'x extCall" where
  "disable_run n stop = (\<lambda>(r, x). stop (DeregisterAllByOwner r n, x))"

definition stop_failed :: "string \<Rightarrow> string" where "stop_failed err = ''stop failed: '' @ err"

definition disable_end :: "int \<Rightarrow> string \<Rightarrow> me_ref \<Rightarrow> string + unit \<Rightarrow> 'x Manager \<Rightarrow> (manager_error + unit) \<times> 'x Manager" where
  "disable_end now n p res m = (case res of
     Inl err \<Rightarrow> (Inl (FailedToStop n err), set_managed p (\<lambda>me. me\<lparr>meState := StateError, meError := stop_failed err\<rparr>) m)
   | Inr _ \<Rightarrow> (Inr (), (set_managed p (\<lambda>me. me\<lparr>meState := StateStopped, meError := '''', meStoppedAt := Some now\<rparr>) m)
         \<lparr>initOrder := remove1 n (initOrder m)\<rparr>))"

definition Disable :: "int \<Rightarrow> string \<Rightarrow> 'x Manager \<times> 'x extWorld \<Rightarrow> (manager_error + unit) \<times> 'x Manager \<times> 'x extWorld" where
  "Disable now n = (\<lambda>(m, w). case disable_begin n m of
     (Inl err, m) \<Rightarrow> (Inl err, m, w)
   | (Inr (p, stop), m) \<Rightarrow> (case disable_run n stop w of
       (res, w) \<Rightarrow> (case disable_end now n p res m of (res, m) \<Rightarrow> (res, m, w))))"

section \<open>\<open>Reconfigure\<close>\<close>

definition reconfigure_begin :: "string \<Rightarrow> 'x Manager \<Rightarrow> manager_error + me_ref \<times> (ext_config \<Rightarrow> 'x extCall)" where
  "reconfigure_begin n m = (case lookup_managed n m of
     None \<Rightarrow> Inl (UnknownExtension n)
   | Some (p, me) \<Rightarrow>
       if meState me \<noteq> StateActive then Inl (NotActive (meState me) n)
       else (case exReconfigure (meExtension me) of
           None \<Rightarrow> Inl (if exStop (meExtension me) \<noteq> None then UseDisableEnable n else NotReconfigurable n)
         | Some f \<Rightarrow> Inr (p, f)))"

definition reconfigure_end :: "string \<Rightarrow> ext_config \<Rightarrow> me_ref \<Rightarrow> string + unit \<Rightarrow> 'x Manager \<Rightarrow> (manager_error + unit) \<times> 'x Manager" where
  "reconfigure_end n cfg p res m = (case res of
     Inl err \<Rightarrow> (Inl (ReconfigureFailed n err), m)
   | Inr _ \<Rightarrow> (Inr (), set_managed p (\<lambda>me. me\<lparr>meConfig := cfg\<rparr>) m))"

definition Reconfigure :: "string \<Rightarrow> ext_config \<Rightarrow> 'x Manager \<times> 'x extWorld \<Rightarrow> (manager_error + unit) \<times> 'x Manager \<times> 'x extWorld" where
  "Reconfigure n cfg = (\<lambda>(m, w). case reconfigure_begin n m of
     Inl err \<Rightarrow> (Inl err, m, w)
   | Inr (p, f) \<Rightarrow> (case f cfg w of (res, w) \<Rightarrow> (case reconfigure_end n cfg p res m of (res, m) \<Rightarrow> (res, m, w))))"

section \<open>\<open>StopAll\<close>\<close>

text \<open>The guard of one round; the extension keeps its state while it is stopped.\<close>

definition stop_next :: "string \<Rightarrow> 'x Manager \<Rightarrow> (me_ref \<times> 'x extCall) option" where
  "stop_next n m = (case lookup_managed n m of
     None \<Rightarrow> None
   | Some (p, me) \<Rightarrow> if meState me \<noteq> StateActive then None else map_option (Pair p) (exStop (meExtension me)))"

definition stop_done :: "int \<Rightarrow> me_ref \<Rightarrow> 'x Manager \<Rightarrow> 'x Manager" where
  "stop_done now p m = set_managed p (\<lambda>me. me\<lparr>meState := StateStopped, meStoppedAt := Some now\<rparr>) m"

text \<open>The last error is the one returned.\<close>

fun stop_each :: "int \<Rightarrow> string list \<Rightarrow> string + unit \<Rightarrow> 'x Manager \<times> 'x extWorld \<Rightarrow> (string + unit) \<times> 'x Manager \<times> 'x extWorld" where
  "stop_each now [] lastErr s = (lastErr, s)"
| "stop_each now (n # ns) lastErr (m, w) = (case stop_next n m of
     None \<Rightarrow> stop_each now ns lastErr (m, w)
   | Some (p, stop) \<Rightarrow> (case stop w of
       (res, w) \<Rightarrow> stop_each now ns (case res of Inl err \<Rightarrow> Inl err | Inr _ \<Rightarrow> lastErr) (stop_done now p m, w)))"

definition StopAll :: "int \<Rightarrow> 'x Manager \<times> 'x extWorld \<Rightarrow> (string + unit) \<times> 'x Manager \<times> 'x extWorld" where
  "StopAll now s = stop_each now (rev (initOrder (fst s))) (Inr ()) s"

section \<open>Queries\<close>

record ManagedExtensionInfo =
  miName :: string
  miState :: string
  miConfig :: ext_config
  miError :: string
  miStartedAt :: "int option"
  miStoppedAt :: "int option"
  miCapabilities :: "string list"

definition info_of :: "string \<Rightarrow> 'x ManagedExtension \<Rightarrow> ManagedExtensionInfo" where
  "info_of n me = \<lparr>miName = n, miState = ExtState_String (meState me), miConfig = meConfig me, miError = meError me,
     miStartedAt = meStartedAt me, miStoppedAt = meStoppedAt me, miCapabilities = Capabilities me\<rparr>"

definition Mgr_List :: "'x Manager \<Rightarrow> ManagedExtensionInfo list" where
  "Mgr_List m = map (\<lambda>(n, p). info_of n (managed m ! p)) (extensions m)"

definition Mgr_Get :: "string \<Rightarrow> 'x Manager \<Rightarrow> ManagedExtensionInfo option" where
  "Mgr_Get n m = map_option (\<lambda>(p, me). info_of n me) (lookup_managed n m)"

definition ActiveExtensionConfigs :: "'x Manager \<Rightarrow> ExtensionConfig list" where
  "ActiveExtensionConfigs m = List.map_filter (\<lambda>n. case lookup_managed n m of
     None \<Rightarrow> None
   | Some (p, me) \<Rightarrow> if meState me \<noteq> StateActive then None else Some \<lparr>ecName = n, ecConfig = meConfig me\<rparr>) (initOrder m)"

definition CheckHealth :: "string \<Rightarrow> 'x Manager \<times> 'x extWorld \<Rightarrow> manager_error + string \<times> (string \<times> yaml_value) list" where
  "CheckHealth n = (\<lambda>(m, w). case lookup_managed n m of
     None \<Rightarrow> Inl (UnknownExtension n)
   | Some (p, me) \<Rightarrow> (case exHealthCheck (meExtension me) of None \<Rightarrow> Inl (NotHealthCheckable n) | Some f \<Rightarrow> Inr (f w)))"

definition CollectExtensionMetrics :: "'x Manager \<times> 'x extWorld \<Rightarrow> (string \<times> Metric list) list" where
  "CollectExtensionMetrics = (\<lambda>(m, w). List.map_filter (\<lambda>(n, p). let me = managed m ! p in
     if meState me \<noteq> StateActive then None else map_option (\<lambda>f. (n, f w)) (exMetrics (meExtension me))) (extensions m))"

end
