(* ===== verification/Server.thy ===== *)
theory Server
  imports Server_Net Ext_Manager Router_Relay
begin

text \<open>
  Files \<open>pkg/core/server/server.go\<close> and \<open>zones.go\<close>: the server that owns the router, the extension manager, the edge registry
  and the table of connected peers. Peers are the objects of the router's world, addressed by number; the router's
  lookup and enumeration closures read the table each time they are called. What the code prints is left out.
\<close>

section \<open>State\<close>

record ('c, 'p, 'x) server =
  svConfig :: NodeConfig
  svLocal :: "LocalConfig option"
  svListeners :: "('c, 'p) listeners"
  svPeers :: "(DiamID \<times> peer_ref) list"
  svRouter :: router
  svExtMgr :: "'x Manager option"
  svExtState :: 'x
  svReg :: registry
  svHandler :: bool
  svHandled :: "(peer_ref \<times> message) list"
  svCancelled :: bool
  svStartTime :: int
  svRoutingErrors :: u64
  svWorld :: world
  svNextRef :: peer_ref

definition Server_New :: "int \<Rightarrow> NodeConfig \<Rightarrow> 'x \<Rightarrow> world \<Rightarrow> ('c, 'p, 'x) server" where
  "Server_New now cfg x w = \<lparr>svConfig = cfg, svLocal = None, svListeners = [], svPeers = [],
     svRouter = SetLocalIdentity NewRouter (nIdentity cfg) (nRealm cfg), svExtMgr = None, svExtState = x,
     svReg = NewRegistry (Some cfg), svHandler = False, svHandled = [], svCancelled = False, svStartTime = now,
     svRoutingErrors = 0, svWorld = w, svNextRef = 0\<rparr>"

definition SetHandler :: "('c, 'p, 'x) server \<Rightarrow> bool \<Rightarrow> ('c, 'p, 'x) server" where "SetHandler s h = s\<lparr>svHandler := h\<rparr>"

definition GetPeer :: "('c, 'p, 'x) server \<Rightarrow> DiamID \<Rightarrow> peer_ref option" where "GetPeer s i = map_of (svPeers s) i"
definition Peers :: "('c, 'p, 'x) server \<Rightarrow> peer_ref list" where "Peers s = map snd (svPeers s)"

text \<open>The router with its closures as they answer now.\<close>

definition live_router :: "('c, 'p, 'x) server \<Rightarrow> router" where
  "live_router s = SetPeerEnumerator (SetPeerLookup (svRouter s) (GetPeer s)) (Peers s)"

definition Server_Send :: "DiamID \<Rightarrow> message \<Rightarrow> ('c, 'p, 'x) server \<Rightarrow> (route_error option + unit) \<times> ('c, 'p, 'x) server" where
  "Server_Send i m s = (case GetPeer s i of
     None \<Rightarrow> (Inl None, s)
   | Some ref \<Rightarrow> (case object_send ref m (svWorld s) of
       (Inl err, w) \<Rightarrow> (Inl (Some err), s\<lparr>svWorld := w\<rparr>) | (Inr _, w) \<Rightarrow> (Inr (), s\<lparr>svWorld := w\<rparr>)))"

section \<open>Admission of inbound peers\<close>

definition zoneOrDefault :: "NodeConfig \<Rightarrow> ZoneConfig option \<Rightarrow> ZoneConfig" where
  "zoneOrDefault c z = (case z of Some z \<Rightarrow> z | None \<Rightarrow> hd (EffectiveZones c))"

record admissionResult =
  adAccepted :: bool
  adCode :: ResultCode
  adPartner :: string

definition admitted :: "string \<Rightarrow> admissionResult" where
  "admitted partner = \<lparr>adAccepted = True, adCode = ResultSuccess, adPartner = partner\<rparr>"

definition refused :: admissionResult where
  "refused = \<lparr>adAccepted = False, adCode = ResultUnknownPeer, adPartner = ''''\<rparr>"

definition allowedByZonePolicy :: "ZoneConfig \<Rightarrow> string \<Rightarrow> bool" where
  "allowedByZonePolicy z i \<longleftrightarrow> ppAllowUnknown (zPeersPolicy z) \<or> i \<in> set (ppAllowIdentities (zPeersPolicy z))"

text \<open>The node-level policy of an internal zone: the first configured peer of that identity decides.\<close>

fun admit_configured :: "ZoneConfig \<Rightarrow> PeerConfig list \<Rightarrow> DiamID \<Rightarrow> DiamID \<Rightarrow> admissionResult" where
  "admit_configured z [] oh orealm = refused"
| "admit_configured z (pc # pcs) oh orealm =
     (if pcIdentity pc \<noteq> oh then admit_configured z pcs oh orealm
      else if pcZone pc \<noteq> '''' \<and> pcZone pc \<noteq> zName z then refused
      else if pcRealm pc = '''' \<or> pcRealm pc = orealm then admitted '''' else refused)"

definition admitPeer :: "NodeConfig \<Rightarrow> registry \<Rightarrow> ZoneConfig \<Rightarrow> net_conn \<Rightarrow> DiamID \<Rightarrow> DiamID \<Rightarrow> admissionResult" where
  "admitPeer c reg z conn oh orealm =
     (if ztRequireClientCertIdentity (zTLS z) \<and> \<not> certIdentityMatches conn oh then refused
      else case PartnerForPeer reg oh of
        Some p \<Rightarrow>
          if ptZone p \<noteq> zName z then refused
          else if ptRealms p \<noteq> [] \<and> \<not> RealmMatches orealm (ptRealms p) then refused
          else admitted (ptName p)
      | None \<Rightarrow>
          if IsExternal z then
            (case PartnerForRealm reg orealm of
              Some p \<Rightarrow> if ptZone p = zName z then admitted (ptName p)
                        else if allowedByZonePolicy z oh then admitted '''' else refused
            | None \<Rightarrow> if allowedByZonePolicy z oh then admitted '''' else refused)
          else if allowedByZonePolicy z oh then admitted ''''
          else admit_configured z (nPeers c) oh orealm)"

text \<open>The acceptance policy of an inbound connection, with what it does to the peer and the registry.\<close>

definition update_peer :: "peer_ref \<Rightarrow> (peer \<Rightarrow> peer) \<Rightarrow> ('c, 'p, 'x) server \<Rightarrow> ('c, 'p, 'x) server" where
  "update_peer ref f s = (case peer_of (svWorld s) ref of
     None \<Rightarrow> s | Some p \<Rightarrow> s\<lparr>svWorld := set_object ref (FullPeer (f p)) (svWorld s)\<rparr>)"

definition accept_policy :: "ZoneConfig \<Rightarrow> net_conn \<Rightarrow> peer_ref \<Rightarrow> DiamID \<Rightarrow> DiamID \<Rightarrow> ('c, 'p, 'x) server
    \<Rightarrow> (bool \<times> ResultCode) \<times> ('c, 'p, 'x) server" where
  "accept_policy z conn ref oh orealm s =
     (let res = admitPeer (svConfig s) (svReg s) z conn oh orealm in
      if \<not> adAccepted res then ((False, adCode res), s)
      else let s = update_peer ref (\<lambda>p. SetZone p (zName z) (adPartner res)) s;
               s = (if adPartner res \<noteq> '''' then s\<lparr>svReg := BindPeer oh (adPartner res) (svReg s)\<rparr> else s)
           in ((True, adCode res), s))"

section \<open>The table of connected peers\<close>

definition register_peer :: "DiamID \<Rightarrow> peer_ref \<Rightarrow> ('c, 'p, 'x) server \<Rightarrow> ('c, 'p, 'x) server" where
  "register_peer i ref s = s\<lparr>svPeers := AList.update i ref (svPeers s)\<rparr>"

definition remove_peer :: "DiamID \<Rightarrow> ('c, 'p, 'x) server \<Rightarrow> ('c, 'p, 'x) server" where
  "remove_peer i s = s\<lparr>svPeers := AList.delete i (svPeers s)\<rparr>"

text \<open>
  \<open>OnStateChange\<close> of an inbound connection, called when the peer enters the state \<open>new\<close>. \<open>go peerConn.Stop()\<close> cancels
  the peer's context.
\<close>

definition inbound_state_change :: "peer_ref \<Rightarrow> Peer_Types.State \<Rightarrow> ('c, 'p, 'x) server \<Rightarrow> ('c, 'p, 'x) server" where
  "inbound_state_change ref new s = (case peer_of (svWorld s) ref of
     None \<Rightarrow> s
   | Some p \<Rightarrow>
       if IsOpen (p\<lparr>state := new\<rparr>) then register_peer (diameterID p) ref s
       else if new = StateClosed \<or> new = StateZombie
       then update_peer ref (\<lambda>p. p\<lparr>ctxDone := True\<rparr>)
         ((remove_peer (diameterID p) s)\<lparr>svReg := UnbindPeer (diameterID p) (svReg s)\<rparr>)
       else s)"

definition outbound_state_change :: "peer_ref \<Rightarrow> Peer_Types.State \<Rightarrow> ('c, 'p, 'x) server \<Rightarrow> ('c, 'p, 'x) server" where
  "outbound_state_change ref new s = (case peer_of (svWorld s) ref of
     None \<Rightarrow> s
   | Some p \<Rightarrow>
       if IsOpen (p\<lparr>state := new\<rparr>) then register_peer (diameterID p) ref s
       else if new = StateClosed \<or> new = StateZombie then remove_peer (diameterID p) s else s)"

section \<open>Messages\<close>

definition handleRoutingError :: "peer_ref \<Rightarrow> route_error \<Rightarrow> ('c, 'p, 'x) server \<Rightarrow> ('c, 'p, 'x) server" where
  "handleRoutingError ref err s =
     (let s = (case err of
         RoutingError code ans sent \<Rightarrow> if sent then s else s\<lparr>svWorld := snd (object_send ref ans (svWorld s))\<rparr>
       | _ \<Rightarrow> s)
      in s\<lparr>svRoutingErrors := svRoutingErrors s + 1\<rparr>)"

text \<open>\<open>OnMessage\<close>, the same for both directions; \<open>None\<close> only when the fuel of the relay loop is too small.\<close>

definition on_message :: "nat \<Rightarrow> renv \<Rightarrow> peer_ref \<Rightarrow> message \<Rightarrow> ('c, 'p, 'x) server \<Rightarrow> ('c, 'p, 'x) server option" where
  "on_message fuel e ref m s =
     (let s = (if svHandler s then s\<lparr>svHandled := svHandled s @ [(ref, m)]\<rparr> else s) in
      case RouteIn fuel e (live_router s) (svWorld s) (Some ref) m of
        None \<Rightarrow> None
      | Some (res, r, w) \<Rightarrow>
          (let s = s\<lparr>svRouter := r, svWorld := w\<rparr> in
           Some (case res of Inl err \<Rightarrow> handleRoutingError ref err s | Inr _ \<Rightarrow> s)))"

section \<open>Connections\<close>

definition alloc_peer :: "peer \<Rightarrow> ('c, 'p, 'x) server \<Rightarrow> ('c, 'p, 'x) server" where
  "alloc_peer p s = s\<lparr>svWorld := set_object (svNextRef s) (FullPeer p) (svWorld s), svNextRef := svNextRef s + 1\<rparr>"

definition inbound_config :: "NodeConfig \<Rightarrow> ZoneConfig \<Rightarrow> string \<Rightarrow> Config" where
  "inbound_config c z remote = \<lparr>cDiameterIdentity = '''', cRealm = '''', Addresses = [remote], Port = 0, Network = '''', UseTLS = False,
     cTLSConfig = None, WatchdogInterval = nlWatchdogInterval (nLocal c), ConnectTimeout = 0, ReconnectInterval = 0,
     Persistent = False, cZone = zName z, cPartner = ''''\<rparr>"

text \<open>\<open>StartWithConnection\<close>: the event that carries the connection and its CER.\<close>

definition StartWithConnection :: "conn \<Rightarrow> message \<Rightarrow> peer \<Rightarrow> peer" where
  "StartWithConnection c cer p = spawn (Posting ((ev EventRConnCER)\<lparr>eConn := Some c, eMsg := Some cer\<rparr>) None) p"

text \<open>
  The first message of a connection, \<open>Inl\<close> when it cannot be read; without a CER the connection is closed. The
  acceptance policy is installed as it answers in the present state of the server.
\<close>

definition handleConnection :: "conn \<Rightarrow> string \<Rightarrow> net_conn \<Rightarrow> ZoneConfig option \<Rightarrow> wire_error + message \<Rightarrow> ('c, 'p, 'x) server
    \<Rightarrow> ('c, 'p, 'x) server" where
  "handleConnection conn remote tls z first s =
     (let z = zoneOrDefault (svConfig s) z;
          p = New (inbound_config (svConfig s) z remote);
          p = SetAcceptPolicy p (Some (\<lambda>oh orealm. fst (accept_policy z tls (svNextRef s) oh orealm s)));
          p = SetOnStateChange (SetOnMessage p True) True in
      case first of
        Inl err \<Rightarrow> alloc_peer (close_conn conn p) s
      | Inr cer \<Rightarrow>
          if mCommandCode cer \<noteq> CmdCodeCapabilitiesExchange \<or> \<not> IsRequest cer then alloc_peer (close_conn conn p) s
          else alloc_peer (StartWithConnection conn cer p) s)"

text \<open>The settings a connection to a configured peer is dialled with: TLS material of the partner, else of its zone, else of the node.\<close>

definition tls_source :: "NodeConfig \<Rightarrow> registry \<Rightarrow> PeerConfig \<Rightarrow> string \<Rightarrow> NodeTLSConfig" where
  "tls_source c reg pc zone = (case Option.bind (PartnerForPeer reg (pcIdentity pc)) ptTLS of
     Some t \<Rightarrow> t
   | None \<Rightarrow> (case Edge_Zone reg zone of
       Some z \<Rightarrow> if ntEnabled (zTLS z) then NodeTLSConfig.truncate (zTLS z) else nTLS c
     | None \<Rightarrow> nTLS c))"

definition outbound_config :: "NodeConfig \<Rightarrow> registry \<Rightarrow> PeerConfig \<Rightarrow> Config" where
  "outbound_config c reg pc =
     (let zone = (if pcZone pc = '''' then ZoneNameForPeer reg (pcIdentity pc) else pcZone pc);
          src = tls_source c reg pc zone in
      \<lparr>cDiameterIdentity = pcIdentity pc, cRealm = pcRealm pc, Addresses = pcAddresses pc, Port = pcPort pc, Network = pcNetwork pc,
       UseTLS = pcTLS pc,
       cTLSConfig = (if pcTLS pc then Some \<lparr>CertFile = ntCertFile src, KeyFile = ntKeyFile src, CAFile = ntCAFile src,
           SkipVerify = \<not> ntVerifyPeer src, MinVersion = ntMinVersion src\<rparr> else None),
       WatchdogInterval = nlWatchdogInterval (nLocal c), ConnectTimeout = nlConnectTimeout (nLocal c),
       ReconnectInterval = pcReconnectInterval pc, Persistent = pcPersistent pc, cZone = zone,
       cPartner = (case PartnerForPeer reg (pcIdentity pc) of Some p \<Rightarrow> ptName p | None \<Rightarrow> '''')\<rparr>)"

definition connectToPeer :: "PeerConfig \<Rightarrow> ('c, 'p, 'x) server \<Rightarrow> ('c, 'p, 'x) server" where
  "connectToPeer pc s =
     alloc_peer (Start (SetOnStateChange (SetOnMessage (New (outbound_config (svConfig s) (svReg s) pc)) True) True)) s"

section \<open>Starting and stopping\<close>

definition local_config :: "(byte list \<times> bool) option list option \<Rightarrow> NodeConfig \<Rightarrow> LocalConfig" where
  "local_config ifaces c =
     (let auth = GetAuthAppIDs c;
          auth = (if rcRelayEnabled (nRouting c) \<and> AppIDRelay \<notin> set auth then auth @ [AppIDRelay] else auth) in
      \<lparr>lDiameterIdentity = nIdentity c, lRealm = nRealm c, lVendorID = nlVendorID (nLocal c), ProductName = nlProductName (nLocal c),
       FirmwareRevision = nlFirmwareRevision (nLocal c), OriginStateID = 0, HostIPAddresses = getLocalIPAddresses ifaces c,
       AuthAppIDs = auth, AcctAppIDs = GetAcctAppIDs c\<rparr>)"

definition add_config_routes :: "NodeConfig \<Rightarrow> router \<Rightarrow> router" where
  "add_config_routes c r =
     (let r = fold (\<lambda>(d, ps) r. AddRealmRoute r d ps) (rcRealmRoutes (nRouting c)) r;
          r = fold (\<lambda>(h, p) r. AddHostRoute r h p) (rcHostRoutes (nRouting c)) r
      in fold (\<lambda>a r. if acRouteTo a \<noteq> [] then AddAppRoute r (acID a) (acRouteTo a) else r) (nApplications c) r)"

text \<open>Realm routes to the configured peers that are not there yet; the pairs (realm, identity) say which are.\<close>

definition add_peer_route :: "PeerConfig \<Rightarrow> (string \<times> string) list \<times> router \<Rightarrow> (string \<times> string) list \<times> router" where
  "add_peer_route pc = (\<lambda>(seen, r).
     if pcRealm pc = '''' \<or> pcIdentity pc = '''' then (seen, r)
     else if (pcRealm pc, pcIdentity pc) \<in> set seen then (seen, r)
     else ((pcRealm pc, pcIdentity pc) # seen, AddRealmRoute r (pcRealm pc) [pcIdentity pc]))"

definition setupRouting :: "NodeConfig \<Rightarrow> router \<Rightarrow> router" where
  "setupRouting c r =
     (let r = SetDynamicRealmPeers (SetRelay (SetDefaultRealm r (rcDefaultRealm (nRouting c))) (rcRelayEnabled (nRouting c)))
            (rcDynamicRealmPeers (nRouting c));
          r = add_config_routes c r;
          seen = concat (map (\<lambda>(d, ps). map (Pair d) ps) (rcRealmRoutes (nRouting c)))
      in snd (fold add_peer_route (nPeers c) (seen, r)))"

definition startExtensions :: "int \<Rightarrow> 'x ext_registry \<Rightarrow> ('c, 'p, 'x) server \<Rightarrow> (manager_error + unit) \<times> ('c, 'p, 'x) server" where
  "startExtensions now reg s = (case InitFromConfig now (nExtensions (svConfig s)) (LoadFromRegistry reg NewManager, (svRouter s, svExtState s)) of
     (res, m, (r, x)) \<Rightarrow> (res, s\<lparr>svExtMgr := Some m, svRouter := r, svExtState := x\<rparr>))"

datatype start_error = StartExtensions manager_error | StartListening server_error

definition Server_Start :: "('c, 'p) tls_env \<Rightarrow> ('c, 'p) net_env \<Rightarrow> (byte list \<times> bool) option list option \<Rightarrow> int \<Rightarrow> 'x ext_registry
    \<Rightarrow> ('c, 'p, 'x) server \<Rightarrow> (start_error + unit) \<times> ('c, 'p, 'x) server" where
  "Server_Start tls net ifaces now reg s =
     (let s = s\<lparr>svLocal := Some (local_config ifaces (svConfig s))\<rparr> in
      case startExtensions now reg s of
        (Inl err, s) \<Rightarrow> (Inl (StartExtensions err), s)
      | (Inr _, s) \<Rightarrow>
          (let s = s\<lparr>svRouter := setupRouting (svConfig s) (svRouter s)\<rparr> in
           case startListeners tls net (svConfig s) (svListeners s) of
             (Inl err, ls) \<Rightarrow> (Inl (StartListening err), s\<lparr>svListeners := ls\<rparr>)
           | (Inr _, ls) \<Rightarrow> (Inr (), fold (\<lambda>pc s. if pcConnectOnStart pc then connectToPeer pc s else s)
               (nPeers (svConfig s)) (s\<lparr>svListeners := ls\<rparr>))))"

definition Server_Stop :: "int \<Rightarrow> ('c, 'p, 'x) server \<Rightarrow> ('c, 'p, 'x) server" where
  "Server_Stop now s =
     (let s = (case svExtMgr s of
         None \<Rightarrow> s
       | Some m \<Rightarrow> (case StopAll now (m, (svRouter s, svExtState s)) of
           (_, m, (r, x)) \<Rightarrow> s\<lparr>svExtMgr := Some m, svRouter := r, svExtState := x\<rparr>));
          s = s\<lparr>svCancelled := True\<rparr>
      in fold (\<lambda>ref. update_peer ref (\<lambda>p. p\<lparr>ctxDone := True\<rparr>)) (Peers s) s)"

end
