(* ===== verification/Ext_Manager_Properties.thy ===== *)
theory Ext_Manager_Properties
  imports Ext_Manager
begin

text \<open>
  What the extension manager guarantees: how its operations interleave when several goroutines use it, which life-cycle
  states they can meet in, what a disabled extension leaves behind at the router, and what is started again from the
  list of active extensions. The manager is loaded once, before it is used; extensions are not added afterwards.
\<close>

section \<open>Operations in flight\<close>

datatype 'x mgr_call =
    EnableRun me_ref string ext_config
  | EnableEnd me_ref string ext_config "string + unit"
  | DisableRun me_ref string "'x extCall"
  | DisableEnd me_ref string "string + unit"
  | ReconfigureRun me_ref string ext_config "ext_config \<Rightarrow> 'x extCall"
  | ReconfigureEnd me_ref string ext_config "string + unit"
  | StopNext "string list"
  | StopRun me_ref "'x extCall" "string list"
  | StopDone me_ref "string list"

text \<open>One phase of an operation, and what is left of it.\<close>

fun advance :: "int \<Rightarrow> 'x mgr_call \<Rightarrow> 'x Manager \<times> 'x extWorld \<Rightarrow> ('x Manager \<times> 'x extWorld) \<times> 'x mgr_call list" where
  "advance now (EnableRun p n cfg) (m, w) = (case exInit (meExtension (managed m ! p)) cfg w of (res, w) \<Rightarrow> ((m, w), [EnableEnd p n cfg res]))"
| "advance now (EnableEnd p n cfg res) (m, w) = ((snd (enable_end now n cfg p res m), w), [])"
| "advance now (DisableRun p n stop) (m, w) = (case disable_run n stop w of (res, w) \<Rightarrow> ((m, w), [DisableEnd p n res]))"
| "advance now (DisableEnd p n res) (m, w) = ((snd (disable_end now n p res m), w), [])"
| "advance now (ReconfigureRun p n cfg f) (m, w) = (case f cfg w of (res, w) \<Rightarrow> ((m, w), [ReconfigureEnd p n cfg res]))"
| "advance now (ReconfigureEnd p n cfg res) (m, w) = ((snd (reconfigure_end n cfg p res m), w), [])"
| "advance now (StopNext []) s = (s, [])"
| "advance now (StopNext (n # ns)) (m, w) = (case stop_next n m of
     None \<Rightarrow> ((m, w), [StopNext ns]) | Some (p, stop) \<Rightarrow> ((m, w), [StopRun p stop ns]))"
| "advance now (StopRun p stop ns) (m, w) = (case stop w of (res, w) \<Rightarrow> ((m, w), [StopDone p ns]))"
| "advance now (StopDone p ns) (m, w) = ((stop_done now p m, w), [StopNext ns])"

record 'x mgr_sys =
  sysMgr :: "'x Manager"
  sysWorld :: "'x extWorld"
  sysCalls :: "'x mgr_call list"
  sysShutdown :: bool

text \<open>\<open>Advance now k\<close>: the \<open>k\<close>-th operation in flight runs its next phase. \<open>sysShutdown\<close> records that \<open>StopAll\<close> was called.\<close>

datatype mgr_event =
    CallEnable string ext_config
  | CallDisable string
  | CallReconfigure string ext_config
  | CallStopAll
  | Advance int nat

fun mgr_step :: "'x mgr_sys \<Rightarrow> mgr_event \<Rightarrow> 'x mgr_sys" where
  "mgr_step s (CallEnable n cfg) = (case enable_begin n (sysMgr s) of
     (Inl err, m) \<Rightarrow> s\<lparr>sysMgr := m\<rparr>
   | (Inr p, m) \<Rightarrow> s\<lparr>sysMgr := m, sysCalls := sysCalls s @ [EnableRun p n cfg]\<rparr>)"
| "mgr_step s (CallDisable n) = (case disable_begin n (sysMgr s) of
     (Inl err, m) \<Rightarrow> s\<lparr>sysMgr := m\<rparr>
   | (Inr (p, stop), m) \<Rightarrow> s\<lparr>sysMgr := m, sysCalls := sysCalls s @ [DisableRun p n stop]\<rparr>)"
| "mgr_step s (CallReconfigure n cfg) = (case reconfigure_begin n (sysMgr s) of
     Inl err \<Rightarrow> s
   | Inr (p, f) \<Rightarrow> s\<lparr>sysCalls := sysCalls s @ [ReconfigureRun p n cfg f]\<rparr>)"
| "mgr_step s CallStopAll = s\<lparr>sysCalls := sysCalls s @ [StopNext (rev (initOrder (sysMgr s)))], sysShutdown := True\<rparr>"
| "mgr_step s (Advance now k) =
     (if length (sysCalls s) \<le> k then s
      else case advance now (sysCalls s ! k) (sysMgr s, sysWorld s) of
        ((m, w), cs) \<Rightarrow> s\<lparr>sysMgr := m, sysWorld := w, sysCalls := take k (sysCalls s) @ cs @ drop (Suc k) (sysCalls s)\<rparr>)"

definition loaded :: "'x ext_registry \<Rightarrow> 'x Manager" where "loaded reg = LoadFromRegistry reg NewManager"

definition mgr_start :: "'x ext_registry \<Rightarrow> 'x extWorld \<Rightarrow> 'x mgr_sys" where
  "mgr_start reg w = \<lparr>sysMgr = loaded reg, sysWorld = w, sysCalls = [], sysShutdown = False\<rparr>"

section \<open>Run without interruption, the phases are the operation\<close>

lemma enable_alone:
  assumes "sysCalls s = []"
  shows "foldl mgr_step s [CallEnable n cfg, Advance now 0, Advance now 0]
       = (case Enable now n cfg (sysMgr s, sysWorld s) of (res, m, w) \<Rightarrow> s\<lparr>sysMgr := m, sysWorld := w\<rparr>)"
  using assms by (simp add: Enable_def split: sum.split prod.split)

lemma disable_alone:
  assumes "sysCalls s = []"
  shows "foldl mgr_step s [CallDisable n, Advance now 0, Advance now 0]
       = (case Disable now n (sysMgr s, sysWorld s) of (res, m, w) \<Rightarrow> s\<lparr>sysMgr := m, sysWorld := w\<rparr>)"
  using assms by (simp add: Disable_def split: sum.split prod.split)

lemma reconfigure_alone:
  assumes "sysCalls s = []"
  shows "foldl mgr_step s [CallReconfigure n cfg, Advance now 0, Advance now 0]
       = (case Reconfigure n cfg (sysMgr s, sysWorld s) of (res, m, w) \<Rightarrow> s\<lparr>sysMgr := m, sysWorld := w\<rparr>)"
  using assms by (simp add: Reconfigure_def split: sum.split prod.split)

section \<open>The invariant\<close>

definition mgr_wf :: "'x Manager \<Rightarrow> bool" where
  "mgr_wf m \<longleftrightarrow> distinct (map fst (extensions m)) \<and> distinct (map snd (extensions m)) \<and>
     (\<forall>p \<in> snd ` set (extensions m). p < length (managed m))"

text \<open>An active extension is in the order of initialisation, so \<open>StopAll\<close> and the persisted list see it.\<close>

definition active_listed :: "'x Manager \<Rightarrow> bool" where
  "active_listed m \<longleftrightarrow> (\<forall>(n, p) \<in> set (extensions m). meState (managed m ! p) = StateActive \<longrightarrow> n \<in> set (initOrder m))"

fun enabling :: "me_ref \<Rightarrow> 'x mgr_call \<Rightarrow> bool" where
  "enabling q (EnableRun p n cfg) \<longleftrightarrow> p = q"
| "enabling q (EnableEnd p n cfg res) \<longleftrightarrow> p = q"
| "enabling q _ \<longleftrightarrow> False"

fun disabling :: "me_ref \<Rightarrow> 'x mgr_call \<Rightarrow> bool" where
  "disabling q (DisableRun p n stop) \<longleftrightarrow> p = q"
| "disabling q (DisableEnd p n res) \<longleftrightarrow> p = q"
| "disabling q _ \<longleftrightarrow> False"

fun stopping :: "'x mgr_call \<Rightarrow> bool" where
  "stopping (StopNext ns) \<longleftrightarrow> True"
| "stopping (StopRun p stop ns) \<longleftrightarrow> True"
| "stopping (StopDone p ns) \<longleftrightarrow> True"
| "stopping _ \<longleftrightarrow> False"

text \<open>The name and the address an operation was called with belong together.\<close>

fun call_named :: "'x Manager \<Rightarrow> 'x mgr_call \<Rightarrow> bool" where
  "call_named m (EnableRun p n cfg) \<longleftrightarrow> (n, p) \<in> set (extensions m)"
| "call_named m (EnableEnd p n cfg res) \<longleftrightarrow> (n, p) \<in> set (extensions m)"
| "call_named m (DisableRun p n stop) \<longleftrightarrow> (n, p) \<in> set (extensions m)"
| "call_named m (DisableEnd p n res) \<longleftrightarrow> (n, p) \<in> set (extensions m)"
| "call_named m (ReconfigureRun p n cfg f) \<longleftrightarrow> (n, p) \<in> set (extensions m)"
| "call_named m (ReconfigureEnd p n cfg res) \<longleftrightarrow> (n, p) \<in> set (extensions m)"
| "call_named m (StopNext ns) \<longleftrightarrow> True"
| "call_named m (StopRun p stop ns) \<longleftrightarrow> p \<in> snd ` set (extensions m)"
| "call_named m (StopDone p ns) \<longleftrightarrow> p \<in> snd ` set (extensions m)"

text \<open>The state of an extension says which life-cycle operation is in flight for it, and there is no other.\<close>

definition exclusive :: "'x Manager \<Rightarrow> 'x mgr_call list \<Rightarrow> bool" where
  "exclusive m cs \<longleftrightarrow> list_all (Not \<circ> stopping) cs \<and> (\<forall>p < length (managed m).
     length (filter (enabling p) cs) = of_bool (meState (managed m ! p) = StateInitializing) \<and>
     length (filter (disabling p) cs) = of_bool (meState (managed m ! p) = StateStopping))"

definition mgr_inv :: "'x mgr_sys \<Rightarrow> bool" where
  "mgr_inv s \<longleftrightarrow> mgr_wf (sysMgr s) \<and> active_listed (sysMgr s) \<and> list_all (call_named (sysMgr s)) (sysCalls s) \<and>
     (\<not> sysShutdown s \<longrightarrow> exclusive (sysMgr s) (sysCalls s))"

lemma set_managed_simps [simp]:
  "extensions (set_managed p f m) = extensions m" "initOrder (set_managed p f m) = initOrder m"
  "length (managed (set_managed p f m)) = length (managed m)"
  "p < length (managed m) \<Longrightarrow> managed (set_managed p f m) ! p = f (managed m ! p)"
  "q \<noteq> p \<Longrightarrow> managed (set_managed p f m) ! q = managed m ! q"
  by (simp_all add: set_managed_def)

lemma mgr_wf_same: "extensions m' = extensions m \<Longrightarrow> length (managed m') = length (managed m) \<Longrightarrow> mgr_wf m' = mgr_wf m"
  by (simp add: mgr_wf_def)

lemma mgr_wf_bound: "mgr_wf m \<Longrightarrow> (n, p) \<in> set (extensions m) \<Longrightarrow> p < length (managed m)"
  by (force simp: mgr_wf_def)

lemma mgr_wf_inj: "mgr_wf m \<Longrightarrow> (n, p) \<in> set (extensions m) \<Longrightarrow> (n', p) \<in> set (extensions m) \<Longrightarrow> n' = n"
  unfolding mgr_wf_def distinct_map inj_on_def by (metis fst_conv snd_conv)

lemma mgr_wf_fun: "mgr_wf m \<Longrightarrow> (n, p) \<in> set (extensions m) \<Longrightarrow> (n, q) \<in> set (extensions m) \<Longrightarrow> q = p"
  unfolding mgr_wf_def by (blast dest: eq_key_imp_eq_value)

lemma lookup_managed_Some:
  assumes "mgr_wf m" and "lookup_managed n m = Some (p, me)"
  shows "(n, p) \<in> set (extensions m)" and "me = managed m ! p" and "p < length (managed m)"
  using assms mgr_wf_bound [OF assms(1)] by (auto simp: lookup_managed_def dest: map_of_SomeD)

lemma call_named_same: "extensions m' = extensions m \<Longrightarrow> call_named m' = call_named m"
proof
  fix c assume "extensions m' = extensions m"
  then show "call_named m' c = call_named m c" by (cases c) simp_all
qed

text \<open>Changing one entry keeps the list of active extensions right when the entry is not active, or is listed.\<close>

lemma active_listed_set:
  assumes "mgr_wf m" and "active_listed m" and "(n, p) \<in> set (extensions m)"
    and "extensions m' = extensions m" and "managed m' = (managed m)[p := me]"
    and "\<And>k. k \<in> set (initOrder m) \<Longrightarrow> k \<noteq> n \<Longrightarrow> k \<in> set (initOrder m')"
    and "meState me = StateActive \<Longrightarrow> n \<in> set (initOrder m')"
  shows "active_listed m'"
  unfolding active_listed_def
proof (clarify)
  fix k q assume kq: "(k, q) \<in> set (extensions m')" and act: "meState (managed m' ! q) = StateActive"
  show "k \<in> set (initOrder m')"
  proof (cases "q = p")
    case True
    with kq assms(3,4) have "k = n" using mgr_wf_inj [OF assms(1)] by metis
    moreover have "meState me = StateActive" using act True assms(5) mgr_wf_bound [OF assms(1,3)] by simp
    ultimately show ?thesis using assms(7) by simp
  next
    case False
    with act assms(5) have act': "meState (managed m ! q) = StateActive" by simp
    with kq assms(2,4) have k: "k \<in> set (initOrder m)" by (auto simp: active_listed_def)
    show ?thesis
    proof (cases "k = n")
      case True
      then have "q = p" using mgr_wf_fun [OF assms(1,3)] kq assms(4) by metis
      with False show ?thesis by simp
    qed (use k assms(6) in simp)
  qed
qed

text \<open>Counting operations on an extension while one of them is replaced.\<close>

lemma count_shift:
  fixes a b c :: nat
  assumes "a + of_bool P + c = of_bool Q" and "int b - of_bool P = of_bool Q' - of_bool Q"
  shows "a + b + c = of_bool Q'"
  using assms by (auto simp: of_bool_def split: if_splits)

lemma exclusive_replace:
  assumes "exclusive m (xs @ c # ys)" and "p < length (managed m)" and "length (managed m') = length (managed m)"
    and "\<And>q. q \<noteq> p \<Longrightarrow> managed m' ! q = managed m ! q"
    and "\<And>q. q \<noteq> p \<Longrightarrow> list_all (\<lambda>d. \<not> enabling q d \<and> \<not> disabling q d) (c # ds)"
    and "list_all (Not \<circ> stopping) ds"
    and "int (length (filter (enabling p) ds)) - of_bool (enabling p c)
       = of_bool (meState (managed m' ! p) = StateInitializing) - of_bool (meState (managed m ! p) = StateInitializing)"
    and "int (length (filter (disabling p) ds)) - of_bool (disabling p c)
       = of_bool (meState (managed m' ! p) = StateStopping) - of_bool (meState (managed m ! p) = StateStopping)"
  shows "exclusive m' (xs @ ds @ ys)"
proof -
  have cnt: "length (filter P (xs @ c # ys)) = length (filter P xs) + of_bool (P c) + length (filter P ys)" for P
    by simp
  have "length (filter (enabling q) (xs @ ds @ ys)) = of_bool (meState (managed m' ! q) = StateInitializing) \<and>
      length (filter (disabling q) (xs @ ds @ ys)) = of_bool (meState (managed m' ! q) = StateStopping)"
    if "q < length (managed m')" for q
  proof (cases "q = p")
    case True
    have "length (filter (enabling p) (xs @ c # ys)) = of_bool (meState (managed m ! p) = StateInitializing)"
      "length (filter (disabling p) (xs @ c # ys)) = of_bool (meState (managed m ! p) = StateStopping)"
      using assms(1,2) by (simp_all add: exclusive_def del: filter_append filter.simps)
    from count_shift [OF this(1) [unfolded cnt] assms(7)] count_shift [OF this(2) [unfolded cnt] assms(8)] True
    show ?thesis by (simp add: add.assoc)
  next
    case False
    have "filter (enabling q) ds = []" "filter (disabling q) ds = []" "\<not> enabling q c" "\<not> disabling q c"
      using assms(5) [OF False] by (simp_all add: filter_empty_conv list_all_iff)
    moreover have "length (filter (enabling q) (xs @ c # ys)) = of_bool (meState (managed m ! q) = StateInitializing)"
      "length (filter (disabling q) (xs @ c # ys)) = of_bool (meState (managed m ! q) = StateStopping)"
      using assms(1,3) that by (simp_all add: exclusive_def del: filter_append filter.simps)
    ultimately show ?thesis using assms(4) [OF False] by simp
  qed
  moreover have "list_all (Not \<circ> stopping) (xs @ ds @ ys)" using assms(1,6) by (simp add: exclusive_def)
  ultimately show ?thesis by (simp add: exclusive_def)
qed

lemma enable_end_fields:
  assumes "enable_end now n cfg p res m = (r, m')"
  shows "extensions m' = extensions m" and "\<exists>me. managed m' = (managed m)[p := me] \<and> meState me = (case res of Inl _ \<Rightarrow> StateError | Inr _ \<Rightarrow> StateActive)"
    and "initOrder m' = (case res of Inl _ \<Rightarrow> initOrder m | Inr _ \<Rightarrow> initOrder m @ [n])"
  using assms by (auto simp: enable_end_def set_managed_def split: sum.splits)

lemma disable_end_fields:
  assumes "disable_end now n p res m = (r, m')"
  shows "extensions m' = extensions m" and "\<exists>me. managed m' = (managed m)[p := me] \<and> meState me = (case res of Inl _ \<Rightarrow> StateError | Inr _ \<Rightarrow> StateStopped)"
    and "initOrder m' = (case res of Inl _ \<Rightarrow> initOrder m | Inr _ \<Rightarrow> remove1 n (initOrder m))"
  using assms by (auto simp: disable_end_def set_managed_def split: sum.splits)

lemma reconfigure_end_fields:
  assumes "reconfigure_end n cfg p res m = (r, m')"
  shows "extensions m' = extensions m" and "\<exists>me. managed m' = (managed m)[p := me] \<and> (p < length (managed m) \<longrightarrow> meState me = meState (managed m ! p))"
    and "initOrder m' = initOrder m"
  using assms by (cases res; auto simp: reconfigure_end_def set_managed_def intro: exI [of _ "managed m ! p"])+

text \<open>
  A phase that ends with the entry at \<open>p\<close> rewritten: what has to be checked of the new entry.
\<close>

lemma phase_inv:
  assumes inv: "mgr_wf m" "active_listed m" "list_all (call_named m) (xs @ c # ys)" "b \<longrightarrow> exclusive m (xs @ c # ys)"
    and np: "(n, p) \<in> set (extensions m)"
    and ext: "extensions m' = extensions m" "managed m' = (managed m)[p := me]"
    and order: "\<And>k. k \<in> set (initOrder m) \<Longrightarrow> k \<noteq> n \<Longrightarrow> k \<in> set (initOrder m')"
    and active: "meState me = StateActive \<Longrightarrow> n \<in> set (initOrder m')"
    and named: "list_all (call_named m) ds" and notstop: "list_all (Not \<circ> stopping) ds"
    and here: "\<And>q. q \<noteq> p \<Longrightarrow> list_all (\<lambda>d. \<not> enabling q d \<and> \<not> disabling q d) (c # ds)"
    and counts: "b \<Longrightarrow> int (length (filter (enabling p) ds)) - of_bool (enabling p c)
       = of_bool (meState me = StateInitializing) - of_bool (meState (managed m ! p) = StateInitializing)"
      "b \<Longrightarrow> int (length (filter (disabling p) ds)) - of_bool (disabling p c)
       = of_bool (meState me = StateStopping) - of_bool (meState (managed m ! p) = StateStopping)"
  shows "mgr_wf m' \<and> active_listed m' \<and> list_all (call_named m') (xs @ ds @ ys) \<and> (b \<longrightarrow> exclusive m' (xs @ ds @ ys))"
proof (intro conjI impI)
  have p: "p < length (managed m)" using mgr_wf_bound [OF inv(1) np] .
  show "mgr_wf m'" using inv(1) mgr_wf_same [of m' m] ext by simp
  show "active_listed m'" using active_listed_set [OF inv(1,2) np ext order active] .
  show "list_all (call_named m') (xs @ ds @ ys)" using inv(3) named call_named_same [OF ext(1)] by simp
  assume b
  then have "exclusive m (xs @ c # ys)" using inv(4) by simp
  from this p show "exclusive m' (xs @ ds @ ys)"
    by (rule exclusive_replace) (use ext p here notstop counts [OF \<open>b\<close>] in simp_all)
qed

lemma advance_inv:
  assumes inv: "mgr_wf m" "active_listed m" "list_all (call_named m) (xs @ c # ys)" "b \<longrightarrow> exclusive m (xs @ c # ys)"
    and step: "advance now c (m, w) = ((m', w'), ds)"
  shows "mgr_wf m' \<and> active_listed m' \<and> list_all (call_named m') (xs @ ds @ ys) \<and> (b \<longrightarrow> exclusive m' (xs @ ds @ ys))"
proof -
  have c: "call_named m c" using inv(3) by simp
  have notb: "\<not> b" if "stopping c" using inv(4) that by (auto simp: exclusive_def)
  have keep: "active_listed m \<Longrightarrow> (k, q) \<in> set (extensions m) \<Longrightarrow> meState (managed m ! q) = StateActive \<Longrightarrow> k \<in> set (initOrder m)" for k q
    by (auto simp: active_listed_def)
  show ?thesis
  proof (cases c)
    case (EnableRun p n cfg)
    with step obtain res where s: "m' = m" "ds = [EnableEnd p n cfg res]" by (auto split: prod.splits)
    show ?thesis
      by (rule phase_inv [OF inv, of n p m' "managed m ! p" ds])
        (use c s EnableRun keep [OF inv(2)] in simp_all)
  next
    case (EnableEnd p n cfg res)
    with step have s: "enable_end now n cfg p res m = (fst (enable_end now n cfg p res m), m')" "ds = []" by auto
    from enable_end_fields [OF s(1)] obtain me where e: "extensions m' = extensions m" "managed m' = (managed m)[p := me]"
      "meState me = (case res of Inl _ \<Rightarrow> StateError | Inr _ \<Rightarrow> StateActive)"
      "initOrder m' = (case res of Inl _ \<Rightarrow> initOrder m | Inr _ \<Rightarrow> initOrder m @ [n])" by blast
    have p: "p < length (managed m)" using c EnableEnd mgr_wf_bound [OF inv(1)] by simp
    have st: "meState (managed m ! p) = StateInitializing" if b
    proof -
      have "length (filter (enabling p) (xs @ c # ys)) = of_bool (meState (managed m ! p) = StateInitializing)"
        using inv(4) that p unfolding exclusive_def by blast
      then show ?thesis using EnableEnd by (simp add: of_bool_def split: if_splits)
    qed
    show ?thesis
      by (rule phase_inv [OF inv, of n p m' me ds]) (use c s(2) e EnableEnd st in \<open>simp_all split: sum.splits\<close>)
  next
    case (DisableRun p n stop)
    with step obtain res where s: "m' = m" "ds = [DisableEnd p n res]" by (auto split: prod.splits)
    show ?thesis
      by (rule phase_inv [OF inv, of n p m' "managed m ! p" ds])
        (use c s DisableRun keep [OF inv(2)] in simp_all)
  next
    case (DisableEnd p n res)
    with step have s: "disable_end now n p res m = (fst (disable_end now n p res m), m')" "ds = []" by auto
    from disable_end_fields [OF s(1)] obtain me where e: "extensions m' = extensions m" "managed m' = (managed m)[p := me]"
      "meState me = (case res of Inl _ \<Rightarrow> StateError | Inr _ \<Rightarrow> StateStopped)"
      "initOrder m' = (case res of Inl _ \<Rightarrow> initOrder m | Inr _ \<Rightarrow> remove1 n (initOrder m))" by blast
    have p: "p < length (managed m)" using c DisableEnd mgr_wf_bound [OF inv(1)] by simp
    have st: "meState (managed m ! p) = StateStopping" if b
    proof -
      have "length (filter (disabling p) (xs @ c # ys)) = of_bool (meState (managed m ! p) = StateStopping)"
        using inv(4) that p unfolding exclusive_def by blast
      then show ?thesis using DisableEnd by (simp add: of_bool_def split: if_splits)
    qed
    show ?thesis
      by (rule phase_inv [OF inv, of n p m' me ds]) (use c s(2) e DisableEnd st in \<open>simp_all split: sum.splits\<close>)
  next
    case (ReconfigureRun p n cfg f)
    with step obtain res where s: "m' = m" "ds = [ReconfigureEnd p n cfg res]" by (auto split: prod.splits)
    show ?thesis
      by (rule phase_inv [OF inv, of n p m' "managed m ! p" ds])
        (use c s ReconfigureRun keep [OF inv(2)] in simp_all)
  next
    case (ReconfigureEnd p n cfg res)
    with step have s: "reconfigure_end n cfg p res m = (fst (reconfigure_end n cfg p res m), m')" "ds = []" by auto
    have p: "p < length (managed m)" using c ReconfigureEnd mgr_wf_bound [OF inv(1)] by simp
    with reconfigure_end_fields [OF s(1)] obtain me where e: "extensions m' = extensions m" "managed m' = (managed m)[p := me]"
      "meState me = meState (managed m ! p)" "initOrder m' = initOrder m" by blast
    show ?thesis
      by (rule phase_inv [OF inv, of n p m' me ds]) (use c s(2) e ReconfigureEnd keep [OF inv(2)] in simp_all)
  next
    case (StopNext ns)
    have "m' = m \<and> list_all (call_named m) ds"
    proof (cases ns)
      case (Cons k ks)
      show ?thesis
      proof (cases "stop_next k m")
        case (Some ps)
        then obtain p stop me where ps: "ps = (p, stop)" and look: "lookup_managed k m = Some (p, me)"
          by (auto simp: stop_next_def split: option.splits if_splits)
        from lookup_managed_Some(1) [OF inv(1) look] have "p \<in> snd ` set (extensions m)" by force
        with step StopNext Cons Some ps show ?thesis by (force simp del: image_iff)
      qed (use step StopNext Cons in auto)
    qed (use step StopNext in auto)
    with inv notb StopNext show ?thesis by simp
  next
    case (StopRun p stop ns)
    with step have s: "m' = m" "ds = [StopDone p ns]" by (auto split: prod.splits)
    with inv notb c StopRun show ?thesis by simp
  next
    case (StopDone p ns)
    with step have s: "m' = stop_done now p m" "ds = [StopNext ns]" by auto
    from c StopDone obtain n where n: "(n, p) \<in> set (extensions m)" by auto
    have e: "extensions m' = extensions m" "initOrder m' = initOrder m"
      "managed m' = (managed m)[p := (managed m ! p)\<lparr>meState := StateStopped, meStoppedAt := Some now\<rparr>]"
      by (simp_all add: s(1) stop_done_def set_managed_def)
    have "active_listed m'" by (rule active_listed_set [OF inv(1,2) n e(1,3)]) (simp_all add: e(2))
    moreover have "mgr_wf m'" using mgr_wf_same [of m' m] e inv(1) by simp
    ultimately show ?thesis using notb StopDone s(2) inv(3) call_named_same [OF e(1)] by simp
  qed
qed

lemma mgr_step_inv: "mgr_inv s \<Longrightarrow> mgr_inv (mgr_step s e)"
proof (cases e)
  case (CallEnable n cfg)
  assume inv: "mgr_inv s"
  show ?thesis
  proof (cases "enable_begin n (sysMgr s)")
    case (Pair r m')
    show ?thesis
    proof (cases r)
      case (Inl err)
      then have "m' = sysMgr s" using Pair by (auto simp: enable_begin_def split: option.splits if_splits)
      then show ?thesis using inv Pair Inl CallEnable by (simp add: mgr_inv_def)
    next
      case (Inr p)
      with Pair obtain me where look: "lookup_managed n (sysMgr s) = Some (p, me)"
        and st: "meState me \<noteq> StateActive" "meState me \<noteq> StateInitializing" "meState me \<noteq> StateStopping"
        and m': "m' = set_managed p (\<lambda>me. me\<lparr>meState := StateInitializing\<rparr>) (sysMgr s)"
        by (auto simp: enable_begin_def split: option.splits if_splits)
      have wf: "mgr_wf (sysMgr s)" and act: "active_listed (sysMgr s)" using inv by (auto simp: mgr_inv_def)
      note l = lookup_managed_Some [OF wf look]
      let ?me = "(managed (sysMgr s) ! p)\<lparr>meState := StateInitializing\<rparr>"
      have e: "extensions m' = extensions (sysMgr s)" "managed m' = (managed (sysMgr s))[p := ?me]" "initOrder m' = initOrder (sysMgr s)"
        using m' by (simp_all add: set_managed_def)
      have "active_listed m'" by (rule active_listed_set [OF wf act l(1) e(1,2)]) (simp_all add: e(3))
      moreover have "mgr_wf m'" using mgr_wf_same [of m' "sysMgr s"] e wf by simp
      moreover have "exclusive m' (sysCalls s @ [EnableRun p n cfg])" if "\<not> sysShutdown s"
      proof -
        have ex: "exclusive (sysMgr s) (sysCalls s)" using inv that by (simp add: mgr_inv_def)
        then show ?thesis using st l e by (auto simp: exclusive_def nth_list_update)
      qed
      ultimately show ?thesis using inv l(1) Pair Inr CallEnable call_named_same [OF e(1)] e(1) by (simp add: mgr_inv_def)
    qed
  qed
next
  case (CallDisable n)
  assume inv: "mgr_inv s"
  show ?thesis
  proof (cases "disable_begin n (sysMgr s)")
    case (Pair r m')
    show ?thesis
    proof (cases r)
      case (Inl err)
      then have "m' = sysMgr s" using Pair by (auto simp: disable_begin_def split: option.splits if_splits)
      then show ?thesis using inv Pair Inl CallDisable by (simp add: mgr_inv_def)
    next
      case (Inr ps)
      with Pair obtain p stop me where ps: "ps = (p, stop)" and look: "lookup_managed n (sysMgr s) = Some (p, me)"
        and st: "meState me = StateActive" and m': "m' = set_managed p (\<lambda>me. me\<lparr>meState := StateStopping\<rparr>) (sysMgr s)"
        by (auto simp: disable_begin_def split: option.splits if_splits)
      have wf: "mgr_wf (sysMgr s)" and act: "active_listed (sysMgr s)" using inv by (auto simp: mgr_inv_def)
      note l = lookup_managed_Some [OF wf look]
      let ?me = "(managed (sysMgr s) ! p)\<lparr>meState := StateStopping\<rparr>"
      have e: "extensions m' = extensions (sysMgr s)" "managed m' = (managed (sysMgr s))[p := ?me]" "initOrder m' = initOrder (sysMgr s)"
        using m' by (simp_all add: set_managed_def)
      have "active_listed m'" by (rule active_listed_set [OF wf act l(1) e(1,2)]) (simp_all add: e(3))
      moreover have "mgr_wf m'" using mgr_wf_same [of m' "sysMgr s"] e wf by simp
      moreover have "exclusive m' (sysCalls s @ [DisableRun p n stop])" if "\<not> sysShutdown s"
      proof -
        have ex: "exclusive (sysMgr s) (sysCalls s)" using inv that by (simp add: mgr_inv_def)
        then show ?thesis using st l e by (auto simp: exclusive_def nth_list_update)
      qed
      ultimately show ?thesis using inv l(1) Pair Inr ps CallDisable call_named_same [OF e(1)] e(1) by (simp add: mgr_inv_def)
    qed
  qed
next
  case (CallReconfigure n cfg)
  assume inv: "mgr_inv s"
  show ?thesis
  proof (cases "reconfigure_begin n (sysMgr s)")
    case (Inr pf)
    then obtain p f me where "pf = (p, f)" "lookup_managed n (sysMgr s) = Some (p, me)"
      by (auto simp: reconfigure_begin_def split: option.splits if_splits)
    moreover from this have "(n, p) \<in> set (extensions (sysMgr s))" using inv lookup_managed_Some(1) by (auto simp: mgr_inv_def)
    ultimately show ?thesis using inv Inr CallReconfigure by (simp add: mgr_inv_def exclusive_def)
  qed (use inv CallReconfigure in simp)
next
  case CallStopAll
  assume "mgr_inv s"
  with CallStopAll show ?thesis by (simp add: mgr_inv_def)
next
  case (Advance now k)
  assume inv: "mgr_inv s"
  show ?thesis
  proof (cases "length (sysCalls s) \<le> k")
    case False
    then have split: "sysCalls s = take k (sysCalls s) @ sysCalls s ! k # drop (Suc k) (sysCalls s)"
      by (simp add: id_take_nth_drop)
    obtain m' w' ds where step: "advance now (sysCalls s ! k) (sysMgr s, sysWorld s) = ((m', w'), ds)"
      by (metis prod.exhaust)
    have "mgr_wf m' \<and> active_listed m' \<and> list_all (call_named m') (take k (sysCalls s) @ ds @ drop (Suc k) (sysCalls s)) \<and>
        (\<not> sysShutdown s \<longrightarrow> exclusive m' (take k (sysCalls s) @ ds @ drop (Suc k) (sysCalls s)))"
      by (rule advance_inv [OF _ _ _ _ step, where b = "\<not> sysShutdown s"]) (use inv split in \<open>simp_all add: mgr_inv_def\<close>)
    with step False Advance show ?thesis by (simp add: mgr_inv_def)
  qed (use inv Advance in simp)
qed

interpretation ext_mgr: machine mgr_step mgr_inv
  by unfold_locales (rule mgr_step_inv)

section \<open>The loaded manager\<close>

lemma update_refs: "snd ` set (AList.update n k xs) \<subseteq> insert k (snd ` set xs)"
  by (induction xs) auto

lemma update_refs_distinct: "distinct (map snd xs) \<Longrightarrow> k \<notin> snd ` set xs \<Longrightarrow> distinct (map snd (AList.update n k xs))"
proof (induction xs)
  case (Cons a xs)
  obtain n' v where a: "a = (n', v)" by (cases a)
  have "v \<notin> snd ` set (AList.update n k xs)" using Cons.prems update_refs [of n k xs] a by auto
  moreover have "distinct (map snd (AList.update n k xs))" using Cons by simp
  ultimately show ?case using Cons.prems a by simp
qed simp

lemma add_named_wf:
  assumes "mgr_wf m"
  shows "mgr_wf (add_named n e m)"
proof -
  let ?ps = "AList.update n (length (managed m)) (extensions m)"
  have new: "length (managed m) \<notin> snd ` set (extensions m)" using assms by (auto simp: mgr_wf_def)
  have "distinct (map fst ?ps)" using assms by (simp add: mgr_wf_def distinct_update)
  moreover have "distinct (map snd ?ps)" by (rule update_refs_distinct) (use assms new in \<open>simp_all add: mgr_wf_def\<close>)
  moreover have "\<forall>p \<in> snd ` set ?ps. p < Suc (length (managed m))"
  proof
    fix p assume "p \<in> snd ` set ?ps"
    then have "p \<in> insert (length (managed m)) (snd ` set (extensions m))" using update_refs by (rule rev_subsetD)
    then show "p < Suc (length (managed m))" using assms by (auto simp: mgr_wf_def)
  qed
  ultimately show ?thesis by (simp add: mgr_wf_def add_named_def)
qed

definition all_registered :: "'x Manager \<Rightarrow> bool" where
  "all_registered m \<longleftrightarrow> (\<forall>me \<in> set (managed m). meState me = StateRegistered) \<and> initOrder m = []"

lemma loaded_wf: "mgr_wf (loaded reg) \<and> all_registered (loaded reg)"
proof -
  have "mgr_wf m \<and> all_registered m \<Longrightarrow> mgr_wf (fold (\<lambda>(n, e). add_named n e) reg m) \<and> all_registered (fold (\<lambda>(n, e). add_named n e) reg m)" for m
  proof (induction reg arbitrary: m)
    case (Cons a reg)
    obtain n e where a: "a = (n, e)" by (cases a)
    have "mgr_wf (add_named n e m) \<and> all_registered (add_named n e m)"
      using Cons.prems add_named_wf [of m n e] by (auto simp: all_registered_def add_named_def new_managed_def)
    from Cons.IH [OF this] show ?case by (simp add: a)
  qed simp
  from this [of NewManager] show ?thesis
    by (simp add: loaded_def LoadFromRegistry_def GetAll_def NewManager_def mgr_wf_def all_registered_def)
qed

lemma mgr_start_inv: "mgr_inv (mgr_start reg w)"
proof -
  have reg: "meState (managed (loaded reg) ! p) = StateRegistered" if "p < length (managed (loaded reg))" for p
    using loaded_wf [of reg] that by (simp add: all_registered_def)
  have "active_listed (loaded reg)"
    using loaded_wf [of reg] reg mgr_wf_bound [of "loaded reg"] by (fastforce simp: active_listed_def)
  with loaded_wf [of reg] reg show ?thesis by (simp add: mgr_inv_def mgr_start_def exclusive_def)
qed

lemma shutdown_iff: "sysShutdown (foldl mgr_step s es) \<longleftrightarrow> sysShutdown s \<or> CallStopAll \<in> set es"
proof (induction es arbitrary: s)
  case (Cons e es)
  have "sysShutdown (mgr_step s e) \<longleftrightarrow> sysShutdown s \<or> e = CallStopAll"
    by (cases e) (simp_all split: sum.split prod.split)
  then show ?case by (auto simp: Cons.IH)
qed simp

lemma reachable_mgr_inv: "mgr_inv (foldl mgr_step (mgr_start reg w) es)"
  by (rule ext_mgr.run_inv [OF mgr_start_inv])

section \<open>Properties\<close>

text \<open>
  C30: however calls of \<open>Enable\<close>, \<open>Disable\<close> and \<open>Reconfigure\<close> from several goroutines interleave, with the lock given up while an
  extension runs, an extension has at most one life-cycle operation in flight, and it has one exactly while its state says so;
  so \<open>Init\<close> and \<open>Stop\<close> of one extension never overlap. (\<open>StopAll\<close> is left out: it does not set the state.)
\<close>

theorem lifecycle_operations_exclude_each_other:
  assumes "CallStopAll \<notin> set es" and "s = foldl mgr_step (mgr_start reg w) es" and "(n, p) \<in> set (extensions (sysMgr s))"
  shows "length (filter (\<lambda>c. enabling p c \<or> disabling p c) (sysCalls s))
       = of_bool (meState (managed (sysMgr s) ! p) \<in> {StateInitializing, StateStopping})"
proof -
  have inv: "mgr_inv s" using reachable_mgr_inv assms(2) by simp
  moreover have "\<not> sysShutdown s" using shutdown_iff [of "mgr_start reg w" es] assms(1,2) by (simp add: mgr_start_def)
  moreover have "p < length (managed (sysMgr s))" using inv mgr_wf_bound assms(3) by (auto simp: mgr_inv_def)
  ultimately have en: "length (filter (enabling p) (sysCalls s)) = of_bool (meState (managed (sysMgr s) ! p) = StateInitializing)"
    and dis: "length (filter (disabling p) (sysCalls s)) = of_bool (meState (managed (sysMgr s) ! p) = StateStopping)"
    by (auto simp: mgr_inv_def exclusive_def)
  have disjoint: "\<not> (enabling p c \<and> disabling p c)" for c :: "'a mgr_call" by (cases c) simp_all
  have "length (filter (\<lambda>c. enabling p c \<or> disabling p c) cs) = length (filter (enabling p) cs) + length (filter (disabling p) cs)" for cs :: "'a mgr_call list"
    using disjoint by (induction cs) auto
  then show ?thesis using en dis by auto
qed

section \<open>What a disabled extension leaves behind\<close>

text \<open>
  An extension whose \<open>Stop\<close> leaves the router alone: the manager itself has to take its handlers away. The modelled
  extensions are of this kind.
\<close>

locale passive_stop =
  fixes ext :: "'x Extension" and stop :: "'x extCall"
  assumes stoppable: "exStop ext = Some stop"
    and stop_router: "fst (snd (stop (r, x))) = r"
begin

lemma disable_router:
  assumes "lookup_managed n m = Some (p, me)" and "meExtension me = ext" and "meState me = StateActive"
    and "Disable now n (m, (r, x)) = (res, m', (r', x'))"
  shows "r' = DeregisterAllByOwner r n"
proof -
  have b: "disable_begin n m = (Inr (p, stop), set_managed p (\<lambda>me. me\<lparr>meState := StateStopping\<rparr>) m)"
    using assms(1-3) by (simp add: disable_begin_def stoppable)
  obtain sr r1 x1 where s: "stop (DeregisterAllByOwner r n, x) = (sr, r1, x1)" by (metis prod.exhaust)
  with stop_router [of "DeregisterAllByOwner r n" x] have "r1 = DeregisterAllByOwner r n" by simp
  with assms(4) b s show ?thesis by (auto simp: Disable_def disable_run_def split: prod.splits)
qed

lemma disable_handlers:
  assumes "lookup_managed n m = Some (p, me)" and "meExtension me = ext" and "meState me = StateActive"
    and "Disable now n (m, (r, x)) = (res, m', (r', x'))"
  shows "inHandlers r' = filter (\<lambda>h. iOwner h \<noteq> n) (inHandlers r)" and "outHandlers r' = filter (\<lambda>h. oOwner h \<noteq> n) (outHandlers r)"
    and "dispatchHandlers r' a = (if dispatchOwner r a = Some n then None else dispatchHandlers r a)"
  using disable_router [OF assms] by (simp_all add: DeregisterAllByOwner_def)

end

text \<open>
  The extensions that serve an application (\<open>app_s6a\<close>, \<open>app_cx\<close>, \<open>app_gx\<close>, ...) register a dispatch handler with
  \<open>RegisterDispatchHandler\<close> and have nothing to stop.
\<close>

definition app_s6a :: "DispatchHandler \<Rightarrow> 'x Extension" where
  "app_s6a handleS6a = \<lparr>exName = ''app_s6a'',
     exInit = (\<lambda>cfg (r, x). (Inr (), RegisterDispatchHandler r AppID3GPPS6a handleS6a, x)),
     exStop = Some (\<lambda>w. (Inr (), w)), exReconfigure = None, exHealthCheck = None, exMetrics = None\<rparr>"

interpretation s6a: passive_stop "app_s6a h" "\<lambda>w. (Inr (), w)" for h
  by unfold_locales (simp_all add: app_s6a_def)

lemma lookup_loaded_one:
  "lookup_managed n (loaded [(n, e)]) = Some (0, new_managed e)" "managed (loaded [(n, e)]) = [new_managed e]"
  "initOrder (loaded [(n, e)]) = []"
  by (simp_all add: loaded_def LoadFromRegistry_def GetAll_def NewManager_def add_named_def lookup_managed_def)

text \<open>
  \<open>Disable\<close> says it deregisters an extension's router handlers, but \<open>RegisterDispatchHandler\<close> records no owner, so a
  disabled application extension keeps serving its application: its state is stopped and the router still dispatches to it.
\<close>

theorem disabled_application_still_dispatched:
  "case Enable t ''app_s6a'' cfg (loaded [(''app_s6a'', app_s6a h)], (r, x)) of (res1, m1, w1) \<Rightarrow>
   case Disable t' ''app_s6a'' (m1, w1) of (res2, m2, (r2, x2)) \<Rightarrow>
     res1 = Inr () \<and> res2 = Inr () \<and> map_option miState (Mgr_Get ''app_s6a'' m2) = Some ''stopped'' \<and>
     dispatchHandlers r2 AppID3GPPS6a = Some h"
proof -
  have en: "Enable t ''app_s6a'' cfg (loaded [(''app_s6a'', app_s6a h)], (r, x)) =
      (Inr (), \<lparr>extensions = [(''app_s6a'', 0)], managed = [(new_managed (app_s6a h))\<lparr>meState := StateActive, meConfig := cfg,
         meError := '''', meStartedAt := Some t, meStoppedAt := None\<rparr>], initOrder = [''app_s6a'']\<rparr>,
       (RegisterDispatchHandler r AppID3GPPS6a h, x))"
    by (simp add: Enable_def enable_begin_def lookup_managed_def loaded_def LoadFromRegistry_def GetAll_def NewManager_def
        add_named_def new_managed_def app_s6a_def set_managed_def enable_end_def)
  show ?thesis
    unfolding en
    by (simp add: Disable_def disable_begin_def lookup_managed_def new_managed_def app_s6a_def disable_run_def disable_end_def
        set_managed_def Mgr_Get_def info_of_def ExtState_String_def DeregisterAllByOwner_def RegisterDispatchHandler_def
        RegisterDispatchHandlerWithOwner_def)
qed

section \<open>Starting again from the list of active extensions\<close>

lemma Enable_success:
  assumes "mgr_wf m" and "lookup_managed n m = Some (p, me)" and "meState me \<in> {StateRegistered, StateStopped, StateError}"
    and "exInit (meExtension me) cfg w = (Inr (), w')"
  obtains m' where "Enable now n cfg (m, w) = (Inr (), m', w')" and "extensions m' = extensions m"
    and "managed m' = (managed m)[p := me\<lparr>meState := StateActive, meConfig := cfg, meError := '''', meStartedAt := Some now, meStoppedAt := None\<rparr>]"
    and "initOrder m' = initOrder m @ [n]"
proof -
  note l = lookup_managed_Some [OF assms(1,2)]
  have "enable_begin n m = (Inr p, set_managed p (\<lambda>me. me\<lparr>meState := StateInitializing\<rparr>) m)"
    using assms(2,3) by (auto simp: enable_begin_def)
  moreover have "exInit (meExtension (managed (set_managed p (\<lambda>me. me\<lparr>meState := StateInitializing\<rparr>) m) ! p)) cfg w = (Inr (), w')"
    using l assms(4) by simp
  ultimately have "Enable now n cfg (m, w) = (Inr (), snd (enable_end now n cfg p (Inr ()) (set_managed p (\<lambda>me. me\<lparr>meState := StateInitializing\<rparr>) m)), w')"
    by (simp add: Enable_def enable_end_def)
  then show ?thesis
    by (rule that) (use l in \<open>simp_all add: enable_end_def set_managed_def\<close>)
qed

definition startable :: "'x Manager \<Rightarrow> ExtensionConfig \<Rightarrow> bool" where
  "startable m c \<longleftrightarrow> (\<exists>p me. lookup_managed (ecName c) m = Some (p, me) \<and> meState me \<in> {StateRegistered, StateStopped, StateError} \<and>
     (\<forall>w. fst (exInit (meExtension me) (ecConfig c) w) = Inr ()))"

definition active_config :: "'x Manager \<Rightarrow> string \<Rightarrow> ExtensionConfig option" where
  "active_config m n = (case lookup_managed n m of
     None \<Rightarrow> None | Some (p, me) \<Rightarrow> if meState me \<noteq> StateActive then None else Some \<lparr>ecName = n, ecConfig = meConfig me\<rparr>)"

lemma ActiveExtensionConfigs_alt: "ActiveExtensionConfigs m = List.map_filter (active_config m) (initOrder m)"
  by (simp add: ActiveExtensionConfigs_def active_config_def [abs_def])

lemma map_filter_cong: "(\<And>x. x \<in> set xs \<Longrightarrow> f x = g x) \<Longrightarrow> List.map_filter f xs = List.map_filter g xs"
  by (induction xs) (simp_all add: List.map_filter_def)

lemma Enable_startable:
  assumes "mgr_wf m" and "startable m c" and "ecName c \<notin> set (initOrder m)"
  obtains m' w' where "Enable now (ecName c) (ecConfig c) (m, w) = (Inr (), m', w')" and "mgr_wf m'"
    and "initOrder m' = initOrder m @ [ecName c]" and "ActiveExtensionConfigs m' = ActiveExtensionConfigs m @ [c]"
    and "\<And>d. ecName d \<noteq> ecName c \<Longrightarrow> startable m d \<Longrightarrow> startable m' d"
proof -
  obtain p me where look: "lookup_managed (ecName c) m = Some (p, me)"
    and st: "meState me \<in> {StateRegistered, StateStopped, StateError}"
    and init: "fst (exInit (meExtension me) (ecConfig c) w) = Inr ()" using assms(2) unfolding startable_def by blast
  obtain w' where w': "exInit (meExtension me) (ecConfig c) w = (Inr (), w')" using init by (metis prod.collapse)
  note l = lookup_managed_Some [OF assms(1) look]
  let ?me = "me\<lparr>meState := StateActive, meConfig := ecConfig c, meError := '''', meStartedAt := Some now, meStoppedAt := None\<rparr>"
  obtain m' where e: "Enable now (ecName c) (ecConfig c) (m, w) = (Inr (), m', w')" "extensions m' = extensions m"
    "managed m' = (managed m)[p := ?me]" "initOrder m' = initOrder m @ [ecName c]"
    using Enable_success [OF assms(1) look st w', of now] by blast
  have other: "lookup_managed n m' = lookup_managed n m" if "n \<noteq> ecName c" for n
  proof (cases "map_of (extensions m) n")
    case (Some q)
    have "q \<noteq> p" using mgr_wf_inj [OF assms(1) l(1), of n] Some that by (auto dest: map_of_SomeD)
    then show ?thesis by (simp add: lookup_managed_def e Some)
  qed (simp add: lookup_managed_def e)
  have here: "lookup_managed (ecName c) m' = Some (p, ?me)"
    using look l(3) by (auto simp: lookup_managed_def e)
  have "List.map_filter (active_config m') (initOrder m) = List.map_filter (active_config m) (initOrder m)"
  proof (rule map_filter_cong)
    fix n assume "n \<in> set (initOrder m)"
    with assms(3) have "n \<noteq> ecName c" by auto
    then show "active_config m' n = active_config m n" by (simp add: active_config_def other)
  qed
  moreover have "active_config m' (ecName c) = Some c" by (simp add: active_config_def here)
  ultimately have "ActiveExtensionConfigs m' = ActiveExtensionConfigs m @ [c]"
    by (simp add: ActiveExtensionConfigs_alt e List.map_filter_def)
  moreover have "mgr_wf m'" using mgr_wf_same [of m' m] e assms(1) by simp
  ultimately show ?thesis using that e(1,4) by (simp add: startable_def other)
qed

text \<open>
  A node that starts from the list of extensions it persisted gets the same extensions, with the same
  configurations and in the same order, when each can be initialised and none is listed twice.
\<close>

theorem restart_restores_extensions:
  assumes "mgr_wf m" and "initOrder m = []" and "distinct (map ecName cs)" and "\<forall>c \<in> set cs. startable m c"
  shows "\<exists>m' w'. InitFromConfig now cs (m, w) = (Inr (), m', w') \<and> ActiveExtensionConfigs m' = cs"
proof -
  have gen: "\<exists>m' w'. InitFromConfig now cs (m, w) = (Inr (), m', w') \<and> ActiveExtensionConfigs m' = ActiveExtensionConfigs m @ cs"
    if "mgr_wf m" "distinct (map ecName cs)" "\<forall>c \<in> set cs. startable m c" "\<forall>c \<in> set cs. ecName c \<notin> set (initOrder m)"
    for m :: "'a Manager" and w cs
    using that
  proof (induction cs arbitrary: m w)
    case (Cons c cs)
    obtain m1 w1 where s: "Enable now (ecName c) (ecConfig c) (m, w) = (Inr (), m1, w1)" "mgr_wf m1"
      "initOrder m1 = initOrder m @ [ecName c]" "ActiveExtensionConfigs m1 = ActiveExtensionConfigs m @ [c]"
      "\<And>d. ecName d \<noteq> ecName c \<Longrightarrow> startable m d \<Longrightarrow> startable m1 d"
      using Enable_startable [of m c now w] Cons.prems by (metis list.set_intros(1))
    have "\<forall>d \<in> set cs. startable m1 d" "\<forall>d \<in> set cs. ecName d \<notin> set (initOrder m1)"
      using Cons.prems s(3,5) by (auto simp: image_iff)
    with Cons.IH [of m1 w1] Cons.prems(2) s(1,2,4) show ?case by auto
  qed simp
  have "ActiveExtensionConfigs m = []" by (simp add: ActiveExtensionConfigs_alt assms(2) List.map_filter_def)
  with gen [OF assms(1,3,4)] assms(2) show ?thesis by simp
qed

text \<open>
  When \<open>Stop\<close> fails, \<open>Disable\<close> leaves the extension in the order of initialisation; enabling it again appends it a second
  time. It is then listed twice among the active extensions, and a node that starts from that list refuses to start.
\<close>

theorem failed_stop_lists_extension_twice:
  assumes init: "\<And>w. \<exists>w'. exInit e cfg w = (Inr (), w')" and stop: "exStop e = Some (\<lambda>w. (Inl err, w))"
  shows "\<exists>m w. snd (Enable t3 n cfg (snd (Disable t2 n (snd (Enable t1 n cfg (loaded [(n, e)], w0)))))) = (m, w) \<and>
     ActiveExtensionConfigs m = [\<lparr>ecName = n, ecConfig = cfg\<rparr>, \<lparr>ecName = n, ecConfig = cfg\<rparr>] \<and>
     fst (InitFromConfig t (ActiveExtensionConfigs m) (loaded [(n, e)], w0)) = Inl (FailedToInitialize n (AlreadyActive n))"
proof -
  obtain w1 where w1: "exInit e cfg w0 = (Inr (), w1)" using init by blast
  define me where "me t = (new_managed e)\<lparr>meState := StateActive, meConfig := cfg, meError := '''', meStartedAt := Some t, meStoppedAt := None\<rparr>" for t
  have en: "Enable t n cfg (loaded [(n, e)], w0) = (Inr (), \<lparr>extensions = [(n, 0)], managed = [me t], initOrder = [n]\<rparr>, w1)" for t
    by (simp add: Enable_def enable_begin_def lookup_managed_def loaded_def LoadFromRegistry_def GetAll_def NewManager_def
        add_named_def new_managed_def set_managed_def enable_end_def w1 me_def)
  obtain w2 where w2: "Disable t2 n (\<lparr>extensions = [(n, 0)], managed = [me t1], initOrder = [n]\<rparr>, w1)
      = (Inl (FailedToStop n err), \<lparr>extensions = [(n, 0)], managed = [(me t1)\<lparr>meState := StateError, meError := stop_failed err\<rparr>],
           initOrder = [n]\<rparr>, w2)"
    by (cases w1) (simp add: Disable_def disable_begin_def lookup_managed_def me_def new_managed_def stop disable_run_def
        disable_end_def set_managed_def)
  obtain w3 where w3: "exInit e cfg w2 = (Inr (), w3)" using init by blast
  have again: "Enable t3 n cfg (\<lparr>extensions = [(n, 0)], managed = [(me t1)\<lparr>meState := StateError, meError := stop_failed err\<rparr>],
      initOrder = [n]\<rparr>, w2) = (Inr (), \<lparr>extensions = [(n, 0)], managed = [me t3], initOrder = [n, n]\<rparr>, w3)"
    by (simp add: Enable_def enable_begin_def lookup_managed_def set_managed_def enable_end_def me_def new_managed_def w3)
  have configs: "ActiveExtensionConfigs \<lparr>extensions = [(n, 0)], managed = [me t3], initOrder = [n, n]\<rparr>
      = [\<lparr>ecName = n, ecConfig = cfg\<rparr>, \<lparr>ecName = n, ecConfig = cfg\<rparr>]"
    by (simp add: ActiveExtensionConfigs_def List.map_filter_def lookup_managed_def me_def)
  have "Enable t n cfg (\<lparr>extensions = [(n, 0)], managed = [me t], initOrder = [n]\<rparr>, w1)
      = (Inl (AlreadyActive n), \<lparr>extensions = [(n, 0)], managed = [me t], initOrder = [n]\<rparr>, w1)"
    by (simp add: Enable_def enable_begin_def lookup_managed_def me_def)
  then have "fst (InitFromConfig t [\<lparr>ecName = n, ecConfig = cfg\<rparr>, \<lparr>ecName = n, ecConfig = cfg\<rparr>] (loaded [(n, e)], w0))
      = Inl (FailedToInitialize n (AlreadyActive n))"
    by (simp add: en)
  with en [of t1] w2 again configs show ?thesis by simp
qed

section \<open>Shutdown\<close>

lemma lookup_stop_done:
  "p < length (managed m) \<Longrightarrow> lookup_managed n (stop_done now p m) = (case lookup_managed n m of None \<Rightarrow> None
     | Some (q, me) \<Rightarrow> Some (q, if q = p then me\<lparr>meState := StateStopped, meStoppedAt := Some now\<rparr> else me))"
  by (cases "map_of (extensions m) n") (simp_all add: lookup_managed_def stop_done_def set_managed_def nth_list_update)

definition running_stoppable :: "'x Manager \<Rightarrow> string \<Rightarrow> bool" where
  "running_stoppable m n \<longleftrightarrow> (case lookup_managed n m of None \<Rightarrow> False
     | Some (p, me) \<Rightarrow> meState me = StateActive \<and> exStop (meExtension me) \<noteq> None)"

lemma stop_next_None: "stop_next n m = None \<longleftrightarrow> \<not> running_stoppable m n"
  by (auto simp: stop_next_def running_stoppable_def split: option.splits prod.splits if_splits)

lemma stop_each_stops:
  assumes "mgr_wf m" and "stop_each now ns lastErr (m, w) = (res, m', w')"
  shows "(\<forall>n. running_stoppable m' n \<longrightarrow> running_stoppable m n) \<and> (\<forall>n \<in> set ns. \<not> running_stoppable m' n)"
  using assms
proof (induction ns arbitrary: lastErr m w)
  case (Cons n ns)
  show ?case
  proof (cases "stop_next n m")
    case None
    with Cons.prems have "stop_each now ns lastErr (m, w) = (res, m', w')" by simp
    from Cons.IH [OF Cons.prems(1) this] None show ?thesis by (auto simp: stop_next_None)
  next
    case (Some ps)
    then obtain p stop me where ps: "ps = (p, stop)" and look: "lookup_managed n m = Some (p, me)"
      by (auto simp: stop_next_def split: option.splits if_splits)
    note l = lookup_managed_Some [OF Cons.prems(1) look]
    obtain r w1 where s: "stop w = (r, w1)" by (cases "stop w")
    have wf: "mgr_wf (stop_done now p m)"
      using mgr_wf_same [of "stop_done now p m" m] Cons.prems(1) by (simp add: stop_done_def)
    have sub: "running_stoppable (stop_done now p m) k \<longrightarrow> running_stoppable m k" for k
      using l(3) by (auto simp: running_stoppable_def lookup_stop_done split: option.splits prod.splits if_splits)
    have n: "\<not> running_stoppable (stop_done now p m) n"
      using look l(3) by (simp add: running_stoppable_def lookup_stop_done)
    from Cons.prems(2) Some ps s
    have "stop_each now ns (case r of Inl err \<Rightarrow> Inl err | Inr _ \<Rightarrow> lastErr) (stop_done now p m, w1) = (res, m', w')" by simp
    from Cons.IH [OF wf this] sub n show ?thesis by auto
  qed
qed simp

text \<open>
  Whatever was enabled, disabled and reconfigured before, and however those calls interleaved, \<open>StopAll\<close> leaves no extension
  that can be stopped active.
\<close>

theorem shutdown_stops_every_stoppable_extension:
  assumes "s = foldl mgr_step (mgr_start reg w) es" and "StopAll now (sysMgr s, sysWorld s) = (res, m', w')"
    and "lookup_managed n m' = Some (p, me)" and "exStop (meExtension me) \<noteq> None"
  shows "meState me \<noteq> StateActive"
proof
  assume act: "meState me = StateActive"
  have inv: "mgr_wf (sysMgr s)" "active_listed (sysMgr s)" using reachable_mgr_inv [of reg w es] assms(1) by (auto simp: mgr_inv_def)
  have run: "running_stoppable m' n" using assms(3,4) act by (auto simp: running_stoppable_def)
  from assms(2) have "stop_each now (rev (initOrder (sysMgr s))) (Inr ()) (sysMgr s, sysWorld s) = (res, m', w')"
    by (simp add: StopAll_def)
  from stop_each_stops [OF inv(1) this] run
  have was: "running_stoppable (sysMgr s) n" and "n \<notin> set (initOrder (sysMgr s))" by auto
  moreover have "n \<in> set (initOrder (sysMgr s))"
    using was inv(2) by (auto simp: running_stoppable_def active_listed_def lookup_managed_def split: option.splits dest!: map_of_SomeD)
  ultimately show False by simp
qed

text \<open>
  \<open>StopAll\<close> does not mark an extension as stopping while it stops it, so a \<open>Disable\<close> that begins before calls \<open>Stop\<close> of the same
  extension again: one \<open>Enable\<close> is followed by two calls of \<open>Stop\<close>.
\<close>

theorem shutdown_and_disable_both_stop:
  assumes "exInit e cfg w = (Inr (), w1)" and "exStop e = Some stop" and "stop w1 = (r1, w2)"
  shows "sysWorld (foldl mgr_step (mgr_start [(n, e)] w) [CallEnable n cfg, Advance t 0, Advance t 0, CallStopAll, Advance t 0,
      CallDisable n, Advance t 0, Advance t 1]) = snd (disable_run n stop w2)"
  using assms by (simp add: mgr_start_def enable_begin_def lookup_managed_def loaded_def LoadFromRegistry_def GetAll_def NewManager_def
      add_named_def new_managed_def set_managed_def enable_end_def stop_next_def disable_begin_def split: prod.splits)

section \<open>The properties at concrete inputs\<close>

definition accept_all :: DispatchHandler where "accept_all p m = Inr ()"

definition busy_server :: "unit Extension" where
  "busy_server = (app_s6a accept_all)\<lparr>exStop := Some (\<lambda>w. (Inl ''context deadline exceeded'', w))\<rparr>"

definition demo_start :: "unit mgr_sys" where
  "demo_start = mgr_start [(''app_s6a'', app_s6a accept_all)] (NewRouter, ())"

theorem lifecycle_operations_exclude_each_other_witness:
  "length (filter (\<lambda>c. enabling 0 c \<or> disabling 0 c) (sysCalls (foldl mgr_step demo_start
     [CallEnable ''app_s6a'' [], CallEnable ''app_s6a'' [], Advance 1 0, CallDisable ''app_s6a'', Advance 2 0, CallDisable ''app_s6a'',
      CallEnable ''app_s6a'' []]))) = 1"
proof -
  let ?s = "foldl mgr_step demo_start
     [CallEnable ''app_s6a'' [], CallEnable ''app_s6a'' [], Advance 1 0, CallDisable ''app_s6a'', Advance 2 0, CallDisable ''app_s6a'',
      CallEnable ''app_s6a'' []]"
  have m: "extensions (sysMgr ?s) = [(''app_s6a'', 0)]" "meState (managed (sysMgr ?s) ! 0) = StateStopping"
    by (simp_all add: demo_start_def mgr_start_def enable_begin_def lookup_managed_def loaded_def LoadFromRegistry_def GetAll_def
        NewManager_def add_named_def new_managed_def set_managed_def enable_end_def disable_begin_def app_s6a_def)
  have no: "CallStopAll \<notin> set [CallEnable ''app_s6a'' [], CallEnable ''app_s6a'' [], Advance 1 0, CallDisable ''app_s6a'', Advance 2 0,
      CallDisable ''app_s6a'', CallEnable ''app_s6a'' []]" by simp
  have "(''app_s6a'', 0) \<in> set (extensions (sysMgr ?s))" unfolding m(1) by simp
  from lifecycle_operations_exclude_each_other [OF no refl this [unfolded demo_start_def], folded demo_start_def]
  have "length (filter (\<lambda>c. enabling 0 c \<or> disabling 0 c) (sysCalls ?s)) = of_bool (StateStopping \<in> {StateInitializing, StateStopping})"
    unfolding m(2) .
  then show ?thesis unfolding of_bool_eq_1_iff [of "StateStopping \<in> {StateInitializing, StateStopping}", THEN iffD2, OF insertI2, OF insertI1] .
qed

theorem restart_restores_extensions_witness:
  "\<exists>m' w'. InitFromConfig 5 [\<lparr>ecName = ''app_s6a'', ecConfig = [(''k'', YInt 1)]\<rparr>]
     (loaded [(''app_s6a'', app_s6a accept_all)], (NewRouter, ())) = (Inr (), m', w') \<and>
     ActiveExtensionConfigs m' = [\<lparr>ecName = ''app_s6a'', ecConfig = [(''k'', YInt 1)]\<rparr>]"
proof (rule restart_restores_extensions)
  show "mgr_wf (loaded [(''app_s6a'', app_s6a accept_all)])" using loaded_wf by blast
  show "initOrder (loaded [(''app_s6a'', app_s6a accept_all)]) = []" by (rule lookup_loaded_one)
  show "distinct (map ecName [\<lparr>ecName = ''app_s6a'', ecConfig = [(''k'', YInt 1)]\<rparr>])" by simp
  show "\<forall>c \<in> set [\<lparr>ecName = ''app_s6a'', ecConfig = [(''k'', YInt 1)]\<rparr>]. startable (loaded [(''app_s6a'', app_s6a accept_all)]) c"
    by (simp add: startable_def lookup_loaded_one new_managed_def app_s6a_def split: prod.split)
qed

theorem failed_stop_lists_extension_twice_witness:
  "\<exists>m w. snd (Enable 3 ''app_s6a'' [] (snd (Disable 2 ''app_s6a'' (snd (Enable 1 ''app_s6a'' []
       (loaded [(''app_s6a'', busy_server)], (NewRouter, ()))))))) = (m, w) \<and>
     ActiveExtensionConfigs m = [\<lparr>ecName = ''app_s6a'', ecConfig = []\<rparr>, \<lparr>ecName = ''app_s6a'', ecConfig = []\<rparr>] \<and>
     fst (InitFromConfig 4 (ActiveExtensionConfigs m) (loaded [(''app_s6a'', busy_server)], (NewRouter, ())))
       = Inl (FailedToInitialize ''app_s6a'' (AlreadyActive ''app_s6a''))"
proof -
  have i: "\<exists>w'. exInit busy_server [] w = (Inr (), w')" for w
    by (cases w) (simp add: busy_server_def app_s6a_def)
  have s: "exStop busy_server = Some (\<lambda>w. (Inl ''context deadline exceeded'', w))" by (simp add: busy_server_def)
  show ?thesis by (rule failed_stop_lists_extension_twice [OF i s])
qed

theorem shutdown_stops_every_stoppable_extension_witness:
  "map_option (meState \<circ> snd) (lookup_managed ''app_s6a'' (fst (snd (StopAll 9 (sysMgr (foldl mgr_step demo_start
     [CallEnable ''app_s6a'' [], Advance 1 0, Advance 1 0]), (NewRouter, ())))))) = Some StateStopped"
proof -
  let ?s = "foldl mgr_step demo_start [CallEnable ''app_s6a'' [], Advance 1 0, Advance 1 0]"
  let ?me = "\<lparr>meExtension = app_s6a accept_all, meState = StateStopped, meConfig = [], meError = '''', meStartedAt = Some 1, meStoppedAt = Some 9\<rparr>"
  let ?m = "\<lparr>extensions = [(''app_s6a'', 0)], managed = [?me], initOrder = [''app_s6a'']\<rparr>"
  have stop: "StopAll 9 (sysMgr ?s, sysWorld ?s) = (Inr (), ?m, sysWorld ?s)" "StopAll 9 (sysMgr ?s, (NewRouter, ())) = (Inr (), ?m, (NewRouter, ()))"
    by (simp_all add: demo_start_def mgr_start_def enable_begin_def lookup_managed_def loaded_def LoadFromRegistry_def GetAll_def
        NewManager_def add_named_def new_managed_def set_managed_def enable_end_def app_s6a_def StopAll_def stop_next_def stop_done_def)
  have "lookup_managed ''app_s6a'' ?m = Some (0, ?me)" by (simp add: lookup_managed_def)
  from shutdown_stops_every_stoppable_extension [OF refl stop(1) [unfolded demo_start_def] this]
  have "meState ?me \<noteq> StateActive" by (simp add: app_s6a_def)
  with stop(2) show ?thesis by (simp add: lookup_managed_def)
qed

text \<open>The world of this witness counts the calls of \<open>Stop\<close>.\<close>

theorem shutdown_and_disable_both_stop_witness:
  "\<exists>e. exStop e = Some (\<lambda>(r, k). (Inr (), r, k + 1)) \<and>
     sysWorld (foldl mgr_step (mgr_start [(''rt_session_bind'', e)] (NewRouter, 0 :: nat)) [CallEnable ''rt_session_bind'' [], Advance 1 0,
       Advance 1 0, CallStopAll, Advance 1 0, CallDisable ''rt_session_bind'', Advance 1 0, Advance 1 1])
     = (DeregisterAllByOwner NewRouter ''rt_session_bind'', 2)"
proof -
  let ?e = "\<lparr>exName = ''rt_session_bind'', exInit = (\<lambda>cfg w. (Inr (), w)), exStop = Some (\<lambda>(r, k :: nat). (Inr (), r, k + 1)),
    exReconfigure = None, exHealthCheck = None, exMetrics = None\<rparr>"
  have "exInit ?e [] (NewRouter, 0) = (Inr (), (NewRouter, 0))" "exStop ?e = Some (\<lambda>(r, k). (Inr (), r, k + 1))"
    "(\<lambda>(r, k). (Inr (), r, k + 1)) (NewRouter, 0 :: nat) = (Inr (), (NewRouter, 1))" by simp_all
  note twice = shutdown_and_disable_both_stop [OF this, of "''rt_session_bind''" 1]
  have "snd (disable_run ''rt_session_bind'' (\<lambda>(r, k :: nat). (Inr (), r, k + 1)) (NewRouter, 1)) = (DeregisterAllByOwner NewRouter ''rt_session_bind'', 2)"
    by (simp add: disable_run_def numeral_2_eq_2)
  with twice have run: "sysWorld (foldl mgr_step (mgr_start [(''rt_session_bind'', ?e)] (NewRouter, 0)) [CallEnable ''rt_session_bind'' [], Advance 1 0,
       Advance 1 0, CallStopAll, Advance 1 0, CallDisable ''rt_session_bind'', Advance 1 0, Advance 1 1])
     = (DeregisterAllByOwner NewRouter ''rt_session_bind'', 2)"
    by (rule trans)
  show ?thesis by (rule exI [of _ ?e], rule conjI, simp, rule run)
qed

end
