(* ===== verification/Server_Properties.thy ===== *)
theory Server_Properties
  imports Server Ext_Manager_Properties Edge_Properties
begin

text \<open>
  What the server promises: which peers an external zone admits, what an admitted partner can claim, that the table of
  peers holds connected peers only, when a connected peer is missing from it, and the routes it sets up.
\<close>

section \<open>The callbacks of a peer\<close>

text \<open>The states of a peer that is, or just was, open; one leaves them only through \<open>StateClosed\<close>.\<close>

definition connected :: "Peer_Types.State \<Rightarrow> bool" where
  "connected s \<longleftrightarrow> s \<in> {StateROpen, StateIOpen, StateSuspect, StateClosing}"

definition leaves_closed :: "Peer_Types.State \<Rightarrow> Peer_Types.State \<Rightarrow> bool" where
  "leaves_closed a b \<longleftrightarrow> (connected a \<longrightarrow> connected b \<or> b = StateClosed \<or> b = StateZombie)"

fun chain :: "Peer_Types.State \<Rightarrow> (Peer_Types.State \<times> Peer_Types.State) list \<Rightarrow> Peer_Types.State \<Rightarrow> bool" where
  "chain a [] b \<longleftrightarrow> a = b"
| "chain a ((x, y) # ts) b \<longleftrightarrow> x = a \<and> leaves_closed x y \<and> chain y ts b"

lemma chain_snoc: "chain a ts b \<Longrightarrow> leaves_closed b c \<Longrightarrow> chain a (ts @ [(b, c)]) c"
  by (induction a ts b rule: chain.induct) auto

text \<open>A change of a peer reports every change of its state to the callback.\<close>

definition reported :: "peer \<Rightarrow> peer \<Rightarrow> bool" where
  "reported p q \<longleftrightarrow> onStateChange q = onStateChange p \<and>
     (onStateChange p \<longrightarrow> (\<exists>ts. transitions q = transitions p @ ts \<and> chain (state p) ts (state q)))"

lemma reported_refl: "reported p p"
  by (simp add: reported_def)

lemma reported_same: "reported p q \<Longrightarrow> state r = state q \<Longrightarrow> transitions r = transitions q \<Longrightarrow> onStateChange r = onStateChange q \<Longrightarrow> reported p r"
  by (simp add: reported_def)

lemma reported_setState: "reported p q \<Longrightarrow> leaves_closed (state q) s \<Longrightarrow> reported p (setState s q)"
proof -
  assume r: "reported p q" and l: "leaves_closed (state q) s"
  show ?thesis
  proof (cases "onStateChange p \<and> state q \<noteq> s")
    case True
    with r obtain ts where ts: "transitions q = transitions p @ ts" "chain (state p) ts (state q)" and on: "onStateChange q"
      by (auto simp: reported_def)
    have "transitions (setState s q) = transitions p @ (ts @ [(state q, s)])" "onStateChange (setState s q)"
      using True ts on by (auto simp: setState_def Let_def)
    with True chain_snoc [OF ts(2) l] show ?thesis by (auto simp: reported_def)
  next
    case False
    with r have "transitions (setState s q) = transitions q" "onStateChange (setState s q) = onStateChange q" "onStateChange p \<longrightarrow> s = state q"
      by (auto simp: setState_def Let_def reported_def)
    with r show ?thesis by (auto simp: reported_def)
  qed
qed

lemma reported_errorCleanup: "reported p q \<Longrightarrow> reported p (errorCleanup q)"
  by (erule reported_same) (simp_all add: errorCleanup_def Let_def op_defs clearPending_def split: option.split)

lemma reported_ops:
  "reported p q \<Longrightarrow> reported p (closeIConn q)" "reported p q \<Longrightarrow> reported p (closeRConn q)"
  "reported p q \<Longrightarrow> reported p (startTimeout q)" "reported p q \<Longrightarrow> reported p (stopTimeout q)"
  "reported p q \<Longrightarrow> reported p (startWatchdog q)" "reported p q \<Longrightarrow> reported p (stopWatchdog q)"
  "reported p q \<Longrightarrow> reported p (resetWatchdog q)" "reported p q \<Longrightarrow> reported p (spawn g q)"
  "reported p q \<Longrightarrow> reported p (resetConnDone q)" "reported p q \<Longrightarrow> reported p (performElection e q)"
  "reported p q \<Longrightarrow> reported p (q\<lparr>pendingCER := c\<rparr>)" "reported p q \<Longrightarrow> reported p (q\<lparr>rConn := k\<rparr>)"
  by (erule reported_same; simp add: op_defs performElection_def post_self_def split: option.split)+

lemma reported_kept: "reported p q \<Longrightarrow> kept r = kept q \<Longrightarrow> reported p r"
  by (erule reported_same) (simp_all add: kept_def)

lemma reported_control: "reported p q \<Longrightarrow> control r = control q \<Longrightarrow> reported p r"
  by (erule reported_same) (simp_all add: control_def)

lemmas reported_sends = control_sends [THEN reported_control [rotated]] control_processCER [THEN reported_control [rotated]]
  control_processCEA [THEN reported_control [rotated]] control_processInboundMessage [THEN reported_control [rotated]]
  kept_reject_and [THEN reported_kept [rotated]] kept_reject [THEN reported_kept [rotated]]

lemmas reported_intros = reported_refl reported_setState reported_errorCleanup reported_ops reported_sends

lemma reported_Closed: "state p = StateClosed \<Longrightarrow> reported p (snd (handleStateClosed e x p))"
  by (cases "event x") (simp_all add: handleStateClosed_def branch_defs split_beta reported_intros frames leaves_closed_def connected_def split: sum.split)

lemma reported_WaitConnAck: "state p = StateWaitConnAck \<Longrightarrow> reported p (snd (handleStateWaitConnAck e x p))"
  by (cases "event x") (simp_all add: handleStateWaitConnAck_def branch_defs split_beta reported_intros frames leaves_closed_def connected_def split: sum.split option.split)

lemma reported_WaitICEA: "state p = StateWaitICEA \<Longrightarrow> reported p (snd (handleStateWaitICEA e x p))"
  by (cases "event x") (simp_all add: handleStateWaitICEA_def branch_defs split_beta reported_intros frames leaves_closed_def connected_def split: sum.split option.split)

lemma reported_WaitConnAckElect: "state p = StateWaitConnAckElect \<Longrightarrow> reported p (snd (handleStateWaitConnAckElect e x p))"
  by (cases "event x") (simp_all add: handleStateWaitConnAckElect_def branch_defs split_beta reported_intros frames leaves_closed_def connected_def split: sum.split option.split)

lemma reported_WaitReturns: "state p = StateWaitReturns \<Longrightarrow> reported p (snd (handleStateWaitReturns e x p))"
  by (cases "event x") (simp_all add: handleStateWaitReturns_def branch_defs split_beta reported_intros frames leaves_closed_def connected_def split: sum.split option.split)

lemma reported_ROpen: "state p = StateROpen \<Longrightarrow> reported p (snd (handleStateROpen e x p))"
  by (cases "event x") (simp_all add: handleStateROpen_def branch_defs split_beta Let_def reported_intros frames leaves_closed_def connected_def split: sum.split option.split)

lemma reported_IOpen: "state p = StateIOpen \<Longrightarrow> reported p (snd (handleStateIOpen e x p))"
  by (cases "event x") (simp_all add: handleStateIOpen_def branch_defs split_beta Let_def reported_intros frames leaves_closed_def connected_def split: sum.split option.split)

lemma reported_Suspect: "state p = StateSuspect \<Longrightarrow> reported p (snd (handleStateSuspect e x p))"
  by (cases "event x") (simp_all add: handleStateSuspect_def branch_defs split_beta Let_def reported_intros frames leaves_closed_def connected_def split: sum.split option.split)

lemma reported_Closing: "state p = StateClosing \<Longrightarrow> reported p (snd (handleStateClosing e x p))"
  by (simp add: handleStateClosing_def reported_intros leaves_closed_def connected_def)

lemma reported_handleEvent: "reported p (snd (handleEvent e x p))"
  by (cases "state p") (simp_all add: handleEvent_def reported_Closed reported_WaitConnAck reported_WaitICEA reported_WaitConnAckElect
      reported_WaitReturns reported_ROpen reported_IOpen reported_Suspect reported_Closing reported_refl)

section \<open>The identity of a connected peer\<close>

text \<open>Only the capabilities exchange gives a peer its identity, and a connected peer has no further one.\<close>

lemma identity_assign_ids: "diameterID (snd (assign_ids m p)) = diameterID p"
  by (simp add: assign_ids_def Let_def NextHopByHopID_def nextEndToEndID_def trackPending_def)

lemma identity_sendMessageOnConn: "diameterID (snd (sendMessageOnConn e c m p)) = diameterID p"
  using identity_assign_ids [of m p]
  by (auto simp: sendMessageOnConn_def write_conn_def split: option.split prod.split sum.split)

lemma identity_sends [simp]:
  "diameterID (snd (sendDWROnConn e c p)) = diameterID p" "diameterID (snd (sendDWAOnConn e c r p)) = diameterID p"
  "diameterID (snd (sendDPROnConn e c cause p)) = diameterID p" "diameterID (snd (sendDPAOnConn e c r p)) = diameterID p"
  "diameterID (snd (sendCEAOnConn e c r code p)) = diameterID p"
  by (simp_all add: sendDWROnConn_def sendDWAOnConn_def sendDPROnConn_def sendDPAOnConn_def sendCEAOnConn_def Let_def
      identity_sendMessageOnConn NextHopByHopID_def nextEndToEndID_def split: option.split)

lemma identity_reject [simp]: "diameterID (snd (reject_and e x code r p)) = diameterID p"
  by (auto simp: reject_and_def rejectConnection_def split_beta close_conn_def split: option.split sum.split)

lemma identity_inbound [simp]: "diameterID (snd (processInboundMessage m p)) = diameterID p"
  by (simp add: processInboundMessage_def popPending_def deliverMessage_def Let_def split: option.split prod.split)

lemma identity_timers [simp]:
  "diameterID (resetWatchdog p) = diameterID p" "diameterID (stopWatchdog p) = diameterID p" "diameterID (startTimeout p) = diameterID p"
  by (simp_all add: op_defs)

lemma identity_ROpen: "diameterID (snd (handleStateROpen e x p)) = diameterID p"
  by (cases "event x") (simp_all add: handleStateROpen_def branch_defs split_beta Let_def split: option.split)

lemma identity_IOpen: "diameterID (snd (handleStateIOpen e x p)) = diameterID p"
  by (cases "event x") (simp_all add: handleStateIOpen_def branch_defs split_beta Let_def split: option.split)

lemma identity_Suspect: "diameterID (snd (handleStateSuspect e x p)) = diameterID p"
  by (simp add: handleStateSuspect_def branch_defs split: option.split)

lemma identity_Closing: "diameterID (snd (handleStateClosing e x p)) = diameterID p"
  by (simp add: handleStateClosing_def)

lemma identity_connected: "connected (state p) \<Longrightarrow> diameterID (snd (handleEvent e x p)) = diameterID p"
  by (auto simp: connected_def handleEvent_def identity_ROpen identity_IOpen identity_Suspect identity_Closing)

section \<open>The table of peers\<close>

definition state_callback :: "bool \<Rightarrow> peer_ref \<Rightarrow> Peer_Types.State \<Rightarrow> ('c, 'p, 'x) server \<Rightarrow> ('c, 'p, 'x) server" where
  "state_callback inbound ref new s = (if inbound then inbound_state_change ref new s else outbound_state_change ref new s)"

text \<open>
  One event at the state machine of a peer, with the callbacks for the changes of state it makes. That the acceptance
  policy also notes the zone of the peer and binds it in the registry has no bearing on the table and is left out here.
\<close>

definition peer_event :: "bool \<Rightarrow> env \<Rightarrow> eventMessage \<Rightarrow> peer_ref \<Rightarrow> ('c, 'p, 'x) server \<Rightarrow> ('c, 'p, 'x) server" where
  "peer_event inbound e x ref s = (case peer_of (svWorld s) ref of
     None \<Rightarrow> s
   | Some p \<Rightarrow>
       (let q = snd (handleEvent e x p) in
        fold (\<lambda>(old, new). state_callback inbound ref new) (drop (length (transitions p)) (transitions q))
          (s\<lparr>svWorld := set_object ref (FullPeer q) (svWorld s)\<rparr>)))"

text \<open>
  The end of a peer whose context was cancelled: Zombie is reported, then the deferred clean-up runs. Here as above the change of state
  and its callback are one step; the code runs the callback in the goroutine of the peer.
\<close>

definition peer_exit :: "bool \<Rightarrow> peer_ref \<Rightarrow> ('c, 'p, 'x) server \<Rightarrow> ('c, 'p, 'x) server" where
  "peer_exit inbound ref s = (case peer_of (svWorld s) ref of
     None \<Rightarrow> s
   | Some p \<Rightarrow> if \<not> ctxDone p then s
       else (let q = errorCleanup (setState StateZombie p) in
        fold (\<lambda>(old, new). state_callback inbound ref new) (drop (length (transitions p)) (transitions q))
          (s\<lparr>svWorld := set_object ref (FullPeer q) (svWorld s)\<rparr>)))"

datatype server_event =
    Accepted conn string net_conn "ZoneConfig option" "wire_error + message"
  | Dialled PeerConfig
  | PeerEvent bool env eventMessage peer_ref
  | PeerExit bool peer_ref

fun server_step :: "('c, 'p, 'x) server \<Rightarrow> server_event \<Rightarrow> ('c, 'p, 'x) server" where
  "server_step s (Accepted conn remote tls z first) = handleConnection conn remote tls z first s"
| "server_step s (Dialled pc) = connectToPeer pc s"
| "server_step s (PeerEvent inbound e x ref) = peer_event inbound e x ref s"
| "server_step s (PeerExit inbound ref) = peer_exit inbound ref s"

definition table_inv :: "('c, 'p, 'x) server \<Rightarrow> bool" where
  "table_inv s \<longleftrightarrow>
     (\<forall>i ref. GetPeer s i = Some ref \<longrightarrow> (\<exists>p. peer_of (svWorld s) ref = Some p \<and> diameterID p = i \<and> connected (state p))) \<and>
     (\<forall>ref p. peer_of (svWorld s) ref = Some p \<longrightarrow> onStateChange p \<and> ref < svNextRef s)"

lemma table_inv_entry:
  assumes "table_inv s" and "GetPeer s i = Some ref"
  obtains p where "peer_of (svWorld s) ref = Some p" and "diameterID p = i" and "connected (state p)"
  using assms unfolding table_inv_def by blast

lemma table_inv_object: "table_inv s \<Longrightarrow> peer_of (svWorld s) ref = Some p \<Longrightarrow> onStateChange p \<and> ref < svNextRef s"
  unfolding table_inv_def by blast

lemma peer_of_set_object [simp]:
  "peer_of (set_object ref (FullPeer q) w) r = (if r = ref then Some q else peer_of w r)"
  by (simp add: peer_of_def set_object_def)

lemma update_peer_fields [simp]:
  "svPeers (update_peer ref f s) = svPeers s" "svNextRef (update_peer ref f s) = svNextRef s"
  by (simp_all add: update_peer_def split: option.split)

lemma peer_of_update_peer:
  "peer_of (svWorld (update_peer ref f s)) r = (if r = ref then map_option f (peer_of (svWorld s) ref) else peer_of (svWorld s) r)"
  by (simp add: update_peer_def split: option.split)

lemma GetPeer_register [simp]: "GetPeer (register_peer i ref s) j = (if j = i then Some ref else GetPeer s j)"
  by (simp add: GetPeer_def register_peer_def update_conv')

lemma GetPeer_remove [simp]: "GetPeer (remove_peer i s) j = (if j = i then None else GetPeer s j)"
  by (simp add: GetPeer_def remove_peer_def delete_conv')

lemma register_remove_fields [simp]:
  "svWorld (register_peer i ref s) = svWorld s" "svNextRef (register_peer i ref s) = svNextRef s"
  "svWorld (remove_peer i s) = svWorld s" "svNextRef (remove_peer i s) = svNextRef s"
  by (simp_all add: register_peer_def remove_peer_def)

lemma GetPeer_same [simp]:
  "GetPeer (update_peer ref f s) j = GetPeer s j" "GetPeer (s\<lparr>svReg := g\<rparr>) j = GetPeer s j" "GetPeer (s\<lparr>svWorld := w\<rparr>) j = GetPeer s j"
  by (simp_all add: GetPeer_def)

text \<open>What one callback does to the table and to the objects.\<close>

lemma state_callback_effect:
  assumes "peer_of (svWorld s) ref = Some q"
  shows "GetPeer (state_callback inbound ref new s) j =
      (if j \<noteq> diameterID q then GetPeer s j else if new \<in> {StateIOpen, StateROpen} then Some ref
       else if new \<in> {StateClosed, StateZombie} then None else GetPeer s j)"
    and "svNextRef (state_callback inbound ref new s) = svNextRef s"
    and "\<exists>d. peer_of (svWorld (state_callback inbound ref new s)) ref = Some (q\<lparr>ctxDone := d\<rparr>)"
    and "r \<noteq> ref \<Longrightarrow> peer_of (svWorld (state_callback inbound ref new s)) r = peer_of (svWorld s) r"
proof -
  have q: "\<exists>d. q = q\<lparr>ctxDone := d\<rparr>" by (rule exI [of _ "ctxDone q"]) simp
  show "GetPeer (state_callback inbound ref new s) j =
      (if j \<noteq> diameterID q then GetPeer s j else if new \<in> {StateIOpen, StateROpen} then Some ref
       else if new \<in> {StateClosed, StateZombie} then None else GetPeer s j)"
    by (simp add: state_callback_def inbound_state_change_def outbound_state_change_def assms IsOpen_def)
  show "svNextRef (state_callback inbound ref new s) = svNextRef s"
    by (simp add: state_callback_def inbound_state_change_def outbound_state_change_def assms)
  show "\<exists>d. peer_of (svWorld (state_callback inbound ref new s)) ref = Some (q\<lparr>ctxDone := d\<rparr>)"
    using q by (auto simp: state_callback_def inbound_state_change_def outbound_state_change_def assms peer_of_update_peer)
  show "r \<noteq> ref \<Longrightarrow> peer_of (svWorld (state_callback inbound ref new s)) r = peer_of (svWorld s) r"
    by (simp add: state_callback_def inbound_state_change_def outbound_state_change_def assms peer_of_update_peer)
qed

lemma peer_simps: "diameterID (q\<lparr>ctxDone := d\<rparr>) = diameterID q" "q\<lparr>ctxDone := d, ctxDone := d'\<rparr> = q\<lparr>ctxDone := d'\<rparr>"
  by simp_all

lemma callbacks_effect:
  assumes "peer_of (svWorld s) ref = Some q" and "chain a ts b" and "GetPeer s (diameterID q) = Some ref \<longrightarrow> connected a"
    and "s' = fold (\<lambda>(old, new). state_callback inbound ref new) ts s"
  shows "(\<forall>j. j \<noteq> diameterID q \<longrightarrow> GetPeer s' j = GetPeer s j) \<and>
    GetPeer s' (diameterID q) \<in> {GetPeer s (diameterID q), Some ref, None} \<and>
    (GetPeer s' (diameterID q) = Some ref \<longrightarrow> connected b) \<and> svNextRef s' = svNextRef s \<and>
    (\<exists>d. peer_of (svWorld s') ref = Some (q\<lparr>ctxDone := d\<rparr>)) \<and> (\<forall>r. r \<noteq> ref \<longrightarrow> peer_of (svWorld s') r = peer_of (svWorld s) r)"
  using assms
proof (induction ts arbitrary: s a q)
  case Nil
  then show ?case by (auto intro: exI [of _ "ctxDone q"])
next
  case (Cons t ts)
  obtain old new where t: "t = (old, new)" by (cases t)
  have c: "old = a" "leaves_closed a new" "chain new ts b" using Cons.prems(2) by (auto simp: t)
  let ?s = "state_callback inbound ref new s"
  note eff = state_callback_effect [OF Cons.prems(1), where inbound = inbound and new = new]
  obtain d where d: "peer_of (svWorld ?s) ref = Some (q\<lparr>ctxDone := d\<rparr>)" using eff(3) by blast
  have reg: "GetPeer ?s (diameterID (q\<lparr>ctxDone := d\<rparr>)) = Some ref \<longrightarrow> connected new"
    using eff(1) [where j = "diameterID q"] Cons.prems(3) c(2) by (auto simp: connected_def leaves_closed_def split: if_splits)
  have s': "s' = fold (\<lambda>(old, new). state_callback inbound ref new) ts ?s" using Cons.prems(4) by (simp add: t)
  note ih = Cons.IH [OF d c(3) reg s', unfolded peer_simps]
  note i1 = ih [THEN conjunct1, rule_format] and i2 = ih [THEN conjunct2, THEN conjunct1] and ih' = ih [THEN conjunct2, THEN conjunct2]
  note i3 = ih' [THEN conjunct1] and i4 = ih' [THEN conjunct2, THEN conjunct1] and i5 = ih' [THEN conjunct2, THEN conjunct2, THEN conjunct1]
    and i6 = ih' [THEN conjunct2, THEN conjunct2, THEN conjunct2, rule_format]
  have here: "GetPeer ?s (diameterID q) \<in> {GetPeer s (diameterID q), Some ref, None}" by (simp add: eff(1))
  have "GetPeer s' j = GetPeer s j" if "j \<noteq> diameterID q" for j using i1 [OF that] that by (simp add: eff(1))
  moreover have "GetPeer s' (diameterID q) \<in> {GetPeer s (diameterID q), Some ref, None}"
    using i2 here by (elim insertE emptyE) simp_all
  moreover have "svNextRef s' = svNextRef s" using i4 eff(2) by simp
  moreover have "peer_of (svWorld s') r = peer_of (svWorld s) r" if "r \<noteq> ref" for r using i6 [OF that] eff(4) [OF that] by simp
  ultimately show ?case using i3 i5 by blast
qed

text \<open>A peer that becomes \<open>q\<close> through the changes of state \<open>ts\<close>, each reported.\<close>

lemma peer_becomes_inv:
  assumes inv: "table_inv s" and "peer_of (svWorld s) ref = Some p" and "transitions q = transitions p @ ts" and "chain (state p) ts (state q)"
    and "onStateChange q" and "connected (state p) \<longrightarrow> diameterID q = diameterID p"
    and "s' = fold (\<lambda>(old, new). state_callback inbound ref new) ts (s\<lparr>svWorld := set_object ref (FullPeer q) (svWorld s)\<rparr>)"
  shows "table_inv s'"
proof -
  let ?s = "s\<lparr>svWorld := set_object ref (FullPeer q) (svWorld s)\<rparr>"
  have on: "ref < svNextRef s" using table_inv_object [OF inv assms(2)] by simp
  have was: "diameterID p = i \<and> connected (state p)" if "GetPeer s i = Some ref" for i
    using table_inv_entry [OF inv that] assms(2) by auto
  have obj: "peer_of (svWorld ?s) ref = Some q" by simp
  have reg: "GetPeer ?s (diameterID q) = Some ref \<longrightarrow> connected (state p)" using was by auto
  note eff = callbacks_effect [OF obj assms(4) reg assms(7)]
  obtain d where d: "peer_of (svWorld s') ref = Some (q\<lparr>ctxDone := d\<rparr>)" using eff by blast
  have next_ref: "svNextRef s' = svNextRef s" using eff by simp
  have others: "peer_of (svWorld s') r = peer_of (svWorld s) r" if "r \<noteq> ref" for r using eff that by auto
  have live: "\<exists>p. peer_of (svWorld s') r = Some p \<and> diameterID p = i \<and> connected (state p)" if g: "GetPeer s' i = Some r" for i r
  proof (cases "r = ref")
    case True
    show ?thesis
    proof (cases "i = diameterID q")
      case True
      with g \<open>r = ref\<close> eff have "connected (state q)" by auto
      with d \<open>r = ref\<close> True show ?thesis by simp
    next
      case False
      then have "GetPeer s i = Some ref" using g eff \<open>r = ref\<close> by simp
      with was assms(6) False show ?thesis by auto
    qed
  next
    case False
    then have "GetPeer s i = Some r" using g eff by (cases "i = diameterID q") auto
    then obtain p' where "peer_of (svWorld s) r = Some p'" "diameterID p' = i" "connected (state p')" using table_inv_entry [OF inv] by blast
    with others [OF False] show ?thesis by simp
  qed
  have "onStateChange p' \<and> r < svNextRef s'" if "peer_of (svWorld s') r = Some p'" for r p'
  proof (cases "r = ref")
    case True
    with that d have "p' = q\<lparr>ctxDone := d\<rparr>" by simp
    with assms(5) on next_ref True show ?thesis by simp
  next
    case False
    with that others [OF False] have "peer_of (svWorld s) r = Some p'" by simp
    with table_inv_object [OF inv this] next_ref show ?thesis by simp
  qed
  with live show ?thesis by (simp add: table_inv_def)
qed

lemma server_step_inv:
  assumes inv: "table_inv s"
  shows "table_inv (server_step s se)"
proof -
  have fresh: "table_inv (alloc_peer p s)" if "onStateChange p" for p
  proof -
    have n: "peer_of (svWorld s) (svNextRef s) = None"
      using table_inv_object [OF inv, of "svNextRef s"] by (cases "peer_of (svWorld s) (svNextRef s)") auto
    have "\<exists>p. peer_of (svWorld (alloc_peer p' s)) ref = Some p \<and> diameterID p = i \<and> connected (state p)"
      if g: "GetPeer (alloc_peer p' s) i = Some ref" for i ref p'
    proof -
      have "GetPeer s i = Some ref" using g by (simp add: alloc_peer_def GetPeer_def)
      then obtain p where p: "peer_of (svWorld s) ref = Some p" "diameterID p = i" "connected (state p)" using table_inv_entry [OF inv] by blast
      with n have "ref \<noteq> svNextRef s" by auto
      with p show ?thesis by (simp add: alloc_peer_def)
    qed
    moreover have "onStateChange q \<and> ref < svNextRef (alloc_peer p s)" if "peer_of (svWorld (alloc_peer p s)) ref = Some q" for ref q
      using that table_inv_object [OF inv, of ref q] \<open>onStateChange p\<close> by (auto simp: alloc_peer_def split: if_splits)
    ultimately show ?thesis by (simp add: table_inv_def)
  qed
  show ?thesis
  proof (cases se)
    case (Accepted conn remote tls z first)
    then show ?thesis
      by (simp add: handleConnection_def Let_def fresh SetOnStateChange_def StartWithConnection_def spawn_def close_conn_def split: sum.split)
  next
    case (Dialled pc)
    then show ?thesis by (simp add: connectToPeer_def fresh SetOnStateChange_def Start_def spawn_def)
  next
    case (PeerEvent inbound e x ref)
    show ?thesis
    proof (cases "peer_of (svWorld s) ref")
      case (Some p)
      let ?q = "snd (handleEvent e x p)"
      have "onStateChange p" using table_inv_object [OF inv Some] by simp
      with reported_handleEvent [of p e x] obtain ts where ts: "transitions ?q = transitions p @ ts" "chain (state p) ts (state ?q)"
        "onStateChange ?q" by (auto simp: reported_def)
      show ?thesis
        using Some ts(1) identity_connected [of p e x]
        by (intro peer_becomes_inv [OF inv Some ts]) (simp_all add: PeerEvent peer_event_def)
    qed (use inv PeerEvent in \<open>simp add: peer_event_def\<close>)
  next
    case (PeerExit inbound ref)
    show ?thesis
    proof (cases "peer_of (svWorld s) ref")
      case (Some p)
      let ?q = "errorCleanup (setState StateZombie p)"
      have "onStateChange p" using table_inv_object [OF inv Some] by simp
      moreover have "reported p ?q"
        by (intro reported_errorCleanup reported_setState reported_refl) (simp add: leaves_closed_def)
      ultimately obtain ts where ts: "transitions ?q = transitions p @ ts" "chain (state p) ts (state ?q)" "onStateChange ?q"
        by (auto simp: reported_def)
      show ?thesis
      proof (cases "ctxDone p")
        case True
        with Some ts(1) show ?thesis
          by (intro peer_becomes_inv [OF inv Some ts]) (simp_all add: PeerExit peer_exit_def)
      qed (use inv Some in \<open>simp add: PeerExit peer_exit_def\<close>)
    qed (use inv PeerExit in \<open>simp add: peer_exit_def\<close>)
  qed
qed

interpretation srv: machine server_step table_inv
  by unfold_locales (rule server_step_inv)

definition empty_world :: world where
  "empty_world = \<lparr>objects = (\<lambda>_. Opaque), randCalls = 0, postRouted = [], dispatched = []\<rparr>"

lemma new_server_inv: "table_inv (Server_New now cfg x empty_world)"
  by (simp add: table_inv_def Server_New_def GetPeer_def peer_of_def empty_world_def)

section \<open>Properties\<close>

text \<open>
  C29: whatever connections come and go, whatever events their state machines get and in whatever order, and whenever they are stopped,
  each change of state together with its callback, an entry of the server's table of peers is a peer of that very identity that is connected (open, suspect or closing), so the router is
  never handed a closed one.
\<close>

theorem registered_peers_are_connected:
  assumes "s = foldl server_step (Server_New now cfg x empty_world) evs" and "GetPeer s i = Some ref"
  shows "\<exists>p. peer_of (svWorld s) ref = Some p \<and> diameterID p = i \<and> state p \<in> {StateROpen, StateIOpen, StateSuspect, StateClosing}"
proof -
  have "table_inv s" unfolding assms(1) by (rule srv.run_inv [OF new_server_inv])
  from table_inv_entry [OF this assms(2)] show ?thesis unfolding connected_def by metis
qed

lemma callbacks_close:
  assumes "peer_of (svWorld s) ref = Some q" and "list_all (\<lambda>(a, b). b \<in> {StateClosed, StateZombie}) ts"
    and "ts \<noteq> [] \<or> GetPeer s (diameterID q) = None" and "r \<noteq> ref"
  shows "GetPeer (fold (\<lambda>(old, new). state_callback inbound ref new) ts s) (diameterID q) = None \<and>
    peer_of (svWorld (fold (\<lambda>(old, new). state_callback inbound ref new) ts s)) r = peer_of (svWorld s) r"
  using assms
proof (induction ts arbitrary: s q)
  case (Cons t ts)
  obtain old new where t: "t = (old, new)" by (cases t)
  let ?s = "state_callback inbound ref new s"
  note eff = state_callback_effect [OF Cons.prems(1), where inbound = inbound and new = new]
  obtain d where d: "peer_of (svWorld ?s) ref = Some (q\<lparr>ctxDone := d\<rparr>)" using eff(3) by blast
  have "GetPeer ?s (diameterID (q\<lparr>ctxDone := d\<rparr>)) = None" using Cons.prems(2) eff(1) [of "diameterID q"] by (auto simp: t)
  with Cons.IH [OF d _ _ Cons.prems(4)] Cons.prems(2) eff(4) [OF Cons.prems(4)] show ?case by (simp add: t)
qed simp

text \<open>
  C31: when two connections of one identity overlap (the peer reconnects before its old connection is found dead), the end of the
  old one removes the entry of the new one: the peer is connected, and neither the router nor \<open>Send\<close> finds it.
\<close>

theorem stale_close_unregisters_live_connection:
  assumes "peer_of (svWorld s) a = Some p" and "state p = StateROpen" and "onStateChange p" and "diameterID p = i"
    and "b \<noteq> a" and "peer_of (svWorld s) b = Some q" and "IsOpen q" and "diameterID q = i" and "GetPeer s i = Some b"
    and "s' = peer_event True e (ev EventRPeerDisc) a s"
  shows "GetPeer s' i = None \<and> LookupPeer (live_router s') i = None \<and> fst (Server_Send i m s') = Inl None \<and>
    peer_of (svWorld s') b = Some q"
proof -
  let ?q = "fail_closed p" and ?s = "s\<lparr>svWorld := set_object a (FullPeer (fail_closed p)) (svWorld s)\<rparr>"
  have h: "snd (handleEvent e (ev EventRPeerDisc) p) = ?q"
    by (simp add: handleEvent_def assms(2) handleStateROpen_def ev_def)
  have tr: "transitions (setState st x) = (if onStateChange x \<and> state x \<noteq> st then transitions x @ [(state x, st)] else transitions x)"
    "onStateChange (setState st x) = onStateChange x" "onStateChange (errorCleanup x) = onStateChange x" "transitions (spawn g x) = transitions x" for st x g
    by (simp_all add: setState_def errorCleanup_def op_defs Let_def clearPending_def split: option.split)
  obtain ts where ts: "transitions ?q = transitions p @ ts" "list_all (\<lambda>(a, b). b \<in> {StateClosed, StateZombie}) ts" "ts \<noteq> []"
    using assms(2,3) by (cases "Persistent (config p)") (simp_all add: fail_closed_def scheduleReconnect_def tr)
  have id: "diameterID ?q = i" using identity_ROpen [of e "ev EventRPeerDisc" p] assms(2,4) h by (simp add: handleEvent_def)
  have s': "s' = fold (\<lambda>(old, new). state_callback True a new) ts ?s"
    using assms(1,10) h ts(1) by (simp add: peer_event_def)
  have "peer_of (svWorld ?s) a = Some ?q" by simp
  from callbacks_close [OF this ts(2) _ assms(5), of True] ts(3) id assms(5,6)
  have g: "GetPeer s' i = None" and o: "peer_of (svWorld s') b = Some q" unfolding s' by simp_all
  from g have "LookupPeer (live_router s') i = None" "fst (Server_Send i m s') = Inl None"
    by (simp_all add: LookupPeer_def live_router_def SetPeerEnumerator_def SetPeerLookup_def Server_Send_def)
  with g o show ?thesis by simp
qed

section \<open>Admission\<close>

text \<open>The registry of a running server: built from the configuration, with the bindings made and dropped since.\<close>

fun rebind :: "registry \<Rightarrow> string \<times> string option \<Rightarrow> registry" where
  "rebind r (i, Some n) = BindPeer i n r"
| "rebind r (i, None) = UnbindPeer i r"

definition running_registry :: "NodeConfig \<Rightarrow> (string \<times> string option) list \<Rightarrow> registry" where
  "running_registry c bs = foldl rebind (NewRegistry (Some c)) bs"

lemma foldl_frame: "(\<And>r x. proj (g r x) = proj r) \<Longrightarrow> proj (foldl g r xs) = proj r"
  by (induction xs arbitrary: r) auto

lemma rebind_frame:
  "realmExact (rebind r b) = realmExact r" "realmSuffix (rebind r b) = realmSuffix r"
  "partnerByPeer (rebind r b) = partnerByPeer r" "rgPartners (rebind r b) = rgPartners r"
  by (cases "(r, b)" rule: rebind.cases; simp add: BindPeer_def UnbindPeer_def)+

lemma rebind_tables:
  "realmExact (foldl rebind r bs) = realmExact r" "realmSuffix (foldl rebind r bs) = realmSuffix r"
  "partnerByPeer (foldl rebind r bs) = partnerByPeer r" "rgPartners (foldl rebind r bs) = rgPartners r"
  by (rule foldl_frame, rule rebind_frame)+

lemma fold_add_partner_names:
  "rgPartners (fold add_partner ps r) n = (case last_partner (\<lambda>p. ptName p = n) ps of Some p \<Rightarrow> Some p | None \<Rightarrow> rgPartners r n)"
proof (induction ps arbitrary: r)
  case (Cons p ps)
  have "rgPartners (add_partner p r) = (rgPartners r)(ptName p \<mapsto> p)"
    by (simp add: add_partner_def fold_add_partner_realm fold_add_partner_peer)
  then show ?case by (simp add: Cons.IH last_partner_Cons split: option.split)
qed (simp add: last_partner_def)

lemma Reload_partner_names: "rgPartners (Reload (Some c) r) n = last_partner (\<lambda>p. ptName p = n) (nPartners c)"
proof -
  have base: "rgPartners (rebuilt_zones c r) = Map.empty"
    unfolding rebuilt_zones_def
    by (simp add: fallback_zone_def reset_def emptyRegistry_def fold_frame [where proj = rgPartners and g = add_zone] add_zone_def)
  have "rgPartners (fold add_peer xs s) = rgPartners s" for xs s
    by (rule fold_frame) (simp add: add_peer_def Let_def)
  then show ?thesis
    using Reload_lookup [of c r] by (simp add: lookup_tables_def sort_suffixes_def fold_add_partner_names base split: option.split)
qed

lemma running_partner_for_peer:
  assumes "PartnerForPeer (running_registry c bs) i = Some p"
  shows "p \<in> set (nPartners c)"
proof -
  have t: "partnerByPeer (running_registry c bs) j = last_partner (\<lambda>p. j \<in> set (partner_peer_ids p)) (nPartners c)"
    "rgPartners (running_registry c bs) n = last_partner (\<lambda>p. ptName p = n) (nPartners c)" for j n
    by (simp_all add: running_registry_def rebind_tables NewRegistry_def Reload_tables Reload_partner_names)
  show ?thesis
    using assms last_partner_Some by (auto simp: PartnerForPeer_def t split: if_splits option.splits)
qed

lemma running_partner_for_realm:
  assumes "PartnerForRealm (running_registry c bs) d = Some p"
  shows "p \<in> set (nPartners c) \<and> RealmMatches d (ptRealms p)"
proof -
  have "PartnerForRealm (running_registry c bs) d = PartnerForRealm (Reload (Some c) emptyRegistry) d"
    unfolding PartnerForRealm_def running_registry_def rebind_tables NewRegistry_def ..
  with lookup_most_specific [of c emptyRegistry d] assms show ?thesis
    by (auto simp: RealmMatches_def PartnerForRealm_def split: if_splits)
qed

text \<open>
  C28: on an external zone a peer is admitted only for a configured partner of that very zone, with an Origin-Realm of that partner
  (a partner that lists no realms must list the peer), or because the zone's policy names it; and only with a certificate that
  proves its Origin-Host when the zone asks for one. A refusal is always DIAMETER_UNKNOWN_PEER and names no partner.
\<close>

theorem external_zone_admits_known_partners_only:
  assumes "IsExternal z" and "res = admitPeer c (running_registry c bs) z conn oh d"
  shows "if adAccepted res then
      (ztRequireClientCertIdentity (zTLS z) \<longrightarrow> certIdentityMatches conn oh) \<and>
      ((\<exists>p \<in> set (nPartners c). ptZone p = zName z \<and> adPartner res = ptName p \<and>
          (RealmMatches d (ptRealms p) \<or> ptRealms p = [] \<and> PartnerForPeer (running_registry c bs) oh = Some p)) \<or>
       (adPartner res = '''' \<and> PartnerForPeer (running_registry c bs) oh = None \<and> allowedByZonePolicy z oh))
    else adCode res = ResultUnknownPeer \<and> adPartner res = ''''"
proof -
  let ?r = "running_registry c bs"
  show ?thesis
  proof (cases "ztRequireClientCertIdentity (zTLS z) \<and> \<not> certIdentityMatches conn oh")
    case True
    then show ?thesis using assms(2) by (simp add: admitPeer_def refused_def)
  next
    case cert: False
    show ?thesis
    proof (cases "PartnerForPeer ?r oh")
      case (Some p)
      with running_partner_for_peer have "p \<in> set (nPartners c)" by blast
      with cert Some assms(2) show ?thesis by (auto simp: admitPeer_def refused_def admitted_def)
    next
      case None
      show ?thesis
      proof (cases "PartnerForRealm ?r d")
        case (Some p)
        with running_partner_for_realm have "p \<in> set (nPartners c) \<and> RealmMatches d (ptRealms p)" by blast
        with cert None Some assms show ?thesis by (auto simp: admitPeer_def refused_def admitted_def)
      qed (use cert None assms in \<open>auto simp: admitPeer_def refused_def admitted_def\<close>)
    qed
  qed
qed

text \<open>
  A peer that arrives on an external zone under a realm of a partner of that zone is admitted whatever its Origin-Host is,
  unless the host is listed for a partner: it may claim the identity of an internal peer. Once open it replaces that peer
  in the table the router looks peers up in, and as the identity is now bound to the partner, the internal peer itself is
  refused on every other zone.
\<close>

theorem partner_takes_over_internal_identity:
  assumes "IsExternal z" and "\<not> ztRequireClientCertIdentity (zTLS z)"
    and "PartnerForPeer (svReg s) h = None" and "h \<noteq> ''''"
    and "PartnerForRealm (svReg s) d = Some p" and "ptZone p = zName z" and "ptName p \<noteq> ''''" and "rgPartners (svReg s) (ptName p) = Some p"
    and "peer_of (svWorld s) ref = Some q" and "diameterID q = h"
    and "accept_policy z conn ref h d s = (verdict, s1)" and "s2 = inbound_state_change ref StateROpen s1"
  shows "verdict = (True, ResultSuccess) \<and> LookupPeer (live_router s2) h = Some ref \<and>
    (\<forall>z' conn' d'. zName z' \<noteq> zName z \<longrightarrow> \<not> adAccepted (admitPeer (svConfig s2) (svReg s2) z' conn' h d'))"
proof -
  have adm: "admitPeer (svConfig s) (svReg s) z conn h d = admitted (ptName p)"
    using assms(1-3,5,6) by (simp add: admitPeer_def)
  have unlisted: "partnerByPeer (svReg s) (normalize_name h) = None"
    using assms(3,4) by (auto simp: PartnerForPeer_def split: option.splits)
  have v: "verdict = (True, ResultSuccess)" and
    s1: "s1 = (update_peer ref (\<lambda>p'. SetZone p' (zName z) (ptName p)) s)\<lparr>svReg := BindPeer h (ptName p) (svReg s)\<rparr>"
    using assms(11) adm assms(7) assms(9) by (auto simp: accept_policy_def admitted_def update_peer_def Let_def)
  have q: "peer_of (svWorld s1) ref = Some (SetZone q (zName z) (ptName p))" using assms(9) by (simp add: s1 peer_of_update_peer)
  have s2: "s2 = register_peer h ref s1"
    using assms(10,12) q by (simp add: inbound_state_change_def IsOpen_def SetZone_def)
  have bound: "PartnerForPeer (svReg s2) h = Some p"
    using unlisted assms(4,7,8) by (simp add: s2 s1 register_peer_def PartnerForPeer_def BindPeer_def)
  have "LookupPeer (live_router s2) h = Some ref"
    by (simp add: LookupPeer_def live_router_def SetPeerEnumerator_def SetPeerLookup_def s2)
  moreover have "\<not> adAccepted (admitPeer (svConfig s2) (svReg s2) z' conn' h d')" if "zName z' \<noteq> zName z" for z' conn' d'
    using bound that assms(6) by (simp add: admitPeer_def refused_def)
  ultimately show ?thesis using v by blast
qed

section \<open>Listeners\<close>

definition sctp_listener :: "('c, 'p) listen_request \<Rightarrow> bool" where
  "sctp_listener l \<longleftrightarrow> (case l of ListenSCTPAddresses ips port \<Rightarrow> True | ListenSCTP a \<Rightarrow> True | _ \<Rightarrow> False)"

definition tls_listener :: "ZoneTLSConfig \<Rightarrow> ('c, 'p) listen_request \<Rightarrow> bool" where
  "tls_listener t l \<longleftrightarrow> (case l of
     ListenTLS a cfg \<Rightarrow> (ntVerifyPeer t \<longrightarrow> tlsClientAuth cfg = RequireAndVerifyClientCert) \<and>
       tlsMinimum cfg = tlsMinVersion (ntMinVersion t) \<and> (ntCAFile t \<noteq> '''' \<longrightarrow> tlsClientCAs cfg \<noteq> None)
   | _ \<Rightarrow> False)"

lemma listenTCP_adds:
  "(l, z') \<in> set (snd (listenTCP net z bs port tls ls)) \<Longrightarrow>
   (l, z') \<in> set ls \<or> (z' = z \<and> (\<exists>a. l = (case tls of Some cfg \<Rightarrow> ListenTLS a cfg | None \<Rightarrow> ListenTCP a)))"
proof (induction bs arbitrary: ls)
  case (Cons b bs)
  define k where "k = (case tls of Some cfg \<Rightarrow> ListenTLS (JoinHostPort b port) cfg | None \<Rightarrow> ListenTCP (JoinHostPort b port))"
  have unfold: "listenTCP net z (b # bs) port tls ls = (case net k of
      Inl err \<Rightarrow> (Inl (TCPListen (JoinHostPort b port) err), ls) | Inr _ \<Rightarrow> listenTCP net z bs port tls (addListener k z ls))"
    unfolding k_def by (simp add: Let_def)
  show ?case
  proof (cases "net k")
    case (Inr u)
    with Cons.prems unfold have "(l, z') \<in> set (snd (listenTCP net z bs port tls (addListener k z ls)))" by simp
    from Cons.IH [OF this] show ?thesis by (auto simp: addListener_def k_def)
  qed (use Cons.prems unfold in simp)
qed simp

lemma listen_sctp_adds: "(l, z') \<in> set (snd (listen_sctp net z ls)) \<Longrightarrow> (l, z') \<in> set ls \<or> (z' = z \<and> sctp_listener l)"
  by (auto simp: listen_sctp_def addListener_def sctp_listener_def Let_def split: sum.splits if_splits)

lemma then_listen_adds:
  assumes "x \<in> set (snd (then_listen r f))" and "\<And>ks. x \<in> set (snd (f ks)) \<Longrightarrow> x \<in> set ks \<or> Q"
  shows "x \<in> set (snd r) \<or> Q"
  using assms by (cases r; cases "fst r") (auto simp: then_listen_def)

lemma zone_tls_config:
  assumes "zone_tls e z = Inr tls" and "ntEnabled (zTLS z)"
  obtains cfg where "tls = Some cfg" and "\<And>a. tls_listener (zTLS z) (ListenTLS a cfg)"
  using assms by (auto simp: zone_tls_def buildServerTLSConfig_def tls_listener_def Let_def bind_result_def split: sum.splits if_splits)

lemma startZoneListeners_adds:
  assumes "(l, z') \<in> set (snd (startZoneListeners e net z ls))" and "(l, z') \<notin> set ls"
  shows "z' = z \<and> (ntEnabled (zTLS z) \<longrightarrow> tls_listener (zTLS z) l \<or> sctp_listener l)"
proof (cases "zone_tls e z")
  case (Inl err)
  with assms show ?thesis by (simp add: startZoneListeners_def Let_def)
next
  case (Inr tls)
  have tcp: "z' = z \<and> (ntEnabled (zTLS z) \<longrightarrow> tls_listener (zTLS z) l \<or> sctp_listener l)"
    if "(l, z') \<in> set (snd (listenTCP net z bs port tls ks))" "(l, z') \<notin> set ks" for bs port ks
    using listenTCP_adds [OF that(1)] that(2) zone_tls_config [OF Inr] by (metis option.simps(5))
  have sctp: "z' = z \<and> (ntEnabled (zTLS z) \<longrightarrow> tls_listener (zTLS z) l \<or> sctp_listener l)"
    if "(l, z') \<in> set (snd (listen_sctp net z ks))" "(l, z') \<notin> set ks" for ks
    using listen_sctp_adds [OF that(1)] that(2) by blast
  define binds where "binds = (if lnAddresses (zListen z) = [] \<or> IsImplicit z then [''''] else lnAddresses (zListen z))"
  let ?Q = "z' = z \<and> (ntEnabled (zTLS z) \<longrightarrow> tls_listener (zTLS z) l \<or> sctp_listener l)"
  let ?first = "if lnEnableTCP (zListen z) then listenTCP net z binds (lnPort (zListen z)) tls ls else (Inr (), ls)"
  let ?second = "\<lambda>ls. if lnEnableTLS (zListen z)
                 then (if tls = None then (Inl (EnableTLSRequiresTLS (zName z)), ls)
                       else listenTCP net z binds (lnSecurePort (zListen z)) tls ls)
                 else (Inr (), ls)"
  let ?third = "\<lambda>ls. if lnEnableSCTP (zListen z) then listen_sctp net z ls else (Inr (), ls)"
  have all: "startZoneListeners e net z ls = then_listen (then_listen ?first ?second) ?third"
    unfolding startZoneListeners_def binds_def Let_def by (simp add: Inr)
  have 3: "(l, z') \<in> set (snd (?third ks)) \<Longrightarrow> (l, z') \<in> set ks \<or> ?Q" for ks
    using sctp by (cases "lnEnableSCTP (zListen z)") auto
  have 2: "(l, z') \<in> set (snd (?second ks)) \<Longrightarrow> (l, z') \<in> set ks \<or> ?Q" for ks
    using tcp by (cases "lnEnableTLS (zListen z)"; cases tls) auto
  have "(l, z') \<in> set (snd (then_listen ?first ?second)) \<or> ?Q" by (rule then_listen_adds [OF assms(1) [unfolded all] 3])
  then have "(l, z') \<in> set (snd ?first) \<or> ?Q" using then_listen_adds [OF _ 2] by blast
  with assms(2) tcp show ?thesis by (cases "lnEnableTCP (zListen z)") auto
qed

lemma start_zones_adds:
  "(l, z') \<in> set (snd (start_zones e net zs ls)) \<Longrightarrow> (l, z') \<in> set ls \<or>
   (z' \<in> set zs \<and> (ntEnabled (zTLS z') \<longrightarrow> tls_listener (zTLS z') l \<or> sctp_listener l))"
proof (induction zs arbitrary: ls)
  case (Cons z zs)
  obtain r ks where s: "startZoneListeners e net z ls = (r, ks)" by (cases "startZoneListeners e net z ls")
  have one: "(l, z') \<in> set ks \<Longrightarrow> (l, z') \<in> set ls \<or> (z' = z \<and> (ntEnabled (zTLS z) \<longrightarrow> tls_listener (zTLS z) l \<or> sctp_listener l))"
    using startZoneListeners_adds [of l z' e net z ls] s by auto
  show ?case
  proof (cases r)
    case (Inl err)
    with Cons.prems s one show ?thesis by auto
  next
    case (Inr u)
    with Cons.prems s have "(l, z') \<in> set (snd (start_zones e net zs ks))" by simp
    from Cons.IH [OF this] one show ?thesis by auto
  qed
qed simp

text \<open>
  Every TCP listener of a zone that enables TLS speaks TLS, with the zone's minimum version, demands and verifies a client
  certificate when the zone says so, and has the zone's trust anchors; an SCTP listener of the zone does not.
\<close>

theorem tls_zone_listens_with_tls:
  assumes "startListeners e net c [] = (r, ls)" and "(l, z) \<in> set ls" and "ntEnabled (zTLS z)"
  shows "z \<in> set (EffectiveZones c) \<and> (tls_listener (zTLS z) l \<or> sctp_listener l)"
proof -
  have "(l, z) \<in> set (snd (start_zones e net (EffectiveZones c) []))"
    using assms(1,2) by (auto simp: startListeners_def then_listen_def split: prod.splits sum.splits if_splits)
  from start_zones_adds [OF this] assms(3) show ?thesis by auto
qed

section \<open>The properties at concrete inputs\<close>

definition open_zone :: ZoneConfig where
  "open_zone = (sample_zone ''lan'' ''internal'')\<lparr>zPeersPolicy := \<lparr>ppAllowUnknown = True, ppAllowIdentities = []\<rparr>\<rparr>"

definition plain_node :: NodeConfig where "plain_node = (sample_node [open_zone])\<lparr>nPartners := []\<rparr>"

definition start_node :: "(unit, unit, unit) server" where "start_node = Server_New 0 plain_node () empty_world"

lemma start_node_admits: "admitPeer plain_node (svReg start_node) open_zone None oh d = admitted ''''"
proof -
  have "PartnerForPeer (svReg start_node) oh = None"
    by (simp add: start_node_def Server_New_def NewRegistry_def PartnerForPeer_def Reload_tables plain_node_def last_partner_def emptyRegistry_def)
  then show ?thesis
    by (simp add: admitPeer_def open_zone_def sample_zone_def IsExternal_def ZoneRoleExternal_def allowedByZonePolicy_def)
qed

theorem registered_peers_are_connected_witness:
  "\<exists>p. peer_of (svWorld (foldl server_step start_node
       [Accepted 5 ''10.0.0.2:40000'' None (Some open_zone) (Inr sample_cer),
        PeerEvent True sample_env ((ev EventRConnCER)\<lparr>eConn := Some 5, eMsg := Some sample_cer\<rparr>) 0])) 0 = Some p \<and>
     diameterID p = ''a.example'' \<and> state p \<in> {StateROpen, StateIOpen, StateSuspect, StateClosing}"
proof -
  let ?x = "(ev EventRConnCER)\<lparr>eConn := Some 5, eMsg := Some sample_cer\<rparr>"
  let ?s1 = "server_step start_node (Accepted 5 ''10.0.0.2:40000'' None (Some open_zone) (Inr sample_cer))"
  have h: "GetOriginHost sample_cer = Some ''a.example''" "GetOriginRealm sample_cer = Some ''example''"
    "mCommandCode sample_cer = CmdCodeCapabilitiesExchange" "IsRequest sample_cer"
    by (simp_all add: GetOriginHost_def GetOriginRealm_def identity_of_def sample_cer_def add_origin_def FindAVP_def AddAVP_def
        NewRequest_def NewMessage_def avp_matches_def NewDiameterIdentityAVP_def NewUTF8StringAVP_def NewAVP_def
        GetDiameterIdentity_def sample_local_def IsRequest_def)
  have "Message_EncodedLen (build_CEA sample_local sample_cer ResultSuccess) \<le> 0xFFFFFF"
    by (simp add: build_CEA_def add_capabilities_def add_origin_def Let_def AddAVP_def AddAVPs_def sample_local_def
        SetResultCode_def FindAVP_def NewAnswer_def Message_EncodedLen_def NewDiameterIdentityAVP_def NewUTF8StringAVP_def
        NewUnsigned32AVP_def NewAddressAVP_def NewAVP_def padding_of_def vendor_flag_def NewAddressFromIP_def To4_def
        Address_Encode_eq)
  then obtain data where enc: "Encode (build_CEA sample_local sample_cer ResultSuccess) = Inr data"
    by (simp add: Encode_eq)
  obtain p where p: "peer_of (svWorld ?s1) 0 = Some p" "state p = StateClosed" "onStateChange p" "rConn p = None" "connDoneClosed p = False"
    "transitions p = []" "closedConns p = []" "acceptPolicy p = Some (\<lambda>oh d. (True, ResultSuccess))" "localConfig p = None"
  proof
    let ?p = "StartWithConnection 5 sample_cer (SetOnStateChange (SetOnMessage (SetAcceptPolicy (New (inbound_config plain_node open_zone ''10.0.0.2:40000''))
        (Some (\<lambda>oh orealm. fst (accept_policy open_zone None 0 oh orealm start_node)))) True) True)"
    show "peer_of (svWorld ?s1) 0 = Some ?p"
      using h by (simp add: handleConnection_def Let_def alloc_peer_def start_node_def Server_New_def zoneOrDefault_def)
    have "fst (accept_policy open_zone None 0 oh d start_node) = (True, ResultSuccess)" for oh d
      using start_node_admits by (simp add: accept_policy_def start_node_def Server_New_def admitted_def Let_def)
    then show "acceptPolicy ?p = Some (\<lambda>oh d. (True, ResultSuccess))"
      by (simp add: StartWithConnection_def spawn_def SetOnStateChange_def SetOnMessage_def SetAcceptPolicy_def)
  qed (simp_all add: StartWithConnection_def spawn_def SetOnStateChange_def SetOnMessage_def SetAcceptPolicy_def New_def)
  let ?q = "snd (handleEvent sample_env ?x p)"
  have q: "transitions ?q = [(StateClosed, StateROpen)] \<and> diameterID ?q = ''a.example''"
    using h p enc
    by (simp add: handleEvent_def handleStateClosed_def ev_def acceptResponderConnection_def resetConnDone_def
        processCER_def sendCEAOnConn_def sendMessageOnConn_def assign_ids_def write_conn_def getEffectiveLocalConfig_def
        sample_env_def enter_ROpen_def startWatchdog_def spawn_def setState_def)
  have "GetPeer (foldl server_step start_node [Accepted 5 ''10.0.0.2:40000'' None (Some open_zone) (Inr sample_cer), PeerEvent True sample_env ?x 0])
      ''a.example'' = Some 0"
    using p(1,6) q by (simp add: peer_event_def state_callback_effect(1))
  from registered_peers_are_connected [OF _ this] show ?thesis by (simp only: start_node_def simp_thms)
qed

definition open_peer :: peer where
  "open_peer = sample_open\<lparr>diameterID := ''a.example'', onStateChange := True\<rparr>"

definition reconnected :: "(unit, unit, unit) server" where
  "reconnected = start_node\<lparr>svPeers := [(''a.example'', 1)],
     svWorld := set_object 1 (FullPeer open_peer) (set_object 0 (FullPeer open_peer) empty_world), svNextRef := 2\<rparr>"

theorem stale_close_unregisters_live_connection_witness:
  "GetPeer (peer_event True sample_env (ev EventRPeerDisc) 0 reconnected) ''a.example'' = None \<and>
   LookupPeer (live_router (peer_event True sample_env (ev EventRPeerDisc) 0 reconnected)) ''a.example'' = None \<and>
   fst (Server_Send ''a.example'' (NewRequest 272 0) (peer_event True sample_env (ev EventRPeerDisc) 0 reconnected)) = Inl None \<and>
   peer_of (svWorld (peer_event True sample_env (ev EventRPeerDisc) 0 reconnected)) 1 = Some open_peer"
proof (rule stale_close_unregisters_live_connection [OF _ _ _ _ _ _ _ _ _ refl, of reconnected 0 open_peer "''a.example''" 1])
  show "peer_of (svWorld reconnected) 0 = Some open_peer" "peer_of (svWorld reconnected) 1 = Some open_peer"
    by (simp_all add: reconnected_def)
  show "GetPeer reconnected ''a.example'' = Some 1" by (simp add: reconnected_def GetPeer_def)
qed (simp_all add: open_peer_def sample_open_def IsOpen_def)

definition partner_node :: NodeConfig where "partner_node = sample_node [sample_zone ''lan'' ''internal'', sample_zone ''ipx'' ''external'']"

definition edge_node :: "(unit, unit, unit) server" where
  "edge_node = (Server_New 0 partner_node () (set_object 0 (FullPeer (open_peer\<lparr>diameterID := ''x.y''\<rparr>)) empty_world))\<lparr>svNextRef := 1\<rparr>"

lemma edge_node_registry:
  "PartnerForPeer (svReg edge_node) ''x.y'' = None" "PartnerForRealm (svReg edge_node) ''a.c.d'' = Some sample_partner"
  "rgPartners (svReg edge_node) ''p'' = Some sample_partner"
proof -
  have n: "normalize_name ''x.y'' = ''x.y''" "normalize_name ''e.c.d'' = ''e.c.d''" "normalize_name ''a.c.d'' = ''a.c.d''"
    "normalize_name ''*.c.d'' = ''*.c.d''"
    by code_simp+
  have reg: "svReg edge_node = Reload (Some partner_node) emptyRegistry" by (simp add: edge_node_def Server_New_def NewRegistry_def)
  have ps: "nPartners partner_node = [sample_partner]" by (simp add: partner_node_def sample_node_def)
  show "PartnerForPeer (svReg edge_node) ''x.y'' = None"
    by (simp add: reg PartnerForPeer_def Reload_tables ps last_partner_def partner_peer_ids_def sample_partner_def n emptyRegistry_def)
  show "rgPartners (svReg edge_node) ''p'' = Some sample_partner"
    by (simp add: reg Reload_partner_names ps last_partner_def) (simp add: sample_partner_def)
  show "PartnerForRealm (svReg edge_node) ''a.c.d'' = Some sample_partner"
    by (simp add: reg PartnerForRealm_def Reload_tables ps last_partner_def exact_realms_def wildcard_entries_def n HasPrefix_def HasSuffix_def)
      (simp add: sample_partner_def n)
qed

theorem external_zone_admits_known_partners_only_witness:
  "let res = admitPeer partner_node (running_registry partner_node []) (sample_zone ''ipx'' ''external'') None ''x.y'' ''a.c.d'' in
   adAccepted res \<and> adPartner res = ''p'' \<and> RealmMatches ''a.c.d'' (ptRealms sample_partner)"
proof -
  let ?z = "sample_zone ''ipx'' ''external''" and ?r = "running_registry partner_node []"
  let ?res = "admitPeer partner_node ?r ?z None ''x.y'' ''a.c.d''"
  have z: "IsExternal ?z" "\<not> ztRequireClientCertIdentity (zTLS ?z)" "zName ?z = ''ipx''"
    by (simp_all add: IsExternal_def sample_zone_def ZoneRoleExternal_def)
  have r: "?r = svReg edge_node" by (simp add: running_registry_def edge_node_def Server_New_def NewRegistry_def)
  have p: "ptName sample_partner = ''p''" "ptZone sample_partner = ''ipx''" "ptRealms sample_partner \<noteq> []"
    by (simp_all add: sample_partner_def)
  have ps: "nPartners partner_node = [sample_partner]" by (simp add: partner_node_def sample_node_def)
  have res: "adAccepted ?res" "adPartner ?res = ''p''"
    by (simp_all add: admitPeer_def r edge_node_registry z p admitted_def)
  from external_zone_admits_known_partners_only [OF z(1) refl, of partner_node "[]" None "''x.y''" "''a.c.d''"] res p ps
  have "RealmMatches ''a.c.d'' (ptRealms sample_partner)" by simp
  with res show ?thesis by simp
qed

text \<open>A peer of the partner takes the identity of the internal peer \<open>x.y\<close>.\<close>

theorem partner_takes_over_internal_identity_witness:
  "let (verdict, s1) = accept_policy (sample_zone ''ipx'' ''external'') None 0 ''x.y'' ''a.c.d'' edge_node;
       s2 = inbound_state_change 0 StateROpen s1 in
   verdict = (True, ResultSuccess) \<and> LookupPeer (live_router s2) ''x.y'' = Some 0 \<and>
   \<not> adAccepted (admitPeer (svConfig s2) (svReg s2) (sample_zone ''lan'' ''internal'') None ''x.y'' ''x'')"
proof -
  obtain verdict s1 where a: "accept_policy (sample_zone ''ipx'' ''external'') None 0 ''x.y'' ''a.c.d'' edge_node = (verdict, s1)" by (metis prod.exhaust)
  have z: "IsExternal (sample_zone ''ipx'' ''external'')" "\<not> ztRequireClientCertIdentity (zTLS (sample_zone ''ipx'' ''external''))"
    by (simp_all add: IsExternal_def sample_zone_def ZoneRoleExternal_def)
  have p: "ptZone sample_partner = zName (sample_zone ''ipx'' ''external'')" "ptName sample_partner \<noteq> ''''" "ptName sample_partner = ''p''"
    by (simp_all add: sample_partner_def sample_zone_def)
  have q: "peer_of (svWorld edge_node) 0 = Some (open_peer\<lparr>diameterID := ''x.y''\<rparr>)" by (simp add: edge_node_def Server_New_def)
  have d: "diameterID (open_peer\<lparr>diameterID := ''x.y''\<rparr>) = ''x.y''" "''x.y'' \<noteq> ''''" by simp_all
  have r: "rgPartners (svReg edge_node) (ptName sample_partner) = Some sample_partner" by (simp add: p(3) edge_node_registry)
  have other: "zName (sample_zone ''lan'' ''internal'') \<noteq> zName (sample_zone ''ipx'' ''external'')" by (simp add: sample_zone_def)
  from partner_takes_over_internal_identity [OF z edge_node_registry(1) d(2) edge_node_registry(2) p(1,2) r q d(1) a refl] other a
  show ?thesis by simp
qed

theorem tls_zone_listens_with_tls_witness:
  "let z = (sample_zone ''ipx'' ''external'')\<lparr>zTLS := (zTLS (sample_zone ''ipx'' ''external''))\<lparr>ntEnabled := True, ntVerifyPeer := True\<rparr>\<rparr>;
       e = \<lparr>LoadX509KeyPair = (\<lambda>_ _. Inr ()), ReadFile = (\<lambda>_. Inr []), AppendCertsFromPEM = (\<lambda>_. Some ())\<rparr> :: (unit, unit) tls_env in
   \<exists>l ls. startListeners e (\<lambda>_. Inr ()) (sample_node [z]) [] = (Inr (), ls) \<and> (l, z) \<in> set ls \<and> (tls_listener (zTLS z) l \<or> sctp_listener l)"
proof -
  let ?z = "(sample_zone ''ipx'' ''external'')\<lparr>zTLS := (zTLS (sample_zone ''ipx'' ''external''))\<lparr>ntEnabled := True, ntVerifyPeer := True\<rparr>\<rparr>"
  let ?e = "\<lparr>LoadX509KeyPair = (\<lambda>_ _. Inr ()), ReadFile = (\<lambda>_. Inr []), AppendCertsFromPEM = (\<lambda>_. Some ())\<rparr> :: (unit, unit) tls_env"
  let ?cfg = "\<lparr>tlsCertificates = [()], tlsClientAuth = RequireAndVerifyClientCert, tlsMinimum = VersionTLS12, tlsClientCAs = None\<rparr> :: (unit, unit) tlsConfig"
  let ?l = "ListenTLS (JoinHostPort '''' 3868) ?cfg"
  have s: "startListeners ?e (\<lambda>_. Inr ()) (sample_node [?z]) [] = (Inr (), [(?l, ?z)])"
    by (simp add: startListeners_def EffectiveZones_def sample_node_def startZoneListeners_def Let_def zone_tls_def buildServerTLSConfig_def
        sample_zone_def tlsMinVersion_def then_listen_def addListener_def)
  have m: "(?l, ?z) \<in> set [(?l, ?z)]" "ntEnabled (zTLS ?z)" by simp_all
  from tls_zone_listens_with_tls [OF s m] s show ?thesis unfolding Let_def by (metis m(1))
qed

section \<open>Routes\<close>

lemma realm_routes_fold:
  "entries (realmRoutes (fold (\<lambda>(d, ps) r. AddRealmRoute r d ps) xs r) d) = entries (realmRoutes r d) @ concat (map snd (filter (\<lambda>x. fst x = d) xs))"
  by (induction xs arbitrary: r) (auto simp: AddRealmRoute_def entries_def)

lemma other_routes_fold:
  "realmRoutes (fold (\<lambda>(h, p) r. AddHostRoute r h p) hs r) = realmRoutes r"
  "realmRoutes (fold (\<lambda>a r. if acRouteTo a \<noteq> [] then AddAppRoute r (acID a) (acRouteTo a) else r) as r) = realmRoutes r"
  by (rule fold_frame; simp add: AddHostRoute_def AddAppRoute_def split: prod.split)+

definition routes_of :: "PeerConfig list \<Rightarrow> string \<Rightarrow> string list" where
  "routes_of pcs d = map pcIdentity (filter (\<lambda>pc. pcRealm pc = d \<and> pcRealm pc \<noteq> '''' \<and> pcIdentity pc \<noteq> '''') pcs)"

lemma peer_routes_fold:
  assumes "distinct (entries (realmRoutes r d))" and "\<And>i. (d, i) \<in> set seen \<longleftrightarrow> i \<in> set (entries (realmRoutes r d))"
  shows "distinct (entries (realmRoutes (snd (fold add_peer_route pcs (seen, r))) d)) \<and>
    set (entries (realmRoutes (snd (fold add_peer_route pcs (seen, r))) d)) = set (entries (realmRoutes r d)) \<union> set (routes_of pcs d)"
  using assms
proof (induction pcs arbitrary: seen r)
  case (Cons pc pcs)
  obtain seen1 r1 where s: "add_peer_route pc (seen, r) = (seen1, r1)" by (metis prod.exhaust)
  have d1: "distinct (entries (realmRoutes r1 d))" "\<And>i. (d, i) \<in> set seen1 \<longleftrightarrow> i \<in> set (entries (realmRoutes r1 d))"
    "set (entries (realmRoutes r1 d)) = set (entries (realmRoutes r d)) \<union> set (routes_of [pc] d)"
    using s Cons.prems by (auto simp: add_peer_route_def AddRealmRoute_def routes_of_def entries_def split: if_splits)
  from Cons.IH [OF d1(1,2)] d1(3) show ?case by (auto simp: s routes_of_def)
qed (simp add: routes_of_def)

text \<open>
  After start-up the routes of a realm are the configured ones and every configured peer of the realm, each once: a peer that
  a realm route already names is not added again.
\<close>

theorem realm_routes_cover_configured_peers:
  assumes "realmRoutes r d = None" and "distinct (concat (map snd (filter (\<lambda>x. fst x = d) (rcRealmRoutes (nRouting c)))))"
  shows "distinct (entries (realmRoutes (setupRouting c r) d)) \<and>
    set (entries (realmRoutes (setupRouting c r) d)) = set (concat (map snd (filter (\<lambda>x. fst x = d) (rcRealmRoutes (nRouting c))))) \<union>
      {pcIdentity pc | pc. pc \<in> set (nPeers c) \<and> pcRealm pc = d \<and> d \<noteq> '''' \<and> pcIdentity pc \<noteq> ''''}"
proof -
  let ?xs = "rcRealmRoutes (nRouting c)"
  let ?seen = "concat (map (\<lambda>(d, ps). map (Pair d) ps) ?xs)"
  let ?r0 = "SetDynamicRealmPeers (SetRelay (SetDefaultRealm r (rcDefaultRealm (nRouting c))) (rcRelayEnabled (nRouting c))) (rcDynamicRealmPeers (nRouting c))"
  have base: "entries (realmRoutes ?r0 d) = []" using assms(1) by (simp add: SetDynamicRealmPeers_def SetRelay_def SetDefaultRealm_def entries_def)
  have r1: "entries (realmRoutes (add_config_routes c ?r0) d) = concat (map snd (filter (\<lambda>x. fst x = d) ?xs))"
    by (simp add: add_config_routes_def other_routes_fold realm_routes_fold base)
  have seen: "(d, i) \<in> set ?seen \<longleftrightarrow> i \<in> set (entries (realmRoutes (add_config_routes c ?r0) d))" for i
    unfolding r1 by (induction ?xs) auto
  have all: "setupRouting c r = snd (fold add_peer_route (nPeers c) (?seen, add_config_routes c ?r0))"
    unfolding setupRouting_def Let_def ..
  have "distinct (entries (realmRoutes (add_config_routes c ?r0) d))" unfolding r1 by (rule assms(2))
  from peer_routes_fold [OF this seen, of "nPeers c"]
  show ?thesis unfolding all r1 by (auto simp: routes_of_def)
qed

theorem realm_routes_cover_configured_peers_witness:
  "set (entries (realmRoutes (setupRouting ((sample_node [])\<lparr>nPeers := [(sample_peer ''a.r'' '''')\<lparr>pcRealm := ''r''\<rparr>]\<rparr>) NewRouter) ''r'')) = {''a.r''}"
proof -
  let ?c = "(sample_node [])\<lparr>nPeers := [(sample_peer ''a.r'' '''')\<lparr>pcRealm := ''r''\<rparr>]\<rparr>"
  have h: "realmRoutes NewRouter ''r'' = None" "distinct (concat (map snd (filter (\<lambda>x. fst x = ''r'') (rcRealmRoutes (nRouting ?c)))))"
    by (simp_all add: NewRouter_def sample_node_def)
  from realm_routes_cover_configured_peers [OF h] show ?thesis by (simp add: sample_node_def sample_peer_def)
qed

end
