(* ===== verification/Dictionary.thy ===== *)
theory Dictionary
  imports Diam_Types
begin

text \<open>
  File \<open>pkg/proto/dictionary/dictionary.go\<close>: vendors, applications, types, enumerated values, AVPs and
  commands, each behind two indexes, one by its numeric key and one by its name. An \<open>Add\<close> method fails when either
  index has an entry and leaves the dictionary alone; otherwise it enters the object in both. The interface locale
  \<open>double_index\<close> states that contract once; its interpretations on the six kinds give the coherence of
  the indexes for every sequence of additions, and what loading a whole table does. The objects are values here: the code
  shares pointers to them and writes to none after its addition. The \<open>Encode\<close>/\<open>Decode\<close>
  callbacks of a type are set and called nowhere in the repository and left out.
\<close>

section \<open>Objects\<close>

record Vendor =
  venID :: VendorID
  venName :: string

record Application =
  appID :: ApplicationID
  appName :: string
  appVendorID :: VendorID

record TypeDef =
  typeName :: string
  BaseType :: AVPType

record EnumValue =
  enumName :: string
  enumValue :: "32 word"
  UValue :: u32
  TypeRef :: "TypeDef option"

record AVPFlags =
  Mandatory :: bool
  MandatoryMust :: bool
  Protected :: bool

datatype RulePosition = RulePositionFixed | RulePositionRequired | RulePositionOptional

datatype AVPDef = AVPDef (avpCode: AVPCode) (avpName: string) (avpVendorID: VendorID) (avpType: "TypeDef option")
    (avpFlags: AVPFlags) (avpRules: "Rule list")
  and Rule = Rule (ruleAVP: AVPDef) (rulePosition: RulePosition) (ruleMin: int) (ruleMax: int) (ruleOrder: int)

record CommandFlags =
  Request :: bool
  Proxiable :: bool

record Command =
  cmdCode :: CommandCode
  cmdName :: string
  cmdFlags :: CommandFlags
  cmdAppID :: ApplicationID
  cmdRules :: "Rule list"

datatype ObjectType = ObjectTypeVendor | ObjectTypeApplication | ObjectTypeType | ObjectTypeEnum
  | ObjectTypeAVP | ObjectTypeCommand | ObjectTypeRule

fun ObjectType_String :: "ObjectType \<Rightarrow> string" where
  "ObjectType_String ObjectTypeVendor = ''Vendor''"
| "ObjectType_String ObjectTypeApplication = ''Application''"
| "ObjectType_String ObjectTypeType = ''Type''"
| "ObjectType_String ObjectTypeEnum = ''Enum''"
| "ObjectType_String ObjectTypeAVP = ''AVP''"
| "ObjectType_String ObjectTypeCommand = ''Command''"
| "ObjectType_String ObjectTypeRule = ''Rule''"

datatype dict_error =
    KeyExists ObjectType string
  | NameExists ObjectType string

record dictionary =
  vendorsByID :: "VendorID \<Rightarrow> Vendor option"
  vendorsByName :: "string \<Rightarrow> Vendor option"
  appsByID :: "ApplicationID \<Rightarrow> Application option"
  appsByName :: "string \<Rightarrow> Application option"
  typesByName :: "string \<Rightarrow> TypeDef option"
  enumsByTypeAndValue :: "string \<Rightarrow> (32 word \<Rightarrow> EnumValue option) option"
  enumsByTypeAndName :: "string \<Rightarrow> (string \<Rightarrow> EnumValue option) option"
  avpsByKey :: "VendorID \<times> AVPCode \<Rightarrow> AVPDef option"
  avpsByName :: "string \<Rightarrow> AVPDef option"
  cmdsByKey :: "CommandCode \<times> bool \<Rightarrow> Command option"
  cmdsByName :: "string \<Rightarrow> Command option"

definition Dict_New :: dictionary where
  "Dict_New = \<lparr>vendorsByID = Map.empty, vendorsByName = Map.empty, appsByID = Map.empty, appsByName = Map.empty,
     typesByName = Map.empty, enumsByTypeAndValue = Map.empty, enumsByTypeAndName = Map.empty,
     avpsByKey = Map.empty, avpsByName = Map.empty, cmdsByKey = Map.empty, cmdsByName = Map.empty\<rparr>"

section \<open>Additions and lookups\<close>

text \<open>The result is the error, if any, and the dictionary.\<close>

type_synonym added = "dict_error option \<times> dictionary"

definition AddVendor :: "dictionary \<Rightarrow> Vendor \<Rightarrow> added" where
  "AddVendor d v =
     (if vendorsByID d (venID v) \<noteq> None then (Some (KeyExists ObjectTypeVendor (venName v)), d)
      else if vendorsByName d (venName v) \<noteq> None then (Some (NameExists ObjectTypeVendor (venName v)), d)
      else (None, d\<lparr>vendorsByID := (vendorsByID d)(venID v \<mapsto> v), vendorsByName := (vendorsByName d)(venName v \<mapsto> v)\<rparr>))"

definition GetVendorByID :: "dictionary \<Rightarrow> VendorID \<Rightarrow> Vendor option" where
  "GetVendorByID d i = vendorsByID d i"

definition GetVendorByName :: "dictionary \<Rightarrow> string \<Rightarrow> Vendor option" where
  "GetVendorByName d n = vendorsByName d n"

definition AddApplication :: "dictionary \<Rightarrow> Application \<Rightarrow> added" where
  "AddApplication d a =
     (if appsByID d (appID a) \<noteq> None then (Some (KeyExists ObjectTypeApplication (appName a)), d)
      else if appsByName d (appName a) \<noteq> None then (Some (NameExists ObjectTypeApplication (appName a)), d)
      else (None, d\<lparr>appsByID := (appsByID d)(appID a \<mapsto> a), appsByName := (appsByName d)(appName a \<mapsto> a)\<rparr>))"

definition GetApplicationByID :: "dictionary \<Rightarrow> ApplicationID \<Rightarrow> Application option" where
  "GetApplicationByID d i = appsByID d i"

definition GetApplicationByName :: "dictionary \<Rightarrow> string \<Rightarrow> Application option" where
  "GetApplicationByName d n = appsByName d n"

definition AddType :: "dictionary \<Rightarrow> TypeDef \<Rightarrow> added" where
  "AddType d t =
     (if typesByName d (typeName t) \<noteq> None then (Some (KeyExists ObjectTypeType (typeName t)), d)
      else (None, d\<lparr>typesByName := (typesByName d)(typeName t \<mapsto> t)\<rparr>))"

definition GetTypeByName :: "dictionary \<Rightarrow> string \<Rightarrow> TypeDef option" where
  "GetTypeByName d n = typesByName d n"

text \<open>The two inner tables of a type are created together by its first value.\<close>

definition enum_tables :: "dictionary \<Rightarrow> string \<Rightarrow> dictionary" where
  "enum_tables d t = (if enumsByTypeAndValue d t = None
     then d\<lparr>enumsByTypeAndValue := (enumsByTypeAndValue d)(t \<mapsto> Map.empty),
            enumsByTypeAndName := (enumsByTypeAndName d)(t \<mapsto> Map.empty)\<rparr> else d)"

definition inner :: "('k \<Rightarrow> 'v option) option \<Rightarrow> 'k \<Rightarrow> 'v option" where
  "inner m k = (case m of None \<Rightarrow> None | Some f \<Rightarrow> f k)"

definition AddEnum :: "string \<Rightarrow> dictionary \<Rightarrow> EnumValue \<Rightarrow> added" where
  "AddEnum t d e =
     (let d = enum_tables d t;
          vs = inner (enumsByTypeAndValue d t);
          ns = inner (enumsByTypeAndName d t) in
      if vs (enumValue e) \<noteq> None then (Some (KeyExists ObjectTypeEnum (enumName e)), d)
      else if ns (enumName e) \<noteq> None then (Some (NameExists ObjectTypeEnum (enumName e)), d)
      else (None, d\<lparr>enumsByTypeAndValue := (enumsByTypeAndValue d)(t \<mapsto> vs(enumValue e \<mapsto> e)),
                    enumsByTypeAndName := (enumsByTypeAndName d)(t \<mapsto> ns(enumName e \<mapsto> e))\<rparr>))"

definition GetEnumByValue :: "dictionary \<Rightarrow> string \<Rightarrow> 32 word \<Rightarrow> EnumValue option" where
  "GetEnumByValue d t v = inner (enumsByTypeAndValue d t) v"

definition GetEnumByName :: "dictionary \<Rightarrow> string \<Rightarrow> string \<Rightarrow> EnumValue option" where
  "GetEnumByName d t n = inner (enumsByTypeAndName d t) n"

definition avpKey :: "AVPDef \<Rightarrow> VendorID \<times> AVPCode" where
  "avpKey a = (avpVendorID a, avpCode a)"

definition AddAVPDef :: "dictionary \<Rightarrow> AVPDef \<Rightarrow> added" where
  "AddAVPDef d a =
     (if avpsByKey d (avpKey a) \<noteq> None then (Some (KeyExists ObjectTypeAVP (avpName a)), d)
      else if avpsByName d (avpName a) \<noteq> None then (Some (NameExists ObjectTypeAVP (avpName a)), d)
      else (None, d\<lparr>avpsByKey := (avpsByKey d)(avpKey a \<mapsto> a), avpsByName := (avpsByName d)(avpName a \<mapsto> a)\<rparr>))"

definition GetAVPByCode :: "dictionary \<Rightarrow> VendorID \<Rightarrow> AVPCode \<Rightarrow> AVPDef option" where
  "GetAVPByCode d v c = avpsByKey d (v, c)"

definition GetAVPByName :: "dictionary \<Rightarrow> string \<Rightarrow> AVPDef option" where
  "GetAVPByName d n = avpsByName d n"

definition cmdKey :: "Command \<Rightarrow> CommandCode \<times> bool" where
  "cmdKey c = (cmdCode c, Request (cmdFlags c))"

definition AddCommand :: "dictionary \<Rightarrow> Command \<Rightarrow> added" where
  "AddCommand d c =
     (if cmdsByKey d (cmdKey c) \<noteq> None then (Some (KeyExists ObjectTypeCommand (cmdName c)), d)
      else if cmdsByName d (cmdName c) \<noteq> None then (Some (NameExists ObjectTypeCommand (cmdName c)), d)
      else (None, d\<lparr>cmdsByKey := (cmdsByKey d)(cmdKey c \<mapsto> c), cmdsByName := (cmdsByName d)(cmdName c \<mapsto> c)\<rparr>))"

definition GetCommandByCode :: "dictionary \<Rightarrow> CommandCode \<Rightarrow> bool \<Rightarrow> Command option" where
  "GetCommandByCode d c isRequest = cmdsByKey d (c, isRequest)"

definition GetCommandByName :: "dictionary \<Rightarrow> string \<Rightarrow> Command option" where
  "GetCommandByName d n = cmdsByName d n"

record DictStats =
  Vendors :: nat
  Applications :: nat
  Types :: nat
  Enums :: nat
  nAVPs :: nat
  Commands :: nat

definition dict_Stats :: "dictionary \<Rightarrow> DictStats" where
  "dict_Stats d = \<lparr>Vendors = card (dom (vendorsByID d)), Applications = card (dom (appsByID d)),
     Types = card (dom (typesByName d)),
     Enums = (\<Sum>t \<in> dom (enumsByTypeAndValue d). card (dom (inner (enumsByTypeAndValue d t)))),
     nAVPs = card (dom (avpsByKey d)), Commands = card (dom (cmdsByKey d))\<rparr>"


section \<open>Two indexes over one kind of object\<close>

definition coherent :: "('k \<Rightarrow> 'a option) \<Rightarrow> ('n \<Rightarrow> 'a option) \<Rightarrow> ('a \<Rightarrow> 'k) \<Rightarrow> ('a \<Rightarrow> 'n) \<Rightarrow> bool" where
  "coherent ks ns key name \<longleftrightarrow>
     (\<forall>k x. ks k = Some x \<longrightarrow> key x = k \<and> ns (name x) = Some x) \<and>
     (\<forall>n x. ns n = Some x \<longrightarrow> name x = n \<and> ks (key x) = Some x)"

lemma coherent_empty [simp]: "coherent Map.empty Map.empty key name"
  by (simp add: coherent_def)

lemma coherent_upd:
  assumes "coherent ks ns key name" "ks (key x) = None" "ns (name x) = None"
  shows "coherent (ks(key x \<mapsto> x)) (ns(name x \<mapsto> x)) key name"
proof -
  have k: "key y = k" "ns (name y) = Some y" "name y \<noteq> name x" if "ks k = Some y" for k y
    using assms that unfolding coherent_def by (metis option.distinct(1))+
  have n: "name y = n" "ks (key y) = Some y" "key y \<noteq> key x" if "ns n = Some y" for n y
    using assms that unfolding coherent_def by (metis option.distinct(1))+
  show ?thesis unfolding coherent_def
  proof (intro conjI allI impI)
    fix l y
    { assume "(ks(key x \<mapsto> x)) l = Some y"
      with k [of l y] show "key y = l" by (cases "l = key x") auto }
    { assume "(ks(key x \<mapsto> x)) l = Some y"
      with k [of l y] show "(ns(name x \<mapsto> x)) (name y) = Some y" by (cases "l = key x") auto }
  next
    fix l y
    { assume "(ns(name x \<mapsto> x)) l = Some y"
      with n [of l y] show "name y = l" by (cases "l = name x") auto }
    { assume "(ns(name x \<mapsto> x)) l = Some y"
      with n [of l y] show "(ks(key x \<mapsto> x)) (key y) = Some y" by (cases "l = name x") auto }
  qed
qed

lemma coherent_same_name:
  "coherent ks ns key name \<Longrightarrow> ks k = Some x \<Longrightarrow> ks l = Some y \<Longrightarrow> name x = name y \<Longrightarrow> x = y"
  unfolding coherent_def by (metis option.inject)

text \<open>Loading a table: up to the first error, or leaving out what is refused.\<close>

fun load_all :: "('d \<Rightarrow> 'a \<Rightarrow> 'e option \<times> 'd) \<Rightarrow> 'd \<Rightarrow> 'a list \<Rightarrow> 'e option \<times> 'd" where
  "load_all add d [] = (None, d)"
| "load_all add d (x # xs) = (case add d x of (Some e, d) \<Rightarrow> (Some e, d) | (None, d) \<Rightarrow> load_all add d xs)"

fun load_skip :: "('d \<Rightarrow> 'a \<Rightarrow> 'e option \<times> 'd) \<Rightarrow> 'd \<Rightarrow> 'a list \<Rightarrow> 'd" where
  "load_skip add d [] = d"
| "load_skip add d (x # xs) = load_skip add (snd (add d x)) xs"

locale double_index =
  fixes add :: "'d \<Rightarrow> 'a \<Rightarrow> 'e option \<times> 'd"
    and byKey :: "'d \<Rightarrow> 'k \<Rightarrow> 'a option"
    and byName :: "'d \<Rightarrow> 'n \<Rightarrow> 'a option"
    and key :: "'a \<Rightarrow> 'k"
    and name :: "'a \<Rightarrow> 'n"
    and ok :: "'d \<Rightarrow> bool"
  assumes add_ok: "ok d \<Longrightarrow> ok (snd (add d x))"
    and add_fresh: "ok d \<Longrightarrow> byKey d (key x) = None \<Longrightarrow> byName d (name x) = None \<Longrightarrow>
      fst (add d x) = None \<and> byKey (snd (add d x)) = (byKey d)(key x \<mapsto> x) \<and> byName (snd (add d x)) = (byName d)(name x \<mapsto> x)"
    and add_taken: "ok d \<Longrightarrow> byKey d (key x) \<noteq> None \<or> byName d (name x) \<noteq> None \<Longrightarrow>
      fst (add d x) \<noteq> None \<and> byKey (snd (add d x)) = byKey d \<and> byName (snd (add d x)) = byName d"
begin

definition agree :: "'d \<Rightarrow> bool" where
  "agree d \<longleftrightarrow> coherent (byKey d) (byName d) key name"

lemma add_accepts: "ok d \<Longrightarrow> fst (add d x) = None \<longleftrightarrow> byKey d (key x) = None \<and> byName d (name x) = None"
  using add_fresh [of d x] add_taken [of d x] by blast

lemma add_cases [consumes 1, case_names fresh taken]:
  assumes "ok d"
  obtains d' where "add d x = (None, d')" "byKey d (key x) = None" "byName d (name x) = None"
      "byKey d' = (byKey d)(key x \<mapsto> x)" "byName d' = (byName d)(name x \<mapsto> x)"
    | e d' where "add d x = (Some e, d')" "byKey d (key x) \<noteq> None \<or> byName d (name x) \<noteq> None" "byKey d' = byKey d" "byName d' = byName d"
  using add_fresh [OF assms, of x] add_taken [OF assms, of x] by (cases "add d x"; cases "fst (add d x)") auto

lemma add_agree: "ok d \<Longrightarrow> agree d \<Longrightarrow> agree (snd (add d x))"
  by (cases d rule: add_cases [where x = x]) (auto simp: agree_def coherent_upd)

text \<open>An addition never takes an entry away, whether it succeeds or not.\<close>

lemma add_keeps:
  assumes "ok d"
  shows "byKey d k = Some y \<Longrightarrow> byKey (snd (add d x)) k = Some y" "byName d n = Some y \<Longrightarrow> byName (snd (add d x)) n = Some y"
  using assms by (cases d rule: add_cases [where x = x]; auto)+

lemma add_found:
  assumes "ok d" "fst (add d x) = None"
  shows "byKey (snd (add d x)) (key x) = Some x" "byName (snd (add d x)) (name x) = Some x"
  using assms by (cases d rule: add_cases [where x = x]; auto)+

lemma load_skip_agree: "ok d \<Longrightarrow> agree d \<Longrightarrow> agree (load_skip add d xs)"
  by (induction xs arbitrary: d) (simp_all add: add_agree add_ok)

lemma load_skip_keeps:
  "ok d \<Longrightarrow> byKey d k = Some y \<Longrightarrow> byKey (load_skip add d xs) k = Some y"
  "ok d \<Longrightarrow> byName d n = Some y \<Longrightarrow> byName (load_skip add d xs) n = Some y"
  by (induction xs arbitrary: d) (simp_all add: add_keeps add_ok)

text \<open>The first definition of a name or key wins: what is refused stays refused.\<close>

lemma load_skip_decides:
  assumes "ok d" "x \<in> set xs"
  shows "byKey (load_skip add d xs) (key x) \<noteq> None \<or> byName (load_skip add d xs) (name x) \<noteq> None"
  using assms
proof (induction xs arbitrary: d)
  case (Cons y ys)
  show ?case
  proof (cases "x = y")
    case True
    have "byKey (snd (add d y)) (key y) \<noteq> None \<or> byName (snd (add d y)) (name y) \<noteq> None"
      using Cons.prems(1) by (cases d rule: add_cases [where x = y]) auto
    then show ?thesis using True load_skip_keeps [OF add_ok [OF Cons.prems(1), of y], where xs = ys] by auto
  qed (use Cons add_ok in simp)
qed simp

lemma load_all_skip: "fst (load_all add d xs) = None \<Longrightarrow> snd (load_all add d xs) = load_skip add d xs"
  by (induction xs arbitrary: d) (auto split: prod.splits option.splits)

lemma load_all_ok: "ok d \<Longrightarrow> ok (snd (load_all add d xs))"
proof (induction xs arbitrary: d)
  case (Cons x xs)
  then show ?case using add_ok [of d x] by (auto split: prod.splits option.splits)
qed simp

lemma load_all_agree: "ok d \<Longrightarrow> agree d \<Longrightarrow> agree (snd (load_all add d xs))"
proof (induction xs arbitrary: d)
  case (Cons x xs)
  then show ?case using add_agree [of d x] add_ok [of d x] by (auto split: prod.splits option.splits)
qed simp

lemma load_all_found:
  assumes "ok d" "fst (load_all add d xs) = None" "x \<in> set xs"
  shows "byKey (snd (load_all add d xs)) (key x) = Some x \<and> byName (snd (load_all add d xs)) (name x) = Some x"
  using assms
proof (induction xs arbitrary: d)
  case (Cons y ys)
  obtain d' where d': "add d y = (None, d')" using Cons.prems(2) by (cases "add d y") (auto split: option.splits)
  have ok': "ok d'" using add_ok [OF Cons.prems(1), of y] d' by simp
  have rest: "fst (load_all add d' ys) = None" using Cons.prems(2) d' by simp
  show ?case
  proof (cases "x = y")
    case True
    have "byKey d' (key y) = Some y" "byName d' (name y) = Some y" using add_found [OF Cons.prems(1), of y] d' by simp_all
    then show ?thesis using True d' load_all_skip [OF rest] load_skip_keeps [OF ok'] by simp
  qed (use Cons d' ok' rest in simp)
qed simp

text \<open>Everything in the index is one of \<open>xs\<close>.\<close>

definition contents :: "'d \<Rightarrow> 'a list \<Rightarrow> bool" where
  "contents d xs \<longleftrightarrow> agree d \<and> (\<forall>k x. byKey d k = Some x \<longrightarrow> x \<in> set xs)"

lemma load_skip_from: "ok d \<Longrightarrow> byKey (load_skip add d xs) k = Some x \<Longrightarrow> byKey d k = Some x \<or> x \<in> set xs"
proof (induction xs arbitrary: d)
  case (Cons y ys)
  have "byKey (snd (add d y)) k = Some x \<or> x \<in> set ys" using Cons add_ok [of d y] by simp
  moreover have "byKey (snd (add d y)) k = Some x \<Longrightarrow> byKey d k = Some x \<or> x = y"
    using Cons.prems(1) by (cases d rule: add_cases [where x = y]) (auto split: if_splits)
  ultimately show ?case by auto
qed simp

lemma contents_skip: "ok d \<Longrightarrow> contents d zs \<Longrightarrow> contents (load_skip add d xs) (zs @ xs)"
  using load_skip_agree [of d xs] load_skip_from [of d xs] unfolding contents_def by fastforce

lemma load_skip_absent:
  assumes "ok d" "byKey d k = None" "\<And>x. x \<in> set xs \<Longrightarrow> key x = k \<Longrightarrow> byName d (name x) \<noteq> None"
  shows "byKey (load_skip add d xs) k = None"
  using assms
proof (induction xs arbitrary: d)
  case (Cons y ys)
  let ?d = "snd (add d y)"
  have "byKey ?d k = None" using Cons.prems(1)
  proof (cases d rule: add_cases [where x = y])
    case (fresh d')
    then have "key y \<noteq> k" using Cons.prems(3) [of y] by auto
    then show ?thesis using fresh Cons.prems(2) by simp
  qed (use Cons.prems(2) in simp)
  moreover have "byName ?d (name x) \<noteq> None" if "x \<in> set ys" "key x = k" for x
    using Cons.prems(3) [of x] that add_keeps(2) [OF Cons.prems(1)] by fastforce
  ultimately have "byKey (load_skip add ?d ys) k = None" by (intro Cons.IH add_ok Cons.prems(1))
  then show ?case by simp
qed simp

lemma load_all_accepts:
  "ok d \<Longrightarrow> fst (load_all add d xs) = None \<longleftrightarrow>
     distinct (map key xs) \<and> distinct (map name xs) \<and> (\<forall>x \<in> set xs. byKey d (key x) = None \<and> byName d (name x) = None)"
proof (induction xs arbitrary: d)
  case (Cons y ys)
  show ?case using Cons.prems
  proof (cases d rule: add_cases [where x = y])
    case (fresh d')
    have "ok d'" using add_ok [OF Cons.prems, of y] fresh(1) by simp
    with fresh Cons.IH [of d'] show ?thesis by (auto simp: image_iff)
  qed auto
qed simp

text \<open>A table whose keys and names are new loads to the end.\<close>

lemma load_all_succeeds:
  assumes "ok d" "contents d zs" "distinct (map key (zs @ xs))" "distinct (map name (zs @ xs))"
  shows "load_all add d xs = (None, load_skip add d xs)"
proof -
  have "byKey d (key x) = None \<and> byName d (name x) = None" if x: "x \<in> set xs" for x
  proof -
    have c: "coherent (byKey d) (byName d) key name" and h: "\<And>k y. byKey d k = Some y \<Longrightarrow> y \<in> set zs"
      using assms(2) by (auto simp: contents_def agree_def)
    have "key x \<notin> key ` set zs" "name x \<notin> name ` set zs" using assms(3,4) x by auto
    moreover have "key y = key x" "y \<in> set zs" if "byKey d (key x) = Some y" for y
      using c h [OF that] that by (auto simp: coherent_def)
    moreover have "name y = name x" "y \<in> set zs" if "byName d (name x) = Some y" for y
    proof -
      show "name y = name x" using c that unfolding coherent_def by blast
      have "byKey d (key y) = Some y" using c that unfolding coherent_def by blast
      then show "y \<in> set zs" by (rule h)
    qed
    ultimately show ?thesis by (metis image_eqI not_Some_eq)
  qed
  then have "fst (load_all add d xs) = None" using assms by (simp add: load_all_accepts)
  then show ?thesis using load_all_skip [of d xs] by (metis prod.collapse)
qed

end

interpretation vendors: double_index AddVendor vendorsByID vendorsByName venID venName "\<lambda>_. True"
  by unfold_locales (auto simp: AddVendor_def)

interpretation apps: double_index AddApplication appsByID appsByName appID appName "\<lambda>_. True"
  by unfold_locales (auto simp: AddApplication_def)

interpretation typedefs: double_index AddType typesByName typesByName typeName typeName "\<lambda>_. True"
  by unfold_locales (auto simp: AddType_def)

definition enums_ok :: "dictionary \<Rightarrow> bool" where
  "enums_ok d \<longleftrightarrow> dom (enumsByTypeAndValue d) = dom (enumsByTypeAndName d)"

lemma enum_tables_both:
  assumes "enums_ok d"
  shows "inner (enumsByTypeAndValue (enum_tables d t) t) = inner (enumsByTypeAndValue d t)"
    "inner (enumsByTypeAndName (enum_tables d t) t) = inner (enumsByTypeAndName d t)" "enums_ok (enum_tables d t)"
proof -
  have "enumsByTypeAndValue d t = None \<longleftrightarrow> enumsByTypeAndName d t = None"
    using assms unfolding enums_ok_def by (metis domIff)
  then show "inner (enumsByTypeAndValue (enum_tables d t) t) = inner (enumsByTypeAndValue d t)"
    "inner (enumsByTypeAndName (enum_tables d t) t) = inner (enumsByTypeAndName d t)"
    by (auto simp: enum_tables_def inner_def fun_eq_iff)
  show "enums_ok (enum_tables d t)" using assms by (simp add: enums_ok_def enum_tables_def)
qed

lemma AddEnum_ok: "enums_ok d \<Longrightarrow> enums_ok (snd (AddEnum t d e))"
  using enum_tables_both(3) [of d t] by (simp add: AddEnum_def Let_def enums_ok_def)

interpretation enums: double_index "AddEnum t" "\<lambda>d. GetEnumByValue d t" "\<lambda>d. GetEnumByName d t" enumValue enumName enums_ok
  for t
proof
  fix d :: dictionary and x
  assume ok: "enums_ok d"
  note e = enum_tables_both [OF ok, of t]
  show "enums_ok (snd (AddEnum t d x))" by (rule AddEnum_ok [OF ok])
  have g: "GetEnumByValue (enum_tables d t) t = GetEnumByValue d t" "GetEnumByName (enum_tables d t) t = GetEnumByName d t"
    by (simp_all add: GetEnumByValue_def [abs_def] GetEnumByName_def [abs_def] e(1,2))
  { assume "GetEnumByValue d t (enumValue x) = None" "GetEnumByName d t (enumName x) = None"
    then show "fst (AddEnum t d x) = None \<and> GetEnumByValue (snd (AddEnum t d x)) t = (GetEnumByValue d t)(enumValue x \<mapsto> x) \<and>
        GetEnumByName (snd (AddEnum t d x)) t = (GetEnumByName d t)(enumName x \<mapsto> x)"
      by (simp add: AddEnum_def Let_def e GetEnumByValue_def [abs_def] GetEnumByName_def [abs_def])
        (simp add: inner_def fun_eq_iff) }
  { assume "GetEnumByValue d t (enumValue x) \<noteq> None \<or> GetEnumByName d t (enumName x) \<noteq> None"
    then show "fst (AddEnum t d x) \<noteq> None \<and> GetEnumByValue (snd (AddEnum t d x)) t = GetEnumByValue d t \<and>
        GetEnumByName (snd (AddEnum t d x)) t = GetEnumByName d t"
      using g by (auto simp: AddEnum_def Let_def GetEnumByValue_def GetEnumByName_def e) }
qed

interpretation avps: double_index AddAVPDef avpsByKey avpsByName avpKey avpName "\<lambda>_. True"
  by unfold_locales (auto simp: AddAVPDef_def)

interpretation cmds: double_index AddCommand cmdsByKey cmdsByName cmdKey cmdName "\<lambda>_. True"
  by unfold_locales (auto simp: AddCommand_def)

end
