(* ===== verification/Dict_Tables.thy ===== *)
theory Dict_Tables
  imports Dictionary Dict_Codes
begin

text \<open>
  The tables of \<open>proto/dictionary\<close>: \<open>base_protocol.go\<close> (RFC 6733 and RFC 4006), \<open>nasreq_eap.go\<close>,
  \<open>dict_3gpp.go\<close> and \<open>dict_sip.go\<close>, line by line, as functions of the dictionary they look the types up in.
\<close>

definition avp_def :: "AVPCode \<Rightarrow> string \<Rightarrow> VendorID \<Rightarrow> TypeDef option \<Rightarrow> bool \<Rightarrow> AVPDef" where
  "avp_def code name vendor type m = AVPDef code name vendor type \<lparr>Mandatory = m, MandatoryMust = False, Protected = False\<rparr> []"

definition cmd_def :: "CommandCode \<Rightarrow> string \<Rightarrow> bool \<Rightarrow> bool \<Rightarrow> ApplicationID \<Rightarrow> Command" where
  "cmd_def code name req prox app = \<lparr>cmdCode = code, cmdName = name, cmdFlags = \<lparr>Request = req, Proxiable = prox\<rparr>,
     cmdAppID = app, cmdRules = []\<rparr>"

section \<open>\<open>base_protocol.go\<close>\<close>

definition baseAVPs :: "dictionary \<Rightarrow> AVPDef list" where
  "baseAVPs d = (let octetString = GetTypeByName d ''OctetString'';
       utf8String = GetTypeByName d ''UTF8String'';
       unsigned32 = GetTypeByName d ''Unsigned32'';
       unsigned64 = GetTypeByName d ''Unsigned64'';
       address = GetTypeByName d ''Address'';
       diamIdent = GetTypeByName d ''DiameterIdentity'';
       diamURI = GetTypeByName d ''DiameterURI'';
       timeType = GetTypeByName d ''Time'';
       grouped = GetTypeByName d ''Grouped'';
       enumerated = GetTypeByName d ''Enumerated'' in [
     avp_def AVPCodeSessionID ''Session-ID'' 0 utf8String True,
     avp_def AVPCodeOriginHost ''Origin-Host'' 0 diamIdent True,
     avp_def AVPCodeOriginRealm ''Origin-Realm'' 0 diamIdent True,
     avp_def AVPCodeDestinationHost ''Destination-Host'' 0 diamIdent True,
     avp_def AVPCodeDestinationRealm ''Destination-Realm'' 0 diamIdent True,
     avp_def AVPCodeAuthApplicationID ''Auth-Application-ID'' 0 unsigned32 True,
     avp_def AVPCodeAcctApplicationID ''Acct-Application-ID'' 0 unsigned32 True,
     avp_def AVPCodeVendorSpecificAppID ''Vendor-Specific-Application-ID'' 0 grouped True,
     avp_def AVPCodeResultCode ''Result-Code'' 0 unsigned32 True,
     avp_def AVPCodeExperimentalResult ''Experimental-Result'' 0 grouped True,
     avp_def AVPCodeExperimentalResultCode ''Experimental-Result-Code'' 0 unsigned32 True,
     avp_def AVPCodeErrorMessage ''Error-Message'' 0 utf8String False,
     avp_def AVPCodeErrorReportingHost ''Error-Reporting-Host'' 0 diamIdent False,
     avp_def AVPCodeFailedAVP ''Failed-AVP'' 0 grouped True,
     avp_def AVPCodeHostIPAddress ''Host-IP-Address'' 0 address True,
     avp_def AVPCodeVendorID ''Vendor-ID'' 0 unsigned32 True,
     avp_def AVPCodeProductName ''Product-Name'' 0 utf8String False,
     avp_def AVPCodeOriginStateID ''Origin-State-ID'' 0 unsigned32 True,
     avp_def AVPCodeSupportedVendorID ''Supported-Vendor-ID'' 0 unsigned32 True,
     avp_def AVPCodeFirmwareRevision ''Firmware-Revision'' 0 unsigned32 False,
     avp_def AVPCodeInbandSecurityID ''Inband-Security-ID'' 0 unsigned32 True,
     avp_def AVPCodeRouteRecord ''Route-Record'' 0 diamIdent True,
     avp_def AVPCodeProxyInfo ''Proxy-Info'' 0 grouped True,
     avp_def AVPCodeProxyHost ''Proxy-Host'' 0 diamIdent True,
     avp_def AVPCodeProxyState ''Proxy-State'' 0 octetString True,
     avp_def AVPCodeRedirectHost ''Redirect-Host'' 0 diamURI True,
     avp_def AVPCodeRedirectHostUsage ''Redirect-Host-Usage'' 0 enumerated True,
     avp_def AVPCodeRedirectMaxCacheTime ''Redirect-Max-Cache-Time'' 0 unsigned32 True,
     avp_def AVPCodeUserName ''User-Name'' 0 utf8String True,
     avp_def AVPCodeAuthRequestType ''Auth-Request-Type'' 0 enumerated True,
     avp_def AVPCodeAuthGracePeriod ''Auth-Grace-Period'' 0 unsigned32 True,
     avp_def AVPCodeAuthSessionState ''Auth-Session-State'' 0 enumerated True,
     avp_def AVPCodeReAuthRequestType ''Re-Auth-Request-Type'' 0 enumerated True,
     avp_def AVPCodeClass ''Class'' 0 octetString True,
     avp_def AVPCodeAuthorizationLifetime ''Authorization-Lifetime'' 0 unsigned32 True,
     avp_def AVPCodeSessionTimeout ''Session-Timeout'' 0 unsigned32 True,
     avp_def AVPCodeAccountingRecordType ''Accounting-Record-Type'' 0 enumerated True,
     avp_def AVPCodeAccountingRecordNumber ''Accounting-Record-Number'' 0 unsigned32 True,
     avp_def AVPCodeAccountingSubSessionID ''Accounting-Sub-Session-ID'' 0 unsigned64 True,
     avp_def AVPCodeAccountingSessionID ''Acct-Session-ID'' 0 octetString True,
     avp_def AVPCodeAcctMultiSessionID ''Acct-Multi-Session-ID'' 0 utf8String True,
     avp_def AVPCodeAcctInterimInterval ''Acct-Interim-Interval'' 0 unsigned32 True,
     avp_def AVPCodeAccountingRealtimeRequired ''Accounting-Realtime-Required'' 0 enumerated True,
     avp_def AVPCodeEventTimestamp ''Event-Timestamp'' 0 timeType True,
     avp_def AVPCodeDisconnectCause ''Disconnect-Cause'' 0 enumerated True,
     avp_def AVPCodeTerminationCause ''Termination-Cause'' 0 enumerated True,
     avp_def AVPCodeMultiRoundTimeOut ''Multi-Round-Time-Out'' 0 unsigned32 True])"

definition ccAVPs :: "dictionary \<Rightarrow> AVPDef list" where
  "ccAVPs d = (let octetString = GetTypeByName d ''OctetString'';
       utf8String = GetTypeByName d ''UTF8String'';
       unsigned32 = GetTypeByName d ''Unsigned32'';
       timeType = GetTypeByName d ''Time'';
       grouped = GetTypeByName d ''Grouped'';
       enumerated = GetTypeByName d ''Enumerated'' in [
     avp_def AVPCodeCCRequestType ''CC-Request-Type'' 0 enumerated True,
     avp_def AVPCodeCCRequestNumber ''CC-Request-Number'' 0 unsigned32 True,
     avp_def AVPCodeCCSessionFailover ''CC-Session-Failover'' 0 enumerated True,
     avp_def AVPCodeCCSubSessionID ''CC-Sub-Session-ID'' 0 unsigned32 True,
     avp_def AVPCodeGrantedServiceUnit ''Granted-Service-Unit'' 0 grouped True,
     avp_def AVPCodeRequestedServiceUnit ''Requested-Service-Unit'' 0 grouped True,
     avp_def AVPCodeUsedServiceUnit ''Used-Service-Unit'' 0 grouped True,
     avp_def AVPCodeServiceContextID ''Service-Context-ID'' 0 utf8String True,
     avp_def AVPCodeServiceIdentifier ''Service-Identifier'' 0 unsigned32 True,
     avp_def AVPCodeRatingGroup ''Rating-Group'' 0 unsigned32 True,
     avp_def AVPCodeSubscriptionID ''Subscription-ID'' 0 grouped True,
     avp_def AVPCodeSubscriptionIDData ''Subscription-ID-Data'' 0 utf8String True,
     avp_def AVPCodeSubscriptionIDType ''Subscription-ID-Type'' 0 enumerated True,
     avp_def AVPCodeMultipleServicesCreditControl ''Multiple-Services-Credit-Control'' 0 grouped True,
     avp_def AVPCodeMultipleServicesIndicator ''Multiple-Services-Indicator'' 0 enumerated True,
     avp_def AVPCodeRequestedAction ''Requested-Action'' 0 enumerated True,
     avp_def AVPCodeValidityTime ''Validity-Time'' 0 unsigned32 True,
     avp_def AVPCodeFinalUnitIndication ''Final-Unit-Indication'' 0 grouped True,
     avp_def AVPCodeFinalUnitAction ''Final-Unit-Action'' 0 enumerated True,
     avp_def AVPCodeTariffTimeChange ''Tariff-Time-Change'' 0 timeType True,
     avp_def AVPCodeTariffChangeUsage ''Tariff-Change-Usage'' 0 enumerated True,
     avp_def AVPCodeCostInformation ''Cost-Information'' 0 grouped True,
     avp_def AVPCodeCostUnit ''Cost-Unit'' 0 utf8String True,
     avp_def AVPCodeUnitValue ''Unit-Value'' 0 grouped True,
     avp_def AVPCodeValueDigits ''Value-Digits'' 0 unsigned32 True,
     avp_def AVPCodeExponent ''Exponent'' 0 unsigned32 True,
     avp_def AVPCodeCreditControl ''Credit-Control'' 0 enumerated True,
     avp_def AVPCodeCreditControlFailureHandling ''Credit-Control-Failure-Handling'' 0 enumerated True,
     avp_def AVPCodeDirectDebitingFailureHandling ''Direct-Debiting-Failure-Handling'' 0 enumerated True,
     avp_def AVPCodeCheckBalanceResult ''Check-Balance-Result'' 0 enumerated True,
     avp_def AVPCodeRedirectServer ''Redirect-Server'' 0 grouped True,
     avp_def AVPCodeRedirectAddressType ''Redirect-Address-Type'' 0 enumerated True,
     avp_def AVPCodeRedirectServerAddress ''Redirect-Server-Address'' 0 utf8String True,
     avp_def AVPCodeRestrictionFilterRule ''Restriction-Filter-Rule'' 0 octetString True,
     avp_def AVPCodeUserEquipmentInfo ''User-Equipment-Info'' 0 grouped False,
     avp_def AVPCodeUserEquipmentInfoType ''User-Equipment-Info-Type'' 0 enumerated False,
     avp_def AVPCodeUserEquipmentInfoValue ''User-Equipment-Info-Value'' 0 octetString False])"

definition baseCommands :: "Command list" where
  "baseCommands = [
     cmd_def CmdCodeCapabilitiesExchange ''Capabilities-Exchange-Request'' True False AppIDCommon,
     cmd_def CmdCodeCapabilitiesExchange ''Capabilities-Exchange-Answer'' False False AppIDCommon,
     cmd_def CmdCodeReAuth ''Re-Auth-Request'' True True AppIDCommon,
     cmd_def CmdCodeReAuth ''Re-Auth-Answer'' False True AppIDCommon,
     cmd_def CmdCodeAccounting ''Accounting-Request'' True True AppIDBaseAccounting,
     cmd_def CmdCodeAccounting ''Accounting-Answer'' False True AppIDBaseAccounting,
     cmd_def CmdCodeAbortSession ''Abort-Session-Request'' True True AppIDCommon,
     cmd_def CmdCodeAbortSession ''Abort-Session-Answer'' False True AppIDCommon,
     cmd_def CmdCodeSessionTermination ''Session-Termination-Request'' True True AppIDCommon,
     cmd_def CmdCodeSessionTermination ''Session-Termination-Answer'' False True AppIDCommon,
     cmd_def CmdCodeDeviceWatchdog ''Device-Watchdog-Request'' True False AppIDCommon,
     cmd_def CmdCodeDeviceWatchdog ''Device-Watchdog-Answer'' False False AppIDCommon,
     cmd_def CmdCodeDisconnectPeer ''Disconnect-Peer-Request'' True False AppIDCommon,
     cmd_def CmdCodeDisconnectPeer ''Disconnect-Peer-Answer'' False False AppIDCommon]"

definition ccCommands :: "Command list" where
  "ccCommands = [
     cmd_def CmdCodeCreditControl ''Credit-Control-Request'' True True AppIDCreditControl,
     cmd_def CmdCodeCreditControl ''Credit-Control-Answer'' False True AppIDCreditControl]"

section \<open>\<open>nasreq_eap.go\<close>\<close>

definition nasAVPs :: "dictionary \<Rightarrow> AVPDef list" where
  "nasAVPs d = (let octetString = GetTypeByName d ''OctetString'';
       utf8String = GetTypeByName d ''UTF8String'';
       unsigned32 = GetTypeByName d ''Unsigned32'';
       address = GetTypeByName d ''Address'';
       enumerated = GetTypeByName d ''Enumerated'' in [
     avp_def AVPCodeNASPort ''NAS-Port'' 0 unsigned32 True,
     avp_def AVPCodeNASPortID ''NAS-Port-ID'' 0 utf8String True,
     avp_def AVPCodeNASPortType ''NAS-Port-Type'' 0 enumerated True,
     avp_def AVPCodeCalledStationID ''Called-Station-ID'' 0 utf8String True,
     avp_def AVPCodeCallingStationID ''Calling-Station-ID'' 0 utf8String True,
     avp_def AVPCodeConnectInfo ''Connect-Info'' 0 utf8String True,
     avp_def AVPCodeOriginatingLineInfo ''Originating-Line-Info'' 0 octetString True,
     avp_def AVPCodeReplyMessage ''Reply-Message'' 0 utf8String True,
     avp_def AVPCodeNASIdentifier ''NAS-Identifier'' 0 utf8String True,
     avp_def AVPCodeNASIPAddress ''NAS-IP-Address'' 0 address True,
     avp_def AVPCodeNASIPv6Address ''NAS-IPv6-Address'' 0 address True,
     avp_def AVPCodeState ''State'' 0 octetString True,
     avp_def AVPCodeFramedIPAddress ''Framed-IP-Address'' 0 address True,
     avp_def AVPCodeFramedIPv6Prefix ''Framed-IPv6-Prefix'' 0 octetString True,
     avp_def AVPCodeFramedIPv6Pool ''Framed-IPv6-Pool'' 0 octetString True,
     avp_def AVPCodeFramedIPNetmask ''Framed-IP-Netmask'' 0 address True,
     avp_def AVPCodeFramedMTU ''Framed-MTU'' 0 unsigned32 True,
     avp_def AVPCodeFramedProtocol ''Framed-Protocol'' 0 enumerated True,
     avp_def AVPCodeFramedRouting ''Framed-Routing'' 0 enumerated True,
     avp_def AVPCodeServiceType ''Service-Type'' 0 enumerated True,
     avp_def AVPCodeLoginIPHost ''Login-IP-Host'' 0 address True,
     avp_def AVPCodeLoginIPv6Host ''Login-IPv6-Host'' 0 address True,
     avp_def AVPCodeLoginService ''Login-Service'' 0 enumerated True,
     avp_def AVPCodeLoginTCPPort ''Login-TCP-Port'' 0 unsigned32 True,
     avp_def AVPCodeLoginLATService ''Login-LAT-Service'' 0 octetString True,
     avp_def AVPCodeLoginLATNode ''Login-LAT-Node'' 0 octetString True,
     avp_def AVPCodeLoginLATGroup ''Login-LAT-Group'' 0 octetString True,
     avp_def AVPCodeLoginLATPort ''Login-LAT-Port'' 0 octetString True,
     avp_def AVPCodeFilterID ''Filter-ID'' 0 utf8String True,
     avp_def AVPCodeIdleTimeout ''Idle-Timeout'' 0 unsigned32 True,
     avp_def AVPCodePortLimit ''Port-Limit'' 0 unsigned32 True,
     avp_def AVPCodeCallbackNumber ''Callback-Number'' 0 utf8String True,
     avp_def AVPCodeCallbackID ''Callback-ID'' 0 utf8String True])"

definition eapAVPs :: "dictionary \<Rightarrow> AVPDef list" where
  "eapAVPs d = (let octetString = GetTypeByName d ''OctetString'' in [
     avp_def AVPCodeEAPPayload ''EAP-Payload'' 0 octetString True,
     avp_def AVPCodeEAPReissuedPayload ''EAP-Reissued-Payload'' 0 octetString True,
     avp_def AVPCodeEAPMasterSessionKey ''EAP-Master-Session-Key'' 0 octetString True,
     avp_def AVPCodeEAPKeyName ''EAP-Key-Name'' 0 octetString True])"

definition nasCommands :: "Command list" where
  "nasCommands = [
     cmd_def CmdCodeAAReq ''AA-Request'' True True AppIDNASREQ,
     cmd_def CmdCodeAAReq ''AA-Answer'' False True AppIDNASREQ]"

definition eapCommands :: "Command list" where
  "eapCommands = [
     cmd_def CmdCodeEAP ''Diameter-EAP-Request'' True True AppIDEAP,
     cmd_def CmdCodeEAP ''Diameter-EAP-Answer'' False True AppIDEAP]"

section \<open>\<open>dict_3gpp.go\<close>\<close>

definition cxAVPs :: "dictionary \<Rightarrow> AVPDef list" where
  "cxAVPs d = (let octetString = GetTypeByName d ''OctetString'';
       utf8String = GetTypeByName d ''UTF8String'';
       unsigned32 = GetTypeByName d ''Unsigned32'';
       grouped = GetTypeByName d ''Grouped'';
       enumerated = GetTypeByName d ''Enumerated'' in [
     avp_def AVPCode3GPPVisitedNetworkID ''Visited-Network-Identifier'' VendorID3GPP octetString True,
     avp_def AVPCode3GPPPublicIdentity ''Public-Identity'' VendorID3GPP utf8String True,
     avp_def AVPCode3GPPServerName ''Server-Name'' VendorID3GPP utf8String True,
     avp_def AVPCode3GPPServerCapabilities ''Server-Capabilities'' VendorID3GPP grouped True,
     avp_def AVPCode3GPPMandatoryCapability ''Mandatory-Capability'' VendorID3GPP unsigned32 True,
     avp_def AVPCode3GPPOptionalCapability ''Optional-Capability'' VendorID3GPP unsigned32 True,
     avp_def AVPCode3GPPUserData ''User-Data'' VendorID3GPP octetString True,
     avp_def AVPCode3GPPSIPNumberAuthItems ''SIP-Number-Auth-Items'' VendorID3GPP unsigned32 True,
     avp_def AVPCode3GPPSIPAuthDataItem ''SIP-Auth-Data-Item'' VendorID3GPP grouped True,
     avp_def AVPCode3GPPSIPAuthScheme ''SIP-Authentication-Scheme'' VendorID3GPP utf8String True,
     avp_def AVPCode3GPPSIPAuthenticate ''SIP-Authenticate'' VendorID3GPP octetString True,
     avp_def AVPCode3GPPSIPAuthorization ''SIP-Authorization'' VendorID3GPP octetString True,
     avp_def AVPCode3GPPUserAuthType ''User-Authorization-Type'' VendorID3GPP enumerated True,
     avp_def AVPCode3GPPServerAssignType ''Server-Assignment-Type'' VendorID3GPP enumerated True,
     avp_def AVPCode3GPPDeregistrationReason ''Deregistration-Reason'' VendorID3GPP grouped True,
     avp_def AVPCode3GPPReasonCode ''Reason-Code'' VendorID3GPP enumerated True,
     avp_def AVPCode3GPPReasonInfo ''Reason-Info'' VendorID3GPP utf8String True,
     avp_def AVPCode3GPPChargingInformation ''Charging-Information'' VendorID3GPP grouped False])"

definition s6aAVPs :: "dictionary \<Rightarrow> AVPDef list" where
  "s6aAVPs d = (let octetString = GetTypeByName d ''OctetString'';
       utf8String = GetTypeByName d ''UTF8String'';
       unsigned32 = GetTypeByName d ''Unsigned32'';
       address = GetTypeByName d ''Address'';
       grouped = GetTypeByName d ''Grouped'';
       enumerated = GetTypeByName d ''Enumerated'' in [
     avp_def AVPCode3GPPSubscriptionData ''Subscription-Data'' VendorID3GPP grouped True,
     avp_def AVPCode3GPPTerminalInformation ''Terminal-Information'' VendorID3GPP grouped False,
     avp_def AVPCode3GPPIMEI ''IMEI'' VendorID3GPP utf8String False,
     avp_def AVPCode3GPPSoftwareVersion ''Software-Version'' VendorID3GPP utf8String False,
     avp_def AVPCode3GPPULRFlags ''ULR-Flags'' VendorID3GPP unsigned32 True,
     avp_def AVPCode3GPPULAFlags ''ULA-Flags'' VendorID3GPP unsigned32 True,
     avp_def AVPCode3GPPVisitedPLMNID ''Visited-PLMN-ID'' VendorID3GPP octetString True,
     avp_def AVPCode3GPPRequestedEUTRANAuthInfo ''Requested-EUTRAN-Authentication-Info'' VendorID3GPP grouped False,
     avp_def AVPCode3GPPNumberOfRequestedVectors ''Number-Of-Requested-Vectors'' VendorID3GPP unsigned32 False,
     avp_def AVPCode3GPPAuthenticationInfo ''Authentication-Info'' VendorID3GPP grouped True,
     avp_def AVPCode3GPPEUTRANVector ''E-UTRAN-Vector'' VendorID3GPP grouped True,
     avp_def AVPCode3GPPRand ''RAND'' VendorID3GPP octetString True,
     avp_def AVPCode3GPPXRES ''XRES'' VendorID3GPP octetString True,
     avp_def AVPCode3GPPAUTN ''AUTN'' VendorID3GPP octetString True,
     avp_def AVPCode3GPPKASME ''KASME'' VendorID3GPP octetString True,
     avp_def AVPCode3GPPNetworkAccessMode ''Network-Access-Mode'' VendorID3GPP enumerated False,
     avp_def AVPCode3GPPCancellationType ''Cancellation-Type'' VendorID3GPP enumerated True,
     avp_def AVPCode3GPPSubscriberStatus ''Subscriber-Status'' VendorID3GPP enumerated True,
     avp_def AVPCode3GPPAPNConfigurationProfile ''APN-Configuration-Profile'' VendorID3GPP grouped True,
     avp_def AVPCode3GPPAPNConfiguration ''APN-Configuration'' VendorID3GPP grouped True,
     avp_def AVPCode3GPPContextIdentifier ''Context-Identifier'' VendorID3GPP unsigned32 True,
     avp_def AVPCode3GPPPDNType ''PDN-Type'' VendorID3GPP enumerated True,
     avp_def AVPCode3GPPAMBr ''AMBR'' VendorID3GPP grouped True,
     avp_def AVPCode3GPPEPSSubscribedQoSProfile ''EPS-Subscribed-QoS-Profile'' VendorID3GPP grouped True,
     avp_def AVPCode3GPPQCI ''QoS-Class-Identifier'' VendorID3GPP enumerated True,
     avp_def AVPCode3GPPAllocationRetentionPriority ''Allocation-Retention-Priority'' VendorID3GPP grouped True,
     avp_def AVPCode3GPPTraceData ''Trace-Data'' VendorID3GPP grouped False,
     avp_def 1471 ''MIP6-Agent-Info'' VendorID3GPP grouped False,
     avp_def 1470 ''Service-Selection'' VendorIDIETF utf8String True,
     avp_def 1503 ''AN-Trusted'' VendorID3GPP enumerated False,
     avp_def 1472 ''MIP-Home-Agent-Address'' VendorIDIETF address True])"

definition gxAVPs :: "dictionary \<Rightarrow> AVPDef list" where
  "gxAVPs d = (let octetString = GetTypeByName d ''OctetString'';
       utf8String = GetTypeByName d ''UTF8String'';
       unsigned32 = GetTypeByName d ''Unsigned32'';
       address = GetTypeByName d ''Address'';
       grouped = GetTypeByName d ''Grouped'';
       enumerated = GetTypeByName d ''Enumerated'' in [
     avp_def AVPCode3GPPBearerUsage ''Bearer-Usage'' VendorID3GPP enumerated False,
     avp_def AVPCode3GPPChargingRuleInstall ''Charging-Rule-Install'' VendorID3GPP grouped False,
     avp_def AVPCode3GPPChargingRuleRemove ''Charging-Rule-Remove'' VendorID3GPP grouped False,
     avp_def AVPCode3GPPChargingRuleDefinition ''Charging-Rule-Definition'' VendorID3GPP grouped False,
     avp_def AVPCode3GPPChargingRuleName ''Charging-Rule-Name'' VendorID3GPP octetString False,
     avp_def AVPCode3GPPChargingRuleBaseName ''Charging-Rule-Base-Name'' VendorID3GPP utf8String False,
     avp_def AVPCode3GPPEventTrigger ''Event-Trigger'' VendorID3GPP enumerated False,
     avp_def AVPCode3GPPMeteringMethod ''Metering-Method'' VendorID3GPP enumerated False,
     avp_def AVPCode3GPPOffline ''Offline'' VendorID3GPP enumerated False,
     avp_def AVPCode3GPPOnline ''Online'' VendorID3GPP enumerated False,
     avp_def AVPCode3GPPPrecedence ''Precedence'' VendorID3GPP unsigned32 False,
     avp_def AVPCode3GPPReportingLevel ''Reporting-Level'' VendorID3GPP enumerated False,
     avp_def AVPCode3GPPChargingKey ''Charging-Key'' VendorID3GPP unsigned32 False,
     avp_def AVPCode3GPPPreEmptionCapability ''Pre-emption-Capability'' VendorID3GPP enumerated False,
     avp_def AVPCode3GPPPreEmptionVulnerability ''Pre-emption-Vulnerability'' VendorID3GPP enumerated False,
     avp_def AVPCode3GPPDefaultEPSBearerQoS ''Default-EPS-Bearer-QoS'' VendorID3GPP grouped False,
     avp_def AVPCode3GPPANGWAddress ''AN-GW-Address'' VendorID3GPP address False,
     avp_def AVPCode3GPPBearerIdentifier ''Bearer-Identifier'' VendorID3GPP octetString False,
     avp_def AVPCode3GPPBearerOperation ''Bearer-Operation'' VendorID3GPP enumerated False,
     avp_def AVPCode3GPPBearerControlMode ''Bearer-Control-Mode'' VendorID3GPP enumerated False,
     avp_def AVPCode3GPPNetworkRequestSupport ''Network-Request-Support'' VendorID3GPP enumerated False,
     avp_def AVPCode3GPPGuaranteedBitrateUL ''Guaranteed-Bitrate-UL'' VendorID3GPP unsigned32 False,
     avp_def AVPCode3GPPGuaranteedBitrateDL ''Guaranteed-Bitrate-DL'' VendorID3GPP unsigned32 False,
     avp_def AVPCode3GPPIPCANType ''IP-CAN-Type'' VendorID3GPP enumerated False,
     avp_def AVPCode3GPPMaxRequestedBandwidthDL ''Max-Requested-Bandwidth-DL'' VendorID3GPP unsigned32 False,
     avp_def AVPCode3GPPMaxRequestedBandwidthUL ''Max-Requested-Bandwidth-UL'' VendorID3GPP unsigned32 False])"

definition rxAVPs :: "dictionary \<Rightarrow> AVPDef list" where
  "rxAVPs d = (let utf8String = GetTypeByName d ''UTF8String'';
       unsigned32 = GetTypeByName d ''Unsigned32'';
       grouped = GetTypeByName d ''Grouped'';
       enumerated = GetTypeByName d ''Enumerated'' in [
     avp_def AVPCode3GPPMediaComponentDescription ''Media-Component-Description'' VendorID3GPP grouped False,
     avp_def AVPCode3GPPMediaComponentNumber ''Media-Component-Number'' VendorID3GPP unsigned32 False,
     avp_def AVPCode3GPPMediaSubComponent ''Media-Sub-Component'' VendorID3GPP grouped False,
     avp_def AVPCode3GPPMediaType ''Media-Type'' VendorID3GPP enumerated False,
     avp_def AVPCode3GPPFlowDescription ''Flow-Description'' VendorID3GPP utf8String False,
     avp_def AVPCode3GPPFlowNumber ''Flow-Number'' VendorID3GPP unsigned32 False,
     avp_def AVPCode3GPPFlowStatus ''Flow-Status'' VendorID3GPP enumerated False,
     avp_def AVPCode3GPPFlowUsage ''Flow-Usage'' VendorID3GPP enumerated False,
     avp_def AVPCode3GPPSpecificAction ''Specific-Action'' VendorID3GPP enumerated False,
     avp_def AVPCode3GPPAFChargingIdentifier ''AF-Charging-Identifier'' VendorID3GPP utf8String False,
     avp_def AVPCode3GPPSponsorIdentity ''Sponsor-Identity'' VendorID3GPP utf8String False])"

definition cxCommands :: "Command list" where
  "cxCommands = [
     cmd_def CmdCode3GPPUserAuthorization ''User-Authorization-Request'' True True AppID3GPPCx,
     cmd_def CmdCode3GPPUserAuthorization ''User-Authorization-Answer'' False True AppID3GPPCx,
     cmd_def CmdCode3GPPServerAssignment ''Server-Assignment-Request'' True True AppID3GPPCx,
     cmd_def CmdCode3GPPServerAssignment ''Server-Assignment-Answer'' False True AppID3GPPCx,
     cmd_def CmdCode3GPPLocationInfo ''Location-Info-Request'' True True AppID3GPPCx,
     cmd_def CmdCode3GPPLocationInfo ''Location-Info-Answer'' False True AppID3GPPCx,
     cmd_def CmdCode3GPPMultimediaAuthentication ''Multimedia-Auth-Request'' True True AppID3GPPCx,
     cmd_def CmdCode3GPPMultimediaAuthentication ''Multimedia-Auth-Answer'' False True AppID3GPPCx,
     cmd_def CmdCode3GPPRegistrationTermination ''Registration-Termination-Request'' True True AppID3GPPCx,
     cmd_def CmdCode3GPPRegistrationTermination ''Registration-Termination-Answer'' False True AppID3GPPCx,
     cmd_def CmdCode3GPPPushProfile ''Push-Profile-Request'' True True AppID3GPPCx,
     cmd_def CmdCode3GPPPushProfile ''Push-Profile-Answer'' False True AppID3GPPCx]"

definition s6aCommands :: "Command list" where
  "s6aCommands = [
     cmd_def CmdCode3GPPUpdateLocation ''Update-Location-Request'' True True AppID3GPPS6a,
     cmd_def CmdCode3GPPUpdateLocation ''Update-Location-Answer'' False True AppID3GPPS6a,
     cmd_def CmdCode3GPPCancelLocation ''Cancel-Location-Request'' True True AppID3GPPS6a,
     cmd_def CmdCode3GPPCancelLocation ''Cancel-Location-Answer'' False True AppID3GPPS6a,
     cmd_def CmdCode3GPPAuthenticationInformation ''Authentication-Information-Request'' True True AppID3GPPS6a,
     cmd_def CmdCode3GPPAuthenticationInformation ''Authentication-Information-Answer'' False True AppID3GPPS6a,
     cmd_def CmdCode3GPPInsertSubscriberData ''Insert-Subscriber-Data-Request'' True True AppID3GPPS6a,
     cmd_def CmdCode3GPPInsertSubscriberData ''Insert-Subscriber-Data-Answer'' False True AppID3GPPS6a,
     cmd_def CmdCode3GPPDeleteSubscriberData ''Delete-Subscriber-Data-Request'' True True AppID3GPPS6a,
     cmd_def CmdCode3GPPDeleteSubscriberData ''Delete-Subscriber-Data-Answer'' False True AppID3GPPS6a,
     cmd_def CmdCode3GPPPurgeUE ''Purge-UE-Request'' True True AppID3GPPS6a,
     cmd_def CmdCode3GPPPurgeUE ''Purge-UE-Answer'' False True AppID3GPPS6a,
     cmd_def CmdCode3GPPNotify ''Notify-Request'' True True AppID3GPPS6a,
     cmd_def CmdCode3GPPNotify ''Notify-Answer'' False True AppID3GPPS6a]"

definition rxCommands :: "Command list" where
  "rxCommands = [
     cmd_def CmdCode3GPPAARequest ''AA-Request'' True True AppID3GPPRx,
     cmd_def CmdCode3GPPAARequest ''AA-Answer'' False True AppID3GPPRx]"

section \<open>\<open>dict_sip.go\<close>\<close>

definition sipAVPs :: "dictionary \<Rightarrow> AVPDef list" where
  "sipAVPs d = (let octetString = GetTypeByName d ''OctetString'';
       utf8String = GetTypeByName d ''UTF8String'';
       unsigned32 = GetTypeByName d ''Unsigned32'';
       grouped = GetTypeByName d ''Grouped'';
       enumerated = GetTypeByName d ''Enumerated'' in [
     avp_def AVPCodeSIPAccountingInformation ''SIP-Accounting-Information'' 0 grouped True,
     avp_def AVPCodeSIPAccountingServerURI ''SIP-Accounting-Server-URI'' 0 utf8String True,
     avp_def AVPCodeSIPAuthDataItem ''SIP-Auth-Data-Item'' 0 grouped True,
     avp_def AVPCodeSIPAuthenticationScheme ''SIP-Authentication-Scheme'' 0 enumerated True,
     avp_def AVPCodeSIPAuthenticate ''SIP-Authenticate'' 0 grouped True,
     avp_def AVPCodeSIPAuthorization ''SIP-Authorization'' 0 grouped True,
     avp_def AVPCodeSIPAuthenticationInfo ''SIP-Authentication-Info'' 0 grouped True,
     avp_def AVPCodeSIPMemberUser ''SIP-Member-User'' 0 grouped True,
     avp_def AVPCodeSIPMethod ''SIP-Method'' 0 utf8String True,
     avp_def AVPCodeSIPNumberAuthItems ''SIP-Number-Auth-Items'' 0 unsigned32 True,
     avp_def AVPCodeSIPReasonData ''SIP-Reason-Data'' 0 octetString True,
     avp_def AVPCodeSIPReasonInfo ''SIP-Reason-Info'' 0 utf8String True,
     avp_def AVPCodeSIPServerAssignmentType ''SIP-Server-Assignment-Type'' 0 enumerated True,
     avp_def AVPCodeSIPServerURI ''SIP-Server-URI'' 0 utf8String True,
     avp_def AVPCodeSIPUserData ''SIP-User-Data'' 0 grouped True,
     avp_def AVPCodeSIPUserAuthorizationType ''SIP-User-Authorization-Type'' 0 enumerated True,
     avp_def AVPCodeSIPUserRoutingInfo ''SIP-User-Routing-Info'' 0 grouped True])"

definition sipCommands :: "Command list" where
  "sipCommands = [
     cmd_def CmdCodeSIPUserAuthorization ''User-Authorization-Request'' True True AppIDSIP,
     cmd_def CmdCodeSIPUserAuthorization ''User-Authorization-Answer'' False True AppIDSIP,
     cmd_def CmdCodeSIPServerAssignment ''Server-Assignment-Request'' True True AppIDSIP,
     cmd_def CmdCodeSIPServerAssignment ''Server-Assignment-Answer'' False True AppIDSIP,
     cmd_def CmdCodeSIPLocationInfo ''Location-Info-Request'' True True AppIDSIP,
     cmd_def CmdCodeSIPLocationInfo ''Location-Info-Answer'' False True AppIDSIP,
     cmd_def CmdCodeSIPMultimediaAuth ''Multimedia-Auth-Request'' True True AppIDSIP,
     cmd_def CmdCodeSIPMultimediaAuth ''Multimedia-Auth-Answer'' False True AppIDSIP,
     cmd_def CmdCodeSIPPushProfile ''Push-Profile-Request'' True True AppIDSIP,
     cmd_def CmdCodeSIPPushProfile ''Push-Profile-Answer'' False True AppIDSIP]"

end
