(* ===== verification/Dict_Load.thy ===== *)
theory Dict_Load
  imports Dict_Tables
begin

text \<open>
  The loaders of \<open>proto/dictionary\<close> and the order in which \<open>cmd/diameterd/main.go\<close> runs them.
  Each is a sequence of additions that stops at its first error; the S6a, Gx, Rx and SIP loaders skip the AVPs (Rx and SIP
  also the commands) that are refused.
\<close>

section \<open>Loaders\<close>

definition then_load :: "added \<Rightarrow> (dictionary \<Rightarrow> added) \<Rightarrow> added" where
  "then_load r f = (case r of (Some e, d) \<Rightarrow> (Some e, d) | (None, d) \<Rightarrow> f d)"

definition set_vendor :: "VendorID \<Rightarrow> AVPDef \<Rightarrow> AVPDef" where
  "set_vendor v a = (case a of AVPDef c n _ t f rs \<Rightarrow> AVPDef c n v t f rs)"

definition loadBaseTypes :: "dictionary \<Rightarrow> added" where
  "loadBaseTypes d = load_all AddType d (map (\<lambda>(n, b). \<lparr>typeName = n, BaseType = b\<rparr>)
     [(''OctetString'', AVPTypeOctetString), (''Integer32'', AVPTypeInteger32), (''Integer64'', AVPTypeInteger64),
      (''Unsigned32'', AVPTypeUnsigned32), (''Unsigned64'', AVPTypeUnsigned64), (''Float32'', AVPTypeFloat32),
      (''Float64'', AVPTypeFloat64), (''Address'', AVPTypeAddress), (''Time'', AVPTypeTime), (''UTF8String'', AVPTypeUTF8String),
      (''DiameterIdentity'', AVPTypeDiameterIdentity), (''DiameterURI'', AVPTypeDiameterURI), (''Enumerated'', AVPTypeEnumerated),
      (''IPFilterRule'', AVPTypeIPFilterRule), (''Grouped'', AVPTypeGrouped)])"

definition loadBaseAVPs :: "dictionary \<Rightarrow> added" where
  "loadBaseAVPs d = load_all AddAVPDef d (map (set_vendor VendorIDIETF) (baseAVPs d))"

definition loadBaseCommands :: "dictionary \<Rightarrow> added" where
  "loadBaseCommands d = load_all AddCommand d baseCommands"

definition baseApps :: "Application list" where
  "baseApps = map (\<lambda>(i, n). \<lparr>appID = i, appName = n, appVendorID = 0\<rparr>)
     [(AppIDCommon, ''Diameter Common Messages''), (AppIDNASREQ, ''NASREQ''), (AppIDMobileIPv4, ''Mobile IPv4''),
      (AppIDBaseAccounting, ''Diameter Base Accounting''), (AppIDCreditControl, ''Diameter Credit Control''),
      (AppIDEAP, ''Diameter EAP''), (AppIDRelay, ''Relay'')]"

definition LoadBaseProtocol :: "dictionary \<Rightarrow> added" where
  "LoadBaseProtocol d =
     (let r = AddVendor d \<lparr>venID = VendorIDIETF, venName = ''IETF''\<rparr>;
          r = then_load r (\<lambda>d. AddVendor d \<lparr>venID = VendorID3GPP, venName = ''3GPP''\<rparr>);
          r = then_load r (\<lambda>d. load_all AddApplication d baseApps);
          r = then_load r loadBaseTypes;
          r = then_load r loadBaseAVPs in
      then_load r loadBaseCommands)"

definition LoadCreditControl :: "dictionary \<Rightarrow> added" where
  "LoadCreditControl d = then_load (load_all AddAVPDef d (map (set_vendor VendorIDIETF) (ccAVPs d)))
     (\<lambda>d. load_all AddCommand d ccCommands)"

definition LoadNASREQ :: "dictionary \<Rightarrow> added" where
  "LoadNASREQ d = then_load (load_all AddAVPDef d (map (set_vendor VendorIDIETF) (nasAVPs d)))
     (\<lambda>d. load_all AddCommand d nasCommands)"

definition LoadEAP :: "dictionary \<Rightarrow> added" where
  "LoadEAP d = then_load (load_all AddAVPDef d (map (set_vendor VendorIDIETF) (eapAVPs d)))
     (\<lambda>d. load_all AddCommand d eapCommands)"

definition Load3GPPCx :: "dictionary \<Rightarrow> added" where
  "Load3GPPCx d =
     (let r = AddApplication d \<lparr>appID = AppID3GPPCx, appName = ''3GPP Cx'', appVendorID = VendorID3GPP\<rparr>;
          r = then_load r (\<lambda>d. load_all AddAVPDef d (cxAVPs d)) in
      then_load r (\<lambda>d. load_all AddCommand d cxCommands))"

definition Load3GPPS6a :: "dictionary \<Rightarrow> added" where
  "Load3GPPS6a d =
     (let r = AddApplication d \<lparr>appID = AppID3GPPS6a, appName = ''3GPP S6a/S6d'', appVendorID = VendorID3GPP\<rparr>;
          r = then_load r (\<lambda>d. (None, load_skip AddAVPDef d (s6aAVPs d))) in
      then_load r (\<lambda>d. load_all AddCommand d s6aCommands))"

definition Load3GPPGx :: "dictionary \<Rightarrow> added" where
  "Load3GPPGx d =
     then_load (AddApplication d \<lparr>appID = AppID3GPPGx, appName = ''3GPP Gx'', appVendorID = VendorID3GPP\<rparr>)
       (\<lambda>d. (None, load_skip AddAVPDef d (gxAVPs d)))"

definition Load3GPPRx :: "dictionary \<Rightarrow> added" where
  "Load3GPPRx d =
     then_load (AddApplication d \<lparr>appID = AppID3GPPRx, appName = ''3GPP Rx'', appVendorID = VendorID3GPP\<rparr>)
       (\<lambda>d. (None, load_skip AddCommand (load_skip AddAVPDef d (rxAVPs d)) rxCommands))"

definition LoadAll3GPP :: "dictionary \<Rightarrow> added" where
  "LoadAll3GPP d = then_load (then_load (then_load (Load3GPPCx d) Load3GPPS6a) Load3GPPGx) Load3GPPRx"

definition Load3GPP :: "dictionary \<Rightarrow> added" where
  "Load3GPP d = LoadAll3GPP d"

definition LoadSIP :: "dictionary \<Rightarrow> added" where
  "LoadSIP d =
     then_load (AddApplication d \<lparr>appID = AppIDSIP, appName = ''Diameter SIP'', appVendorID = 0\<rparr>)
       (\<lambda>d. (None, load_skip AddCommand (load_skip AddAVPDef d (sipAVPs d)) sipCommands))"

text \<open>The daemon stops at the first loader that fails.\<close>

definition daemon_dictionary :: added where
  "daemon_dictionary = then_load (then_load (then_load (then_load (then_load (LoadBaseProtocol Dict_New) LoadCreditControl)
     LoadNASREQ) LoadEAP) LoadAll3GPP) LoadSIP"

end
