(* ===== verification/Dict_Properties.thy ===== *)
theory Dict_Properties
  imports Dict_Load Prelude
begin

text \<open>
  The dictionary of the daemon: the two indexes of every kind of object stay in step whatever is added, the loaders
  succeed one after the other, and which definitions of the later tables are lost to earlier ones.
\<close>

section \<open>Coherence of a whole dictionary\<close>

datatype dict_op =
    OpVendor Vendor
  | OpApplication Application
  | OpType TypeDef
  | OpEnum string EnumValue
  | OpAVP AVPDef
  | OpCommand Command

fun dict_step :: "dictionary \<Rightarrow> dict_op \<Rightarrow> dictionary" where
  "dict_step d (OpVendor v) = snd (AddVendor d v)"
| "dict_step d (OpApplication a) = snd (AddApplication d a)"
| "dict_step d (OpType t) = snd (AddType d t)"
| "dict_step d (OpEnum t e) = snd (AddEnum t d e)"
| "dict_step d (OpAVP a) = snd (AddAVPDef d a)"
| "dict_step d (OpCommand c) = snd (AddCommand d c)"

definition dict_inv :: "dictionary \<Rightarrow> bool" where
  "dict_inv d \<longleftrightarrow> coherent (vendorsByID d) (vendorsByName d) venID venName \<and>
     coherent (appsByID d) (appsByName d) appID appName \<and>
     coherent (typesByName d) (typesByName d) typeName typeName \<and>
     enums_ok d \<and> (\<forall>t. coherent (GetEnumByValue d t) (GetEnumByName d t) enumValue enumName) \<and>
     coherent (avpsByKey d) (avpsByName d) avpKey avpName \<and>
     coherent (cmdsByKey d) (cmdsByName d) cmdKey cmdName"

named_theorems add_frames \<open>what an addition of one kind leaves alone\<close>

lemma AddVendor_frame [simp, add_frames]:
  "appsByID (snd (AddVendor d v)) = appsByID d" "appsByName (snd (AddVendor d v)) = appsByName d"
  "typesByName (snd (AddVendor d v)) = typesByName d" "enumsByTypeAndValue (snd (AddVendor d v)) = enumsByTypeAndValue d"
  "enumsByTypeAndName (snd (AddVendor d v)) = enumsByTypeAndName d" "avpsByKey (snd (AddVendor d v)) = avpsByKey d"
  "avpsByName (snd (AddVendor d v)) = avpsByName d" "cmdsByKey (snd (AddVendor d v)) = cmdsByKey d"
  "cmdsByName (snd (AddVendor d v)) = cmdsByName d"
  by (simp_all add: AddVendor_def)

lemma AddApplication_frame [simp, add_frames]:
  "vendorsByID (snd (AddApplication d a)) = vendorsByID d" "vendorsByName (snd (AddApplication d a)) = vendorsByName d"
  "typesByName (snd (AddApplication d a)) = typesByName d" "enumsByTypeAndValue (snd (AddApplication d a)) = enumsByTypeAndValue d"
  "enumsByTypeAndName (snd (AddApplication d a)) = enumsByTypeAndName d" "avpsByKey (snd (AddApplication d a)) = avpsByKey d"
  "avpsByName (snd (AddApplication d a)) = avpsByName d" "cmdsByKey (snd (AddApplication d a)) = cmdsByKey d"
  "cmdsByName (snd (AddApplication d a)) = cmdsByName d"
  by (simp_all add: AddApplication_def)

lemma AddType_frame [simp, add_frames]:
  "vendorsByID (snd (AddType d a)) = vendorsByID d" "vendorsByName (snd (AddType d a)) = vendorsByName d"
  "appsByID (snd (AddType d a)) = appsByID d" "appsByName (snd (AddType d a)) = appsByName d"
  "enumsByTypeAndValue (snd (AddType d a)) = enumsByTypeAndValue d"
  "enumsByTypeAndName (snd (AddType d a)) = enumsByTypeAndName d" "avpsByKey (snd (AddType d a)) = avpsByKey d"
  "avpsByName (snd (AddType d a)) = avpsByName d" "cmdsByKey (snd (AddType d a)) = cmdsByKey d"
  "cmdsByName (snd (AddType d a)) = cmdsByName d"
  by (simp_all add: AddType_def)

lemma AddEnum_frame [simp, add_frames]:
  "vendorsByID (snd (AddEnum t d a)) = vendorsByID d" "vendorsByName (snd (AddEnum t d a)) = vendorsByName d"
  "appsByID (snd (AddEnum t d a)) = appsByID d" "appsByName (snd (AddEnum t d a)) = appsByName d"
  "typesByName (snd (AddEnum t d a)) = typesByName d" "avpsByKey (snd (AddEnum t d a)) = avpsByKey d"
  "avpsByName (snd (AddEnum t d a)) = avpsByName d" "cmdsByKey (snd (AddEnum t d a)) = cmdsByKey d"
  "cmdsByName (snd (AddEnum t d a)) = cmdsByName d"
  by (simp_all add: AddEnum_def enum_tables_def Let_def)

lemma AddEnum_other_type:
  assumes "u \<noteq> t"
  shows "GetEnumByValue (snd (AddEnum t d a)) u = GetEnumByValue d u" "GetEnumByName (snd (AddEnum t d a)) u = GetEnumByName d u"
  using assms by (auto simp: AddEnum_def enum_tables_def Let_def GetEnumByValue_def GetEnumByName_def inner_def fun_eq_iff)

lemma AddAVPDef_frame [simp, add_frames]:
  "vendorsByID (snd (AddAVPDef d a)) = vendorsByID d" "vendorsByName (snd (AddAVPDef d a)) = vendorsByName d"
  "appsByID (snd (AddAVPDef d a)) = appsByID d" "appsByName (snd (AddAVPDef d a)) = appsByName d"
  "typesByName (snd (AddAVPDef d a)) = typesByName d" "enumsByTypeAndValue (snd (AddAVPDef d a)) = enumsByTypeAndValue d"
  "enumsByTypeAndName (snd (AddAVPDef d a)) = enumsByTypeAndName d"
  "cmdsByKey (snd (AddAVPDef d a)) = cmdsByKey d" "cmdsByName (snd (AddAVPDef d a)) = cmdsByName d"
  by (simp_all add: AddAVPDef_def)

lemma AddCommand_frame [simp, add_frames]:
  "vendorsByID (snd (AddCommand d a)) = vendorsByID d" "vendorsByName (snd (AddCommand d a)) = vendorsByName d"
  "appsByID (snd (AddCommand d a)) = appsByID d" "appsByName (snd (AddCommand d a)) = appsByName d"
  "typesByName (snd (AddCommand d a)) = typesByName d" "enumsByTypeAndValue (snd (AddCommand d a)) = enumsByTypeAndValue d"
  "enumsByTypeAndName (snd (AddCommand d a)) = enumsByTypeAndName d"
  "avpsByKey (snd (AddCommand d a)) = avpsByKey d" "avpsByName (snd (AddCommand d a)) = avpsByName d"
  by (simp_all add: AddCommand_def)

lemma enum_views_frame:
  assumes "enumsByTypeAndValue d' = enumsByTypeAndValue d" "enumsByTypeAndName d' = enumsByTypeAndName d"
  shows "enums_ok d' = enums_ok d" "GetEnumByValue d' = GetEnumByValue d" "GetEnumByName d' = GetEnumByName d"
  using assms by (simp_all add: enums_ok_def GetEnumByValue_def [abs_def] GetEnumByName_def [abs_def])

lemmas enum_frames = enum_views_frame [OF AddVendor_frame(4,5)] enum_views_frame [OF AddApplication_frame(4,5)]
  enum_views_frame [OF AddType_frame(5,6)] enum_views_frame [OF AddAVPDef_frame(6,7)] enum_views_frame [OF AddCommand_frame(6,7)]

lemma dict_inv_New: "dict_inv Dict_New"
  by (simp add: dict_inv_def Dict_New_def enums_ok_def GetEnumByValue_def [abs_def] GetEnumByName_def [abs_def] inner_def coherent_def)

lemmas add_coherent = vendors.add_agree [unfolded vendors.agree_def, OF TrueI] apps.add_agree [unfolded apps.agree_def, OF TrueI]
  typedefs.add_agree [unfolded typedefs.agree_def, OF TrueI] avps.add_agree [unfolded avps.agree_def, OF TrueI]
  cmds.add_agree [unfolded cmds.agree_def, OF TrueI]

lemma dict_inv_step: "dict_inv d \<Longrightarrow> dict_inv (dict_step d x)"
proof (cases x)
  case (OpEnum t e)
  assume inv: "dict_inv d"
  then have ok: "enums_ok d" and c: "\<And>u. coherent (GetEnumByValue d u) (GetEnumByName d u) enumValue enumName"
    by (simp_all add: dict_inv_def)
  have "coherent (GetEnumByValue (snd (AddEnum t d e)) u) (GetEnumByName (snd (AddEnum t d e)) u) enumValue enumName" for u
    using enums.add_agree [unfolded enums.agree_def, OF ok c, of t e] AddEnum_other_type [of u t d e] c by (cases "u = t") simp_all
  then show ?thesis using inv OpEnum AddEnum_ok [OF ok] by (simp add: dict_inv_def)
qed (simp_all add: dict_inv_def add_coherent enum_frames)

interpretation dict: machine dict_step dict_inv
  by unfold_locales (rule dict_inv_step)

text \<open>
  C32: whatever vendors, applications, types, values, AVPs and commands are added in whatever order, and whether each addition succeeds
  or fails, the dictionary's two indexes of AVPs (and of commands) agree: a definition found by its name is the one found by its
  code and vendor, and the other way round.
\<close>

theorem dictionary_indexes_agree:
  "let d = foldl dict_step Dict_New ops in
     (GetAVPByName d n = Some a \<longleftrightarrow> avpName a = n \<and> GetAVPByCode d (avpVendorID a) (avpCode a) = Some a) \<and>
     (GetCommandByName d n = Some c \<longleftrightarrow> cmdName c = n \<and> GetCommandByCode d (cmdCode c) (Request (cmdFlags c)) = Some c)"
proof -
  define d where "d = foldl dict_step Dict_New ops"
  have "dict_inv d" unfolding d_def by (rule dict.run_inv [OF dict_inv_New])
  then have a: "coherent (avpsByKey d) (avpsByName d) avpKey avpName" and c: "coherent (cmdsByKey d) (cmdsByName d) cmdKey cmdName"
    by (simp_all add: dict_inv_def)
  have "GetAVPByName d n = Some a \<longleftrightarrow> avpName a = n \<and> GetAVPByCode d (avpVendorID a) (avpCode a) = Some a"
    using a unfolding coherent_def GetAVPByName_def GetAVPByCode_def avpKey_def by metis
  moreover have "GetCommandByName d n = Some c \<longleftrightarrow> cmdName c = n \<and> GetCommandByCode d (cmdCode c) (Request (cmdFlags c)) = Some c"
    using c unfolding coherent_def GetCommandByName_def GetCommandByCode_def cmdKey_def by metis
  ultimately show ?thesis by (simp add: d_def Let_def)
qed


section \<open>The dictionary of the daemon\<close>

text \<open>
  How far the loading has come: the AVPs with names \<open>ns\<close> and keys \<open>ks\<close> are there under both (and, when \<open>exact\<close>, no others); the
  commands are exactly \<open>cs\<close>, and all applications are among \<open>aps\<close>.
\<close>

definition avps_at :: "bool \<Rightarrow> dictionary \<Rightarrow> string list \<Rightarrow> (VendorID \<times> AVPCode) list \<Rightarrow> bool" where
  "avps_at exact d ns ks \<longleftrightarrow> (\<exists>xs. map avpName xs = ns \<and> map avpKey xs = ks \<and> (exact \<longrightarrow> avps.contents d xs) \<and>
     (\<forall>x \<in> set xs. avpsByKey d (avpKey x) = Some x \<and> avpsByName d (avpName x) = Some x))"

definition cmds_at :: "dictionary \<Rightarrow> Command list \<Rightarrow> bool" where
  "cmds_at d cs \<longleftrightarrow> cmds.contents d cs \<and> (\<forall>c \<in> set cs. cmdsByKey d (cmdKey c) = Some c \<and> cmdsByName d (cmdName c) = Some c)"

definition stage :: "bool \<Rightarrow> dictionary \<Rightarrow> string list \<Rightarrow> (VendorID \<times> AVPCode) list \<Rightarrow> Command list \<Rightarrow> Application list \<Rightarrow> bool" where
  "stage exact d ns ks cs aps \<longleftrightarrow> avps_at exact d ns ks \<and> cmds_at d cs \<and> apps.contents d aps"

lemma stage_cong:
  "avpsByKey d = avpsByKey d' \<Longrightarrow> avpsByName d = avpsByName d' \<Longrightarrow> avps_at e d ns ks = avps_at e d' ns ks"
  "cmdsByKey d = cmdsByKey d' \<Longrightarrow> cmdsByName d = cmdsByName d' \<Longrightarrow> cmds_at d cs = cmds_at d' cs"
  "appsByID d = appsByID d' \<Longrightarrow> appsByName d = appsByName d' \<Longrightarrow> apps.contents d aps = apps.contents d' aps"
  unfolding avps_at_def cmds_at_def avps.contents_def avps.agree_def cmds.contents_def cmds.agree_def apps.contents_def apps.agree_def
  by simp_all

lemma skip_avps_frame:
  "cmdsByKey (load_skip AddAVPDef d as) = cmdsByKey d" "cmdsByName (load_skip AddAVPDef d as) = cmdsByName d"
  "appsByID (load_skip AddAVPDef d as) = appsByID d" "appsByName (load_skip AddAVPDef d as) = appsByName d"
  by (induction as arbitrary: d; simp)+

lemma skip_cmds_frame:
  "avpsByKey (load_skip AddCommand d cs) = avpsByKey d" "avpsByName (load_skip AddCommand d cs) = avpsByName d"
  "appsByID (load_skip AddCommand d cs) = appsByID d" "appsByName (load_skip AddCommand d cs) = appsByName d"
  by (induction cs arbitrary: d; simp)+

lemma skip_apps_frame:
  "avpsByKey (load_skip AddApplication d ps) = avpsByKey d" "avpsByName (load_skip AddApplication d ps) = avpsByName d"
  "cmdsByKey (load_skip AddApplication d ps) = cmdsByKey d" "cmdsByName (load_skip AddApplication d ps) = cmdsByName d"
  by (induction ps arbitrary: d; simp)+

lemmas other_kinds_stay = stage_cong(2) [OF skip_avps_frame(1,2)] stage_cong(3) [OF skip_avps_frame(3,4)]
  stage_cong(1) [OF skip_cmds_frame(1,2)] stage_cong(3) [OF skip_cmds_frame(3,4)]
  stage_cong(1) [OF skip_apps_frame(1,2)] stage_cong(2) [OF skip_apps_frame(3,4)]

lemma skip_keeps_avps:
  assumes "avps_at e d ns ks"
  shows "avps_at False (load_skip AddAVPDef d xs) ns ks"
proof -
  obtain zs where "map avpName zs = ns" "map avpKey zs = ks"
      "\<forall>x \<in> set zs. avpsByKey d (avpKey x) = Some x \<and> avpsByName d (avpName x) = Some x"
    using assms unfolding avps_at_def by blast
  moreover from this(3) have "\<forall>x \<in> set zs. avpsByKey (load_skip AddAVPDef d xs) (avpKey x) = Some x \<and>
      avpsByName (load_skip AddAVPDef d xs) (avpName x) = Some x"
    using avps.load_skip_keeps [OF TrueI] by blast
  ultimately show ?thesis unfolding avps_at_def by blast
qed

lemma stage_skip_avps: "stage e d ns ks cs aps \<Longrightarrow> stage False (load_skip AddAVPDef d xs) ns ks cs aps"
  by (auto simp: stage_def other_kinds_stay intro: skip_keeps_avps)

lemma load_avps_at:
  assumes "avps_at True d ns ks" "map avpName xs = ns'" "map avpKey xs = ks'" "distinct (ns @ ns')" "distinct (ks @ ks')"
  shows "load_all AddAVPDef d xs = (None, load_skip AddAVPDef d xs)" "avps_at True (load_skip AddAVPDef d xs) (ns @ ns') (ks @ ks')"
proof -
  from assms(1) obtain zs where zs: "map avpName zs = ns" "map avpKey zs = ks" "avps.contents d zs"
      "\<forall>x \<in> set zs. avpsByKey d (avpKey x) = Some x \<and> avpsByName d (avpName x) = Some x"
    unfolding avps_at_def by blast
  let ?d = "load_skip AddAVPDef d xs"
  show ld: "load_all AddAVPDef d xs = (None, ?d)"
    by (rule avps.load_all_succeeds [OF TrueI zs(3)]) (use assms zs in simp_all)
  have "\<forall>x \<in> set xs. avpsByKey ?d (avpKey x) = Some x \<and> avpsByName ?d (avpName x) = Some x"
    using avps.load_all_found [OF TrueI, of d xs] ld by simp
  moreover have "\<forall>x \<in> set zs. avpsByKey ?d (avpKey x) = Some x \<and> avpsByName ?d (avpName x) = Some x"
    using zs(4) avps.load_skip_keeps [OF TrueI] by blast
  ultimately have "\<forall>x \<in> set (zs @ xs). avpsByKey ?d (avpKey x) = Some x \<and> avpsByName ?d (avpName x) = Some x" by auto
  moreover have "map avpName (zs @ xs) = ns @ ns'" "map avpKey (zs @ xs) = ks @ ks'" using zs assms by simp_all
  ultimately show "avps_at True ?d (ns @ ns') (ks @ ks')"
    unfolding avps_at_def using avps.contents_skip [OF TrueI zs(3), of xs] by blast
qed

lemma stage_avps:
  assumes "stage True d ns ks cs aps" "map avpName xs = ns'" "map avpKey xs = ks'" "distinct (ns @ ns')" "distinct (ks @ ks')"
  shows "\<exists>d'. load_all AddAVPDef d xs = (None, d') \<and> stage True d' (ns @ ns') (ks @ ks') cs aps"
proof -
  have a: "avps_at True d ns ks" using assms(1) by (simp add: stage_def)
  note l = load_avps_at [OF a assms(2-5)]
  have "stage True (load_skip AddAVPDef d xs) (ns @ ns') (ks @ ks') cs aps"
    using l(2) assms(1) by (simp add: stage_def other_kinds_stay)
  with l(1) show ?thesis by blast
qed

lemma load_cmds_at:
  assumes "cmds_at d cs" "distinct (map cmdName (cs @ xs))" "distinct (map cmdKey (cs @ xs))"
  shows "load_all AddCommand d xs = (None, load_skip AddCommand d xs)" "cmds_at (load_skip AddCommand d xs) (cs @ xs)"
proof -
  let ?d = "load_skip AddCommand d xs"
  have h: "cmds.contents d cs" using assms(1) by (simp add: cmds_at_def)
  show ld: "load_all AddCommand d xs = (None, ?d)"
    by (rule cmds.load_all_succeeds [OF TrueI h]) (use assms in simp_all)
  have "\<forall>x \<in> set xs. cmdsByKey ?d (cmdKey x) = Some x \<and> cmdsByName ?d (cmdName x) = Some x"
    using cmds.load_all_found [OF TrueI, of d xs] ld by simp
  moreover have "\<forall>x \<in> set cs. cmdsByKey ?d (cmdKey x) = Some x \<and> cmdsByName ?d (cmdName x) = Some x"
    using assms(1) cmds.load_skip_keeps [OF TrueI] unfolding cmds_at_def by blast
  ultimately show "cmds_at ?d (cs @ xs)" unfolding cmds_at_def using cmds.contents_skip [OF TrueI h, of xs] by auto
qed

lemma stage_cmds:
  assumes "stage e d ns ks cs aps" "distinct (map cmdName (cs @ xs))" "distinct (map cmdKey (cs @ xs))"
  shows "\<exists>d'. load_all AddCommand d xs = (None, d') \<and> stage e d' ns ks (cs @ xs) aps"
proof -
  have c: "cmds_at d cs" using assms(1) by (simp add: stage_def)
  note l = load_cmds_at [OF c assms(2,3)]
  have "stage e (load_skip AddCommand d xs) ns ks (cs @ xs) aps"
    using l(2) assms(1) by (simp add: stage_def other_kinds_stay)
  with l(1) show ?thesis by blast
qed

lemma stage_apps:
  assumes "stage e d ns ks cs aps" "distinct (map appName (aps @ xs))" "distinct (map appID (aps @ xs))"
  shows "\<exists>d'. load_all AddApplication d xs = (None, d') \<and> stage e d' ns ks cs (aps @ xs)"
proof -
  have h: "apps.contents d aps" using assms(1) by (simp add: stage_def)
  have "load_all AddApplication d xs = (None, load_skip AddApplication d xs)"
    by (rule apps.load_all_succeeds [OF TrueI h]) (use assms in simp_all)
  moreover have "stage e (load_skip AddApplication d xs) ns ks cs (aps @ xs)"
    using assms(1) apps.contents_skip [OF TrueI h, of xs] by (simp add: stage_def other_kinds_stay)
  ultimately show ?thesis by blast
qed

text \<open>Names and keys of a table do not depend on the types found; the vendor of the IETF tables is 0 before it is set.\<close>

definition names_of :: "(dictionary \<Rightarrow> AVPDef list) \<Rightarrow> string list" where
  "names_of table = map avpName (table Dict_New)"

definition keys_of :: "(dictionary \<Rightarrow> AVPDef list) \<Rightarrow> (VendorID \<times> AVPCode) list" where
  "keys_of table = map avpKey (table Dict_New)"

lemma ietf_tables:
  assumes "table \<in> {baseAVPs, ccAVPs, nasAVPs, eapAVPs}"
  shows "map avpName (map (set_vendor VendorIDIETF) (table d)) = names_of table"
    "map avpKey (map (set_vendor VendorIDIETF) (table d)) = keys_of table"
  using assms by (auto simp: names_of_def keys_of_def set_vendor_def avpKey_def avp_def_def Let_def
      baseAVPs_def ccAVPs_def nasAVPs_def eapAVPs_def)

lemma cx_tables: "map avpName (cxAVPs d) = names_of cxAVPs" "map avpKey (cxAVPs d) = keys_of cxAVPs"
  by (simp_all add: names_of_def keys_of_def avpKey_def avp_def_def Let_def cxAVPs_def)

definition strict_names :: "string list" where
  "strict_names = names_of baseAVPs @ names_of ccAVPs @ names_of nasAVPs @ names_of eapAVPs @ names_of cxAVPs"

definition strict_keys :: "(VendorID \<times> AVPCode) list" where
  "strict_keys = keys_of baseAVPs @ keys_of ccAVPs @ keys_of nasAVPs @ keys_of eapAVPs @ keys_of cxAVPs"

definition strict_commands :: "Command list" where
  "strict_commands = baseCommands @ ccCommands @ nasCommands @ eapCommands @ cxCommands @ s6aCommands"

text \<open>Comparing numbers is much cheaper than comparing texts or words: it is enough that the images are distinct.\<close>

definition name_number :: "string \<Rightarrow> nat" where
  "name_number s = foldr (\<lambda>c n. of_char c + 256 * n) s 0"

lemma distinct_by: "distinct (map f xs) \<Longrightarrow> distinct xs"
  by (simp add: distinct_map)

lemma strict_names_distinct: "distinct strict_names"
  by (rule distinct_by [of name_number]) (simp add: strict_names_def names_of_def name_number_def avp_def_def Let_def
      baseAVPs_def ccAVPs_def nasAVPs_def eapAVPs_def cxAVPs_def)

lemma strict_keys_distinct: "distinct strict_keys"
  by (rule distinct_by [of "\<lambda>k. unat (snd k)"]) (simp add: strict_keys_def keys_of_def avpKey_def avp_def_def Let_def
      baseAVPs_def ccAVPs_def nasAVPs_def eapAVPs_def cxAVPs_def)

lemma strict_commands_distinct: "distinct (map cmdName strict_commands)" "distinct (map cmdKey strict_commands)"
  by (rule distinct_by [of name_number], simp add: strict_commands_def name_number_def cmd_def_def baseCommands_def ccCommands_def
      nasCommands_def eapCommands_def cxCommands_def s6aCommands_def)
    (rule distinct_by [of "\<lambda>k. (unat (fst k), snd k)"], simp add: strict_commands_def cmd_def_def cmdKey_def baseCommands_def
      ccCommands_def nasCommands_def eapCommands_def cxCommands_def s6aCommands_def)

definition daemon_apps :: "Application list" where
  "daemon_apps = baseApps @ [\<lparr>appID = AppID3GPPCx, appName = ''3GPP Cx'', appVendorID = VendorID3GPP\<rparr>,
     \<lparr>appID = AppID3GPPS6a, appName = ''3GPP S6a/S6d'', appVendorID = VendorID3GPP\<rparr>,
     \<lparr>appID = AppID3GPPGx, appName = ''3GPP Gx'', appVendorID = VendorID3GPP\<rparr>,
     \<lparr>appID = AppID3GPPRx, appName = ''3GPP Rx'', appVendorID = VendorID3GPP\<rparr>,
     \<lparr>appID = AppIDSIP, appName = ''Diameter SIP'', appVendorID = 0\<rparr>]"

lemma daemon_apps_distinct: "distinct (map appName daemon_apps)" "distinct (map appID daemon_apps)"
  by (simp_all add: daemon_apps_def baseApps_def)

subsection \<open>Running the loaders\<close>

lemma then_load_None [simp]: "then_load (None, d) f = f d"
  by (simp add: then_load_def)

lemma load_all_one: "load_all add d [x] = add d x"
  by (cases "add d x"; cases "fst (add d x)") auto

lemma stage_app:
  assumes "stage e d ns ks cs aps" "distinct (map appName (aps @ [x]))" "distinct (map appID (aps @ [x]))"
  obtains d' where "AddApplication d x = (None, d')" "stage e d' ns ks cs (aps @ [x])"
  using stage_apps [OF assms] that unfolding load_all_one by blast

text \<open>A table of AVPs and its commands, the way most loaders go.\<close>

lemma stage_table:
  assumes "stage True d ns ks cs aps" "map avpName as = ns'" "map avpKey as = ks'" "distinct (ns @ ns')" "distinct (ks @ ks')"
    and "distinct (map cmdName (cs @ xs))" "distinct (map cmdKey (cs @ xs))"
  obtains d' where "then_load (load_all AddAVPDef d as) (\<lambda>d. load_all AddCommand d xs) = (None, d')"
    "stage True d' (ns @ ns') (ks @ ks') (cs @ xs) aps"
proof -
  obtain d1 where d1: "load_all AddAVPDef d as = (None, d1)" "stage True d1 (ns @ ns') (ks @ ks') cs aps"
    using stage_avps [OF assms(1-5)] by blast
  obtain d2 where "load_all AddCommand d1 xs = (None, d2)" "stage True d2 (ns @ ns') (ks @ ks') (cs @ xs) aps"
    using stage_cmds [OF d1(2) assms(6,7)] by blast
  with d1 that show thesis by simp
qed

lemma skip_types_frame:
  "avpsByKey (load_skip AddType d xs) = avpsByKey d" "avpsByName (load_skip AddType d xs) = avpsByName d"
  "cmdsByKey (load_skip AddType d xs) = cmdsByKey d" "cmdsByName (load_skip AddType d xs) = cmdsByName d"
  "appsByID (load_skip AddType d xs) = appsByID d" "appsByName (load_skip AddType d xs) = appsByName d"
  by (induction xs arbitrary: d; simp)+

lemma load_apps_types: "typesByName (load_skip AddApplication d xs) = typesByName d"
  by (induction xs arbitrary: d) simp_all

lemma base_loaded:
  obtains d where "LoadBaseProtocol Dict_New = (None, d)" "stage True d (names_of baseAVPs) (keys_of baseAVPs) baseCommands baseApps"
proof -
  let ?v = "Dict_New\<lparr>vendorsByID := [VendorIDIETF \<mapsto> \<lparr>venID = VendorIDIETF, venName = ''IETF''\<rparr>], vendorsByName := [''IETF'' \<mapsto> \<lparr>venID = VendorIDIETF, venName = ''IETF''\<rparr>]\<rparr>"
  have v1: "AddVendor Dict_New \<lparr>venID = VendorIDIETF, venName = ''IETF''\<rparr> = (None, ?v)"
    by (simp add: AddVendor_def Dict_New_def)
  obtain d2 where v2: "AddVendor ?v \<lparr>venID = VendorID3GPP, venName = ''3GPP''\<rparr> = (None, d2)"
    by (simp add: AddVendor_def Dict_New_def)
  have f: "avpsByKey d2 = Map.empty" "avpsByName d2 = Map.empty" "cmdsByKey d2 = Map.empty" "cmdsByName d2 = Map.empty"
    "appsByID d2 = Map.empty" "appsByName d2 = Map.empty" "typesByName d2 = Map.empty"
    using v2 by (auto simp: AddVendor_def Dict_New_def)
  have s2: "stage True d2 [] [] [] []"
    by (simp add: stage_def avps_at_def cmds_at_def avps.contents_def avps.agree_def cmds.contents_def cmds.agree_def
        apps.contents_def apps.agree_def f)
  have appsd: "distinct (map appName ([] @ baseApps))" "distinct (map appID ([] @ baseApps))"
    using daemon_apps_distinct by (simp_all add: daemon_apps_def)
  let ?d3 = "load_skip AddApplication d2 baseApps"
  have l3: "load_all AddApplication d2 baseApps = (None, ?d3)" "stage True ?d3 [] [] [] baseApps"
    using stage_apps [OF s2 appsd] apps.load_all_skip [of d2 baseApps] by (metis append_Nil fst_conv snd_conv)+
  have types: "typesByName ?d3 = Map.empty" by (simp add: load_apps_types f)
  let ?types = "map (\<lambda>(n, b). \<lparr>typeName = n, BaseType = b\<rparr>)
     [(''OctetString'', AVPTypeOctetString), (''Integer32'', AVPTypeInteger32), (''Integer64'', AVPTypeInteger64),
      (''Unsigned32'', AVPTypeUnsigned32), (''Unsigned64'', AVPTypeUnsigned64), (''Float32'', AVPTypeFloat32),
      (''Float64'', AVPTypeFloat64), (''Address'', AVPTypeAddress), (''Time'', AVPTypeTime), (''UTF8String'', AVPTypeUTF8String),
      (''DiameterIdentity'', AVPTypeDiameterIdentity), (''DiameterURI'', AVPTypeDiameterURI), (''Enumerated'', AVPTypeEnumerated),
      (''IPFilterRule'', AVPTypeIPFilterRule), (''Grouped'', AVPTypeGrouped)]"
  have h4: "typedefs.contents ?d3 []" by (simp add: typedefs.contents_def typedefs.agree_def types)
  have l4: "load_all AddType ?d3 ?types = (None, load_skip AddType ?d3 ?types)"
    by (rule typedefs.load_all_succeeds [OF TrueI h4]) simp_all
  let ?d4 = "load_skip AddType ?d3 ?types"
  have s4: "stage True ?d4 [] [] [] baseApps"
    using l3(2) by (simp only: stage_def stage_cong(1) [OF skip_types_frame(1,2)] stage_cong(2) [OF skip_types_frame(3,4)]
        stage_cong(3) [OF skip_types_frame(5,6)])
  have dn: "distinct ([] @ names_of baseAVPs)" "distinct ([] @ keys_of baseAVPs)"
    using strict_names_distinct strict_keys_distinct by (simp_all add: strict_names_def strict_keys_def)
  have dc: "distinct (map cmdName ([] @ baseCommands))" "distinct (map cmdKey ([] @ baseCommands))"
    using strict_commands_distinct by (simp_all add: strict_commands_def)
  obtain d5 where l5: "load_all AddAVPDef ?d4 (map (set_vendor VendorIDIETF) (baseAVPs ?d4)) = (None, d5)"
      "stage True d5 ([] @ names_of baseAVPs) ([] @ keys_of baseAVPs) [] baseApps"
    using stage_avps [OF s4 ietf_tables [of baseAVPs ?d4] dn] by blast
  obtain d6 where l6: "load_all AddCommand d5 baseCommands = (None, d6)"
      "stage True d6 ([] @ names_of baseAVPs) ([] @ keys_of baseAVPs) ([] @ baseCommands) baseApps"
    using stage_cmds [OF l5(2) dc] by blast
  have "LoadBaseProtocol Dict_New = (None, d6)"
    unfolding LoadBaseProtocol_def Let_def v1 then_load_None v2 l3(1) loadBaseTypes_def l4 loadBaseAVPs_def l5(1) loadBaseCommands_def l6(1)
    by (rule refl)
  with l6(2) that show thesis by simp
qed


text \<open>The prefixes of what the loaders that stop at the first error add.\<close>

lemma distinct_prefixes:
  assumes "distinct (a @ b @ c @ d @ e @ f)"
  shows "distinct (a @ b)" "distinct ((a @ b) @ c)" "distinct (((a @ b) @ c) @ d)" "distinct ((((a @ b) @ c) @ d) @ e)"
    "distinct (((((a @ b) @ c) @ d) @ e) @ f)"
  using assms by auto

lemma strict_padded:
  "distinct (names_of baseAVPs @ names_of ccAVPs @ names_of nasAVPs @ names_of eapAVPs @ names_of cxAVPs @ [])"
  "distinct (keys_of baseAVPs @ keys_of ccAVPs @ keys_of nasAVPs @ keys_of eapAVPs @ keys_of cxAVPs @ [])"
  using strict_names_distinct strict_keys_distinct unfolding strict_names_def strict_keys_def append_Nil2 by blast+

lemmas name_prefixes = distinct_prefixes [OF strict_padded(1)]
lemmas key_prefixes = distinct_prefixes [OF strict_padded(2)]

lemma command_prefixes:
  assumes "distinct (map f strict_commands)"
  shows "distinct (map f (baseCommands @ ccCommands))" "distinct (map f ((baseCommands @ ccCommands) @ nasCommands))"
    "distinct (map f (((baseCommands @ ccCommands) @ nasCommands) @ eapCommands))"
    "distinct (map f ((((baseCommands @ ccCommands) @ nasCommands) @ eapCommands) @ cxCommands))"
    "distinct (map f (((((baseCommands @ ccCommands) @ nasCommands) @ eapCommands) @ cxCommands) @ s6aCommands))"
proof -
  have "distinct (map f baseCommands @ map f ccCommands @ map f nasCommands @ map f eapCommands @ map f cxCommands @ map f s6aCommands)"
    using assms unfolding strict_commands_def map_append .
  note d = distinct_prefixes [OF this]
  show "distinct (map f (baseCommands @ ccCommands))" "distinct (map f ((baseCommands @ ccCommands) @ nasCommands))"
    "distinct (map f (((baseCommands @ ccCommands) @ nasCommands) @ eapCommands))"
    "distinct (map f ((((baseCommands @ ccCommands) @ nasCommands) @ eapCommands) @ cxCommands))"
    "distinct (map f (((((baseCommands @ ccCommands) @ nasCommands) @ eapCommands) @ cxCommands) @ s6aCommands))"
    unfolding map_append by (rule d)+
qed

lemma eager_loaded:
  obtains d where "then_load (then_load (then_load (LoadBaseProtocol Dict_New) LoadCreditControl) LoadNASREQ) LoadEAP = (None, d)"
    "stage True d (((names_of baseAVPs @ names_of ccAVPs) @ names_of nasAVPs) @ names_of eapAVPs)
       (((keys_of baseAVPs @ keys_of ccAVPs) @ keys_of nasAVPs) @ keys_of eapAVPs)
       (((baseCommands @ ccCommands) @ nasCommands) @ eapCommands) baseApps"
proof -
  note cn = command_prefixes [OF strict_commands_distinct(1)] and ck = command_prefixes [OF strict_commands_distinct(2)]
  have listed: "ccAVPs \<in> {baseAVPs, ccAVPs, nasAVPs, eapAVPs}" "nasAVPs \<in> {baseAVPs, ccAVPs, nasAVPs, eapAVPs}"
    "eapAVPs \<in> {baseAVPs, ccAVPs, nasAVPs, eapAVPs}" by blast+
  obtain d1 where d1: "LoadBaseProtocol Dict_New = (None, d1)" "stage True d1 (names_of baseAVPs) (keys_of baseAVPs) baseCommands baseApps"
    by (rule base_loaded)
  obtain d2 where d2: "LoadCreditControl d1 = (None, d2)" "stage True d2 (names_of baseAVPs @ names_of ccAVPs) (keys_of baseAVPs @ keys_of ccAVPs)
      (baseCommands @ ccCommands) baseApps"
    unfolding LoadCreditControl_def
    by (rule stage_table [OF d1(2) ietf_tables [of ccAVPs, OF listed(1)] name_prefixes(1) key_prefixes(1) cn(1) ck(1)])
  obtain d3 where d3: "LoadNASREQ d2 = (None, d3)" "stage True d3 ((names_of baseAVPs @ names_of ccAVPs) @ names_of nasAVPs)
      ((keys_of baseAVPs @ keys_of ccAVPs) @ keys_of nasAVPs) ((baseCommands @ ccCommands) @ nasCommands) baseApps"
    unfolding LoadNASREQ_def
    by (rule stage_table [OF d2(2) ietf_tables [of nasAVPs, OF listed(2)] name_prefixes(2) key_prefixes(2) cn(2) ck(2)])
  obtain d4 where d4: "LoadEAP d3 = (None, d4)" "stage True d4 (((names_of baseAVPs @ names_of ccAVPs) @ names_of nasAVPs) @ names_of eapAVPs)
      (((keys_of baseAVPs @ keys_of ccAVPs) @ keys_of nasAVPs) @ keys_of eapAVPs) (((baseCommands @ ccCommands) @ nasCommands) @ eapCommands) baseApps"
    unfolding LoadEAP_def
    by (rule stage_table [OF d3(2) ietf_tables [of eapAVPs, OF listed(3)] name_prefixes(3) key_prefixes(3) cn(3) ck(3)])
  show thesis using d4(2) by (intro that [of d4]) (simp_all only: d1 d2 d3 d4 then_load_None)
qed


lemma app_prefixes:
  "distinct (map appName (baseApps @ take (Suc n) (drop (length baseApps) daemon_apps)))"
  "distinct (map appID (baseApps @ take (Suc n) (drop (length baseApps) daemon_apps)))"
proof -
  have t: "baseApps @ take (Suc n) (drop (length baseApps) daemon_apps) = take (length baseApps + Suc n) daemon_apps"
    by (simp add: daemon_apps_def)
  show "distinct (map appName (baseApps @ take (Suc n) (drop (length baseApps) daemon_apps)))"
    "distinct (map appID (baseApps @ take (Suc n) (drop (length baseApps) daemon_apps)))"
    unfolding t using daemon_apps_distinct by (simp_all only: take_map [symmetric] distinct_take)
qed

text \<open>Everything up to and including S6a; then Gx, Rx and SIP, which cannot fail any more.\<close>

lemma daemon_loaded:
  obtains d8 where "daemon_dictionary = (None, load_skip AddCommand (load_skip AddAVPDef d8 (sipAVPs d8)) sipCommands)"
    "avps_at False d8 strict_names strict_keys"
    "\<exists>d. cmds_at d strict_commands \<and> cmdsByKey d8 = cmdsByKey (load_skip AddCommand d rxCommands) \<and>
       cmdsByName d8 = cmdsByName (load_skip AddCommand d rxCommands)"
proof -
  note cn = command_prefixes [OF strict_commands_distinct(1)] and ck = command_prefixes [OF strict_commands_distinct(2)]
  note an = app_prefixes(1) [of 0] app_prefixes(1) [of 1] app_prefixes(1) [of 2] app_prefixes(1) [of 3] app_prefixes(1) [of 4]
    and ai = app_prefixes(2) [of 0] app_prefixes(2) [of 1] app_prefixes(2) [of 2] app_prefixes(2) [of 3] app_prefixes(2) [of 4]
  let ?cx = "\<lparr>appID = AppID3GPPCx, appName = ''3GPP Cx'', appVendorID = VendorID3GPP\<rparr>"
  let ?s6a = "\<lparr>appID = AppID3GPPS6a, appName = ''3GPP S6a/S6d'', appVendorID = VendorID3GPP\<rparr>"
  let ?gx = "\<lparr>appID = AppID3GPPGx, appName = ''3GPP Gx'', appVendorID = VendorID3GPP\<rparr>"
  let ?rx = "\<lparr>appID = AppID3GPPRx, appName = ''3GPP Rx'', appVendorID = VendorID3GPP\<rparr>"
  let ?sip = "\<lparr>appID = AppIDSIP, appName = ''Diameter SIP'', appVendorID = 0\<rparr>"
  have drops: "drop (length baseApps) daemon_apps = [?cx, ?s6a, ?gx, ?rx, ?sip]" by (simp add: daemon_apps_def)
  note a = an [unfolded drops] ai [unfolded drops]
  obtain d0 where d0: "then_load (then_load (then_load (LoadBaseProtocol Dict_New) LoadCreditControl) LoadNASREQ) LoadEAP = (None, d0)"
    "stage True d0 (((names_of baseAVPs @ names_of ccAVPs) @ names_of nasAVPs) @ names_of eapAVPs)
       (((keys_of baseAVPs @ keys_of ccAVPs) @ keys_of nasAVPs) @ keys_of eapAVPs)
       (((baseCommands @ ccCommands) @ nasCommands) @ eapCommands) baseApps" (is "stage True d0 ?ns ?ks ?cs _")
    by (rule eager_loaded)
  obtain d1 where d1: "AddApplication d0 ?cx = (None, d1)" "stage True d1 ?ns ?ks ?cs (baseApps @ [?cx])"
    by (rule stage_app [OF d0(2), of ?cx]) (use a in simp_all)
  obtain d2 where d2: "then_load (load_all AddAVPDef d1 (cxAVPs d1)) (\<lambda>d. load_all AddCommand d cxCommands) = (None, d2)"
      "stage True d2 (?ns @ names_of cxAVPs) (?ks @ keys_of cxAVPs) (?cs @ cxCommands) (baseApps @ [?cx])"
    by (rule stage_table [OF d1(2) cx_tables name_prefixes(4) key_prefixes(4) cn(4) ck(4)])
  have cx: "Load3GPPCx d0 = (None, d2)"
    using d2(1) by (simp only: Load3GPPCx_def Let_def d1(1) then_load_None)
  obtain d3 where d3: "AddApplication d2 ?s6a = (None, d3)" "stage True d3 (?ns @ names_of cxAVPs) (?ks @ keys_of cxAVPs) (?cs @ cxCommands) ((baseApps @ [?cx]) @ [?s6a])"
    by (rule stage_app [OF d2(2), of ?s6a]) (use a in simp_all)
  let ?d4 = "load_skip AddAVPDef d3 (s6aAVPs d3)"
  have s4: "stage False ?d4 (?ns @ names_of cxAVPs) (?ks @ keys_of cxAVPs) (?cs @ cxCommands) ((baseApps @ [?cx]) @ [?s6a])"
    by (rule stage_skip_avps [OF d3(2)])
  obtain d5 where d5: "load_all AddCommand ?d4 s6aCommands = (None, d5)"
      "stage False d5 (?ns @ names_of cxAVPs) (?ks @ keys_of cxAVPs) ((?cs @ cxCommands) @ s6aCommands) ((baseApps @ [?cx]) @ [?s6a])"
    using stage_cmds [OF s4 cn(5) ck(5)] by blast
  have s6a: "Load3GPPS6a d2 = (None, d5)" by (simp only: Load3GPPS6a_def Let_def d3(1) then_load_None d5(1))
  obtain d6 where d6: "AddApplication d5 ?gx = (None, d6)" "stage False d6 (?ns @ names_of cxAVPs) (?ks @ keys_of cxAVPs)
      ((?cs @ cxCommands) @ s6aCommands) (((baseApps @ [?cx]) @ [?s6a]) @ [?gx])"
    by (rule stage_app [OF d5(2), of ?gx]) (use a in simp_all)
  let ?d6 = "load_skip AddAVPDef d6 (gxAVPs d6)"
  have gx: "Load3GPPGx d5 = (None, ?d6)" by (simp only: Load3GPPGx_def d6(1) then_load_None)
  obtain d7 where d7: "AddApplication ?d6 ?rx = (None, d7)" "stage False d7 (?ns @ names_of cxAVPs) (?ks @ keys_of cxAVPs)
      ((?cs @ cxCommands) @ s6aCommands) ((((baseApps @ [?cx]) @ [?s6a]) @ [?gx]) @ [?rx])"
    by (rule stage_app [OF stage_skip_avps [OF d6(2)], of ?rx "gxAVPs d6"]) (use a in simp_all)
  let ?d7 = "load_skip AddAVPDef d7 (rxAVPs d7)"
  let ?d8 = "load_skip AddCommand ?d7 rxCommands"
  have s7: "stage False ?d7 (?ns @ names_of cxAVPs) (?ks @ keys_of cxAVPs)
      ((?cs @ cxCommands) @ s6aCommands) ((((baseApps @ [?cx]) @ [?s6a]) @ [?gx]) @ [?rx])"
    by (rule stage_skip_avps [OF d7(2)])
  have rx: "Load3GPPRx ?d6 = (None, ?d8)" by (simp only: Load3GPPRx_def d7(1) then_load_None)
  have all3: "LoadAll3GPP d0 = (None, ?d8)" by (simp only: LoadAll3GPP_def cx s6a gx rx then_load_None)
  have "apps.contents ?d8 ((((baseApps @ [?cx]) @ [?s6a]) @ [?gx]) @ [?rx])"
    using s7 by (simp only: stage_def other_kinds_stay)
  then have "load_all AddApplication ?d8 [?sip] = (None, load_skip AddApplication ?d8 [?sip])"
    by (rule apps.load_all_succeeds [OF TrueI]) (use a in simp_all)
  then have "AddApplication ?d8 ?sip = (None, load_skip AddApplication ?d8 [?sip])" unfolding load_all_one .
  then obtain d9 where d9: "AddApplication ?d8 ?sip = (None, d9)" "d9 = load_skip AddApplication ?d8 [?sip]" by blast
  have "daemon_dictionary = (None, load_skip AddCommand (load_skip AddAVPDef d9 (sipAVPs d9)) sipCommands)"
    by (simp only: daemon_dictionary_def d0(1) then_load_None all3 LoadSIP_def d9(1))
  moreover have "avps_at False d9 strict_names strict_keys"
    using s7 unfolding d9(2) strict_names_def strict_keys_def by (simp only: stage_def other_kinds_stay append_assoc)
  moreover have "cmds_at ?d7 strict_commands" using s7 unfolding strict_commands_def by (simp only: stage_def append_assoc)
  moreover have "cmdsByKey d9 = cmdsByKey ?d8" "cmdsByName d9 = cmdsByName ?d8" unfolding d9(2) by (rule skip_apps_frame)+
  ultimately show thesis using that by blast
qed


text \<open>
  The dictionary the daemon builds loads to the end without an error, and every AVP of the base, credit control, NASREQ, EAP and
  Cx tables, and every command of those and of S6a, is found under its name and under its code.
\<close>

theorem daemon_dictionary_loads:
  "fst daemon_dictionary = None \<and>
   (\<forall>(n, v, c) \<in> set (zip strict_names strict_keys). \<exists>a. avpName a = n \<and>
      GetAVPByName (snd daemon_dictionary) n = Some a \<and> GetAVPByCode (snd daemon_dictionary) v c = Some a) \<and>
   (\<forall>c \<in> set strict_commands. GetCommandByName (snd daemon_dictionary) (cmdName c) = Some c \<and>
      GetCommandByCode (snd daemon_dictionary) (cmdCode c) (Request (cmdFlags c)) = Some c)"
proof -
  obtain d where d: "daemon_dictionary = (None, load_skip AddCommand (load_skip AddAVPDef d (sipAVPs d)) sipCommands)" (is "_ = (None, ?e)")
    "avps_at False d strict_names strict_keys"
    "\<exists>d'. cmds_at d' strict_commands \<and> cmdsByKey d = cmdsByKey (load_skip AddCommand d' rxCommands) \<and>
       cmdsByName d = cmdsByName (load_skip AddCommand d' rxCommands)"
    by (rule daemon_loaded)
  have "avps_at False ?e strict_names strict_keys"
    unfolding stage_cong(1) [OF skip_cmds_frame(1,2)] by (rule skip_keeps_avps [OF d(2)])
  then obtain xs where xs: "map avpName xs = strict_names" "map avpKey xs = strict_keys"
      "\<forall>x \<in> set xs. avpsByKey ?e (avpKey x) = Some x \<and> avpsByName ?e (avpName x) = Some x"
    unfolding avps_at_def by blast
  have z: "zip strict_names strict_keys = map (\<lambda>x. (avpName x, avpKey x)) xs"
    unfolding xs(1,2) [symmetric] by (simp add: zip_map_map zip_same_conv_map)
  have avps: "\<exists>a. avpName a = n \<and> GetAVPByName ?e n = Some a \<and> GetAVPByCode ?e v c = Some a"
    if "(n, v, c) \<in> set (zip strict_names strict_keys)" for n v c
    using that xs(3) unfolding z by (auto simp: GetAVPByName_def GetAVPByCode_def)
  obtain d' where d': "cmds_at d' strict_commands" "cmdsByKey d = cmdsByKey (load_skip AddCommand d' rxCommands)"
      "cmdsByName d = cmdsByName (load_skip AddCommand d' rxCommands)"
    using d(3) by blast
  have cmds: "GetCommandByName ?e (cmdName c) = Some c \<and> GetCommandByCode ?e (cmdCode c) (Request (cmdFlags c)) = Some c"
    if "c \<in> set strict_commands" for c
  proof -
    have "cmdsByKey d' (cmdKey c) = Some c" "cmdsByName d' (cmdName c) = Some c" using d'(1) that by (auto simp: cmds_at_def)
    then have "cmdsByKey d (cmdKey c) = Some c" "cmdsByName d (cmdName c) = Some c"
      unfolding d'(2,3) by (simp_all add: cmds.load_skip_keeps)
    then have "cmdsByKey (load_skip AddAVPDef d (sipAVPs d)) (cmdKey c) = Some c" "cmdsByName (load_skip AddAVPDef d (sipAVPs d)) (cmdName c) = Some c"
      by (simp_all add: skip_avps_frame)
    then show ?thesis
      by (simp add: GetCommandByName_def GetCommandByCode_def cmdKey_def cmds.load_skip_keeps)
  qed
  have "\<forall>(n, v, c) \<in> set (zip strict_names strict_keys). \<exists>a. avpName a = n \<and> GetAVPByName ?e n = Some a \<and> GetAVPByCode ?e v c = Some a"
    using avps by blast
  moreover have "\<forall>c \<in> set strict_commands. GetCommandByName ?e (cmdName c) = Some c \<and>
      GetCommandByCode ?e (cmdCode c) (Request (cmdFlags c)) = Some c"
    using cmds by blast
  ultimately show ?thesis unfolding d(1) fst_conv snd_conv by blast
qed

theorem daemon_dictionary_loads_witness:
  "(\<exists>a. GetAVPByName (snd daemon_dictionary) ''Session-ID'' = Some a \<and> GetAVPByCode (snd daemon_dictionary) 0 263 = Some a) \<and>
   GetCommandByCode (snd daemon_dictionary) 257 True = Some (hd baseCommands)"
proof -
  have "(''Session-ID'', 0, 263) \<in> set (zip strict_names strict_keys)"
    by (simp add: strict_names_def strict_keys_def names_of_def keys_of_def baseAVPs_def avp_def_def avpKey_def Let_def)
  moreover have "hd baseCommands \<in> set strict_commands" "cmdCode (hd baseCommands) = 257" "Request (cmdFlags (hd baseCommands))"
    by (simp_all add: strict_commands_def baseCommands_def cmd_def_def)
  ultimately show ?thesis using daemon_dictionary_loads by fastforce
qed

lemma sip_names_taken:
  "list_all (\<lambda>y. list_ex (\<lambda>x. cmdName x = cmdName y \<and> cmdCode x \<noteq> cmdCode y) cxCommands) sipCommands"
  by (simp add: sipCommands_def cxCommands_def cmd_def_def)

lemma sip_codes_unused: "list_all (\<lambda>x. list_all (\<lambda>c. cmdCode x \<noteq> cmdCode c) sipCommands) (strict_commands @ rxCommands)"
  by (simp add: strict_commands_def sipCommands_def rxCommands_def baseCommands_def ccCommands_def nasCommands_def
        eapCommands_def cxCommands_def s6aCommands_def cmd_def_def)

text \<open>
  The commands of the SIP application all carry names of Cx commands, so every one of them is refused by the names' index and
  none can be found by its own code; under their names the Cx definitions, with other codes, are found.
\<close>

theorem sip_commands_are_lost:
  "\<forall>c \<in> set sipCommands. GetCommandByCode (snd daemon_dictionary) (cmdCode c) r = None \<and>
     (\<exists>x \<in> set cxCommands. cmdCode x \<noteq> cmdCode c \<and> GetCommandByName (snd daemon_dictionary) (cmdName c) = Some x)"
proof
  fix c assume c: "c \<in> set sipCommands"
  obtain d where d: "daemon_dictionary = (None, load_skip AddCommand (load_skip AddAVPDef d (sipAVPs d)) sipCommands)" (is "_ = (None, ?e)")
    "avps_at False d strict_names strict_keys"
    "\<exists>d'. cmds_at d' strict_commands \<and> cmdsByKey d = cmdsByKey (load_skip AddCommand d' rxCommands) \<and>
       cmdsByName d = cmdsByName (load_skip AddCommand d' rxCommands)"
    by (rule daemon_loaded)
  then obtain d' where d': "cmds_at d' strict_commands" "cmdsByKey d = cmdsByKey (load_skip AddCommand d' rxCommands)"
      "cmdsByName d = cmdsByName (load_skip AddCommand d' rxCommands)"
    by blast
  have taken: "\<exists>x \<in> set cxCommands. cmdName x = cmdName y \<and> cmdCode x \<noteq> cmdCode y" if "y \<in> set sipCommands" for y
    using that sip_names_taken by (auto simp: list_all_iff list_ex_iff)
  have cx: "cxCommands \<noteq> [] \<and> set cxCommands \<subseteq> set strict_commands" by (auto simp: strict_commands_def cxCommands_def)
  have codes: "cmdCode x \<noteq> cmdCode c" if "x \<in> set strict_commands \<or> x \<in> set rxCommands" for x
    using sip_codes_unused c that by (auto simp: list_all_iff)
  have "cmdsByKey d' (cmdCode c, r) = None"
  proof (rule ccontr)
    assume "cmdsByKey d' (cmdCode c, r) \<noteq> None"
    then obtain x where x: "cmdsByKey d' (cmdCode c, r) = Some x" by blast
    then have "x \<in> set strict_commands" "cmdKey x = (cmdCode c, r)"
      using d'(1) unfolding cmds_at_def cmds.contents_def cmds.agree_def coherent_def by blast+
    then show False using codes by (simp add: cmdKey_def)
  qed
  then have key: "cmdsByKey d (cmdCode c, r) = None"
    unfolding d'(2) using codes by (intro cmds.load_skip_absent) (auto simp: cmdKey_def)
  have names: "\<exists>x \<in> set cxCommands. cmdCode x \<noteq> cmdCode y \<and> cmdsByName d (cmdName y) = Some x" if y: "y \<in> set sipCommands" for y
  proof -
    obtain x where x: "x \<in> set cxCommands" "cmdName x = cmdName y" "cmdCode x \<noteq> cmdCode y" using taken [OF y] by blast
    then have "cmdsByName d' (cmdName y) = Some x" using cx d'(1) unfolding cmds_at_def by (metis subsetD)
    then have "cmdsByName d (cmdName y) = Some x" unfolding d'(3) by (simp add: cmds.load_skip_keeps)
    with x show ?thesis by blast
  qed
  have "cmdsByKey ?e (cmdCode c, r) = None"
  proof (rule cmds.load_skip_absent [OF TrueI])
    show "cmdsByKey (load_skip AddAVPDef d (sipAVPs d)) (cmdCode c, r) = None" using key by (simp add: skip_avps_frame)
    show "cmdsByName (load_skip AddAVPDef d (sipAVPs d)) (cmdName y) \<noteq> None" if "y \<in> set sipCommands" for y
      using names [OF that] by (auto simp: skip_avps_frame)
  qed
  moreover obtain x where x: "x \<in> set cxCommands" "cmdCode x \<noteq> cmdCode c" "cmdsByName d (cmdName c) = Some x" using names [OF c] by blast
  moreover have "cmdsByName ?e (cmdName c) = Some x"
    using x(3) by (simp add: cmds.load_skip_keeps skip_avps_frame)
  ultimately show "GetCommandByCode (snd daemon_dictionary) (cmdCode c) r = None \<and>
     (\<exists>x \<in> set cxCommands. cmdCode x \<noteq> cmdCode c \<and> GetCommandByName (snd daemon_dictionary) (cmdName c) = Some x)"
    unfolding d(1) GetCommandByCode_def GetCommandByName_def by auto
qed

theorem sip_commands_are_lost_witness:
  "GetCommandByCode (snd daemon_dictionary) CmdCodeSIPUserAuthorization True = None"
proof -
  have "hd sipCommands \<in> set sipCommands" "cmdCode (hd sipCommands) = CmdCodeSIPUserAuthorization"
    by (simp_all add: sipCommands_def cmd_def_def)
  with sip_commands_are_lost [of True] show ?thesis by fastforce
qed

end
