(* ===== verification/Rt_Scores.thy ===== *)
theory Rt_Scores
  imports Router_Properties Ext_Common Dict_Load
begin

text \<open>
  The extensions that only move scores: \<open>rt_load_balance\<close>, \<open>rt_randomize\<close>, \<open>rt_ereg\<close> and \<open>rt_redirect\<close>. Each has the state
  its Go struct has and a function for each of its router handlers. A handler that is registered reads the state of the moment
  it is called; \<open>adjusting\<close> is the router entry for one such moment. Scores are integers; a Go \<open>int\<close> has 64 bits.
\<close>

section \<open>What the handlers share\<close>

fun bump_score :: "int \<Rightarrow> Route \<Rightarrow> Route" where
  "bump_score n c = c\<lparr>Score := Score c + n\<rparr>"

definition explain :: "string \<Rightarrow> Route \<Rightarrow> Route" where
  "explain t c = c\<lparr>Reason := t\<rparr>"

definition top_score :: "Route list \<Rightarrow> int" where
  "top_score cs = foldl (\<lambda>m c. if m < Score c then Score c else m) (Score (hd cs)) (tl cs)"

section \<open>\<open>rt_load_balance\<close>\<close>

record rtLoadBalance =
  rebalanced :: u64

text \<open>The lookup is filled peer by peer: a later peer with the same identity replaces an earlier one, and who is not a peer counts 0.\<close>

definition pending_of :: "peer list \<Rightarrow> DiamID \<Rightarrow> nat" where
  "pending_of ps i = (case map_of (rev (map (\<lambda>p. (relayPeerIdentity p, PendingCount p)) ps)) i of Some n \<Rightarrow> n | None \<Rightarrow> 0)"

definition least_pending :: "peer list \<Rightarrow> Route list \<Rightarrow> int" where
  "least_pending ps cs = foldl (\<lambda>low c. if Score c = top_score cs then
       (let pc = int (pending_of ps (PeerIdentity c)) in if low < 0 \<or> pc < low then pc else low) else low) (-1) cs"

definition boosted :: "peer list \<Rightarrow> Route list \<Rightarrow> Route \<Rightarrow> bool" where
  "boosted ps cs c \<longleftrightarrow> Score c = top_score cs \<and> int (pending_of ps (PeerIdentity c)) = least_pending ps cs"

definition LoadBalance_handleOutgoing :: "peer list \<Rightarrow> rtLoadBalance \<Rightarrow> message \<Rightarrow> Route list \<Rightarrow> rtLoadBalance \<times> Route list" where
  "LoadBalance_handleOutgoing ps s m cs =
     (if length cs \<le> 1 then (s, cs)
      else let out = update_first (boosted ps cs) (\<lambda>c. explain ''rt_load_balance: least-loaded peer'' (bump_score 1 c)) cs in
        (if list_ex (boosted ps cs) cs then s\<lparr>rebalanced := rebalanced s + 1\<rparr> else s, out))"

section \<open>\<open>rt_randomize\<close>\<close>

record rtRandomize =
  randomized :: u64

text \<open>One call of \<open>rand.Intn(2)\<close> for each candidate of the top tier, in order.\<close>

fun jitter :: "renv \<Rightarrow> int \<Rightarrow> nat \<Rightarrow> Route list \<Rightarrow> Route list \<times> nat" where
  "jitter e hi k [] = ([], k)"
| "jitter e hi k (c # cs) =
     (if Score c = hi then (case jitter e hi (Suc k) cs of (out, k') \<Rightarrow> (bump_score (int (intn e k 2)) c # out, k'))
      else (case jitter e hi k cs of (out, k') \<Rightarrow> (c # out, k')))"

definition Randomize_handleOutgoing :: "renv \<Rightarrow> nat \<Rightarrow> rtRandomize \<Rightarrow> message \<Rightarrow> Route list \<Rightarrow> rtRandomize \<times> Route list \<times> nat" where
  "Randomize_handleOutgoing e k s m cs =
     (if length cs \<le> 1 then (s, cs, k)
      else if length (filter (\<lambda>c. Score c = top_score cs) cs) \<le> 1 then (s, cs, k)
      else (s\<lparr>randomized := randomized s + 1\<rparr>, jitter e (top_score cs) k cs))"

section \<open>\<open>rt_ereg\<close>\<close>

text \<open>The \<open>regexp\<close> package: compiling a pattern, and matching a text.\<close>

record 'p regexps =
  Compile :: "string \<Rightarrow> 'p option"
  MatchString :: "'p \<Rightarrow> string \<Rightarrow> bool"

record 'p eregRule =
  erCode :: AVPCode
  erVendor :: VendorID
  erPattern :: 'p
  erText :: string
  erServer :: string
  erScore :: int

record 'p rtEreg =
  erRules :: "'p eregRule list"
  erMatched :: u64

datatype ereg_error = RulesRequired | RulesNotAList | IncompleteRule | InvalidPattern string

definition wellKnown :: "(string \<times> AVPCode) list" where
  "wellKnown = [(''User-Name'', AVPCodeUserName), (''Session-Id'', AVPCodeSessionID), (''Origin-Host'', AVPCodeOriginHost),
     (''Origin-Realm'', AVPCodeOriginRealm), (''Destination-Host'', AVPCodeDestinationHost),
     (''Destination-Realm'', AVPCodeDestinationRealm)]"

definition lookupAVP :: "dictionary option \<Rightarrow> string \<Rightarrow> AVPCode \<times> VendorID" where
  "lookupAVP dict name = (case map_of wellKnown name of
     Some code \<Rightarrow> (code, 0)
   | None \<Rightarrow> (case Option.bind dict (\<lambda>d. GetAVPByName d name) of
       Some a \<Rightarrow> (avpCode a, avpVendorID a)
     | None \<Rightarrow> (0, 0)))"

definition parse_rule :: "'p regexps \<Rightarrow> dictionary option \<Rightarrow> ext_config \<Rightarrow> ereg_error + 'p eregRule" where
  "parse_rule rx dict cfg =
     (let name = option_or as_string cfg ''avp'' '''';
          pattern = option_or as_string cfg ''pattern'' '''';
          server = option_or as_string cfg ''server'' '''' in
      if name = '''' \<or> pattern = '''' \<or> server = '''' then Inl IncompleteRule
      else case Compile rx pattern of
        None \<Rightarrow> Inl (InvalidPattern pattern)
      | Some p \<Rightarrow> Inr \<lparr>erCode = fst (lookupAVP dict name), erVendor = snd (lookupAVP dict name), erPattern = p, erText = pattern,
                       erServer = server, erScore = option_or as_int cfg ''score'' 100\<rparr>)"

text \<open>The rules before the first bad one are kept when the initialisation fails.\<close>

fun parse_rules :: "'p regexps \<Rightarrow> dictionary option \<Rightarrow> yaml_value list \<Rightarrow> 'p rtEreg \<Rightarrow> (ereg_error + unit) \<times> 'p rtEreg" where
  "parse_rules rx dict [] s = (Inr (), s)"
| "parse_rules rx dict (y # ys) s = (case y of
     YMap cfg \<Rightarrow> (case parse_rule rx dict cfg of
         Inl err \<Rightarrow> (Inl err, s)
       | Inr rule \<Rightarrow> parse_rules rx dict ys (s\<lparr>erRules := erRules s @ [rule]\<rparr>))
   | _ \<Rightarrow> parse_rules rx dict ys s)"

definition Ereg_Init :: "'p regexps \<Rightarrow> dictionary option \<Rightarrow> ext_config \<Rightarrow> 'p rtEreg \<Rightarrow> (ereg_error + unit) \<times> 'p rtEreg" where
  "Ereg_Init rx dict cfg s = (case map_of cfg ''rules'' of
     None \<Rightarrow> (Inl RulesRequired, s)
   | Some (YSeq ys) \<Rightarrow> parse_rules rx dict ys s
   | Some _ \<Rightarrow> (Inl RulesNotAList, s))"

definition rule_applies :: "'p regexps \<Rightarrow> message \<Rightarrow> 'p eregRule \<Rightarrow> bool" where
  "rule_applies rx m rule \<longleftrightarrow> erCode rule \<noteq> 0 \<and>
     (case FindAVP m (erCode rule) (erVendor rule) of None \<Rightarrow> False
      | Some a \<Rightarrow> (let v = (if GetUTF8String a \<noteq> '''' then GetUTF8String a else GetDiameterIdentity a) in
                   v \<noteq> '''' \<and> MatchString rx (erPattern rule) v))"

definition apply_rule :: "'p regexps \<Rightarrow> message \<Rightarrow> 'p eregRule \<Rightarrow> 'p rtEreg \<times> Route list \<Rightarrow> 'p rtEreg \<times> Route list" where
  "apply_rule rx m rule = (\<lambda>(s, cs).
     if rule_applies rx m rule then
       (s\<lparr>erMatched := erMatched s + of_nat (length (filter (\<lambda>c. PeerIdentity c = erServer rule) cs))\<rparr>,
        map (\<lambda>c. if PeerIdentity c = erServer rule
                 then explain (''rt_ereg: pattern '' @ erText rule @ '' matched'') (bump_score (erScore rule) c) else c) cs)
     else (s, cs))"

definition Ereg_handleRouting :: "'p regexps \<Rightarrow> 'p rtEreg \<Rightarrow> message \<Rightarrow> Route list \<Rightarrow> 'p rtEreg \<times> Route list" where
  "Ereg_handleRouting rx s m cs = (if \<not> IsRequest m then (s, cs) else fold (apply_rule rx m) (erRules s) (s, cs))"

text \<open>\<open>Stop\<close> does nothing, so the rules are still there when the extension is enabled again.\<close>

definition Ereg_Stop :: "'p rtEreg \<Rightarrow> 'p rtEreg" where
  "Ereg_Stop s = s"

section \<open>\<open>rt_redirect\<close>\<close>

record redirectKey =
  rkApp :: ApplicationID
  rkRealm :: string

record redirectEntry =
  redirectHosts :: "DiamID list"
  rdExpiresAt :: int

record rtRedirect =
  scoreBoost :: int
  rdMaxEntries :: int
  cacheTTL :: int
  rdCache :: "(redirectKey \<times> redirectEntry) list"
  cacheHits :: u64
  cacheMisses :: u64
  redirectsStored :: u64
  redirectsApplied :: u64

definition Redirect_Init :: "ext_config \<Rightarrow> rtRedirect" where
  "Redirect_Init cfg = \<lparr>scoreBoost = option_or as_int cfg ''score_boost'' 100,
     rdMaxEntries = option_or as_int cfg ''max_entries'' 10000,
     cacheTTL = (case Option.bind (option_of as_string cfg ''default_cache_time'') ParseDuration of
       Some d \<Rightarrow> d | None \<Rightarrow> 3600 * conf_second),
     rdCache = [], cacheHits = 0, cacheMisses = 0, redirectsStored = 0, redirectsApplied = 0\<rparr>"

definition redirect_key :: "message \<Rightarrow> redirectKey" where
  "redirect_key m = \<lparr>rkApp = mApplicationID m, rkRealm = (case GetDestinationRealm m of Some d \<Rightarrow> d | None \<Rightarrow> '''')\<rparr>"

definition evictExpired :: "int \<Rightarrow> rtRedirect \<Rightarrow> rtRedirect" where
  "evictExpired now s = s\<lparr>rdCache := filter (\<lambda>(k, x). \<not> rdExpiresAt x < now) (rdCache s)\<rparr>"

definition store_redirect :: "int \<Rightarrow> int \<Rightarrow> redirectKey \<Rightarrow> DiamID list \<Rightarrow> rtRedirect \<Rightarrow> rtRedirect" where
  "store_redirect now ttl k hosts s =
     (let s = (if rdMaxEntries s \<le> int (length (rdCache s)) then evictExpired now s else s) in
      s\<lparr>rdCache := AList.update k \<lparr>redirectHosts = hosts, rdExpiresAt = now + ttl\<rparr> (rdCache s)\<rparr>)"

definition redirect_ttl :: "rtRedirect \<Rightarrow> message \<Rightarrow> int" where
  "redirect_ttl s m = (case unsigned32_of m AVPCodeRedirectMaxCacheTime of
     Some secs \<Rightarrow> if 0 < secs then uint secs * conf_second else cacheTTL s
   | None \<Rightarrow> cacheTTL s)"

definition redirect_hosts :: "message \<Rightarrow> DiamID list" where
  "redirect_hosts m = filter (\<lambda>h. h \<noteq> '''') (map GetDiameterIdentity (FindAllAVPs m AVPCodeRedirectHost 0))"

definition Redirect_handleAnswer :: "int \<Rightarrow> rtRedirect \<Rightarrow> message \<Rightarrow> rtRedirect" where
  "Redirect_handleAnswer now s m =
     (if IsRequest m then s
      else if GetResultCode m \<noteq> Some ResultRedirectIndication then s
      else if redirect_hosts m = [] then s
      else (let s = store_redirect now (redirect_ttl s m) (redirect_key m) (redirect_hosts m) s in
            s\<lparr>redirectsStored := redirectsStored s + 1\<rparr>))"

definition redirect_reason :: "redirectKey \<Rightarrow> string" where
  "redirect_reason k = ''rt_redirect: cached redirect (app='' @ decimal (uint (rkApp k)) @ '', realm='' @ rkRealm k @ '')''"

definition Redirect_handleRequest :: "int \<Rightarrow> rtRedirect \<Rightarrow> message \<Rightarrow> Route list \<Rightarrow> rtRedirect \<times> Route list" where
  "Redirect_handleRequest now s m cs =
     (if \<not> IsRequest m then (s, cs)
      else let k = redirect_key m in
        case map_of (rdCache s) k of
          None \<Rightarrow> (s\<lparr>cacheMisses := cacheMisses s + 1\<rparr>, cs)
        | Some x \<Rightarrow>
            if rdExpiresAt x < now then (s\<lparr>rdCache := AList.delete k (rdCache s), cacheMisses := cacheMisses s + 1\<rparr>, cs)
            else (s\<lparr>cacheHits := cacheHits s + 1, redirectsApplied := redirectsApplied s +
                     of_nat (length (filter (\<lambda>c. PeerIdentity c \<in> set (redirectHosts x)) cs))\<rparr>,
                  map (\<lambda>c. if PeerIdentity c \<in> set (redirectHosts x)
                           then explain (redirect_reason k) (bump_score (scoreBoost s) c) else c) cs))"

definition Redirect_Stop :: "rtRedirect \<Rightarrow> rtRedirect" where
  "Redirect_Stop s = s\<lparr>rdCache := []\<rparr>"

end
