(* ===== verification/Rt_Scores_Properties.thy ===== *)
theory Rt_Scores_Properties
  imports Rt_Scores
begin

text \<open>
  What the score extensions promise. The interface \<open>score_adjuster\<close> is what the router relies on: a handler that keeps the
  list of peers as it is. Everything registered by the four extensions is one, so none of them adds or loses a next hop
  (\<open>score_extensions_keep_routes\<close>); what each makes of the scores follows.
\<close>

section \<open>The interface\<close>

definition keeps_candidates :: "outHandlerEntry \<Rightarrow> bool" where
  "keeps_candidates h \<longleftrightarrow> (\<forall>m cs. \<exists>cs'. oHandler h m cs = (m, Inr cs') \<and> map PeerIdentity cs' = map PeerIdentity cs)"

lemma keeps_candidates_chain:
  assumes "list_all keeps_candidates hs" "cs \<noteq> []"
  shows "\<exists>cs'. apply_out_handlers hs m cs = (m, Inr cs') \<and> map PeerIdentity cs' = map PeerIdentity cs"
  using assms
proof (induction hs arbitrary: cs)
  case (Cons h hs)
  obtain cs1 where 1: "oHandler h m cs = (m, Inr cs1)" "map PeerIdentity cs1 = map PeerIdentity cs"
    using Cons.prems(1) by (simp add: keeps_candidates_def) blast
  then have "cs1 \<noteq> []" using Cons.prems(2) by auto
  then obtain cs2 where "apply_out_handlers hs m cs1 = (m, Inr cs2)" "map PeerIdentity cs2 = map PeerIdentity cs1"
    using Cons.IH [of cs1] Cons.prems(1) by auto
  then show ?case using 1 \<open>cs1 \<noteq> []\<close> by simp
qed simp

locale score_adjuster =
  fixes adjust :: "'s \<Rightarrow> message \<Rightarrow> Route list \<Rightarrow> Route list"
  assumes same_peers: "map PeerIdentity (adjust s m cs) = map PeerIdentity cs"
begin

text \<open>The entry of the router's table, with the state its handler finds.\<close>

definition adjusting :: "int \<Rightarrow> string \<Rightarrow> 's \<Rightarrow> outHandlerEntry" where
  "adjusting p n s = \<lparr>oPriority = p, oHandler = \<lambda>m cs. (m, Inr (adjust s m cs)), oName = n, oOwner = ''''\<rparr>"

lemma adjusting_keeps: "keeps_candidates (adjusting p n s)"
  by (simp add: keeps_candidates_def adjusting_def same_peers)

lemma adjusting_handler: "oHandler (adjusting p n s) m cs = (m, Inr (adjust s m cs))"
  by (simp add: adjusting_def)

lemma adjust_Nil [simp]: "adjust s m cs = [] \<longleftrightarrow> cs = []"
  using same_peers [of s m cs] by (metis map_is_Nil_conv)

end

lemma identity_bump [simp]: "PeerIdentity (bump_score n c) = PeerIdentity c" "Score (bump_score n c) = Score c + n"
  by (simp_all add: bump_score.simps)

lemma explain_simps [simp]: "PeerIdentity (explain t c) = PeerIdentity c" "Score (explain t c) = Score c"
  by (simp_all add: explain_def)

lemma peers_update_first: "(\<And>c. PeerIdentity (f c) = PeerIdentity c) \<Longrightarrow> map PeerIdentity (update_first P f cs) = map PeerIdentity cs"
  by (induction cs) auto

lemma peers_jitter: "map PeerIdentity (fst (jitter e hi k cs)) = map PeerIdentity cs"
  by (induction cs arbitrary: k) (auto simp del: bump_score.simps split: prod.splits simp: split_beta)

lemma peers_rules: "map PeerIdentity (snd (fold (apply_rule rx m) rules (s, cs))) = map PeerIdentity cs"
proof (induction rules arbitrary: s cs)
  case (Cons rule rules)
  obtain s' cs' where r: "apply_rule rx m rule (s, cs) = (s', cs')" by (cases "apply_rule rx m rule (s, cs)")
  then have "map PeerIdentity cs' = map PeerIdentity cs"
    by (auto simp: apply_rule_def simp del: bump_score.simps split: if_splits)
  with Cons.IH [of s' cs'] show ?case by (simp add: r)
qed simp

interpretation lb: score_adjuster "\<lambda>(ps, s) m cs. snd (LoadBalance_handleOutgoing ps s m cs)"
  by unfold_locales (auto simp: LoadBalance_handleOutgoing_def Let_def peers_update_first simp del: bump_score.simps)

interpretation rnd: score_adjuster "\<lambda>(e, k, s) m cs. fst (snd (Randomize_handleOutgoing e k s m cs))"
  by unfold_locales (auto simp: Randomize_handleOutgoing_def peers_jitter)

interpretation ereg: score_adjuster "\<lambda>(rx, s) m cs. snd (Ereg_handleRouting rx s m cs)"
  by unfold_locales (auto simp: Ereg_handleRouting_def peers_rules)

interpretation redirect: score_adjuster "\<lambda>(now, s) m cs. snd (Redirect_handleRequest now s m cs)"
  by unfold_locales (auto simp: Redirect_handleRequest_def Let_def simp del: bump_score.simps split: option.splits)

definition score_extension :: "outHandlerEntry \<Rightarrow> bool" where
  "score_extension h \<longleftrightarrow> (\<exists>p n x. h = lb.adjusting p n x) \<or> (\<exists>p n x. h = rnd.adjusting p n x) \<or>
     (\<exists>p n x. h = ereg.adjusting p n (x :: string regexps \<times> string rtEreg)) \<or> (\<exists>p n x. h = redirect.adjusting p n x)"

lemma score_extension_keeps: "score_extension h \<Longrightarrow> keeps_candidates h"
  unfolding score_extension_def
  using lb.adjusting_keeps rnd.adjusting_keeps ereg.adjusting_keeps redirect.adjusting_keeps by blast

section \<open>A concrete router\<close>

text \<open>Two servers for the realm, the first of them with one request pending, and \<open>rt_load_balance\<close> registered.\<close>

definition balanced_router :: router where
  "balanced_router = sample_router\<lparr>appRoutes := Map.empty,
     outHandlers := [lb.adjusting 60 ''rt_load_balance'' ([sample_open\<lparr>diameterID := ''hss1''\<rparr>], \<lparr>rebalanced = 0\<rparr>)]\<rparr>"

lemma balanced_candidates: "buildCandidates balanced_router w sample_request =
    [\<lparr>PeerIdentity = ''hss1'', Score = 100, Reason = ''realm route for home''\<rparr>,
     \<lparr>PeerIdentity = ''hss2'', Score = 100, Reason = ''realm route for home''\<rparr>]"
  by (simp add: balanced_router_def buildCandidates_def sample_realm target_realm_def realm_candidates_def sample_router_fields
      sample_request_fields entries_def Let_def)

lemma balanced_pending: "pending_of [sample_open\<lparr>diameterID := ''hss1''\<rparr>] i = (if i = ''hss1'' then 1 else 0)"
  by (simp add: pending_of_def relayPeerIdentity_def PendingCount_def sample_open_def)

lemma balanced_handlers: "apply_out_handlers (outHandlers balanced_router) sample_request (buildCandidates balanced_router w sample_request) =
    (sample_request, Inr [\<lparr>PeerIdentity = ''hss1'', Score = 100, Reason = ''realm route for home''\<rparr>,
       \<lparr>PeerIdentity = ''hss2'', Score = 101, Reason = ''rt_load_balance: least-loaded peer''\<rparr>])"
proof -
  have "outHandlers balanced_router = [lb.adjusting 60 ''rt_load_balance'' ([sample_open\<lparr>diameterID := ''hss1''\<rparr>], \<lparr>rebalanced = 0\<rparr>)]"
    by (simp add: balanced_router_def)
  then show ?thesis
    by (simp add: balanced_candidates lb.adjusting_handler)
      (simp add: LoadBalance_handleOutgoing_def Let_def boosted_def least_pending_def top_score_def balanced_pending explain_def)
qed

lemma balanced_out: "\<exists>m' w'. RouteOut sample_renv balanced_router sample_world sample_request = (m', Inr ''hss2'', w')"
  using balanced_handlers [of sample_world]
  by (auto simp: RouteOut_def RouteOutWithExclusion_def balanced_candidates by_score_def tier_choices_def split_beta
      sample_world_def sample_renv_def)

section \<open>No route is added or lost\<close>

text \<open>
  Whatever score extensions are registered and in whatever state they are, the router finds a next hop exactly when one of the
  candidates it built is not excluded, and the next hop is one of those: they neither add nor lose a route.
\<close>

theorem score_extensions_keep_routes:
  assumes "valid_rand e" and "list_all score_extension (outHandlers r)"
  shows "case RouteOutWithExclusion e r w m exclude of
      (_, Inr x, _) \<Rightarrow> x \<in> PeerIdentity ` set (buildCandidates r w m) \<and> x \<notin> set exclude
    | (_, Inl err, _) \<Rightarrow> PeerIdentity ` set (buildCandidates r w m) \<subseteq> set exclude \<and> err \<in> {NoRoutesAvailable, NoRoutesAfterExclusions}"
proof (cases "buildCandidates r w m = []")
  case True
  then show ?thesis by (simp add: RouteOutWithExclusion_def)
next
  case False
  have k: "list_all keeps_candidates (outHandlers r)" using assms(2) score_extension_keeps by (auto simp: list_all_iff)
  obtain cs where cs: "apply_out_handlers (outHandlers r) m (buildCandidates r w m) = (m, Inr cs)"
      "map PeerIdentity cs = map PeerIdentity (buildCandidates r w m)"
    using keeps_candidates_chain [OF k False] by blast
  have ids: "PeerIdentity ` set (by_score cs) = PeerIdentity ` set (buildCandidates r w m)"
    using cs(2) by (metis set_by_score set_map)
  show ?thesis
  proof (cases "pick_tier e (by_score cs) exclude (randCalls w)")
    case None
    then have "PeerIdentity ` set (by_score cs) \<subseteq> set exclude" by (auto simp: pick_tier_None)
    with None False cs ids show ?thesis by (simp add: RouteOutWithExclusion_def)
  next
    case (Some p)
    obtain x k' where p: "p = (x, k')" by (cases p)
    have "best (by_score cs) exclude x" by (rule pick_tier_best [OF by_score_sorted assms(1) Some [unfolded p]])
    then have "x \<in> PeerIdentity ` set (by_score cs)" "x \<notin> set exclude" by (auto simp: best_def)
    with Some p False cs ids show ?thesis by (simp add: RouteOutWithExclusion_def split_beta)
  qed
qed

theorem score_extensions_keep_routes_witness:
  "case RouteOutWithExclusion sample_renv balanced_router sample_world sample_request [''hss2''] of
      (_, Inr x, _) \<Rightarrow> x \<in> {''hss1'', ''hss2''} - {''hss2''}
    | (_, Inl err, _) \<Rightarrow> {''hss1'', ''hss2''} \<subseteq> {''hss2''} \<and> err \<in> {NoRoutesAvailable, NoRoutesAfterExclusions}"
proof -
  have "list_all score_extension (outHandlers balanced_router)"
    by (simp add: balanced_router_def score_extension_def) blast
  from score_extensions_keep_routes [OF sample_valid_rand this, of sample_world sample_request "[''hss2'']"]
  show ?thesis by (auto simp: balanced_candidates split: prod.splits sum.splits)
qed

section \<open>The least loaded peer\<close>

lemma top_fold:
  "m \<le> foldl (\<lambda>m c. if m < Score c then Score c else m) m cs \<and>
   (\<forall>c \<in> set cs. Score c \<le> foldl (\<lambda>m c. if m < Score c then Score c else m) m cs) \<and>
   foldl (\<lambda>m c. if m < Score c then Score c else m) m cs \<in> insert m (Score ` set cs)"
proof (induction cs arbitrary: m)
  case (Cons c cs)
  show ?case using Cons.IH [of "if m < Score c then Score c else m"] by (cases "m < Score c") auto
qed simp

lemma top_score_upper: "c \<in> set cs \<Longrightarrow> Score c \<le> top_score cs"
  using top_fold [of "Score (hd cs)" "tl cs"] by (cases cs) (auto simp: top_score_def)

lemma top_score_attained: "cs \<noteq> [] \<Longrightarrow> \<exists>c \<in> set cs. Score c = top_score cs"
  using top_fold [of "Score (hd cs)" "tl cs"] by (cases cs) (auto simp: top_score_def)

lemma least_fold:
  fixes f :: "'a \<Rightarrow> nat" and P :: "'a \<Rightarrow> bool"
  defines "step \<equiv> \<lambda>low c. if P c then (let pc = int (f c) in if low < 0 \<or> pc < low then pc else low) else low"
  shows "0 \<le> low \<Longrightarrow> 0 \<le> foldl step low cs \<and> foldl step low cs \<le> low \<and> (\<forall>c \<in> set cs. P c \<longrightarrow> foldl step low cs \<le> int (f c)) \<and>
      (foldl step low cs = low \<or> (\<exists>c \<in> set cs. P c \<and> int (f c) = foldl step low cs))"
    and "low < 0 \<Longrightarrow> c \<in> set cs \<Longrightarrow> P c \<Longrightarrow> (\<forall>c \<in> set cs. P c \<longrightarrow> foldl step low cs \<le> int (f c)) \<and>
      (\<exists>c \<in> set cs. P c \<and> int (f c) = foldl step low cs)"
proof -
  show nonneg: "0 \<le> low \<Longrightarrow> 0 \<le> foldl step low cs \<and> foldl step low cs \<le> low \<and> (\<forall>c \<in> set cs. P c \<longrightarrow> foldl step low cs \<le> int (f c)) \<and>
      (foldl step low cs = low \<or> (\<exists>c \<in> set cs. P c \<and> int (f c) = foldl step low cs))" for low cs
  proof (induction cs arbitrary: low)
    case (Cons d ds)
    have "0 \<le> step low d" "step low d \<le> low" "P d \<longrightarrow> step low d \<le> int (f d)" "step low d = low \<or> P d \<and> step low d = int (f d)"
      using Cons.prems by (auto simp: step_def Let_def)
    with Cons.IH [of "step low d"] show ?case by force
  qed simp
  show "low < 0 \<Longrightarrow> c \<in> set cs \<Longrightarrow> P c \<Longrightarrow> (\<forall>c \<in> set cs. P c \<longrightarrow> foldl step low cs \<le> int (f c)) \<and>
      (\<exists>c \<in> set cs. P c \<and> int (f c) = foldl step low cs)"
  proof (induction cs)
    case (Cons d ds)
    show ?case
    proof (cases "P d")
      case True
      then have "step low d = int (f d)" using Cons.prems(1) by (simp add: step_def)
      with nonneg [of "int (f d)" ds] True show ?thesis by force
    next
      case False
      then have "step low d = low" "c \<in> set ds" using Cons.prems by (auto simp: step_def)
      with Cons.IH Cons.prems False show ?thesis by auto
    qed
  qed simp
qed

lemma least_pending_attained:
  assumes "cs \<noteq> []"
  shows "\<exists>c \<in> set cs. boosted ps cs c"
    and "boosted ps cs c \<Longrightarrow> d \<in> set cs \<Longrightarrow> Score d = top_score cs \<Longrightarrow>
      pending_of ps (PeerIdentity c) \<le> pending_of ps (PeerIdentity d)"
proof -
  obtain t where t: "t \<in> set cs" "Score t = top_score cs" using top_score_attained [OF assms] by blast
  note l = least_fold(2) [of "-1" t cs "\<lambda>c. Score c = top_score cs" "\<lambda>c. pending_of ps (PeerIdentity c)",
      folded least_pending_def, OF _ t]
  show "\<exists>c \<in> set cs. boosted ps cs c" using l unfolding boosted_def by auto
  assume c: "boosted ps cs c" "d \<in> set cs" "Score d = top_score cs"
  then have "int (pending_of ps (PeerIdentity c)) \<le> int (pending_of ps (PeerIdentity d))" using l by (auto simp: boosted_def)
  then show "pending_of ps (PeerIdentity c) \<le> pending_of ps (PeerIdentity d)" by simp
qed

lemma update_first_split:
  assumes "\<exists>c \<in> set cs. P c"
  obtains as c bs where "cs = as @ c # bs" "P c" "\<forall>d \<in> set as. \<not> P d" "update_first P f cs = as @ f c # bs"
proof -
  obtain as c bs where s: "cs = as @ c # bs" "P c" "\<forall>d \<in> set as. \<not> P d" using split_list_first_prop [OF assms] by blast
  have "\<forall>d \<in> set as. \<not> P d \<Longrightarrow> update_first P f (as @ c # bs) = as @ f c # bs" using s(2) by (induction as) auto
  with s that show thesis by blast
qed

text \<open>After the handler exactly one candidate is on top: the first of the least loaded of the old top tier.\<close>

lemma LoadBalance_result:
  assumes "1 < length cs"
  obtains as c bs where "cs = as @ c # bs" "boosted ps cs c"
    "snd (LoadBalance_handleOutgoing ps s m cs) = as @ explain ''rt_load_balance: least-loaded peer'' (bump_score 1 c) # bs"
proof -
  have "cs \<noteq> []" using assms by auto
  then have "\<exists>c \<in> set cs. boosted ps cs c" by (rule least_pending_attained)
  then obtain as c bs where "cs = as @ c # bs" "boosted ps cs c"
      "update_first (boosted ps cs) (\<lambda>c. explain ''rt_load_balance: least-loaded peer'' (bump_score 1 c)) cs =
       as @ explain ''rt_load_balance: least-loaded peer'' (bump_score 1 c) # bs"
    by (rule update_first_split) 
  with assms show thesis by (intro that [of as c bs]) (auto simp: LoadBalance_handleOutgoing_def Let_def)
qed

lemma apply_out_handlers_append:
  "apply_out_handlers (hs @ ks) m cs = (case apply_out_handlers hs m cs of (m, Inl err) \<Rightarrow> (m, Inl err) | (m, Inr cs) \<Rightarrow> apply_out_handlers ks m cs)"
  by (induction hs m cs rule: apply_out_handlers.induct) (simp_all split: prod.split sum.split)

lemma least_loaded_is_best:
  assumes "out = snd (LoadBalance_handleOutgoing ps s m cs)" and "best out [] x"
  shows "\<exists>c \<in> set cs. PeerIdentity c = x \<and> (\<forall>d \<in> set cs. Score d \<le> Score c \<and>
      (Score d = Score c \<longrightarrow> pending_of ps x \<le> pending_of ps (PeerIdentity d)))"
proof -
  obtain d where d: "d \<in> set out" "PeerIdentity d = x" "\<forall>c \<in> set out. Score c \<le> Score d" using assms(2) by (auto simp: best_def)
  show ?thesis
  proof (cases "length cs \<le> 1")
    case True
    then have "out = cs" by (simp add: assms(1) LoadBalance_handleOutgoing_def)
    with True d show ?thesis by (cases cs) auto
  next
    case False
    then obtain as c bs where c: "cs = as @ c # bs" "boosted ps cs c"
        "out = as @ explain ''rt_load_balance: least-loaded peer'' (bump_score 1 c) # bs"
      using LoadBalance_result [of cs ps s m] unfolding assms(1) by auto
    have top: "Score c = top_score cs" using c(2) by (simp add: boosted_def)
    have "Score c + 1 \<le> Score d" using d(3) unfolding c(3) by simp
    moreover have "Score d \<le> top_score cs" if "d \<in> set as \<union> set bs" using that c(1) by (intro top_score_upper) auto
    ultimately have "d = explain ''rt_load_balance: least-loaded peer'' (bump_score 1 c)" using d(1) top unfolding c(3) by auto
    then have x: "PeerIdentity c = x" using d(2) by simp
    have cs: "cs \<noteq> []" "c \<in> set cs" using c(1) by simp_all
    show ?thesis
      using x cs(2) top top_score_upper [of _ cs] least_pending_attained(2) [OF cs(1) c(2)] by (intro bexI [of _ c]) auto
  qed
qed

text \<open>
  C33: when \<open>rt_load_balance\<close> is the last out-handler, the next hop of a first attempt is a candidate of the best score among those the
  earlier handlers leave, and no other candidate with that score has fewer requests pending. (A handler that runs later may change the
  scores again, and a retry may have to do without the peer that got the bonus.)
\<close>

theorem load_balance_picks_least_loaded:
  assumes "valid_rand e" and "outHandlers r = hs @ [lb.adjusting p n (ps, s)]"
    and "apply_out_handlers hs m (buildCandidates r w m) = (m0, Inr cs)" and "RouteOut e r w m = (m', Inr x, w')"
  shows "\<exists>c \<in> set cs. PeerIdentity c = x \<and> (\<forall>d \<in> set cs. Score d \<le> Score c \<and>
      (Score d = Score c \<longrightarrow> pending_of ps x \<le> pending_of ps (PeerIdentity d)))"
proof -
  obtain m1 out where out: "apply_out_handlers (outHandlers r) m (buildCandidates r w m) = (m1, Inr out)" "best out [] x"
    using selected_is_best [OF assms(1) assms(4) [unfolded RouteOut_def]] by blast
  have out_eq: "out = snd (LoadBalance_handleOutgoing ps s m0 cs)"
    using out(1) by (simp add: assms(2) apply_out_handlers_append assms(3) lb.adjusting_handler split: if_splits) (blast dest: sym)
  show ?thesis
    by (rule least_loaded_is_best [OF out_eq out(2)])
qed

theorem load_balance_picks_least_loaded_witness:
  "(\<exists>m' w'. RouteOut sample_renv balanced_router sample_world sample_request = (m', Inr ''hss2'', w')) \<and>
   (\<exists>c \<in> set (buildCandidates balanced_router sample_world sample_request). PeerIdentity c = ''hss2'' \<and>
     (\<forall>d \<in> set (buildCandidates balanced_router sample_world sample_request). Score d \<le> Score c \<and> (Score d = Score c \<longrightarrow>
       pending_of [sample_open\<lparr>diameterID := ''hss1''\<rparr>] ''hss2'' \<le> pending_of [sample_open\<lparr>diameterID := ''hss1''\<rparr>] (PeerIdentity d))))"
proof -
  obtain m' w' where o: "RouteOut sample_renv balanced_router sample_world sample_request = (m', Inr ''hss2'', w')"
    using balanced_out by blast
  have "outHandlers balanced_router = [] @ [lb.adjusting 60 ''rt_load_balance'' ([sample_open\<lparr>diameterID := ''hss1''\<rparr>], \<lparr>rebalanced = 0\<rparr>)]"
    by (simp add: balanced_router_def)
  from load_balance_picks_least_loaded [OF sample_valid_rand this apply_out_handlers.simps(1) o] o show ?thesis by blast
qed

text \<open>
  \<open>rt_randomize\<close> runs after \<open>rt_load_balance\<close> and never changes what that has decided.
\<close>

theorem randomize_idle_after_load_balance:
  "Randomize_handleOutgoing e k s' m (snd (LoadBalance_handleOutgoing ps s m cs)) =
     (s', snd (LoadBalance_handleOutgoing ps s m cs), k)"
proof (cases "length cs \<le> 1")
  case True
  then show ?thesis by (simp add: LoadBalance_handleOutgoing_def Randomize_handleOutgoing_def)
next
  case False
  obtain as c bs where c: "cs = as @ c # bs" "boosted ps cs c"
      "snd (LoadBalance_handleOutgoing ps s m cs) = as @ explain ''rt_load_balance: least-loaded peer'' (bump_score 1 c) # bs" (is "_ = ?out")
    using LoadBalance_result [of cs ps s m] False by auto
  have old: "Score d < Score c + 1" if "d \<in> set as \<union> set bs" for d
    using that top_score_upper [of d cs] c(1,2) by (auto simp: boosted_def)
  have "top_score ?out = Score c + 1"
  proof (rule antisym)
    show "Score c + 1 \<le> top_score ?out" using top_score_upper [of "explain ''rt_load_balance: least-loaded peer'' (bump_score 1 c)" ?out] by simp
    show "top_score ?out \<le> Score c + 1" using top_score_attained [of ?out] old by fastforce
  qed
  moreover have "filter (\<lambda>d. Score d = Score c + 1) as = []" "filter (\<lambda>d. Score d = Score c + 1) bs = []"
    using old by (force simp: filter_empty_conv)+
  ultimately show ?thesis unfolding c(3) by (simp add: Randomize_handleOutgoing_def)
qed

section \<open>\<open>rt_ereg\<close>: the sum of the rules\<close>

definition boost_of :: "'p regexps \<Rightarrow> message \<Rightarrow> 'p eregRule list \<Rightarrow> DiamID \<Rightarrow> int" where
  "boost_of rx m rules x = (\<Sum>rule\<leftarrow>filter (\<lambda>rule. rule_applies rx m rule \<and> erServer rule = x) rules. erScore rule)"

lemma scores_rules: "length (snd (fold (apply_rule rx m) rules (s, cs))) = length cs \<and>
    (\<forall>i < length cs. Score (snd (fold (apply_rule rx m) rules (s, cs)) ! i) = Score (cs ! i) + boost_of rx m rules (PeerIdentity (cs ! i)))"
proof (induction rules arbitrary: s cs)
  case (Cons rule rules)
  obtain s' cs' where r: "apply_rule rx m rule (s, cs) = (s', cs')" by (cases "apply_rule rx m rule (s, cs)")
  then have "length cs' = length cs" "\<forall>i < length cs. PeerIdentity (cs' ! i) = PeerIdentity (cs ! i) \<and> Score (cs' ! i) = Score (cs ! i) +
      (if rule_applies rx m rule \<and> erServer rule = PeerIdentity (cs ! i) then erScore rule else 0)"
    by (auto simp: apply_rule_def simp del: bump_score.simps split: if_splits)
  with Cons.IH [of s' cs'] show ?case by (simp add: r boost_of_def)
qed (simp add: boost_of_def)

text \<open>
  \<open>rt_ereg\<close> adds to the score of each candidate the scores of all the rules that name it and match the request, whatever
  their order, and changes nothing for an answer.
\<close>

theorem ereg_adds_matching_rules:
  "map (\<lambda>c. (PeerIdentity c, Score c)) (snd (Ereg_handleRouting rx s m cs)) =
     map (\<lambda>c. (PeerIdentity c, Score c + (if IsRequest m then boost_of rx m (erRules s) (PeerIdentity c) else 0))) cs"
proof (rule nth_equalityI)
  have p: "map PeerIdentity (snd (Ereg_handleRouting rx s m cs)) = map PeerIdentity cs"
    using ereg.same_peers [of "(rx, s)" m cs] by simp
  then have l: "length (snd (Ereg_handleRouting rx s m cs)) = length cs" by (metis length_map)
  then show "length (map (\<lambda>c. (PeerIdentity c, Score c)) (snd (Ereg_handleRouting rx s m cs))) =
      length (map (\<lambda>c. (PeerIdentity c, Score c + (if IsRequest m then boost_of rx m (erRules s) (PeerIdentity c) else 0))) cs)" by simp
  fix i assume "i < length (map (\<lambda>c. (PeerIdentity c, Score c)) (snd (Ereg_handleRouting rx s m cs)))"
  then have i: "i < length cs" using l by simp
  have "PeerIdentity (snd (Ereg_handleRouting rx s m cs) ! i) = PeerIdentity (cs ! i)" using p i l by (metis nth_map)
  moreover have "Score (snd (Ereg_handleRouting rx s m cs) ! i) =
      Score (cs ! i) + (if IsRequest m then boost_of rx m (erRules s) (PeerIdentity (cs ! i)) else 0)"
    using scores_rules [of rx m "erRules s" s cs] i by (simp add: Ereg_handleRouting_def)
  ultimately show "map (\<lambda>c. (PeerIdentity c, Score c)) (snd (Ereg_handleRouting rx s m cs)) ! i =
      map (\<lambda>c. (PeerIdentity c, Score c + (if IsRequest m then boost_of rx m (erRules s) (PeerIdentity c) else 0))) cs ! i"
    using i l by simp
qed

text \<open>Loading only appends, and does not look at the rules that are already there.\<close>

lemma parse_rules_appends: "\<exists>rs. \<forall>s. parse_rules rx dict ys s = (fst (parse_rules rx dict ys s), s\<lparr>erRules := erRules s @ rs\<rparr>)"
proof (induction ys)
  case Nil
  show ?case by (rule exI [of _ "[]"]) simp
next
  case (Cons y ys)
  then obtain rs where rs: "\<And>s. parse_rules rx dict ys s = (fst (parse_rules rx dict ys s), s\<lparr>erRules := erRules s @ rs\<rparr>)" by blast
  show ?case
  proof (cases "\<exists>cfg. y = YMap cfg")
    case False
    then show ?thesis using rs by (intro exI [of _ rs] allI) (cases y; simp)
  next
    case True
    then obtain cfg where y: "y = YMap cfg" by blast
    show ?thesis
    proof (cases "parse_rule rx dict cfg")
      case (Inl e)
      with y show ?thesis by (intro exI [of _ "[]"] allI) simp
    next
      case (Inr rule)
      have "parse_rules rx dict (y # ys) s = (fst (parse_rules rx dict (y # ys) s), s\<lparr>erRules := erRules s @ rule # rs\<rparr>)" for s
        using rs [of "s\<lparr>erRules := erRules s @ [rule]\<rparr>"] Inr y by (simp add: prod_eq_iff)
      then show ?thesis by blast
    qed
  qed
qed

lemma Ereg_Init_appends: "\<exists>rs. \<forall>s. snd (Ereg_Init rx dict cfg s) = s\<lparr>erRules := erRules s @ rs\<rparr>"
proof (cases "\<exists>ys. map_of cfg ''rules'' = Some (YSeq ys)")
  case True
  then obtain ys where ys: "map_of cfg ''rules'' = Some (YSeq ys)" by blast
  obtain rs where "\<forall>s. parse_rules rx dict ys s = (fst (parse_rules rx dict ys s), s\<lparr>erRules := erRules s @ rs\<rparr>)"
    using parse_rules_appends by blast
  then have "\<forall>s. snd (parse_rules rx dict ys s) = s\<lparr>erRules := erRules s @ rs\<rparr>" by (metis snd_conv)
  then show ?thesis using ys by (auto simp: Ereg_Init_def)
next
  case False
  then have "snd (Ereg_Init rx dict cfg s) = s" for s by (auto simp: Ereg_Init_def split: option.splits yaml_value.splits)
  then show ?thesis by (intro exI [of _ "[]"]) simp
qed

text \<open>
  Stopping \<open>rt_ereg\<close> and starting it again with the same configuration adds every rule a second time, so every boost
  counts double from then on.
\<close>

theorem ereg_restart_doubles_boosts:
  "boost_of rx m (erRules (snd (Ereg_Init rx dict cfg (Ereg_Stop (snd (Ereg_Init rx dict cfg \<lparr>erRules = [], erMatched = n\<rparr>)))))) x =
     2 * boost_of rx m (erRules (snd (Ereg_Init rx dict cfg \<lparr>erRules = [], erMatched = n\<rparr>))) x"
proof -
  obtain rs where "\<forall>s. snd (Ereg_Init rx dict cfg s) = s\<lparr>erRules := erRules s @ rs\<rparr>" using Ereg_Init_appends by blast
  then show ?thesis by (simp add: Ereg_Stop_def boost_of_def)
qed

section \<open>\<open>rt_redirect\<close>: the cache\<close>

definition look_redirect :: "int \<Rightarrow> rtRedirect \<Rightarrow> redirectKey \<Rightarrow> DiamID list option" where
  "look_redirect now s k = Option.bind (map_of (rdCache s) k) (\<lambda>x. if rdExpiresAt x < now then None else Some (redirectHosts x))"

definition one_entry_per_key :: "rtRedirect \<Rightarrow> bool" where
  "one_entry_per_key s \<longleftrightarrow> distinct (map fst (rdCache s))"

lemma evictExpired_simps:
  "one_entry_per_key s \<Longrightarrow> one_entry_per_key (evictExpired now s)" "cacheTTL (evictExpired now s) = cacheTTL s"
  by (auto simp: one_entry_per_key_def evictExpired_def distinct_map_filter)

lemma map_of_filter_value: "distinct (map fst xs) \<Longrightarrow> map_of (filter (\<lambda>(k, x). P x) xs) k =
    (case map_of xs k of None \<Rightarrow> None | Some x \<Rightarrow> if P x then Some x else None)"
proof (induction xs)
  case (Cons x xs)
  obtain i y where x: "x = (i, y)" by (cases x)
  have "map_of xs i = None" using Cons.prems by (simp add: x map_of_eq_None_iff)
  then show ?case using Cons by (cases "i = k") (simp_all add: x)
qed simp

lemma evictExpired_map_of:
  assumes "one_entry_per_key s"
  shows "map_of (rdCache (evictExpired now s)) k =
    (case map_of (rdCache s) k of None \<Rightarrow> None | Some x \<Rightarrow> if rdExpiresAt x < now then None else Some x)"
  using assms by (simp add: one_entry_per_key_def evictExpired_def map_of_filter_value split: option.split)

lemma store_redirect_simps:
  "one_entry_per_key s \<Longrightarrow> one_entry_per_key (store_redirect now ttl k v s)" "cacheTTL (store_redirect now ttl k v s) = cacheTTL s"
  by (auto simp: store_redirect_def Let_def evictExpired_simps) (auto simp: one_entry_per_key_def evictExpired_def distinct_update distinct_map_filter)

lemma look_store_redirect:
  assumes "one_entry_per_key s"
  shows "look_redirect now' (store_redirect now ttl k v s) k = (if now + ttl < now' then None else Some v)"
    and "k' \<noteq> k \<Longrightarrow> look_redirect now' (store_redirect now ttl k v s) k' \<in> {None, look_redirect now' s k'}"
    and "k' \<noteq> k \<Longrightarrow> now \<le> now' \<Longrightarrow> look_redirect now' (store_redirect now ttl k v s) k' = look_redirect now' s k'"
  using assms by (auto simp: look_redirect_def store_redirect_def Let_def update_conv' evictExpired_map_of split: option.splits)

interpretation rdstore: expiring_store look_redirect "\<lambda>now k v s. store_redirect now (cacheTTL s) k v s" id cacheTTL one_entry_per_key
  by unfold_locales (use look_store_redirect store_redirect_simps in auto)

text \<open>An answer is stored when it carries a redirect indication and names somebody.\<close>

definition stores_redirect :: "message \<Rightarrow> bool" where
  "stores_redirect a \<longleftrightarrow> \<not> IsRequest a \<and> GetResultCode a = Some ResultRedirectIndication \<and> redirect_hosts a \<noteq> []"

lemma look_counters [simp]:
  "look_redirect now (s\<lparr>redirectsStored := n\<rparr>) k = look_redirect now s k" "look_redirect now (s\<lparr>cacheMisses := n\<rparr>) k = look_redirect now s k"
  by (simp_all add: look_redirect_def)

lemma Redirect_handleRequest_look:
  "snd (Redirect_handleRequest now s m cs) = (case (if IsRequest m then look_redirect now s (redirect_key m) else None) of None \<Rightarrow> cs
     | Some hs \<Rightarrow> map (\<lambda>c. if PeerIdentity c \<in> set hs then explain (redirect_reason (redirect_key m)) (bump_score (scoreBoost s) c) else c) cs)"
  by (simp add: Redirect_handleRequest_def look_redirect_def Let_def del: bump_score.simps split: option.splits)

lemma one_entry_per_key_kept:
  "one_entry_per_key s \<Longrightarrow> one_entry_per_key (Redirect_handleAnswer now s a)"
  "one_entry_per_key s \<Longrightarrow> one_entry_per_key (fst (Redirect_handleRequest now s m cs))"
  "one_entry_per_key (Redirect_Init cfg)"
  using store_redirect_simps(1) [of s]
  by (auto simp: Redirect_handleAnswer_def Redirect_handleRequest_def Redirect_Init_def Let_def one_entry_per_key_def
      distinct_delete split: option.split)

text \<open>
  C34: the cache refines a map from application and realm to hosts: a redirect answer overwrites its own key, until the time it
  carries or the default one has passed, and disturbs no other; other answers change nothing. In particular a full cache
  gives up no live entry, so \<open>max_entries\<close> does not bound it.
\<close>

theorem redirect_cache_refines_map:
  assumes "one_entry_per_key s" and "now \<le> now'"
  shows "look_redirect now' (Redirect_handleAnswer now s a) = (if stores_redirect a
      then (look_redirect now' s)(redirect_key a := if now + redirect_ttl s a < now' then None else Some (redirect_hosts a))
      else look_redirect now' s)"
  using look_store_redirect(1,3) [OF assms(1)] assms(2)
  by (auto simp: fun_eq_iff Redirect_handleAnswer_def stores_redirect_def Let_def)

text \<open>
  An answer without a Destination-Realm, which is what the protocol has and what \<open>NewAnswer\<close> makes, changes no later
  decision about a request that has one: the redirect it reports is never followed.
\<close>

theorem redirect_without_realm_is_never_followed:
  assumes "one_entry_per_key s" and "now \<le> now'" and "GetDestinationRealm a = None" and "GetDestinationRealm m = Some d" and "d \<noteq> ''''"
  shows "snd (Redirect_handleRequest now' (Redirect_handleAnswer now s a) m cs) = snd (Redirect_handleRequest now' s m cs)"
proof -
  have "redirect_key m \<noteq> redirect_key a" using assms(3-5) by (auto simp: redirect_key_def)
  then have "look_redirect now' (Redirect_handleAnswer now s a) (redirect_key m) = look_redirect now' s (redirect_key m)"
    using look_store_redirect(3) [OF assms(1) _ assms(2)] by (simp add: Redirect_handleAnswer_def Let_def)
  moreover have "scoreBoost (Redirect_handleAnswer now s a) = scoreBoost s"
    by (simp add: Redirect_handleAnswer_def store_redirect_def evictExpired_def Let_def)
  ultimately show ?thesis by (simp only: Redirect_handleRequest_look)
qed

text \<open>A redirect answer with two hosts, as a redirect agent sends it; a request of the same application with a realm.\<close>

definition redirect_answer :: message where
  "redirect_answer = AddAVP (AddAVP (NewAnswer sample_request)
     (NewUnsigned32AVP AVPCodeResultCode AVPFlagMandatory ResultRedirectIndication))
     (NewDiameterIdentityAVP AVPCodeRedirectHost AVPFlagMandatory ''hss2'')"

definition redirect_cached :: rtRedirect where
  "redirect_cached = (Redirect_Init [])\<lparr>rdCache :=
     [(\<lparr>rkApp = 4, rkRealm = ''home''\<rparr>, \<lparr>redirectHosts = [''hss1''], rdExpiresAt = 5000\<rparr>)]\<rparr>"

theorem redirect_cache_refines_map_witness:
  "look_redirect 20 (Redirect_handleAnswer 10 redirect_cached redirect_answer) = (if stores_redirect redirect_answer
      then (look_redirect 20 redirect_cached)(redirect_key redirect_answer :=
        if 10 + redirect_ttl redirect_cached redirect_answer < 20 then None else Some (redirect_hosts redirect_answer))
      else look_redirect 20 redirect_cached)"
  by (rule redirect_cache_refines_map) (simp_all add: one_entry_per_key_def redirect_cached_def)

lemma redirect_answer_simps:
  "GetDestinationRealm redirect_answer = None" "stores_redirect redirect_answer"
  by (simp_all add: redirect_answer_def stores_redirect_def GetDestinationRealm_def identity_of_def FindAVP_def avp_matches_def
      GetResultCode_def unsigned32_of_def redirect_hosts_def FindAllAVPs_def)

theorem redirect_without_realm_is_never_followed_witness:
  "stores_redirect redirect_answer \<and>
   snd (Redirect_handleRequest 20 (Redirect_handleAnswer 10 redirect_cached redirect_answer) sample_request []) =
   snd (Redirect_handleRequest 20 redirect_cached sample_request [])"
  using redirect_answer_simps(2) redirect_without_realm_is_never_followed
    [OF _ _ redirect_answer_simps(1) sample_realm(2), of redirect_cached 10 20 "[]"]
  by (simp add: one_entry_per_key_def redirect_cached_def)

end
