(* ===== verification/Rt_Headers.thy ===== *)
theory Rt_Headers
  imports Router_Properties Ext_Common Diam_Stream
begin

text \<open>
  The extensions that look at or change single AVPs of a request on its way in and out: \<open>rt_deny_by_size\<close>, \<open>rt_ignore_dh\<close> and
  \<open>rt_hide_oh\<close>. Their state is counters and one setting; each handler is a function of it and the message.
\<close>

section \<open>\<open>rt_deny_by_size\<close>\<close>

record rtDenyBySize =
  dsMaxSize :: int
  dsRejected :: u64

definition DenyBySize_Init :: "ext_config \<Rightarrow> rtDenyBySize \<Rightarrow> rtDenyBySize" where
  "DenyBySize_Init cfg s = s\<lparr>dsMaxSize := option_or as_int cfg ''maximum_size'' 65536\<rparr>"

definition DenyBySize_Reconfigure :: "ext_config \<Rightarrow> rtDenyBySize \<Rightarrow> rtDenyBySize" where
  "DenyBySize_Reconfigure cfg s = s\<lparr>dsMaxSize := option_or as_int cfg ''maximum_size'' (dsMaxSize s)\<rparr>"

definition size_text :: "nat \<Rightarrow> int \<Rightarrow> string" where
  "size_text n limit = ''message size '' @ decimal (int n) @ '' exceeds maximum '' @ decimal limit"

definition DenyBySize_handleRouting :: "rtDenyBySize \<Rightarrow> message \<Rightarrow> Route list \<Rightarrow> rtDenyBySize \<times> (route_error + Route list)" where
  "DenyBySize_handleRouting s m cs =
     (if \<not> IsRequest m then (s, Inr cs)
      else case Encode m of
        Inl _ \<Rightarrow> (s, Inr cs)
      | Inr data \<Rightarrow> if dsMaxSize s < int (length data)
                    then (s\<lparr>dsRejected := dsRejected s + 1\<rparr>, Inl (HandlerError (size_text (length data) (dsMaxSize s))))
                    else (s, Inr cs))"

text \<open>The entry \<open>Init\<close> registers, with the state its handler finds.\<close>

definition deny_entry :: "rtDenyBySize \<Rightarrow> inHandlerEntry" where
  "deny_entry s = \<lparr>iPriority = 10, iHandler = \<lambda>p m cs. (m, snd (DenyBySize_handleRouting s m cs)),
     iName = ''rt_deny_by_size'', iOwner = ''rt_deny_by_size''\<rparr>"

section \<open>\<open>rt_ignore_dh\<close>\<close>

record rtIgnoreDH =
  headersDropped :: u64
  headersRestored :: u64

definition ietf_avp :: "AVPCode \<Rightarrow> avp \<Rightarrow> bool" where
  "ietf_avp code a \<longleftrightarrow> aCode a = code \<and> aVendorID a = 0"

definition ignore_dh_marker :: string where
  "ignore_dh_marker = ''rt_ignore_dh:dest-host''"

definition stashed_host :: "DiamID \<Rightarrow> avp" where
  "stashed_host h = NewGroupedAVP AVPCodeProxyInfo AVPFlagMandatory 0
     [NewDiameterIdentityAVP AVPCodeProxyHost AVPFlagMandatory h,
      NewUTF8StringAVP AVPCodeProxyState AVPFlagMandatory ignore_dh_marker]"

definition IgnoreDH_handleRouting :: "rtIgnoreDH \<Rightarrow> message \<Rightarrow> rtIgnoreDH \<times> message" where
  "IgnoreDH_handleRouting s m =
     (if \<not> IsRequest m then (s, m)
      else case List.find (ietf_avp AVPCodeDestinationHost) (AVPs m) of
        None \<Rightarrow> (s, m)
      | Some a \<Rightarrow> (let m = AddAVP m (stashed_host (GetDiameterIdentity a)) in
          (s\<lparr>headersDropped := headersDropped s + 1\<rparr>,
           m\<lparr>AVPs := fst (remove_first (ietf_avp AVPCodeDestinationHost) (AVPs m))\<rparr>)))"

definition marked :: "string \<Rightarrow> avp \<Rightarrow> bool" where
  "marked marker a \<longleftrightarrow> (case FindChild a AVPCodeProxyState 0 of None \<Rightarrow> False | Some st \<Rightarrow> GetUTF8String st = marker)"

definition stash :: "avp \<Rightarrow> bool" where
  "stash a \<longleftrightarrow> aCode a = AVPCodeProxyInfo \<and> IsGrouped a \<and> marked ignore_dh_marker a"

definition IgnoreDH_handleOutgoing :: "rtIgnoreDH \<Rightarrow> message \<Rightarrow> rtIgnoreDH \<times> message" where
  "IgnoreDH_handleOutgoing s m =
     (if \<not> IsRequest m then (s, m)
      else if GetDestinationHost m \<noteq> None then (s, m)
      else case List.find stash (AVPs m) of
        None \<Rightarrow> (s, m)
      | Some x \<Rightarrow> (let (s, m) = (case FindChild x AVPCodeProxyHost 0 of
              None \<Rightarrow> (s, m)
            | Some h \<Rightarrow> (s\<lparr>headersRestored := headersRestored s + 1\<rparr>,
                         AddAVP m (NewDiameterIdentityAVP AVPCodeDestinationHost AVPFlagMandatory (GetDiameterIdentity h)))) in
          (s, m\<lparr>AVPs := fst (remove_first stash (AVPs m))\<rparr>)))"

section \<open>\<open>rt_hide_oh\<close>\<close>

record rtHideOH =
  hoLocalIdentity :: string
  headersReplaced :: u64
  markersRemoved :: u64

definition hide_oh_marker :: string where
  "hide_oh_marker = ''rt_hide_oh:origin-host''"

definition hidden_info :: avp where
  "hidden_info = NewGroupedAVP AVPCodeProxyInfo AVPFlagMandatory 0
     [NewUTF8StringAVP AVPCodeProxyHost AVPFlagMandatory ''hidden'',
      NewUTF8StringAVP AVPCodeProxyState AVPFlagMandatory hide_oh_marker]"

definition hide_origin :: "rtHideOH \<Rightarrow> message \<Rightarrow> rtHideOH \<times> message" where
  "hide_origin s m =
     (if list_ex (ietf_avp AVPCodeOriginHost) (AVPs m)
      then (s\<lparr>headersReplaced := headersReplaced s + 1\<rparr>,
            AddAVP (m\<lparr>AVPs := update_first (ietf_avp AVPCodeOriginHost) (\<lambda>a. set_Data a (bytes_of_string (hoLocalIdentity s))) (AVPs m)\<rparr>)
              hidden_info)
      else (s, m))"

text \<open>
  The AVPs from the last to the first. A Proxy-Info that was not decoded yet is decoded in place and stays so even when it is
  not the one looked for.
\<close>

fun drop_marker :: "avp list \<Rightarrow> avp list \<times> bool" where
  "drop_marker [] = ([], False)"
| "drop_marker (a # as) =
     (if ietf_avp AVPCodeProxyInfo a then
        (case (if IsGrouped a then Inr a else DecodeGrouped a) of
           Inl _ \<Rightarrow> (case drop_marker as of (bs, f) \<Rightarrow> (a # bs, f))
         | Inr b \<Rightarrow> if marked hide_oh_marker b then (as, True)
                    else (case drop_marker as of (bs, f) \<Rightarrow> (b # bs, f)))
      else (case drop_marker as of (bs, f) \<Rightarrow> (a # bs, f)))"

definition HideOH_handleRouting :: "rtHideOH \<Rightarrow> message \<Rightarrow> rtHideOH \<times> message" where
  "HideOH_handleRouting s m =
     (if IsRequest m then hide_origin s m
      else case drop_marker (rev (AVPs m)) of
        (as, found) \<Rightarrow> (if found then s\<lparr>markersRemoved := markersRemoved s + 1\<rparr> else s, m\<lparr>AVPs := rev as\<rparr>))"

end
