(* ===== verification/Rt_Headers_Properties.thy ===== *)
theory Rt_Headers_Properties
  imports Rt_Headers Server_Properties
begin

text \<open>
  What the header extensions promise: which requests \<open>rt_deny_by_size\<close> refuses and what becomes of them, that
  \<open>rt_ignore_dh\<close> gives the Destination-Host back (and that it then counts again when the relay tries another peer), and that
  \<open>rt_hide_oh\<close> leaves nothing of its marker in the answer.
\<close>

section \<open>\<open>rt_deny_by_size\<close>\<close>

definition too_large :: "rtDenyBySize \<Rightarrow> message \<Rightarrow> bool" where
  "too_large d m \<longleftrightarrow> IsRequest m \<and> (case Encode m of Inl _ \<Rightarrow> False | Inr data \<Rightarrow> dsMaxSize d < int (length data))"

lemma deny_entry_result:
  "iHandler (deny_entry d) p m cs = (m, if too_large d m
     then Inl (HandlerError (size_text (case Encode m of Inr data \<Rightarrow> length data) (dsMaxSize d))) else Inr cs)"
  by (auto simp: deny_entry_def DenyBySize_handleRouting_def too_large_def split: sum.split)

lemma denied_RouteIn:
  assumes "inHandlers r = deny_entry d # hs" and "too_large d m"
  shows "\<exists>t. RouteIn fuel e r w p m = Some (Inl (HandlerError t), bump (RequestsRouted_update (\<lambda>n. n + 1)) r, w)"
  using assms by (auto simp: RouteIn_def deny_entry_result bump_def) (simp add: too_large_def)

text \<open>
  A request that \<open>rt_deny_by_size\<close> refuses is dropped without any answer: nothing is sent to any peer and nothing is
  dispatched, only the error is counted. The protocol wants an answer to every request.
\<close>

theorem denied_request_gets_no_answer:
  assumes "inHandlers (svRouter s) = deny_entry d # hs" and "too_large d m"
  shows "\<exists>s'. on_message fuel e ref m s = Some s' \<and> svWorld s' = svWorld s \<and> svRoutingErrors s' = svRoutingErrors s + 1"
proof -
  define s1 where "s1 = (if svHandler s then s\<lparr>svHandled := svHandled s @ [(ref, m)]\<rparr> else s)"
  have "inHandlers (live_router s1) = deny_entry d # hs" "svWorld s1 = svWorld s" "svRoutingErrors s1 = svRoutingErrors s"
    using assms(1) by (simp_all add: s1_def live_router_def SetPeerEnumerator_def SetPeerLookup_def)
  moreover obtain t where "RouteIn fuel e (live_router s1) (svWorld s1) (Some ref) m =
      Some (Inl (HandlerError t), bump (RequestsRouted_update (\<lambda>n. n + 1)) (live_router s1), svWorld s1)"
    using denied_RouteIn [OF calculation(1) assms(2)] by blast
  ultimately show ?thesis by (simp add: on_message_def Let_def handleRoutingError_def s1_def [symmetric])
qed

theorem denied_request_gets_no_answer_witness:
  "let d = \<lparr>dsMaxSize = 20, dsRejected = 0\<rparr>;
       s = start_node\<lparr>svRouter := (svRouter start_node)\<lparr>inHandlers := [deny_entry d]\<rparr>\<rparr> in
   \<exists>s'. on_message 5 sample_renv 0 sample_request s = Some s' \<and> svWorld s' = svWorld s \<and> svRoutingErrors s' = svRoutingErrors s + 1"
proof -
  have "too_large \<lparr>dsMaxSize = 20, dsRejected = 0\<rparr> sample_request"
    by (simp add: too_large_def Encode_eq message_wire_def Message_EncodedLen_def sample_request_def DiameterHeaderSize_def
        NewRequest_def NewMessage_def AddAVP_def IsRequest_def NewDiameterIdentityAVP_def NewUTF8StringAVP_def NewAVP_def header_size_def padding_of_def wire_frame_def Let_def)
  then show ?thesis unfolding Let_def by (intro denied_request_gets_no_answer) simp_all
qed

section \<open>\<open>rt_ignore_dh\<close>\<close>

definition ignored_host :: "message \<Rightarrow> avp \<Rightarrow> bool" where
  "ignored_host m a \<longleftrightarrow> IsRequest m \<and> filter (\<lambda>b. aCode b = AVPCodeDestinationHost) (AVPs m) = [a] \<and> aVendorID a = 0 \<and>
     (\<forall>b \<in> set (AVPs m). \<not> stash b)"

lemma stash_stashed_host: "stash (stashed_host h)"
  by (simp add: stash_def stashed_host_def NewGroupedAVP_def IsGrouped_def marked_def FindChild_def avp_matches_def
      NewDiameterIdentityAVP_def NewUTF8StringAVP_def NewAVP_def GetUTF8String_def)

lemma stashed_host_host: "map_option GetDiameterIdentity (FindChild (stashed_host h) AVPCodeProxyHost 0) = Some h"
  by (simp add: stashed_host_def NewGroupedAVP_def FindChild_def avp_matches_def)

lemma first_match:
  assumes "\<forall>y \<in> set as. \<not> Q y" and "Q x"
  shows "List.find Q (as @ x # bs) = Some x" and "fst (remove_first Q (as @ x # bs)) = as @ bs"
  using assms by (induction as) (auto split: prod.splits)

lemma remove_only:
  assumes "filter P xs = [x]" and "\<forall>y. Q y \<longrightarrow> P y" and "Q x"
  shows "List.find Q xs = Some x \<and> fst (remove_first Q (xs @ zs)) = filter (\<lambda>y. \<not> P y) xs @ zs"
proof -
  obtain as bs where s: "xs = as @ x # bs" "\<forall>y \<in> set as. \<not> P y" "P x" "filter P bs = []"
    using assms(1) by (auto simp: filter_eq_Cons_iff)
  have n: "\<forall>y \<in> set as. \<not> Q y" using s(2) assms(2) by blast
  have b: "filter (\<lambda>y. \<not> P y) bs = bs" using s(4) by (auto simp: filter_empty_conv filter_id_conv)
  then show ?thesis using s(2,3) first_match [of as Q x "bs @ zs"] first_match(1) [of as Q x bs] n assms(3) by (simp add: s(1) filter_id_conv)
qed

lemma ignored_dropped:
  assumes "ignored_host m a"
  shows "snd (IgnoreDH_handleRouting s m) = m\<lparr>AVPs := filter (\<lambda>b. aCode b \<noteq> AVPCodeDestinationHost) (AVPs m) @
    [stashed_host (GetDiameterIdentity a)]\<rparr>"
proof -
  let ?D = "\<lambda>b. aCode b = AVPCodeDestinationHost"
  have f: "filter ?D (AVPs m) = [a]" and "aVendorID a = 0" using assms by (auto simp: ignored_host_def)
  then have a: "ietf_avp AVPCodeDestinationHost a" by (auto simp: ietf_avp_def filter_eq_Cons_iff)
  have "\<forall>b. ietf_avp AVPCodeDestinationHost b \<longrightarrow> ?D b" by (simp add: ietf_avp_def)
  note r = remove_only [OF f this a]
  show ?thesis
    using assms r [of "[stashed_host (GetDiameterIdentity a)]"] by (simp add: ignored_host_def IgnoreDH_handleRouting_def Let_def)
qed

lemma restore_dropped:
  assumes "ignored_host m a"
  shows "GetDestinationHost (snd (IgnoreDH_handleRouting s m)) = None \<and>
    snd (IgnoreDH_handleOutgoing s' (snd (IgnoreDH_handleRouting s m))) =
      m\<lparr>AVPs := filter (\<lambda>b. aCode b \<noteq> AVPCodeDestinationHost) (AVPs m) @
         [NewDiameterIdentityAVP AVPCodeDestinationHost AVPFlagMandatory (GetDiameterIdentity a)]\<rparr>"
proof -
  let ?as = "filter (\<lambda>b. aCode b \<noteq> AVPCodeDestinationHost) (AVPs m)"
  let ?h = "GetDiameterIdentity a"
  let ?dh = "NewDiameterIdentityAVP AVPCodeDestinationHost AVPFlagMandatory ?h"
  have q: "IsRequest m" and ns: "\<forall>b \<in> set ?as. \<not> stash b" using assms by (auto simp: ignored_host_def)
  have none: "List.find (avp_matches AVPCodeDestinationHost 0) (?as @ [stashed_host ?h]) = None"
    by (auto simp: find_None_iff avp_matches_def stashed_host_def NewGroupedAVP_def)
  note front = first_match [OF ns stash_stashed_host]
  obtain x where x: "FindChild (stashed_host ?h) AVPCodeProxyHost 0 = Some x" "GetDiameterIdentity x = ?h"
    using stashed_host_host [of ?h] by blast
  have gd: "GetDestinationHost (m\<lparr>AVPs := ?as @ [stashed_host ?h]\<rparr>) = None"
    using none by (simp add: GetDestinationHost_def identity_of_def FindAVP_def)
  show ?thesis
    using q gd x front(1) [of ?h "[]"] front(2) [of ?h "[?dh]"] by (simp add: ignored_dropped [OF assms] IgnoreDH_handleOutgoing_def IsRequest_def)
qed

text \<open>
  \<open>rt_ignore_dh\<close> drops the Destination-Host before routing and gives it back on the way out: the request leaves with the
  host it came with, its other AVPs are untouched and no stash is left behind.
\<close>

theorem ignored_host_is_restored:
  assumes "ignored_host m a"
  shows "GetDestinationHost (snd (IgnoreDH_handleRouting s m)) = None \<and>
    snd (IgnoreDH_handleOutgoing s' (snd (IgnoreDH_handleRouting s m))) =
      m\<lparr>AVPs := filter (\<lambda>b. aCode b \<noteq> AVPCodeDestinationHost) (AVPs m) @
         [NewDiameterIdentityAVP AVPCodeDestinationHost AVPFlagMandatory (GetDiameterIdentity a)]\<rparr>"
  by (rule restore_dropped [OF assms])

text \<open>The entry \<open>Init\<close> registers on the way out, with the state its handler finds.\<close>

definition ignore_dh_entry :: "rtIgnoreDH \<Rightarrow> outHandlerEntry" where
  "ignore_dh_entry s = \<lparr>oPriority = 35, oHandler = \<lambda>m cs. (snd (IgnoreDH_handleOutgoing s m), Inr cs),
     oName = ''rt_ignore_dh'', oOwner = ''rt_ignore_dh''\<rparr>"

lemma find_filter: "(\<And>y. P y \<Longrightarrow> Q y) \<Longrightarrow> List.find P (filter Q xs) = List.find P xs"
  by (induction xs) auto

lemma find_filter_none: "List.find P (filter (\<lambda>y. \<not> P y) xs) = None"
  by (simp add: find_None_iff)

lemma restored_candidates:
  assumes "ignored_host m a"
  shows "buildCandidates r w (snd (IgnoreDH_handleOutgoing s' (snd (IgnoreDH_handleRouting s m)))) = buildCandidates r w m"
proof -
  let ?h = "GetDiameterIdentity a"
  let ?n = "m\<lparr>AVPs := filter (\<lambda>b. aCode b \<noteq> AVPCodeDestinationHost) (AVPs m) @
         [NewDiameterIdentityAVP AVPCodeDestinationHost AVPFlagMandatory ?h]\<rparr>"
  have f: "filter (\<lambda>b. aCode b = AVPCodeDestinationHost) (AVPs m) = [a]" using assms by (simp add: ignored_host_def)
  moreover have "aCode a = AVPCodeDestinationHost" using f by (auto simp: filter_eq_Cons_iff)
  ultimately have "List.find (\<lambda>b. aCode b = AVPCodeDestinationHost) (AVPs m) = Some a"
    using remove_only [of "\<lambda>b. aCode b = AVPCodeDestinationHost" "AVPs m" a "\<lambda>b. aCode b = AVPCodeDestinationHost"] by blast
  then have h: "GetDestinationHost m = Some ?h" "GetDestinationHost ?n = Some ?h"
    by (simp_all add: GetDestinationHost_def identity_of_def FindAVP_def avp_matches_def [abs_def] find_append find_filter_none)
  have "List.find (\<lambda>a. aCode a = AVPCodeDestinationRealm) (filter (\<lambda>b. aCode b \<noteq> AVPCodeDestinationHost) (AVPs m)) =
      List.find (\<lambda>a. aCode a = AVPCodeDestinationRealm) (AVPs m)" by (rule find_filter) simp
  then have "GetDestinationRealm ?n = GetDestinationRealm m"
    by (simp add: GetDestinationRealm_def identity_of_def FindAVP_def avp_matches_def [abs_def] find_append split: option.split)
  then show ?thesis using h restore_dropped [OF assms] by (simp add: buildCandidates_def target_realm_def Let_def cong: if_cong option.case_cong)
qed

text \<open>
  When the first next hop fails, the relay loop goes on with the message whose Destination-Host was restored for that hop: from
  then on it builds the very candidates it would have built had the header not been dropped.
\<close>

theorem ignored_host_counts_on_retry:
  assumes "ignored_host m a" and "outHandlers r = [ignore_dh_entry s]" and "\<forall>h \<in> set (postRouteHandlers r). \<forall>m x. pHandler h m x = m"
    and "RouteOutWithExclusion e r w (snd (IgnoreDH_handleRouting s' m)) exclude = (m2, Inr hop, w2)"
  shows "buildCandidates r w2 m2 = buildCandidates r w2 m"
proof -
  let ?d = "snd (IgnoreDH_handleRouting s' m)"
  have "fst (firePostRouteHandlers r x n v) = n" for x n v
    using assms(3) by (simp add: firePostRouteHandlers_def fold_post_handlers_pure)
  then have "m2 = snd (IgnoreDH_handleOutgoing s ?d)"
    using assms(4) by (auto simp: RouteOutWithExclusion_def assms(2) ignore_dh_entry_def split_beta Let_def split: if_splits option.splits)
  then show ?thesis using restored_candidates [OF assms(1)] by simp
qed

section \<open>\<open>rt_hide_oh\<close>\<close>

lemma find_split:
  assumes "List.find P xs = Some x"
  obtains as bs where "xs = as @ x # bs" "\<forall>y \<in> set as. \<not> P y" "P x"
proof -
  obtain as y bs where s: "xs = as @ y # bs" "P y" "\<forall>z \<in> set as. \<not> P z"
    using split_list_first_prop [of xs P] assms by (metis find_None_iff option.discI)
  with assms first_match(1) [of as P y bs] show thesis by (intro that [of as bs]) auto
qed

lemma hidden_info_decodes: "\<exists>b. DecodeGrouped (on_wire hidden_info) = Inr b \<and> marked hide_oh_marker b"
proof -
  have c: "aChildren hidden_info = [NewUTF8StringAVP AVPCodeProxyHost AVPFlagMandatory ''hidden'',
      NewUTF8StringAVP AVPCodeProxyState AVPFlagMandatory hide_oh_marker]"
    by (simp add: hidden_info_def NewGroupedAVP_def)
  have "\<forall>c \<in> set (aChildren hidden_info). EncodedLen c < 2 ^ 24"
    by (simp add: c NewUTF8StringAVP_def NewAVP_def hide_oh_marker_def header_size_def padding_of_def)
  from DecodeGrouped_on_wire [OF _ this] show ?thesis
    by (simp add: c marked_def FindChild_def avp_matches_def)
      (simp add: on_wire_def NewUTF8StringAVP_def NewAVP_def payload_def GetUTF8String_def)
qed

lemma drop_marker_found:
  assumes "\<forall>y \<in> set ys. aCode y \<noteq> AVPCodeProxyInfo"
  shows "drop_marker (ys @ on_wire hidden_info # zs) = (ys @ zs, True)"
  using assms
proof (induction ys)
  case Nil
  obtain b where b: "DecodeGrouped (on_wire hidden_info) = Inr b" "marked hide_oh_marker b" using hidden_info_decodes by blast
  have "ietf_avp AVPCodeProxyInfo (on_wire hidden_info)" "\<not> IsGrouped (on_wire hidden_info)"
    by (simp_all add: ietf_avp_def on_wire_def hidden_info_def NewGroupedAVP_def IsGrouped_def)
  then show ?case by (simp add: b)
qed (simp add: ietf_avp_def)

text \<open>
  A request that passes \<open>rt_hide_oh\<close> names this node as its origin, and the answer that brings back its Proxy-Info headers from
  the wire loses the marker and nothing else.
\<close>

theorem hidden_origin_leaves_no_marker:
  assumes "IsRequest m" and "List.find (\<lambda>b. aCode b = AVPCodeOriginHost) (AVPs m) = Some o'" and "aVendorID o' = 0"
    and "\<not> IsRequest ans" and "\<forall>y \<in> set ys. aCode y \<noteq> AVPCodeProxyInfo"
    and "AVPs ans = xs @ map on_wire (FindAllAVPs (snd (HideOH_handleRouting s m)) AVPCodeProxyInfo 0) @ ys"
  shows "GetOriginHost (snd (HideOH_handleRouting s m)) = Some (hoLocalIdentity s) \<and>
    AVPs (snd (HideOH_handleRouting s' ans)) = xs @ map on_wire (FindAllAVPs m AVPCodeProxyInfo 0) @ ys"
proof -
  let ?O = "\<lambda>b. aCode b = AVPCodeOriginHost" and ?P = "avp_matches AVPCodeProxyInfo 0"
  let ?o = "set_Data o' (bytes_of_string (hoLocalIdentity s))"
  obtain as bs where sp: "AVPs m = as @ o' # bs" "\<forall>y \<in> set as. \<not> ?O y" "?O o'"
    using assms(2) by (rule find_split)
  have fields: "aCode ?o = aCode o'" "GetDiameterIdentity ?o = hoLocalIdentity s"
    by (cases o'; simp add: GetDiameterIdentity_def)+
  have "update_first (ietf_avp AVPCodeOriginHost) (\<lambda>a. set_Data a (bytes_of_string (hoLocalIdentity s))) (as @ o' # bs) = as @ ?o # bs"
    using sp(2,3) assms(3) by (induction as) (auto simp: ietf_avp_def)
  then have n: "AVPs (snd (HideOH_handleRouting s m)) = as @ ?o # bs @ [hidden_info]"
    using assms(1,3) sp(1,3) by (simp add: HideOH_handleRouting_def hide_origin_def ietf_avp_def)
  have "GetOriginHost (snd (HideOH_handleRouting s m)) = Some (hoLocalIdentity s)"
    using sp(2,3) first_match(1) [of as "avp_matches AVPCodeOriginHost 0" ?o "bs @ [hidden_info]"] fields
    by (simp add: GetOriginHost_def identity_of_def FindAVP_def n avp_matches_def)
  moreover have "FindAllAVPs (snd (HideOH_handleRouting s m)) AVPCodeProxyInfo 0 = FindAllAVPs m AVPCodeProxyInfo 0 @ [hidden_info]"
    using sp(3) fields(1) by (simp add: FindAllAVPs_def n sp(1) avp_matches_def hidden_info_def NewGroupedAVP_def)
  then have "rev (AVPs ans) = rev ys @ on_wire hidden_info # rev (map on_wire (FindAllAVPs m AVPCodeProxyInfo 0)) @ rev xs"
    by (simp add: assms(6))
  ultimately show ?thesis
    using drop_marker_found [of "rev ys" "rev (map on_wire (FindAllAVPs m AVPCodeProxyInfo 0)) @ rev xs"] assms(4,5)
    by (simp add: HideOH_handleRouting_def)
qed

section \<open>The headers at a concrete request\<close>

definition hosted_request :: message where
  "hosted_request = AddAVP (AddAVP sample_request (NewDiameterIdentityAVP AVPCodeDestinationHost AVPFlagMandatory ''hss9''))
     (NewDiameterIdentityAVP AVPCodeOriginHost AVPFlagMandatory ''mme'')"

definition host_avp :: avp where
  "host_avp = NewDiameterIdentityAVP AVPCodeDestinationHost AVPFlagMandatory ''hss9''"

definition ignoring_router :: router where
  "ignoring_router = sample_router\<lparr>outHandlers := [ignore_dh_entry \<lparr>headersDropped = 0, headersRestored = 0\<rparr>]\<rparr>"

lemma hosted_avps: "AVPs hosted_request = [NewDiameterIdentityAVP AVPCodeDestinationRealm AVPFlagMandatory ''home'', host_avp,
    NewDiameterIdentityAVP AVPCodeOriginHost AVPFlagMandatory ''mme'']" "IsRequest hosted_request"
  by (simp_all add: hosted_request_def sample_request_def host_avp_def NewRequest_def NewMessage_def IsRequest_def)

lemma hosted_ignored: "ignored_host hosted_request host_avp"
  by (simp add: ignored_host_def hosted_avps) (simp add: host_avp_def stash_def)

theorem ignored_host_is_restored_witness:
  "snd (IgnoreDH_handleOutgoing \<lparr>headersDropped = 0, headersRestored = 0\<rparr>
     (snd (IgnoreDH_handleRouting \<lparr>headersDropped = 0, headersRestored = 0\<rparr> hosted_request))) =
   hosted_request\<lparr>AVPs := [NewDiameterIdentityAVP AVPCodeDestinationRealm AVPFlagMandatory ''home'',
     NewDiameterIdentityAVP AVPCodeOriginHost AVPFlagMandatory ''mme'', host_avp]\<rparr>"
  using ignored_host_is_restored [OF hosted_ignored, of "\<lparr>headersDropped = 0, headersRestored = 0\<rparr>" "\<lparr>headersDropped = 0, headersRestored = 0\<rparr>"]
  by (simp add: hosted_avps) (simp add: host_avp_def)

lemma hosted_dropped: "snd (IgnoreDH_handleRouting s hosted_request) = hosted_request\<lparr>AVPs :=
    [NewDiameterIdentityAVP AVPCodeDestinationRealm AVPFlagMandatory ''home'', NewDiameterIdentityAVP AVPCodeOriginHost AVPFlagMandatory ''mme'',
     stashed_host ''hss9'']\<rparr>"
  by (simp add: ignored_dropped [OF hosted_ignored] hosted_avps) (simp add: host_avp_def)

lemma hosted_candidates: "buildCandidates ignoring_router w (snd (IgnoreDH_handleRouting s hosted_request)) =
    buildCandidates sample_router w sample_request"
proof -
  let ?d = "snd (IgnoreDH_handleRouting s hosted_request)"
  have "GetDestinationHost ?d = None" using restore_dropped [OF hosted_ignored] by blast
  moreover have "AVPs ?d = [NewDiameterIdentityAVP AVPCodeDestinationRealm AVPFlagMandatory ''home'',
      NewDiameterIdentityAVP AVPCodeOriginHost AVPFlagMandatory ''mme'', stashed_host ''hss9'']" "mApplicationID ?d = 4"
    unfolding hosted_dropped by (simp_all add: hosted_request_def sample_request_fields)
  then have "GetDestinationRealm ?d = Some ''home''" "mApplicationID ?d = 4"
    by (simp_all add: GetDestinationRealm_def identity_of_def FindAVP_def avp_matches_def)
  ultimately show ?thesis
    by (simp add: buildCandidates_def sample_realm target_realm_def realm_candidates_def sample_router_fields
        sample_request_fields ignoring_router_def Let_def)
qed

lemma hosted_out: "\<exists>m2 hop w2. RouteOutWithExclusion sample_renv ignoring_router sample_world
    (snd (IgnoreDH_handleRouting \<lparr>headersDropped = 0, headersRestored = 0\<rparr> hosted_request)) [] = (m2, Inr hop, w2)"
proof -
  let ?d = "snd (IgnoreDH_handleRouting \<lparr>headersDropped = 0, headersRestored = 0\<rparr> hosted_request)"
  have "apply_out_handlers (outHandlers ignoring_router) ?d cs =
      (snd (IgnoreDH_handleOutgoing \<lparr>headersDropped = 0, headersRestored = 0\<rparr> ?d), if cs = [] then Inl (EliminatedAll ''rt_ignore_dh'') else Inr cs)" for cs
    by (simp add: ignoring_router_def ignore_dh_entry_def)
  then show ?thesis
    unfolding RouteOutWithExclusion_def hosted_candidates
    by (simp add: sample_candidates by_score_def tier_choices_def sample_renv_def split_beta)
qed

theorem ignored_host_counts_on_retry_witness:
  "\<exists>m2 hop w2. RouteOutWithExclusion sample_renv ignoring_router sample_world
      (snd (IgnoreDH_handleRouting \<lparr>headersDropped = 0, headersRestored = 0\<rparr> hosted_request)) [] = (m2, Inr hop, w2) \<and>
    buildCandidates ignoring_router w2 m2 = buildCandidates ignoring_router w2 hosted_request"
proof -
  obtain m2 hop w2 where o: "RouteOutWithExclusion sample_renv ignoring_router sample_world
      (snd (IgnoreDH_handleRouting \<lparr>headersDropped = 0, headersRestored = 0\<rparr> hosted_request)) [] = (m2, Inr hop, w2)"
    using hosted_out by blast
  have "outHandlers ignoring_router = [ignore_dh_entry \<lparr>headersDropped = 0, headersRestored = 0\<rparr>]"
    "\<forall>h \<in> set (postRouteHandlers ignoring_router). \<forall>m x. pHandler h m x = m"
    using sample_router_fields(9) by (simp_all add: ignoring_router_def)
  from ignored_host_counts_on_retry [OF hosted_ignored this o] o show ?thesis by blast
qed

theorem hidden_origin_leaves_no_marker_witness:
  "let s = \<lparr>hoLocalIdentity = ''dra.example'', headersReplaced = 0, markersRemoved = 0\<rparr>;
       n = snd (HideOH_handleRouting s hosted_request);
       a = (NewAnswer n)\<lparr>AVPs := map on_wire (FindAllAVPs n AVPCodeProxyInfo 0)\<rparr> in
   GetOriginHost n = Some ''dra.example'' \<and> AVPs (snd (HideOH_handleRouting s a)) = []"
proof -
  define s where "s = \<lparr>hoLocalIdentity = ''dra.example'', headersReplaced = 0, markersRemoved = 0\<rparr>"
  define n where "n = snd (HideOH_handleRouting s hosted_request)"
  define a where "a = (NewAnswer n)\<lparr>AVPs := map on_wire (FindAllAVPs n AVPCodeProxyInfo 0)\<rparr>"
  have o: "List.find (\<lambda>b. aCode b = AVPCodeOriginHost) (AVPs hosted_request) =
      Some (NewDiameterIdentityAVP AVPCodeOriginHost AVPFlagMandatory ''mme'')"
    by (simp add: hosted_avps) (simp add: host_avp_def)
  have f: "FindAllAVPs hosted_request AVPCodeProxyInfo 0 = []"
    by (simp add: FindAllAVPs_def hosted_avps avp_matches_def) (simp add: host_avp_def)
  have a: "\<not> IsRequest a" "AVPs a = [] @ map on_wire (FindAllAVPs n AVPCodeProxyInfo 0) @ []"
    using NewAnswer_not_request [of n] by (simp_all add: a_def IsRequest_def)
  show ?thesis
    using hidden_origin_leaves_no_marker [OF hosted_avps(2) o _ a(1) _ a(2) [unfolded n_def], of s] f
    by (simp add: s_def n_def a_def Let_def)
qed

end
