(* ===== verification/Radius.thy ===== *)
theory Radius
  imports Diam_Decode
begin

text \<open>
  Package \<open>radius\<close>: parsing and serializing RADIUS packets. Indexing and slicing are checked as in Go, so a panic would be
  an \<open>Inl (RadiusPanic \<dots>)\<close>. Only the MD5 digest of the standard library is a parameter. An attribute on the wire is an
  interpretation of \<open>self_delimiting\<close>, which gives the round trips.
\<close>

definition CodeAccessRequest :: byte where [simp]: "CodeAccessRequest = 1"
definition CodeAccessAccept :: byte where [simp]: "CodeAccessAccept = 2"
definition CodeAccessReject :: byte where [simp]: "CodeAccessReject = 3"
definition CodeAccountingRequest :: byte where [simp]: "CodeAccountingRequest = 4"
definition CodeAccountingResponse :: byte where [simp]: "CodeAccountingResponse = 5"

record Attribute =
  atType :: byte
  atValue :: "byte list"

text \<open>The authenticator is a Go array of 16 bytes.\<close>

record Packet =
  pkCode :: byte
  pkIdentifier :: byte
  pkAuthenticator :: "byte list"
  pkAttributes :: "Attribute list"
  pkSecret :: string

datatype radius_error =
    RadiusPanic wire_error
  | PacketTooShort nat
  | HeaderLengthTooShort nat
  | PacketLengthMismatch nat nat
  | TrailingBytes nat
  | InvalidAttributeLength byte nat

fun go_checked :: "wire_error + 'a \<Rightarrow> radius_error + 'a" where
  "go_checked (Inl e) = Inl (RadiusPanic e)"
| "go_checked (Inr x) = Inr x"

section \<open>Parsing\<close>

definition parse_attribute :: "byte list \<Rightarrow> radius_error + Attribute \<times> nat" where
  "parse_attribute d =
     (if length d < 2 then Inl (TrailingBytes (length d))
      else bind_result (go_checked (index d 0)) (\<lambda>t. bind_result (go_checked (index d 1)) (\<lambda>l.
        if unat l < 2 \<or> length d < unat l then Inl (InvalidAttributeLength t (unat l))
        else bind_result (go_checked (slice d 2 (unat l))) (\<lambda>v. Inr (\<lparr>atType = t, atValue = v\<rparr>, unat l)))))"

text \<open>No check of Go's fails.\<close>

lemma parse_attribute_eq: "parse_attribute d =
    (if length d < 2 then Inl (TrailingBytes (length d))
     else if unat (d ! 1) < 2 \<or> length d < unat (d ! 1) then Inl (InvalidAttributeLength (d ! 0) (unat (d ! 1)))
     else Inr (\<lparr>atType = d ! 0, atValue = take (unat (d ! 1) - 2) (drop 2 d)\<rparr>, unat (d ! 1)))"
proof (cases "length d < 2")
  case False
  then have "0 < length d" "1 < length d" by auto
  then show ?thesis unfolding parse_attribute_def by (auto simp del: length_greater_0_conv)
qed (simp add: parse_attribute_def)

lemma parse_attribute_consumes: "parse_attribute d = Inr (a, n) \<Longrightarrow> 2 \<le> n \<and> n \<le> length d"
  by (auto simp: parse_attribute_eq split: if_splits)

function parse_attributes :: "byte list \<Rightarrow> radius_error + Attribute list" where
  "parse_attributes d =
     (if d = [] then Inr []
      else case parse_attribute d of
        Inl e \<Rightarrow> Inl e
      | Inr (a, n) \<Rightarrow> (case parse_attributes (drop n d) of Inl e \<Rightarrow> Inl e | Inr as \<Rightarrow> Inr (a # as)))"
  by auto
termination
  by (relation "measure length") (auto dest!: parse_attribute_consumes)

declare parse_attributes.simps [simp del]

definition Radius_Parse :: "byte list \<Rightarrow> string \<Rightarrow> radius_error + Packet" where
  "Radius_Parse data secret =
     (if length data < 20 then Inl (PacketTooShort (length data))
      else bind_result (go_checked (index data 0)) (\<lambda>code. bind_result (go_checked (index data 1)) (\<lambda>ident.
        bind_result (go_checked (bind_result (slice data 2 4) Uint16)) (\<lambda>l.
        if unat l < 20 then Inl (HeaderLengthTooShort (unat l))
        else if length data < unat l then Inl (PacketLengthMismatch (unat l) (length data))
        else bind_result (go_checked (slice data 4 20)) (\<lambda>auth. bind_result (go_checked (slice data 20 (unat l))) (\<lambda>attrs.
          bind_result (parse_attributes attrs) (\<lambda>as.
            Inr \<lparr>pkCode = code, pkIdentifier = ident, pkAuthenticator = auth, pkAttributes = as, pkSecret = secret\<rparr>)))))))"

section \<open>Serializing\<close>

definition serialize_attribute :: "Attribute \<Rightarrow> byte list" where
  "serialize_attribute a = [atType a, of_nat (length (atValue a) + 2)] @ atValue a"

definition is_response :: "Packet \<Rightarrow> bool" where
  "is_response p \<longleftrightarrow> pkCode p = CodeAccessAccept \<or> pkCode p = CodeAccessReject \<or> pkCode p = CodeAccountingResponse"

definition Serialize :: "(byte list \<Rightarrow> byte list) \<Rightarrow> Packet \<Rightarrow> byte list" where
  "Serialize md5 p =
     (let attrs = concat (map serialize_attribute (pkAttributes p));
          front = [pkCode p, pkIdentifier p] @ PutUint16 (of_nat (20 + length attrs)) in
      if is_response p then front @ md5 (front @ pkAuthenticator p @ attrs @ bytes_of_string (pkSecret p)) @ attrs
      else front @ pkAuthenticator p @ attrs)"

definition GetAttribute :: "Packet \<Rightarrow> byte \<Rightarrow> byte list option" where
  "GetAttribute p t = map_option atValue (List.find (\<lambda>a. atType a = t) (pkAttributes p))"

definition AddAttribute :: "Packet \<Rightarrow> byte \<Rightarrow> byte list \<Rightarrow> Packet" where
  "AddAttribute p t v = p\<lparr>pkAttributes := pkAttributes p @ [\<lparr>atType = t, atValue = v\<rparr>]\<rparr>"

end
