(* ===== verification/App_Answers.thy ===== *)
theory App_Answers
  imports Router_Properties Ext_Common Dict_Codes
begin

text \<open>
  The application extensions that answer requests themselves: \<open>app_acct\<close>, \<open>app_cc\<close>, \<open>app_cx\<close>, \<open>app_diameap\<close>, \<open>app_gx\<close>, \<open>app_s6a\<close>,
  \<open>app_sip\<close>, the dispatch handler of \<open>test_app\<close>, and the redirect agent \<open>app_redirect\<close>. Each handler is the answer it makes of a
  request (\<open>None\<close>: it makes none), which \<open>answering\<close> sends to the peer. The local configuration of the process is an argument.
\<close>

section \<open>What the handlers share\<close>

text \<open>An option that is read as a \<open>float64\<close> only.\<close>

fun as_float :: "yaml_value \<Rightarrow> int option" where
  "as_float (YFloat q) = Some (truncate q)"
| "as_float _ = None"

definition add_session :: "message \<Rightarrow> message \<Rightarrow> message" where
  "add_session req a = (case GetSessionID req of None \<Rightarrow> a
     | Some i \<Rightarrow> AddAVP a (NewUTF8StringAVP AVPCodeSessionID AVPFlagMandatory i))"

definition add_origin :: "LocalConfig \<Rightarrow> message \<Rightarrow> message" where
  "add_origin local a = AddAVP (AddAVP a (NewDiameterIdentityAVP AVPCodeOriginHost AVPFlagMandatory (lDiameterIdentity local)))
     (NewDiameterIdentityAVP AVPCodeOriginRealm AVPFlagMandatory (lRealm local))"

definition addAnswerIdentity :: "LocalConfig \<Rightarrow> message \<Rightarrow> message \<Rightarrow> message" where
  "addAnswerIdentity local a req = add_origin local (add_session req a)"

text \<open>The beginning of every answer.\<close>

definition success_answer :: "LocalConfig \<Rightarrow> message \<Rightarrow> message" where
  "success_answer local req = addAnswerIdentity local (SetResultCode (NewAnswer req) ResultSuccess) req"

definition copy_avp :: "AVPCode \<Rightarrow> message \<Rightarrow> message \<Rightarrow> message" where
  "copy_avp code req a = (case FindAVP req code 0 of None \<Rightarrow> a | Some x \<Rightarrow> AddAVP a x)"

definition vendor_application :: "ApplicationID \<Rightarrow> avp" where
  "vendor_application app = NewGroupedAVP AVPCodeVendorSpecificAppID AVPFlagMandatory 0
     [NewUnsigned32AVP AVPCodeVendorID AVPFlagMandatory VendorID3GPP, NewUnsigned32AVP AVPCodeAuthApplicationID AVPFlagMandatory app]"

type_synonym app_handler = "LocalConfig \<Rightarrow> message \<Rightarrow> message option"

definition answering :: "app_handler \<Rightarrow> LocalConfig \<Rightarrow> message \<Rightarrow> peer \<Rightarrow> (peer_error + unit) \<times> peer" where
  "answering f local m p = (if \<not> IsRequest m then (Inr (), p)
     else case f local m of None \<Rightarrow> (Inr (), p) | Some a \<Rightarrow> Send a p)"

section \<open>The base applications\<close>

definition handleAccounting :: app_handler where
  "handleAccounting local req = Some (copy_avp AVPCodeAccountingRecordNumber req
     (copy_avp AVPCodeAccountingRecordType req (success_answer local req)))"

record appCC =
  requestsHandled :: u64

definition handleCreditControl :: "app_handler" where
  "handleCreditControl local req = Some (copy_avp AVPCodeCCRequestNumber req
     (copy_avp AVPCodeCCRequestType req (success_answer local req)))"

definition count_credit_control :: "message \<Rightarrow> appCC \<Rightarrow> appCC" where
  "count_credit_control m s = (if IsRequest m then s\<lparr>requestsHandled := requestsHandled s + 1\<rparr> else s)"

definition handleEAP :: app_handler where
  "handleEAP local req = Some (AddAVP (copy_avp AVPCodeEAPPayload req (success_answer local req))
     (NewUnsigned32AVP AVPCodeAuthApplicationID AVPFlagMandatory AppIDEAP))"

definition handleSIP :: app_handler where
  "handleSIP local req = Some (success_answer local req)"

definition handleNASREQ :: app_handler where
  "handleNASREQ local req = Some (success_answer local req)"

section \<open>The 3GPP applications\<close>

definition handleGx :: app_handler where
  "handleGx local req =
     (if mCommandCode req \<noteq> CmdCodeCreditControl then None
      else Some (copy_avp AVPCodeCCRequestNumber req (copy_avp AVPCodeCCRequestType req
        (AddAVP (success_answer local req) (vendor_application AppID3GPPGx)))))"

definition handleUAR :: "LocalConfig \<Rightarrow> message \<Rightarrow> message" where
  "handleUAR local req = AddAVP (success_answer local req) (vendor_application AppID3GPPCx)"

definition handleCx :: app_handler where
  "handleCx local req =
     (if mCommandCode req = CmdCode3GPPUserAuthorization then Some (handleUAR local req)
      else if mCommandCode req \<in> {CmdCode3GPPMultimediaAuthentication, CmdCode3GPPServerAssignment, CmdCode3GPPLocationInfo}
      then Some (success_answer local req)
      else None)"

definition vendor_avp :: "avp \<Rightarrow> avp" where
  "vendor_avp a = SetVendorID a VendorID3GPP"

definition vendor_flags :: byte where
  "vendor_flags = AVPFlagMandatory OR AVPFlagVendor"

definition subscription_data :: avp where
  "subscription_data = NewGroupedAVP AVPCode3GPPSubscriptionData vendor_flags VendorID3GPP
     [vendor_avp (NewEnumeratedAVP AVPCode3GPPSubscriberStatus vendor_flags 0),
      vendor_avp (NewUnsigned32AVP AVPCode3GPPNetworkAccessMode vendor_flags 2)]"

definition handleULR :: "LocalConfig \<Rightarrow> message \<Rightarrow> message" where
  "handleULR local req = AddAVP (AddAVP (AddAVP (success_answer local req) (vendor_application AppID3GPPS6a))
     (vendor_avp (NewUnsigned32AVP AVPCode3GPPULAFlags vendor_flags 0))) subscription_data"

definition eutran_vector :: avp where
  "eutran_vector = NewGroupedAVP AVPCode3GPPEUTRANVector vendor_flags VendorID3GPP
     [vendor_avp (NewOctetStringAVP AVPCode3GPPRand vendor_flags (bytes_of_string ''dummy-rand-16bytes-'')),
      vendor_avp (NewOctetStringAVP AVPCode3GPPAUTN vendor_flags (bytes_of_string ''dummy-autn-16bytes-'')),
      vendor_avp (NewOctetStringAVP AVPCode3GPPXRES vendor_flags (bytes_of_string ''dummy-xres-8bytes'')),
      vendor_avp (NewOctetStringAVP AVPCode3GPPKASME vendor_flags (bytes_of_string ''dummy-kasme-32bytes-long-secret''))]"

definition handleAIR :: "LocalConfig \<Rightarrow> message \<Rightarrow> message" where
  "handleAIR local req = AddAVP (AddAVP (success_answer local req) (vendor_application AppID3GPPS6a))
     (NewGroupedAVP AVPCode3GPPAuthenticationInfo vendor_flags VendorID3GPP [eutran_vector])"

definition handleS6a :: app_handler where
  "handleS6a local req =
     (if mCommandCode req = CmdCode3GPPUpdateLocation then Some (handleULR local req)
      else if mCommandCode req = CmdCode3GPPAuthenticationInformation then Some (handleAIR local req)
      else if mCommandCode req = CmdCode3GPPPurgeUE then Some (success_answer local req)
      else None)"

section \<open>\<open>test_app\<close>\<close>

definition test_answer :: "ApplicationID \<Rightarrow> app_handler" where
  "test_answer app local req = Some (fold (\<lambda>x a. AddAVP a x) (filter (\<lambda>x. aCode x = AVPCodeProxyInfo) (AVPs req))
     (AddAVP (success_answer local req) (NewUnsigned32AVP AVPCodeAuthApplicationID AVPFlagMandatory app)))"

section \<open>\<open>app_redirect\<close>\<close>

record appRedirect =
  redirectHost :: string
  redirectUsage :: u32
  maxCacheTime :: u32
  redirectApps :: "ApplicationID list option"

text \<open>
  The flag: the handler is registered. The set \<open>apps\<close> is a map that is there when the option is a list, and holds the elements
  that are floats; what an earlier initialisation left stays otherwise.
\<close>

definition AppRedirect_Init :: "ext_config \<Rightarrow> appRedirect \<Rightarrow> bool \<times> appRedirect" where
  "AppRedirect_Init cfg s = (case option_of as_string cfg ''redirect_host'' of
     None \<Rightarrow> (False, s)
   | Some host \<Rightarrow> (True, s\<lparr>redirectHost := host,
       redirectUsage := of_int (option_or as_float cfg ''redirect_usage'' 2),
       maxCacheTime := of_int (option_or as_float cfg ''redirect_max_cache_time'' 3600),
       redirectApps := (case map_of cfg ''apps'' of
           Some (YSeq ys) \<Rightarrow> Some (map of_int (List.map_filter as_float ys))
         | _ \<Rightarrow> redirectApps s)\<rparr>))"

definition apps_listed :: "appRedirect \<Rightarrow> ApplicationID list" where
  "apps_listed s = (case redirectApps s of None \<Rightarrow> [] | Some as \<Rightarrow> as)"

definition redirects :: "LocalConfig \<Rightarrow> appRedirect \<Rightarrow> message \<Rightarrow> bool" where
  "redirects local s m \<longleftrightarrow> IsRequest m \<and> redirectHost s \<noteq> '''' \<and>
     (apps_listed s \<noteq> [] \<longrightarrow> mApplicationID m \<in> set (apps_listed s)) \<and>
     \<not> (apps_listed s = [] \<and> (case GetDestinationHost m of Some h \<Rightarrow> h \<noteq> '''' \<and> h = lDiameterIdentity local | None \<Rightarrow> False))"

definition redirect_indication :: "LocalConfig \<Rightarrow> appRedirect \<Rightarrow> message \<Rightarrow> message" where
  "redirect_indication local s m =
     (let a = add_origin local (SetResultCode (NewAnswer m) ResultRedirectIndication);
          a = AddAVP a (NewUTF8StringAVP AVPCodeRedirectHost AVPFlagMandatory (redirectHost s));
          a = AddAVP a (NewUnsigned32AVP AVPCodeRedirectHostUsage AVPFlagMandatory (redirectUsage s)) in
      AddAVP a (NewUnsigned32AVP AVPCodeRedirectMaxCacheTime AVPFlagMandatory (maxCacheTime s)))"

text \<open>The peer the request came from gets the answer; the candidates come back when there is none, or when it cannot be sent.\<close>

definition AppRedirect_handleRouting :: "LocalConfig \<Rightarrow> appRedirect \<Rightarrow> message \<Rightarrow> Route list \<Rightarrow> peer \<Rightarrow> (route_error + Route list) \<times> peer" where
  "AppRedirect_handleRouting local s m cs p =
     (if \<not> redirects local s m then (Inr cs, p)
      else case Send (redirect_indication local s m) p of
        (Inl err, p) \<Rightarrow> (Inl (SendError err), p)
      | (Inr _, p) \<Rightarrow> (Inl ErrConsumed, p))"

end
