(* ===== verification/App_Radgw.thy ===== *)
theory App_Radgw
  imports Radius App_Answers
begin

text \<open>
  Extension \<open>app_radgw\<close>: RADIUS requests become Diameter requests that the router places, and the answers become RADIUS
  responses. The UDP socket is an argument (a datagram with its sender) and a result (a datagram for an address); the loops that
  read it and that clean up every second are the callers of these functions.
\<close>

section \<open>State\<close>

record pendingRequest =
  prAddr :: string
  prId :: byte
  prAuthenticator :: "byte list"
  prExpire :: int

record appRadGW =
  radiusPort :: int
  sharedSecret :: string
  gwDestRealm :: string
  pendingRequests :: "(HopByHopID \<times> pendingRequest) list"

definition RadGW_Init :: "LocalConfig \<Rightarrow> ext_config \<Rightarrow> appRadGW \<Rightarrow> appRadGW" where
  "RadGW_Init local cfg s = s\<lparr>radiusPort := option_or as_float cfg ''radius_port'' 1812,
     sharedSecret := option_or as_string cfg ''shared_secret'' ''secret'',
     gwDestRealm := option_or as_string cfg ''dest_realm'' (lRealm local)\<rparr>"

section \<open>From RADIUS to Diameter\<close>

definition translate_attribute :: "Attribute \<Rightarrow> avp" where
  "translate_attribute a = NewAVP (ucast (atType a)) AVPFlagMandatory 0 (atValue a)"

definition gateway_request :: "LocalConfig \<Rightarrow> appRadGW \<Rightarrow> int \<Rightarrow> string \<Rightarrow> Packet \<Rightarrow> message" where
  "gateway_request local s now addr pkt =
     (let m = (if pkCode pkt = CodeAccessRequest then NewRequest 265 AppIDNASREQ else NewRequest 271 AppIDBaseAccounting);
          m = AddAVP m (NewDiameterIdentityAVP AVPCodeOriginHost AVPFlagMandatory (lDiameterIdentity local));
          m = AddAVP m (NewDiameterIdentityAVP AVPCodeOriginRealm AVPFlagMandatory (lRealm local));
          m = AddAVP m (NewDiameterIdentityAVP AVPCodeDestinationRealm AVPFlagMandatory (gwDestRealm s));
          m = fold (\<lambda>a m. AddAVP m (translate_attribute a)) (pkAttributes pkt) m in
      AddAVP m (NewUTF8StringAVP AVPCodeSessionID AVPFlagMandatory (''radgw-'' @ addr @ ''-'' @ decimal now)))"

definition pending_of_packet :: "int \<Rightarrow> string \<Rightarrow> Packet \<Rightarrow> pendingRequest" where
  "pending_of_packet now addr pkt = \<lparr>prAddr = addr, prId = pkIdentifier pkt, prAuthenticator = pkAuthenticator pkt,
     prExpire = now + 5 * conf_second\<rparr>"

text \<open>The pending request is stored before the send and deleted when it fails.\<close>

definition send_pending :: "peer_ref \<Rightarrow> HopByHopID \<Rightarrow> pendingRequest \<Rightarrow> message \<Rightarrow> appRadGW \<Rightarrow> world \<Rightarrow> appRadGW \<times> world" where
  "send_pending ref h req m s w =
     (let s = s\<lparr>pendingRequests := AList.update h req (pendingRequests s)\<rparr> in
      case object_send ref m w of
        (Inl _, w) \<Rightarrow> (s\<lparr>pendingRequests := AList.delete h (pendingRequests s)\<rparr>, w)
      | (Inr _, w) \<Rightarrow> (s, w))"

definition handleRadiusRequest :: "renv \<Rightarrow> router \<Rightarrow> LocalConfig \<Rightarrow> int \<Rightarrow> string \<Rightarrow> Packet \<Rightarrow> appRadGW \<Rightarrow> world \<Rightarrow> appRadGW \<times> world" where
  "handleRadiusRequest e r local now addr pkt s w =
     (if pkCode pkt \<noteq> CodeAccessRequest \<and> pkCode pkt \<noteq> CodeAccountingRequest then (s, w)
      else case RouteOut e r w (gateway_request local s now addr pkt) of
        (m, Inl _, w) \<Rightarrow> (s, w)
      | (m, Inr hop, w) \<Rightarrow> (case LookupPeer r hop of
          None \<Rightarrow> (s, w)
        | Some ref \<Rightarrow> (case objects w ref of
            FullPeer p \<Rightarrow>
              (let (h, p) = NextHopByHopID p in
               send_pending ref h (pending_of_packet now addr pkt) (m\<lparr>mHopByHopID := h, mEndToEndID := of_int now\<rparr>) s
                 (set_object ref (FullPeer p) w))
          | _ \<Rightarrow> (s, w))))"

text \<open>One datagram of the listening loop; what does not parse is skipped.\<close>

definition radius_datagram :: "renv \<Rightarrow> router \<Rightarrow> LocalConfig \<Rightarrow> int \<Rightarrow> string \<Rightarrow> byte list \<Rightarrow> appRadGW \<Rightarrow> world \<Rightarrow> appRadGW \<times> world" where
  "radius_datagram e r local now addr data s w = (case Radius_Parse (take 4096 data) (sharedSecret s) of
     Inl _ \<Rightarrow> (s, w)
   | Inr pkt \<Rightarrow> handleRadiusRequest e r local now addr pkt s w)"

section \<open>From Diameter to RADIUS\<close>

definition radius_code :: "message \<Rightarrow> byte option" where
  "radius_code m =
     (if (case GetResultCode m of Some c \<Rightarrow> c | None \<Rightarrow> 0) = ResultSuccess
      then Some (if mCommandCode m = 265 then CodeAccessAccept else CodeAccountingResponse)
      else if mCommandCode m = 265 then Some CodeAccessReject else None)"

definition radius_attributes :: "message \<Rightarrow> Attribute list" where
  "radius_attributes m = map (\<lambda>a. \<lparr>atType = ucast (aCode a), atValue = aData a\<rparr>) (filter (\<lambda>a. aCode a < 256 \<and> aVendorID a = 0) (AVPs m))"

definition gateway_response :: "appRadGW \<Rightarrow> pendingRequest \<Rightarrow> message \<Rightarrow> byte \<Rightarrow> Packet" where
  "gateway_response s req m code =
     (let resp = \<lparr>pkCode = code, pkIdentifier = prId req, pkAuthenticator = prAuthenticator req, pkAttributes = [], pkSecret = sharedSecret s\<rparr> in
      fold (\<lambda>a p. AddAttribute p (atType a) (atValue a)) (radius_attributes m) resp)"

text \<open>The datagram to send and its address, if there is one.\<close>

definition handleDiameterAnswer :: "(byte list \<Rightarrow> byte list) \<Rightarrow> message \<Rightarrow> appRadGW \<Rightarrow> (string \<times> byte list) option \<times> appRadGW" where
  "handleDiameterAnswer md5 m s =
     (if IsRequest m then (None, s)
      else case map_of (pendingRequests s) (mHopByHopID m) of
        None \<Rightarrow> (None, s)
      | Some req \<Rightarrow>
          (let s = s\<lparr>pendingRequests := AList.delete (mHopByHopID m) (pendingRequests s)\<rparr> in
           case radius_code m of
             None \<Rightarrow> (None, s)
           | Some code \<Rightarrow> (Some (prAddr req, Serialize md5 (gateway_response s req m code)), s)))"

section \<open>Cleaning up\<close>

definition cleanup_pending :: "int \<Rightarrow> appRadGW \<Rightarrow> appRadGW" where
  "cleanup_pending now s = s\<lparr>pendingRequests := filter (\<lambda>(h, req). \<not> prExpire req < now) (pendingRequests s)\<rparr>"

text \<open>\<open>Init\<close>'s registration with the router; the handler's state is the one of the moment.\<close>

definition RadGW_register :: "(peer_ref option \<Rightarrow> message \<Rightarrow> route_error + unit) \<Rightarrow> router \<Rightarrow> router" where
  "RadGW_register h r = RegisterDispatchHandler r AppIDNASREQ h"

end
