(* ===== verification/Radius_Properties.thy ===== *)
theory Radius_Properties
  imports Radius
begin

text \<open>
  The parser and the serializer of RADIUS packets are inverse to each other on the packets whose attributes fit their length
  byte; the parser never panics; longer values make packets that no parser accepts.
\<close>

section \<open>One attribute\<close>

definition attribute_fits :: "Attribute \<Rightarrow> bool" where
  "attribute_fits a \<longleftrightarrow> length (atValue a) \<le> 253"

lemma length_serialize_attribute [simp]: "length (serialize_attribute a) = length (atValue a) + 2"
  by (simp add: serialize_attribute_def)

lemma parse_serialize_attribute:
  assumes "attribute_fits a"
  shows "parse_attribute (serialize_attribute a @ rest) = Inr (a, length (serialize_attribute a))"
proof -
  let ?n = "length (atValue a)"
  have n: "unat (2 + word_of_nat ?n :: byte) = ?n + 2"
    using assms by (simp add: attribute_fits_def unat_word_ariths unat_of_nat)
  show ?thesis
    using n by (simp add: parse_attribute_eq serialize_attribute_def)
qed

lemma parse_attribute_inverse:
  assumes "parse_attribute d = Inr (a, n)"
  shows "attribute_fits a \<and> n = length (serialize_attribute a) \<and> d = serialize_attribute a @ drop n d"
proof -
  obtain t l where d: "2 \<le> length d" "d ! 0 = t" "d ! 1 = l" "2 \<le> unat l" "unat l \<le> length d" "n = unat l"
      "a = \<lparr>atType = t, atValue = take (unat l - 2) (drop 2 d)\<rparr>"
    using assms by (auto simp: parse_attribute_eq split: if_splits)
  have l: "unat l < 256" using unsigned_less [of l] by simp
  have len: "length (atValue a) = unat l - 2" using d by simp
  obtain r where "d = t # l # r" using d(1-3) by (cases d; cases "tl d") auto
  moreover obtain k where k: "unat l = Suc (Suc k)" using d(4) by (metis add_2_eq_Suc le_Suc_ex)
  moreover have "l = word_of_nat (Suc (Suc k))" unfolding k [symmetric] by simp
  ultimately show ?thesis using d l len by (simp add: attribute_fits_def serialize_attribute_def)
qed

interpretation attr: self_delimiting serialize_attribute parse_attribute attribute_fits
proof unfold_locales
  show "\<And>a rest. attribute_fits a \<Longrightarrow> parse_attribute (serialize_attribute a @ rest) = Inr (a, length (serialize_attribute a))"
    by (rule parse_serialize_attribute)
  show "\<And>bs a n. parse_attribute bs = Inr (a, n) \<Longrightarrow>
      attribute_fits a \<and> n = length (serialize_attribute a) \<and> bs = serialize_attribute a @ drop n bs"
    by (rule parse_attribute_inverse)
qed simp

section \<open>The attributes of a packet\<close>

lemma parse_serialize_attributes:
  "list_all attribute_fits as \<Longrightarrow> parse_attributes (concat (map serialize_attribute as)) = Inr as"
proof (induction as)
  case Nil
  show ?case by (simp add: parse_attributes.simps)
next
  case (Cons a as)
  have "serialize_attribute a \<noteq> []" using attr.enc_nonempty by fastforce
  then show ?case
    using Cons attr.dec_enc [of a "concat (map serialize_attribute as)"] by (subst parse_attributes.simps) simp
qed

lemma parse_attributes_inverse:
  "parse_attributes d = Inr as \<Longrightarrow> d = concat (map serialize_attribute as) \<and> list_all attribute_fits as"
proof (induction d arbitrary: as rule: parse_attributes.induct)
  case (1 d)
  show ?case
  proof (cases "d = []")
    case True
    then show ?thesis using "1.prems" by (simp add: parse_attributes.simps)
  next
    case False
    obtain a n rest where p: "parse_attribute d = Inr (a, n)" "parse_attributes (drop n d) = Inr rest" "as = a # rest"
      using "1.prems" False by (subst (asm) parse_attributes.simps) (auto split: sum.splits)
    have "drop n d = concat (map serialize_attribute rest) \<and> list_all attribute_fits rest"
      using "1.IH" [OF False p(1) refl] p(2) by blast
    then show ?thesis using attr.enc_dec [OF p(1)] p(3) by (metis (no_types, lifting) concat.simps(2) list.simps(9) list.pred_inject(2))
  qed
qed

lemma parse_attributes_no_panic: "parse_attributes d \<noteq> Inl (RadiusPanic e)"
proof (induction d rule: parse_attributes.induct)
  case (1 d)
  have "parse_attribute d \<noteq> Inl (RadiusPanic e)"
    by (simp add: parse_attribute_eq)
  then show ?case using "1.IH" by (subst parse_attributes.simps) (auto split: sum.splits)
qed

section \<open>Packets\<close>

definition attribute_bytes :: "Packet \<Rightarrow> byte list" where
  "attribute_bytes p = concat (map serialize_attribute (pkAttributes p))"

definition packet_fits :: "Packet \<Rightarrow> bool" where
  "packet_fits p \<longleftrightarrow> length (pkAuthenticator p) = 16 \<and> list_all attribute_fits (pkAttributes p) \<and> 20 + length (attribute_bytes p) < 2 ^ 16"

definition front_bytes :: "Packet \<Rightarrow> byte list" where
  "front_bytes p = [pkCode p, pkIdentifier p] @ PutUint16 (of_nat (20 + length (attribute_bytes p)))"

text \<open>What stands in the authenticator field: the digest that proves the secret in a response, the packet's own otherwise.\<close>

definition sent_authenticator :: "(byte list \<Rightarrow> byte list) \<Rightarrow> Packet \<Rightarrow> byte list" where
  "sent_authenticator md5 p = (if is_response p
     then md5 (front_bytes p @ pkAuthenticator p @ attribute_bytes p @ bytes_of_string (pkSecret p)) else pkAuthenticator p)"

lemma Serialize_eq: "Serialize md5 p = front_bytes p @ sent_authenticator md5 p @ attribute_bytes p"
  by (simp add: Serialize_def front_bytes_def sent_authenticator_def attribute_bytes_def Let_def)

text \<open>What the parser makes of a packet whose length field is right, whatever its attributes.\<close>

lemma Radius_Parse_front:
  assumes "length au = 16" and "20 + length body < 2 ^ 16"
  shows "Radius_Parse ([c, i] @ PutUint16 (of_nat (20 + length body)) @ au @ body @ rest) secret =
    bind_result (parse_attributes body) (\<lambda>as.
      Inr \<lparr>pkCode = c, pkIdentifier = i, pkAuthenticator = au, pkAttributes = as, pkSecret = secret\<rparr>)"
proof -
  let ?l = "of_nat (20 + length body) :: u16"
  let ?d = "[c, i] @ PutUint16 ?l @ au @ body @ rest"
  have l: "unat ?l = 20 + length body" using assms(2) by (simp only: unat_of_nat) simp
  have w: "length (PutUint16 ?l) = 2" by simp
  have s: "slice ?d 2 4 = Inr (PutUint16 ?l)" "slice ?d 4 20 = Inr au" "slice ?d 20 (unat ?l) = Inr body"
    using assms(1) w unfolding l slice_def by simp_all
  have "Uint16 (PutUint16 ?l) = Inr ?l" by (rule be16.get_put_exact)
  moreover have "length ?d = 20 + length body + length rest" using assms(1) w by simp
  ultimately show ?thesis
    unfolding Radius_Parse_def s using l by simp
qed

lemma radius_roundtrip_lemma:
  assumes "packet_fits p" and "\<forall>x. length (md5 x) = 16"
  shows "Radius_Parse (Serialize md5 p @ rest) (pkSecret p) = Inr (p\<lparr>pkAuthenticator := sent_authenticator md5 p\<rparr>)"
proof -
  have "length (sent_authenticator md5 p) = 16" using assms by (simp add: sent_authenticator_def packet_fits_def)
  moreover have "parse_attributes (attribute_bytes p) = Inr (pkAttributes p)"
    using assms(1) parse_serialize_attributes by (simp add: packet_fits_def attribute_bytes_def)
  ultimately show ?thesis
    using Radius_Parse_front [of "sent_authenticator md5 p" "attribute_bytes p" "pkCode p" "pkIdentifier p" rest "pkSecret p"] assms(1)
    by (simp add: Serialize_eq front_bytes_def packet_fits_def)
qed

text \<open>
  C35: a packet that fits, with every attribute within its length byte and the whole within the length field, parses back from what is sent for
  it, whatever follows it in the datagram: the code, the identifier, the attributes in order, and in a response the digest over the
  request's authenticator and the shared secret, for any digest of 16 bytes. (A longer attribute makes the packet unreadable.)
\<close>

theorem radius_roundtrip:
  assumes "packet_fits p" and "\<forall>x. length (md5 x) = 16"
  shows "Radius_Parse (Serialize md5 p @ rest) (pkSecret p) = Inr (p\<lparr>pkAuthenticator := sent_authenticator md5 p\<rparr>)"
  by (rule radius_roundtrip_lemma [OF assms])

text \<open>
  C36: no datagram makes the parser panic, and of the packets it accepts there is one spelling only: serializing a request gives back
  the bytes it was read from, up to what follows the packet in the datagram.
\<close>

theorem radius_parse_canonical:
  "case Radius_Parse data secret of
     Inl err \<Rightarrow> \<forall>e. err \<noteq> RadiusPanic e
   | Inr p \<Rightarrow> packet_fits p \<and> (is_response p \<or> (\<exists>rest. data = Serialize md5 p @ rest))"
proof (cases "20 \<le> length data")
  case False
  then show ?thesis by (simp add: Radius_Parse_def)
next
  case True
  then have ne: "data \<noteq> []" "1 < length data" by auto
  obtain l where l: "Uint16 (take 2 (drop 2 data)) = Inr l"
    using be16.get_total [of "take 2 (drop 2 data)"] True by auto
  have pl: "PutUint16 l = take 2 (drop 2 data)" using be16.put_get_take [OF _ l] True by simp
  show ?thesis
  proof (cases "20 \<le> unat l \<and> unat l \<le> length data")
    case False
    then show ?thesis using True l ne by (auto simp: Radius_Parse_def slice_def)
  next
    case bounds: True
    let ?body = "take (unat l - 20) (drop 20 data)"
    have r: "Radius_Parse data secret = bind_result (parse_attributes ?body) (\<lambda>as. Inr \<lparr>pkCode = data ! 0, pkIdentifier = data ! 1,
        pkAuthenticator = take 16 (drop 4 data), pkAttributes = as, pkSecret = secret\<rparr>)"
      using True l bounds ne by (simp add: Radius_Parse_def slice_def)
    show ?thesis
    proof (cases "parse_attributes ?body")
      case (Inl e)
      then show ?thesis using r parse_attributes_no_panic by fastforce
    next
      case (Inr as)
      then have as: "?body = concat (map serialize_attribute as)" "list_all attribute_fits as"
        using parse_attributes_inverse by blast+
      define p where "p = \<lparr>pkCode = data ! 0, pkIdentifier = data ! 1, pkAuthenticator = take 16 (drop 4 data), pkAttributes = as, pkSecret = secret\<rparr>"
      have ab: "attribute_bytes p = ?body" by (simp add: attribute_bytes_def p_def as(1))
      have lb: "20 + length ?body = unat l" using bounds by (auto simp: min_def)
      have "unat l < 2 ^ 16" using unsigned_less [of l] by simp
      then have fits: "packet_fits p" using True as(2) lb ab by (simp add: packet_fits_def p_def)
      have "take 2 data = [data ! 0, data ! 1]" using ne by (cases data; cases "tl data") auto
      moreover have "drop 2 data = take 2 (drop 2 data) @ drop 4 data" using append_take_drop_id [of 2 "drop 2 data"] by simp
      moreover have "drop 4 data = take 16 (drop 4 data) @ drop 20 data" using append_take_drop_id [of 16 "drop 4 data"] by simp
      moreover have "drop 20 data = ?body @ drop (unat l) data"
        using append_take_drop_id [of "unat l - 20" "drop 20 data"] bounds by simp
      ultimately have "data = [data ! 0, data ! 1] @ take 2 (drop 2 data) @ take 16 (drop 4 data) @ ?body @ drop (unat l) data"
        by (metis append_take_drop_id)
      then have "\<not> is_response p \<Longrightarrow> data = Serialize md5 p @ drop (unat l) data"
        unfolding Serialize_eq sent_authenticator_def front_bytes_def ab lb by (simp add: p_def pl)
      then show ?thesis using r Inr fits by (auto simp: p_def)
    qed
  qed
qed

lemma parse_attributes_stops:
  assumes "list_all attribute_fits as" and "parse_attribute bad = Inl e" and "bad \<noteq> []"
  shows "parse_attributes (concat (map serialize_attribute as) @ bad) = Inl e"
  using assms(1)
proof (induction as)
  case Nil
  then show ?case using assms(2,3) by (simp add: parse_attributes.simps)
next
  case (Cons a as)
  have "serialize_attribute a \<noteq> []" using attr.enc_nonempty by fastforce
  then show ?case
    using Cons attr.dec_enc [of a "concat (map serialize_attribute as) @ bad"] by (subst parse_attributes.simps) simp
qed

text \<open>
  A value of 254 or 255 bytes, which a Diameter AVP may have, wraps the length byte of its attribute, and the whole packet is one
  that a RADIUS client has to discard.
\<close>

theorem long_attribute_breaks_packet:
  assumes "pkAttributes p = as @ \<lparr>atType = t, atValue = v\<rparr> # bs" and "list_all attribute_fits as" and "length v \<in> {254, 255}"
    and "length (pkAuthenticator p) = 16" and "20 + length (attribute_bytes p) < 2 ^ 16" and "\<forall>x. length (md5 x) = 16"
  shows "Radius_Parse (Serialize md5 p) secret = Inl (InvalidAttributeLength t (length v - 254))"
proof -
  let ?bad = "serialize_attribute \<lparr>atType = t, atValue = v\<rparr> @ concat (map serialize_attribute bs)"
  have ab: "attribute_bytes p = concat (map serialize_attribute as) @ ?bad" by (simp add: attribute_bytes_def assms(1))
  have "parse_attribute ?bad = Inl (InvalidAttributeLength t (length v - 254))"
    using assms(3) by (auto simp: parse_attribute_eq serialize_attribute_def)
  then have "parse_attributes (attribute_bytes p) = Inl (InvalidAttributeLength t (length v - 254))"
    unfolding ab using parse_attributes_stops [OF assms(2)] by (simp add: serialize_attribute_def)
  moreover have "length (sent_authenticator md5 p) = 16" using assms(4,6) by (simp add: sent_authenticator_def)
  ultimately show ?thesis
    using Radius_Parse_front [of "sent_authenticator md5 p" "attribute_bytes p" "pkCode p" "pkIdentifier p" "[]" secret] assms(5)
    by (simp add: Serialize_eq front_bytes_def)
qed

section \<open>A concrete packet\<close>

definition sample_packet :: Packet where
  "sample_packet = \<lparr>pkCode = CodeAccessAccept, pkIdentifier = 7, pkAuthenticator = replicate 16 9,
     pkAttributes = [\<lparr>atType = 1, atValue = bytes_of_string ''bob''\<rparr>], pkSecret = ''s3cret''\<rparr>"

theorem radius_roundtrip_witness:
  "Radius_Parse (Serialize (\<lambda>x. replicate 16 (of_nat (length x))) sample_packet) ''s3cret'' =
     Inr (sample_packet\<lparr>pkAuthenticator := replicate 16 31\<rparr>)"
proof -
  have "packet_fits sample_packet"
    by (simp add: packet_fits_def sample_packet_def attribute_fits_def attribute_bytes_def)
  from radius_roundtrip [OF this, of "\<lambda>x. replicate 16 (of_nat (length x))" "[]"] show ?thesis
    by (simp add: sent_authenticator_def is_response_def) (simp add: sample_packet_def front_bytes_def attribute_bytes_def)
qed

theorem long_attribute_breaks_packet_witness:
  "Radius_Parse (Serialize (\<lambda>x. replicate 16 0)
      (sample_packet\<lparr>pkAttributes := [\<lparr>atType = 18, atValue = replicate 254 65\<rparr>]\<rparr>)) ''s3cret'' = Inl (InvalidAttributeLength 18 0)"
  using long_attribute_breaks_packet [of "sample_packet\<lparr>pkAttributes := [\<lparr>atType = 18, atValue = replicate 254 65\<rparr>]\<rparr>" "[]" 18
      "replicate 254 65" "[]" "\<lambda>x. replicate 16 0" "''s3cret''"]
  by (simp add: attribute_bytes_def sample_packet_def)

end
