(* ===== verification/App_Radgw_Properties.thy ===== *)
theory App_Radgw_Properties
  imports App_Radgw Radius_Properties
begin

text \<open>
  The gateway answers the client that asked, with the identifier and the digest its request calls for, and once. What it makes
  of two peers whose hop-by-hop identifiers agree, of failed accounting, and of an accounting answer follows.
\<close>

section \<open>From the datagram to the pending request\<close>

text \<open>The router's choice for the request of a packet: an open path to peer \<open>p\<close>, whose next identifier is \<open>h\<close>.\<close>

definition routed_to :: "renv \<Rightarrow> router \<Rightarrow> LocalConfig \<Rightarrow> int \<Rightarrow> string \<Rightarrow> Packet \<Rightarrow> appRadGW \<Rightarrow> world \<Rightarrow> peer_ref \<Rightarrow> HopByHopID \<Rightarrow> bool" where
  "routed_to e r local now addr pkt s w ref h \<longleftrightarrow> pkCode pkt \<in> {CodeAccessRequest, CodeAccountingRequest} \<and>
     (case RouteOut e r w (gateway_request local s now addr pkt) of
        (_, Inl _, _) \<Rightarrow> False
      | (m, Inr hop, w) \<Rightarrow> LookupPeer r hop = Some ref \<and> (case objects w ref of
          FullPeer p \<Rightarrow> h = hopByHopID p + 1 \<and>
            (\<exists>w'. object_send ref (m\<lparr>mHopByHopID := h, mEndToEndID := of_int now\<rparr>) (set_object ref (FullPeer (p\<lparr>hopByHopID := h\<rparr>)) w) = (Inr (), w'))
        | _ \<Rightarrow> False))"

lemma routed_pending:
  assumes "routed_to e r local now addr pkt s w ref h"
  shows "pendingRequests (fst (handleRadiusRequest e r local now addr pkt s w)) =
      AList.update h (pending_of_packet now addr pkt) (pendingRequests s)"
    and "sharedSecret (fst (handleRadiusRequest e r local now addr pkt s w)) = sharedSecret s"
  using assms unfolding routed_to_def handleRadiusRequest_def
  by (auto simp: send_pending_def NextHopByHopID_def Let_def split: prod.splits sum.splits peer_obj.splits)

section \<open>From the answer to the datagram\<close>

lemma gateway_response_eq: "gateway_response s req m code = \<lparr>pkCode = code, pkIdentifier = prId req, pkAuthenticator = prAuthenticator req,
    pkAttributes = radius_attributes m, pkSecret = sharedSecret s\<rparr>"
proof -
  have "fold (\<lambda>a p. AddAttribute p (atType a) (atValue a)) as p = p\<lparr>pkAttributes := pkAttributes p @ as\<rparr>" for as p
    by (induction as arbitrary: p) (simp_all add: AddAttribute_def)
  then show ?thesis by (simp add: gateway_response_def Let_def)
qed

lemma answered_once:
  assumes "map_of (pendingRequests s) (mHopByHopID a) = Some req" and "\<not> IsRequest a" and "radius_code a = Some c"
  shows "handleDiameterAnswer md5 a s = (Some (prAddr req, Serialize md5 (gateway_response s req a c)),
      s\<lparr>pendingRequests := AList.delete (mHopByHopID a) (pendingRequests s)\<rparr>)"
    and "fst (handleDiameterAnswer md5 a (snd (handleDiameterAnswer md5 a s))) = None"
  using assms by (simp_all add: handleDiameterAnswer_def gateway_response_def Let_def delete_conv')

text \<open>
  C37: a RADIUS request that was placed is answered to the address it came from. Whatever happens to other requests in between, as long as
  the pending entry under the Hop-by-Hop identifier it was given is still its own (another peer's request with the same number would
  replace it) and the shared secret is the same: when an answer with that identifier and a RADIUS code reaches the gateway's handler, and
  the response fits its length fields, it parses, carries the request's identifier, the AVPs of the answer as attributes, and the digest
  over the request's authenticator and the shared secret; the same answer again is ignored.
\<close>

theorem gateway_answers_the_client:
  assumes "routed_to e r local now addr pkt s w ref h" and "mHopByHopID a = h" and "\<not> IsRequest a" and "radius_code a = Some c"
    and "map_of (pendingRequests s2) h = map_of (pendingRequests (fst (handleRadiusRequest e r local now addr pkt s w))) h"
    and "sharedSecret s2 = sharedSecret s"
    and "packet_fits (gateway_response s (pending_of_packet now addr pkt) a c)" and "\<forall>x. length (md5 x) = 16"
  shows "\<exists>data s'. handleDiameterAnswer md5 a s2 = (Some (addr, data), s') \<and>
    Radius_Parse data (sharedSecret s) = Inr \<lparr>pkCode = c, pkIdentifier = pkIdentifier pkt,
      pkAuthenticator = sent_authenticator md5 (gateway_response s (pending_of_packet now addr pkt) a c),
      pkAttributes = radius_attributes a, pkSecret = sharedSecret s\<rparr> \<and>
    fst (handleDiameterAnswer md5 a s') = None"
proof -
  let ?q = "pending_of_packet now addr pkt"
  have q: "map_of (pendingRequests s2) (mHopByHopID a) = Some ?q"
    using routed_pending(1) [OF assms(1)] assms(2,5) by (simp add: update_conv')
  have g: "gateway_response s2 ?q a c = gateway_response s ?q a c"
    using assms(6) by (simp add: gateway_response_eq)
  show ?thesis
    using answered_once [OF q assms(3,4), of md5] radius_roundtrip_lemma [OF assms(7,8), of "[]"]
    by (simp add: g) (simp add: gateway_response_eq pending_of_packet_def)
qed

text \<open>
  Hop-by-hop identifiers are counted by each peer on its own, and the pending requests are kept under them alone: when the next
  requests to two peers get the same number, the answer of the first peer goes to the second client, and the first gets none.
\<close>

theorem answer_goes_to_the_wrong_client:
  assumes "routed_to e r local now addr pkt s w ref h"
    and "routed_to e r local now' addr' pkt' (fst (handleRadiusRequest e r local now addr pkt s w))
      (snd (handleRadiusRequest e r local now addr pkt s w)) ref' h"
    and "mHopByHopID a = h" and "\<not> IsRequest a" and "radius_code a = Some c"
  shows "case handleRadiusRequest e r local now addr pkt s w of (s1, w1) \<Rightarrow>
    case handleRadiusRequest e r local now' addr' pkt' s1 w1 of (s2, _) \<Rightarrow>
      \<exists>data s3. handleDiameterAnswer md5 a s2 = (Some (addr', data), s3) \<and> fst (handleDiameterAnswer md5 a s3) = None"
proof -
  let ?r1 = "handleRadiusRequest e r local now addr pkt s w"
  let ?s2 = "fst (handleRadiusRequest e r local now' addr' pkt' (fst ?r1) (snd ?r1))"
  have "map_of (pendingRequests ?s2) (mHopByHopID a) = Some (pending_of_packet now' addr' pkt')"
    using routed_pending(1) [OF assms(2)] assms(3) by (simp add: update_conv')
  from answered_once [OF this assms(4,5), of md5] show ?thesis by (simp add: split_beta pending_of_packet_def)
qed

text \<open>A failed accounting request is not answered at all, and its pending entry is gone.\<close>

theorem failed_accounting_is_silent:
  assumes "\<not> IsRequest a" and "mCommandCode a \<noteq> 265" and "GetResultCode a = Some c" and "c \<noteq> ResultSuccess"
  shows "fst (handleDiameterAnswer md5 a s) = None \<and> map_of (pendingRequests (snd (handleDiameterAnswer md5 a s))) (mHopByHopID a) = None"
  using assms by (auto simp: handleDiameterAnswer_def radius_code_def Let_def delete_conv' split: option.split)

text \<open>
  Accounting requests go out as application 3, but the handler is registered for NASREQ (1): whatever handler the gateway has, it
  plays no part in what becomes of the answer to an accounting request.
\<close>

theorem accounting_answers_pass_the_gateway_by:
  assumes "mApplicationID a = mApplicationID (gateway_request local s now addr pkt)" and "pkCode pkt = CodeAccountingRequest"
  shows "fst (dispatch (RadGW_register h r) w p a) = fst (dispatch r w p a)"
proof -
  have f: "mApplicationID (fold (\<lambda>a m. AddAVP m (translate_attribute a)) as m) = mApplicationID m" for as m
    by (induction as arbitrary: m) simp_all
  have "mApplicationID a = AppIDBaseAccounting"
    using assms by (simp add: gateway_request_def Let_def f NewRequest_def NewMessage_def)
  then show ?thesis
    by (simp add: dispatch_def Let_def RadGW_register_def RegisterDispatchHandler_def RegisterDispatchHandlerWithOwner_def bump_def
        split: option.split)
qed

section \<open>A concrete client\<close>

definition gw_local :: LocalConfig where
  "gw_local = \<lparr>lDiameterIdentity = ''gw.example'', lRealm = ''example'', lVendorID = 0, ProductName = ''godiam'', FirmwareRevision = 1,
     OriginStateID = 1, HostIPAddresses = [], AuthAppIDs = [1], AcctAppIDs = [3]\<rparr>"

definition gw_state :: appRadGW where
  "gw_state = \<lparr>radiusPort = 1812, sharedSecret = ''s3cret'', gwDestRealm = ''home'', pendingRequests = []\<rparr>"

definition gw_packet :: Packet where
  "gw_packet = \<lparr>pkCode = CodeAccessRequest, pkIdentifier = 7, pkAuthenticator = replicate 16 9,
     pkAttributes = [\<lparr>atType = 1, atValue = bytes_of_string ''bob''\<rparr>], pkSecret = ''s3cret''\<rparr>"

definition gw_router :: router where
  "gw_router = sample_router\<lparr>peerLookup := Some (\<lambda>_. Some 0)\<rparr>"

definition gw_request :: message where
  "gw_request = gateway_request gw_local gw_state 1000 ''10.0.0.1:5000'' gw_packet"

definition gw_answer :: message where
  "gw_answer = AddAVP ((NewAnswer gw_request)\<lparr>mHopByHopID := 1\<rparr>) (NewUnsigned32AVP AVPCodeResultCode AVPFlagMandatory ResultSuccess)"

lemma gw_request_simps: "GetDestinationHost gw_request = None" "GetDestinationRealm gw_request = Some ''home''"
    "mApplicationID gw_request = 1" "mCommandCode gw_request = 265"
  by (simp_all add: gw_request_def gateway_request_def gw_packet_def gw_state_def translate_attribute_def NewAVP_def Let_def
      GetDestinationHost_def GetDestinationRealm_def identity_of_def FindAVP_def avp_matches_def NewRequest_def NewMessage_def)

lemma gw_candidates: "buildCandidates gw_router w gw_request =
    [\<lparr>PeerIdentity = ''hss1'', Score = 100, Reason = ''realm route for home''\<rparr>,
     \<lparr>PeerIdentity = ''hss2'', Score = 100, Reason = ''realm route for home''\<rparr>]"
  by (simp add: gw_router_def buildCandidates_def gw_request_simps target_realm_def realm_candidates_def sample_router_fields
      entries_def Let_def)

lemma gw_routed: "routed_to sample_renv gw_router gw_local 1000 ''10.0.0.1:5000'' gw_packet gw_state sample_world 0 1"
proof -
  have o: "outHandlers gw_router = []" "LookupPeer gw_router x = Some 0" for x
    by (simp_all add: gw_router_def sample_router_fields LookupPeer_def)
  have "fst (firePostRouteHandlers gw_router x m w) = m" for x m w
    by (rule firePostRouteHandlers_pure) (use sample_pure(2) in \<open>simp add: pure_handlers_def gw_router_def\<close>)
  then have f: "firePostRouteHandlers gw_router x m w = (m, w\<lparr>postRouted := postRouted w @ map (\<lambda>h. (pName h, x)) (postRouteHandlers gw_router)\<rparr>)"
    for x m w using firePostRouteHandlers_world by (metis prod.collapse)
  have "\<exists>hop k l. RouteOut sample_renv gw_router sample_world gw_request = (gw_request, Inr hop, sample_world\<lparr>randCalls := k, postRouted := l\<rparr>)"
    by (simp add: RouteOut_def RouteOutWithExclusion_def gw_candidates o f by_score_def tier_choices_def sample_renv_def sample_world_def split_beta)
  then obtain hop k l where r: "RouteOut sample_renv gw_router sample_world gw_request = (gw_request, Inr hop, sample_world\<lparr>randCalls := k, postRouted := l\<rparr>)"
    by blast
  have h: "hopByHopID sample_open = 0" "objects (sample_world\<lparr>randCalls := k, postRouted := l\<rparr>) 0 = FullPeer sample_open"
    by (simp_all add: sample_open_def New_def sample_world_def)
  have "fst (object_send 0 m (set_object 0 (FullPeer (sample_open\<lparr>hopByHopID := 1\<rparr>)) w)) = Inr ()" for m w
    by (simp add: object_send_def set_object_def Let_def Send_def IsOpen_def sample_open_def New_def trackPending_def track_def
        split: prod.split)
  then have s: "\<exists>w'. object_send 0 m (set_object 0 (FullPeer (sample_open\<lparr>hopByHopID := 1\<rparr>)) w) = (Inr (), w')" for m w
    by (metis prod.collapse)
  show ?thesis
    using r h s o by (simp add: routed_to_def gw_request_def [symmetric]) (simp add: gw_packet_def)
qed

theorem gateway_answers_the_client_witness:
  "\<exists>data s'. handleDiameterAnswer (\<lambda>x. replicate 16 0) gw_answer
      (fst (handleRadiusRequest sample_renv gw_router gw_local 1000 ''10.0.0.1:5000'' gw_packet gw_state sample_world)) =
    (Some (''10.0.0.1:5000'', data), s') \<and>
    Radius_Parse data ''s3cret'' = Inr \<lparr>pkCode = CodeAccessAccept, pkIdentifier = 7, pkAuthenticator = replicate 16 0,
      pkAttributes = radius_attributes gw_answer, pkSecret = ''s3cret''\<rparr> \<and>
    fst (handleDiameterAnswer (\<lambda>x. replicate 16 0) gw_answer s') = None"
proof -
  have a: "mHopByHopID gw_answer = 1" "\<not> IsRequest gw_answer" "radius_code gw_answer = Some CodeAccessAccept" "radius_attributes gw_answer = []"
    using NewAnswer_not_request [of gw_request]
    by (simp_all add: gw_answer_def IsRequest_def radius_code_def GetResultCode_def unsigned32_of_def FindAVP_def avp_matches_def
        gw_request_simps radius_attributes_def)
  have "packet_fits (gateway_response gw_state (pending_of_packet 1000 ''10.0.0.1:5000'' gw_packet) gw_answer CodeAccessAccept)"
    by (simp add: gateway_response_eq packet_fits_def attribute_bytes_def a(4) pending_of_packet_def) (simp add: gw_packet_def)
  from gateway_answers_the_client [OF gw_routed a(1-3) refl routed_pending(2) [OF gw_routed] this, of "\<lambda>x. replicate 16 0"] show ?thesis
    by (simp add: sent_authenticator_def is_response_def gateway_response_eq a(4)) (simp add: gw_state_def gw_packet_def)
qed

end
