(* ===== verification/App_Answers_Properties.thy ===== *)
theory App_Answers_Properties
  imports App_Answers
begin

text \<open>
  The contract of an application handler as a locale, \<open>answering_app\<close>: what it answers belongs to the request and names this node.
  All the applications are interpretations of it. The redirect agent follows.
\<close>

section \<open>The contract\<close>

definition proper_answer :: "LocalConfig \<Rightarrow> message \<Rightarrow> message \<Rightarrow> bool" where
  "proper_answer local req a \<longleftrightarrow> \<not> IsRequest a \<and> mHopByHopID a = mHopByHopID req \<and> mEndToEndID a = mEndToEndID req \<and>
     mCommandCode a = mCommandCode req \<and> mApplicationID a = mApplicationID req \<and>
     GetResultCode a = Some ResultSuccess \<and> GetSessionID a = GetSessionID req \<and>
     GetOriginHost a = Some (lDiameterIdentity local) \<and> GetOriginRealm a = Some (lRealm local)"

locale answering_app =
  fixes handler :: app_handler
  assumes answers_properly: "IsRequest req \<Longrightarrow> handler local req = Some a \<Longrightarrow> proper_answer local req a"
begin

text \<open>An answer is never answered; a request gets the handler's answer, on the very peer it came from, or the send's error.\<close>

lemma no_answer_to_answers: "\<not> IsRequest m \<Longrightarrow> answering handler local m p = (Inr (), p)"
  by (simp add: answering_def)

lemma answered:
  assumes "IsRequest m" and "answering handler local m p = (res, p')"
  shows "(handler local m = None \<and> p' = p) \<or> (\<exists>a. handler local m = Some a \<and> proper_answer local m a \<and> Send a p = (res, p'))"
  using assms answers_properly by (auto simp: answering_def split: option.splits)

end

section \<open>The common beginning\<close>

lemma success_answer_avps:
  "AVPs (success_answer local req) = NewUnsigned32AVP AVPCodeResultCode AVPFlagMandatory ResultSuccess #
     (case GetSessionID req of None \<Rightarrow> [] | Some i \<Rightarrow> [NewUTF8StringAVP AVPCodeSessionID AVPFlagMandatory i]) @
     [NewDiameterIdentityAVP AVPCodeOriginHost AVPFlagMandatory (lDiameterIdentity local),
      NewDiameterIdentityAVP AVPCodeOriginRealm AVPFlagMandatory (lRealm local)]"
  by (simp add: success_answer_def addAnswerIdentity_def add_origin_def add_session_def SetResultCode_def FindAVP_def
      split: option.split)

lemma success_answer_frame:
  "\<not> IsRequest (success_answer local req)" "mHopByHopID (success_answer local req) = mHopByHopID req"
  "mEndToEndID (success_answer local req) = mEndToEndID req" "mCommandCode (success_answer local req) = mCommandCode req"
  "mApplicationID (success_answer local req) = mApplicationID req"
  by (simp_all add: success_answer_def addAnswerIdentity_def add_origin_def add_session_def split: option.split)

text \<open>More AVPs at the end do no harm, as long as they are no second Session-Id.\<close>

definition extends :: "message \<Rightarrow> message \<Rightarrow> bool" where
  "extends a b \<longleftrightarrow> (\<exists>extra. a = b\<lparr>AVPs := AVPs b @ extra\<rparr> \<and> (\<forall>x \<in> set extra. aCode x \<noteq> AVPCodeSessionID))"

lemma extends_refl [intro, simp]: "extends a a"
  unfolding extends_def by (rule exI [of _ "[]"]) simp

lemma extends_AddAVP [simp]: "extends a b \<Longrightarrow> aCode x \<noteq> AVPCodeSessionID \<Longrightarrow> extends (AddAVP a x) b"
  unfolding extends_def AddAVP_def by (elim exE conjE, rule_tac x = "extra @ [x]" in exI) auto

lemma extends_copy [simp]: "extends a b \<Longrightarrow> code \<noteq> AVPCodeSessionID \<Longrightarrow> extends (copy_avp code req a) b"
  by (auto simp: copy_avp_def FindAVP_def find_Some_iff avp_matches_def split: option.split)

lemma extends_fold [simp]: "extends a b \<Longrightarrow> \<forall>x \<in> set xs. aCode x \<noteq> AVPCodeSessionID \<Longrightarrow> extends (fold (\<lambda>x a. AddAVP a x) xs a) b"
  by (induction xs arbitrary: a) (simp_all add: extends_AddAVP)

lemma extends_proper:
  assumes "extends a (success_answer local req)"
  shows "proper_answer local req a"
proof -
  obtain extra where a: "a = (success_answer local req)\<lparr>AVPs := AVPs (success_answer local req) @ extra\<rparr>"
      "\<forall>x \<in> set extra. aCode x \<noteq> AVPCodeSessionID" using assms by (auto simp: extends_def)
  have n: "List.find (avp_matches AVPCodeSessionID 0) extra = None" using a(2) by (simp add: find_None_iff avp_matches_def)
  have s: "\<forall>i. GetUTF8String (NewUTF8StringAVP c f i) = i" for c f by (simp add: NewUTF8StringAVP_def NewAVP_def GetUTF8String_def)
  note f = success_answer_frame [of local req]
  have i: "IsRequest a = IsRequest (success_answer local req)" by (simp add: a(1) IsRequest_def)
  show ?thesis
    unfolding proper_answer_def i using f n s
    by (simp add: a(1) GetResultCode_def unsigned32_of_def GetSessionID_def GetOriginHost_def GetOriginRealm_def identity_of_def
        FindAVP_def success_answer_avps avp_matches_def split: option.split)
qed

lemma copied_code: "aCode (vendor_application app) \<noteq> AVPCodeSessionID" "aCode (vendor_avp a) = aCode a" "aCode subscription_data \<noteq> AVPCodeSessionID"
  by (simp_all add: vendor_application_def NewGroupedAVP_def vendor_avp_def subscription_data_def, cases a, simp)

section \<open>The applications\<close>

lemma handlers_extend:
  "handleAccounting local req = Some a \<Longrightarrow> extends a (success_answer local req)"
  "handleCreditControl local req = Some a \<Longrightarrow> extends a (success_answer local req)"
  "handleEAP local req = Some a \<Longrightarrow> extends a (success_answer local req)"
  "handleSIP local req = Some a \<Longrightarrow> extends a (success_answer local req)"
  "handleNASREQ local req = Some a \<Longrightarrow> extends a (success_answer local req)"
  "test_answer app local req = Some a \<Longrightarrow> extends a (success_answer local req)"
  by (auto simp: handleAccounting_def handleCreditControl_def handleEAP_def handleSIP_def handleNASREQ_def test_answer_def)

lemma handlers_3gpp_extend:
  "handleGx local req = Some a \<Longrightarrow> extends a (success_answer local req)"
  "handleCx local req = Some a \<Longrightarrow> extends a (success_answer local req)"
  "handleS6a local req = Some a \<Longrightarrow> extends a (success_answer local req)"
  using copied_code
  by (auto simp: handleGx_def handleCx_def handleUAR_def handleS6a_def handleULR_def handleAIR_def NewGroupedAVP_def split: if_splits)

interpretation acct: answering_app handleAccounting by unfold_locales (rule extends_proper, rule handlers_extend)
interpretation cc: answering_app handleCreditControl by unfold_locales (rule extends_proper, rule handlers_extend)
interpretation eap: answering_app handleEAP by unfold_locales (rule extends_proper, rule handlers_extend)
interpretation sip: answering_app handleSIP by unfold_locales (rule extends_proper, rule handlers_extend)
interpretation nasreq: answering_app handleNASREQ by unfold_locales (rule extends_proper, rule handlers_extend)
interpretation testapp: answering_app "test_answer app" by unfold_locales (rule extends_proper, rule handlers_extend)
interpretation gx: answering_app handleGx by unfold_locales (rule extends_proper, rule handlers_3gpp_extend)
interpretation cx: answering_app handleCx by unfold_locales (rule extends_proper, rule handlers_3gpp_extend)
interpretation s6a: answering_app handleS6a by unfold_locales (rule extends_proper, rule handlers_3gpp_extend)

text \<open>The handlers \<open>Init\<close> registers, with the application each is registered for.\<close>

definition app_handlers :: "(ApplicationID \<times> app_handler) list" where
  "app_handlers = [(AppIDBaseAccounting, handleAccounting), (AppIDCreditControl, handleCreditControl), (AppIDEAP, handleEAP),
     (AppIDSIP, handleSIP), (AppIDNASREQ, handleNASREQ), (AppID3GPPGx, handleGx), (AppID3GPPCx, handleCx), (AppID3GPPS6a, handleS6a)]"

lemma app_handlers_answer: "(app, handler) \<in> set app_handlers \<Longrightarrow> answering_app handler"
  using acct.answering_app_axioms cc.answering_app_axioms eap.answering_app_axioms sip.answering_app_axioms nasreq.answering_app_axioms
    gx.answering_app_axioms cx.answering_app_axioms s6a.answering_app_axioms
  by (auto simp: app_handlers_def)

text \<open>
  C38: whatever request one of the eight application extensions or \<open>test_app\<close> answers, the answer goes to the peer it came from, carries its
  identifiers, command and Session-Id, reports success and names this node; a message that is an answer itself is never answered. (The
  redirect agent, whose answers are errors without a Session-Id, is not among them.)
\<close>

theorem app_answers_are_proper:
  assumes "(app, handler) \<in> set app_handlers \<or> handler = test_answer app" and "answering handler local m p = (res, p')"
  shows "if IsRequest m
    then (handler local m = None \<and> p' = p) \<or> (\<exists>a. handler local m = Some a \<and> proper_answer local m a \<and> Send a p = (res, p'))
    else res = Inr () \<and> p' = p"
proof (cases "IsRequest m")
  case True
  have "answering_app handler" using assms(1) app_handlers_answer testapp.answering_app_axioms by blast
  then show ?thesis using answering_app.answered [OF _ True assms(2)] True by simp
next
  case False
  then show ?thesis using assms(2) by (simp add: answering_def)
qed

definition app_local :: LocalConfig where
  "app_local = \<lparr>lDiameterIdentity = ''ocs.example'', lRealm = ''example'', lVendorID = 0, ProductName = ''godiam'', FirmwareRevision = 1,
     OriginStateID = 1, HostIPAddresses = [], AuthAppIDs = [4], AcctAppIDs = []\<rparr>"

theorem app_answers_are_proper_witness:
  "\<exists>a. handleCreditControl app_local sample_request = Some a \<and> proper_answer app_local sample_request a \<and>
     Send a sample_open = answering handleCreditControl app_local sample_request sample_open"
proof -
  obtain res p' where r: "answering handleCreditControl app_local sample_request sample_open = (res, p')"
    by (cases "answering handleCreditControl app_local sample_request sample_open")
  have "(AppIDCreditControl, handleCreditControl) \<in> set app_handlers" by (simp add: app_handlers_def)
  from app_answers_are_proper [OF disjI1 [OF this] r] show ?thesis
    using sample_request_fields(3) r by (auto simp: handleCreditControl_def)
qed

text \<open>Requests the 3GPP handlers do not know get no answer at all.\<close>

theorem unknown_commands_are_not_answered:
  assumes "mCommandCode m \<noteq> CmdCodeCreditControl"
    and "mCommandCode m \<notin> {CmdCode3GPPUserAuthorization, CmdCode3GPPMultimediaAuthentication, CmdCode3GPPServerAssignment, CmdCode3GPPLocationInfo}"
    and "mCommandCode m \<notin> {CmdCode3GPPUpdateLocation, CmdCode3GPPAuthenticationInformation, CmdCode3GPPPurgeUE}"
    and "handler \<in> {handleGx, handleCx, handleS6a}"
  shows "answering handler local m p = (Inr (), p)"
  using assms by (auto simp: answering_def handleGx_def handleCx_def handleS6a_def)

text \<open>No answer of theirs brings back the Proxy-Info of the request, which the relays on the way need; only \<open>test_app\<close>'s does.\<close>

lemma proxy_info_of_answers:
  assumes "GetSessionID req = None"
  shows "FindAVP (success_answer local req) AVPCodeProxyInfo 0 = None"
  using assms by (simp add: FindAVP_def success_answer_avps avp_matches_def)

section \<open>The redirect agent\<close>

lemma int_elements: "\<forall>y \<in> set ys. \<exists>n. y = YInt n \<Longrightarrow> List.map_filter as_float ys = []"
  by (induction ys) (auto simp: List.map_filter_simps)

text \<open>
  An \<open>apps\<close> list of integers, which is what the configuration file's loader makes of numbers, is read as empty, and an empty list
  means every application: the node redirects all requests that are not for itself.
\<close>

theorem integer_apps_redirect_everything:
  assumes "map_of cfg ''redirect_host'' = Some (YString host)" and "host \<noteq> ''''"
    and "map_of cfg ''apps'' = Some (YSeq ys)" and "\<forall>y \<in> set ys. \<exists>n. y = YInt n"
    and "IsRequest m" and "GetDestinationHost m \<noteq> Some (lDiameterIdentity local)"
  shows "redirects local (snd (AppRedirect_Init cfg s)) m"
  using assms by (auto simp: AppRedirect_Init_def option_of_def redirects_def apps_listed_def int_elements split: option.split)

text \<open>A redirected request is answered by exactly one redirect indication and goes no further.\<close>

lemma redirected_request_is_consumed:
  assumes "redirects local s m" and "AppRedirect_handleRouting local s m cs p = (res, p')"
  shows "(res = Inl ErrConsumed \<and> Send (redirect_indication local s m) p = (Inr (), p')) \<or>
    (\<exists>err. res = Inl (SendError err) \<and> Send (redirect_indication local s m) p = (Inl err, p'))"
  using assms by (auto simp: AppRedirect_handleRouting_def split: prod.splits sum.splits)

end
