(* ===== verification/Rt_Rewrite.thy ===== *)
theory Rt_Rewrite
  imports Dict_Load Ext_Common Diam_Decode
begin

text \<open>
  Extension \<open>rt_rewrite\<close>: rules that drop an AVP or copy one AVP's value into another. The AVPs of a message are pointers, so the
  AVP a rule found is kept as the list of its positions (\<open>avp_at\<close>, \<open>update_at\<close>): what is written through one of two names for the
  same AVP is seen through the other. AVPs are only appended between finding and using a position, so it stays valid.
\<close>

section \<open>Positions in a message\<close>

fun find_index :: "('a \<Rightarrow> bool) \<Rightarrow> 'a list \<Rightarrow> nat option" where
  "find_index P [] = None"
| "find_index P (x # xs) = (if P x then Some 0 else map_option Suc (find_index P xs))"

fun avp_at :: "avp list \<Rightarrow> nat list \<Rightarrow> avp option" where
  "avp_at as [] = None"
| "avp_at as [i] = (if i < length as then Some (as ! i) else None)"
| "avp_at as (i # is) = (if i < length as then avp_at (aChildren (as ! i)) is else None)"

fun on_children :: "(avp list \<Rightarrow> avp list) \<Rightarrow> avp \<Rightarrow> avp" where
  "on_children g (AVP c f v d cs) = AVP c f v d (g cs)"

fun update_at :: "nat list \<Rightarrow> (avp \<Rightarrow> avp) \<Rightarrow> avp list \<Rightarrow> avp list" where
  "update_at [] f as = as"
| "update_at [i] f as = (if i < length as then as[i := f (as ! i)] else as)"
| "update_at (i # is) f as = (if i < length as then as[i := on_children (update_at is f) (as ! i)] else as)"

definition update_msg :: "nat list \<Rightarrow> (avp \<Rightarrow> avp) \<Rightarrow> message \<Rightarrow> message" where
  "update_msg loc f m = m\<lparr>AVPs := update_at loc f (AVPs m)\<rparr>"

section \<open>State and rules\<close>

record rw_rule =
  sourceAVPPath :: "string list"
  destAVPPath :: "string list"
  isDrop :: bool

record rtRewrite =
  rwRules :: "rw_rule list"
  mapsApplied :: u64
  dropsApplied :: u64

text \<open>\<open>strings.Split\<close> at the colons; the result is never empty.\<close>

fun parseAVPPath :: "string \<Rightarrow> string list" where
  "parseAVPPath [] = [[]]"
| "parseAVPPath (c # cs) = (if c = CHR '':'' then [] # parseAVPPath cs
     else (case parseAVPPath cs of [] \<Rightarrow> [[c]] | p # ps \<Rightarrow> (c # p) # ps))"

definition getAVPCodeByName :: "dictionary \<Rightarrow> string \<Rightarrow> AVPCode" where
  "getAVPCodeByName d name = (case GetAVPByName d name of None \<Rightarrow> 0 | Some i \<Rightarrow> avpCode i)"

definition avpMatchesName :: "dictionary \<Rightarrow> string \<Rightarrow> avp \<Rightarrow> bool" where
  "avpMatchesName d name a \<longleftrightarrow> (case GetAVPByName d name of None \<Rightarrow> False
     | Some i \<Rightarrow> aCode a = avpCode i \<and> aVendorID a = avpVendorID i)"

definition validateAVPPath :: "dictionary \<Rightarrow> string list \<Rightarrow> bool" where
  "validateAVPPath d path \<longleftrightarrow> list_all (\<lambda>name. GetAVPByName d name \<noteq> None) path"

section \<open>Loading the rules\<close>

text \<open>
  The MAP part of an entry; \<open>None\<close> is a \<open>continue\<close> of the loop, which skips the entry's DROP part as well. A mismatch of the
  types is only logged.
\<close>

definition parse_map :: "dictionary \<Rightarrow> ext_config \<Rightarrow> rw_rule list option" where
  "parse_map d cfg = (case map_of cfg ''map'' of
     Some (YMap data) \<Rightarrow>
       (case (option_of as_string data ''source'', option_of as_string data ''destination'') of
          (Some s, Some t) \<Rightarrow>
            if validateAVPPath d (parseAVPPath s) \<and> validateAVPPath d (parseAVPPath t)
            then Some [\<lparr>sourceAVPPath = parseAVPPath s, destAVPPath = parseAVPPath t, isDrop = False\<rparr>] else None
        | _ \<Rightarrow> None)
   | _ \<Rightarrow> Some [])"

text \<open>The variable \<open>rule\<close> is the one of the MAP part, so a DROP rule keeps its destination; nobody reads it.\<close>

definition parse_drop :: "dictionary \<Rightarrow> ext_config \<Rightarrow> string list \<Rightarrow> rw_rule list" where
  "parse_drop d cfg dest = (case option_of as_string cfg ''drop'' of
     None \<Rightarrow> []
   | Some s \<Rightarrow> if validateAVPPath d (parseAVPPath s)
               then [\<lparr>sourceAVPPath = parseAVPPath s, destAVPPath = dest, isDrop = True\<rparr>] else [])"

definition parse_rw_rule :: "dictionary \<Rightarrow> yaml_value \<Rightarrow> rw_rule list" where
  "parse_rw_rule d y = (case y of
     YMap cfg \<Rightarrow> (case parse_map d cfg of
         None \<Rightarrow> []
       | Some [] \<Rightarrow> parse_drop d cfg []
       | Some (r # rs) \<Rightarrow> r # rs @ parse_drop d cfg (destAVPPath r))
   | _ \<Rightarrow> [])"

text \<open>The flag: the handler is registered. Rules are appended to those that are there.\<close>

definition Rewrite_Init :: "dictionary \<Rightarrow> ext_config \<Rightarrow> rtRewrite \<Rightarrow> bool \<times> rtRewrite" where
  "Rewrite_Init d cfg s = (case map_of cfg ''rules'' of
     Some (YSeq ys) \<Rightarrow> (True, s\<lparr>rwRules := rwRules s @ concat (map (parse_rw_rule d) ys)\<rparr>)
   | _ \<Rightarrow> (False, s))"

section \<open>Finding and creating AVPs\<close>

fun find_children :: "dictionary \<Rightarrow> avp list \<Rightarrow> string list \<Rightarrow> nat list option" where
  "find_children d cs [] = Some []"
| "find_children d cs (name # names) =
     (if getAVPCodeByName d name = 0 then None
      else case find_index (avp_matches (getAVPCodeByName d name) 0) cs of
        None \<Rightarrow> None
      | Some i \<Rightarrow> map_option (Cons i) (find_children d (aChildren (cs ! i)) names))"

definition findAVPByPath :: "dictionary \<Rightarrow> message \<Rightarrow> string list \<Rightarrow> nat list option" where
  "findAVPByPath d m path = (case path of
     [] \<Rightarrow> None
   | name # names \<Rightarrow> (case find_index (avpMatchesName d name) (AVPs m) of
       None \<Rightarrow> None
     | Some i \<Rightarrow> map_option (Cons i) (find_children d (aChildren (AVPs m ! i)) names)))"

definition created_avp :: "AVPDef \<Rightarrow> avp" where
  "created_avp i = AVP (avpCode i) AVPFlagMandatory (avpVendorID i) [] []"

fun ensure_children :: "dictionary \<Rightarrow> nat list \<Rightarrow> message \<Rightarrow> string list \<Rightarrow> message \<times> nat list option" where
  "ensure_children d loc m [] = (m, Some loc)"
| "ensure_children d loc m (name # names) =
     (if getAVPCodeByName d name = 0 then (m, None)
      else let cs = (case avp_at (AVPs m) loc of Some a \<Rightarrow> aChildren a | None \<Rightarrow> []) in
        case find_index (avp_matches (getAVPCodeByName d name) 0) cs of
          Some j \<Rightarrow> ensure_children d (loc @ [j]) m names
        | None \<Rightarrow> (case GetAVPByName d name of
            None \<Rightarrow> (m, None)
          | Some i \<Rightarrow> ensure_children d (loc @ [length cs]) (update_msg loc (\<lambda>a. AddChild a (created_avp i)) m) names))"

definition ensureAVPPath :: "dictionary \<Rightarrow> message \<Rightarrow> string list \<Rightarrow> message \<times> nat list option" where
  "ensureAVPPath d m path = (case path of
     [] \<Rightarrow> (m, None)
   | name # names \<Rightarrow> (case find_index (avp_matches (getAVPCodeByName d name) 0) (AVPs m) of
       Some i \<Rightarrow> ensure_children d [i] m names
     | None \<Rightarrow> (case GetAVPByName d name of
         None \<Rightarrow> (m, None)
       | Some i \<Rightarrow> ensure_children d [length (AVPs m)] (AddAVP m (created_avp i)) names)))"

fun copyAVP :: "avp \<Rightarrow> avp" where
  "copyAVP (AVP c f v data cs) = AVP c f v data (map copyAVP cs)"

section \<open>Applying the rules\<close>

text \<open>For a child the index that \<open>findAVPByPath\<close> returns is always 0.\<close>

definition applyDropRule :: "dictionary \<Rightarrow> rw_rule \<Rightarrow> rtRewrite \<times> message \<Rightarrow> rtRewrite \<times> message" where
  "applyDropRule d r = (\<lambda>(s, m). case findAVPByPath d m (sourceAVPPath r) of
     None \<Rightarrow> (s, m)
   | Some loc \<Rightarrow> (s\<lparr>dropsApplied := dropsApplied s + 1\<rparr>,
       if length loc = 1 then m\<lparr>AVPs := take (hd loc) (AVPs m) @ drop (Suc (hd loc)) (AVPs m)\<rparr>
       else update_msg (butlast loc) (\<lambda>a. RemoveChild a 0) m))"

text \<open>One child of the source is read, copied and appended to the destination.\<close>

definition copy_child :: "nat list \<Rightarrow> nat list \<Rightarrow> nat \<Rightarrow> message \<Rightarrow> message" where
  "copy_child src dest j m = (case avp_at (AVPs m) (src @ [j]) of
     None \<Rightarrow> m
   | Some c \<Rightarrow> update_msg dest (\<lambda>a. AddChild a (copyAVP c)) m)"

definition copy_value :: "nat list \<Rightarrow> nat list \<Rightarrow> message \<Rightarrow> message" where
  "copy_value src dest m = (case avp_at (AVPs m) src of
     None \<Rightarrow> m
   | Some a \<Rightarrow> if 0 < length (aChildren a) then fold (copy_child src dest) [0..<length (aChildren a)] m
               else update_msg dest (\<lambda>b. set_Data b (aData a)) m)"

definition applyMapRule :: "dictionary \<Rightarrow> rw_rule \<Rightarrow> rtRewrite \<times> message \<Rightarrow> rtRewrite \<times> message" where
  "applyMapRule d r = (\<lambda>(s, m).
     if sourceAVPPath r = [] \<or> destAVPPath r = [] then (s, m)
     else case findAVPByPath d m (sourceAVPPath r) of
       None \<Rightarrow> (s, m)
     | Some src \<Rightarrow> (case ensureAVPPath d m (destAVPPath r) of
         (m, None) \<Rightarrow> (s, m)
       | (m, Some dest) \<Rightarrow> (s\<lparr>mapsApplied := mapsApplied s + 1\<rparr>, copy_value src dest m)))"

definition Rewrite_handleRouting :: "dictionary \<Rightarrow> rtRewrite \<Rightarrow> message \<Rightarrow> rtRewrite \<times> message" where
  "Rewrite_handleRouting d s m = fold (\<lambda>r. if isDrop r then applyDropRule d r else applyMapRule d r) (rwRules s) (s, m)"

end
