(* ===== verification/Rt_Rewrite_Properties.thy ===== *)
theory Rt_Rewrite_Properties
  imports Rt_Rewrite Router_Properties
begin

text \<open>
  What a rule does to a message: a top-level DROP removes the first AVP of that name and nothing else; a top-level MAP of a value
  sets one AVP and nothing else; a rule below the top level does nothing to a message as it comes from the wire, and where it
  does something, DROP takes the first child, whichever was named.
\<close>

section \<open>Finding\<close>

lemma find_index_Some: "find_index P xs = Some i \<longleftrightarrow> i < length xs \<and> P (xs ! i) \<and> (\<forall>j < i. \<not> P (xs ! j))"
proof (induction xs arbitrary: i)
  case (Cons x xs)
  show ?case
  proof (cases i)
    case 0
    then show ?thesis by auto
  next
    case (Suc k)
    then show ?thesis using Cons.IH [of k] by (auto simp: less_Suc_eq_0_disj)
  qed
qed simp

lemma find_index_None: "find_index P xs = None \<longleftrightarrow> (\<forall>x \<in> set xs. \<not> P x)"
  by (induction xs) auto

lemma find_index_find: "List.find P xs = map_option ((!) xs) (find_index P xs)"
  by (induction xs) (simp_all add: option.map_comp comp_def)

lemma find_index_remove: "find_index P xs = Some i \<Longrightarrow> take i xs @ drop (Suc i) xs = fst (remove_first P xs)"
  by (induction xs arbitrary: i) (auto simp: split_beta split: if_splits)

lemma copyAVP_id: "copyAVP a = a"
  by (induction a) (simp add: map_idI)

section \<open>The frame of a rule\<close>

lemma update_msg_frame:
  "Flags (update_msg loc f m) = Flags m" "mHopByHopID (update_msg loc f m) = mHopByHopID m"
  "mEndToEndID (update_msg loc f m) = mEndToEndID m" "mCommandCode (update_msg loc f m) = mCommandCode m"
  "mApplicationID (update_msg loc f m) = mApplicationID m" "Version (update_msg loc f m) = Version m"
  by (simp_all add: update_msg_def)

definition header :: "message \<Rightarrow> _" where
  "header m = (Version m, Flags m, mCommandCode m, mApplicationID m, mHopByHopID m, mEndToEndID m)"

lemma header_update_msg [simp]: "header (update_msg loc f m) = header m" "header (AddAVP m a) = header m"
    "header (m\<lparr>AVPs := as\<rparr>) = header m"
  by (simp_all add: header_def update_msg_frame)

lemma header_ensure_children: "header (fst (ensure_children d loc m names)) = header m"
  by (induction names arbitrary: loc m) (auto simp: Let_def split: option.split)

lemma header_copy_value: "header (copy_value src dest m) = header m"
proof -
  have "header (fold (copy_child src dest) js m) = header m" for js m
    by (induction js arbitrary: m) (auto simp: copy_child_def split: option.split)
  then show ?thesis by (auto simp: copy_value_def split: option.split)
qed

lemma header_rule: "header (snd (applyDropRule d r (s, m))) = header m" "header (snd (applyMapRule d r (s, m))) = header m"
proof -
  show "header (snd (applyDropRule d r (s, m))) = header m" by (auto simp: applyDropRule_def split: option.split)
  have "header (fst (ensureAVPPath d m path)) = header m" for path
    by (auto simp: ensureAVPPath_def header_ensure_children split: list.split option.split)
  then have "ensureAVPPath d m path = (m1, x) \<Longrightarrow> header m1 = header m" for path m1 x by (metis fst_conv)
  then show "header (snd (applyMapRule d r (s, m))) = header m"
    by (auto simp: applyMapRule_def header_copy_value split: option.split prod.split)
qed

lemma rewrite_keeps_header: "header (snd (Rewrite_handleRouting d s m)) = header m"
proof -
  have "header (snd (fold (\<lambda>r. if isDrop r then applyDropRule d r else applyMapRule d r) rules (s, m))) = header m" for rules s m
  proof (induction rules arbitrary: s m)
    case (Cons r rules)
    obtain s' m' where step: "(if isDrop r then applyDropRule d r else applyMapRule d r) (s, m) = (s', m')" by fastforce
    then have "header m' = header m" using header_rule [of d r s m] by (cases "isDrop r") auto
    with Cons.IH [of s' m'] step show ?case by simp
  qed simp
  then show ?thesis by (simp add: Rewrite_handleRouting_def)
qed

section \<open>DROP\<close>

lemma findAVPByPath_top: "findAVPByPath d m [name] = map_option (\<lambda>i. [i]) (find_index (avpMatchesName d name) (AVPs m))"
  by (simp add: findAVPByPath_def split: option.split)

lemma drop_top:
  "snd (applyDropRule d \<lparr>sourceAVPPath = [name], destAVPPath = t, isDrop = b\<rparr> (s, m)) =
     m\<lparr>AVPs := fst (remove_first (avpMatchesName d name) (AVPs m))\<rparr>"
proof (cases "find_index (avpMatchesName d name) (AVPs m)")
  case None
  then have "fst (remove_first (avpMatchesName d name) (AVPs m)) = AVPs m"
    using remove_first_none [of "AVPs m" "avpMatchesName d name"] by (simp add: find_index_None)
  then show ?thesis using None by (simp add: applyDropRule_def findAVPByPath_top)
next
  case (Some i)
  then show ?thesis by (simp add: applyDropRule_def findAVPByPath_top find_index_remove)
qed

text \<open>
  A DROP rule with a top-level name removes the first AVP that has the code and the vendor of the name in the dictionary; every
  other AVP, their order and the header stay as they are.
\<close>

theorem drop_rule_removes_first_match:
  "snd (Rewrite_handleRouting d (s\<lparr>rwRules := [\<lparr>sourceAVPPath = [name], destAVPPath = t, isDrop = True\<rparr>]\<rparr>) m) =
     m\<lparr>AVPs := fst (remove_first (avpMatchesName d name) (AVPs m))\<rparr>"
  by (simp add: Rewrite_handleRouting_def drop_top)

text \<open>
  Below the top level the index that is passed on is always 0: the first child goes, and the one that was named stays unless it
  is the first.
\<close>

theorem nested_drop_takes_the_first_child:
  assumes "findAVPByPath d m [g, c] = Some [i, j]"
  shows "snd (applyDropRule d \<lparr>sourceAVPPath = [g, c], destAVPPath = t, isDrop = True\<rparr> (s, m)) =
    m\<lparr>AVPs := (AVPs m)[i := on_children tl (AVPs m ! i)]\<rparr>"
proof -
  have r: "RemoveChild a 0 = on_children tl a" for a
  proof (cases a)
    case (AVP c f v da cs)
    then show ?thesis by (cases cs) simp_all
  qed
  have "i < length (AVPs m)" using assms by (auto simp: findAVPByPath_def find_index_Some split: option.splits)
  then show ?thesis using assms by (simp add: applyDropRule_def update_msg_def r)
qed

section \<open>MAP\<close>

lemma update_at_first: "(case find_index P as of None \<Rightarrow> as | Some i \<Rightarrow> update_at [i] f as) = update_first P f as"
proof (induction as)
  case (Cons a as)
  then show ?case
  proof (cases "find_index P as")
    case (Some i)
    then have "i < length as" by (simp add: find_index_Some)
    then show ?thesis using Cons Some by (auto split: option.splits)
  qed (use Cons in \<open>auto split: option.splits\<close>)
qed simp

lemma copy_value_top:
  assumes "src < length (AVPs m)" and "aChildren (AVPs m ! src) = []"
  shows "copy_value [src] dest m = update_msg dest (\<lambda>b. set_Data b (aData (AVPs m ! src))) m"
  using assms by (simp add: copy_value_def)

text \<open>
  A MAP rule between two top-level names copies the data of the first AVP that has the source's name to the first AVP with the
  destination's code, which is appended when there is none, and changes nothing else.
\<close>

theorem map_rule_copies_value:
  assumes "List.find (avpMatchesName d n) (AVPs m) = Some a" and "aChildren a = []" and "GetAVPByName d t = Some i"
  shows "snd (Rewrite_handleRouting d (s\<lparr>rwRules := [\<lparr>sourceAVPPath = [n], destAVPPath = [t], isDrop = False\<rparr>]\<rparr>) m) =
    m\<lparr>AVPs := if list_ex (avp_matches (avpCode i) 0) (AVPs m)
      then update_first (avp_matches (avpCode i) 0) (\<lambda>b. set_Data b (aData a)) (AVPs m)
      else AVPs m @ [set_Data (created_avp i) (aData a)]\<rparr>"
proof -
  obtain k where k: "find_index (avpMatchesName d n) (AVPs m) = Some k" "AVPs m ! k = a"
    using assms(1) by (auto simp: find_index_find)
  then have kl: "k < length (AVPs m)" by (simp add: find_index_Some)
  have c: "getAVPCodeByName d t = avpCode i" by (simp add: getAVPCodeByName_def assms(3))
  show ?thesis
  proof (cases "find_index (avp_matches (avpCode i) 0) (AVPs m)")
    case None
    then have n: "\<not> list_ex (avp_matches (avpCode i) 0) (AVPs m)" by (auto simp: find_index_None list_ex_iff)
    have "ensureAVPPath d m [t] = (AddAVP m (created_avp i), Some [length (AVPs m)])"
      using None assms(3) by (simp add: ensureAVPPath_def c)
    then show ?thesis
      using k kl n assms(2) copy_value_top [of k "AddAVP m (created_avp i)"]
      by (simp add: Rewrite_handleRouting_def applyMapRule_def findAVPByPath_top nth_append update_msg_def AddAVP_def)
  next
    case (Some j)
    then have y: "list_ex (avp_matches (avpCode i) 0) (AVPs m)" by (auto simp: find_index_Some list_ex_iff)
    have "ensureAVPPath d m [t] = (m, Some [j])" using Some by (simp add: ensureAVPPath_def c)
    then show ?thesis
      using k kl y assms(2) copy_value_top [of k m "[j]"] update_at_first [where P = "avp_matches (avpCode i) 0" and as = "AVPs m" and f = "\<lambda>b. set_Data b (aData a)"] Some
      by (simp add: Rewrite_handleRouting_def applyMapRule_def findAVPByPath_top update_msg_def)
  qed
qed

section \<open>Messages from the wire\<close>

text \<open>A decoded message has the content of its grouped AVPs as data; nobody decodes them before \<open>rt_rewrite\<close> runs.\<close>

definition undecoded :: "message \<Rightarrow> bool" where
  "undecoded m \<longleftrightarrow> (\<forall>a \<in> set (AVPs m). aChildren a = [])"

lemma nested_path_not_found:
  assumes "undecoded m"
  shows "findAVPByPath d m (g # c # names) = None"
proof -
  have "aChildren (AVPs m ! i) = []" if "find_index (avpMatchesName d g) (AVPs m) = Some i" for i
    using assms that by (simp add: undecoded_def find_index_Some)
  then show ?thesis by (auto simp: findAVPByPath_def split: option.split)
qed

text \<open>
  A rule whose source lies below the top level does nothing to a message as it is received, DROP or MAP.
\<close>

theorem nested_source_never_matches:
  assumes "undecoded m" and "1 < length (sourceAVPPath r)"
  shows "Rewrite_handleRouting d (s\<lparr>rwRules := [r]\<rparr>) m = (s\<lparr>rwRules := [r]\<rparr>, m)"
proof -
  obtain g c names where "sourceAVPPath r = g # c # names"
    using assms(2) by (cases "sourceAVPPath r"; cases "tl (sourceAVPPath r)") auto
  then have "findAVPByPath d m (sourceAVPPath r) = None" using nested_path_not_found [OF assms(1)] by simp
  then show ?thesis by (simp add: Rewrite_handleRouting_def applyDropRule_def applyMapRule_def)
qed

text \<open>
  A MAP into a received grouped AVP gives it its first child, and as children are what is encoded, all it contained is lost.
\<close>

theorem nested_map_discards_the_group:
  assumes "undecoded m" and "List.find (avpMatchesName d n) (AVPs m) = Some a"
    and "find_index (avp_matches (getAVPCodeByName d g) 0) (AVPs m) = Some k" and "\<not> avp_matches (getAVPCodeByName d g) 0 a" and "GetAVPByName d c = Some i" and "avpCode i \<noteq> 0"
  shows "payload (AVPs (snd (applyMapRule d \<lparr>sourceAVPPath = [n], destAVPPath = [g, c], isDrop = False\<rparr> (s, m))) ! k) =
    avp_wire (set_Data (created_avp i) (aData a))"
proof -
  obtain q where q: "find_index (avpMatchesName d n) (AVPs m) = Some q" "AVPs m ! q = a"
    using assms(2) by (auto simp: find_index_find)
  have l: "q < length (AVPs m)" "k < length (AVPs m)" using q(1) assms(3) by (simp_all add: find_index_Some)
  have "q \<noteq> k" using assms(3,4) q(2) by (auto simp: find_index_Some)
  have n: "aChildren (AVPs m ! k) = []" "aChildren a = []" using assms(1) l q(2) by (auto simp: undecoded_def)
  obtain cc ff vv dd where g: "AVPs m ! k = AVP cc ff vv dd []" using n(1) by (cases "AVPs m ! k") auto
  let ?m = "m\<lparr>AVPs := (AVPs m)[k := AVP cc ff vv dd [created_avp i]]\<rparr>"
  have e: "ensureAVPPath d m [g, c] = (?m, Some [k, 0])"
    using assms(3,5,6) l g by (simp add: ensureAVPPath_def getAVPCodeByName_def Let_def update_msg_def)
  have "copy_value [q] [k, 0] ?m = m\<lparr>AVPs := (AVPs m)[k := AVP cc ff vv dd [set_Data (created_avp i) (aData a)]]\<rparr>"
    using l \<open>q \<noteq> k\<close> q(2) n(2) by (simp add: copy_value_def update_msg_def)
  then show ?thesis using q(1) e l by (simp add: applyMapRule_def findAVPByPath_top payload_def)
qed

text \<open>What \<open>ensureAVPPath\<close> creates has no V flag, so the vendor of a vendor-specific AVP is not sent.\<close>

lemma created_avp_loses_vendor: "aVendorID (on_wire (created_avp i)) = 0"
  by (simp add: on_wire_def created_avp_def vendor_flag_def)

section \<open>Restarting\<close>

theorem rewrite_restart_doubles_rules:
  "rwRules (snd (Rewrite_Init d cfg (snd (Rewrite_Init d cfg \<lparr>rwRules = [], mapsApplied = a, dropsApplied = b\<rparr>)))) =
   rwRules (snd (Rewrite_Init d cfg \<lparr>rwRules = [], mapsApplied = a, dropsApplied = b\<rparr>)) @
   rwRules (snd (Rewrite_Init d cfg \<lparr>rwRules = [], mapsApplied = a, dropsApplied = b\<rparr>))"
  by (simp add: Rewrite_Init_def split: option.split yaml_value.split)

section \<open>A concrete rule\<close>

definition small_dictionary :: dictionary where
  "small_dictionary = snd (AddAVPDef (snd (AddAVPDef Dict_New (avp_def AVPCodeUserName ''User-Name'' 0 None True)))
     (avp_def AVPCodeClass ''Class'' 0 None True))"

lemma small_names: "GetAVPByName small_dictionary ''User-Name'' = Some (avp_def AVPCodeUserName ''User-Name'' 0 None True)"
    "GetAVPByName small_dictionary ''Class'' = Some (avp_def AVPCodeClass ''Class'' 0 None True)"
  by (simp_all add: small_dictionary_def GetAVPByName_def AddAVPDef_def Dict_New_def avp_def_def avpKey_def)

definition user_request :: message where
  "user_request = AddAVP (NewRequest 265 1) (NewUTF8StringAVP AVPCodeUserName AVPFlagMandatory ''bob'')"

theorem map_rule_copies_value_witness:
  "AVPs (snd (Rewrite_handleRouting small_dictionary \<lparr>rwRules = [\<lparr>sourceAVPPath = [''User-Name''], destAVPPath = [''Class''],
      isDrop = False\<rparr>], mapsApplied = 0, dropsApplied = 0\<rparr> user_request)) =
    [NewUTF8StringAVP AVPCodeUserName AVPFlagMandatory ''bob'', NewUTF8StringAVP AVPCodeClass AVPFlagMandatory ''bob'']"
proof -
  have f: "List.find (avpMatchesName small_dictionary ''User-Name'') (AVPs user_request) =
      Some (NewUTF8StringAVP AVPCodeUserName AVPFlagMandatory ''bob'')"
    by (simp add: user_request_def avpMatchesName_def small_names avp_def_def NewRequest_def NewMessage_def
        NewUTF8StringAVP_def NewAVP_def)
  have c: "aChildren (NewUTF8StringAVP AVPCodeUserName AVPFlagMandatory ''bob'') = []"
    by (simp add: NewUTF8StringAVP_def NewAVP_def)
  show ?thesis
    using map_rule_copies_value [OF f c small_names(2), of "\<lparr>rwRules = [], mapsApplied = 0, dropsApplied = 0\<rparr>"]
    by (simp add: user_request_def avp_def_def NewRequest_def NewMessage_def avp_matches_def created_avp_def NewUTF8StringAVP_def NewAVP_def)
qed

theorem nested_source_never_matches_witness:
  "snd (Rewrite_handleRouting small_dictionary \<lparr>rwRules = [\<lparr>sourceAVPPath = [''Class'', ''User-Name''], destAVPPath = [],
      isDrop = True\<rparr>], mapsApplied = 0, dropsApplied = 0\<rparr> user_request) = user_request"
  using nested_source_never_matches [of user_request "\<lparr>sourceAVPPath = [''Class'', ''User-Name''], destAVPPath = [], isDrop = True\<rparr>"
      small_dictionary "\<lparr>rwRules = [], mapsApplied = 0, dropsApplied = 0\<rparr>"]
  by (simp add: undecoded_def user_request_def NewRequest_def NewMessage_def NewUTF8StringAVP_def NewAVP_def)

end
