(* ===== verification/Rt_Busypeers.thy ===== *)
theory Rt_Busypeers
  imports Router_Properties Ext_Common
begin

text \<open>
  Extension \<open>rt_busypeers\<close>: a TOO_BUSY answer to a request that is tracked makes it be sent to another peer. The record of a
  request is a pointer, so what the router's handlers make of the stored message stays in it.
\<close>

record retryRecord =
  rrExcluded :: "DiamID list"
  rrOrigPeer :: "peer_ref option"
  rrOrigMsg :: message
  rrCreatedAt :: int

record rtBusypeers =
  bpMaxRetries :: int
  bpRelayTimeout :: int
  retries :: "(EndToEndID \<times> retryRecord) list"
  busyReceived :: u64
  retriesDone :: u64
  retryFailed :: u64

definition Busypeers_Init :: "ext_config \<Rightarrow> rtBusypeers \<Rightarrow> rtBusypeers" where
  "Busypeers_Init cfg s = s\<lparr>retries := [], bpMaxRetries := option_or as_int cfg ''retry_max_peers'' 3,
     bpRelayTimeout := (case Option.bind (option_of as_string cfg ''relay_timeout'') ParseDuration of
       Some d \<Rightarrow> d | None \<Rightarrow> 30 * conf_second)\<rparr>"

definition set_record :: "EndToEndID \<Rightarrow> retryRecord \<Rightarrow> rtBusypeers \<Rightarrow> rtBusypeers" where
  "set_record i x s = s\<lparr>retries := AList.update i x (retries s)\<rparr>"

definition drop_record :: "EndToEndID \<Rightarrow> rtBusypeers \<Rightarrow> rtBusypeers" where
  "drop_record i s = s\<lparr>retries := AList.delete i (retries s)\<rparr>"

definition failed :: "rtBusypeers \<Rightarrow> rtBusypeers" where
  "failed s = s\<lparr>retryFailed := retryFailed s + 1\<rparr>"

definition TrackRequest :: "int \<Rightarrow> peer_ref option \<Rightarrow> message \<Rightarrow> rtBusypeers \<Rightarrow> rtBusypeers" where
  "TrackRequest now p m s = set_record (mEndToEndID m) \<lparr>rrExcluded = [], rrOrigPeer = p, rrOrigMsg = m, rrCreatedAt = now\<rparr> s"

text \<open>The answering peer is excluded when the router could be told which it is.\<close>

definition exclude_peer :: "world \<Rightarrow> peer_ref option \<Rightarrow> retryRecord \<Rightarrow> retryRecord" where
  "exclude_peer w p x = (case Option.bind p (peer_of w) of None \<Rightarrow> x
     | Some y \<Rightarrow> x\<lparr>rrExcluded := List.insert (diameterID y) (rrExcluded x)\<rparr>)"

text \<open>The second half: the record with the peer excluded is routed again.\<close>

definition retry :: "renv \<Rightarrow> router \<Rightarrow> EndToEndID \<Rightarrow> retryRecord \<Rightarrow> Route list \<Rightarrow> rtBusypeers \<Rightarrow> world
    \<Rightarrow> (route_error + Route list) \<times> rtBusypeers \<times> world" where
  "retry e r i x cs s w = (case RouteOutWithExclusion e r w (rrOrigMsg x) (rrExcluded x) of
     (m, Inl err, w) \<Rightarrow> (Inr cs, failed (drop_record i s), w)
   | (m, Inr hop, w) \<Rightarrow>
       (let s = set_record i (x\<lparr>rrOrigMsg := m\<rparr>) s in
        case LookupPeer r hop of
          None \<Rightarrow> (Inr cs, failed s, w)
        | Some ref \<Rightarrow> (case objects w ref of
            Opaque \<Rightarrow> (Inr cs, s, w)
          | _ \<Rightarrow> (case object_send ref m w of
              (Inl err, w) \<Rightarrow> (Inr cs, failed s, w)
            | (Inr _, w) \<Rightarrow> (Inl ErrConsumed, s\<lparr>retriesDone := retriesDone s + 1\<rparr>, w)))))"

definition Busypeers_handleRouting :: "renv \<Rightarrow> router \<Rightarrow> int \<Rightarrow> peer_ref option \<Rightarrow> message \<Rightarrow> Route list \<Rightarrow> rtBusypeers \<Rightarrow> world
    \<Rightarrow> (route_error + Route list) \<times> rtBusypeers \<times> world" where
  "Busypeers_handleRouting e r now p m cs s w =
     (if IsRequest m \<or> GetResultCode m \<noteq> Some ResultTooBusy then (Inr cs, s, w)
      else let s = s\<lparr>busyReceived := busyReceived s + 1\<rparr>; i = mEndToEndID m in
        case map_of (retries s) i of
          None \<Rightarrow> (Inr cs, s, w)
        | Some x \<Rightarrow>
            if bpMaxRetries s \<le> int (length (rrExcluded x)) \<or> bpRelayTimeout s < now - rrCreatedAt x
            then (Inr cs, failed (drop_record i s), w)
            else let x = exclude_peer w p x in retry e r i x cs (set_record i x s) w)"

definition Busypeers_Stop :: "rtBusypeers \<Rightarrow> rtBusypeers" where
  "Busypeers_Stop s = s\<lparr>retries := []\<rparr>"

section \<open>What it promises\<close>

text \<open>The table has one record per request, and no record has more peers than the limit allows.\<close>

definition retries_ok :: "rtBusypeers \<Rightarrow> bool" where
  "retries_ok s \<longleftrightarrow> distinct (map fst (retries s)) \<and>
     (\<forall>(i, x) \<in> set (retries s). distinct (rrExcluded x) \<and> (rrExcluded x \<noteq> [] \<longrightarrow> int (length (rrExcluded x)) \<le> bpMaxRetries s))"

definition record_ok :: "rtBusypeers \<Rightarrow> retryRecord \<Rightarrow> bool" where
  "record_ok s x \<longleftrightarrow> distinct (rrExcluded x) \<and> (rrExcluded x \<noteq> [] \<longrightarrow> int (length (rrExcluded x)) \<le> bpMaxRetries s)"

lemma retries_ok_iff: "retries_ok s \<longleftrightarrow> distinct (map fst (retries s)) \<and> (\<forall>i x. map_of (retries s) i = Some x \<longrightarrow> record_ok s x)"
  unfolding retries_ok_def record_ok_def by (auto simp: map_of_eq_Some_iff)

lemma set_record_ok: "retries_ok s \<Longrightarrow> record_ok s x \<Longrightarrow> retries_ok (set_record i x s)"
  unfolding retries_ok_iff by (auto simp: set_record_def record_ok_def distinct_update update_conv' split: if_splits)

lemma drop_record_ok: "retries_ok s \<Longrightarrow> retries_ok (drop_record i s)"
  unfolding retries_ok_iff by (auto simp: drop_record_def record_ok_def distinct_delete delete_conv' split: if_splits)

lemma counters_ok [simp]: "retries_ok (failed s) = retries_ok s" "retries_ok (s\<lparr>busyReceived := n\<rparr>) = retries_ok s"
    "retries_ok (s\<lparr>retriesDone := n\<rparr>) = retries_ok s" "record_ok (s\<lparr>busyReceived := n\<rparr>) x = record_ok s x"
    "record_ok (set_record i y s) x = record_ok s x"
  by (simp_all add: retries_ok_def record_ok_def failed_def set_record_def)

lemma retry_ok:
  assumes "retries_ok s" and "record_ok s x" and "retry e r i x cs s w = (res, s', w')"
  shows "retries_ok s'"
proof -
  have "record_ok s (x\<lparr>rrOrigMsg := m\<rparr>)" for m using assms(2) by (simp add: record_ok_def)
  then show ?thesis
    using assms set_record_ok drop_record_ok
    by (auto simp: retry_def Let_def split: prod.splits sum.splits option.splits peer_obj.splits)
qed

lemma retries_ok_handleRouting:
  assumes "retries_ok s" and "Busypeers_handleRouting e r now p m cs s w = (res, s', w')"
  shows "retries_ok s'"
proof (cases "IsRequest m \<or> GetResultCode m \<noteq> Some ResultTooBusy \<or> map_of (retries s) (mEndToEndID m) = None")
  case True
  then show ?thesis using assms by (auto simp: Busypeers_handleRouting_def split: if_splits)
next
  case False
  then obtain x where x: "map_of (retries s) (mEndToEndID m) = Some x" by auto
  let ?s = "s\<lparr>busyReceived := busyReceived s + 1\<rparr>"
  have s: "retries_ok ?s" "record_ok ?s x" using assms(1) x by (auto simp: retries_ok_iff)
  show ?thesis
  proof (cases "bpMaxRetries s \<le> int (length (rrExcluded x)) \<or> bpRelayTimeout s < now - rrCreatedAt x")
    case True
    then show ?thesis using assms(2) False x drop_record_ok [OF s(1)] by (auto simp: Busypeers_handleRouting_def Let_def)
  next
    case go: False
    have l: "length (List.insert j xs) \<le> Suc (length xs)" "distinct (List.insert j xs) = distinct xs" for j and xs :: "DiamID list"
      by (auto simp: List.insert_def)
    have "int (length (List.insert j (rrExcluded x))) \<le> bpMaxRetries s" for j
      using l(1) [of j "rrExcluded x"] go by linarith
    then have "record_ok ?s (exclude_peer w p x)"
      using s(2) l(2) by (auto simp: record_ok_def exclude_peer_def split: option.split)
    then show ?thesis
      using assms(2) False x go retry_ok [of "set_record (mEndToEndID m) (exclude_peer w p x) ?s"] set_record_ok [OF s(1)]
      by (auto simp: Busypeers_handleRouting_def Let_def)
  qed
qed

text \<open>
  A retry never goes to a peer that was tried for the request before, nor to the one that has just answered TOO_BUSY, and what
  is sent is the stored request.
\<close>

theorem busy_retry_avoids_tried_peers:
  assumes "valid_rand e" and "Busypeers_handleRouting e r now (Some ref) m cs s w = (Inl ErrConsumed, s', w')"
    and "objects w ref = FullPeer q"
  shows "\<exists>x hop w1 m'. map_of (retries s) (mEndToEndID m) = Some x \<and> int (length (rrExcluded x)) < bpMaxRetries s \<and>
    RouteOutWithExclusion e r w (rrOrigMsg x) (List.insert (diameterID q) (rrExcluded x)) = (m', Inr hop, w1) \<and>
    hop \<notin> set (rrExcluded x) \<and> hop \<noteq> diameterID q \<and>
    (\<exists>target. LookupPeer r hop = Some target \<and> object_send target m' w1 = (Inr (), w'))"
proof -
  obtain x where x: "map_of (retries s) (mEndToEndID m) = Some x" "\<not> (bpMaxRetries s \<le> int (length (rrExcluded x)))"
    "retry e r (mEndToEndID m) (exclude_peer w (Some ref) x) cs
      (set_record (mEndToEndID m) (exclude_peer w (Some ref) x) (s\<lparr>busyReceived := busyReceived s + 1\<rparr>)) w = (Inl ErrConsumed, s', w')"
    using assms(2) by (auto simp: Busypeers_handleRouting_def Let_def split: if_splits option.splits)
  have ex: "exclude_peer w (Some ref) x = x\<lparr>rrExcluded := List.insert (diameterID q) (rrExcluded x)\<rparr>"
    by (simp add: exclude_peer_def peer_of_def assms(3))
  obtain m' hop w1 where r: "RouteOutWithExclusion e r w (rrOrigMsg x) (List.insert (diameterID q) (rrExcluded x)) = (m', Inr hop, w1)"
      "\<exists>target. LookupPeer r hop = Some target \<and> object_send target m' w1 = (Inr (), w')"
    using x(3) by (auto simp: ex retry_def Let_def split: prod.splits sum.splits option.splits peer_obj.splits)
  have "hop \<notin> set (List.insert (diameterID q) (rrExcluded x))" using selected_is_best [OF assms(1) r(1)] by (auto simp: best_def)
  then show ?thesis using x(1,2) r by auto
qed

text \<open>A request nobody tracked is never retried, and nothing in the program calls \<open>TrackRequest\<close>.\<close>

theorem untracked_requests_are_never_retried:
  assumes "retries s = []"
  shows "case Busypeers_handleRouting e r now p m cs s w of (res, s', w') \<Rightarrow> res = Inr cs \<and> w' = w \<and> retries s' = []"
  using assms by (simp add: Busypeers_handleRouting_def Let_def)

text \<open>Two peers for the request; the first has just said it is busy.\<close>

definition busy_answer :: message where
  "busy_answer = AddAVP (NewAnswer sample_request) (NewUnsigned32AVP AVPCodeResultCode AVPFlagMandatory ResultTooBusy)"

definition busy_state :: rtBusypeers where
  "busy_state = TrackRequest 0 None sample_request (Busypeers_Init []
     \<lparr>bpMaxRetries = 0, bpRelayTimeout = 0, retries = [], busyReceived = 0, retriesDone = 0, retryFailed = 0\<rparr>)"

definition busy_router :: router where
  "busy_router = sample_router\<lparr>appRoutes := Map.empty, postRouteHandlers := [], peerLookup := Some (\<lambda>i. if i = ''hss2'' then Some 1 else None)\<rparr>"

definition busy_world :: world where
  "busy_world = sample_world\<lparr>objects := (\<lambda>p. if p = 0 then FullPeer (sample_open\<lparr>diameterID := ''hss1''\<rparr>) else if p = 1 then Sender [] True else Opaque)\<rparr>"

lemma busy_candidates: "buildCandidates busy_router w sample_request =
    [\<lparr>PeerIdentity = ''hss1'', Score = 100, Reason = ''realm route for home''\<rparr>,
     \<lparr>PeerIdentity = ''hss2'', Score = 100, Reason = ''realm route for home''\<rparr>]"
  by (simp add: busy_router_def buildCandidates_def sample_realm target_realm_def realm_candidates_def sample_router_fields
      sample_request_fields entries_def Let_def)

lemma busy_routed: "\<exists>s' w'. Busypeers_handleRouting sample_renv busy_router 1 (Some 0) busy_answer [] busy_state busy_world = (Inl ErrConsumed, s', w')"
proof -
  have o: "outHandlers busy_router = []" "postRouteHandlers busy_router = []" "LookupPeer busy_router ''hss2'' = Some 1"
    by (simp_all add: busy_router_def sample_router_fields LookupPeer_def)
  have a: "\<not> IsRequest busy_answer" "GetResultCode busy_answer = Some ResultTooBusy" "mEndToEndID busy_answer = mEndToEndID sample_request"
    using NewAnswer_not_request [of sample_request]
    by (simp_all add: busy_answer_def GetResultCode_def unsigned32_of_def FindAVP_def avp_matches_def)
  have b: "retries busy_state = [(mEndToEndID sample_request, \<lparr>rrExcluded = [], rrOrigPeer = None, rrOrigMsg = sample_request, rrCreatedAt = 0\<rparr>)]"
      "bpMaxRetries busy_state = 3" "bpRelayTimeout busy_state = 30 * conf_second"
    by (simp_all add: busy_state_def TrackRequest_def set_record_def Busypeers_Init_def option_or_def option_of_def)
  have p: "peer_of busy_world 0 = Some (sample_open\<lparr>diameterID := ''hss1''\<rparr>)" "objects busy_world (Suc 0) = Sender [] True" "randCalls busy_world = 0"
    by (simp_all add: busy_world_def sample_world_def peer_of_def)
  show ?thesis
    by (simp add: Busypeers_handleRouting_def a b Let_def conf_second_def exclude_peer_def p retry_def RouteOutWithExclusion_def busy_candidates
        o by_score_def tier_choices_def sample_renv_def firePostRouteHandlers_def object_send_def)
qed

theorem busy_retry_avoids_tried_peers_witness:
  "\<exists>hop. hop \<noteq> ''hss1'' \<and> (\<exists>s' w' m' w1 target. Busypeers_handleRouting sample_renv busy_router 1 (Some 0) busy_answer [] busy_state busy_world =
      (Inl ErrConsumed, s', w') \<and> LookupPeer busy_router hop = Some target \<and> object_send target m' w1 = (Inr (), w'))"
proof -
  obtain s' w' where r: "Busypeers_handleRouting sample_renv busy_router 1 (Some 0) busy_answer [] busy_state busy_world = (Inl ErrConsumed, s', w')"
    using busy_routed by blast
  have "objects busy_world 0 = FullPeer (sample_open\<lparr>diameterID := ''hss1''\<rparr>)" by (simp add: busy_world_def)
  from busy_retry_avoids_tried_peers [OF sample_valid_rand r this] r show ?thesis by auto
qed

end
