(* ===== verification/Dbg_Latency.thy ===== *)
theory Dbg_Latency
  imports Router_Properties Ext_Common
begin

text \<open>
  Extensions \<open>dbg_msg_timings\<close> and \<open>fifo_stats\<close>: both note when a request comes in and measure the time to its answer, by its
  end-to-end identifier; \<open>fifo_stats\<close> also counts per peer. The interface \<open>latency_probe\<close> is what they promise alike. The
  64-bit counters of messages wrap; sums and depths are integers. The lines \<open>dbg_msg_timings\<close> prints are part of its state.
\<close>

section \<open>What both do\<close>

type_synonym inflight_table = "EndToEndID \<Rightarrow> int option"

text \<open>\<open>Duration.Microseconds\<close> truncates toward zero.\<close>

definition Microseconds :: "int \<Rightarrow> int" where
  "Microseconds d = (if 0 \<le> d then d div 1000 else - ((- d) div 1000))"

definition stale_after :: int where "stale_after = 5 * 60 * conf_second"

definition pruneStale :: "int \<Rightarrow> inflight_table \<Rightarrow> inflight_table" where
  "pruneStale now tab = (\<lambda>i. case tab i of None \<Rightarrow> None | Some t \<Rightarrow> if t < now - stale_after then None else Some t)"

section \<open>\<open>dbg_msg_timings\<close>\<close>

record dbgMsgTimings =
  logThreshold :: int
  tmInflight :: inflight_table
  requestsSeen :: u64
  answersMatched :: u64
  totalLatencyUs :: int
  maxLatencyUs :: int
  tmLogged :: "(CommandCode \<times> EndToEndID \<times> int \<times> ResultCode) list"

definition Timings_Init :: "ext_config \<Rightarrow> dbgMsgTimings \<Rightarrow> dbgMsgTimings" where
  "Timings_Init cfg s = s\<lparr>tmInflight := Map.empty,
     logThreshold := (case Option.bind (option_of as_string cfg ''log_threshold'') ParseDuration of
       Some d \<Rightarrow> d | None \<Rightarrow> 100 * conf_second div 1000)\<rparr>"

definition Timings_answer :: "int \<Rightarrow> message \<Rightarrow> dbgMsgTimings \<Rightarrow> dbgMsgTimings" where
  "Timings_answer now m s = (case tmInflight s (mEndToEndID m) of
     None \<Rightarrow> s
   | Some t \<Rightarrow>
       (let latency = now - t; us = Microseconds latency;
            s = s\<lparr>tmInflight := (tmInflight s)(mEndToEndID m := None), answersMatched := answersMatched s + 1,
                  totalLatencyUs := totalLatencyUs s + us, maxLatencyUs := max us (maxLatencyUs s)\<rparr> in
        if logThreshold s \<le> latency
        then s\<lparr>tmLogged := tmLogged s @ [(mCommandCode m, mEndToEndID m, latency,
               case GetResultCode m of Some rc \<Rightarrow> rc | None \<Rightarrow> 0)]\<rparr>
        else s))"

definition Timings_handleRouting :: "int \<Rightarrow> peer option \<Rightarrow> message \<Rightarrow> dbgMsgTimings \<Rightarrow> dbgMsgTimings" where
  "Timings_handleRouting now p m s =
     (if IsRequest m then
        let s = s\<lparr>tmInflight := (tmInflight s)(mEndToEndID m \<mapsto> now), requestsSeen := requestsSeen s + 1\<rparr> in
        if requestsSeen s mod 1000 = 0 then s\<lparr>tmInflight := pruneStale now (tmInflight s)\<rparr> else s
      else Timings_answer now m s)"

definition Timings_Stop :: "dbgMsgTimings \<Rightarrow> dbgMsgTimings" where
  "Timings_Stop s = s\<lparr>tmInflight := Map.empty\<rparr>"

definition average :: "int \<Rightarrow> u64 \<Rightarrow> rat" where
  "average tot n = (if 0 < n then of_int tot / of_nat (unat n) else 0)"

definition Timings_Metrics :: "dbgMsgTimings \<Rightarrow> (string \<times> rat) list" where
  "Timings_Metrics s = [(''requests_tracked_total'', of_nat (unat (requestsSeen s))),
     (''answers_matched_total'', of_nat (unat (answersMatched s))),
     (''avg_latency_us'', average (totalLatencyUs s) (answersMatched s)), (''max_latency_us'', of_int (maxLatencyUs s))]"

section \<open>\<open>fifo_stats\<close>\<close>

record peerQueueStats =
  currentDepth :: int
  highWater :: int
  totalEnqueue :: u64
  totalDequeue :: u64

definition no_queue_stats :: peerQueueStats where
  "no_queue_stats = \<lparr>currentDepth = 0, highWater = 0, totalEnqueue = 0, totalDequeue = 0\<rparr>"

definition updateHighWater :: "int \<Rightarrow> peerQueueStats \<Rightarrow> peerQueueStats" where
  "updateHighWater depth ps = (if depth \<le> highWater ps then ps else ps\<lparr>highWater := depth\<rparr>)"

record fifoStats =
  peerData :: "(DiamID \<times> peerQueueStats) list"
  fsInflight :: inflight_table
  messagesIn :: u64
  messagesOut :: u64
  totalQueueUs :: int
  matchedAnswers :: u64
  maxQueueUs :: int

definition Fifo_Init :: "fifoStats \<Rightarrow> fifoStats" where
  "Fifo_Init s = s\<lparr>peerData := [], fsInflight := Map.empty\<rparr>"

definition getOrCreatePeerStats :: "DiamID \<Rightarrow> fifoStats \<Rightarrow> peerQueueStats" where
  "getOrCreatePeerStats i s = (case map_of (peerData s) i of Some ps \<Rightarrow> ps | None \<Rightarrow> no_queue_stats)"

definition peerIdentity :: "peer \<Rightarrow> DiamID" where
  "peerIdentity p = (if diameterID p \<noteq> '''' then diameterID p else cDiameterIdentity (config p))"

definition on_peer_stats :: "peer option \<Rightarrow> (peerQueueStats \<Rightarrow> peerQueueStats) \<Rightarrow> fifoStats \<Rightarrow> fifoStats" where
  "on_peer_stats p f s = (case p of None \<Rightarrow> s
     | Some x \<Rightarrow> s\<lparr>peerData := AList.update (peerIdentity x) (f (getOrCreatePeerStats (peerIdentity x) s)) (peerData s)\<rparr>)"

definition enqueued :: "peerQueueStats \<Rightarrow> peerQueueStats" where
  "enqueued ps = (let depth = currentDepth ps + 1 in
     updateHighWater depth (ps\<lparr>currentDepth := depth, totalEnqueue := totalEnqueue ps + 1\<rparr>))"

definition dequeued :: "peerQueueStats \<Rightarrow> peerQueueStats" where
  "dequeued ps = ps\<lparr>currentDepth := currentDepth ps - 1, totalDequeue := totalDequeue ps + 1\<rparr>"

definition Fifo_answer :: "int \<Rightarrow> message \<Rightarrow> fifoStats \<Rightarrow> fifoStats" where
  "Fifo_answer now m s = (case fsInflight s (mEndToEndID m) of
     None \<Rightarrow> s
   | Some t \<Rightarrow>
       (let us = Microseconds (now - t) in
        s\<lparr>fsInflight := (fsInflight s)(mEndToEndID m := None), matchedAnswers := matchedAnswers s + 1,
          totalQueueUs := totalQueueUs s + us, maxQueueUs := max us (maxQueueUs s)\<rparr>))"

definition Fifo_handleIncoming :: "int \<Rightarrow> peer option \<Rightarrow> message \<Rightarrow> fifoStats \<Rightarrow> fifoStats" where
  "Fifo_handleIncoming now p m s =
     (if IsRequest m then
        let s = on_peer_stats p enqueued (s\<lparr>messagesIn := messagesIn s + 1\<rparr>);
            s = s\<lparr>fsInflight := (fsInflight s)(mEndToEndID m \<mapsto> now)\<rparr> in
        if messagesIn s mod 1000 = 0 then s\<lparr>fsInflight := pruneStale now (fsInflight s)\<rparr> else s
      else Fifo_answer now m (on_peer_stats p dequeued (s\<lparr>messagesOut := messagesOut s + 1\<rparr>)))"

definition Fifo_Stop :: "fifoStats \<Rightarrow> fifoStats" where
  "Fifo_Stop s = s\<lparr>fsInflight := Map.empty, peerData := []\<rparr>"

text \<open>The metrics: name, the label \<open>peer\<close> where there is one, value.\<close>

definition Fifo_Metrics :: "fifoStats \<Rightarrow> (string \<times> DiamID option \<times> rat) list" where
  "Fifo_Metrics s = [(''messages_enqueued_total'', None, of_nat (unat (messagesIn s))),
     (''messages_dequeued_total'', None, of_nat (unat (messagesOut s))),
     (''avg_time_in_queue_us'', None, average (totalQueueUs s) (matchedAnswers s)),
     (''max_time_in_queue_us'', None, of_int (maxQueueUs s))] @
     concat (map (\<lambda>(i, ps). [(''peer_queue_depth'', Some i, of_int (currentDepth ps)),
       (''peer_queue_high_water'', Some i, of_int (highWater ps))]) (peerData s))"

section \<open>The interface: a measured latency\<close>

text \<open>
  \<open>step t p m s\<close> is the handler on a message \<open>m\<close> from \<open>p\<close> at time \<open>t\<close>; \<open>table\<close> holds the requests without an answer, and
  \<open>sum\<close> and \<open>count\<close> are what the average is made of.
\<close>

locale latency_probe =
  fixes step :: "int \<Rightarrow> peer option \<Rightarrow> message \<Rightarrow> 's \<Rightarrow> 's"
    and table :: "'s \<Rightarrow> inflight_table"
    and sum :: "'s \<Rightarrow> int"
    and count :: "'s \<Rightarrow> u64"
  assumes request: "IsRequest m \<Longrightarrow> table (step t p m s) = (table s)(mEndToEndID m \<mapsto> t)
      \<or> table (step t p m s) = pruneStale t ((table s)(mEndToEndID m \<mapsto> t))"
    and request_sum: "IsRequest m \<Longrightarrow> sum (step t p m s) = sum s \<and> count (step t p m s) = count s"
    and answer: "\<not> IsRequest m \<Longrightarrow> table (step t p m s) = (table s)(mEndToEndID m := None)"
    and answer_sum: "\<not> IsRequest m \<Longrightarrow> sum (step t p m s) = sum s + (case table s (mEndToEndID m) of None \<Rightarrow> 0 | Some t0 \<Rightarrow> Microseconds (t - t0))
      \<and> count (step t p m s) = count s + (case table s (mEndToEndID m) of None \<Rightarrow> 0 | Some t0 \<Rightarrow> 1)"
begin

definition run :: "(int \<times> peer option \<times> message) list \<Rightarrow> 's \<Rightarrow> 's" where
  "run ms s = fold (\<lambda>(t, p, m). step t p m) ms s"

lemma run_simps [simp]: "run [] s = s" "run ((t, p, m) # ms) s = run ms (step t p m s)"
  by (simp_all add: run_def)

lemma request_entry: "IsRequest m \<Longrightarrow> table (step t p m s) (mEndToEndID m) = Some t"
  using request [of m t p s] by (auto simp: pruneStale_def stale_after_def conf_second_def)

lemma entry_kept:
  assumes "table s i = Some t0" and "mEndToEndID m \<noteq> i" and "t \<le> t0 + stale_after"
  shows "table (step t p m s) i = Some t0"
  using assms answer [of m t p s] request [of m t p s] by (cases "IsRequest m") (auto simp: pruneStale_def)

lemma entry_survives:
  assumes "table s i = Some t0" and "list_all (\<lambda>(t, p, m). mEndToEndID m \<noteq> i \<and> t \<le> t0 + stale_after) ms"
  shows "table (run ms s) i = Some t0"
  using assms by (induction ms arbitrary: s) (auto simp: entry_kept)

text \<open>A request and its answer, with other traffic between: the answer is measured, by the time since the request.\<close>

lemma measured:
  assumes "IsRequest q" and "\<not> IsRequest a" and "mEndToEndID a = mEndToEndID q"
    and "list_all (\<lambda>(t, p, m). mEndToEndID m \<noteq> mEndToEndID q \<and> t \<le> t0 + stale_after) ms"
  shows "sum (step t1 y a (run ms (step t0 x q s))) = sum (run ms (step t0 x q s)) + Microseconds (t1 - t0)"
    and "count (step t1 y a (run ms (step t0 x q s))) = count (run ms (step t0 x q s)) + 1"
proof -
  have "table (run ms (step t0 x q s)) (mEndToEndID a) = Some t0"
    using entry_survives [OF request_entry [OF assms(1)] assms(4)] assms(3) by simp
  then show "sum (step t1 y a (run ms (step t0 x q s))) = sum (run ms (step t0 x q s)) + Microseconds (t1 - t0)"
    and "count (step t1 y a (run ms (step t0 x q s))) = count (run ms (step t0 x q s)) + 1"
    using answer_sum [OF assms(2)] by simp_all
qed

text \<open>No answer is counted without a request of its own.\<close>

definition requests_in :: "(int \<times> peer option \<times> message) list \<Rightarrow> nat" where
  "requests_in ms = length (filter (\<lambda>(t, p, m). IsRequest m) ms)"

lemma dom_prune: "dom (pruneStale t tab) \<subseteq> dom tab"
  by (auto simp: pruneStale_def split: option.splits)

lemma step_balance:
  assumes "finite (dom (table s))"
  shows "\<exists>k. count (step t p m s) = count s + of_nat k \<and> finite (dom (table (step t p m s))) \<and>
    k + card (dom (table (step t p m s))) \<le> (if IsRequest m then 1 else 0) + card (dom (table s))"
proof (cases "IsRequest m")
  case True
  have "dom (table (step t p m s)) \<subseteq> insert (mEndToEndID m) (dom (table s))"
    using request [OF True, of t p s] dom_prune [of t "(table s)(mEndToEndID m \<mapsto> t)"] by (elim disjE) (simp_all only: dom_fun_upd option.distinct if_False)
  moreover from this have "finite (dom (table (step t p m s)))" using assms by (meson finite_insert finite_subset)
  moreover have "card (insert (mEndToEndID m) (dom (table s))) \<le> 1 + card (dom (table s))" by (simp add: card_insert_le_m1 card_insert_if assms)
  ultimately have "card (dom (table (step t p m s))) \<le> 1 + card (dom (table s))" "finite (dom (table (step t p m s)))"
    using assms card_mono [of "insert (mEndToEndID m) (dom (table s))" "dom (table (step t p m s))"] by auto
  then show ?thesis using request_sum [OF True, of t p s] True by (intro exI [of _ 0]) simp
next
  case False
  have d: "dom (table (step t p m s)) = dom (table s) - {mEndToEndID m}" using answer [OF False] by auto
  show ?thesis
  proof (cases "table s (mEndToEndID m)")
    case None
    then have "mEndToEndID m \<notin> dom (table s)" by auto
    with d None answer_sum [OF False, of t p s] assms False show ?thesis by (intro exI [of _ 0]) simp
  next
    case (Some t0)
    then have "mEndToEndID m \<in> dom (table s)" by auto
    then have "Suc (card (dom (table s) - {mEndToEndID m})) = card (dom (table s))"
      using assms by (metis card_Suc_Diff1)
    with d Some answer_sum [OF False, of t p s] assms False show ?thesis by (intro exI [of _ 1]) simp
  qed
qed

lemma run_balance:
  assumes "finite (dom (table s))"
  shows "\<exists>k. count (run ms s) = count s + of_nat k \<and> finite (dom (table (run ms s))) \<and>
    k + card (dom (table (run ms s))) \<le> requests_in ms + card (dom (table s))"
  using assms
proof (induction ms arbitrary: s)
  case Nil
  then show ?case by (intro exI [of _ 0]) (simp add: requests_in_def)
next
  case (Cons x ms)
  obtain t p m where x: "x = (t, p, m)" by (cases x)
  obtain k where k: "count (step t p m s) = count s + of_nat k" "finite (dom (table (step t p m s)))"
    "k + card (dom (table (step t p m s))) \<le> (if IsRequest m then 1 else 0) + card (dom (table s))"
    using step_balance [OF Cons.prems] by blast
  obtain j where j: "count (run ms (step t p m s)) = count (step t p m s) + of_nat j" "finite (dom (table (run ms (step t p m s))))"
    "j + card (dom (table (run ms (step t p m s)))) \<le> requests_in ms + card (dom (table (step t p m s)))"
    using Cons.IH [OF k(2)] by blast
  have "requests_in (x # ms) = (if IsRequest m then 1 else 0) + requests_in ms" by (simp add: requests_in_def x)
  then show ?case using k j by (intro exI [of _ "k + j"]) (auto simp: x algebra_simps)
qed

end

lemmas probe_defs = Timings_handleRouting_def Timings_answer_def Fifo_handleIncoming_def Fifo_answer_def on_peer_stats_def

interpretation timings: latency_probe Timings_handleRouting tmInflight totalLatencyUs answersMatched
  by unfold_locales (auto simp: probe_defs Let_def fun_upd_idem_iff split: option.split)

interpretation fifo: latency_probe Fifo_handleIncoming fsInflight totalQueueUs matchedAnswers
  by unfold_locales (auto simp: probe_defs Let_def fun_upd_idem_iff split: option.split)

section \<open>What is measured\<close>

type_synonym traffic = "(int \<times> peer option \<times> message) list"

abbreviation timings_run :: "traffic \<Rightarrow> dbgMsgTimings \<Rightarrow> dbgMsgTimings" where
  "timings_run ms s \<equiv> fold (\<lambda>(t, p, m). Timings_handleRouting t p m) ms s"

abbreviation fifo_run :: "traffic \<Rightarrow> fifoStats \<Rightarrow> fifoStats" where
  "fifo_run ms s \<equiv> fold (\<lambda>(t, p, m). Fifo_handleIncoming t p m) ms s"

text \<open>
  The time between a request and its answer is added to the sum, whatever other traffic passes meanwhile and whatever was
  pruned, unless the identifier is used again or five minutes pass.
\<close>

theorem latency_is_measured:
  assumes "IsRequest q" and "\<not> IsRequest a" and "mEndToEndID a = mEndToEndID q"
    and "list_all (\<lambda>(t, p, m). mEndToEndID m \<noteq> mEndToEndID q \<and> t \<le> t0 + stale_after) ms"
  shows "totalLatencyUs (timings_run ((t0, x, q) # ms @ [(t1, y, a)]) s) =
      totalLatencyUs (timings_run ((t0, x, q) # ms) s) + Microseconds (t1 - t0)"
    and "totalQueueUs (fifo_run ((t0, x, q) # ms @ [(t1, y, a)]) f) =
      totalQueueUs (fifo_run ((t0, x, q) # ms) f) + Microseconds (t1 - t0)"
  using timings.measured(1) [OF assms] fifo.measured(1) [OF assms] by (simp_all add: timings.run_def fifo.run_def)

text \<open>After \<open>Init\<close> no more answers are counted than there were requests.\<close>

theorem matched_at_most_requests:
  assumes "requests = length (filter (\<lambda>(t, p, m). IsRequest m) ms)"
  shows "\<exists>k \<le> requests. answersMatched (timings_run ms (Timings_Init cfg s)) = answersMatched s + of_nat k"
    and "\<exists>k \<le> requests. matchedAnswers (fifo_run ms (Fifo_Init f)) = matchedAnswers f + of_nat k"
proof -
  have t: "tmInflight (Timings_Init cfg s) = Map.empty" "answersMatched (Timings_Init cfg s) = answersMatched s"
    by (simp_all add: Timings_Init_def)
  have f: "fsInflight (Fifo_Init f) = Map.empty" "matchedAnswers (Fifo_Init f) = matchedAnswers f" by (simp_all add: Fifo_Init_def)
  obtain k where "answersMatched (timings.run ms (Timings_Init cfg s)) = answersMatched s + of_nat k" "k \<le> timings.requests_in ms"
    using timings.run_balance [of "Timings_Init cfg s" ms] by (auto simp: t)
  then show "\<exists>k \<le> requests. answersMatched (timings_run ms (Timings_Init cfg s)) = answersMatched s + of_nat k"
    by (intro exI [of _ k]) (simp add: assms timings.run_def timings.requests_in_def)
  obtain j where "matchedAnswers (fifo.run ms (Fifo_Init f)) = matchedAnswers f + of_nat j" "j \<le> fifo.requests_in ms"
    using fifo.run_balance [of "Fifo_Init f" ms] by (auto simp: f)
  then show "\<exists>k \<le> requests. matchedAnswers (fifo_run ms (Fifo_Init f)) = matchedAnswers f + of_nat k"
    by (intro exI [of _ j]) (simp add: assms fifo.run_def fifo.requests_in_def)
qed

section \<open>The depth of a peer's queue\<close>

text \<open>Messages of a direction that came from the peer with an identity.\<close>

definition from_peer :: "bool \<Rightarrow> DiamID \<Rightarrow> traffic \<Rightarrow> nat" where
  "from_peer req i ms = length (filter (\<lambda>(t, p, m). IsRequest m = req \<and> map_option peerIdentity p = Some i) ms)"

abbreviation depth_of :: "DiamID \<Rightarrow> fifoStats \<Rightarrow> int" where
  "depth_of i s \<equiv> currentDepth (getOrCreatePeerStats i s)"

lemma depth_step:
  "depth_of i (Fifo_handleIncoming t p m s) = depth_of i s +
     (if map_option peerIdentity p = Some i then (if IsRequest m then 1 else -1) else 0)"
  by (auto simp: Fifo_handleIncoming_def Fifo_answer_def on_peer_stats_def getOrCreatePeerStats_def Let_def update_conv'
      enqueued_def dequeued_def updateHighWater_def split: option.split)

text \<open>
  The depth is the number of requests less the number of answers that came from the same peer. A request and its answer come
  from the two ends, so nothing that is relayed ever makes a depth smaller.
\<close>

theorem depth_is_requests_less_answers:
  "depth_of i (fifo_run ms s) = depth_of i s + int (from_peer True i ms) - int (from_peer False i ms)"
proof (induction ms arbitrary: s)
  case (Cons x ms)
  obtain t p m where x: "x = (t, p, m)" by (cases x)
  show ?case using Cons [of "Fifo_handleIncoming t p m s"] by (cases p) (simp_all add: x depth_step from_peer_def)
qed (simp add: from_peer_def)

text \<open>A client that only asks has a queue that grows for ever, and a server that only answers one that falls below zero.\<close>

theorem answered_requests_stay_queued:
  assumes "peerIdentity c \<noteq> peerIdentity v" and "list_all (\<lambda>(q, a). IsRequest q \<and> \<not> IsRequest a) qas"
    and "ms = concat (map (\<lambda>(q, a). [(t, Some c, q), (t', Some v, a)]) qas)"
  shows "depth_of (peerIdentity c) (fifo_run ms (Fifo_Init s)) = int (length qas) \<and>
    depth_of (peerIdentity v) (fifo_run ms (Fifo_Init s)) = - int (length qas)"
proof -
  have "from_peer True (peerIdentity c) ms = length qas" "from_peer False (peerIdentity c) ms = 0"
    "from_peer True (peerIdentity v) ms = 0" "from_peer False (peerIdentity v) ms = length qas"
    unfolding assms(3) using assms(1,2) by (induction qas) (auto simp: from_peer_def)
  moreover have "depth_of i (Fifo_Init s) = 0" for i by (simp add: Fifo_Init_def getOrCreatePeerStats_def no_queue_stats_def)
  ultimately show ?thesis by (simp add: depth_is_requests_less_answers)
qed

lemma high_water_step:
  assumes "\<forall>i. depth_of i s \<le> highWater (getOrCreatePeerStats i s)"
  shows "depth_of i (Fifo_handleIncoming t p m s) \<le> highWater (getOrCreatePeerStats i (Fifo_handleIncoming t p m s))
    \<and> highWater (getOrCreatePeerStats i s) \<le> highWater (getOrCreatePeerStats i (Fifo_handleIncoming t p m s))"
proof -
  have d: "currentDepth (enqueued x) \<le> highWater (enqueued x) \<and> highWater x \<le> highWater (enqueued x)"
    "currentDepth (dequeued x) = currentDepth x - 1 \<and> highWater (dequeued x) = highWater x" for x
    by (simp_all add: enqueued_def dequeued_def updateHighWater_def Let_def)
  have l: "getOrCreatePeerStats i (Fifo_handleIncoming t p m s) =
      (if map_option peerIdentity p = Some i then (if IsRequest m then enqueued else dequeued) (getOrCreatePeerStats i s)
       else getOrCreatePeerStats i s)"
    by (auto simp: Fifo_handleIncoming_def Fifo_answer_def on_peer_stats_def getOrCreatePeerStats_def Let_def update_conv' split: option.split)
  have "depth_of i s - 1 \<le> highWater (getOrCreatePeerStats i s)" using assms [rule_format, of i] by simp
  then show ?thesis using d assms unfolding l by simp
qed

text \<open>The high-water mark is never below a depth that was reached.\<close>

theorem high_water_covers_depth:
  assumes "\<forall>i. depth_of i s \<le> highWater (getOrCreatePeerStats i s)"
  shows "depth_of i (fifo_run ms s) \<le> highWater (getOrCreatePeerStats i (fifo_run (ms @ ms') s))"
proof -
  have keep: "(\<forall>i. depth_of i (fifo_run ms s) \<le> highWater (getOrCreatePeerStats i (fifo_run ms s))) \<and>
      highWater (getOrCreatePeerStats i s) \<le> highWater (getOrCreatePeerStats i (fifo_run ms s))"
    if "\<forall>i. depth_of i s \<le> highWater (getOrCreatePeerStats i s)" for ms s
    using that
  proof (induction ms arbitrary: s)
    case (Cons x ms)
    obtain t p m where x: "x = (t, p, m)" by (cases x)
    note st = high_water_step [OF Cons.prems, where t = t and p = p and m = m]
    then have "\<forall>i. depth_of i (Fifo_handleIncoming t p m s) \<le> highWater (getOrCreatePeerStats i (Fifo_handleIncoming t p m s))" by blast
    from Cons.IH [OF this] st [of i] show ?case by (auto simp: x intro: order_trans)
  qed simp
  let ?u = "fifo_run ms s"
  have "\<forall>i. depth_of i ?u \<le> highWater (getOrCreatePeerStats i ?u)" using keep [OF assms] by blast
  with keep [OF this, of ms'] show ?thesis by (auto intro: order_trans)
qed

end
