(* ===== verification/Dbg_Dumps.thy ===== *)
theory Dbg_Dumps
  imports Server_Properties Topo_Store
begin

text \<open>
  Extension \<open>dbg_msg_dumps\<close>: which events it prints and in which format, and what its initialisation does to the peers that
  are connected: it takes the place of the server's callback for their changes of state. What it prints is a list of events;
  the text of a message is not modelled.
\<close>

section \<open>The level\<close>

datatype DumpFormat = DumpSummary | DumpFull | DumpTree

definition hkErrorsQuiet :: u32 where "hkErrorsQuiet = 0x0001"
definition hkErrorsCompact :: u32 where "hkErrorsCompact = 0x0002"
definition hkErrorsFull :: u32 where "hkErrorsFull = 0x0004"
definition hkErrorsTree :: u32 where "hkErrorsTree = 0x0008"
definition hkSndrcvQuiet :: u32 where "hkSndrcvQuiet = 0x0010"
definition hkSndrcvCompact :: u32 where "hkSndrcvCompact = 0x0020"
definition hkSndrcvFull :: u32 where "hkSndrcvFull = 0x0040"
definition hkSndrcvTree :: u32 where "hkSndrcvTree = 0x0080"
definition hkPeersQuiet :: u32 where "hkPeersQuiet = 0x1000"
definition hkPeersCompact :: u32 where "hkPeersCompact = 0x2000"
definition hkPeersFull :: u32 where "hkPeersFull = 0x4000"
definition hkPeersTree :: u32 where "hkPeersTree = 0x8000"

definition defaultDumpLevel :: u32 where
  "defaultDumpLevel = or (or hkErrorsTree hkSndrcvTree) hkPeersTree"

lemmas hk_defs = hkErrorsTree_def hkSndrcvQuiet_def hkSndrcvCompact_def hkSndrcvFull_def hkSndrcvTree_def hkPeersQuiet_def hkPeersTree_def

text \<open>
  \<open>strconv.ParseUint\<close> with 32 bits, in the base 10, and in the base 0 for a text that starts with \<open>0x\<close>, where an underscore may
  follow the prefix or a digit when a digit follows it.
\<close>

definition number_of :: "nat \<Rightarrow> string \<Rightarrow> u32 option" where
  "number_of b ds = (let n = foldl (\<lambda>n c. n * b + hex_value c) 0 ds in if n < 2 ^ 32 then Some (of_nat n) else None)"

definition parse_decimal :: "string \<Rightarrow> u32 option" where
  "parse_decimal s = (if s = '''' \<or> \<not> list_all is_digit s then None else number_of 10 s)"

fun underscores_ok :: "string \<Rightarrow> bool" where
  "underscores_ok [] = True"
| "underscores_ok [c] = (c \<noteq> CHR ''_'')"
| "underscores_ok (c # d # cs) = (\<not> (c = CHR ''_'' \<and> d = CHR ''_'') \<and> underscores_ok (d # cs))"

definition parse_hex :: "string \<Rightarrow> u32 option" where
  "parse_hex s = (let ds = filter (\<lambda>c. c \<noteq> CHR ''_'') s in
     if s = '''' \<or> \<not> list_all is_hex ds \<or> \<not> underscores_ok s then None else number_of 16 ds)"

definition parse_level :: "string \<Rightarrow> u32 option" where
  "parse_level s = (if take 2 s \<in> {''0x'', ''0X''} then parse_hex (drop 2 s) else parse_decimal s)"

section \<open>The extension\<close>

datatype dump_event =
    Received "DiamID option" DumpFormat message
  | Sent DumpFormat message
  | Connected_to DiamID
  | Disconnected_from DiamID

record dbgMsgDumps =
  dumpLevel :: u32
  dumped :: "dump_event list"

definition sndrcvDumpMode :: "u32 \<Rightarrow> DumpFormat" where
  "sndrcvDumpMode f = (if and f hkSndrcvCompact \<noteq> 0 then DumpSummary else if and f hkSndrcvFull \<noteq> 0 then DumpFull else DumpTree)"

definition sndrcv_mode :: "dbgMsgDumps \<Rightarrow> DumpFormat" where
  "sndrcv_mode s = sndrcvDumpMode (and (dumpLevel s) (or (or hkSndrcvCompact hkSndrcvFull) hkSndrcvTree))"

definition Dumps_handleIncoming :: "peer option \<Rightarrow> message \<Rightarrow> dbgMsgDumps \<Rightarrow> dbgMsgDumps" where
  "Dumps_handleIncoming p m s = (if and (dumpLevel s) hkSndrcvQuiet \<noteq> 0 then s
     else s\<lparr>dumped := dumped s @ [Received (map_option diameterID p) (sndrcv_mode s) m]\<rparr>)"

definition Dumps_handleOutgoing :: "message \<Rightarrow> dbgMsgDumps \<Rightarrow> dbgMsgDumps" where
  "Dumps_handleOutgoing m s = (if and (dumpLevel s) hkSndrcvQuiet \<noteq> 0 then s
     else s\<lparr>dumped := dumped s @ [Sent (sndrcv_mode s) m]\<rparr>)"

definition handlePeerStateChange :: "peer \<Rightarrow> Peer_Types.State \<Rightarrow> dbgMsgDumps \<Rightarrow> dbgMsgDumps" where
  "handlePeerStateChange p new s =
     (if and (dumpLevel s) hkPeersQuiet \<noteq> 0 then s
      else if new = StateIOpen \<or> new = StateROpen then s\<lparr>dumped := dumped s @ [Connected_to (diameterID p)]\<rparr>
      else if new = StateClosed then s\<lparr>dumped := dumped s @ [Disconnected_from (diameterID p)]\<rparr> else s)"

text \<open>
  The flag of a peer says that the server hears of its changes of state. The extension's own callback takes the place of the
  server's and only prints.
\<close>

definition take_callbacks :: "peer_ref list \<Rightarrow> world \<Rightarrow> world" where
  "take_callbacks refs w = fold (\<lambda>ref w. case peer_of w ref of None \<Rightarrow> w
     | Some p \<Rightarrow> set_object ref (FullPeer (SetOnStateChange p False)) w) refs w"

definition Dumps_Init :: "ext_config \<Rightarrow> peer_ref list \<Rightarrow> dbgMsgDumps \<times> world \<Rightarrow> (string + unit) \<times> dbgMsgDumps \<times> world" where
  "Dumps_Init cfg refs = (\<lambda>(s, w).
     (case option_of as_string cfg ''dump_level'' of
        None \<Rightarrow> (Inr (), s\<lparr>dumpLevel := defaultDumpLevel\<rparr>, take_callbacks refs w)
      | Some t \<Rightarrow> (case parse_level (TrimSpace t) of
            None \<Rightarrow> (Inl ''invalid dump_level format'', s\<lparr>dumpLevel := defaultDumpLevel\<rparr>, w)
          | Some l \<Rightarrow> (Inr (), s\<lparr>dumpLevel := l\<rparr>, take_callbacks refs w))))"

section \<open>What the level means\<close>

lemma parse_level_examples:
  "parse_level ''0x0080'' = Some 0x80" "parse_level ''136'' = Some 136" "parse_level ''0x80_8'' = Some 0x808"
  "parse_level ''0x'' = None" "parse_level ''-1'' = None" "parse_level ''4294967296'' = None"
  by (simp_all add: parse_level_def parse_hex_def parse_decimal_def number_of_def hex_value_def is_digit_def is_hex_def)

text \<open>Quiet wins over every format, and with no format bit a message is printed as a tree.\<close>

theorem dump_formats:
  "and (dumpLevel s) hkSndrcvQuiet \<noteq> 0 \<Longrightarrow> Dumps_handleIncoming p m s = s \<and> Dumps_handleOutgoing m s = s"
  "and (dumpLevel s) hkSndrcvCompact = 0 \<Longrightarrow> and (dumpLevel s) hkSndrcvFull = 0 \<Longrightarrow> sndrcv_mode s = DumpTree"
  "sndrcv_mode s = sndrcvDumpMode (dumpLevel s)"
proof -
  have a: "and (and l (or (or hkSndrcvCompact hkSndrcvFull) hkSndrcvTree)) hkSndrcvCompact = and l hkSndrcvCompact"
    "and (and l (or (or hkSndrcvCompact hkSndrcvFull) hkSndrcvTree)) hkSndrcvFull = and l hkSndrcvFull" for l
    by (simp_all add: hk_defs and.assoc)
  show m: "sndrcv_mode s = sndrcvDumpMode (dumpLevel s)" by (simp add: sndrcv_mode_def sndrcvDumpMode_def a)
  show "and (dumpLevel s) hkSndrcvCompact = 0 \<Longrightarrow> and (dumpLevel s) hkSndrcvFull = 0 \<Longrightarrow> sndrcv_mode s = DumpTree"
    by (simp add: m sndrcvDumpMode_def)
qed (simp add: Dumps_handleIncoming_def Dumps_handleOutgoing_def)

section \<open>A connection that is lost while the extension listens\<close>

lemma take_callbacks_peer:
  "peer_of (take_callbacks refs w) r = map_option (\<lambda>p. if r \<in> set refs then SetOnStateChange p False else p) (peer_of w r)"
proof (induction refs arbitrary: w)
  case Nil
  then show ?case by (cases "peer_of w r") (simp_all add: take_callbacks_def)
next
  case (Cons ref refs)
  let ?w = "case peer_of w ref of None \<Rightarrow> w | Some p \<Rightarrow> set_object ref (FullPeer (SetOnStateChange p False)) w"
  have "take_callbacks (ref # refs) w = take_callbacks refs ?w" by (simp add: take_callbacks_def)
  moreover have "peer_of ?w r = map_option (\<lambda>p. if r = ref then SetOnStateChange p False else p) (peer_of w r)"
    by (cases "peer_of w ref"; cases "peer_of w r") auto
  ultimately show ?case using Cons.IH [of ?w] by (cases "peer_of w r") (auto simp: SetOnStateChange_def)
qed

text \<open>
  The extension is enabled while a peer is connected, and then the peer closes: the server goes on listing the peer, and finds
  it when a message is to be sent to it.
\<close>

theorem dumps_extension_hides_lost_peers:
  assumes "peer_of (svWorld s) ref = Some p" and "state p = StateROpen" and "GetPeer s (diameterID p) = Some ref"
    and "Dumps_Init cfg (Peers s) (d, svWorld s) = (Inr (), d', w)"
    and "s' = peer_event inbound e (ev EventRPeerDisc) ref (s\<lparr>svWorld := w\<rparr>)"
  shows "GetPeer s' (diameterID p) = Some ref \<and> LookupPeer (live_router s') (diameterID p) = Some ref \<and>
    (\<exists>q. peer_of (svWorld s') ref = Some q \<and> \<not> IsOpen q \<and> rConn q = None)"
proof -
  have w: "w = take_callbacks (Peers s) (svWorld s)"
    using assms(4) by (auto simp: Dumps_Init_def split: option.splits)
  have "ref \<in> set (Peers s)" using assms(3) by (force simp: Peers_def GetPeer_def dest: map_of_SomeD)
  then have p: "peer_of w ref = Some (SetOnStateChange p False)" by (simp add: w take_callbacks_peer assms(1))
  let ?p = "SetOnStateChange p False"
  have h: "snd (handleEvent e (ev EventRPeerDisc) ?p) = fail_closed ?p"
    using assms(2) by (simp add: handleEvent_def SetOnStateChange_def handleStateROpen_def ev_def)
  have tr: "transitions (setState st x) = (if onStateChange x \<and> state x \<noteq> st then transitions x @ [(state x, st)] else transitions x)"
    "onStateChange (setState st x) = onStateChange x" "onStateChange (errorCleanup x) = onStateChange x" "transitions (errorCleanup x) = transitions x"
    "transitions (spawn g x) = transitions x" for st x g
    by (simp_all add: setState_def errorCleanup_def op_defs Let_def clearPending_def split: option.split)
  have "transitions (fail_closed ?p) = transitions ?p"
    by (simp add: fail_closed_def scheduleReconnect_def tr SetOnStateChange_def)
  then have s': "s' = s\<lparr>svWorld := set_object ref (FullPeer (fail_closed ?p)) w\<rparr>"
    using p h by (simp add: assms(5) peer_event_def)
  have "state (fail_closed ?p) \<in> {StateClosed, StateZombie} \<and> rConn (fail_closed ?p) = None"
    by (simp add: fail_closed_def scheduleReconnect_def setState_def errorCleanup_def op_defs Let_def clearPending_def spawn_def split: option.split)
  then have "\<not> IsOpen (fail_closed ?p) \<and> rConn (fail_closed ?p) = None" by (auto simp: IsOpen_def)
  then show ?thesis
    using assms(3) by (simp add: s' GetPeer_def LookupPeer_def live_router_def SetPeerEnumerator_def SetPeerLookup_def)
qed

end
