(* ===== verification/Admin_Api.thy ===== *)
theory Admin_Api
  imports Ext_Manager_Properties Edge_Registry
begin

text \<open>
  Extension \<open>admin_api\<close>: the HTTP front of the extension manager and of the edge registry. A request is a record of what the
  handlers read of it, its body as \<open>encoding/json\<close> decodes it (\<open>Inl\<close> the error; \<open>Inr None\<close> without a \<open>config\<close>); a reply is a status
  and a body. What \<open>maybePersist\<close> hands to \<open>SaveExtensions\<close> is collected in the state. The handlers are written as
  they run when nobody else uses the manager meanwhile.
\<close>

section \<open>Requests and replies\<close>

record http_request =
  rqMethod :: string
  rqPath :: string
  rqContentLength :: int
  rqBody :: "string + ext_config option"
  rqPersist :: string

record zoneView =
  zvName :: string
  zvRole :: string
  zvAddresses :: "string list"
  zvPort :: int
  zvTLSPort :: int
  zvTLS :: bool
  zvMutualTLS :: bool
  zvPartners :: nat

record partnerView =
  pvName :: string
  pvZone :: string
  pvRealms :: "string list"
  pvPeers :: "string list"
  pvApplications :: "u32 list"
  pvCommands :: "u32 list"
  pvAllowTransit :: bool
  pvScreening :: bool
  pvTopologyHiding :: string
  pvRateLimit :: bool
  pvTLSOverride :: bool

datatype reply_body =
    ReplyError string
  | ReplyList "ManagedExtensionInfo list"
  | ReplyInfo "ManagedExtensionInfo option"
  | ReplyHealth string string "(string \<times> yaml_value) list"
  | ReplyEdge bool string string string "zoneView list" "partnerView list"

record http_reply =
  rpStatus :: nat
  rpBody :: reply_body

definition StatusOK :: nat where [simp]: "StatusOK = 200"
definition StatusBadRequest :: nat where [simp]: "StatusBadRequest = 400"
definition StatusForbidden :: nat where [simp]: "StatusForbidden = 403"
definition StatusNotFound :: nat where [simp]: "StatusNotFound = 404"
definition StatusMethodNotAllowed :: nat where [simp]: "StatusMethodNotAllowed = 405"
definition StatusConflict :: nat where [simp]: "StatusConflict = 409"
definition StatusInternalServerError :: nat where [simp]: "StatusInternalServerError = 500"
definition StatusNotImplemented :: nat where [simp]: "StatusNotImplemented = 501"
definition StatusServiceUnavailable :: nat where [simp]: "StatusServiceUnavailable = 503"

definition writeJSON :: "nat \<Rightarrow> reply_body \<Rightarrow> http_reply" where "writeJSON code b = \<lparr>rpStatus = code, rpBody = b\<rparr>"
definition writeError :: "nat \<Rightarrow> string \<Rightarrow> http_reply" where "writeError code t = writeJSON code (ReplyError t)"

section \<open>The manager's errors as text\<close>

fun error_text :: "manager_error \<Rightarrow> string" where
  "error_text (UnknownExtension n) = ''unknown extension: '' @ n"
| "error_text (AlreadyActive n) = ''extension already active: '' @ n"
| "error_text (Busy s n) = ''extension busy (state='' @ ExtState_String s @ ''): '' @ n"
| "error_text (FailedToInit n err) = ''failed to init '' @ n @ '': '' @ err"
| "error_text (NotActive s n) = ''extension not active (state='' @ ExtState_String s @ ''): '' @ n"
| "error_text (NotStoppable n) = ''extension '' @ n @ '' does not implement Stoppable interface; cannot disable dynamically''"
| "error_text (FailedToStop n err) = ''failed to stop '' @ n @ '': '' @ err"
| "error_text (UseDisableEnable n) = ''extension '' @ n @ '' does not implement Reconfigurable; use disable+enable to apply new config''"
| "error_text (NotReconfigurable n) = ''extension '' @ n @ '' does not implement Reconfigurable''"
| "error_text (ReconfigureFailed n err) = ''reconfigure '' @ n @ '' failed: '' @ err"
| "error_text (NotHealthCheckable n) = ''extension '' @ n @ '' does not implement HealthCheckable''"
| "error_text (FailedToInitialize n e) = ''failed to initialize extension '' @ n @ '': '' @ error_text e"

text \<open>\<open>strings.Contains\<close>.\<close>

fun str_contains :: "string \<Rightarrow> string \<Rightarrow> bool" where
  "str_contains [] pat \<longleftrightarrow> pat = []"
| "str_contains (c # cs) pat \<longleftrightarrow> take (length pat) (c # cs) = pat \<or> str_contains cs pat"

text \<open>The first phrase the text of an error contains gives the status.\<close>

definition status_by_phrase :: "(string \<times> nat) list \<Rightarrow> string \<Rightarrow> nat" where
  "status_by_phrase table t = (case find (\<lambda>(p, code). str_contains t p) table of
     Some (p, code) \<Rightarrow> code | None \<Rightarrow> StatusInternalServerError)"

definition enable_status :: "string \<Rightarrow> nat" where
  "enable_status = status_by_phrase [(''already active'', StatusConflict), (''unknown extension'', StatusNotFound), (''busy'', StatusConflict)]"

definition disable_status :: "string \<Rightarrow> nat" where
  "disable_status = status_by_phrase [(''not active'', StatusConflict), (''unknown extension'', StatusNotFound),
     (''does not implement Stoppable'', StatusBadRequest)]"

definition reconfigure_status :: "string \<Rightarrow> nat" where
  "reconfigure_status = status_by_phrase [(''not active'', StatusConflict), (''unknown extension'', StatusNotFound),
     (''does not implement Reconfigurable'', StatusBadRequest)]"

section \<open>State and initialisation\<close>

record 'x admin =
  adManager :: "'x Manager"
  adWorld :: "'x extWorld"
  adSaved :: "ExtensionConfig list list"

definition admin_port :: "ext_config \<Rightarrow> int" where "admin_port cfg = option_or as_int cfg ''port'' 9001"
definition admin_bind :: "ext_config \<Rightarrow> string" where "admin_bind cfg = option_or as_string cfg ''bind_address'' ''127.0.0.1''"

definition maybePersist :: "http_request \<Rightarrow> 'x admin \<Rightarrow> 'x admin" where
  "maybePersist r s = (if rqPersist r = ''true'' then s\<lparr>adSaved := adSaved s @ [ActiveExtensionConfigs (adManager s)]\<rparr> else s)"

definition set_run :: "'x Manager \<times> 'x extWorld \<Rightarrow> 'x admin \<Rightarrow> 'x admin" where
  "set_run mw s = s\<lparr>adManager := fst mw, adWorld := snd mw\<rparr>"

abbreviation method_not_allowed :: http_reply where
  "method_not_allowed \<equiv> writeError StatusMethodNotAllowed ''method not allowed''"

definition extension_not_found :: "string \<Rightarrow> http_reply" where
  "extension_not_found n = writeError StatusNotFound (''extension not found: '' @ n)"

definition invalid_json :: "string \<Rightarrow> http_reply" where
  "invalid_json err = writeError StatusBadRequest (''invalid JSON body: '' @ err)"

text \<open>How an operation that succeeded ends.\<close>

definition done_reply :: "http_request \<Rightarrow> string \<Rightarrow> 'x admin \<Rightarrow> http_reply \<times> 'x admin" where
  "done_reply r n s = (let s = maybePersist r s in (writeJSON StatusOK (ReplyInfo (Mgr_Get n (adManager s))), s))"

definition config_or_empty :: "ext_config option \<Rightarrow> ext_config" where
  "config_or_empty c = (case c of Some cfg \<Rightarrow> cfg | None \<Rightarrow> [])"

text \<open>The body is read only when the request says how long it is.\<close>

definition optional_body :: "http_request \<Rightarrow> string + ext_config option" where
  "optional_body r = (if 0 < rqContentLength r then rqBody r else Inr None)"

section \<open>The handlers\<close>

definition handleExtensions :: "http_request \<Rightarrow> 'x admin \<Rightarrow> http_reply" where
  "handleExtensions r s = (if rqMethod r \<noteq> ''GET'' then method_not_allowed
     else writeJSON StatusOK (ReplyList (Mgr_List (adManager s))))"

definition handleGetExtension :: "http_request \<Rightarrow> string \<Rightarrow> 'x admin \<Rightarrow> http_reply \<times> 'x admin" where
  "handleGetExtension r n s =
     (if rqMethod r \<noteq> ''GET'' then (method_not_allowed, s)
      else case Mgr_Get n (adManager s) of
        None \<Rightarrow> (extension_not_found n, s)
      | Some info \<Rightarrow> (writeJSON StatusOK (ReplyInfo (Some info)), s))"

definition handleEnable :: "int \<Rightarrow> http_request \<Rightarrow> string \<Rightarrow> 'x admin \<Rightarrow> http_reply \<times> 'x admin" where
  "handleEnable now r n s =
     (if rqMethod r \<noteq> ''POST'' then (method_not_allowed, s)
      else case optional_body r of
        Inl err \<Rightarrow> (invalid_json err, s)
      | Inr c \<Rightarrow> (case Enable now n (config_or_empty c) (adManager s, adWorld s) of
          (Inl err, mw) \<Rightarrow> (writeError (enable_status (error_text err)) (error_text err), set_run mw s)
        | (Inr _, mw) \<Rightarrow> done_reply r n (set_run mw s)))"

definition handleDisable :: "int \<Rightarrow> http_request \<Rightarrow> string \<Rightarrow> 'x admin \<Rightarrow> http_reply \<times> 'x admin" where
  "handleDisable now r n s =
     (if rqMethod r \<noteq> ''POST'' then (method_not_allowed, s)
      else if n = ''admin_api'' then (writeError StatusForbidden ''cannot disable admin_api through its own endpoint'', s)
      else case Disable now n (adManager s, adWorld s) of
        (Inl err, mw) \<Rightarrow> (writeError (disable_status (error_text err)) (error_text err), set_run mw s)
      | (Inr _, mw) \<Rightarrow> done_reply r n (set_run mw s))"

definition handleReconfigure :: "http_request \<Rightarrow> string \<Rightarrow> 'x admin \<Rightarrow> http_reply \<times> 'x admin" where
  "handleReconfigure r n s =
     (if rqMethod r \<noteq> ''PUT'' then (method_not_allowed, s)
      else case rqBody r of
        Inl err \<Rightarrow> (invalid_json err, s)
      | Inr c \<Rightarrow> (case Reconfigure n (config_or_empty c) (adManager s, adWorld s) of
          (Inl err, mw) \<Rightarrow> (writeError (reconfigure_status (error_text err)) (error_text err), set_run mw s)
        | (Inr _, mw) \<Rightarrow> done_reply r n (set_run mw s)))"

text \<open>Stopping an active extension, and starting it with the configuration \<open>cfg\<close>.\<close>

definition restart_start :: "int \<Rightarrow> http_request \<Rightarrow> string \<Rightarrow> ext_config \<Rightarrow> 'x admin \<Rightarrow> http_reply \<times> 'x admin" where
  "restart_start now r n cfg s = (case Enable now n cfg (adManager s, adWorld s) of
     (Inl err, mw) \<Rightarrow> (writeError StatusInternalServerError (''enable after restart failed: '' @ error_text err), set_run mw s)
   | (Inr _, mw) \<Rightarrow> done_reply r n (set_run mw s))"

definition handleRestart :: "int \<Rightarrow> http_request \<Rightarrow> string \<Rightarrow> 'x admin \<Rightarrow> http_reply \<times> 'x admin" where
  "handleRestart now r n s =
     (if rqMethod r \<noteq> ''POST'' then (method_not_allowed, s)
      else if n = ''admin_api'' then (writeError StatusForbidden ''cannot restart admin_api through its own endpoint'', s)
      else case Mgr_Get n (adManager s) of
        None \<Rightarrow> (extension_not_found n, s)
      | Some info \<Rightarrow> (case optional_body r of
          Inl err \<Rightarrow> (invalid_json err, s)
        | Inr c \<Rightarrow> (let cfg = (case c of Some x \<Rightarrow> x | None \<Rightarrow> miConfig info) in
            if miState info = ''active'' then (case Disable now n (adManager s, adWorld s) of
                (Inl err, mw) \<Rightarrow> (writeError StatusInternalServerError (''disable failed: '' @ error_text err), set_run mw s)
              | (Inr _, mw) \<Rightarrow> restart_start now r n cfg (set_run mw s))
            else restart_start now r n cfg s)))"

definition handleHealth :: "http_request \<Rightarrow> string \<Rightarrow> 'x admin \<Rightarrow> http_reply \<times> 'x admin" where
  "handleHealth r n s =
     (if rqMethod r \<noteq> ''GET'' then (method_not_allowed, s)
      else if Mgr_Get n (adManager s) = None then (extension_not_found n, s)
      else case find (\<lambda>i. miName i = n) (Mgr_List (adManager s)) of
        None \<Rightarrow> (extension_not_found n, s)
      | Some info \<Rightarrow>
          if ''health_checkable'' \<notin> set (miCapabilities info)
          then (writeError StatusNotImplemented (''extension '' @ n @ '' does not implement HealthCheckable''), s)
          else (case CheckHealth n (adManager s, adWorld s) of
              Inl err \<Rightarrow> (writeError StatusInternalServerError (error_text err), s)
            | Inr (status, details) \<Rightarrow> (writeJSON StatusOK (ReplyHealth n status details), s)))"

text \<open>Name and action of a path; a further slash belongs to the action.\<close>

definition extensions_prefix :: string where "extensions_prefix = ''/api/v1/extensions/''"

definition path_rest :: "string \<Rightarrow> string" where
  "path_rest p = (if HasPrefix p extensions_prefix then drop (length extensions_prefix) p else p)"

definition path_name :: "string \<Rightarrow> string" where "path_name p = takeWhile (\<lambda>c. c \<noteq> CHR ''/'') (path_rest p)"
definition path_action :: "string \<Rightarrow> string" where "path_action p = drop 1 (dropWhile (\<lambda>c. c \<noteq> CHR ''/'') (path_rest p))"

definition handleExtensionByName :: "int \<Rightarrow> http_request \<Rightarrow> 'x admin \<Rightarrow> http_reply \<times> 'x admin" where
  "handleExtensionByName now r s =
     (let n = path_name (rqPath r); a = path_action (rqPath r) in
      if n = '''' then (writeError StatusBadRequest ''extension name required'', s)
      else if a = '''' then handleGetExtension r n s
      else if a = ''enable'' then handleEnable now r n s
      else if a = ''disable'' then handleDisable now r n s
      else if a = ''config'' then handleReconfigure r n s
      else if a = ''restart'' then handleRestart now r n s
      else if a = ''health'' then handleHealth r n s
      else (writeError StatusNotFound (''unknown action: '' @ a), s))"

section \<open>The view of the edge\<close>

definition topologyMode :: "PartnerConfig \<Rightarrow> string" where
  "topologyMode p = (if thMode (ptTopologyHiding p) = '''' then TopoHideNone else thMode (ptTopologyHiding p))"

definition zone_view :: "registry \<Rightarrow> ZoneConfig \<Rightarrow> zoneView" where
  "zone_view g z = \<lparr>zvName = zName z, zvRole = zRole z, zvAddresses = lnAddresses (zListen z), zvPort = lnPort (zListen z),
     zvTLSPort = lnSecurePort (zListen z), zvTLS = ntEnabled (zTLS z), zvMutualTLS = ntVerifyPeer (zTLS z),
     zvPartners = length (PartnersForZone g (zName z))\<rparr>"

definition partner_view :: "registry \<Rightarrow> PartnerConfig \<Rightarrow> partnerView" where
  "partner_view g p = \<lparr>pvName = ptName p, pvZone = ptZone p, pvRealms = ptRealms p, pvPeers = map prIdentity (ptPeers p),
     pvApplications = ptApplications p, pvCommands = ptCommands p, pvAllowTransit = ptAllowTransit p,
     pvScreening = ScreeningEnabled p (IsExternalZone g (ptZone p)), pvTopologyHiding = topologyMode p,
     pvRateLimit = rpEnabled (ptRateLimit p), pvTLSOverride = (ptTLS p \<noteq> None)\<rparr>"

text \<open>\<open>None\<close> where a listed name has no entry: the code would dereference nil.\<close>

definition handleEdge :: "http_request \<Rightarrow> registry option \<Rightarrow> http_reply option" where
  "handleEdge r reg =
     (if rqMethod r \<noteq> ''GET'' then Some method_not_allowed
      else case reg of
        None \<Rightarrow> Some (writeError StatusServiceUnavailable ''edge registry unavailable'')
      | Some g \<Rightarrow>
          if None \<in> set (Zones g) \<or> None \<in> set (Partners g) then None
          else Some (writeJSON StatusOK (ReplyEdge (Configured g) (rgIdentity g) (rgRealm g) (DefaultZone g)
            (map (zone_view g \<circ> the) (Zones g)) (map (partner_view g \<circ> the) (Partners g)))))"

end
