(* ===== verification/Admin_Api_Properties.thy ===== *)
theory Admin_Api_Properties
  imports Admin_Api
begin

text \<open>
  What the admin API promises: it never takes itself down, a wrong method changes nothing, which status an error of the manager
  becomes, and what a restart leaves. The locale \<open>managed_operation\<close> is what its handlers need of the manager's operations.
\<close>

section \<open>The interface of the manager's operations\<close>

text \<open>An operation on a name changes the entry of that name at most.\<close>

definition one_entry :: "string \<Rightarrow> 'x Manager \<Rightarrow> 'x Manager \<Rightarrow> bool" where
  "one_entry n m m' \<longleftrightarrow> extensions m' = extensions m \<and>
     (managed m' = managed m \<or> (\<exists>p me. map_of (extensions m) n = Some p \<and> managed m' = (managed m)[p := me]))"

lemma one_entry_refl: "one_entry n m m"
  by (simp add: one_entry_def)

lemma one_entry_trans:
  assumes "one_entry n m m1" and "one_entry n m1 m2"
  shows "one_entry n m m2"
proof -
  have "(\<exists>me. managed m2 = (managed m)[p := me]) \<or> managed m2 = managed m"
    if "map_of (extensions m) n = Some p" for p
    using assms that unfolding one_entry_def by (auto intro: exI [of _ "managed m ! p"])
  then show ?thesis using assms unfolding one_entry_def by (cases "map_of (extensions m) n") auto
qed

lemma one_entry_set: "map_of (extensions m) n = Some p \<Longrightarrow> one_entry n m (set_managed p f m)"
  by (auto simp: one_entry_def set_managed_def)

lemma one_entry_order: "one_entry n m (m'\<lparr>initOrder := ns\<rparr>) = one_entry n m m'"
  by (simp add: one_entry_def)

lemma one_entry_wf: "one_entry n m m' \<Longrightarrow> mgr_wf m \<Longrightarrow> mgr_wf m'"
  by (auto simp: one_entry_def mgr_wf_def)

lemma one_entry_other:
  assumes "one_entry n m m'" and "mgr_wf m" and "k \<noteq> n"
  shows "lookup_managed k m' = lookup_managed k m"
proof (cases "map_of (extensions m) k")
  case None
  then show ?thesis using assms(1) by (simp add: lookup_managed_def one_entry_def)
next
  case (Some q)
  have "q \<noteq> p" if "map_of (extensions m) n = Some p" for p
    using mgr_wf_inj [OF assms(2) map_of_SomeD [OF Some]] map_of_SomeD [OF that] assms(3) by auto
  with Some assms(1) show ?thesis by (auto simp: lookup_managed_def one_entry_def)
qed

locale managed_operation =
  fixes operation :: "'x Manager \<times> 'x extWorld \<Rightarrow> (manager_error + unit) \<times> 'x Manager \<times> 'x extWorld"
    and name :: string
  assumes local_change: "one_entry name m (fst (snd (operation (m, w))))"
begin

lemma operation_wf: "mgr_wf m \<Longrightarrow> operation (m, w) = (res, m', w') \<Longrightarrow> mgr_wf m'"
  using one_entry_wf [OF local_change [of m w]] by simp

lemma operation_other: "mgr_wf m \<Longrightarrow> operation (m, w) = (res, m', w') \<Longrightarrow> k \<noteq> name \<Longrightarrow> lookup_managed k m' = lookup_managed k m"
  using one_entry_other [OF local_change [of m w]] by simp

end

lemma lookup_managed_map: "lookup_managed n m = Some (p, me) \<longleftrightarrow> map_of (extensions m) n = Some p \<and> me = managed m ! p"
  by (auto simp: lookup_managed_def)

lemma ends_one_entry:
  assumes "map_of (extensions m) n = Some p"
  shows "enable_end now n cfg p res m = (r, m') \<Longrightarrow> one_entry n m m'"
    and "disable_end now n p res m = (r, m') \<Longrightarrow> one_entry n m m'"
    and "reconfigure_end n cfg p res m = (r, m') \<Longrightarrow> one_entry n m m'"
  using assms by (auto simp: enable_end_def disable_end_def reconfigure_end_def one_entry_def set_managed_def split: sum.splits)

interpretation mgr_enable: managed_operation "Enable now n cfg" n
proof
  fix m :: "'a Manager" and w
  obtain r m1 where b: "enable_begin n m = (r, m1)" by (cases "enable_begin n m")
  then have "one_entry n m m1" "r = Inr p \<Longrightarrow> map_of (extensions m1) n = Some p" for p
    by (auto simp: enable_begin_def lookup_managed_map one_entry_refl one_entry_set split: option.splits if_splits)
  then show "one_entry n m (fst (snd (Enable now n cfg (m, w))))"
    by (auto simp: Enable_def b split: sum.split prod.split intro: one_entry_trans [OF _ ends_one_entry(1)])
qed

interpretation mgr_disable: managed_operation "Disable now n" n
proof
  fix m :: "'a Manager" and w
  obtain r m1 where b: "disable_begin n m = (r, m1)" by (cases "disable_begin n m")
  then have "one_entry n m m1" "r = Inr (p, stop) \<Longrightarrow> map_of (extensions m1) n = Some p" for p stop
    by (auto simp: disable_begin_def lookup_managed_map one_entry_refl one_entry_set split: option.splits if_splits)
  then show "one_entry n m (fst (snd (Disable now n (m, w))))"
    by (auto simp: Disable_def b split: sum.split prod.split intro: one_entry_trans [OF _ ends_one_entry(2)])
qed

interpretation mgr_reconfigure: managed_operation "Reconfigure n cfg" n
proof
  fix m :: "'a Manager" and w
  have "reconfigure_begin n m = Inr (p, f) \<Longrightarrow> map_of (extensions m) n = Some p" for p f
    by (auto simp: reconfigure_begin_def lookup_managed_map split: option.splits if_splits)
  then show "one_entry n m (fst (snd (Reconfigure n cfg (m, w))))"
    by (auto simp: Reconfigure_def one_entry_refl split: sum.split prod.split intro: ends_one_entry(3))
qed

section \<open>The admin API stays up\<close>

abbreviation entry_state :: "string \<Rightarrow> 'x Manager \<Rightarrow> ExtState option" where
  "entry_state n m \<equiv> map_option (\<lambda>(p, me). meState me) (lookup_managed n m)"

lemma entry_state_eq: "entry_state n m = Some st \<longleftrightarrow> (\<exists>p. map_of (extensions m) n = Some p \<and> meState (managed m ! p) = st)"
  by (auto simp: lookup_managed_def)

text \<open>What the two operations that the API allows on itself do to an active extension.\<close>

lemma Enable_active: "entry_state n m = Some StateActive \<Longrightarrow> Enable now n cfg (m, w) = (Inl (AlreadyActive n), m, w)"
  by (auto simp: Enable_def enable_begin_def)

lemma Reconfigure_active:
  assumes "mgr_wf m" and "entry_state n m = Some StateActive" and "Reconfigure n cfg (m, w) = (res, m', w')"
  shows "entry_state n m' = Some StateActive"
proof -
  obtain p where p: "map_of (extensions m) n = Some p" "meState (managed m ! p) = StateActive" using assms(2) unfolding entry_state_eq by blast
  then have "p < length (managed m)" using assms(1) by (auto dest: map_of_SomeD mgr_wf_bound)
  then have e: "entry_state n (set_managed p (\<lambda>me. me\<lparr>meConfig := cfg\<rparr>) m) = Some StateActive"
    unfolding entry_state_eq using p by simp
  have "m' = m \<or> m' = set_managed p (\<lambda>me. me\<lparr>meConfig := cfg\<rparr>) m"
    using assms(3) p by (auto simp: Reconfigure_def reconfigure_begin_def reconfigure_end_def lookup_managed_def split: if_splits option.splits sum.splits prod.splits)
  then show ?thesis using e assms(2) by blast
qed

text \<open>What a handler leaves of the manager, when it runs an operation on \<open>n\<close>.\<close>

definition left_alone :: "string \<Rightarrow> string \<Rightarrow> 'x admin \<Rightarrow> 'x admin \<Rightarrow> bool" where
  "left_alone k n s s' \<longleftrightarrow> mgr_wf (adManager s') \<and> (k \<noteq> n \<longrightarrow> lookup_managed k (adManager s') = lookup_managed k (adManager s))"

lemma set_run_simps [simp]: "adManager (set_run (m, w) s) = m" "adWorld (set_run (m, w) s) = w" "adSaved (set_run (m, w) s) = adSaved s"
  by (simp_all add: set_run_def)

lemma done_reply_manager [simp]: "adManager (snd (done_reply r n s)) = adManager s"
  by (simp add: done_reply_def maybePersist_def Let_def)

lemma Enable_left:
  assumes "mgr_wf (adManager s)" and "Enable now n cfg (adManager s, adWorld s) = (res, m', w')"
  shows "left_alone k n s (set_run (m', w') s)"
  using mgr_enable.operation_wf [OF assms] mgr_enable.operation_other [OF assms] by (auto simp: left_alone_def)

lemma Disable_left:
  assumes "mgr_wf (adManager s)" and "Disable now n (adManager s, adWorld s) = (res, m', w')"
  shows "left_alone k n s (set_run (m', w') s)"
  using mgr_disable.operation_wf [OF assms] mgr_disable.operation_other [OF assms] by (auto simp: left_alone_def)

lemma Reconfigure_left:
  assumes "mgr_wf (adManager s)" and "Reconfigure n cfg (adManager s, adWorld s) = (res, m', w')"
  shows "left_alone k n s (set_run (m', w') s)"
  using mgr_reconfigure.operation_wf [OF assms] mgr_reconfigure.operation_other [OF assms] by (auto simp: left_alone_def)

lemma left_done: "left_alone k n s s' \<Longrightarrow> left_alone k n s (snd (done_reply r n' s'))"
  by (simp add: left_alone_def)

lemma left_same: "mgr_wf (adManager s) \<Longrightarrow> left_alone k n s s"
  by (simp add: left_alone_def)

lemma handleEnable_left: "mgr_wf (adManager s) \<Longrightarrow> left_alone k n s (snd (handleEnable now r n s))"
  by (auto simp: handleEnable_def left_same split: sum.split prod.split intro: Enable_left left_done)

lemma handleDisable_left: "mgr_wf (adManager s) \<Longrightarrow> left_alone k n s (snd (handleDisable now r n s))"
  by (auto simp: handleDisable_def left_same split: sum.split prod.split intro: Disable_left left_done)

lemma handleReconfigure_left: "mgr_wf (adManager s) \<Longrightarrow> left_alone k n s (snd (handleReconfigure r n s))"
  by (auto simp: handleReconfigure_def left_same split: sum.split prod.split intro: Reconfigure_left left_done)

lemma restart_start_left: "mgr_wf (adManager s) \<Longrightarrow> left_alone k n s (snd (restart_start now r n cfg s))"
  by (auto simp: restart_start_def split: sum.split prod.split intro: Enable_left left_done)

lemma handleRestart_left:
  assumes "mgr_wf (adManager s)"
  shows "left_alone k n s (snd (handleRestart now r n s))"
proof -
  note s = left_same [OF assms, of k n]
  have d: "left_alone k n s (snd (restart_start now r n cfg (set_run (m', w') s)))"
    if "Disable now n (adManager s, adWorld s) = (res, m', w')" for res m' w' cfg
    using Disable_left [OF assms that, of k] restart_start_left [of "set_run (m', w') s" k n now r cfg]
    by (auto simp: left_alone_def)
  show ?thesis
    using s d by (auto simp: handleRestart_def Let_def split: option.split sum.split prod.split intro: Disable_left [OF assms] restart_start_left [OF assms])
qed

lemmas handlers_left = handleEnable_left handleDisable_left handleReconfigure_left handleRestart_left

lemma read_handlers_state: "snd (handleGetExtension r n s) = s" "snd (handleHealth r n s) = s"
  by (auto simp: handleGetExtension_def handleHealth_def split: option.split sum.split prod.split)

lemma self_handlers_active:
  assumes "mgr_wf (adManager s)" and "entry_state ''admin_api'' (adManager s) = Some StateActive"
  shows "entry_state ''admin_api'' (adManager (snd (handleEnable now r ''admin_api'' s))) = Some StateActive"
    and "entry_state ''admin_api'' (adManager (snd (handleReconfigure r ''admin_api'' s))) = Some StateActive"
    and "snd (handleDisable now r ''admin_api'' s) = s" and "snd (handleRestart now r ''admin_api'' s) = s"
proof -
  show "entry_state ''admin_api'' (adManager (snd (handleEnable now r ''admin_api'' s))) = Some StateActive"
    using assms(2) by (auto simp: handleEnable_def Enable_active split: sum.split)
  show "entry_state ''admin_api'' (adManager (snd (handleReconfigure r ''admin_api'' s))) = Some StateActive"
  proof (cases "rqMethod r \<noteq> ''PUT'' \<or> (\<exists>err. rqBody r = Inl err)")
    case False
    then obtain c where c: "rqMethod r = ''PUT''" "rqBody r = Inr c" by (cases "rqBody r") auto
    obtain res m' w' where e: "Reconfigure ''admin_api'' (config_or_empty c) (adManager s, adWorld s) = (res, m', w')"
      by (cases "Reconfigure ''admin_api'' (config_or_empty c) (adManager s, adWorld s)") auto
    have "adManager (snd (handleReconfigure r ''admin_api'' s)) = m'"
      using c e by (cases res) (simp_all add: handleReconfigure_def)
    then show ?thesis using Reconfigure_active [OF assms e] by simp
  qed (use assms(2) in \<open>auto simp: handleReconfigure_def\<close>)
qed (simp_all add: handleDisable_def handleRestart_def)

text \<open>
  C40: No request to the admin API takes the admin API down: once it is active it stays active, whatever the request, and
  a request about another extension leaves its whole entry as it is.
\<close>

theorem admin_api_stays_active:
  assumes "mgr_wf (adManager s)" and "entry_state ''admin_api'' (adManager s) = Some StateActive"
    and "handleExtensionByName now r s = (reply, s')"
  shows "mgr_wf (adManager s') \<and> entry_state ''admin_api'' (adManager s') = Some StateActive \<and>
    (\<forall>k. k \<noteq> path_name (rqPath r) \<longrightarrow> lookup_managed k (adManager s') = lookup_managed k (adManager s))"
proof -
  let ?n = "path_name (rqPath r)"
  note same = left_same [OF assms(1), of _ ?n]
  have "left_alone k ?n s s'" for k
    using assms(3) same handlers_left [OF assms(1), of k "path_name (rqPath r)"] read_handlers_state [of r ?n s]
    by (auto simp: handleExtensionByName_def Let_def dest!: arg_cong [of _ _ snd] split: if_splits)
  moreover have "entry_state ''admin_api'' (adManager s') = Some StateActive" if "?n = ''admin_api''"
    using assms(3) self_handlers_active [OF assms(1,2)] read_handlers_state [of r "''admin_api''" s] assms(2)
    by (auto simp: handleExtensionByName_def Let_def that dest!: arg_cong [of _ _ snd] split: if_splits)
  ultimately show ?thesis using assms(2) by (cases "?n = ''admin_api''") (auto simp: left_alone_def)
qed

text \<open>A request with the wrong method, or to look at something, changes nothing.\<close>

theorem other_methods_change_nothing:
  assumes "rqMethod r \<noteq> ''POST''" and "rqMethod r \<noteq> ''PUT''"
  shows "snd (handleExtensionByName now r s) = s"
  using assms by (simp add: handleExtensionByName_def Let_def handleEnable_def handleDisable_def handleReconfigure_def
      handleRestart_def read_handlers_state)

section \<open>Statuses\<close>

text \<open>The names of the extensions of this repository are words of letters, digits and underscores.\<close>

definition plain_name :: "string \<Rightarrow> bool" where "plain_name n \<longleftrightarrow> CHR '' '' \<notin> set n"

lemma no_phrase: "c \<in> set pat \<Longrightarrow> c \<notin> set s \<Longrightarrow> \<not> str_contains s pat"
proof (induction s)
  case (Cons x s)
  then have "c \<notin> set (take (length pat) (x # s))" using in_set_takeD [of c "length pat" "x # s"] by auto
  then show ?case using Cons by auto
qed auto

lemma plain_phrases:
  assumes "plain_name n"
  shows "\<not> str_contains n ''already active''" "\<not> str_contains n ''unknown extension''" "\<not> str_contains n ''not active''"
    "\<not> str_contains n ''does not implement Stoppable''" "\<not> str_contains n ''does not implement Reconfigurable''"
  using assms unfolding plain_name_def by (rule no_phrase [rotated]; simp)+

lemma str_contains_prefix: "str_contains (pat @ t) pat"
  by (cases pat; cases t) auto

lemma str_contains_later: "str_contains t pat \<Longrightarrow> str_contains (s @ t) pat"
  by (induction s) auto

theorem enable_statuses:
  assumes "plain_name n"
  shows "enable_status (error_text (AlreadyActive n)) = 409" and "enable_status (error_text (UnknownExtension n)) = 404"
    and "enable_status (error_text (Busy st n)) = 409"
    and "enable_status (error_text (FailedToInit n err)) = enable_status (n @ '': '' @ err)"
proof -
  show "enable_status (error_text (AlreadyActive n)) = 409"
    using str_contains_later [of "''already active'' @ '': '' @ n" "''already active''" "''extension ''"] str_contains_prefix
    by (simp add: enable_status_def status_by_phrase_def)
  show "enable_status (error_text (UnknownExtension n)) = 404"
    using plain_phrases [OF assms] by (simp add: enable_status_def status_by_phrase_def)
  show "enable_status (error_text (Busy st n)) = 409"
    using plain_phrases [OF assms] by (cases st) (simp_all add: enable_status_def status_by_phrase_def ExtState_String_def)
  show "enable_status (error_text (FailedToInit n err)) = enable_status (n @ '': '' @ err)"
    by (simp add: enable_status_def status_by_phrase_def)
qed

text \<open>
  The rest of the text decides what a failed initialisation is reported as: an internal error, but a conflict for an extension
  that has the word in its name.
\<close>

theorem failed_init_of_busypeers_is_a_conflict:
  "enable_status (error_text (FailedToInit ''rt_busypeers'' err)) \<in> {404, 409}"
  "enable_status (error_text (FailedToInit ''rt_ereg'' ''rules required'')) = 500"
  by (simp_all add: enable_status_def status_by_phrase_def)

theorem disable_statuses:
  assumes "plain_name n"
  shows "disable_status (error_text (NotActive st n)) = 409" and "disable_status (error_text (UnknownExtension n)) = 404"
    and "reconfigure_status (error_text (NotActive st n)) = 409" and "reconfigure_status (error_text (UnknownExtension n)) = 404"
  using plain_phrases [OF assms] by (cases st; simp add: disable_status_def reconfigure_status_def status_by_phrase_def ExtState_String_def)+

section \<open>Restart\<close>

text \<open>
  Restarting an active extension that stops and starts without an error leaves it active, with the new configuration or, when the
  request has none, with the one it had; with \<open>persist=true\<close> the list of active extensions that is saved has it.
\<close>

theorem restart_keeps_configuration:
  assumes "mgr_wf (adManager s)" and "lookup_managed n (adManager s) = Some (p, me)" and "meState me = StateActive"
    and "exStop (meExtension me) = Some stop" and "disable_run n stop (adWorld s) = (Inr (), w1)"
    and "cfg = (case optional_body r of Inr (Some c) \<Rightarrow> c | _ \<Rightarrow> meConfig me)" and "optional_body r = Inr c"
    and "exInit (meExtension me) cfg w1 = (Inr (), w2)" and "rqMethod r = ''POST''" and "n \<noteq> ''admin_api''"
    and "handleRestart now r n s = (reply, s')"
  shows "rpStatus reply = 200 \<and> adWorld s' = w2 \<and>
    (\<exists>me'. lookup_managed n (adManager s') = Some (p, me') \<and> meState me' = StateActive \<and> meConfig me' = cfg) \<and>
    (rqPersist r = ''true'' \<longrightarrow> \<lparr>ecName = n, ecConfig = cfg\<rparr> \<in> set (last (adSaved s')))"
proof -
  let ?m = "adManager s"
  note l = lookup_managed_Some [OF assms(1,2)]
  have info: "Mgr_Get n ?m = Some (info_of n me)" "miState (info_of n me) = ''active''" "miConfig (info_of n me) = meConfig me"
    using assms(2,3) by (simp_all add: Mgr_Get_def info_of_def ExtState_String_def)
  obtain m1 where d: "Disable now n (?m, adWorld s) = (Inr (), m1, w1)" and m1: "extensions m1 = extensions ?m"
    "managed m1 = (managed ?m)[p := me\<lparr>meState := StateStopped, meError := '''', meStoppedAt := Some now\<rparr>]"
    using assms(2-5) l by (simp add: Disable_def disable_begin_def disable_end_def set_managed_def)
  have wf1: "mgr_wf m1" using mgr_disable.operation_wf [OF assms(1) d] .
  have l1: "lookup_managed n m1 = Some (p, me\<lparr>meState := StateStopped, meError := '''', meStoppedAt := Some now\<rparr>)"
    using assms(2) l m1 by (simp add: lookup_managed_map)
  obtain m2 where e: "Enable now n cfg (m1, w1) = (Inr (), m2, w2)" and m2: "extensions m2 = extensions m1"
    "managed m2 = (managed m1)[p := me\<lparr>meState := StateActive, meConfig := cfg, meError := '''', meStartedAt := Some now, meStoppedAt := None\<rparr>]"
    "initOrder m2 = initOrder m1 @ [n]"
  proof (rule Enable_success [OF wf1 l1])
    show "exInit (meExtension (me\<lparr>meState := StateStopped, meError := '''', meStoppedAt := Some now\<rparr>)) cfg w1 = (Inr (), w2)" using assms(8) by simp
  next
    fix m' assume "Enable now n cfg (m1, w1) = (Inr (), m', w2)" and "extensions m' = extensions m1"
      and "managed m' = (managed m1)[p := me\<lparr>meState := StateStopped, meError := '''', meStoppedAt := Some now, meState := StateActive,
        meConfig := cfg, meError := '''', meStartedAt := Some now, meStoppedAt := None\<rparr>]" and "initOrder m' = initOrder m1 @ [n]"
    then show thesis by (intro that [of m']) simp_all
  qed simp
  have l2: "lookup_managed n m2 = Some (p, me\<lparr>meState := StateActive, meConfig := cfg, meError := '''', meStartedAt := Some now, meStoppedAt := None\<rparr>)"
    using assms(2) l m1 m2 by (simp add: lookup_managed_map)
  have h: "handleRestart now r n s = done_reply r n (set_run (m2, w2) (set_run (m1, w1) s))"
  proof -
    have "(case c of Some x \<Rightarrow> x | None \<Rightarrow> miConfig (info_of n me)) = cfg" using assms(6,7) info(3) by (cases c) simp_all
    then show ?thesis by (simp only: handleRestart_def assms(7,9,10) info option.case sum.case Let_def if_True if_False d e prod.case
        restart_start_def set_run_simps simp_thms)
  qed
  have "\<lparr>ecName = n, ecConfig = cfg\<rparr> \<in> set (ActiveExtensionConfigs m2)"
    by (auto simp: ActiveExtensionConfigs_def List.map_filter_def m2(3) l2)
  with assms(11) l2 show ?thesis
    by (auto simp: h done_reply_def maybePersist_def set_run_def writeJSON_def Let_def)
qed

text \<open>
  A body of unknown length, as a client sends it in chunks, is never read: the extension starts with the empty configuration,
  or again with its old one.
\<close>

theorem chunked_configuration_is_ignored:
  fixes s :: "'x admin"
  assumes "rqContentLength r = -1"
  shows "handleEnable now r n s = handleEnable now (r\<lparr>rqBody := b\<rparr>) n s" and "handleRestart now r n s = handleRestart now (r\<lparr>rqBody := b\<rparr>) n s"
proof -
  have b: "optional_body r = Inr None" "optional_body (r\<lparr>rqBody := b\<rparr>) = Inr None" using assms by (simp_all add: optional_body_def)
  have d: "done_reply (r\<lparr>rqBody := b\<rparr>) n' s' = done_reply r n' s'" for n' and s' :: "'x admin"
    by (simp add: done_reply_def maybePersist_def)
  then have e: "restart_start now (r\<lparr>rqBody := b\<rparr>) n' c s' = restart_start now r n' c s'" for n' c and s' :: "'x admin"
    by (simp add: restart_start_def split: sum.split prod.split)
  show "handleEnable now r n s = handleEnable now (r\<lparr>rqBody := b\<rparr>) n s" by (simp add: handleEnable_def b d split: sum.split prod.split)
  show "handleRestart now r n s = handleRestart now (r\<lparr>rqBody := b\<rparr>) n s" by (simp add: handleRestart_def b e Let_def split: option.split sum.split prod.split)
qed

section \<open>A witness\<close>

definition silent_extension :: "unit Extension" where
  "silent_extension = \<lparr>exName = ''admin_api'', exInit = (\<lambda>_ w. (Inr (), w)), exStop = Some (\<lambda>w. (Inr (), w)),
     exReconfigure = None, exHealthCheck = None, exMetrics = None\<rparr>"

definition running_admin :: "unit admin" where
  "running_admin = \<lparr>adManager = \<lparr>extensions = [(''admin_api'', 0)],
     managed = [(new_managed silent_extension)\<lparr>meState := StateActive\<rparr>], initOrder = [''admin_api'']\<rparr>,
     adWorld = (NewRouter, ()), adSaved = []\<rparr>"

definition disable_request :: http_request where
  "disable_request = \<lparr>rqMethod = ''POST'', rqPath = ''/api/v1/extensions/admin_api/disable'', rqContentLength = 0,
     rqBody = Inr None, rqPersist = ''''\<rparr>"

lemma disable_request_path: "path_name (rqPath disable_request) = ''admin_api''" "path_action (rqPath disable_request) = ''disable''"
  by (simp_all add: path_name_def path_action_def path_rest_def extensions_prefix_def HasPrefix_def disable_request_def)

theorem admin_api_stays_active_witness:
  "entry_state ''admin_api'' (adManager (snd (handleExtensionByName 0 disable_request running_admin))) = Some StateActive \<and>
   rpStatus (fst (handleExtensionByName 0 disable_request running_admin)) = 403"
proof -
  have "mgr_wf (adManager running_admin)" by (simp add: running_admin_def mgr_wf_def)
  moreover have "entry_state ''admin_api'' (adManager running_admin) = Some StateActive"
    by (simp add: running_admin_def lookup_managed_def)
  moreover have h: "handleExtensionByName 0 disable_request running_admin = (writeError 403 ''cannot disable admin_api through its own endpoint'', running_admin)"
    by (simp add: handleExtensionByName_def disable_request_path handleDisable_def) (simp add: disable_request_def)
  ultimately have "entry_state ''admin_api'' (adManager running_admin) = Some StateActive"
    by (rule admin_api_stays_active [THEN conjunct2, THEN conjunct1])
  then show ?thesis unfolding h by (simp add: writeError_def writeJSON_def)
qed

end
