(* ===== verification/Prom_Metrics.thy ===== *)
theory Prom_Metrics
  imports Server Dictionary
begin

text \<open>
  Extension \<open>prom_metrics\<close>: what its two collectors hand to the Prometheus library when the node is scraped. The library is a
  parameter: which descriptors and which label values it accepts; a metric it does not accept makes \<open>MustNewConstMetric\<close> panic,
  which is \<open>None\<close>. Where the code ranges over a map the order is that of the model's lists, and does not matter to the library.
\<close>

section \<open>The library\<close>

record prom_lib =
  validDesc :: "string \<Rightarrow> string list \<Rightarrow> bool"
  validValue :: "string \<Rightarrow> bool"

record prom_metric =
  pmName :: string
  pmType :: MetricType
  pmValue :: rat
  pmLabels :: "(string \<times> string) list"

text \<open>A metric as it is asked for: descriptor, type, value, label values.\<close>

type_synonym wanted = "(string \<times> string list) \<times> MetricType \<times> rat \<times> string list"

definition MustNewConstMetric :: "prom_lib \<Rightarrow> wanted \<Rightarrow> prom_metric option" where
  "MustNewConstMetric lib = (\<lambda>((name, labels), t, v, vals).
     if validDesc lib name labels \<and> length vals = length labels \<and> list_all (validValue lib) vals
     then Some \<lparr>pmName = name, pmType = t, pmValue = v, pmLabels = zip labels vals\<rparr> else None)"

fun send_all :: "prom_lib \<Rightarrow> wanted list \<Rightarrow> prom_metric list option" where
  "send_all lib [] = Some []"
| "send_all lib (x # xs) = (case MustNewConstMetric lib x of None \<Rightarrow> None | Some m \<Rightarrow> map_option (Cons m) (send_all lib xs))"

section \<open>Settings\<close>

definition defaultPort :: int where "defaultPort = 9090"
definition defaultBindAddress :: string where "defaultBindAddress = ''127.0.0.1''"
definition prom_port :: "ext_config \<Rightarrow> int" where "prom_port cfg = option_or as_int cfg ''port'' defaultPort"
definition prom_bind :: "ext_config \<Rightarrow> string" where "prom_bind cfg = option_or as_string cfg ''bind_address'' defaultBindAddress"

section \<open>The descriptors\<close>

definition peer_labels :: "string list" where "peer_labels = [''peer'', ''realm'', ''zone'', ''partner'']"

definition diameter_descs :: "(string \<times> string list) list" where
  "diameter_descs = [
     (''diameter_server_info'', [''identity'', ''realm'', ''version'']),
     (''diameter_server_uptime_seconds'', []),
     (''diameter_peers_total'', []),
     (''diameter_peer_up'', peer_labels),
     (''diameter_peer_messages_sent_total'', peer_labels),
     (''diameter_peer_messages_received_total'', peer_labels),
     (''diameter_peer_bytes_sent_total'', peer_labels),
     (''diameter_peer_bytes_received_total'', peer_labels),
     (''diameter_peer_connection_duration_seconds'', peer_labels),
     (''diameter_edge_zones'', [''role'']),
     (''diameter_edge_partners'', [''zone'']),
     (''diameter_edge_partner_peers_up'', [''partner'', ''zone'']),
     (''diameter_routing_requests_total'', []),
     (''diameter_routing_relayed_total'', []),
     (''diameter_routing_dispatched_total'', []),
     (''diameter_routing_errors_total'', []),
     (''diameter_routing_loops_detected_total'', []),
     (''diameter_routing_answers_relayed_total'', []),
     (''diameter_dictionary_vendors'', []),
     (''diameter_dictionary_applications'', []),
     (''diameter_dictionary_avps'', []),
     (''diameter_dictionary_commands'', []),
     (''diameter_extensions_total'', [''state''])]"

definition gauge :: "string \<Rightarrow> rat \<Rightarrow> string list \<Rightarrow> wanted" where
  "gauge name v vals = ((name, the (map_of diameter_descs name)), MetricGauge, v, vals)"

section \<open>The collectors\<close>

definition seconds_since :: "int \<Rightarrow> int \<Rightarrow> rat" where
  "seconds_since now t = of_int (now - t) / of_int conf_second"

definition counter_value :: "u64 \<Rightarrow> rat" where "counter_value n = of_nat (unat n)"

definition collectServer :: "int \<Rightarrow> ('c, 'p, 'x) server \<Rightarrow> wanted list" where
  "collectServer now s = [
     gauge ''diameter_server_info'' 1 [nIdentity (svConfig s), nRealm (svConfig s), ''godiam''],
     gauge ''diameter_server_uptime_seconds'' (seconds_since now (svStartTime s)) []]"

definition edgeLabels :: "registry \<Rightarrow> peer \<Rightarrow> string \<times> string" where
  "edgeLabels g p =
     (let zone = cZone (config p); partner = cPartner (config p) in
      if \<not> Configured g then (zone, partner)
      else (if zone = '''' then ZoneNameForPeer g (diameterID p) else zone,
            if partner = '''' then (case PartnerForPeer g (diameterID p) of Some pc \<Rightarrow> ptName pc | None \<Rightarrow> '''') else partner))"

definition listed_peers :: "('c, 'p, 'x) server \<Rightarrow> peer list" where
  "listed_peers s = List.map_filter (peer_of (svWorld s)) (Peers s)"

definition peer_metrics :: "int \<Rightarrow> registry \<Rightarrow> peer \<Rightarrow> wanted list" where
  "peer_metrics now g p =
     (let vals = [diameterID p, realm p, fst (edgeLabels g p), snd (edgeLabels g p)]; st = Peer_Stats p in
      [gauge ''diameter_peer_up'' (if IsOpen p then 1 else 0) vals,
       gauge ''diameter_peer_messages_sent_total'' (counter_value (MessagesSent st)) vals,
       gauge ''diameter_peer_messages_received_total'' (counter_value (MessagesReceived st)) vals,
       gauge ''diameter_peer_bytes_sent_total'' (counter_value (BytesSent st)) vals,
       gauge ''diameter_peer_bytes_received_total'' (counter_value (BytesReceived st)) vals] @
      (if ConnectedSince st = 0 then []
       else [gauge ''diameter_peer_connection_duration_seconds'' (seconds_since now (ConnectedSince st)) vals]))"

definition collectPeers :: "int \<Rightarrow> ('c, 'p, 'x) server \<Rightarrow> wanted list" where
  "collectPeers now s = gauge ''diameter_peers_total'' (of_nat (length (Peers s))) [] #
     concat (map (peer_metrics now (svReg s)) (listed_peers s))"

text \<open>The counts that a map from texts collects.\<close>

definition tally :: "string list \<Rightarrow> (string \<times> nat) list" where
  "tally xs = map (\<lambda>k. (k, count_list xs k)) (remdups xs)"

definition partner_peers_up :: "registry \<Rightarrow> peer list \<Rightarrow> string \<Rightarrow> nat" where
  "partner_peers_up g ps n = length (filter (\<lambda>p. IsOpen p \<and> map_option ptName (PartnerForPeer g (diameterID p)) = Some n) ps)"

text \<open>\<open>None\<close> where a listed zone or partner is missing: a nil dereference.\<close>

definition collectEdge :: "('c, 'p, 'x) server \<Rightarrow> wanted list option" where
  "collectEdge s =
     (let g = svReg s in
      if \<not> Configured g then Some []
      else if None \<in> set (Zones g) \<or> None \<in> set (Partners g) then None
      else Some (
        map (\<lambda>(role, n). gauge ''diameter_edge_zones'' (of_nat n) [role]) (tally (map (zRole \<circ> the) (Zones g))) @
        map (\<lambda>(zone, n). gauge ''diameter_edge_partners'' (of_nat n) [zone]) (tally (map (ptZone \<circ> the) (Partners g))) @
        map (\<lambda>q. gauge ''diameter_edge_partner_peers_up'' (of_nat (partner_peers_up g (listed_peers s) (ptName q))) [ptName q, ptZone q])
          (map the (Partners g))))"

definition collectRouting :: "('c, 'p, 'x) server \<Rightarrow> wanted list" where
  "collectRouting s = (let st = rstats (svRouter s) in [
     gauge ''diameter_routing_requests_total'' (counter_value (RequestsRouted st)) [],
     gauge ''diameter_routing_relayed_total'' (counter_value (RequestsRelayed st)) [],
     gauge ''diameter_routing_dispatched_total'' (counter_value (RequestsDispatched st)) [],
     gauge ''diameter_routing_errors_total'' (counter_value (RoutingErrors st)) [],
     gauge ''diameter_routing_loops_detected_total'' (counter_value (LoopDetections st)) [],
     gauge ''diameter_routing_answers_relayed_total'' (counter_value (AnswersRelayed st)) []])"

definition collectDictionary :: "dictionary \<Rightarrow> wanted list" where
  "collectDictionary d = (let st = dict_Stats d in [
     gauge ''diameter_dictionary_vendors'' (of_nat (Vendors st)) [],
     gauge ''diameter_dictionary_applications'' (of_nat (Applications st)) [],
     gauge ''diameter_dictionary_avps'' (of_nat (nAVPs st)) [],
     gauge ''diameter_dictionary_commands'' (of_nat (Commands st)) []])"

definition collectExtensions :: "('c, 'p, 'x) server \<Rightarrow> wanted list" where
  "collectExtensions s = (case svExtMgr s of None \<Rightarrow> []
     | Some m \<Rightarrow> map (\<lambda>(st, n). gauge ''diameter_extensions_total'' (of_nat n) [st]) (tally (map miState (Mgr_List m))))"

definition collect_wanted :: "int \<Rightarrow> dictionary \<Rightarrow> ('c, 'p, 'x) server \<Rightarrow> wanted list option" where
  "collect_wanted now d s = map_option (\<lambda>edge. collectServer now s @ collectPeers now s @ edge @ collectRouting s @
     collectDictionary d @ collectExtensions s) (collectEdge s)"

definition diameter_Collect :: "prom_lib \<Rightarrow> int \<Rightarrow> dictionary \<Rightarrow> ('c, 'p, 'x) server \<Rightarrow> prom_metric list option" where
  "diameter_Collect lib now d s = Option.bind (collect_wanted now d s) (send_all lib)"

section \<open>The metrics of the extensions\<close>

definition extension_metric :: "string \<Rightarrow> Metric \<Rightarrow> wanted" where
  "extension_metric ext m =
     (let names = sort (map fst (metLabels m)) in
      ((''diameter_ext_'' @ ext @ ''_'' @ metName m, names), metType m, metValue m, map (the \<circ> map_of (metLabels m)) names))"

definition extension_Collect :: "prom_lib \<Rightarrow> ('c, 'p, 'x) server \<Rightarrow> prom_metric list option" where
  "extension_Collect lib s = (case svExtMgr s of None \<Rightarrow> Some []
     | Some m \<Rightarrow> send_all lib (concat (map (\<lambda>(ext, ms). map (extension_metric ext) ms)
         (CollectExtensionMetrics (m, (svRouter s, svExtState s))))))"

section \<open>Every metric fits its descriptor\<close>

definition fitting :: "wanted \<Rightarrow> bool" where
  "fitting = (\<lambda>(desc, t, v, vals). desc \<in> set diameter_descs \<and> length vals = length (snd desc))"

lemma fits_gauge:
  "fitting (gauge name v vals) \<longleftrightarrow> (name, the (map_of diameter_descs name)) \<in> set diameter_descs \<and> length vals = length (the (map_of diameter_descs name))"
  by (simp add: fitting_def gauge_def)

lemmas collector_defs = collectServer_def collectPeers_def peer_metrics_def collectRouting_def collectDictionary_def collectExtensions_def

lemma collectors_fit:
  "list_all fitting (collectServer now s)" "list_all fitting (collectPeers now s)" "list_all fitting (collectRouting s)"
  "list_all fitting (collectDictionary d)" "list_all fitting (collectExtensions s)"
  by (auto simp: collector_defs fits_gauge diameter_descs_def peer_labels_def Let_def list_all_iff split: option.split)

lemma collectEdge_fits: "collectEdge s = Some ws \<Longrightarrow> list_all fitting ws"
  by (auto simp: collectEdge_def fits_gauge diameter_descs_def Let_def list_all_iff split: if_splits)

definition label_values :: "wanted list \<Rightarrow> string list" where
  "label_values ws = concat (map (\<lambda>(desc, t, v, vals). vals) ws)"

lemma send_all_fits:
  assumes "list_all fitting ws" and "list_all (\<lambda>(n, l). validDesc lib n l) diameter_descs"
  shows "send_all lib ws = (if list_all (validValue lib) (label_values ws)
    then Some (map (\<lambda>((name, labels), t, v, vals). \<lparr>pmName = name, pmType = t, pmValue = v, pmLabels = zip labels vals\<rparr>) ws) else None)"
  using assms(1)
proof (induction ws)
  case (Cons w ws)
  obtain name labels t v vals where w: "w = ((name, labels), t, v, vals)" by (metis prod.exhaust)
  have "validDesc lib name labels" "length vals = length labels"
    using Cons.prems assms(2) by (auto simp: w fitting_def list_all_iff)
  then show ?case using Cons by (auto simp: w MustNewConstMetric_def label_values_def)
qed (simp add: label_values_def)

text \<open>
  With a library that accepts the descriptors of the program, a scrape gives every metric, or panics because of a label value:
  an identity, a realm, or a name from the configuration.
\<close>

theorem scrape_gives_every_metric:
  assumes "list_all (\<lambda>(n, l). validDesc lib n l) diameter_descs" and "collect_wanted now d s = Some ws"
  shows "diameter_Collect lib now d s = (if list_all (validValue lib) (label_values ws)
    then Some (map (\<lambda>((name, labels), t, v, vals). \<lparr>pmName = name, pmType = t, pmValue = v, pmLabels = zip labels vals\<rparr>) ws) else None)"
proof -
  obtain edge where e: "collectEdge s = Some edge" and ws: "ws = collectServer now s @ collectPeers now s @ edge @ collectRouting s @
      collectDictionary d @ collectExtensions s"
    using assms(2) by (auto simp: collect_wanted_def)
  have "list_all fitting ws" by (simp add: ws collectors_fit collectEdge_fits [OF e])
  from send_all_fits [OF this assms(1)] show ?thesis by (simp add: diameter_Collect_def assms(2))
qed

text \<open>
  The identity of a peer is what it sent as its Origin-Host: a listed peer whose identity the library refuses makes every scrape
  panic.
\<close>

lemma Collect_accepts:
  assumes "diameter_Collect lib now d s = Some ms" and "collect_wanted now d s = Some ws" and "(desc, t, v, vals) \<in> set ws"
  shows "list_all (validValue lib) vals"
proof -
  have "\<exists>ms. send_all lib ws = Some ms" using assms(1,2) by (simp add: diameter_Collect_def)
  then show ?thesis using assms(3)
  proof (induction ws)
    case (Cons w ws)
    then show ?case by (auto simp: MustNewConstMetric_def split: option.splits prod.splits if_splits)
  qed simp
qed

theorem refused_identity_breaks_every_scrape:
  assumes "p \<in> set (listed_peers s)" and "\<not> validValue lib (diameterID p)"
  shows "diameter_Collect lib now d s = None"
proof (rule ccontr)
  assume "diameter_Collect lib now d s \<noteq> None"
  then obtain ms where ms: "diameter_Collect lib now d s = Some ms" by blast
  then obtain ws where ws: "collect_wanted now d s = Some ws" by (cases "collect_wanted now d s") (simp_all add: diameter_Collect_def)
  let ?g = "gauge ''diameter_peer_up'' (if IsOpen p then 1 else 0) [diameterID p, realm p, fst (edgeLabels (svReg s) p), snd (edgeLabels (svReg s) p)]"
  have "?g \<in> set (peer_metrics now (svReg s) p)" by (simp add: peer_metrics_def Let_def)
  then have "?g \<in> set (collectPeers now s)" using assms(1) by (auto simp: collectPeers_def)
  then have "?g \<in> set ws" using ws by (auto simp: collect_wanted_def)
  from Collect_accepts [OF ms ws this [unfolded gauge_def]] assms(2) show False by simp
qed

text \<open>An open peer counts for one partner at most, so the partners' counts add up to no more than the open peers.\<close>

theorem partner_counts_add_up:
  assumes "distinct ns"
  shows "(\<Sum>n \<leftarrow> ns. partner_peers_up g ps n) =
    length (filter (\<lambda>p. IsOpen p \<and> (\<exists>n \<in> set ns. map_option ptName (PartnerForPeer g (diameterID p)) = Some n)) ps)"
  using assms
proof (induction ns)
  case (Cons n ns)
  let ?q = "\<lambda>p. map_option ptName (PartnerForPeer g (diameterID p))"
  have "length (filter (\<lambda>p. IsOpen p \<and> (\<exists>k \<in> set (n # ns). ?q p = Some k)) ps) =
      length (filter (\<lambda>p. IsOpen p \<and> ?q p = Some n) ps) + length (filter (\<lambda>p. IsOpen p \<and> (\<exists>k \<in> set ns. ?q p = Some k)) ps)"
    using Cons.prems by (induction ps) auto
  then show ?case using Cons by (simp add: partner_peers_up_def)
qed simp

end
