(* ===== verification/Peer_Goroutines.thy ===== *)
theory Peer_Goroutines
  imports Peer_Properties
begin

text \<open>
  The goroutines around the state machine of a peer: \<open>initiateConnection\<close>, the read loops, \<open>writeLoop\<close>, the writer goroutine of
  \<open>writer.go\<close>, the timers, and \<open>runStateMachine\<close> itself. One step is what a goroutine does between two points at which it can
  wait; a run interleaves the steps of all of them in any order. What the network does is part of the step: the outcome of
  a dial, what a read returns, whether a write succeeds. A step that is not possible leaves the system as it is.
\<close>

section \<open>The system\<close>

datatype sm_state = SMNew | SMRunning | SMExited

record psys =
  sysPeer :: peer
  smState :: sm_state

definition on_peer :: "(peer \<Rightarrow> peer) \<Rightarrow> psys \<Rightarrow> psys" where
  "on_peer f s = s\<lparr>sysPeer := f (sysPeer s)\<rparr>"

definition set_goroutine :: "nat \<Rightarrow> goroutine \<Rightarrow> peer \<Rightarrow> peer" where
  "set_goroutine i g p = p\<lparr>goroutines := (goroutines p)[i := g]\<rparr>"

definition end_goroutine :: "nat \<Rightarrow> peer \<Rightarrow> peer" where
  "end_goroutine i p = p\<lparr>goroutines := take i (goroutines p) @ drop (Suc i) (goroutines p)\<rparr>"

definition go_on :: "nat \<Rightarrow> goroutine option \<Rightarrow> peer \<Rightarrow> peer" where
  "go_on i g p = (case g of Some g \<Rightarrow> set_goroutine i g p | None \<Rightarrow> end_goroutine i p)"

section \<open>The state machine\<close>

text \<open>\<open>defer p.cleanup()\<close>.\<close>

definition sm_exit :: "peer \<Rightarrow> psys \<Rightarrow> psys" where
  "sm_exit p s = s\<lparr>sysPeer := errorCleanup p, smState := SMExited\<rparr>"

text \<open>The two cases of the \<open>select\<close>: the context is done, or an event is handled.\<close>

definition sm_done :: "psys \<Rightarrow> psys" where
  "sm_done s = (let p = sysPeer s in if ctxDone p then sm_exit (setState StateZombie p) s else s)"

definition sm_handle :: "env \<Rightarrow> psys \<Rightarrow> psys" where
  "sm_handle e s = (case eventChan (sysPeer s) of
     [] \<Rightarrow> s
   | x # xs \<Rightarrow>
       (let p = snd (handleEvent e x ((sysPeer s)\<lparr>eventChan := xs\<rparr>)) in
        if state p = StateZombie then sm_exit p s else s\<lparr>sysPeer := p\<rparr>))"

section \<open>\<open>initiateConnection\<close>\<close>

datatype dial_outcome = DialFails | DialTLSFails | DialHandshakeFails | DialConnects conn

definition dials_tls :: "peer \<Rightarrow> bool" where
  "dials_tls p \<longleftrightarrow> UseTLS (config p) \<and> Network (config p) = ''tcp''"

definition conn_nack :: "peer_error \<Rightarrow> eventMessage" where
  "conn_nack err = (ev EventIRcvConnNack)\<lparr>eErr := Some err\<rparr>"

text \<open>One address is dialled at a step.\<close>

definition dial_step :: "env \<Rightarrow> nat \<Rightarrow> dial_outcome \<Rightarrow> string list \<Rightarrow> peer \<Rightarrow> peer" where
  "dial_step e i res as p = (case as of
     [] \<Rightarrow> set_goroutine i (Posting (conn_nack ConnectFailed) None) p
   | a # as \<Rightarrow> (case res of
       DialFails \<Rightarrow> set_goroutine i (Dialing as) p
     | DialTLSFails \<Rightarrow> if dials_tls p then set_goroutine i (Posting (conn_nack TLSConfigFailed) None) p else p
     | DialHandshakeFails \<Rightarrow> if dials_tls p then set_goroutine i (Dialing as) p else p
     | DialConnects c \<Rightarrow> set_goroutine i (Posting (ev EventIRcvConnAck) None)
         (p\<lparr>iConn := Some c, stats := (stats p)\<lparr>ConnectedSince := clock e\<rparr>\<rparr>)))"

section \<open>The read loops\<close>

text \<open>The head of the loop takes the connection the peer has at that moment.\<close>

definition read_head :: "nat \<Rightarrow> (conn \<Rightarrow> goroutine) \<Rightarrow> conn option \<Rightarrow> peer \<Rightarrow> peer" where
  "read_head i reading c p = (if ctxDone p then end_goroutine i p else go_on i (map_option reading c) p)"

definition count_received :: "env \<Rightarrow> message \<Rightarrow> peer \<Rightarrow> peer" where
  "count_received e m p = p\<lparr>stats := (stats p)\<lparr>MessagesReceived := MessagesReceived (stats p) + 1,
     BytesReceived := BytesReceived (stats p) + of_nat (Message_EncodedLen m), LastActivity := clock e\<rparr>\<rparr>"

definition read_step :: "env \<Rightarrow> nat \<Rightarrow> wire_error + message \<Rightarrow> Event \<Rightarrow> (message \<Rightarrow> Event) \<Rightarrow> goroutine \<Rightarrow> peer \<Rightarrow> peer" where
  "read_step e i res disc classify loop p = (case res of
     Inl err \<Rightarrow> set_goroutine i (Posting ((ev disc)\<lparr>eErr := Some (ReadFailed err)\<rparr>) None) p
   | Inr m \<Rightarrow> set_goroutine i (Posting ((ev (classify m))\<lparr>eMsg := Some m\<rparr>) (Some loop)) (count_received e m p))"

section \<open>\<open>writeLoop\<close>\<close>

definition writer_Start :: "highPerfWriter \<Rightarrow> highPerfWriter" where "writer_Start w = w\<lparr>wStarted := True\<rparr>"
definition writer_Stop :: "highPerfWriter \<Rightarrow> highPerfWriter" where "writer_Stop w = w\<lparr>wStarted := False\<rparr>"
definition SetConnection :: "conn \<Rightarrow> highPerfWriter \<Rightarrow> highPerfWriter" where "SetConnection c w = w\<lparr>wConn := Some c\<rparr>"

definition write_start :: "nat \<Rightarrow> peer \<Rightarrow> peer" where
  "write_start i p =
     (let w = (case getActiveConn p of Some c \<Rightarrow> SetConnection c (writer p) | None \<Rightarrow> writer p)
      in set_goroutine i (WriteLoop (connDone p)) (p\<lparr>writer := writer_Start w\<rparr>))"

text \<open>The channel with number \<open>n\<close> is closed.\<close>

definition conn_done :: "nat \<Rightarrow> peer \<Rightarrow> bool" where
  "conn_done n p \<longleftrightarrow> n < connDone p \<or> n = connDone p \<and> connDoneClosed p"

definition disc_event :: "peer \<Rightarrow> peer_error \<Rightarrow> eventMessage" where
  "disc_event p err = (ev (if iConn p \<noteq> None then EventIPeerDisc else EventRPeerDisc))\<lparr>eErr := Some err\<rparr>"

definition write_next :: "env \<Rightarrow> nat \<Rightarrow> peer \<Rightarrow> peer" where
  "write_next e i p = (case sendChan p of
     [] \<Rightarrow> p
   | m # ms \<Rightarrow> (case sendMessageOnActiveConn e m (p\<lparr>sendChan := ms\<rparr>) of
       (Inl err, p) \<Rightarrow> set_goroutine i (Posting (disc_event p err) (Some WriteLoopEnd)) p
     | (Inr _, p) \<Rightarrow> p))"

definition write_end :: "nat \<Rightarrow> peer \<Rightarrow> peer" where
  "write_end i p = end_goroutine i (p\<lparr>writer := writer_Stop (writer p)\<rparr>)"

section \<open>The writer goroutine (\<open>writerLoop\<close>, \<open>flushBatch\<close>)\<close>

text \<open>A \<open>select\<close> with a default: the event is dropped when the channel is full.\<close>

definition post_or_drop :: "eventMessage \<Rightarrow> peer \<Rightarrow> peer" where
  "post_or_drop x p = (if length (eventChan p) < eventChanCap then p\<lparr>eventChan := eventChan p @ [x]\<rparr> else p)"

definition encoded_batch :: "message list \<Rightarrow> byte list" where
  "encoded_batch ms = concat (map (\<lambda>m. case Encode m of Inl _ \<Rightarrow> [] | Inr data \<Rightarrow> data) ms)"

definition flushBatch :: "env \<Rightarrow> message list \<Rightarrow> peer \<Rightarrow> peer" where
  "flushBatch e ms p =
     (if ms = [] then p
      else case (case wConn (writer p) of Some c \<Rightarrow> Some c | None \<Rightarrow> getActiveConn p) of
        None \<Rightarrow> p
      | Some c \<Rightarrow> (let data = encoded_batch ms in
          if data = [] then p
          else if c \<in> set (closedConns p) \<or> \<not> connWrite e c data then post_or_drop (disc_event p (WriteFailed c)) p
          else p\<lparr>written := written p @ [(c, data)],
                 writer := (writer p)\<lparr>wMessagesSent := wMessagesSent (writer p) + of_nat (length ms),
                   wBytesSent := wBytesSent (writer p) + of_nat (length data)\<rparr>\<rparr>))"

text \<open>One round: the signal is consumed, a batch is taken and flushed. No entry of the ring is nil.\<close>

definition writer_round :: "env \<Rightarrow> peer \<Rightarrow> peer" where
  "writer_round e p =
     (if \<not> wStarted (writer p) then p
      else case Wait (wQueue (writer p)) of
        None \<Rightarrow> p
      | Some q \<Rightarrow> (case PopBatch writerBatchSize q of
          None \<Rightarrow> p
        | Some (ms, q) \<Rightarrow> flushBatch e (List.map_filter id ms) (p\<lparr>writer := (writer p)\<lparr>wQueue := q\<rparr>\<rparr>)))"

section \<open>Timers and posts\<close>

definition timeout_fires :: "peer \<Rightarrow> peer" where
  "timeout_fires p = (if timeoutTimer p = Running
     then spawn (PostingUnlessDone (ev EventTimeout)) (p\<lparr>timeoutTimer := Fired\<rparr>) else p)"

definition watchdog_fires :: "peer \<Rightarrow> peer" where
  "watchdog_fires p = (if watchdogTimer p = Running
     then spawn (Posting (ev EventTimeout) None) (p\<lparr>watchdogTimer := Fired\<rparr>) else p)"

text \<open>A post waits while the channel is full.\<close>

definition post_step :: "nat \<Rightarrow> eventMessage \<Rightarrow> goroutine option \<Rightarrow> peer \<Rightarrow> peer" where
  "post_step i x g p =
     (if length (eventChan p) < eventChanCap then go_on i g (p\<lparr>eventChan := eventChan p @ [x]\<rparr>) else p)"

section \<open>One step\<close>

text \<open>
  What the world contributes to a step of a goroutine: the outcome of a dial, the result of a read, and which ready case a
  \<open>select\<close> takes (\<open>True\<close>: the one that ends it).
\<close>

record outcome =
  ocDial :: dial_outcome
  ocRead :: "wire_error + message"
  ocLeave :: bool

definition goroutine_step :: "env \<Rightarrow> nat \<Rightarrow> outcome \<Rightarrow> peer \<Rightarrow> peer" where
  "goroutine_step e i oc p =
     (if length (goroutines p) \<le> i then p
      else case goroutines p ! i of
        Dialing as \<Rightarrow> dial_step e i (ocDial oc) as p
      | ReadLoopI \<Rightarrow> read_head i ReadingI (iConn p) p
      | ReadLoopR \<Rightarrow> read_head i ReadingR (rConn p) p
      | ReadingI c \<Rightarrow> read_step e i (ocRead oc) EventIPeerDisc classifyMessageI ReadLoopI p
      | ReadingR c \<Rightarrow> read_step e i (ocRead oc) EventRPeerDisc classifyMessageR ReadLoopR p
      | WriteLoopStart \<Rightarrow> write_start i p
      | WriteLoop n \<Rightarrow> if ocLeave oc then (if ctxDone p \<or> conn_done n p then set_goroutine i WriteLoopEnd p else p) else write_next e i p
      | WriteLoopEnd \<Rightarrow> write_end i p
      | ReconnectTimer \<Rightarrow> set_goroutine i (PostingUnlessDone (ev EventStart)) p
      | Posting x g \<Rightarrow> post_step i x g p
      | PostingUnlessDone x \<Rightarrow> if ocLeave oc then (if ctxDone p then end_goroutine i p else p) else post_step i x None p)"

datatype act =
    Begin eventMessage
  | StateMachine env bool
  | Goroutine env nat outcome
  | WriterRound env
  | TimeoutFires
  | WatchdogFires
  | CallSend message
  | CallDisconnect
  | CallInject conn message
  | CallStop

text \<open>\<open>Start\<close> and \<open>StartWithConnection\<close> begin with the event they post; a peer is started once.\<close>

definition start_event :: "eventMessage \<Rightarrow> bool" where
  "start_event x \<longleftrightarrow> eErr x = None \<and> (event x = EventStart \<and> eConn x = None \<and> eMsg x = None \<or>
     event x = EventRConnCER \<and> eConn x \<noteq> None \<and> eMsg x \<noteq> None)"

definition sys_step :: "psys \<Rightarrow> act \<Rightarrow> psys" where
  "sys_step s a = (case a of
     Begin x \<Rightarrow> if smState s = SMNew \<and> start_event x then (on_peer (spawn (Posting x None)) s)\<lparr>smState := SMRunning\<rparr> else s
   | StateMachine e leave \<Rightarrow> if smState s \<noteq> SMRunning \<or> smBlocked (sysPeer s) then s else if leave then sm_done s else sm_handle e s
   | Goroutine e i oc \<Rightarrow> on_peer (goroutine_step e i oc) s
   | WriterRound e \<Rightarrow> on_peer (writer_round e) s
   | TimeoutFires \<Rightarrow> on_peer timeout_fires s
   | WatchdogFires \<Rightarrow> on_peer watchdog_fires s
   | CallSend m \<Rightarrow> on_peer (\<lambda>p. snd (Send m p)) s
   | CallDisconnect \<Rightarrow> on_peer Disconnect s
   | CallInject c m \<Rightarrow> on_peer (InjectRConnCER c m) s
   | CallStop \<Rightarrow> on_peer (\<lambda>p. p\<lparr>ctxDone := True\<rparr>) s)"

definition sys_new :: "Config \<Rightarrow> psys" where "sys_new c = \<lparr>sysPeer = New c, smState = SMNew\<rparr>"

definition sys_run :: "Config \<Rightarrow> act list \<Rightarrow> psys" where "sys_run c as = foldl sys_step (sys_new c) as"

end
