(* ===== verification/Peer_Goroutines_Properties.thy ===== *)
theory Peer_Goroutines_Properties
  imports Peer_Goroutines
begin

text \<open>
  What holds of a peer whatever the interleaving of its goroutines: the state machine never meets a nil pointer, its
  timers and the pending CER fit its state, and the events in flight carry what their handlers read. And two runs in which
  a connection is lost: the dial of an attempt that was given up ends while the next attempt is under way, or after the
  peer was stopped.
\<close>

section \<open>What the events in flight carry\<close>

fun goroutine_ok :: "goroutine \<Rightarrow> bool" where
  "goroutine_ok (Posting x None) = carries x"
| "goroutine_ok (Posting x (Some g)) = (carries x \<and> goroutine_ok g)"
| "goroutine_ok (PostingUnlessDone x) = carries x"
| "goroutine_ok _ = True"

lemma goroutine_ok_Posting: "goroutine_ok (Posting x g) \<longleftrightarrow> carries x \<and> (\<forall>g'. g = Some g' \<longrightarrow> goroutine_ok g')"
  by (cases g) simp_all

section \<open>What a handler adds\<close>

fun plain_goroutine :: "goroutine \<Rightarrow> bool" where
  "plain_goroutine (Posting x g) = False"
| "plain_goroutine (PostingUnlessDone x) = False"
| "plain_goroutine _ = True"

lemma plain_ok: "plain_goroutine g \<Longrightarrow> goroutine_ok g"
  by (cases g) simp_all

definition follows :: "peer \<Rightarrow> peer \<Rightarrow> bool" where
  "follows p q \<longleftrightarrow> (\<exists>gs. goroutines q = goroutines p @ gs \<and> list_all plain_goroutine gs) \<and>
     (eventChan q = eventChan p \<or> length (eventChan p) < eventChanCap \<and> eventChan q = eventChan p @ [ev EventWinElection])"

lemma goroutine_simps [simp]:
  "goroutines (closeIConn p) = goroutines p" "goroutines (closeRConn p) = goroutines p" "goroutines (resetConnDone p) = goroutines p"
  "goroutines (startTimeout p) = goroutines p" "goroutines (stopTimeout p) = goroutines p" "goroutines (startWatchdog p) = goroutines p"
  "goroutines (stopWatchdog p) = goroutines p" "goroutines (resetWatchdog p) = goroutines p" "goroutines (close_conn c p) = goroutines p"
  "eventChan (resetConnDone p) = eventChan p" "eventChan (startTimeout p) = eventChan p" "eventChan (stopTimeout p) = eventChan p"
  "eventChan (startWatchdog p) = eventChan p" "eventChan (stopWatchdog p) = eventChan p" "eventChan (resetWatchdog p) = eventChan p"
  "eventChan (close_conn c p) = eventChan p" "goroutines (performElection e p) = goroutines p"
  by (simp_all add: op_defs performElection_def post_self_def split: option.split)

lemma performElection_chan:
  "eventChan (performElection e p) = eventChan p \<or>
   length (eventChan p) < eventChanCap \<and> eventChan (performElection e p) = eventChan p @ [ev EventWinElection]"
  by (simp add: performElection_def post_self_def)

lemmas follows_simps = follows_def branch_defs frames split_beta Let_def

lemma follows_Closed: "follows p (snd (handleStateClosed e x p))"
  by (cases "event x") (simp_all add: handleStateClosed_def follows_simps split: sum.split)

lemma follows_WaitConnAck: "follows p (snd (handleStateWaitConnAck e x p))"
  by (cases "event x") (simp_all add: handleStateWaitConnAck_def follows_simps split: sum.split option.split)

lemma follows_WaitICEA: "follows p (snd (handleStateWaitICEA e x p))"
  by (cases "event x") (auto simp: handleStateWaitICEA_def follows_simps performElection_def post_self_def split: sum.split option.split)

lemma follows_WaitConnAckElect: "follows p (snd (handleStateWaitConnAckElect e x p))"
  by (cases "event x") (auto simp: handleStateWaitConnAckElect_def follows_simps performElection_def post_self_def split: sum.split option.split)

lemma follows_WaitReturns: "follows p (snd (handleStateWaitReturns e x p))"
  by (cases "event x") (simp_all add: handleStateWaitReturns_def follows_simps split: sum.split option.split)

lemma follows_ROpen: "follows p (snd (handleStateROpen e x p))"
  by (cases "event x") (simp_all add: handleStateROpen_def follows_simps split: sum.split option.split)

lemma follows_IOpen: "follows p (snd (handleStateIOpen e x p))"
  by (cases "event x") (simp_all add: handleStateIOpen_def follows_simps split: sum.split option.split)

lemma follows_Suspect: "follows p (snd (handleStateSuspect e x p))"
  by (simp add: handleStateSuspect_def follows_simps split: option.split)

lemma follows_Closing: "follows p (snd (handleStateClosing e x p))"
  by (simp add: handleStateClosing_def follows_simps)

lemma follows_handleEvent: "follows p (snd (handleEvent e x p))"
  by (cases "state p") (simp_all add: handleEvent_def follows_Closed follows_WaitConnAck follows_WaitICEA follows_WaitConnAckElect
      follows_WaitReturns follows_ROpen follows_IOpen follows_Suspect follows_Closing, simp add: follows_def)

section \<open>The invariant of the system\<close>

definition peer_ok :: "peer \<Rightarrow> bool" where
  "peer_ok p \<longleftrightarrow> core_inv p \<and> list_all carries (eventChan p) \<and> list_all goroutine_ok (goroutines p) \<and>
     length (eventChan p) \<le> eventChanCap"

definition sys_inv :: "psys \<Rightarrow> bool" where "sys_inv s \<longleftrightarrow> peer_ok (sysPeer s)"

text \<open>What a goroutine other than the state machine may do to its peer.\<close>

lemma peer_ok_same:
  assumes "peer_ok p" and "state q = state p" and "rConn q = rConn p" and "pendingCER q = pendingCER p"
    and "timeoutTimer q = NoTimer \<longleftrightarrow> timeoutTimer p = NoTimer" and "watchdogTimer q = NoTimer \<longleftrightarrow> watchdogTimer p = NoTimer"
    and "list_all carries (eventChan q)" and "list_all goroutine_ok (goroutines q)" and "length (eventChan q) \<le> eventChanCap"
  shows "peer_ok q"
  using assms by (simp add: peer_ok_def core_inv_def)

lemma list_all_update: "list_all P xs \<Longrightarrow> P x \<Longrightarrow> list_all P (xs[i := x])"
  by (auto simp: list_all_iff dest: set_update_subset_insert [THEN subsetD])

lemma list_all_cut: "list_all P xs \<Longrightarrow> list_all P (take i xs @ drop (Suc i) xs)"
  by (auto simp: list_all_iff dest: in_set_takeD in_set_dropD)

lemma peer_ok_set: "peer_ok p \<Longrightarrow> goroutine_ok g \<Longrightarrow> peer_ok (set_goroutine i g p)"
  by (rule peer_ok_same) (simp_all add: peer_ok_def set_goroutine_def list_all_update)

lemma peer_ok_end: "peer_ok p \<Longrightarrow> peer_ok (end_goroutine i p)"
  using list_all_cut [of goroutine_ok "goroutines p" i] by (simp add: peer_ok_def end_goroutine_def core_inv_def)

lemma peer_ok_go_on: "peer_ok p \<Longrightarrow> (\<And>g'. g = Some g' \<Longrightarrow> goroutine_ok g') \<Longrightarrow> peer_ok (go_on i g p)"
  by (cases g) (simp_all add: go_on_def peer_ok_set peer_ok_end)

lemma peer_ok_spawn: "peer_ok p \<Longrightarrow> goroutine_ok g \<Longrightarrow> peer_ok (spawn g p)"
  by (rule peer_ok_same) (simp_all add: peer_ok_def)

lemma peer_ok_post: "peer_ok p \<Longrightarrow> carries x \<Longrightarrow> length (eventChan p) < eventChanCap \<Longrightarrow> peer_ok (p\<lparr>eventChan := eventChan p @ [x]\<rparr>)"
  by (rule peer_ok_same) (simp_all add: peer_ok_def)

lemma peer_ok_control: "peer_ok p \<Longrightarrow> control q = control p \<Longrightarrow> peer_ok q"
  by (rule peer_ok_same, assumption) (simp_all add: peer_ok_def control_def)

text \<open>Fields the invariant does not speak of.\<close>

lemma peer_ok_fields [simp]:
  "peer_ok (p\<lparr>sendChan := ms\<rparr>) = peer_ok p" "peer_ok (p\<lparr>stats := st\<rparr>) = peer_ok p" "peer_ok (p\<lparr>writer := w\<rparr>) = peer_ok p"
  "peer_ok (p\<lparr>iConn := c\<rparr>) = peer_ok p" "peer_ok (p\<lparr>written := ws\<rparr>) = peer_ok p" "peer_ok (p\<lparr>ctxDone := d\<rparr>) = peer_ok p"
  "peer_ok (p\<lparr>pending := t\<rparr>) = peer_ok p"
  by (simp_all add: peer_ok_def core_inv_def)

lemma carries_events [simp]:
  "carries (ev EventStart)" "carries (ev EventTimeout)" "carries (ev EventIRcvConnAck)" "carries (ev EventStop)" "carries (ev EventWinElection)"
  "carries (conn_nack ConnectFailed)" "carries (conn_nack TLSConfigFailed)"
  "carries ((ev EventIPeerDisc)\<lparr>eErr := Some (ReadFailed err)\<rparr>)" "carries ((ev EventRPeerDisc)\<lparr>eErr := Some (ReadFailed err)\<rparr>)"
  "carries ((ev EventRConnCER)\<lparr>eConn := Some c, eMsg := Some m\<rparr>)" "carries ((ev x)\<lparr>eMsg := Some m\<rparr>) = (x \<noteq> EventRConnCER)"
  "carries (disc_event p perr) = (perr \<noteq> NilPointer)"
  by (simp_all add: carries_def ev_def conn_nack_def disc_event_def message_event_def)

lemma classify_not_CER [simp]: "classifyMessageI m \<noteq> EventRConnCER" "classifyMessageR m \<noteq> EventRConnCER"
  by (simp_all add: classifyMessageI_def classifyMessageR_def)


lemma dial_ok: "peer_ok p \<Longrightarrow> peer_ok (dial_step e i oc as p)"
  by (auto simp: dial_step_def peer_ok_set split: list.split dial_outcome.split intro!: peer_ok_set)

lemma read_ok:
  assumes "peer_ok p" and "goroutine_ok loop" and "\<And>m. classify m \<noteq> EventRConnCER" and "disc \<in> {EventIPeerDisc, EventRPeerDisc}"
  shows "peer_ok (read_step e i res disc classify loop p)"
  using assms by (auto simp: read_step_def count_received_def goroutine_ok_Posting split: sum.split intro!: peer_ok_set)

lemma active_send_ok: "sendMessageOnActiveConn e m p = (r, q) \<Longrightarrow> peer_ok p \<Longrightarrow> peer_ok q \<and> r \<noteq> Inl NilPointer"
proof -
  assume s: "sendMessageOnActiveConn e m p = (r, q)" and ok: "peer_ok p"
  have "control (snd (sendMessageOnActiveConn e m p)) = control p"
    by (simp add: sendMessageOnActiveConn_def control_sendMessageOnConn split: option.split)
  then show "peer_ok q \<and> r \<noteq> Inl NilPointer" using send_no_nil(2) [of e m p] peer_ok_control [OF ok, of q] s by simp
qed

lemma write_next_ok:
  assumes "peer_ok p"
  shows "peer_ok (write_next e i p)"
proof (cases "sendChan p")
  case (Cons m ms)
  obtain r q where s: "sendMessageOnActiveConn e m (p\<lparr>sendChan := ms\<rparr>) = (r, q)"
    by (cases "sendMessageOnActiveConn e m (p\<lparr>sendChan := ms\<rparr>)")
  then have "peer_ok q" "r \<noteq> Inl NilPointer" using active_send_ok assms by (metis peer_ok_fields(1))+
  then show ?thesis using Cons s by (cases r) (auto simp: write_next_def intro!: peer_ok_set)
qed (simp add: write_next_def assms)

lemma post_or_drop_ok: "peer_ok p \<Longrightarrow> carries x \<Longrightarrow> peer_ok (post_or_drop x p)"
  by (simp add: post_or_drop_def peer_ok_post)

lemma post_step_ok: "peer_ok p \<Longrightarrow> carries x \<Longrightarrow> (\<And>g'. g = Some g' \<Longrightarrow> goroutine_ok g') \<Longrightarrow> peer_ok (post_step i x g p)"
  by (simp add: post_step_def peer_ok_post peer_ok_go_on)

lemma writer_round_ok: "peer_ok p \<Longrightarrow> peer_ok (writer_round e p)"
  by (simp add: writer_round_def flushBatch_def Let_def post_or_drop_ok split: option.split)

lemma goroutine_step_ok:
  assumes "peer_ok p"
  shows "peer_ok (goroutine_step e i oc p)"
proof (cases "i < length (goroutines p)")
  case True
  then have ok: "goroutine_ok (goroutines p ! i)" using assms by (simp add: peer_ok_def list_all_length)
  show ?thesis
    using True ok assms
    by (cases "goroutines p ! i") (auto simp: goroutine_step_def dial_ok read_ok read_head_def peer_ok_end peer_ok_set
        write_start_def Let_def write_next_ok write_end_def goroutine_ok_Posting intro!: post_step_ok peer_ok_go_on)
qed (simp add: goroutine_step_def assms)

lemma timers_ok: "peer_ok p \<Longrightarrow> peer_ok (timeout_fires p)" "peer_ok p \<Longrightarrow> peer_ok (watchdog_fires p)"
  by (auto simp: timeout_fires_def watchdog_fires_def peer_ok_def core_inv_def)

lemma Send_ok: "peer_ok p \<Longrightarrow> peer_ok (snd (Send m p))"
  by (simp add: Send_def trackPending_def split: prod.split)

lemma cleanup_ok: "peer_ok p \<Longrightarrow> state p = StateZombie \<Longrightarrow> peer_ok (errorCleanup p)"
  by (simp add: peer_ok_def core_simps)

lemma sm_handle_ok:
  assumes "sys_inv s"
  shows "sys_inv (sm_handle e s)"
proof (cases "eventChan (sysPeer s)")
  case (Cons x xs)
  let ?p = "(sysPeer s)\<lparr>eventChan := xs\<rparr>"
  have p: "core_inv ?p" "carries x" "list_all carries xs" "list_all goroutine_ok (goroutines ?p)" "length xs < eventChanCap"
    using assms Cons by (simp_all add: sys_inv_def peer_ok_def core_inv_def)
  have q: "peer_ok (snd (handleEvent e x ?p))"
    using follows_handleEvent [of ?p e x] core_handleEvent [OF p(1,2)] p(3-5)
    by (auto simp: follows_def peer_ok_def list_all_iff intro: plain_ok)
  then show ?thesis using cleanup_ok [OF q] Cons by (simp add: sm_handle_def sm_exit_def sys_inv_def Let_def)
qed (simp add: sm_handle_def assms)

lemma sm_done_ok: "sys_inv s \<Longrightarrow> sys_inv (sm_done s)"
  by (simp add: sm_done_def sm_exit_def sys_inv_def peer_ok_def core_simps Let_def)

lemma sys_step_inv: "sys_inv s \<Longrightarrow> sys_inv (sys_step s a)"
proof (cases a)
  case (Begin x)
  then show "sys_inv s \<Longrightarrow> ?thesis" by (auto simp: sys_step_def sys_inv_def on_peer_def start_event_def carries_def message_event_def intro!: peer_ok_spawn)
next
  case (StateMachine e leave)
  then show "sys_inv s \<Longrightarrow> ?thesis" by (simp add: sys_step_def sm_handle_ok sm_done_ok)
qed (simp_all add: sys_step_def sys_inv_def on_peer_def goroutine_step_ok writer_round_ok timers_ok Send_ok Disconnect_def
    InjectRConnCER_def peer_ok_spawn)

interpretation peer_system: machine sys_step sys_inv
  by unfold_locales (rule sys_step_inv)

lemma sys_inv_run: "sys_inv (sys_run c as)"
  unfolding sys_run_def by (rule peer_system.run_inv) (simp add: sys_new_def sys_inv_def peer_ok_def core_inv_New, simp add: New_def)

text \<open>
  C39: whatever the interleaving of the state machine, the dialler, the read and write loops, the writer, the timers and the
  callers of a peer, and whatever the network does, the next event is handled without a nil dereference, the state has the
  timers it needs and no others, and the channel of events is never over its capacity.
\<close>

theorem peer_goroutines_are_safe:
  "(case eventChan (sysPeer (sys_run c as)) of [] \<Rightarrow> True
    | x # xs \<Rightarrow> fst (handleEvent e x ((sysPeer (sys_run c as))\<lparr>eventChan := xs\<rparr>)) \<noteq> Inl NilPointer) \<and>
   core_inv (sysPeer (sys_run c as)) \<and> length (eventChan (sysPeer (sys_run c as))) \<le> eventChanCap"
proof -
  let ?p = "sysPeer (sys_run c as)"
  have ok: "peer_ok ?p" using sys_inv_run [of c as] by (simp add: sys_inv_def)
  have "fst (handleEvent e x (?p\<lparr>eventChan := xs\<rparr>)) \<noteq> Inl NilPointer" if "eventChan ?p = x # xs" for x xs
    using ok that by (intro core_no_nil) (simp_all add: peer_ok_def core_inv_def)
  then show ?thesis using ok by (simp add: peer_ok_def split: list.split)
qed

section \<open>Connections that are lost\<close>

text \<open>After the state machine has ended nothing closes a connection any more.\<close>

lemma closed_goroutine_step: "closedConns (goroutine_step e i oc p) = closedConns p"
proof -
  have send: "sendMessageOnActiveConn e m q = (r, q') \<Longrightarrow> closedConns q' = closedConns q" for m q r q'
    using control_sendMessageOnConn [of e _ m q] by (auto simp: sendMessageOnActiveConn_def control_def split: option.splits) (metis snd_conv)
  have w: "closedConns (write_next e i p) = closedConns p"
    by (auto simp: write_next_def set_goroutine_def dest: send split: list.split prod.split sum.split)
  show ?thesis
    by (simp add: goroutine_step_def dial_step_def read_head_def read_step_def count_received_def write_start_def w write_end_def post_step_def
        go_on_def set_goroutine_def end_goroutine_def Let_def split: goroutine.split list.split dial_outcome.split option.split sum.split)
qed

lemma closed_writer_round: "closedConns (writer_round e p) = closedConns p"
  by (simp add: writer_round_def flushBatch_def post_or_drop_def Let_def split: option.split prod.split)

lemma exited_step:
  assumes "smState s = SMExited"
  shows "closedConns (sysPeer (sys_step s a)) = closedConns (sysPeer s) \<and> smState (sys_step s a) = SMExited"
proof (cases a)
  case (CallSend m)
  then show ?thesis using assms by (simp add: sys_step_def on_peer_def Send_def trackPending_def Let_def split: prod.split)
qed (simp_all add: sys_step_def on_peer_def assms closed_goroutine_step closed_writer_round timeout_fires_def watchdog_fires_def
    Disconnect_def InjectRConnCER_def spawn_def)

lemma exited_run: "smState s = SMExited \<Longrightarrow> closedConns (sysPeer (foldl sys_step s as)) = closedConns (sysPeer s)"
  using exited_step by (induction as arbitrary: s) simp_all

text \<open>
  The dialler does not look at the context: a connection that comes up after the state machine has ended becomes the peer's
  connection, and whatever happens afterwards nothing closes it.
\<close>

theorem dial_after_stop_leaks:
  assumes "smState s = SMExited" and "i < length (goroutines (sysPeer s))" and "goroutines (sysPeer s) ! i = Dialing (a # as)"
    and "c \<notin> set (closedConns (sysPeer s))" and "s' = sys_step s (Goroutine e i (oc\<lparr>ocDial := DialConnects c\<rparr>))"
  shows "iConn (sysPeer s') = Some c \<and> c \<notin> set (closedConns (sysPeer (foldl sys_step s' es)))"
proof -
  have "smState s' = SMExited" "closedConns (sysPeer s') = closedConns (sysPeer s)" using exited_step [OF assms(1)] assms(5) by simp_all
  then have "closedConns (sysPeer (foldl sys_step s' es)) = closedConns (sysPeer s)" using exited_run by metis
  moreover have "iConn (sysPeer s') = Some c"
    using assms(2,3) by (simp add: assms(5) sys_step_def on_peer_def goroutine_step_def dial_step_def set_goroutine_def)
  ultimately show ?thesis using assms(4) by simp
qed

text \<open>
  The timeout of the attempt runs while \<open>initiateConnection\<close> goes through the addresses, each with the same timeout of its
  own, so with a second address the attempt can be given up and started again while the first dialler is still at work.
\<close>

definition idle_outcome :: outcome where
  "idle_outcome = \<lparr>ocDial = DialFails, ocRead = Inl (MessageTooShort 0), ocLeave = False\<rparr>"

definition restarted_attempt :: "env \<Rightarrow> act list" where
  "restarted_attempt e = [Begin (ev EventStart), Goroutine e 0 idle_outcome, StateMachine e False, TimeoutFires, Goroutine e 1 idle_outcome,
     StateMachine e False, Goroutine e 1 idle_outcome, Goroutine e 1 idle_outcome, StateMachine e False]"

definition now_at :: "psys \<Rightarrow> State \<Rightarrow> goroutine list \<Rightarrow> eventMessage list \<Rightarrow> Config \<Rightarrow> bool" where
  "now_at s st gs xs c \<longleftrightarrow> smState s = SMRunning \<and> state (sysPeer s) = st \<and> goroutines (sysPeer s) = gs \<and> eventChan (sysPeer s) = xs \<and>
     config (sysPeer s) = c \<and> \<not> smBlocked (sysPeer s)"

lemma at_start:
  "now_at (sys_run c [Begin (ev EventStart), Goroutine e 0 idle_outcome]) StateClosed [] [ev EventStart] (default_config c)"
  by (simp add: now_at_def sys_run_def sys_step_def start_event_def on_peer_def sys_new_def New_def spawn_def goroutine_step_def
      post_step_def go_on_def end_goroutine_def idle_outcome_def) (simp add: ev_def)

lemma at_timeout:
  "now_at s StateWaitConnAck [g] [] c \<Longrightarrow> timeoutTimer (sysPeer s) = Running \<Longrightarrow>
   now_at (sys_step s TimeoutFires) StateWaitConnAck [g, PostingUnlessDone (ev EventTimeout)] [] c"
  by (simp add: now_at_def sys_step_def on_peer_def timeout_fires_def spawn_def)

lemma at_post: "now_at s st [g, PostingUnlessDone x] [] c \<Longrightarrow> now_at (sys_step s (Goroutine e 1 idle_outcome)) st [g] [x] c"
  by (simp add: now_at_def sys_step_def on_peer_def goroutine_step_def post_step_def go_on_def end_goroutine_def idle_outcome_def)

lemma at_give_up:
  "now_at s StateWaitConnAck [g] [ev EventTimeout] c \<Longrightarrow> Persistent c \<Longrightarrow>
   now_at (sys_step s (StateMachine e False)) StateClosed [g, ReconnectTimer] [] c"
  by (simp add: now_at_def sys_step_def sm_handle_def handleEvent_def handleStateWaitConnAck_def Let_def)
    (simp add: ev_def spawn_def fail_closed_def scheduleReconnect_def)

lemma at_reconnect:
  "now_at s st [g, ReconnectTimer] [] c \<Longrightarrow> now_at (sys_step s (Goroutine e 1 idle_outcome)) st [g, PostingUnlessDone (ev EventStart)] [] c"
  by (simp add: now_at_def sys_step_def on_peer_def goroutine_step_def set_goroutine_def)

lemma at_attempt:
  "now_at s StateClosed gs [ev EventStart] c \<Longrightarrow>
   now_at (sys_step s (StateMachine e False)) StateWaitConnAck (gs @ [Dialing (Addresses c)]) [] c \<and>
   timeoutTimer (sysPeer (sys_step s (StateMachine e False))) = Running"
  by (simp add: now_at_def sys_step_def sm_handle_def handleEvent_def handleStateClosed_def Let_def)
    (simp add: ev_def op_defs Let_def)

theorem two_diallers_at_work:
  assumes "Persistent c"
  shows "state (sysPeer (sys_run c (restarted_attempt e))) = StateWaitConnAck \<and>
    goroutines (sysPeer (sys_run c (restarted_attempt e))) = [Dialing (Addresses c), Dialing (Addresses c)]"
proof -
  let ?c = "default_config c" and ?g = "Dialing (Addresses c)"
  have d: "Persistent ?c" "Addresses ?c = Addresses c" using assms by (simp_all add: default_config_def Let_def)
  let ?s2 = "sys_run c [Begin (ev EventStart), Goroutine e 0 idle_outcome]"
  let ?s3 = "sys_step ?s2 (StateMachine e False)"
  have 3: "now_at ?s3 StateWaitConnAck [?g] [] ?c" "timeoutTimer (sysPeer ?s3) = Running" using at_attempt [OF at_start [of c e], of e] by (simp_all add: d)
  note 5 = at_post [OF at_timeout [OF 3], of e]
  note 7 = at_reconnect [OF at_give_up [OF 5 d(1), of e], of e]
  note 9 = at_attempt [OF at_post [OF 7, of e], of e, THEN conjunct1]
  then show ?thesis by (simp add: restarted_attempt_def sys_run_def now_at_def d)
qed

text \<open>
  When both connect, the second connection takes the place of the first, on which the CER was sent. The CEA that arrives on the
  first then opens the peer with the second, on which no capabilities were exchanged; the first is never closed.
\<close>

theorem late_dial_replaces_connection:
  assumes "smState s = SMRunning" and "sysPeer s = p" and "state p = StateWaitICEA" and "iConn p = Some c1" and "\<not> smBlocked p"
    and "goroutines p = [Dialing (a # as), ReadingI c1]" and "eventChan p = []"
    and "IsRequest cea = False" and "mCommandCode cea = CmdCodeCapabilitiesExchange" and "GetResultCode cea = Some ResultSuccess"
    and "GetOriginHost cea = Some h" and "GetOriginRealm cea = Some r"
    and "s' = foldl sys_step s [Goroutine e 0 (oc\<lparr>ocDial := DialConnects c2\<rparr>), Goroutine e 1 (oc\<lparr>ocRead := Inr cea\<rparr>),
      Goroutine e 1 oc, StateMachine e False]"
  shows "state (sysPeer s') = StateIOpen \<and> iConn (sysPeer s') = Some c2 \<and> closedConns (sysPeer s') = closedConns p \<and>
    written (sysPeer s') = written p \<and> diameterID (sysPeer s') = h"
proof -
  have s: "s = \<lparr>sysPeer = p, smState = SMRunning\<rparr>" using assms(1,2) by (cases s) simp
  show ?thesis
    unfolding assms(13) s
    by (simp add: sys_step_def on_peer_def goroutine_step_def dial_step_def read_step_def count_received_def classifyMessageI_def assms(3-12)
        set_goroutine_def post_step_def go_on_def sm_handle_def handleEvent_def handleStateWaitICEA_def processCEA_def enter_IOpen_def ev_def op_defs Let_def)
qed

section \<open>The writer's batches\<close>

text \<open>A batch goes out in one write, in the order of the queue; a message that cannot be encoded is left out but counted as sent.\<close>

theorem batch_is_written_in_order:
  assumes "ms \<noteq> []" and "wConn (writer p) = Some c" and "c \<notin> set (closedConns p)" and "\<And>d. connWrite e c d"
    and "encoded_batch ms \<noteq> []" and "q = flushBatch e ms p"
  shows "written q = written p @ [(c, concat (map (case_sum (\<lambda>_. []) (\<lambda>d. d)) (map Encode ms)))] \<and>
    wMessagesSent (writer q) = wMessagesSent (writer p) + of_nat (length ms)"
proof -
  have e: "encoded_batch ms = concat (map (case_sum (\<lambda>_. []) (\<lambda>d. d)) (map Encode ms))" by (simp add: encoded_batch_def comp_def)
  have "flushBatch e ms p = p\<lparr>written := written p @ [(c, encoded_batch ms)],
      writer := (writer p)\<lparr>wMessagesSent := wMessagesSent (writer p) + of_nat (length ms),
        wBytesSent := wBytesSent (writer p) + of_nat (length (encoded_batch ms))\<rparr>\<rparr>"
    using assms(1-5) by (simp only: flushBatch_def Let_def option.case if_False simp_thms)
  then have "written q = written p @ [(c, encoded_batch ms)]"
    and "wMessagesSent (writer q) = wMessagesSent (writer p) + of_nat (length ms)"
    by (simp_all add: assms(6))
  with e show ?thesis by (simp only: simp_thms)
qed

text \<open>Messages that are taken from the queue when there is no connection are gone, though \<open>Send\<close> accepted them.\<close>

theorem batch_without_connection_is_lost:
  assumes "wConn (writer p) = None" and "iConn p = None" and "rConn p = None"
  shows "flushBatch e ms p = p"
  using assms by (simp add: flushBatch_def getActiveConn_def)

end
