(* ===== verification/Spec2Isabelle.thy ===== *)
theory Spec2Isabelle
  imports Router_Properties Peer_Queue_Steps Session_Properties Edge_Properties
    Session_Bind_Properties Rate_Limit_Properties Screening_Properties Dea_Route Topo_Hide_Properties Server_Properties Dict_Properties
    Rt_Scores_Properties Rt_Headers_Properties
    App_Radgw_Properties App_Answers_Properties Rt_Rewrite_Properties Rt_Busypeers
    Dbg_Latency Dbg_Dumps Admin_Api_Properties Prom_Metrics Peer_Goroutines_Properties
begin

text \<open>
  godiam: a Diameter node (RFC 6733) in Go, with an edge mode for roaming partners.

  \<^bold>\<open>The program.\<close>  Bytes from a connection are framed and decoded into messages (\<open>pkg/proto\<close>). Each neighbour has a peer
  object (\<open>pkg/core/peer\<close>) whose goroutine runs the state machine of RFC 6733 5.6 over a channel of events and whose
  writer goroutine drains a lock-free queue. An open peer hands every application message to the router
  (\<open>pkg/core/routing\<close>), which delivers it to a local handler, relays it to the best of the candidate peers, or answers with
  an error; it remembers relayed requests by their hop-by-hop identifier so that the answer finds its way back. Extensions
  (\<open>pkg/extensions\<close>) hook into the router with incoming, outgoing and dispatch handlers, and the extension manager
  (\<open>pkg/core/extension\<close>) enables, disables and reconfigures them at run time. The edge registry (\<open>pkg/core/edge\<close>) says which
  partner and zone a peer, realm or address belongs to, from the validated configuration (\<open>pkg/core/config\<close>); the server
  (\<open>pkg/core/server\<close>) opens the listeners of the zones, admits inbound peers and keeps the table of peers.

  \<^bold>\<open>Shared ground.\<close>  \<open>Prelude\<close> names the Go types, the result of fallible code (\<open>error + 'a\<close>), checked slices whose violation is
  the value \<open>Panic\<close>, and the locales most components are proved against: a machine with an invariant (\<open>machine\<close>, and
  \<open>guarded_machine\<close> for runs whose events satisfy a condition) and a table of outstanding transactions. Machine integers are words of their
  width; identities are char lists, whose case is folded as ASCII only (Go folds Unicode letters too); a Go map is a function to options, or an
  association list where the code ranges over it; a shared object is an entry of a heap. The effect of a lock is that the operation it protects is one
  step. Errors and early returns are branches.

  \<^bold>\<open>Protocol layer.\<close>
  \<^item> \<open>Wire_Integers\<close>, \<open>Diam_Types\<close>, \<open>Diam_Message\<close>: \<open>types.go\<close>, \<open>avp_codes.go\<close>, \<open>message.go\<close>; big-endian integers, AVPs with
    their typed accessors, messages and answers.
  \<^item> \<open>Diam_Encode\<close>, \<open>Diam_Decode\<close>, \<open>Diam_Stream\<close>: \<open>encode.go\<close>, \<open>decode.go\<close>. Buffers from the pools keep their stale bytes in the
    model. The lemmas: the encoder writes the wire format whatever the buffer held, decoding inverts it and accepts
    only what it inverts, no input makes the decoders panic, framing leaves the rest of the stream. Depth of grouped AVPs is
    the measure of the recursion; no fuel.
  \<^item> \<open>Dictionary\<close>, \<open>Dict_Codes\<close>, \<open>Dict_Tables\<close>, \<open>Dict_Load\<close>: \<open>pkg/proto/dictionary\<close> with all its tables, and the order in which
    \<open>cmd/diameterd/main.go\<close> loads them. \<open>Dict_Properties\<close>: by-code and by-name indexes agree; the daemon's dictionary loads,
    and which later definitions are shadowed.
  \<^item> \<open>Radius\<close>, \<open>Radius_Properties\<close>: \<open>radius.go\<close>; the parser and serializer are inverse on packets whose attributes fit their
    length byte. The locale \<open>self_delimiting\<close> of \<open>Diam_Decode\<close> gives the loop of both parsers. MD5 is a parameter.

  \<^bold>\<open>Peers.\<close>
  \<^item> \<open>Peer_Types\<close>, \<open>Peer_Messages\<close>, \<open>Peer_Machine\<close>: \<open>peer.go\<close>, \<open>cer_cea.go\<close>, \<open>watchdog.go\<close>, \<open>state_machine.go\<close>. A peer is a record
    of its connections, timers, pending requests and counters; each handler returns the new peer and the effects (frames
    written, connections closed, callbacks). A random number or clock reading is an argument.
  \<^item> \<open>Peer_Invariant\<close>: which connections, pending CER and timers each state has, over every run of events that carry what is posted
    with them; what speaks of the initiator connection needs it to be there when its Conn-Ack is handled, which a late one is not.
    \<open>Peer_Properties\<close>: the transition table, no nil dereference, opening only after a capabilities exchange, the
    watchdog, the election, delivery of answers, and the corners in which a connection is left behind.
  \<^item> \<open>Peer_Queue\<close>, \<open>Peer_Queue_Steps\<close>: the ring of \<open>writer.go\<close>, first as functions and then as single atomic operations of any
    number of producers and one consumer; every interleaving delivers each producer's messages in order and once.
  \<^item> \<open>Peer_Goroutines\<close>: the goroutines of a peer (\<open>Run\<close>, the dialler, both read loops, the writer and its batches, timer
    callbacks) with their program counters, one step of any of them at a time; sends to the event channel wait while it is
    full. \<open>Peer_Goroutines_Properties\<close>: what every interleaving keeps (\<open>peer_goroutines_are_safe\<close>), and runs that leave a
    connection or a dialler behind.

  \<^bold>\<open>Routing and sessions.\<close>
  \<^item> \<open>Router\<close>, \<open>Router_Relay\<close>, \<open>Router_Properties\<close>: \<open>router.go\<close>. Registries sorted by priority, candidates, scores, the relay loop
    with its retries, loop detection, transactions and their expiry. The relay loop runs on fuel, one unit per attempt;
    \<open>relay_loop_returns\<close> shows that the number of candidates is enough. Handlers of extensions are arguments.
  \<^item> \<open>Session\<close>, \<open>Session_Properties\<close>: sessions as objects in a heap, both indexes of the manager, callbacks and timers.

  \<^bold>\<open>Configuration, edge, server.\<close>
  \<^item> \<open>Conf_Types\<close>, \<open>Conf_Validate\<close>: the configuration records, defaults and every check of \<open>validate\<close> and \<open>validateEdge\<close>,
    with the syntax of FQDNs and IP addresses.
  \<^item> \<open>Edge_Registry\<close>, \<open>Edge_Properties\<close>: rebuilding the tables from a configuration and every lookup; the most specific realm
    pattern wins; peers on external zones of a validated configuration have a partner.
  \<^item> \<open>Ext_Manager\<close>, \<open>Ext_Manager_Properties\<close>: registry and life cycle. The lock is given up around \<open>Init\<close>, \<open>Stop\<close> and
    \<open>Reconfigure\<close>, so each operation is several steps and runs interleave them.
  \<^item> \<open>Server_Net\<close>, \<open>Server\<close>, \<open>Server_Properties\<close>: listeners and TLS settings, client certificates, admission, the peer table,
    callbacks, start and stop. Opening sockets and parsing certificates are arguments.

  \<^bold>\<open>Extensions.\<close>
  \<^item> \<open>Ext_Common\<close>, \<open>Edge_Common\<close>: reading options, durations (fuel: the length of the text), normal forms of identities, refusals.
  \<^item> \<open>Session_Bind\<close>, \<open>Rate_Limit\<close>, \<open>Screening\<close>, \<open>Dea_Route\<close>, \<open>Topo_Store\<close>, \<open>Topo_Hide\<close> with their \<open>_Properties\<close>: bindings of sessions
    to peers, token buckets (exact rationals for floats), the screening catalogue, partner routing, pseudonyms with
    their caps and LRU lists. Random numbers and the order of ranges over maps are arguments.
  \<^item> \<open>Rt_Scores\<close> (\<open>rt_load_balance\<close>, \<open>rt_randomize\<close>, \<open>rt_ereg\<close>, \<open>rt_redirect\<close>), \<open>Rt_Headers\<close> (\<open>rt_deny_by_size\<close>, \<open>rt_ignore_dh\<close>,
    \<open>rt_hide_oh\<close>), \<open>Rt_Rewrite\<close>, \<open>Rt_Busypeers\<close>: handlers that move scores, change headers, rewrite AVPs and retry. The locale
    \<open>score_adjuster\<close> is what the router relies on. Regular expressions are an argument.
  \<^item> \<open>App_Answers\<close> (\<open>app_acct\<close>, \<open>app_cc\<close>, \<open>app_cx\<close>, \<open>app_diameap\<close>, \<open>app_gx\<close>, \<open>app_s6a\<close>, \<open>app_sip\<close>, \<open>test_app\<close>, \<open>app_redirect\<close>): the locale
    \<open>answering_app\<close> with an interpretation for each; \<open>App_Radgw\<close>: the gateway from RADIUS and its table of requests.
  \<^item> \<open>Admin_Api\<close>, \<open>Admin_Api_Properties\<close>: the routes of \<open>admin_api\<close> and the status of every answer, over the extension manager; a
    JSON body is the value it decodes to. The locale \<open>managed_operation\<close> is what the routes need of the manager.
  \<^item> \<open>Dbg_Latency\<close> (\<open>dbg_msg_timings\<close>, the statistics of \<open>fifo_stats\<close>): what is remembered of a request until its answer comes;
    \<open>Dbg_Dumps\<close>: what \<open>dbg_msg_dumps\<close> prints and changes; \<open>Prom_Metrics\<close>: what each collector reports, with the checks
    the client library documents as an argument.

  \<^bold>\<open>Arguments that stand for other code.\<close>  The regular expressions of \<open>regexp\<close>, MD5, the random source, the environment of
  \<open>dea_topohide\<close>, certificate chains, sockets, the metrics library and the values of a YAML document (\<open>Ext_Common\<close>) are arguments of the definitions;
  theorems that need a law of one name it as a hypothesis and have a witness with a concrete function.

  \<^bold>\<open>Not modelled.\<close>
  \<^item> Logging, health texts, the HTTP servers and the encoding of JSON, and the monitoring page \<open>dbg_monitor\<close>: output only.
  \<^item> Reading and writing YAML files, the example configuration, flags and signals of \<open>diameterd\<close>, the tools \<open>diameterc\<close> and \<open>diameterbench\<close>,
    \<open>examples\<close>: input and output around the operations modelled here.
  \<^item> \<open>pkg/core/transport\<close>: dialling and listening, direct calls of \<open>net\<close> and of an SCTP library.
  \<^item> Float32 and Float64 AVPs (\<open>math.Float32bits\<close>), and the textual dumps of a message.
  \<^item> The sweepers and the accept loops, which only repeat a modelled step: the theorems over runs let it happen at any time.
  \<^item> Loading the certificates for outbound TLS from files.
\<close>

end
